(* ===== verification/Zeus_Prelude.thy ===== *)
theory Zeus_Prelude
  imports Complex_Main "HOL-Library.AList" "HOL-Library.Sublist" "HOL-Library.Char_ord"
    "HOL-Library.List_Lexorder" "HOL-Library.Code_Target_Numeral"
begin

text \<open>
  Shared ground of the development: Go strings (byte strings) with the operations of package
  strings that the client uses, Go maps as association lists, 64-bit integer wrap-around, and
  the theorem collections the components extend.

  A Go string is a list of bytes (\<^typ>\<open>string\<close>). A Go map is an association list with
  distinct keys (\<open>amap_ok\<close>); the order of the list is the order in which one particular
  \<open>range\<close> loop visits the map, which Go leaves open, so a lemma about every association list
  is a lemma about every iteration order.
\<close>

named_theorems go_str \<open>facts about Go string operations\<close>
named_theorems amap_simps \<open>facts about Go maps\<close>
named_theorems preserve \<open>operations that keep a component invariant\<close>

section \<open>Strings\<close>

subsection \<open>Searching\<close>

text \<open>strings.Index: the offset of the first occurrence.\<close>

fun str_index :: "string \<Rightarrow> string \<Rightarrow> nat option" where
  "str_index [] sub = (if sub = [] then Some 0 else None)"
| "str_index (c # cs) sub =
     (if prefix sub (c # cs) then Some 0 else map_option Suc (str_index cs sub))"

text \<open>strings.Contains, strings.HasPrefix, strings.Cut.\<close>

definition str_contains :: "string \<Rightarrow> string \<Rightarrow> bool" where
  "str_contains s sub \<longleftrightarrow> str_index s sub \<noteq> None"

definition has_prefix :: "string \<Rightarrow> string \<Rightarrow> bool" where
  "has_prefix s p \<longleftrightarrow> prefix p s"

definition has_suffix :: "string \<Rightarrow> string \<Rightarrow> bool" where
  "has_suffix s p \<longleftrightarrow> suffix p s"

definition str_cut :: "string \<Rightarrow> string \<Rightarrow> string \<times> string \<times> bool" where
  "str_cut s sep = (case str_index s sep of
     None \<Rightarrow> (s, [], False)
   | Some i \<Rightarrow> (take i s, drop (i + length sep) s, True))"

lemma str_index_prefix: "prefix sub s \<Longrightarrow> str_index s sub = Some 0"
  by (cases s) auto

lemma str_index_split:
  "str_index s sub = Some i \<Longrightarrow>
     s = take i s @ sub @ drop (i + length sub) s \<and> i + length sub \<le> length s"
proof (induction s arbitrary: i)
  case Nil
  then show ?case by (auto split: if_splits)
next
  case (Cons c cs)
  show ?case
  proof (cases "prefix sub (c # cs)")
    case True
    moreover from this have "length sub \<le> length (c # cs)" by (rule prefix_length_le)
    ultimately show ?thesis using Cons.prems by (auto simp: prefix_def)
  next
    case False
    with Cons.prems obtain j where "str_index cs sub = Some j" and "i = Suc j"
      by (auto split: if_splits)
    with Cons.IH [of j] show ?thesis by auto
  qed
qed

lemma str_index_append_None:
  "str_index (a @ sub @ b) sub \<noteq> None"
proof (induction a)
  case Nil
  then show ?case by (simp add: str_index_prefix)
qed auto

lemma str_contains_iff: "str_contains s sub \<longleftrightarrow> (\<exists>a b. s = a @ sub @ b)"
proof
  assume "str_contains s sub"
  then show "\<exists>a b. s = a @ sub @ b"
    using str_index_split unfolding str_contains_def by blast
next
  assume "\<exists>a b. s = a @ sub @ b"
  then show "str_contains s sub"
    unfolding str_contains_def using str_index_append_None by blast
qed

lemma str_contains_append [go_str]:
  "str_contains a sub \<Longrightarrow> str_contains (a @ b) sub"
  "str_contains b sub \<Longrightarrow> str_contains (a @ b) sub"
  unfolding str_contains_iff by (metis append.assoc)+

lemma str_contains_self [simp]: "str_contains s s"
  unfolding str_contains_iff by (metis append.left_neutral append.right_neutral)

text \<open>The first occurrence of a needle that does not occur before the appended copy.\<close>

lemma str_index_append_skip:
  assumes "str_index (a @ sub @ b) sub = Some i"
  shows "i \<le> length a"
  using assms
proof (induction a arbitrary: i)
  case Nil
  then show ?case by (simp add: str_index_prefix)
next
  case (Cons c cs)
  then show ?case by (auto split: if_splits)
qed

subsection \<open>White space\<close>

text \<open>
  unicode.IsSpace over UTF-8: the encodings of the white-space runes. strings.TrimSpace drops
  runes of this set at both ends; a byte string begins (ends) with such a rune exactly when it
  has one of these sequences as a prefix (suffix), since the decoder accepts no other encoding.
\<close>

definition space_seqs :: "string list" where
  "space_seqs =
     [[CHR 0x20], [CHR 0x0A], [CHR 0x09], [CHR 0x0D], [CHR 0x0B], [CHR 0x0C],
      [CHR 0xC2, CHR 0x85], [CHR 0xC2, CHR 0xA0], [CHR 0xE1, CHR 0x9A, CHR 0x80]] @
     map (\<lambda>c. [CHR 0xE2, CHR 0x80, c])
       [CHR 0x80, CHR 0x81, CHR 0x82, CHR 0x83, CHR 0x84, CHR 0x85, CHR 0x86, CHR 0x87,
        CHR 0x88, CHR 0x89, CHR 0x8A, CHR 0xA8, CHR 0xA9, CHR 0xAF] @
     [[CHR 0xE2, CHR 0x81, CHR 0x9F], [CHR 0xE3, CHR 0x80, CHR 0x80]]"

fun strip_seqs :: "nat \<Rightarrow> string list \<Rightarrow> string \<Rightarrow> string" where
  "strip_seqs 0 ps s = s"
| "strip_seqs (Suc n) ps s = (case find (\<lambda>p. prefix p s) ps of
     None \<Rightarrow> s
   | Some p \<Rightarrow> strip_seqs n ps (drop (length p) s))"

definition trim_left_space :: "string \<Rightarrow> string" where
  "trim_left_space s = strip_seqs (length s) space_seqs s"

definition trim_right_space :: "string \<Rightarrow> string" where
  "trim_right_space s = rev (strip_seqs (length s) (map rev space_seqs) (rev s))"

definition trim_space :: "string \<Rightarrow> string" where
  "trim_space s = trim_right_space (trim_left_space s)"

text \<open>The fuel \<open>length s\<close> is enough: no sequence is empty, so each round shortens the string.\<close>

lemma strip_seqs_done:
  assumes "[] \<notin> set ps" and "length s \<le> n"
  shows "find (\<lambda>p. prefix p (strip_seqs n ps s)) ps = None"
  using assms
proof (induction n arbitrary: s)
  case 0
  then show ?case by (auto simp: find_None_iff)
next
  case (Suc n)
  show ?case
  proof (cases "find (\<lambda>p. prefix p s) ps")
    case None
    then show ?thesis by simp
  next
    case (Some p)
    then have "p \<in> set ps" and "prefix p s" by (auto simp: find_Some_iff)
    with Suc.prems have "p \<noteq> []" by auto
    with Suc.prems have "length (drop (length p) s) \<le> n"
      by (cases p) auto
    with Suc.IH Suc.prems(1) Some show ?thesis by simp
  qed
qed

lemma strip_seqs_id: "find (\<lambda>p. prefix p s) ps = None \<Longrightarrow> strip_seqs n ps s = s"
  by (cases n) auto

lemma strip_seqs_suffix: "suffix (strip_seqs n ps s) s"
proof (induction n arbitrary: s)
  case (Suc n)
  then show ?case
    by (auto split: option.splits intro: suffix_order.trans suffix_drop)
qed simp

lemma Nil_notin_space_seqs [simp]: "[] \<notin> set space_seqs" "[] \<notin> set (map rev space_seqs)"
  by (auto simp: space_seqs_def)

lemma trim_left_suffix: "suffix (trim_left_space s) s"
  by (simp add: trim_left_space_def strip_seqs_suffix)

lemma trim_right_prefix: "prefix (trim_right_space s) s"
  unfolding trim_right_space_def
  by (metis rev_rev_ident strip_seqs_suffix suffix_to_prefix)

lemma trim_right_idem [simp]: "trim_right_space (trim_right_space s) = trim_right_space s"
proof -
  have "find (\<lambda>p. prefix p (strip_seqs (length s) (map rev space_seqs) (rev s)))
      (map rev space_seqs) = None"
    by (rule strip_seqs_done) auto
  then show ?thesis by (simp add: trim_right_space_def strip_seqs_id)
qed

lemma trim_right_stable_left:
  assumes "find (\<lambda>p. prefix p s) space_seqs = None"
  shows "find (\<lambda>p. prefix p (trim_right_space s)) space_seqs = None"
  using assms trim_right_prefix [of s] prefix_order.trans
  by (fastforce simp: find_None_iff)

lemma trim_space_idem [simp]: "trim_space (trim_space s) = trim_space s"
proof -
  have "find (\<lambda>p. prefix p (trim_left_space s)) space_seqs = None"
    unfolding trim_left_space_def by (rule strip_seqs_done) auto
  from trim_right_stable_left [OF this]
  have "trim_left_space (trim_space s) = trim_space s"
    by (simp add: trim_space_def trim_left_space_def [of "trim_right_space _"] strip_seqs_id)
  then show ?thesis by (simp add: trim_space_def)
qed

lemma trim_space_Nil [simp]: "trim_space [] = []"
  by (simp add: trim_space_def trim_left_space_def trim_right_space_def)

text \<open>strings.TrimRight with a cut set of ASCII bytes.\<close>

definition trim_right_set :: "char set \<Rightarrow> string \<Rightarrow> string" where
  "trim_right_set cs s = rev (dropWhile (\<lambda>c. c \<in> cs) (rev s))"

lemma trim_right_set_idem [simp]:
  "trim_right_set cs (trim_right_set cs s) = trim_right_set cs s"
  by (simp add: trim_right_set_def dropWhile_idem)

lemma trim_right_set_prefix: "prefix (trim_right_set cs s) s"
  unfolding trim_right_set_def
  by (metis rev_rev_ident suffix_dropWhile suffix_to_prefix)

lemma trim_right_set_cutoff:
  "set b \<subseteq> cs \<Longrightarrow> trim_right_set cs (a @ b) = trim_right_set cs a"
  by (auto simp: trim_right_set_def dropWhile_append subset_iff)

lemma trim_right_set_id_iff:
  "trim_right_set cs s = s \<longleftrightarrow> s = [] \<or> last s \<notin> cs"
proof (cases s rule: rev_cases)
  case Nil
  then show ?thesis by (simp add: trim_right_set_def)
next
  case (snoc ys y)
  have "length (rev (dropWhile (\<lambda>c. c \<in> cs) (rev ys))) \<le> length ys"
    using length_dropWhile_le [of _ "rev ys"] by simp
  then show ?thesis using snoc
    by (auto simp: trim_right_set_def)
       (metis Suc_n_not_le_n length_append_singleton length_rev)
qed

subsection \<open>Case folding\<close>

text \<open>
  strings.ToLower on valid UTF-8: ASCII letters are lowered, and a rune whose lower case has an
  encoding of another length (\<open>lower_table\<close>: U+0130, U+023A, U+023E, U+1E9E, U+2126, U+212A, ...)
  is replaced by it. A non-ASCII rune whose lower case has the same length stays, so the result has
  the length and the ASCII bytes of Go's, which is what the tests and offsets of the client read.
\<close>

definition lower_byte :: "char \<Rightarrow> char" where
  "lower_byte c = (if 65 \<le> (of_char c :: nat) \<and> (of_char c :: nat) \<le> 90
     then char_of (of_char c + 32 :: nat) else c)"

definition lower_table :: "(string \<times> string) list" where
  "lower_table =
     [([CHR 0xC4, CHR 0xB0], [CHR 0x69]),
      ([CHR 0xC8, CHR 0xBA], [CHR 0xE2, CHR 0xB1, CHR 0xA5]),
      ([CHR 0xC8, CHR 0xBE], [CHR 0xE2, CHR 0xB1, CHR 0xA6]),
      ([CHR 0xE1, CHR 0xBA, CHR 0x9E], [CHR 0xC3, CHR 0x9F]),
      ([CHR 0xE2, CHR 0x84, CHR 0xA6], [CHR 0xCF, CHR 0x89]),
      ([CHR 0xE2, CHR 0x84, CHR 0xAA], [CHR 0x6B]),
      ([CHR 0xE2, CHR 0x84, CHR 0xAB], [CHR 0xC3, CHR 0xA5]),
      ([CHR 0xE2, CHR 0xB1, CHR 0xA2], [CHR 0xC9, CHR 0xAB]),
      ([CHR 0xE2, CHR 0xB1, CHR 0xA4], [CHR 0xC9, CHR 0xBD]),
      ([CHR 0xE2, CHR 0xB1, CHR 0xAD], [CHR 0xC9, CHR 0x91]),
      ([CHR 0xE2, CHR 0xB1, CHR 0xAE], [CHR 0xC9, CHR 0xB1]),
      ([CHR 0xE2, CHR 0xB1, CHR 0xAF], [CHR 0xC9, CHR 0x90]),
      ([CHR 0xE2, CHR 0xB1, CHR 0xB0], [CHR 0xC9, CHR 0x92]),
      ([CHR 0xE2, CHR 0xB1, CHR 0xBE], [CHR 0xC8, CHR 0xBF]),
      ([CHR 0xE2, CHR 0xB1, CHR 0xBF], [CHR 0xC9, CHR 0x80]),
      ([CHR 0xEA, CHR 0x9E, CHR 0x8D], [CHR 0xC9, CHR 0xA5]),
      ([CHR 0xEA, CHR 0x9E, CHR 0xAA], [CHR 0xC9, CHR 0xA6]),
      ([CHR 0xEA, CHR 0x9E, CHR 0xAB], [CHR 0xC9, CHR 0x9C]),
      ([CHR 0xEA, CHR 0x9E, CHR 0xAC], [CHR 0xC9, CHR 0xA1]),
      ([CHR 0xEA, CHR 0x9E, CHR 0xAD], [CHR 0xC9, CHR 0xAC]),
      ([CHR 0xEA, CHR 0x9E, CHR 0xAE], [CHR 0xC9, CHR 0xAA]),
      ([CHR 0xEA, CHR 0x9E, CHR 0xB0], [CHR 0xCA, CHR 0x9E]),
      ([CHR 0xEA, CHR 0x9E, CHR 0xB1], [CHR 0xCA, CHR 0x87]),
      ([CHR 0xEA, CHR 0x9E, CHR 0xB2], [CHR 0xCA, CHR 0x9D]),
      ([CHR 0xEA, CHR 0x9F, CHR 0x85], [CHR 0xCA, CHR 0x82])]"

fun to_lower :: "string \<Rightarrow> string" where
  "to_lower [] = []"
| "to_lower (c # cs) =
     (if (of_char c :: nat) < 128 then lower_byte c # to_lower cs
      else (case find (\<lambda>(p, r). prefix p (c # cs)) lower_table of
        None \<Rightarrow> c # to_lower cs
      | Some (p, r) \<Rightarrow> r @ to_lower (drop (length p - 1) cs)))"

text \<open>strings.EqualFold against an ASCII name: ASCII folding, with the long s and the Kelvin sign.\<close>

fun fold_norm :: "string \<Rightarrow> string" where
  "fold_norm [] = []"
| "fold_norm (c # cs) =
     (if prefix [CHR 0xC5, CHR 0xBF] (c # cs) then CHR ''s'' # fold_norm (drop 1 cs)
      else if prefix [CHR 0xE2, CHR 0x84, CHR 0xAA] (c # cs) then CHR ''k'' # fold_norm (drop 2 cs)
      else lower_byte c # fold_norm cs)"

definition equal_fold :: "string \<Rightarrow> string \<Rightarrow> bool" where
  "equal_fold a b \<longleftrightarrow> fold_norm a = fold_norm b"

text \<open>strings.ReplaceAll with a non-empty old text, and strings.Trim with a cut set.\<close>

fun str_replace_fuel :: "nat \<Rightarrow> string \<Rightarrow> string \<Rightarrow> string \<Rightarrow> string" where
  "str_replace_fuel 0 old new s = s"
| "str_replace_fuel (Suc n) old new s = (case str_index s old of
     None \<Rightarrow> s
   | Some i \<Rightarrow> take i s @ new @ str_replace_fuel n old new (drop (i + length old) s))"

definition str_replace :: "string \<Rightarrow> string \<Rightarrow> string \<Rightarrow> string" where
  "str_replace old new s = str_replace_fuel (length s) old new s"

definition trim_set :: "char set \<Rightarrow> string \<Rightarrow> string" where
  "trim_set cs s = trim_right_set cs (dropWhile (\<lambda>c. c \<in> cs) s)"

lemma str_replace_none: "\<not> str_contains s old \<Longrightarrow> str_replace old new s = s"
  by (cases "length s") (auto simp: str_replace_def str_contains_def)

subsection \<open>Splitting, joining and decimal numerals\<close>

text \<open>strings.Split on a one-byte separator; strings.Join.\<close>

fun split_on :: "char \<Rightarrow> string \<Rightarrow> string list" where
  "split_on sep [] = [[]]"
| "split_on sep (c # cs) =
     (if c = sep then [] # split_on sep cs
      else (case split_on sep cs of [] \<Rightarrow> [[c]] | p # ps \<Rightarrow> (c # p) # ps))"

fun join_with :: "string \<Rightarrow> string list \<Rightarrow> string" where
  "join_with sep [] = []"
| "join_with sep [p] = p"
| "join_with sep (p # q # ps) = p @ sep @ join_with sep (q # ps)"

lemma split_on_not_Nil [simp]: "split_on sep s \<noteq> []"
  by (induction s) (auto split: list.splits)

lemma join_split_on: "join_with [sep] (split_on sep s) = s"
proof (induction s)
  case (Cons c cs)
  obtain p ps where "split_on sep cs = p # ps"
    by (cases "split_on sep cs") auto
  with Cons show ?case by (cases ps) auto
qed simp

text \<open>strconv.Itoa on a natural number, and the digits back.\<close>

definition digit_char :: "nat \<Rightarrow> char" where
  "digit_char n = char_of (48 + n)"

fun nat_digits :: "nat \<Rightarrow> string" where
  "nat_digits n = (if n < 10 then [digit_char n]
     else nat_digits (n div 10) @ [digit_char (n mod 10)])"

declare nat_digits.simps [simp del]

definition int_digits :: "int \<Rightarrow> string" where
  "int_digits n = (if n < 0 then CHR ''-'' # nat_digits (nat (- n)) else nat_digits (nat n))"

text \<open>\<open>%q\<close> (strconv.Quote); a non-ASCII rune is taken to be printable.\<close>

definition hex_char :: "nat \<Rightarrow> char" where
  "hex_char n = (if n < 10 then char_of (48 + n) else char_of (87 + n))"

definition quote_byte :: "char \<Rightarrow> string" where
  "quote_byte c = (let n = of_char c :: nat in
     if n = 34 \<or> n = 92 then [CHR 0x5C, c]
     else if n = 7 then [CHR 0x5C, CHR ''a'']
     else if n = 8 then [CHR 0x5C, CHR ''b'']
     else if n = 9 then [CHR 0x5C, CHR ''t'']
     else if n = 10 then [CHR 0x5C, CHR ''n'']
     else if n = 11 then [CHR 0x5C, CHR ''v'']
     else if n = 12 then [CHR 0x5C, CHR ''f'']
     else if n = 13 then [CHR 0x5C, CHR ''r'']
     else if n < 32 \<or> n = 127 then [CHR 0x5C, CHR ''x'', hex_char (n div 16), hex_char (n mod 16)]
     else [c])"

definition go_quote :: "string \<Rightarrow> string" where
  "go_quote s = CHR 0x22 # concat (map quote_byte s) @ [CHR 0x22]"

definition is_digit :: "char \<Rightarrow> bool" where
  "is_digit c \<longleftrightarrow> 48 \<le> (of_char c :: nat) \<and> (of_char c :: nat) \<le> 57"

definition digits_value :: "string \<Rightarrow> nat" where
  "digits_value ds = foldl (\<lambda>n c. n * 10 + (of_char c - 48)) 0 ds"

lemma digits_value_snoc: "digits_value (ds @ [c]) = digits_value ds * 10 + (of_char c - 48)"
  by (simp add: digits_value_def)

lemma of_char_digit: "n < 10 \<Longrightarrow> of_char (digit_char n) = (48 + n :: nat)"
  by (simp add: digit_char_def)

lemma digits_value_nat_digits [simp]: "digits_value (nat_digits n) = n"
proof (induction n rule: nat_digits.induct)
  case (1 n)
  show ?case
  proof (cases "n < 10")
    case True
    then show ?thesis
      by (subst nat_digits.simps) (simp add: digits_value_def of_char_digit)
  next
    case False
    with 1 show ?thesis
      by (subst nat_digits.simps) (simp add: digits_value_snoc of_char_digit)
  qed
qed

lemma nat_digits_all_digits: "list_all is_digit (nat_digits n)"
proof (induction n rule: nat_digits.induct)
  case (1 n)
  have d: "is_digit (digit_char k)" if "k < 10" for k
    using that by (simp add: is_digit_def of_char_digit)
  with 1 show ?case by (subst nat_digits.simps) simp
qed

lemma nat_digits_not_Nil [simp]: "nat_digits n \<noteq> []"
  by (subst nat_digits.simps) simp

section \<open>Maps\<close>

type_synonym 'v amap = "(string \<times> 'v) list"

definition amap_ok :: "'v amap \<Rightarrow> bool" where
  "amap_ok m \<longleftrightarrow> distinct (map fst m)"

abbreviation keys_of :: "'v amap \<Rightarrow> string set" where
  "keys_of m \<equiv> set (map fst m)"

text \<open>\<open>m[k] = v\<close> keeps the place of an existing key, \<open>delete(m, k)\<close> drops it, and the loop
  \<open>for k, v := range n { m[k] = v }\<close> stores the pairs of \<open>n\<close> one by one.\<close>

abbreviation amap_put :: "string \<Rightarrow> 'v \<Rightarrow> 'v amap \<Rightarrow> 'v amap" where
  "amap_put k v m \<equiv> AList.update k v m"

fun amap_put_all :: "'v amap \<Rightarrow> 'v amap \<Rightarrow> 'v amap" where
  "amap_put_all m [] = m"
| "amap_put_all m ((k, v) # n) = amap_put_all (amap_put k v m) n"

lemma amap_ok_Nil [amap_simps, preserve]: "amap_ok []"
  by (simp add: amap_ok_def)

lemma amap_ok_put [amap_simps, preserve]: "amap_ok m \<Longrightarrow> amap_ok (amap_put k v m)"
  by (simp add: amap_ok_def distinct_update)

lemma amap_ok_put_all [amap_simps, preserve]: "amap_ok m \<Longrightarrow> amap_ok (amap_put_all m n)"
  by (induction m n rule: amap_put_all.induct) (auto simp: amap_simps)

lemma amap_ok_filter [amap_simps, preserve]: "amap_ok m \<Longrightarrow> amap_ok (filter P m)"
  by (auto simp: amap_ok_def distinct_map_filter)

lemma map_of_put_all:
  "amap_ok n \<Longrightarrow> map_of (amap_put_all m n) = map_of m ++ map_of n"
proof (induction m n rule: amap_put_all.induct)
  case (2 m k v n)
  then have "map_of n k = None" by (auto simp: amap_ok_def map_of_eq_None_iff)
  with 2 show ?case
    by (auto simp: amap_ok_def update_conv' fun_eq_iff map_add_def split: option.splits)
qed simp

lemma keys_put_all: "keys_of (amap_put_all m n) = keys_of m \<union> keys_of n"
  by (induction m n rule: amap_put_all.induct) (auto simp: dom_update)

lemma map_of_filter_key:
  "map_of (filter (\<lambda>(k, v). P k) m) x = (if P x then map_of m x else None)"
  by (induction m) auto

lemma map_of_map_val:
  "map_of (map (\<lambda>(k, v). (k, f k v)) m) x = map_option (f x) (map_of m x)"
  by (induction m) auto

section \<open>Machine integers\<close>

text \<open>The value a 64-bit two's complement register holds for the mathematical integer \<open>x\<close>.\<close>

definition wrap64 :: "int \<Rightarrow> int" where
  "wrap64 x = (x + 2 ^ 63) mod 2 ^ 64 - 2 ^ 63"

lemma wrap64_id: "- (2 ^ 63) \<le> x \<Longrightarrow> x < 2 ^ 63 \<Longrightarrow> wrap64 x = x"
  by (simp add: wrap64_def)

lemma wrap64_bounds: "- (2 ^ 63) \<le> wrap64 x \<and> wrap64 x < 2 ^ 63"
proof -
  have "0 \<le> (x + 2 ^ 63) mod 2 ^ 64" and "(x + 2 ^ 63) mod 2 ^ 64 < (2 ^ 64 :: int)"
    by simp_all
  then show ?thesis by (simp add: wrap64_def)
qed

text \<open>strconv.Atoi on a non-empty digit string: a value out of range is clamped (the callers
  drop the error).\<close>

definition atoi_digits :: "string \<Rightarrow> int" where
  "atoi_digits ds = min (int (digits_value ds)) (2 ^ 63 - 1)"

end
