(* ===== verification/Go_Values.thy ===== *)
theory Go_Values
  imports Zeus_Prelude
begin

text \<open>
  The dynamic values of the client: a Go \<open>any\<close> as encoding/json produces it, plus the integers
  the client itself stores, and the helpers of package domain that inspect such values
  (src/domain/layer_a.go, contract.go, tool_trail.go).

  A \<open>float64\<close> is the rational it denotes: the client copies and compares floats and never does
  arithmetic on a model-supplied one, and JSON has no NaN or infinity. All integer types are
  \<open>GInt\<close>. A \<open>map[string]any\<close> inside an \<open>any\<close> is never nil; where a parameter of map type can be
  nil and the code looks, the parameter is an option.
\<close>

section \<open>Values\<close>

datatype gval =
    GNil
  | GBool bool
  | GInt int
  | GFloat rat
  | GStr string
  | GArr "gval list"
  | GObj "(string \<times> gval) list"

type_synonym gmap = "gval amap"

text \<open>A lookup \<open>m[k]\<close> yields nil for a missing key.\<close>

definition mget :: "gmap \<Rightarrow> string \<Rightarrow> gval" where
  "mget m k = (case map_of m k of None \<Rightarrow> GNil | Some v \<Rightarrow> v)"

lemma mget_put [amap_simps]: "mget (amap_put k v m) k' = (if k' = k then v else mget m k')"
  by (simp add: mget_def update_conv')

text \<open>Every map inside a value has distinct keys.\<close>

fun gval_ok :: "gval \<Rightarrow> bool" where
  "gval_ok (GArr xs) = list_all gval_ok xs"
| "gval_ok (GObj m) = (amap_ok m \<and> list_all (\<lambda>(k, v). gval_ok v) m)"
| "gval_ok _ = True"

section \<open>Inspecting values\<close>

definition asString :: "gval \<Rightarrow> string" where
  "asString v = (case v of GStr s \<Rightarrow> s | _ \<Rightarrow> [])"

definition asStringOk :: "gval \<Rightarrow> string option" where
  "asStringOk v = (case v of GStr s \<Rightarrow> Some s | _ \<Rightarrow> None)"

definition asObjectMap :: "gval \<Rightarrow> gmap option" where
  "asObjectMap v = (case v of GObj m \<Rightarrow> Some m | _ \<Rightarrow> None)"

definition asArray :: "gval \<Rightarrow> gval list option" where
  "asArray v = (case v of GArr xs \<Rightarrow> Some xs | _ \<Rightarrow> None)"

definition isArray :: "gval \<Rightarrow> bool" where
  "isArray v \<longleftrightarrow> asArray v \<noteq> None"

definition asFloat64 :: "gval \<Rightarrow> rat option" where
  "asFloat64 v = (case v of GFloat x \<Rightarrow> Some x | GInt n \<Rightarrow> Some (of_int n) | _ \<Rightarrow> None)"

definition isNumberNotBool :: "gval \<Rightarrow> bool" where
  "isNumberNotBool v = (case v of GBool _ \<Rightarrow> False | _ \<Rightarrow> asFloat64 v \<noteq> None)"

definition isIntNotBool :: "gval \<Rightarrow> bool" where
  "isIntNotBool v = (case v of GBool _ \<Rightarrow> False | GInt _ \<Rightarrow> True | _ \<Rightarrow> False)"

definition pyBool :: "gval \<Rightarrow> bool" where
  "pyBool v = (case v of
     GNil \<Rightarrow> False
   | GBool b \<Rightarrow> b
   | GStr s \<Rightarrow> s \<noteq> []
   | GArr xs \<Rightarrow> xs \<noteq> []
   | GObj m \<Rightarrow> m \<noteq> []
   | _ \<Rightarrow> (case asFloat64 v of Some f \<Rightarrow> f \<noteq> 0 | None \<Rightarrow> v \<noteq> GNil))"

definition pyTypeName :: "gval \<Rightarrow> string" where
  "pyTypeName v = (case v of
     GNil \<Rightarrow> ''NoneType''
   | GStr _ \<Rightarrow> ''str''
   | GBool _ \<Rightarrow> ''bool''
   | GInt _ \<Rightarrow> ''int''
   | GFloat _ \<Rightarrow> ''float''
   | GObj _ \<Rightarrow> ''dict''
   | GArr _ \<Rightarrow> ''list'')"

text \<open>\<open>%T\<close> of a decoded value; every integer is stored as \<open>int\<close>.\<close>

definition goTypeName :: "gval \<Rightarrow> string" where
  "goTypeName v = (case v of
     GNil \<Rightarrow> ''<nil>''
   | GStr _ \<Rightarrow> ''string''
   | GBool _ \<Rightarrow> ''bool''
   | GInt _ \<Rightarrow> ''int''
   | GFloat _ \<Rightarrow> ''float64''
   | GObj _ \<Rightarrow> ''map[string]interface {}''
   | GArr _ \<Rightarrow> ''[]interface {}'')"

definition copyMapAny :: "gmap option \<Rightarrow> gmap" where
  "copyMapAny m = (case m of None \<Rightarrow> [] | Some kv \<Rightarrow> map (\<lambda>(k, v). (k, v)) kv)"

definition containsString :: "string list \<Rightarrow> string \<Rightarrow> bool" where
  "containsString ss want \<longleftrightarrow> list_ex (\<lambda>s. s = want) ss"

definition nilIfEmpty :: "string \<Rightarrow> gval" where
  "nilIfEmpty s = (if s = [] then GNil else GStr s)"

definition incompleteObject :: "gmap option \<Rightarrow> bool" where
  "incompleteObject m = (case m of None \<Rightarrow> True | Some kv \<Rightarrow> length kv = 0)"

text \<open>cloneJSON rebuilds maps and slices and returns leaves as they are.\<close>

fun cloneJSON :: "gval \<Rightarrow> gval" where
  "cloneJSON (GObj m) = GObj (map (\<lambda>(k, v). (k, cloneJSON v)) m)"
| "cloneJSON (GArr xs) = GArr (map cloneJSON xs)"
| "cloneJSON v = v"

text \<open>strconv.ParseBool (errors give false) and strconv.Atoi (a syntax error gives 0, a value out
  of range is clamped), as asBool and asInt use them.\<close>

definition parse_bool :: "string \<Rightarrow> bool" where
  "parse_bool s \<longleftrightarrow> s \<in> {''1'', ''t'', ''T'', ''true'', ''TRUE'', ''True''}"

definition go_atoi :: "string \<Rightarrow> int" where
  "go_atoi s = (let (neg, ds) = (case s of
       [] \<Rightarrow> (False, [])
     | c # cs \<Rightarrow> if c = CHR ''-'' then (True, cs) else if c = CHR ''+'' then (False, cs)
                 else (False, s))
     in if ds = [] \<or> \<not> list_all is_digit ds then 0
        else if neg then max (- int (digits_value ds)) (- (2 ^ 63))
        else atoi_digits ds)"

definition asBool :: "gval \<Rightarrow> bool" where
  "asBool v = (case v of GBool b \<Rightarrow> b | GStr s \<Rightarrow> parse_bool s | _ \<Rightarrow> False)"

text \<open>\<open>int(x)\<close> of a float64 truncates towards zero.\<close>

definition trunc_rat :: "rat \<Rightarrow> int" where
  "trunc_rat x = (if x < 0 then \<lceil>x\<rceil> else \<lfloor>x\<rfloor>)"

definition asInt :: "gval \<Rightarrow> int" where
  "asInt v = (case v of GInt n \<Rightarrow> n | GFloat x \<Rightarrow> trunc_rat x | GStr s \<Rightarrow> go_atoi s | _ \<Rightarrow> 0)"

text \<open>
  fmt.Sprint: maps are printed with sorted keys. How \<open>%v\<close> prints a float64 is the parameter
  \<open>ff\<close>.
\<close>

fun go_sprint :: "(rat \<Rightarrow> string) \<Rightarrow> gval \<Rightarrow> string" where
  "go_sprint ff GNil = ''<nil>''"
| "go_sprint ff (GBool b) = (if b then ''true'' else ''false'')"
| "go_sprint ff (GInt n) = int_digits n"
| "go_sprint ff (GFloat x) = ff x"
| "go_sprint ff (GStr s) = s"
| "go_sprint ff (GArr xs) = ''['' @ join_with '' '' (map (go_sprint ff) xs) @ '']''"
| "go_sprint ff (GObj m) =
     ''map['' @ join_with '' ''
       (map (\<lambda>(k, v). k @ '':'' @ go_sprint ff v) (sort_key fst m)) @ '']''"

section \<open>Facts\<close>

lemma asString_simps [simp]:
  "asString (GStr s) = s" "asString GNil = []" "asString (GBool b) = []"
  "asString (GInt n) = []" "asString (GFloat x) = []" "asString (GArr xs) = []"
  "asString (GObj m) = []"
  by (simp_all add: asString_def)

lemma asObjectMap_Some [simp]: "asObjectMap v = Some m \<longleftrightarrow> v = GObj m"
  by (cases v) (auto simp: asObjectMap_def)

lemma asObjectMap_None: "asObjectMap v = None \<longleftrightarrow> (\<forall>m. v \<noteq> GObj m)"
  by (cases v) (auto simp: asObjectMap_def)

lemma asObjectMap_simps [simp]:
  "asObjectMap (GObj m) = Some m" "asObjectMap GNil = None" "asObjectMap (GStr s) = None"
  "asObjectMap (GBool b) = None" "asObjectMap (GInt n) = None" "asObjectMap (GFloat x) = None"
  "asObjectMap (GArr xs) = None"
  by (simp_all add: asObjectMap_def)

lemma asArray_Some [simp]: "asArray v = Some xs \<longleftrightarrow> v = GArr xs"
  by (cases v) (auto simp: asArray_def)

lemma asStringOk_Some [simp]: "asStringOk v = Some s \<longleftrightarrow> v = GStr s"
  by (cases v) (auto simp: asStringOk_def)

lemma copyMapAny_simps [simp]: "copyMapAny None = []" "copyMapAny (Some m) = m"
  by (simp_all add: copyMapAny_def)

lemma containsString_iff [simp]: "containsString ss w \<longleftrightarrow> w \<in> set ss"
  by (auto simp: containsString_def list_ex_iff)

lemma incompleteObject_iff: "incompleteObject m \<longleftrightarrow> m = None \<or> m = Some []"
  by (auto simp: incompleteObject_def split: option.splits)

lemma nilIfEmpty_eq_GStr [simp]: "nilIfEmpty s = GStr t \<longleftrightarrow> s = t \<and> t \<noteq> []"
  by (auto simp: nilIfEmpty_def)

lemma cloneJSON_id [simp]: "cloneJSON v = v"
proof (induction v rule: cloneJSON.induct)
  case (1 m)
  then have "map (\<lambda>(k, v). (k, cloneJSON v)) m = map (\<lambda>x. x) m"
    by (intro map_cong) auto
  then show ?case by simp
next
  case (2 xs)
  then show ?case by (simp add: map_idI)
qed simp_all

lemmas gval_ifs = if_splits option.splits gval.splits

end
