(* ===== verification/Error_Codes.thy ===== *)
theory Error_Codes
  imports Go_Values
begin

text \<open>
  The family error codes and the client error value (src/domain/codes.go, errors.go): the closed
  set of codes, the catalogue row of each code, and the constructors of \<open>*Error\<close>.
  A lookup in \<open>byCode\<close> is a search of the catalogue it is built from.
\<close>

section \<open>Codes\<close>

text \<open>\<open>type Code string\<close>, with one named constant per code of the catalogue.\<close>

type_synonym Code = string

definition code_string :: "Code \<Rightarrow> string" where
  "code_string c = c"

abbreviation CodeUnknown :: Code where "CodeUnknown \<equiv> ''000001''"
abbreviation CodeNotImplemented :: Code where "CodeNotImplemented \<equiv> ''000002''"
abbreviation CodeInvalidArgument :: Code where "CodeInvalidArgument \<equiv> ''000003''"
abbreviation CodePreconditionFailed :: Code where "CodePreconditionFailed \<equiv> ''000004''"
abbreviation CodeTimeout :: Code where "CodeTimeout \<equiv> ''000005''"
abbreviation CodeCancelled :: Code where "CodeCancelled \<equiv> ''000006''"
abbreviation CodeInternalInvariant :: Code where "CodeInternalInvariant \<equiv> ''000007''"
abbreviation CodeFeatureDisabled :: Code where "CodeFeatureDisabled \<equiv> ''000008''"
abbreviation CodeClientRateLimited :: Code where "CodeClientRateLimited \<equiv> ''000009''"
abbreviation CodeContextDeadline :: Code where "CodeContextDeadline \<equiv> ''000010''"
abbreviation CodeConfigPathNotFound :: Code where "CodeConfigPathNotFound \<equiv> ''010001''"
abbreviation CodeConfigNotReadable :: Code where "CodeConfigNotReadable \<equiv> ''010002''"
abbreviation CodeConfigParseFailed :: Code where "CodeConfigParseFailed \<equiv> ''010003''"
abbreviation CodeConfigNormalizeFailed :: Code where "CodeConfigNormalizeFailed \<equiv> ''010004''"
abbreviation CodeConfigInvalid :: Code where "CodeConfigInvalid \<equiv> ''010006''"
abbreviation CodeZeusURLMissing :: Code where "CodeZeusURLMissing \<equiv> ''010007''"
abbreviation CodeZeusAuthModeInvalid :: Code where "CodeZeusAuthModeInvalid \<equiv> ''010008''"
abbreviation CodeZeusAuthIncomplete :: Code where "CodeZeusAuthIncomplete \<equiv> ''010009''"
abbreviation CodeLLMBaseURLMissing :: Code where "CodeLLMBaseURLMissing \<equiv> ''010010''"
abbreviation CodeLLMModelMissing :: Code where "CodeLLMModelMissing \<equiv> ''010011''"
abbreviation CodeLLMAPIKeyMissing :: Code where "CodeLLMAPIKeyMissing \<equiv> ''010012''"
abbreviation CodeCatalogNotFound :: Code where "CodeCatalogNotFound \<equiv> ''030001''"
abbreviation CodeCatalogParseFailed :: Code where "CodeCatalogParseFailed \<equiv> ''030002''"
abbreviation CodeCatalogLineageUnknown :: Code where "CodeCatalogLineageUnknown \<equiv> ''030003''"
abbreviation CodeContractHashMissing :: Code where "CodeContractHashMissing \<equiv> ''030004''"
abbreviation CodeContractHashInventForbidden :: Code where "CodeContractHashInventForbidden \<equiv> ''030005''"
abbreviation CodeContractBindMismatch :: Code where "CodeContractBindMismatch \<equiv> ''030006''"
abbreviation CodeCatalogSyncFailed :: Code where "CodeCatalogSyncFailed \<equiv> ''030007''"
abbreviation CodeSessionCreateFailed :: Code where "CodeSessionCreateFailed \<equiv> ''040001''"
abbreviation CodeSessionContinueFailed :: Code where "CodeSessionContinueFailed \<equiv> ''040002''"
abbreviation CodeSessionRehydrateFailed :: Code where "CodeSessionRehydrateFailed \<equiv> ''040003''"
abbreviation CodeSessionIDMissing :: Code where "CodeSessionIDMissing \<equiv> ''040004''"
abbreviation CodeSessionDurableDisabled :: Code where "CodeSessionDurableDisabled \<equiv> ''040005''"
abbreviation CodeSessionCommitFailed :: Code where "CodeSessionCommitFailed \<equiv> ''040006''"
abbreviation CodeAgentMemoryRecallFailed :: Code where "CodeAgentMemoryRecallFailed \<equiv> ''040008''"
abbreviation CodeAgentMemoryWriteFailed :: Code where "CodeAgentMemoryWriteFailed \<equiv> ''040009''"
abbreviation CodeAgentMemoryUnavailable :: Code where "CodeAgentMemoryUnavailable \<equiv> ''040010''"
abbreviation CodeAgentTurnFailed :: Code where "CodeAgentTurnFailed \<equiv> ''050001''"
abbreviation CodeAgentMessageEmpty :: Code where "CodeAgentMessageEmpty \<equiv> ''050002''"
abbreviation CodeAgentMaxRounds :: Code where "CodeAgentMaxRounds \<equiv> ''050003''"
abbreviation CodeAgentLLMRequestFailed :: Code where "CodeAgentLLMRequestFailed \<equiv> ''050004''"
abbreviation CodeAgentLLMTimeout :: Code where "CodeAgentLLMTimeout \<equiv> ''050005''"
abbreviation CodeAgentToolPlanInvalid :: Code where "CodeAgentToolPlanInvalid \<equiv> ''050006''"
abbreviation CodeAgentTerminateMissing :: Code where "CodeAgentTerminateMissing \<equiv> ''050007''"
abbreviation CodeAgentHooksAborted :: Code where "CodeAgentHooksAborted \<equiv> ''050008''"
abbreviation CodeLLMRateLimit :: Code where "CodeLLMRateLimit \<equiv> ''050010''"
abbreviation CodeLLMQuotaExhausted :: Code where "CodeLLMQuotaExhausted \<equiv> ''050011''"
abbreviation CodeLLMAuth :: Code where "CodeLLMAuth \<equiv> ''050012''"
abbreviation CodeLLMContextLength :: Code where "CodeLLMContextLength \<equiv> ''050013''"
abbreviation CodeLLMContentFilter :: Code where "CodeLLMContentFilter \<equiv> ''050014''"
abbreviation CodeLLMProviderOverload :: Code where "CodeLLMProviderOverload \<equiv> ''050015''"
abbreviation CodeLLMProviderUnavailable :: Code where "CodeLLMProviderUnavailable \<equiv> ''050016''"
abbreviation CodeLLMInvalidRequest :: Code where "CodeLLMInvalidRequest \<equiv> ''050017''"
abbreviation CodeLLMToolSchema :: Code where "CodeLLMToolSchema \<equiv> ''050018''"
abbreviation CodeZeusTransport :: Code where "CodeZeusTransport \<equiv> ''060001''"
abbreviation CodeZeusHTTP4xx :: Code where "CodeZeusHTTP4xx \<equiv> ''060002''"
abbreviation CodeZeusHTTP5xx :: Code where "CodeZeusHTTP5xx \<equiv> ''060003''"
abbreviation CodeZeusContractRequired :: Code where "CodeZeusContractRequired \<equiv> ''060004''"
abbreviation CodeZeusAuthFailed :: Code where "CodeZeusAuthFailed \<equiv> ''060005''"
abbreviation CodeZeusVerbNotAllowed :: Code where "CodeZeusVerbNotAllowed \<equiv> ''060006''"
abbreviation CodeZeusSearchInvalid :: Code where "CodeZeusSearchInvalid \<equiv> ''060007''"
abbreviation CodeZeusResponseParse :: Code where "CodeZeusResponseParse \<equiv> ''060008''"
abbreviation CodeZeusReqIDMissing :: Code where "CodeZeusReqIDMissing \<equiv> ''060009''"
abbreviation CodeZeusPipelineNotOnDirect :: Code where "CodeZeusPipelineNotOnDirect \<equiv> ''060010''"
abbreviation CodePolicyRefuse :: Code where "CodePolicyRefuse \<equiv> ''070002''"
abbreviation CodeLayerAValidateFailed :: Code where "CodeLayerAValidateFailed \<equiv> ''090001''"
abbreviation CodeAuthFailed :: Code where "CodeAuthFailed \<equiv> ''100001''"
abbreviation CodeAuthSessionUnavailable :: Code where "CodeAuthSessionUnavailable \<equiv> ''100002''"
abbreviation CodeJobsUnavailable :: Code where "CodeJobsUnavailable \<equiv> ''130001''"
abbreviation CodeJobsInvalidUnitMap :: Code where "CodeJobsInvalidUnitMap \<equiv> ''130002''"
abbreviation CodeJobsBudgetInvalid :: Code where "CodeJobsBudgetInvalid \<equiv> ''130003''"
abbreviation CodeJobsNotFound :: Code where "CodeJobsNotFound \<equiv> ''130004''"
abbreviation CodeJobsWatchFailed :: Code where "CodeJobsWatchFailed \<equiv> ''130005''"
abbreviation CodeJobsUnitFailed :: Code where "CodeJobsUnitFailed \<equiv> ''130010''"
abbreviation CodeUnitsCatalogMissing :: Code where "CodeUnitsCatalogMissing \<equiv> ''130011''"
abbreviation CodeUnitsInjectMissing :: Code where "CodeUnitsInjectMissing \<equiv> ''130012''"
abbreviation CodeUnitsIsolation :: Code where "CodeUnitsIsolation \<equiv> ''130013''"
abbreviation CodeInternalBug :: Code where "CodeInternalBug \<equiv> ''990001''"

record codeInfo =
  ci_code :: Code
  ci_message :: string
  ci_retryable :: bool
  ci_typ :: string

definition code_row :: "Code \<Rightarrow> string \<Rightarrow> bool \<Rightarrow> string \<Rightarrow> codeInfo" where
  "code_row c m r t = \<lparr>ci_code = c, ci_message = m, ci_retryable = r, ci_typ = t\<rparr>"

definition codeCatalog :: "codeInfo list" where
  "codeCatalog = [
     code_row CodeUnknown ''unknown client error'' False ''internal'',
     code_row CodeNotImplemented ''not implemented in this language SDK'' False ''not_implemented'',
     code_row CodeInvalidArgument ''invalid argument'' False ''invalid_argument'',
     code_row CodePreconditionFailed ''precondition failed'' False ''precondition'',
     code_row CodeTimeout ''timeout (client-side deadline)'' True ''timeout'',
     code_row CodeCancelled ''cancelled'' False ''cancelled'',
     code_row CodeInternalInvariant ''internal invariant violated'' False ''internal'',
     code_row CodeFeatureDisabled ''feature disabled by config/flag'' False ''disabled'',
     code_row CodeClientRateLimited ''rate limited (client)'' True ''rate_limited'',
     code_row CodeContextDeadline ''context deadline exceeded'' True ''timeout'',
     code_row CodeConfigPathNotFound ''config path not found'' False ''config'',
     code_row CodeConfigNotReadable ''config path not readable'' False ''config'',
     code_row CodeConfigParseFailed ''config file parse failed'' False ''config'',
     code_row CodeConfigNormalizeFailed ''config normalize failed'' False ''config'',
     code_row CodeConfigInvalid ''config mapping invalid'' False ''config'',
     code_row CodeZeusURLMissing ''zeus.url missing or empty'' False ''config'',
     code_row CodeZeusAuthModeInvalid ''zeus.auth_mode invalid'' False ''config'',
     code_row CodeZeusAuthIncomplete ''zeus auth fields incomplete for auth_mode'' False ''config'',
     code_row CodeLLMBaseURLMissing ''llm.base_url missing (agent required)'' False ''config'',
     code_row CodeLLMModelMissing ''llm.model missing (agent required)'' False ''config'',
     code_row CodeLLMAPIKeyMissing ''llm.api_key missing'' False ''config'',
     code_row CodeCatalogNotFound ''catalog not found for mode/base_id'' False ''catalog'',
     code_row CodeCatalogParseFailed ''catalog parse failed'' False ''catalog'',
     code_row CodeCatalogLineageUnknown ''catalog lineage unknown'' False ''catalog'',
     code_row CodeContractHashMissing ''contract hash missing on stamped catalog'' False ''catalog'',
     code_row CodeContractHashInventForbidden ''contract hash invent forbidden'' False ''catalog'',
     code_row CodeContractBindMismatch ''contract bind mismatch for scope'' False ''catalog'',
     code_row CodeCatalogSyncFailed ''catalog sync failed'' False ''catalog'',
     code_row CodeSessionCreateFailed ''session create failed'' False ''session'',
     code_row CodeSessionContinueFailed ''session continue failed'' False ''session'',
     code_row CodeSessionRehydrateFailed ''session rehydrate failed'' False ''session'',
     code_row CodeSessionIDMissing ''session id missing'' False ''session'',
     code_row CodeSessionDurableDisabled ''durable sessions disabled'' False ''session'',
     code_row CodeSessionCommitFailed ''session commit/trace failed'' False ''session'',
     code_row CodeAgentMemoryRecallFailed ''agent memory recall failed'' True ''session'',
     code_row CodeAgentMemoryWriteFailed ''agent memory write failed'' False ''session'',
     code_row CodeAgentMemoryUnavailable ''agent memory API unavailable'' False ''session'',
     code_row CodeAgentTurnFailed ''agent turn failed'' False ''agent'',
     code_row CodeAgentMessageEmpty ''agent message empty'' False ''agent'',
     code_row CodeAgentMaxRounds ''agent max_rounds exceeded'' False ''agent'',
     code_row CodeAgentLLMRequestFailed ''agent LLM request failed'' False ''agent'',
     code_row CodeAgentLLMTimeout ''agent LLM timeout'' True ''agent'',
     code_row CodeAgentToolPlanInvalid ''agent tool plan invalid'' False ''agent'',
     code_row CodeAgentTerminateMissing ''agent terminate missing'' False ''agent'',
     code_row CodeAgentHooksAborted ''agent hooks aborted turn'' False ''agent'',
     code_row CodeLLMRateLimit ''llm rate limited (throttle)'' True ''agent'',
     code_row CodeLLMQuotaExhausted ''llm quota exhausted (billing/spend)'' False ''agent'',
     code_row CodeLLMAuth ''llm auth failed'' False ''agent'',
     code_row CodeLLMContextLength ''llm context length exceeded'' False ''agent'',
     code_row CodeLLMContentFilter ''llm content filter'' False ''agent'',
     code_row CodeLLMProviderOverload ''llm provider overload'' True ''agent'',
     code_row CodeLLMProviderUnavailable ''llm provider unavailable'' True ''agent'',
     code_row CodeLLMInvalidRequest ''llm invalid request'' False ''agent'',
     code_row CodeLLMToolSchema ''llm tool schema rejected'' False ''agent'',
     code_row CodeZeusTransport ''zeus HTTP transport error'' True ''zeus_http'',
     code_row CodeZeusHTTP4xx ''zeus HTTP 4xx'' False ''zeus_http'',
     code_row CodeZeusHTTP5xx ''zeus HTTP 5xx'' True ''zeus_http'',
     code_row CodeZeusContractRequired ''zeus contract_required (409 class)'' False ''zeus_http'',
     code_row CodeZeusAuthFailed ''zeus auth failed'' False ''zeus_http'',
     code_row CodeZeusVerbNotAllowed ''zeus verb not allow-listed'' False ''zeus_http'',
     code_row CodeZeusSearchInvalid ''zeus search invalid args'' False ''zeus_http'',
     code_row CodeZeusResponseParse ''zeus response parse failed'' False ''zeus_http'',
     code_row CodeZeusReqIDMissing ''zeus req_id missing on response'' False ''zeus_http'',
     code_row CodeZeusPipelineNotOnDirect ''zeus pipeline not on direct surface'' False ''zeus_http'',
     code_row CodePolicyRefuse ''policy forced refuse'' False ''policy'',
     code_row CodeLayerAValidateFailed ''layer A validation failed'' False ''layer_a'',
     code_row CodeAuthFailed ''auth failed'' False ''auth'',
     code_row CodeAuthSessionUnavailable ''auth session unavailable'' True ''auth'',
     code_row CodeJobsUnavailable ''multi-agent capability unavailable'' False ''jobs'',
     code_row CodeJobsInvalidUnitMap ''invalid unit map / missing scope'' False ''jobs'',
     code_row CodeJobsBudgetInvalid ''job budget invalid'' False ''jobs'',
     code_row CodeJobsNotFound ''job not found'' False ''jobs'',
     code_row CodeJobsWatchFailed ''job watch transport failed'' False ''jobs'',
     code_row CodeJobsUnitFailed ''job failed (unit error)'' False ''jobs'',
     code_row CodeUnitsCatalogMissing ''agent unit missing catalog pin'' False ''jobs'',
     code_row CodeUnitsInjectMissing ''agent unit missing required inject'' False ''jobs'',
     code_row CodeUnitsIsolation ''unit isolation violation'' False ''jobs'',
     code_row CodeInternalBug ''internal client bug'' False ''internal'']"

text \<open>\<open>byCode\<close> is filled row by row, so the last row of a code would win.\<close>

definition byCode :: "Code \<Rightarrow> codeInfo option" where
  "byCode c = find (\<lambda>i. ci_code i = c) (rev codeCatalog)"

definition AllCodes :: "Code list" where
  "AllCodes = map ci_code codeCatalog"

text \<open>\<open>Code(s)\<close> is then looked up, so only a catalogued code parses.\<close>

definition ParseCode :: "string \<Rightarrow> Code option" where
  "ParseCode s = (if length s \<noteq> 6 then None
     else if list_ex (\<lambda>c. \<not> is_digit c) s then None
     else map_option ci_code (find (\<lambda>i. code_string (ci_code i) = s) (rev codeCatalog)))"

definition DefaultRetryable :: "Code \<Rightarrow> bool" where
  "DefaultRetryable c = (case byCode c of None \<Rightarrow> False | Some i \<Rightarrow> ci_retryable i)"

definition PublicMessage :: "Code \<Rightarrow> string" where
  "PublicMessage c = (case byCode c of None \<Rightarrow> ''unknown client error'' | Some i \<Rightarrow> ci_message i)"

definition defaultType :: "Code \<Rightarrow> string" where
  "defaultType c = (case byCode c of None \<Rightarrow> ''internal'' | Some i \<Rightarrow> ci_typ i)"

section \<open>Errors\<close>

text \<open>The cause is kept as its message; \<open>CauseEventID\<close> is empty when there is none.\<close>

record zerror =
  ze_code :: Code
  ze_message :: string
  ze_type :: string
  ze_component :: string
  ze_retryable :: bool
  ze_cause_event_id :: string
  ze_details :: gmap
  ze_cause :: "string option"

datatype opt =
    WithMessage string
  | WithRetryable bool
  | WithCauseEventID string
  | WithDetails gmap
  | WithCause string
  | WithType string

fun apply_opt :: "opt \<Rightarrow> zerror \<Rightarrow> zerror" where
  "apply_opt (WithMessage m) e = e\<lparr>ze_message := m\<rparr>"
| "apply_opt (WithRetryable b) e = e\<lparr>ze_retryable := b\<rparr>"
| "apply_opt (WithCauseEventID i) e = e\<lparr>ze_cause_event_id := i\<rparr>"
| "apply_opt (WithDetails d) e =
     (if d = [] then e else e\<lparr>ze_details := map (\<lambda>(k, v). (k, v)) d\<rparr>)"
| "apply_opt (WithCause c) e = e\<lparr>ze_cause := Some c\<rparr>"
| "apply_opt (WithType t) e = e\<lparr>ze_type := t\<rparr>"

definition NewError :: "Code \<Rightarrow> string \<Rightarrow> opt list \<Rightarrow> zerror" where
  "NewError c component opts = fold apply_opt opts
     \<lparr>ze_code = c, ze_message = PublicMessage c, ze_type = defaultType c, ze_component = component,
      ze_retryable = DefaultRetryable c, ze_cause_event_id = [], ze_details = [],
      ze_cause = None\<rparr>"

definition typed :: "string \<Rightarrow> Code \<Rightarrow> string \<Rightarrow> opt list \<Rightarrow> zerror" where
  "typed typ c component opts = (NewError c component opts)\<lparr>ze_type := typ\<rparr>"

text \<open>The constructors of one error family each: NewConfig, NewAuth and so on.\<close>

datatype family = FConfig | FAuth | FContract | FCatalog | FSession | FZeusTransport | FZeusTool
  | FLLM | FPolicy | FValidation | FInternal | FJob

fun family_type :: "family \<Rightarrow> string" where
  "family_type FConfig = ''config''"
| "family_type FAuth = ''auth''"
| "family_type FContract = ''contract''"
| "family_type FCatalog = ''catalog''"
| "family_type FSession = ''session''"
| "family_type FZeusTransport = ''zeus_http''"
| "family_type FZeusTool = ''zeus_tool''"
| "family_type FLLM = ''llm''"
| "family_type FPolicy = ''policy''"
| "family_type FValidation = ''invalid_argument''"
| "family_type FInternal = ''internal''"
| "family_type FJob = ''jobs''"

definition NewFamily :: "family \<Rightarrow> Code \<Rightarrow> string \<Rightarrow> opt list \<Rightarrow> zerror" where
  "NewFamily f c component opts = typed (family_type f) c component opts"

abbreviation "NewJob \<equiv> NewFamily FJob"
abbreviation "NewCatalog \<equiv> NewFamily FCatalog"
abbreviation "NewContract \<equiv> NewFamily FContract"
abbreviation "NewSession \<equiv> NewFamily FSession"
abbreviation "NewValidation \<equiv> NewFamily FValidation"
abbreviation "NewZeusTransport \<equiv> NewFamily FZeusTransport"
abbreviation "NewLLM \<equiv> NewFamily FLLM"

text \<open>\<open>(*Error).Error\<close>, \<open>Object\<close> and \<open>Map\<close> of a non-nil error.\<close>

definition ErrorString :: "zerror \<Rightarrow> string" where
  "ErrorString e = ''['' @ code_string (ze_code e) @ ''] '' @ ze_message e"

definition ErrorObject :: "zerror \<Rightarrow> gmap" where
  "ErrorObject e =
     [(''code'', GStr (code_string (ze_code e))), (''message'', GStr (ze_message e)),
      (''type'', GStr (ze_type e)), (''retryable'', GBool (ze_retryable e))] @
     (if ze_component e \<noteq> [] then [(''source'', GObj [(''file'', GStr (ze_component e))])] else []) @
     (case ze_cause e of None \<Rightarrow> [] | Some c \<Rightarrow> [(''cause'', GStr c)])"

definition ErrorMap :: "zerror \<Rightarrow> gmap" where
  "ErrorMap e =
     [(''error.code'', GStr (code_string (ze_code e))), (''error.message'', GStr (ze_message e)),
      (''error.type'', GStr (ze_type e)), (''error.retryable'', GBool (ze_retryable e)),
      (''error.component'', GStr (ze_component e)),
      (''error.cause_event_id'', GStr (ze_cause_event_id e)),
      (''error.details'', GObj (ze_details e))]"

text \<open>The two context errors; FromContext maps them and no other error.\<close>

datatype ctx_error = Canceled | DeadlineExceeded

fun FromContext :: "ctx_error option \<Rightarrow> zerror option" where
  "FromContext None = None"
| "FromContext (Some Canceled) =
     Some (NewError CodeCancelled ''context'' [WithCause ''context canceled''])"
| "FromContext (Some DeadlineExceeded) =
     Some (NewError CodeContextDeadline ''context'' [WithCause ''context deadline exceeded''])"

section \<open>The catalogue\<close>

lemma codeCatalog_rows:
  "distinct (map ci_code codeCatalog)"
  "list_all (\<lambda>i. length (ci_code i) = 6 \<and> list_all is_digit (ci_code i)) codeCatalog"
  by code_simp+

lemma find_rev_unique:
  assumes "distinct (map f xs)" and "x \<in> set xs"
  shows "find (\<lambda>y. f y = f x) (rev xs) = Some x"
proof -
  have "find (\<lambda>y. f y = f x) ys = Some x" if "distinct (map f ys)" "x \<in> set ys" for ys
    using that by (induction ys) auto
  moreover have "distinct (map f (rev xs))" using assms(1) by (simp add: rev_map [symmetric])
  ultimately show ?thesis using assms(2) by simp
qed

lemma find_rev_None: "find P (rev xs) = None \<longleftrightarrow> (\<forall>x \<in> set xs. \<not> P x)"
  by (auto simp: find_None_iff)

lemma byCode_row: "i \<in> set codeCatalog \<Longrightarrow> byCode (ci_code i) = Some i"
  unfolding byCode_def by (rule find_rev_unique [OF codeCatalog_rows(1)])

lemma byCode_None: "byCode c = None \<longleftrightarrow> c \<notin> set AllCodes"
  by (auto simp: byCode_def AllCodes_def find_rev_None)

lemma code_type_row:
  "i \<in> set codeCatalog \<Longrightarrow>
     PublicMessage (ci_code i) = ci_message i \<and> DefaultRetryable (ci_code i) = ci_retryable i \<and>
     defaultType (ci_code i) = ci_typ i"
  by (simp add: PublicMessage_def DefaultRetryable_def defaultType_def byCode_row)

lemma ParseCode_iff: "ParseCode s = Some c \<longleftrightarrow> c = s \<and> s \<in> set AllCodes"
proof (cases "s \<in> set AllCodes")
  case True
  then obtain i where i: "i \<in> set codeCatalog" "s = ci_code i"
    by (auto simp: AllCodes_def)
  with codeCatalog_rows(2) have "length s = 6" "\<not> list_ex (\<lambda>c. \<not> is_digit c) s"
    by (auto simp: list_all_iff list_ex_iff)
  with i find_rev_unique [OF codeCatalog_rows(1) i(1)] show ?thesis
    by (auto simp: ParseCode_def code_string_def AllCodes_def)
next
  case False
  then have "find (\<lambda>i. code_string (ci_code i) = s) (rev codeCatalog) = None"
    by (auto simp: find_rev_None code_string_def AllCodes_def)
  with False show ?thesis by (simp add: ParseCode_def)
qed

text \<open>Every family constructor keeps the code and the family type, whatever options follow.\<close>

lemma apply_opt_code: "ze_code (apply_opt a e) = ze_code e"
  by (cases a) auto

lemma apply_opts_code: "ze_code (fold apply_opt opts e) = ze_code e"
  by (induction opts arbitrary: e) (auto simp: apply_opt_code)

lemma NewFamily_simps [simp]:
  "ze_code (NewFamily f c component opts) = c"
  "ze_type (NewFamily f c component opts) = family_type f"
  by (simp_all add: NewFamily_def typed_def NewError_def apply_opts_code)

lemma NewError_code [simp]: "ze_code (NewError c component opts) = c"
  by (simp add: NewError_def apply_opts_code)

lemma FromContext_simps:
  "map_option ze_code (FromContext (Some Canceled)) = Some CodeCancelled"
  "map_option ze_code (FromContext (Some DeadlineExceeded)) = Some CodeContextDeadline"
  by simp_all

end
