(* ===== verification/Go_Regexp.thy ===== *)
theory Go_Regexp
  imports Error_Codes
begin

text \<open>
  The part of package regexp the client relies on: UTF-8 decoding and an executable matcher for
  the expressions of the sources, with leftmost-first preference (the order in which \<open>rm\<close> lists
  the ways to match is the order in which Go prefers them). Each regular expression of the client
  is a term of type \<open>rx\<close> in the theory of the component that compiles it.
\<close>

section \<open>UTF-8\<close>

text \<open>utf8.DecodeRune: the rune and its width; an invalid byte is U+FFFD of width 1.\<close>

definition cont_byte :: "nat \<Rightarrow> bool" where
  "cont_byte b \<longleftrightarrow> 128 \<le> b \<and> b \<le> 191"

definition rune_width :: "nat list \<Rightarrow> nat" where
  "rune_width bs = (case bs of
     b0 # b1 # rest \<Rightarrow>
       (if 194 \<le> b0 \<and> b0 \<le> 223 \<and> cont_byte b1 then 2
        else (case rest of
          b2 # rest' \<Rightarrow>
            (if (b0 = 224 \<and> 160 \<le> b1 \<and> b1 \<le> 191 \<or>
                 (225 \<le> b0 \<and> b0 \<le> 236 \<or> b0 = 238 \<or> b0 = 239) \<and> cont_byte b1 \<or>
                 b0 = 237 \<and> 128 \<le> b1 \<and> b1 \<le> 159) \<and> cont_byte b2 then 3
             else (case rest' of
               b3 # _ \<Rightarrow>
                 (if (b0 = 240 \<and> 144 \<le> b1 \<and> b1 \<le> 191 \<or>
                      241 \<le> b0 \<and> b0 \<le> 243 \<and> cont_byte b1 \<or>
                      b0 = 244 \<and> 128 \<le> b1 \<and> b1 \<le> 143) \<and> cont_byte b2 \<and> cont_byte b3
                  then 4 else 1)
             | [] \<Rightarrow> 1))
        | [] \<Rightarrow> 1))
   | _ \<Rightarrow> 1)"

definition rune_value :: "nat list \<Rightarrow> nat \<Rightarrow> nat" where
  "rune_value bs w =
     (if w = 2 then (bs ! 0 - 192) * 64 + (bs ! 1 - 128)
      else if w = 3 then (bs ! 0 - 224) * 4096 + (bs ! 1 - 128) * 64 + (bs ! 2 - 128)
      else if w = 4 then (bs ! 0 - 240) * 262144 + (bs ! 1 - 128) * 4096 +
        (bs ! 2 - 128) * 64 + (bs ! 3 - 128)
      else if bs ! 0 < 128 then bs ! 0 else 65533)"

text \<open>Only the first four bytes matter. The string is not empty.\<close>

definition decode_rune :: "string \<Rightarrow> nat \<times> nat" where
  "decode_rune s = (let bs = map of_char (take 4 s); w = rune_width bs in (rune_value bs w, w))"

lemma rune_width_bounds: "0 < rune_width bs" "bs \<noteq> [] \<Longrightarrow> rune_width bs \<le> length bs"
  by (auto simp: rune_width_def split: list.splits)

lemma decode_rune_width:
  "0 < snd (decode_rune s)" "s \<noteq> [] \<Longrightarrow> snd (decode_rune s) \<le> length s"
  using rune_width_bounds [of "map of_char (take 4 s)"]
  by (auto simp: decode_rune_def Let_def min_def split: if_splits)

lemma rune_width_ascii: "b < 128 \<Longrightarrow> rune_width (b # bs) = 1"
  by (cases bs; cases "tl bs"; cases "tl (tl bs)") (auto simp: rune_width_def)

lemma decode_ascii: "of_char c < (128::nat) \<Longrightarrow> decode_rune (c # s) = (of_char c, 1)"
  by (simp add: decode_rune_def Let_def rune_width_ascii rune_value_def)

text \<open>The runes of a string as byte chunks; utf8.RuneCountInString; the loop
  \<open>for i := range text\<close> cut off at rune \<open>n\<close>; and \<open>string([]rune(s)[:n])\<close>, which writes an
  invalid byte as the encoding of U+FFFD.\<close>

fun rune_chunks_fuel :: "nat \<Rightarrow> string \<Rightarrow> string list" where
  "rune_chunks_fuel 0 s = []"
| "rune_chunks_fuel (Suc n) s = (if s = [] then []
     else (let w = snd (decode_rune s) in take w s # rune_chunks_fuel n (drop w s)))"

definition rune_chunks :: "string \<Rightarrow> string list" where
  "rune_chunks s = rune_chunks_fuel (length s) s"

definition rune_count :: "string \<Rightarrow> nat" where
  "rune_count s = length (rune_chunks s)"

definition take_runes :: "nat \<Rightarrow> string \<Rightarrow> string" where
  "take_runes n s = concat (take n (rune_chunks s))"

definition encode_chunk :: "string \<Rightarrow> string" where
  "encode_chunk c = (if length c = 1 \<and> 128 \<le> (of_char (hd c) :: nat)
     then [CHR 0xEF, CHR 0xBF, CHR 0xBD] else c)"

definition reencode_runes :: "nat \<Rightarrow> string \<Rightarrow> string" where
  "reencode_runes n s = concat (map encode_chunk (take n (rune_chunks s)))"

lemma rune_chunks_fuel_concat: "length s \<le> n \<Longrightarrow> concat (rune_chunks_fuel n s) = s"
proof (induction n arbitrary: s)
  case (Suc n)
  show ?case
  proof (cases "s = []")
    case False
    with Suc.prems decode_rune_width [of s]
    have "length (drop (snd (decode_rune s)) s) \<le> n" by simp
    with Suc.IH False show ?thesis by (simp add: Let_def)
  qed simp
qed simp

lemma rune_chunks_concat: "concat (rune_chunks s) = s"
  by (simp add: rune_chunks_def rune_chunks_fuel_concat)

lemma take_runes_all: "rune_count s \<le> n \<Longrightarrow> take_runes n s = s"
  by (simp add: take_runes_def rune_count_def rune_chunks_concat)

lemma take_runes_prefix: "prefix (take_runes n s) s"
proof -
  have "s = take_runes n s @ concat (drop n (rune_chunks s))"
    unfolding take_runes_def by (metis append_take_drop_id concat_append rune_chunks_concat)
  then show ?thesis by (metis prefixI)
qed

section \<open>Expressions\<close>

text \<open>
  \<open>RCls neg rs\<close> is a class of runes (negated when \<open>neg\<close>), \<open>RStar\<close> is greedy and \<open>RLazy\<close> is
  not, \<open>RCap\<close> is a named group. The anchors are \<open>\\A\<close>, \<open>\\z\<close>, the multi-line \<open>^\<close> and \<open>$\<close>,
  and \<open>\\b\<close>.
\<close>

datatype rx =
    REps
  | RCls bool "(nat \<times> nat) list"
  | RSeq rx rx
  | RAlt rx rx
  | RStar rx
  | RLazy rx
  | RCap string rx
  | RBot
  | REot
  | RBol
  | REol
  | RWordB

datatype rstate = RState (prev_of: "char option") (rest_of: string) (caps_of: "(string \<times> string) list")

definition in_class :: "bool \<Rightarrow> (nat \<times> nat) list \<Rightarrow> nat \<Rightarrow> bool" where
  "in_class neg rs r \<longleftrightarrow> neg \<noteq> list_ex (\<lambda>(lo, hi). lo \<le> r \<and> r \<le> hi) rs"

definition word_byte :: "char option \<Rightarrow> bool" where
  "word_byte c = (case c of None \<Rightarrow> False | Some x \<Rightarrow>
     (let b = of_char x :: nat in 48 \<le> b \<and> b \<le> 57 \<or> 65 \<le> b \<and> b \<le> 90 \<or> b = 95 \<or> 97 \<le> b \<and> b \<le> 122))"

definition head_byte :: "string \<Rightarrow> char option" where
  "head_byte s = (case s of [] \<Rightarrow> None | c # _ \<Rightarrow> Some c)"

text \<open>
  All ways to match, best first. The filters only make the recursion visibly terminate: a match
  never lengthens the rest (\<open>rm_shortens\<close>), and an empty iteration of a star adds nothing.
\<close>

text \<open>One rune of a class; a test of an anchor.\<close>

definition rm_class :: "bool \<Rightarrow> (nat \<times> nat) list \<Rightarrow> rstate \<Rightarrow> rstate list" where
  "rm_class neg rs st = (case st of RState p s cs \<Rightarrow> if s = [] then []
     else (let (r, w) = decode_rune s in
       if in_class neg rs r then [RState (Some (s ! (w - 1))) (drop w s) cs] else []))"

definition rm_test :: "(char option \<Rightarrow> string \<Rightarrow> bool) \<Rightarrow> rstate \<Rightarrow> rstate list" where
  "rm_test P st = (if P (prev_of st) (rest_of st) then [st] else [])"

definition rm_capture :: "string \<Rightarrow> string \<Rightarrow> rstate \<Rightarrow> rstate" where
  "rm_capture n s0 st = (case st of RState p s cs \<Rightarrow>
     RState p s ((n, take (length s0 - length s) s0) # cs))"

function rm :: "rx \<Rightarrow> rstate \<Rightarrow> rstate list" where
  "rm REps st = [st]"
| "rm (RCls neg rs) st = rm_class neg rs st"
| "rm (RSeq a b) st =
     concat (map (rm b) (filter (\<lambda>t. length (rest_of t) \<le> length (rest_of st)) (rm a st)))"
| "rm (RAlt a b) st = rm a st @ rm b st"
| "rm (RStar a) st =
     concat (map (rm (RStar a)) (filter (\<lambda>t. length (rest_of t) < length (rest_of st)) (rm a st)))
     @ [st]"
| "rm (RLazy a) st = st #
     concat (map (rm (RLazy a)) (filter (\<lambda>t. length (rest_of t) < length (rest_of st)) (rm a st)))"
| "rm (RCap n a) st = map (rm_capture n (rest_of st)) (rm a st)"
| "rm RBot st = rm_test (\<lambda>p s. p = None) st"
| "rm REot st = rm_test (\<lambda>p s. s = []) st"
| "rm RBol st = rm_test (\<lambda>p s. p = None \<or> p = Some (CHR 0x0A)) st"
| "rm REol st = rm_test (\<lambda>p s. s = [] \<or> hd s = CHR 0x0A) st"
| "rm RWordB st = rm_test (\<lambda>p s. word_byte p \<noteq> word_byte (head_byte s)) st"
  by pat_completeness simp_all
termination
proof (relation "measures [\<lambda>(r, st). length (rest_of st), \<lambda>(r, st). size r]", goal_cases)
qed auto

text \<open>The equations of the two stars unfold for ever under an existential, so they are applied by
  hand.\<close>

declare rm.simps(5,6) [simp del]

lemma in_rm_star:
  "t \<in> set (rm (RStar a) st) \<Longrightarrow> t = st \<or> (\<exists>u. u \<in> set (rm a st) \<and>
     length (rest_of u) < length (rest_of st) \<and> t \<in> set (rm (RStar a) u))"
  by (subst (asm) rm.simps(5)) auto

lemma in_rm_lazy:
  "t \<in> set (rm (RLazy a) st) \<Longrightarrow> t = st \<or> (\<exists>u. u \<in> set (rm a st) \<and>
     length (rest_of u) < length (rest_of st) \<and> t \<in> set (rm (RLazy a) u))"
  by (subst (asm) rm.simps(6)) auto

lemma rm_class_shortens: "t \<in> set (rm_class neg rs st) \<Longrightarrow> length (rest_of t) \<le> length (rest_of st)"
  by (cases st) (auto simp: rm_class_def Let_def split: if_splits prod.splits)

lemma rm_test_shortens: "t \<in> set (rm_test P st) \<Longrightarrow> length (rest_of t) \<le> length (rest_of st)"
  by (cases st) (auto simp: rm_test_def split: if_splits)

lemma rest_of_capture [simp]: "rest_of (rm_capture n s0 t) = rest_of t"
  by (cases t) (simp add: rm_capture_def)

lemma rm_shortens: "t \<in> set (rm r st) \<Longrightarrow> length (rest_of t) \<le> length (rest_of st)"
proof (induction r st arbitrary: t rule: rm.induct)
  case (3 a b st)
  from "3.prems" obtain u where "u \<in> set (rm a st)" "length (rest_of u) \<le> length (rest_of st)"
    "t \<in> set (rm b u)" by auto
  with "3.IH"(2) [of u t] show ?case by simp
next
  case (4 a b st)
  then show ?case by auto
next
  case (5 a st)
  from in_rm_star [OF "5.prems"] "5.IH" show ?case by fastforce
next
  case (6 a st)
  from in_rm_lazy [OF "6.prems"] "6.IH" show ?case by fastforce
next
  case (7 n a st)
  then show ?case by auto
qed (simp_all add: rm_class_shortens rm_test_shortens)

text \<open>FindStringSubmatchIndex: start, end and groups of the leftmost match. The groups of a
  match are looked up by name; a group that took no part is the empty string.\<close>

function rx_find_at :: "rx \<Rightarrow> char option \<Rightarrow> nat \<Rightarrow> string \<Rightarrow>
    (nat \<times> nat \<times> (string \<times> string) list) option" where
  "rx_find_at r p off s = (case rm r (RState p s []) of
     st # _ \<Rightarrow> Some (off, off + (length s - length (rest_of st)), caps_of st)
   | [] \<Rightarrow> (if s = [] then None
       else (let w = snd (decode_rune s) in
         rx_find_at r (Some (s ! (w - 1))) (off + w) (drop w s))))"
  by pat_completeness auto
termination
  using decode_rune_width(1) by (relation "measure (\<lambda>(r, p, off, s). length s)") auto

declare rx_find_at.simps [simp del]

definition rx_find :: "rx \<Rightarrow> string \<Rightarrow> (nat \<times> nat \<times> (string \<times> string) list) option" where
  "rx_find r s = rx_find_at r None 0 s"

definition rx_match :: "rx \<Rightarrow> string \<Rightarrow> bool" where
  "rx_match r s \<longleftrightarrow> rx_find r s \<noteq> None"

definition rx_groups :: "rx \<Rightarrow> string \<Rightarrow> (string \<Rightarrow> string) option" where
  "rx_groups r s = map_option (\<lambda>(i, j, cs) n. case map_of cs n of None \<Rightarrow> [] | Some g \<Rightarrow> g)
     (rx_find r s)"

text \<open>ReplaceAllString with a literal: non-overlapping matches from the left; an empty match
  moves on by one rune.\<close>

fun rx_replace_from :: "nat \<Rightarrow> rx \<Rightarrow> string \<Rightarrow> char option \<Rightarrow> string \<Rightarrow> string" where
  "rx_replace_from 0 r rep p s = s"
| "rx_replace_from (Suc n) r rep p s = (case rx_find_at r p 0 s of
     None \<Rightarrow> s
   | Some (i, j, _) \<Rightarrow>
       (if i < j then take i s @ rep @ rx_replace_from n r rep (Some (s ! (j - 1))) (drop j s)
        else if i = length s then take i s @ rep
        else take i s @ rep @ take (snd (decode_rune (drop i s))) (drop i s) @
          rx_replace_from n r rep (Some (s ! (i + snd (decode_rune (drop i s)) - 1)))
            (drop (i + snd (decode_rune (drop i s))) s)))"

definition rx_replace_all :: "rx \<Rightarrow> string \<Rightarrow> string \<Rightarrow> string" where
  "rx_replace_all r rep s = rx_replace_from (Suc (length s)) r rep None s"

lemma rx_replace_none: "\<not> rx_match r s \<Longrightarrow> rx_replace_all r rep s = s"
  unfolding rx_replace_all_def rx_match_def rx_find_def by (cases "rx_find_at r None 0 s") simp_all

lemma rx_find_at_bounds:
  "rx_find_at r p off s = Some (i, j, cs) \<Longrightarrow> off \<le> i \<and> i \<le> j \<and> j \<le> off + length s"
proof (induction r p off s rule: rx_find_at.induct)
  case (1 r p off s)
  show ?case
  proof (cases "rm r (RState p s [])")
    case (Cons st sts)
    with "1.prems" rm_shortens [of st r "RState p s []"] show ?thesis
      by (cases st) (auto simp: rx_find_at.simps [of r p off s])
  next
    case Nil
    with "1.prems" have ne: "s \<noteq> []" and
      f: "rx_find_at r (Some (s ! (snd (decode_rune s) - 1))) (off + snd (decode_rune s))
         (drop (snd (decode_rune s)) s) = Some (i, j, cs)"
      by (auto simp: rx_find_at.simps [of r p off s] Let_def split: if_splits)
    from "1.IH" [OF Nil ne refl f] decode_rune_width(2) [OF ne] show ?thesis by auto
  qed
qed

text \<open>An expression that begins with a class never matches the empty string.\<close>

lemma rm_class_strict: "t \<in> set (rm_class neg rs st) \<Longrightarrow> length (rest_of t) < length (rest_of st)"
proof (cases st)
  case (RState p s cs)
  assume "t \<in> set (rm_class neg rs st)"
  with RState have "s \<noteq> []" and "rest_of t = drop (snd (decode_rune s)) s"
    by (auto simp: rm_class_def Let_def split: if_splits prod.splits) (metis snd_conv)
  with RState decode_rune_width [of s] show ?thesis by simp
qed

lemma rm_seq_class_strict:
  "t \<in> set (rm (RSeq (RCls neg rs) b) st) \<Longrightarrow> length (rest_of t) < length (rest_of st)"
  using rm_class_strict rm_shortens by fastforce

lemma rx_find_at_strict:
  assumes strict: "\<And>st t. t \<in> set (rm r st) \<Longrightarrow> length (rest_of t) < length (rest_of st)"
    and found: "rx_find_at r p off s = Some (i, j, cs)"
  shows "i < j"
  using found
proof (induction "length s" arbitrary: p off s rule: less_induct)
  case less
  show ?case
  proof (cases "rm r (RState p s [])")
    case (Cons st sts)
    with strict [of st "RState p s []"] less.prems show ?thesis
      by (auto simp: rx_find_at.simps [of r p off s])
  next
    case Nil
    with less.prems have "s \<noteq> []" and
      f: "rx_find_at r (Some (s ! (snd (decode_rune s) - 1))) (off + snd (decode_rune s))
         (drop (snd (decode_rune s)) s) = Some (i, j, cs)"
      by (auto simp: rx_find_at.simps [of r p off s] Let_def split: if_splits)
    with decode_rune_width [of s] show ?thesis by (intro less.hyps [OF _ f]) auto
  qed
qed

section \<open>Building expressions\<close>

definition rchr :: "char \<Rightarrow> rx" where
  "rchr c = RCls False [(of_char c, of_char c)]"

text \<open>Case-insensitive: simple folding of an ASCII letter, with the Kelvin sign for k and the
  long s for s.\<close>

definition fold_ranges :: "char \<Rightarrow> (nat \<times> nat) list" where
  "fold_ranges c = (let b = of_char (lower_byte c) :: nat in
     (b, b) # (if 97 \<le> b \<and> b \<le> 122 then [(b - 32, b - 32)] else []) @
     (if b = 107 then [(8490, 8490)] else if b = 115 then [(383, 383)] else []))"

definition rchri :: "char \<Rightarrow> rx" where
  "rchri c = RCls False (fold_ranges c)"

fun rlit :: "string \<Rightarrow> rx" where
  "rlit [] = REps"
| "rlit [c] = rchr c"
| "rlit (c # d # cs) = RSeq (rchr c) (rlit (d # cs))"

fun rliti :: "string \<Rightarrow> rx" where
  "rliti [] = REps"
| "rliti [c] = rchri c"
| "rliti (c # d # cs) = RSeq (rchri c) (rliti (d # cs))"

fun rseqs :: "rx list \<Rightarrow> rx" where
  "rseqs [] = REps"
| "rseqs [r] = r"
| "rseqs (r # q # rs) = RSeq r (rseqs (q # rs))"

fun ralts :: "rx list \<Rightarrow> rx" where
  "ralts [] = RCls False []"
| "ralts [r] = r"
| "ralts (r # q # rs) = RAlt r (ralts (q # rs))"

definition ropt :: "rx \<Rightarrow> rx" where "ropt r = RAlt r REps"
definition rplus :: "rx \<Rightarrow> rx" where "rplus r = RSeq r (RStar r)"
definition rplus_lazy :: "rx \<Rightarrow> rx" where "rplus_lazy r = RSeq r (RLazy r)"

fun rupto :: "nat \<Rightarrow> rx \<Rightarrow> rx" where
  "rupto 0 r = REps"
| "rupto (Suc n) r = RAlt (RSeq r (rupto n r)) REps"

fun rtimes :: "nat \<Rightarrow> rx \<Rightarrow> rx" where
  "rtimes 0 r = REps"
| "rtimes (Suc n) r = RSeq r (rtimes n r)"

definition space_ranges :: "(nat \<times> nat) list" where
  "space_ranges = [(9, 10), (12, 13), (32, 32)]"

definition rspace :: rx where "rspace = RCls False space_ranges"
definition rnspace :: rx where "rnspace = RCls True space_ranges"
definition rdigit :: rx where "rdigit = RCls False [(48, 57)]"
definition rdot :: rx where "rdot = RCls True [(10, 10)]"
definition rdots :: rx where "rdots = RCls True []"

lemmas rx_build = rchr_def rchri_def fold_ranges_def ropt_def rplus_def rplus_lazy_def
  rspace_def rnspace_def rdigit_def rdot_def rdots_def space_ranges_def

end
