(* ===== verification/Redact.thy ===== *)
theory Redact
  imports Go_Regexp
begin

text \<open>
  Redaction at journal, log and export boundaries (src/security/redact.go, attrs.go): the two
  secret patterns, the sensitive-key pattern, the walk over JSON values, the free-text scrub and
  the attribute filter. The interface \<open>redactor\<close> is what the journal export and the attribute
  filter rely on; the default redactor interprets it.
\<close>

section \<open>Definitions\<close>

definition Redacted :: string where
  "Redacted = ''[REDACTED]''"

definition PreviewMaxChars :: int where
  "PreviewMaxChars = 2048"

definition loudMaxChars :: int where
  "loudMaxChars = 16384"

definition sensitiveHeaderNames :: "string list" where
  "sensitiveHeaderNames =
     [''authorization'', ''proxy-authorization'', ''x-api-key'', ''api-key'', ''cookie'',
      ''set-cookie'', ''x-auth-token'', ''x-access-token'']"

definition SensitiveKeyRE :: rx where
  "SensitiveKeyRE = ralts
     [rliti ''password'', rliti ''passwd'', rliti ''secret'',
      rseqs [rliti ''api'', ropt (RCls False [(95, 95), (45, 45)]), rliti ''key''],
      rliti ''token'', rliti ''authorization'', rliti ''auth'', rliti ''credential'',
      rseqs [rliti ''credit'', ropt (RCls False [(95, 95), (45, 45)]), rliti ''card''],
      rliti ''ssn'',
      rseqs [rliti ''private'', ropt (RCls False [(95, 95), (45, 45)]), rliti ''key'']]"

definition bearerRE :: rx where
  "bearerRE = rseqs
     [RWordB,
      ropt (rseqs [rliti ''authorization'', RStar rspace, rchr (CHR '':''), RStar rspace]),
      RAlt (rliti ''bearer'') (rliti ''basic''), rplus rspace, rplus rnspace]"

text \<open>The class \<open>[a-z0-9\-_]\<close> under \<open>(?i)\<close>.\<close>

definition token_class :: rx where
  "token_class = RCls False
     [(97, 122), (65, 90), (383, 383), (8490, 8490), (48, 57), (45, 45), (95, 95)]"

definition skRE :: rx where
  "skRE = rseqs
     [RWordB,
      RAlt (rseqs [rliti ''sk-'', rtimes 8 token_class, RStar token_class])
           (rseqs [rliti ''xai-'', rtimes 8 token_class, RStar token_class]),
      RWordB]"

definition IsSensitiveHeader :: "string \<Rightarrow> bool" where
  "IsSensitiveHeader name \<longleftrightarrow> list_ex (\<lambda>h. h = to_lower name) sensitiveHeaderNames"

definition RedactHeaders :: "string amap \<Rightarrow> string amap" where
  "RedactHeaders h = map (\<lambda>(k, v). (k, if IsSensitiveHeader k then Redacted else v)) h"

definition sensitive_key :: "string \<Rightarrow> bool" where
  "sensitive_key k \<longleftrightarrow> rx_match SensitiveKeyRE k"

definition secret_text :: "string \<Rightarrow> bool" where
  "secret_text s \<longleftrightarrow> rx_match bearerRE s \<or> rx_match skRE s"

fun walkJSON :: "gval \<Rightarrow> gval" where
  "walkJSON (GObj m) = GObj (map (\<lambda>(k, child).
     (k, if sensitive_key k then GStr Redacted else walkJSON child)) m)"
| "walkJSON (GArr xs) = GArr (map walkJSON xs)"
| "walkJSON (GStr s) = (if secret_text s then GStr Redacted else GStr s)"
| "walkJSON v = v"

text \<open>The ellipsis rune of \<open>truncateRunes\<close>, in UTF-8.\<close>

definition ellipsis :: string where
  "ellipsis = [CHR 0xE2, CHR 0x80, CHR 0xA6]"

definition truncateRunes :: "string \<Rightarrow> int \<Rightarrow> string" where
  "truncateRunes s maxChars =
     (if maxChars < 0 then s
      else if int (rune_count s) \<le> maxChars then s
      else if maxChars = 0 then ellipsis
      else reencode_runes (nat maxChars) s @ ellipsis)"

definition RedactText :: "string \<Rightarrow> int \<Rightarrow> string" where
  "RedactText s maxChars =
     truncateRunes (rx_replace_all skRE Redacted (rx_replace_all bearerRE Redacted s)) maxChars"

definition hardAttrKeys :: "string list" where
  "hardAttrKeys =
     [''authorization'', ''password'', ''passwd'', ''secret'', ''api_key'', ''apikey'', ''token'',
      ''refresh_token'', ''private_key'', ''cookie'']"

definition isHardAttrKey :: "string \<Rightarrow> bool" where
  "isHardAttrKey key =
     (let lk = map (\<lambda>c. if c = CHR ''.'' \<or> c = CHR ''-'' then CHR ''_'' else c) (to_lower key)
      in list_ex (\<lambda>h. lk = h \<or> str_contains lk h) hardAttrKeys)"

text \<open>One attribute of RedactAttrsWith (\<open>None\<close>: a nil value is dropped) and the whole loop; the
  redactor is given by its two operations.\<close>

definition redact_attr :: "(gval \<Rightarrow> gval) \<Rightarrow> (string \<Rightarrow> int \<Rightarrow> string) \<Rightarrow> bool \<Rightarrow> int \<Rightarrow>
    string \<Rightarrow> gval \<Rightarrow> gval option" where
  "redact_attr json_value text redact previewMaxChars k v =
     (if v = GNil then None
      else if isHardAttrKey k then Some (GStr Redacted)
      else (let walked = json_value v in
        Some (case walked of
          GStr s \<Rightarrow>
            (if redact \<and> 0 \<le> previewMaxChars then GStr (text s previewMaxChars)
             else if loudMaxChars < int (rune_count s) then GStr (truncateRunes s loudMaxChars)
             else walked)
        | _ \<Rightarrow> walked)))"

definition RedactAttrsWith :: "gmap \<Rightarrow> bool \<Rightarrow> (gval \<Rightarrow> gval) \<Rightarrow> (string \<Rightarrow> int \<Rightarrow> string) \<Rightarrow> int \<Rightarrow>
    gmap" where
  "RedactAttrsWith attrs redact json_value text previewMaxChars =
     concat (map (\<lambda>(k, v). case redact_attr json_value text redact previewMaxChars k v of
       None \<Rightarrow> [] | Some w \<Rightarrow> [(k, w)]) attrs)"

definition RedactAttrs :: "gmap \<Rightarrow> bool \<Rightarrow> gmap" where
  "RedactAttrs attrs redact = RedactAttrsWith attrs redact walkJSON RedactText PreviewMaxChars"

section \<open>Clean values\<close>

text \<open>A value is clean when every sensitive key holds the marker and no string leaf carries a
  secret.\<close>

fun gval_clean :: "gval \<Rightarrow> bool" where
  "gval_clean (GObj m) = list_all (\<lambda>(k, v).
     (if sensitive_key k then v = GStr Redacted else gval_clean v)) m"
| "gval_clean (GArr xs) = list_all gval_clean xs"
| "gval_clean (GStr s) = (\<not> secret_text s)"
| "gval_clean v = True"

lemma Redacted_not_secret [simp]: "\<not> secret_text Redacted"
  by code_simp

lemma walkJSON_clean: "gval_clean (walkJSON v)"
proof (induction v rule: walkJSON.induct)
  case (1 m)
  then have "gval_clean (walkJSON c)" if "(k, c) \<in> set m" "\<not> sensitive_key k" for k c
    using that by blast
  then show ?case by (auto simp: list_all_iff)
qed (auto simp: list_all_iff)

lemma walkJSON_fixpoint: "gval_clean v \<Longrightarrow> walkJSON v = v"
proof (induction v rule: walkJSON.induct)
  case (1 m)
  have "map (\<lambda>(k, child). (k, if sensitive_key k then GStr Redacted else walkJSON child)) m
      = map (\<lambda>x. x) m"
    using 1 by (intro map_cong) (auto simp: list_all_iff split: if_splits)
  then show ?case by simp
next
  case (2 xs)
  then show ?case by (simp add: list_all_iff map_idI)
qed auto

lemma walkJSON_idem: "walkJSON (walkJSON v) = walkJSON v"
  by (rule walkJSON_fixpoint [OF walkJSON_clean])

lemma walkJSON_clean_iff: "gval_clean v \<longleftrightarrow> walkJSON v = v"
  by (metis walkJSON_clean walkJSON_fixpoint)

lemma walkJSON_obj_keys: "\<exists>m'. walkJSON (GObj m) = GObj m' \<and> map fst m' = map fst m"
  by (auto simp: comp_def split_def)

lemma RedactText_clean: "\<not> secret_text s \<Longrightarrow> RedactText s n = truncateRunes s n"
  by (simp add: RedactText_def secret_text_def rx_replace_none)

section \<open>The redactor interface\<close>

text \<open>What a redactor promises: the result of its walk is clean, a clean value is left alone,
  objects keep their keys, and its text operation only shortens a text that has no secret.\<close>

locale redactor =
  fixes json_value :: "gval \<Rightarrow> gval"
    and scrub :: "string \<Rightarrow> int \<Rightarrow> string"
  assumes json_clean: "gval_clean (json_value v)"
    and json_keep: "gval_clean v \<Longrightarrow> json_value v = v"
    and json_keys: "\<exists>m'. json_value (GObj m) = GObj m' \<and> map fst m' = map fst m"
    and scrub_keep: "\<not> secret_text s \<Longrightarrow> scrub s n = truncateRunes s n"
begin

lemma json_idem: "json_value (json_value v) = json_value v"
  by (rule json_keep [OF json_clean])

text \<open>Whatever the flag, an attribute is dropped, replaced by the marker, clean, or the
  shortened form of a clean text.\<close>

lemma attr_cases:
  assumes "redact_attr json_value scrub redact n k v = Some w"
  shows "w = GStr Redacted \<or> gval_clean w \<or>
    (\<exists>s m. \<not> secret_text s \<and> json_value v = GStr s \<and> w = GStr (truncateRunes s m))"
proof (cases "isHardAttrKey k")
  case True
  with assms show ?thesis by (auto simp: redact_attr_def split: if_splits)
next
  case False
  show ?thesis
  proof (cases "\<exists>s. json_value v = GStr s")
    case True
    then obtain s where s: "json_value v = GStr s" by blast
    with json_clean [of v] have ns: "\<not> secret_text s" by simp
    have "w = GStr (scrub s n) \<or> w = GStr (truncateRunes s loudMaxChars) \<or> w = GStr s"
      using assms False s by (auto simp: redact_attr_def Let_def split: if_splits)
    with ns s scrub_keep [OF ns, of n] show ?thesis by auto
  next
    case nos: False
    with assms False have "w = json_value v"
      by (auto simp: redact_attr_def Let_def split: if_splits gval.splits)
    with json_clean show ?thesis by simp
  qed
qed

lemma attr_hard:
  "isHardAttrKey k \<Longrightarrow> v \<noteq> GNil \<Longrightarrow>
     redact_attr json_value scrub redact n k v = Some (GStr Redacted)"
  by (simp add: redact_attr_def)

lemma attrs_member:
  "(k, w) \<in> set (RedactAttrsWith attrs redact json_value scrub n) \<longleftrightarrow>
     (\<exists>v. (k, v) \<in> set attrs \<and> redact_attr json_value scrub redact n k v = Some w)"
  by (induction attrs) (auto simp: RedactAttrsWith_def split: option.splits)

end

interpretation default_redactor: redactor walkJSON RedactText
  using walkJSON_clean walkJSON_fixpoint walkJSON_obj_keys RedactText_clean
  by unfold_locales blast+

section \<open>Properties\<close>


text \<open>Whatever the redaction flag, an attribute that passes the filter under a hard-denied key is the
  marker, and every other attribute is the marker, clean, or the shortened form of a clean string; a
  nil attribute does not pass.\<close>

theorem RedactAttrs_hard_deny:
  assumes "(k, w) \<in> set (RedactAttrs attrs redact)"
  shows "(isHardAttrKey k \<longrightarrow> w = GStr Redacted) \<and>
    (w = GStr Redacted \<or> gval_clean w \<or> (\<exists>s n. \<not> secret_text s \<and> w = GStr (truncateRunes s n))) \<and>
    (\<exists>v. (k, v) \<in> set attrs \<and> v \<noteq> GNil)"
proof -
  from assms obtain v where v: "(k, v) \<in> set attrs"
    and r: "redact_attr walkJSON RedactText redact PreviewMaxChars k v = Some w"
    by (auto simp: RedactAttrs_def default_redactor.attrs_member)
  from r have nn: "v \<noteq> GNil" by (auto simp: redact_attr_def)
  with r default_redactor.attr_hard [of k v redact PreviewMaxChars]
  have "isHardAttrKey k \<longrightarrow> w = GStr Redacted" by auto
  with default_redactor.attr_cases [OF r] v nn show ?thesis by blast
qed

lemma RedactAttrs_hard_deny_witness:
  "(''api-key'', GStr Redacted) \<in> set (RedactAttrs [(''api-key'', GStr ''abc'')] False)"
proof -
  have h: "isHardAttrKey ''api-key''" by code_simp
  have "\<exists>w. (''api-key'', w) \<in> set (RedactAttrs [(''api-key'', GStr ''abc'')] False)"
    using h by (simp add: RedactAttrs_def RedactAttrsWith_def redact_attr_def)
  then obtain w where w: "(''api-key'', w) \<in> set (RedactAttrs [(''api-key'', GStr ''abc'')] False)" by blast
  with RedactAttrs_hard_deny [OF w] h show ?thesis by blast
qed

end
