(* ===== verification/Layer_A.thy ===== *)
theory Layer_A
  imports Redact
begin

text \<open>
  The Layer A terminate bag (src/domain/layer_a.go): parsing and validation of the required four,
  trigger and app_output checks, the pack schema, the recognition and peeling of Layer A dumps in
  chat text, and the three views of the bag (user interface, artifacts, compact trace).

  encoding/json's Unmarshal is the parameter \<open>unmarshal\<close>: \<open>None\<close> is its error. A nil map or
  slice that becomes a value of an \<open>any\<close> map is \<open>GNil\<close>. A slice expression whose bound is out of
  range panics; where the code can reach one, the result is an option and \<open>None\<close> is the panic.
\<close>

section \<open>Data\<close>

definition layerAConfidence :: "string list" where
  "layerAConfidence = [''high'', ''med'', ''low'']"

definition g2UIForbidden :: "string list" where
  "g2UIForbidden =
     [''wish_i_knew'', ''jail_break_attempt'', ''subject_confidence'', ''data_gaps'',
      ''business_rules_triggers'', ''app_output'', ''hooks_jailbreak_score'']"

definition layerADumpMeta :: "string list" where
  "layerADumpMeta =
     [''confidence'', ''query_decomposition'', ''decomposition'', ''policy_action'',
      ''subject_confidence'', ''jail_break_attempt'', ''wish_i_knew'',
      ''business_rules_triggers'', ''node_refs'', ''entity_refs'', ''data_gaps'', ''app_output'',
      ''provenance'']"

record LayerA =
  la_summary :: string
  la_query_decomposition :: "gmap option"
  la_decomposition :: "gmap option"
  la_confidence :: string
  la_policy_action :: string
  la_triggers :: "bool amap"
  la_app_output :: "gmap option"
  la_jail_break_attempt :: "rat option"
  la_wish_i_knew :: "gval list option"
  la_data_gaps :: "gval list option"
  la_entity_refs :: gval
  la_node_refs :: gval
  la_provenance :: gval
  la_raw :: gmap
  la_errors :: "string list"
  la_warnings :: "string list"

definition emptyLayerA :: LayerA where
  "emptyLayerA = \<lparr>la_summary = [], la_query_decomposition = None, la_decomposition = None,
     la_confidence = [], la_policy_action = [], la_triggers = [], la_app_output = None,
     la_jail_break_attempt = None, la_wish_i_knew = None, la_data_gaps = None,
     la_entity_refs = GNil, la_node_refs = GNil, la_provenance = GNil, la_raw = [],
     la_errors = [], la_warnings = []\<rparr>"

definition LayerA_OK :: "LayerA \<Rightarrow> bool" where
  "LayerA_OK l \<longleftrightarrow> length (la_errors l) = 0"

record ParseLayerAOpts =
  po_rule_ids :: "string list"
  po_output_request :: gmap
  po_on_error :: string

section \<open>Parsing\<close>

definition NormalizeTriggers :: "gval \<Rightarrow> string list \<Rightarrow> bool amap \<times> string list" where
  "NormalizeTriggers raw ruleIDs =
     (if raw = GNil then ([], [])
      else (case asObjectMap raw of
        Some m \<Rightarrow> (map (\<lambda>(k, v). (k, pyBool v)) m, [])
      | None \<Rightarrow>
          (if isArray raw
           then ([], [''business_rules_triggers must be an object {id: bool}; arrays rejected''])
           else ([], [''business_rules_triggers must be an object {id: bool}; got ''
                   @ pyTypeName raw]))))"

definition valueMatchesType :: "gval \<Rightarrow> string \<Rightarrow> bool" where
  "valueMatchesType val typeName =
     (let tn0 = trim_space (to_lower typeName); tn = (if tn0 = [] then ''string'' else tn0) in
      if tn \<in> {''string'', ''str''} then asStringOk val \<noteq> None
      else if tn \<in> {''number'', ''float''} then isNumberNotBool val
      else if tn \<in> {''integer'', ''int''} then isIntNotBool val
      else if tn \<in> {''boolean'', ''bool''} then (case val of GBool _ \<Rightarrow> True | _ \<Rightarrow> False)
      else if tn \<in> {''object'', ''dict''} then asObjectMap val \<noteq> None
      else if tn \<in> {''array'', ''list''} then isArray val
      else if tn = ''null'' then val = GNil
      else True)"

text \<open>The type name of a field spec; the loop of ValidateAppOutput over the spec's fields.\<close>

definition field_type :: "gmap \<Rightarrow> string" where
  "field_type spec = (let t = asString (mget spec ''type'') in if t = [] then ''string'' else t)"

definition mismatch_msg :: "string \<Rightarrow> string \<Rightarrow> gval \<Rightarrow> string" where
  "mismatch_msg name tname val = ''app_output.'' @ name @ '' type mismatch: expected '' @ tname
     @ '', got '' @ pyTypeName val"

fun vao_loop :: "bool \<Rightarrow> gmap \<Rightarrow> gmap \<Rightarrow> gmap \<Rightarrow> string list \<Rightarrow> gmap option \<times> string list" where
  "vao_loop strip m [] out errors = (Some out, errors)"
| "vao_loop strip m ((name, specAny) # specs) out errors =
     (case asObjectMap specAny of
        None \<Rightarrow> vao_loop strip m specs out errors
      | Some spec \<Rightarrow> (case map_of m name of
          None \<Rightarrow> vao_loop strip m specs out errors
        | Some val \<Rightarrow>
            (if valueMatchesType val (field_type spec)
             then vao_loop strip m specs (amap_put name val out) errors
             else (let errors' = errors @ [mismatch_msg name (field_type spec) val] in
               if \<not> strip then (None, errors') else vao_loop strip m specs out errors'))))"

definition ValidateAppOutput :: "gval \<Rightarrow> gmap option \<Rightarrow> string \<Rightarrow> gmap option \<times> string list" where
  "ValidateAppOutput appOutput fieldsSpec onError0 =
     (let onError = (if onError0 = [] then ''strip'' else onError0); strip = (onError = ''strip'') in
      case fieldsSpec of
        None \<Rightarrow>
          (if appOutput = GNil then (None, [])
           else (case asObjectMap appOutput of
             Some m \<Rightarrow> if length m = 0 then (Some [], []) else (Some (copyMapAny (Some m)), [])
           | None \<Rightarrow> (if strip then Some [] else None,
               [''app_output present but no output_request.app.fields''])))
      | Some specs \<Rightarrow>
          (if appOutput = GNil then (None, [])
           else (case asObjectMap appOutput of
             None \<Rightarrow> (if strip then Some [] else None,
               [''app_output must be object, got '' @ pyTypeName appOutput])
           | Some m \<Rightarrow> vao_loop strip m specs [] [])))"

text \<open>The fields of the summary, the two objects, the confidence; each adds its own error.\<close>

definition parse_summary :: "gmap \<Rightarrow> LayerA \<Rightarrow> LayerA" where
  "parse_summary args l = (let summary = asString (mget args ''summary'') in
     if trim_space summary = []
     then l\<lparr>la_errors := la_errors l @ [''required field summary missing or empty'']\<rparr>
     else l\<lparr>la_summary := trim_space summary\<rparr>)"

definition parse_query_decomposition :: "gmap \<Rightarrow> LayerA \<Rightarrow> LayerA" where
  "parse_query_decomposition args l = (case asObjectMap (mget args ''query_decomposition'') of
     None \<Rightarrow> l\<lparr>la_errors := la_errors l @ [''required field query_decomposition must be an object'']\<rparr>
   | Some qd \<Rightarrow> l\<lparr>la_query_decomposition := Some qd\<rparr>)"

definition decomposition_of :: "gmap \<Rightarrow> gmap option" where
  "decomposition_of args = (case asObjectMap (mget args ''decomposition'') of
     None \<Rightarrow> asObjectMap (mget args ''query_understanding'')
   | Some d \<Rightarrow> Some d)"

definition parse_decomposition :: "gmap \<Rightarrow> LayerA \<Rightarrow> LayerA" where
  "parse_decomposition args l = (case decomposition_of args of
     None \<Rightarrow> l\<lparr>la_errors := la_errors l @ [''required field decomposition must be an object'']\<rparr>
   | Some d \<Rightarrow> l\<lparr>la_decomposition := Some d\<rparr>)"

definition parse_confidence :: "gmap \<Rightarrow> LayerA \<Rightarrow> LayerA" where
  "parse_confidence args l = (let conf = asString (mget args ''confidence'') in
     if conf \<in> set layerAConfidence then l\<lparr>la_confidence := conf\<rparr>
     else l\<lparr>la_errors := la_errors l @ [''required field confidence must be one of high|med|low'']\<rparr>)"

text \<open>The optional fields.\<close>

definition parse_optionals :: "gmap \<Rightarrow> LayerA \<Rightarrow> LayerA" where
  "parse_optionals args l =
     (let l1 = (case asFloat64 (mget args ''jail_break_attempt'') of
          Some f \<Rightarrow> l\<lparr>la_jail_break_attempt := Some f\<rparr> | None \<Rightarrow> l);
        l2 = (case map_of args ''wish_i_knew'' of
          None \<Rightarrow> l1
        | Some wik \<Rightarrow> (case asArray wik of
            Some arr \<Rightarrow> l1\<lparr>la_wish_i_knew := Some arr\<rparr>
          | None \<Rightarrow> if wik \<noteq> GNil
              then l1\<lparr>la_warnings := la_warnings l1 @
                   [''wish_i_knew ignored (expected array of objects)'']\<rparr>
              else l1));
        l3 = (case map_of args ''data_gaps'' of
          None \<Rightarrow> l2
        | Some dg \<Rightarrow> (case asArray dg of
            Some arr \<Rightarrow> l2\<lparr>la_data_gaps := Some arr\<rparr> | None \<Rightarrow> l2))
      in l3\<lparr>la_entity_refs := mget args ''entity_refs'', la_node_refs := mget args ''node_refs'',
           la_provenance := mget args ''provenance''\<rparr>)"

definition fields_spec_of :: "gmap \<Rightarrow> gmap option" where
  "fields_spec_of output_request = (case asObjectMap (mget output_request ''app'') of
     None \<Rightarrow> None | Some app \<Rightarrow> asObjectMap (mget app ''fields''))"

definition ParseLayerA :: "gval \<Rightarrow> ParseLayerAOpts \<Rightarrow> LayerA" where
  "ParseLayerA returnArgs opts = (case asObjectMap returnArgs of
     None \<Rightarrow> emptyLayerA\<lparr>la_errors := [''return payload is not an object'']\<rparr>
   | Some args \<Rightarrow>
      (let l1 = parse_summary args (emptyLayerA\<lparr>la_raw := copyMapAny (Some args)\<rparr>);
           l2 = parse_query_decomposition args l1;
           l3 = parse_decomposition args l2;
           l4 = parse_confidence args l3;
           l5 = (case asStringOk (mget args ''policy_action'') of
             Some pa \<Rightarrow> if trim_space pa \<noteq> [] then l4\<lparr>la_policy_action := trim_space pa\<rparr> else l4
           | None \<Rightarrow> l4);
           (triggers, terr) = NormalizeTriggers (mget args ''business_rules_triggers'')
             (po_rule_ids opts);
           l6 = l5\<lparr>la_triggers := triggers, la_errors := la_errors l5 @ terr\<rparr>;
           l7 = parse_optionals args l6;
           onError = (if po_on_error opts = [] then ''strip'' else po_on_error opts);
           (appOut, appErrs) = ValidateAppOutput (mget args ''app_output'')
             (fields_spec_of (po_output_request opts)) onError;
           l8 = l7\<lparr>la_app_output := appOut\<rparr>
       in if appErrs = [] then l8
          else if onError = ''fail'' then l8\<lparr>la_errors := la_errors l8 @ appErrs\<rparr>
          else l8\<lparr>la_warnings := la_warnings l8 @ appErrs\<rparr>))"

text \<open>The pack schema's required fields; fmt.Sprint of a non-string entry is the parameter
  \<open>sprint\<close>.\<close>

definition pack_have :: "LayerA \<Rightarrow> bool amap" where
  "pack_have l =
     [(''summary'', la_summary l \<noteq> []),
      (''query_decomposition'', la_query_decomposition l \<noteq> None),
      (''decomposition'', la_decomposition l \<noteq> None),
      (''confidence'', la_confidence l \<noteq> [])]"

definition pack_msg :: "string \<Rightarrow> string" where
  "pack_msg key = ''pack schema required field '' @ key @ '' missing''"

fun pack_loop :: "bool amap \<Rightarrow> string list \<Rightarrow> string list \<Rightarrow> string list" where
  "pack_loop present [] errors = errors"
| "pack_loop present (key # keys) errors =
     (if map_of present key = Some False \<and> \<not> containsString errors (pack_msg key)
      then pack_loop present keys (errors @ [pack_msg key])
      else pack_loop present keys errors)"

definition pack_required :: "(rat \<Rightarrow> string) \<Rightarrow> gmap \<Rightarrow> string list" where
  "pack_required ff sc = (case asArray (mget sc ''required'') of
     Some raw \<Rightarrow> map (go_sprint ff) raw
   | None \<Rightarrow> [''summary'', ''query_decomposition'', ''decomposition'', ''confidence''])"

definition ApplyPackSchema :: "(rat \<Rightarrow> string) \<Rightarrow> LayerA \<Rightarrow> gmap option \<Rightarrow> LayerA" where
  "ApplyPackSchema ff l schema = (case schema of
     None \<Rightarrow> l
   | Some sc \<Rightarrow> l\<lparr>la_errors := pack_loop (pack_have l) (pack_required ff sc) (la_errors l)\<rparr>)"

section \<open>Facts about validation\<close>

lemma NormalizeTriggers_errors:
  "snd (NormalizeTriggers v ids) = [] \<longleftrightarrow> v = GNil \<or> (\<exists>m. v = GObj m)"
  by (cases v) (auto simp: NormalizeTriggers_def)

text \<open>A spec entry that a given app_output satisfies, or violates.\<close>

definition field_ok :: "gmap \<Rightarrow> string \<Rightarrow> gval \<Rightarrow> bool" where
  "field_ok m name specAny \<longleftrightarrow> (\<exists>spec v. specAny = GObj spec \<and> map_of m name = Some v \<and>
     valueMatchesType v (field_type spec))"

definition field_bad :: "gmap \<Rightarrow> string \<Rightarrow> gval \<Rightarrow> bool" where
  "field_bad m name specAny \<longleftrightarrow> (\<exists>spec v. specAny = GObj spec \<and> map_of m name = Some v \<and>
     \<not> valueMatchesType v (field_type spec))"

lemma vao_loop_strip:
  assumes "amap_ok specs"
  shows "\<exists>out'. fst (vao_loop True m specs out errs) = Some out' \<and>
    (\<forall>name. map_of out' name =
      (if \<exists>sp. map_of specs name = Some sp \<and> field_ok m name sp then map_of m name
       else map_of out name))"
  using assms
proof (induction "True" m specs out errs rule: vao_loop.induct)
  case (1 m out errors)
  then show ?case by simp
next
  case (2 m name specAny specs out errors)
  from "2.prems" have ok: "amap_ok specs" and fresh: "map_of specs name = None"
    by (auto simp: amap_ok_def map_of_eq_None_iff)
  show ?case
  proof (cases "asObjectMap specAny")
    case None
    with 2 ok fresh show ?thesis by (auto simp: field_ok_def)
  next
    case (Some spec)
    then have sp: "specAny = GObj spec" by simp
    show ?thesis
    proof (cases "map_of m name")
      case None
      with "2.hyps"(2) [OF Some None ok] sp fresh show ?thesis
        by (auto simp: field_ok_def)
    next
      case (Some val)
      with "2.hyps"(3) [OF _ Some _ ok] "2.hyps"(4) [OF _ Some _ refl _ ok] sp fresh
      show ?thesis
        by (cases "valueMatchesType val (field_type spec)")
          (auto simp: field_ok_def update_conv' Let_def fun_eq_iff)
    qed
  qed
qed

lemma vao_loop_errs_prefix: "prefix errs (snd (vao_loop strip m specs out errs))"
proof (induction specs arbitrary: out errs)
  case (Cons e specs)
  obtain name sp where e: "e = (name, sp)" by (cases e)
  have "prefix errs (snd (vao_loop strip m specs out (errs @ [x])))" for x
    using Cons.IH [of "errs @ [x]"] by (meson append_prefixD)
  with Cons.IH e show ?case by (auto simp: Let_def split: option.splits)
qed simp

lemma vao_loop_errs_grow: "snd (vao_loop strip m specs out (errs @ [x])) \<noteq> errs"
  using vao_loop_errs_prefix [of "errs @ [x]" strip m specs out] by (auto simp: prefix_def)

lemma vao_loop_errs_iff:
  "snd (vao_loop strip m specs out errs) = errs \<longleftrightarrow>
     (\<forall>(name, sp) \<in> set specs. \<not> field_bad m name sp)"
proof (induction specs arbitrary: out)
  case (Cons e specs)
  obtain name sp where e: "e = (name, sp)" by (cases e)
  show ?case
  proof (cases "field_bad m name sp")
    case True
    with e show ?thesis
      by (cases strip) (auto simp: field_bad_def Let_def vao_loop_errs_grow)
  next
    case False
    with e Cons.IH show ?thesis
      by (cases sp) (auto simp: field_bad_def Let_def asObjectMap_def split: option.splits)
  qed
qed simp

lemma vao_loop_fail_iff:
  "fst (vao_loop False m specs out errs) = None \<longleftrightarrow>
     (\<exists>(name, sp) \<in> set specs. field_bad m name sp)"
proof (induction specs arbitrary: out)
  case (Cons e specs)
  obtain name sp where e: "e = (name, sp)" by (cases e)
  show ?case
  proof (cases "field_bad m name sp")
    case True
    with e show ?thesis by (auto simp: field_bad_def Let_def)
  next
    case False
    with e Cons.IH show ?thesis
      by (cases sp) (auto simp: field_bad_def Let_def asObjectMap_def split: option.splits)
  qed
qed simp

lemma vao_loop_same:
  "\<forall>(name, sp) \<in> set specs. \<not> field_bad m name sp \<Longrightarrow>
     vao_loop strip m specs out errs = vao_loop True m specs out errs"
proof (induction specs arbitrary: out)
  case (Cons e specs)
  obtain name sp where e: "e = (name, sp)" by (cases e)
  with Cons show ?case
    by (cases sp) (auto simp: field_bad_def Let_def asObjectMap_def split: option.splits)
qed simp

lemma pack_loop_set:
  "set (pack_loop present keys errs) =
     set errs \<union> pack_msg ` {k \<in> set keys. map_of present k = Some False}"
  by (induction present keys errs rule: pack_loop.induct) auto

lemma pack_loop_done:
  "\<forall>k \<in> set keys. map_of present k = Some False \<longrightarrow> pack_msg k \<in> set errs \<Longrightarrow>
     pack_loop present keys errs = errs"
  by (induction present keys errs rule: pack_loop.induct) auto

lemma pack_loop_idem:
  "pack_loop present keys (pack_loop present keys errs) = pack_loop present keys errs"
  by (rule pack_loop_done) (auto simp: pack_loop_set)

text \<open>Each parsing step only adds its own error.\<close>

lemma parse_summary_errors:
  "la_errors (parse_summary args l) = [] \<longleftrightarrow>
     la_errors l = [] \<and> trim_space (asString (mget args ''summary'')) \<noteq> []"
  by (simp add: parse_summary_def Let_def)

lemma parse_query_decomposition_errors:
  "la_errors (parse_query_decomposition args l) = [] \<longleftrightarrow>
     la_errors l = [] \<and> (\<exists>qd. mget args ''query_decomposition'' = GObj qd)"
  by (cases "mget args ''query_decomposition''")
     (simp_all add: parse_query_decomposition_def)

lemma parse_decomposition_errors:
  "la_errors (parse_decomposition args l) = [] \<longleftrightarrow>
     la_errors l = [] \<and> ((\<exists>d. mget args ''decomposition'' = GObj d) \<or>
       (\<exists>d. mget args ''query_understanding'' = GObj d))"
  by (cases "mget args ''decomposition''"; cases "mget args ''query_understanding''")
     (simp_all add: parse_decomposition_def decomposition_of_def)

lemma parse_confidence_errors:
  "la_errors (parse_confidence args l) = [] \<longleftrightarrow>
     la_errors l = [] \<and> asString (mget args ''confidence'') \<in> set layerAConfidence"
  by (simp add: parse_confidence_def Let_def)

lemma parse_optionals_errors: "la_errors (parse_optionals args l) = la_errors l"
  by (simp add: parse_optionals_def Let_def split: option.splits)

lemmas parse_step_errors = parse_summary_errors parse_query_decomposition_errors
  parse_decomposition_errors parse_confidence_errors parse_optionals_errors

lemma ParseLayerA_errors:
  "la_errors (ParseLayerA (GObj args) opts) = [] \<longleftrightarrow>
     trim_space (asString (mget args ''summary'')) \<noteq> [] \<and>
     (\<exists>qd. mget args ''query_decomposition'' = GObj qd) \<and>
     ((\<exists>d. mget args ''decomposition'' = GObj d) \<or>
       (\<exists>d. mget args ''query_understanding'' = GObj d)) \<and>
     asString (mget args ''confidence'') \<in> set layerAConfidence \<and>
     snd (NormalizeTriggers (mget args ''business_rules_triggers'') (po_rule_ids opts)) = [] \<and>
     (po_on_error opts = ''fail'' \<longrightarrow>
       snd (ValidateAppOutput (mget args ''app_output'')
         (fields_spec_of (po_output_request opts)) ''fail'') = [])"
proof -
  obtain tr terr where t: "NormalizeTriggers (mget args ''business_rules_triggers'')
      (po_rule_ids opts) = (tr, terr)" by fastforce
  obtain out errs where a: "ValidateAppOutput (mget args ''app_output'')
      (fields_spec_of (po_output_request opts))
      (if po_on_error opts = [] then ''strip'' else po_on_error opts) = (out, errs)" by fastforce
  have la: "la_errors (l\<lparr>la_policy_action := p\<rparr>) = la_errors l" for l p by simp
  have pa: "la_errors (case asStringOk x of None \<Rightarrow> l | Some pa \<Rightarrow>
      if trim_space pa \<noteq> [] then l\<lparr>la_policy_action := trim_space pa\<rparr> else l) = la_errors l" for x l
    by (simp split: option.splits)
  show ?thesis
    using a t
    by (auto simp: ParseLayerA_def Let_def parse_step_errors pa emptyLayerA_def
        simp del: asObjectMap_Some split: if_splits)
qed

section \<open>Properties\<close>

text \<open>C10. ParseLayerA accepts exactly the objects with a non-blank summary, the two decomposition
  objects (query_understanding standing in for decomposition), a confidence of high, med or low, and
  triggers that are absent or an object; with \<open>on_error = fail\<close> the app_output must also be valid.
  A payload that is not an object is never accepted.\<close>

theorem ParseLayerA_OK_iff:
  "LayerA_OK (ParseLayerA v opts) \<longleftrightarrow>
     (\<exists>args. v = GObj args \<and>
        trim_space (asString (mget args ''summary'')) \<noteq> [] \<and>
        (\<exists>qd. mget args ''query_decomposition'' = GObj qd) \<and>
        ((\<exists>d. mget args ''decomposition'' = GObj d) \<or>
         (\<exists>d. mget args ''query_understanding'' = GObj d)) \<and>
        asString (mget args ''confidence'') \<in> {''high'', ''med'', ''low''} \<and>
        (mget args ''business_rules_triggers'' = GNil \<or>
         (\<exists>t. mget args ''business_rules_triggers'' = GObj t)) \<and>
        (po_on_error opts = ''fail'' \<longrightarrow>
         snd (ValidateAppOutput (mget args ''app_output'')
           (fields_spec_of (po_output_request opts)) ''fail'') = []))"
proof (cases v)
  case (GObj args)
  then show ?thesis
    by (simp add: LayerA_OK_def ParseLayerA_errors NormalizeTriggers_errors layerAConfidence_def)
qed (simp_all add: ParseLayerA_def LayerA_OK_def emptyLayerA_def asObjectMap_def)

lemma ParseLayerA_OK_iff_witness:
  "LayerA_OK (ParseLayerA (GObj [(''summary'', GStr ''Two red shoes.''),
     (''query_decomposition'', GObj []), (''query_understanding'', GObj []),
     (''confidence'', GStr ''med''), (''app_output'', GObj [(''n'', GInt 3)])])
     \<lparr>po_rule_ids = [], po_output_request =
        [(''app'', GObj [(''fields'', GObj [(''n'', GObj [(''type'', GStr ''int'')])])])],
      po_on_error = ''fail''\<rparr>)"
  unfolding ParseLayerA_OK_iff
proof (rule exI, intro conjI)
  let ?args = "[(''summary'', GStr ''Two red shoes.''),
     (''query_decomposition'', GObj []), (''query_understanding'', GObj []),
     (''confidence'', GStr ''med''), (''app_output'', GObj [(''n'', GInt 3)])]"
  show "GObj ?args = GObj ?args" by simp
  show "trim_space (asString (mget ?args ''summary'')) \<noteq> []" by code_simp
  show "\<exists>qd. mget ?args ''query_decomposition'' = GObj qd" by (simp add: mget_def)
  show "(\<exists>d. mget ?args ''decomposition'' = GObj d) \<or>
      (\<exists>d. mget ?args ''query_understanding'' = GObj d)" by (simp add: mget_def)
  show "asString (mget ?args ''confidence'') \<in> {''high'', ''med'', ''low''}"
    by (simp add: mget_def)
  show "mget ?args ''business_rules_triggers'' = GNil \<or>
      (\<exists>t. mget ?args ''business_rules_triggers'' = GObj t)" by (simp add: mget_def)
qed code_simp

text \<open>In strip mode ValidateAppOutput keeps exactly the declared fields whose value has the
  declared type, with the value unchanged, and reports an error exactly when a declared field is
  present with another type; in fail mode that case yields no output at all, and every other case
  the output of strip mode.\<close>

theorem ValidateAppOutput_fields:
  assumes "amap_ok specs"
  shows "\<exists>out errs. ValidateAppOutput (GObj m) (Some specs) ''strip'' = (Some out, errs) \<and>
     (\<forall>name v. map_of out name = Some v \<longleftrightarrow> map_of m name = Some v \<and>
        (\<exists>spec. map_of specs name = Some (GObj spec) \<and> valueMatchesType v (field_type spec))) \<and>
     (errs = [] \<longleftrightarrow> (\<forall>(name, sp) \<in> set specs. \<not> field_bad m name sp)) \<and>
     fst (ValidateAppOutput (GObj m) (Some specs) ''fail'') = (if errs = [] then Some out else None)"
proof -
  obtain out errs where v: "vao_loop True m specs [] [] = (Some out, errs)"
    and out: "\<And>name. map_of out name =
      (if \<exists>sp. map_of specs name = Some sp \<and> field_ok m name sp then map_of m name else None)"
    using vao_loop_strip [OF assms, of m "[]" "[]"] by (metis map_of.simps(1) prod.collapse)
  have e: "errs = [] \<longleftrightarrow> (\<forall>(name, sp) \<in> set specs. \<not> field_bad m name sp)"
    using vao_loop_errs_iff [of True m specs "[]" "[]"] v by simp
  have "fst (vao_loop False m specs [] []) = (if errs = [] then Some out else None)"
  proof (cases "errs = []")
    case True
    with e vao_loop_same [of specs m False "[]" "[]"] v show ?thesis by simp
  next
    case False
    with e vao_loop_fail_iff [of m specs "[]" "[]"] show ?thesis by auto
  qed
  with v e have w: "ValidateAppOutput (GObj m) (Some specs) ''strip'' = (Some out, errs)"
    and f: "fst (ValidateAppOutput (GObj m) (Some specs) ''fail'') =
      (if errs = [] then Some out else None)"
    by (simp_all add: ValidateAppOutput_def)
  have "map_of out name = Some v \<longleftrightarrow> map_of m name = Some v \<and>
      (\<exists>spec. map_of specs name = Some (GObj spec) \<and> valueMatchesType v (field_type spec))"
    for name v
    unfolding out [of name] field_ok_def by auto
  with w e f show ?thesis by blast
qed

lemma ValidateAppOutput_fields_witness:
  "\<exists>out errs. ValidateAppOutput (GObj [(''n'', GStr ''x''), (''z'', GNil)])
       (Some [(''n'', GObj [(''type'', GStr ''int'')])]) ''strip'' = (Some out, errs) \<and>
     map_of out ''n'' = None \<and> errs \<noteq> []"
proof -
  have bad: "field_bad [(''n'', GStr ''x''), (''z'', GNil)] ''n'' (GObj [(''type'', GStr ''int'')])"
    unfolding field_bad_def by (intro exI conjI, rule refl, code_simp, code_simp)
  have nm: "\<not> valueMatchesType (GStr ''x'') (field_type [(''type'', GStr ''int'')])" by code_simp
  have "amap_ok [(''n'', GObj [(''type'', GStr ''int'')])]" by (simp add: amap_ok_def)
  from ValidateAppOutput_fields [OF this, of "[(''n'', GStr ''x''), (''z'', GNil)]"]
  obtain out errs where v: "ValidateAppOutput (GObj [(''n'', GStr ''x''), (''z'', GNil)])
       (Some [(''n'', GObj [(''type'', GStr ''int'')])]) ''strip'' = (Some out, errs)"
    and out: "\<And>v. map_of out ''n'' = Some v \<Longrightarrow> v = GStr ''x'' \<and>
      valueMatchesType v (field_type [(''type'', GStr ''int'')])"
    and errs: "errs = [] \<Longrightarrow> \<not> field_bad [(''n'', GStr ''x''), (''z'', GNil)] ''n''
      (GObj [(''type'', GStr ''int'')])"
    by auto
  from out nm have "map_of out ''n'' = None" by (cases "map_of out ''n''") blast+
  with v errs bad show ?thesis by blast
qed

text \<open>Applying a pack schema adds an error exactly for the required keys among the four that the
  bag lacks, never touches another field or an earlier error, and a second application changes
  nothing.\<close>

theorem ApplyPackSchema_spec:
  "LayerA_OK (ApplyPackSchema ff l (Some sc)) =
     (LayerA_OK l \<and> (\<forall>k. k \<in> set (pack_required ff sc) \<longrightarrow> map_of (pack_have l) k \<noteq> Some False)) \<and>
   set (la_errors (ApplyPackSchema ff l (Some sc))) = set (la_errors l) \<union>
     pack_msg ` {k \<in> set (pack_required ff sc). map_of (pack_have l) k = Some False} \<and>
   ApplyPackSchema ff (ApplyPackSchema ff l (Some sc)) (Some sc) = ApplyPackSchema ff l (Some sc) \<and>
   ApplyPackSchema ff l (Some sc) = l\<lparr>la_errors := la_errors (ApplyPackSchema ff l (Some sc))\<rparr>"
proof -
  let ?e = "pack_loop (pack_have l) (pack_required ff sc) (la_errors l)"
  have "?e = [] \<longleftrightarrow> set ?e = {}" by (simp only: set_empty)
  moreover have "pack_have (l\<lparr>la_errors := x\<rparr>) = pack_have l" for x
    by (simp add: pack_have_def)
  ultimately show ?thesis
    by (auto simp: ApplyPackSchema_def LayerA_OK_def pack_loop_set pack_loop_idem)
qed

lemma ApplyPackSchema_spec_witness:
  "\<not> LayerA_OK (ApplyPackSchema (\<lambda>x. []) emptyLayerA
     (Some [(''required'', GArr [GStr ''summary'', GInt 7])]))"
proof -
  let ?sc = "[(''required'', GArr [GStr ''summary'', GInt 7])]"
  have "''summary'' \<in> set (pack_required (\<lambda>x. []) ?sc)"
    and "map_of (pack_have emptyLayerA) ''summary'' = Some False" by code_simp+
  with ApplyPackSchema_spec [of "\<lambda>x. []" emptyLayerA ?sc] show ?thesis by blast
qed

end
