(* ===== verification/Layer_A_Text.thy ===== *)
theory Layer_A_Text
  imports Layer_A
begin

text \<open>
  Recognising and peeling Layer A dumps and pipeline envelopes in chat text (the second half of
  src/domain/layer_a.go), with the regular expressions of that file. encoding/json's Unmarshal is
  the parameter \<open>unmarshal\<close>. \<open>parsePipelineChildren\<close> slices the original text with an offset found
  in its lower-cased copy; where that offset is out of range Go panics and the model returns
  \<open>None\<close>.
\<close>

section \<open>Expressions\<close>

definition fence :: string where
  "fence = [CHR 0x60, CHR 0x60, CHR 0x60]"

definition fenceWrapRE :: rx where
  "fenceWrapRE = rseqs
     [RBot, rlit fence,
      ropt (ralts [rliti ''json'', rliti ''yaml'', rliti ''yml'', rliti ''text'', rliti ''html'',
        rliti ''xml'', rliti ''pipeline'']),
      RStar rspace, rchr (CHR 0x0A), RCap ''body'' (RLazy rdots), rchr (CHR 0x0A), rlit fence,
      RStar rspace, REot]"

text \<open>A quoted run: a quote, then escaped runes (not a newline) or runes other than quote and
  backslash, then a quote.\<close>

definition quoted_rx :: rx where
  "quoted_rx = rseqs
     [rchr (CHR 0x22),
      RStar (RAlt (RSeq (rchr (CHR 0x5C)) rdot) (RCls True [(34, 34), (92, 92)])),
      rchr (CHR 0x22)]"

definition summaryQuotedRE :: rx where
  "summaryQuotedRE = rseqs
     [RBol, rlit ''summary'', RStar rspace, rchr (CHR '':''), RStar rspace, RCap ''val'' quoted_rx,
      RStar rspace, REol]"

definition summaryUnquotedRE :: rx where
  "summaryUnquotedRE = rseqs
     [RBol, rlit ''summary'', RStar rspace, rchr (CHR '':''), RStar rspace,
      RCap ''val'' (rplus_lazy rdot), RStar rspace, REol]"

definition summaryYAMLRE :: rx where
  "summaryYAMLRE = rseqs [RBol, rlit ''summary'', RStar rspace, rchr (CHR '':'')]"

definition yamlDumpMetaREs :: "rx list" where
  "yamlDumpMetaREs =
     map (\<lambda>k. rseqs [RBol, rlit k, RStar rspace, rchr (CHR '':'')]) layerADumpMeta"

definition pipelineBlockRE :: rx where
  "pipelineBlockRE = rseqs
     [rliti ''<pipeline'', RWordB, RStar (RCls True [(62, 62)]), rchr (CHR ''>''),
      RCap ''body'' (RLazy rdots), rliti ''</pipeline>'']"

text \<open>\<open>[a-zA-Z_]\<close> and \<open>[\w-]\<close> under \<open>(?i)\<close>.\<close>

definition pipelineOpenRE :: rx where
  "pipelineOpenRE = RSeq (RCls False [(60, 60)]) (rseqs
     [RCap ''tag'' (RSeq (RCls False [(97, 122), (65, 90), (95, 95), (383, 383), (8490, 8490)])
        (RStar (RCls False [(48, 57), (65, 90), (95, 95), (97, 122), (45, 45), (383, 383),
          (8490, 8490)]))),
      RWordB, RStar (RCls True [(62, 62)]), rchr (CHR ''>'')])"

section \<open>Fences and dumps\<close>

definition stripCodeFence :: "string \<Rightarrow> string" where
  "stripCodeFence txt =
     (let t = trim_space txt in
      if t = [] then []
      else (case rx_groups fenceWrapRE t of
        Some g \<Rightarrow> trim_space (g ''body'')
      | None \<Rightarrow>
         (if has_prefix t fence
          then (let lines0 = split_on (CHR 0x0A) t;
                    lines1 = (if has_prefix (hd lines0) fence then tl lines0 else lines0);
                    lines2 = (if lines1 \<noteq> [] \<and> trim_space (last lines1) = fence
                      then butlast lines1 else lines1)
                in trim_space (join_with [CHR 0x0A] lines2))
          else t)))"

definition json_key :: "string \<Rightarrow> string" where
  "json_key k = CHR 0x22 # k @ [CHR 0x22]"

definition LooksLikeLayerADump :: "string \<Rightarrow> bool" where
  "LooksLikeLayerADump txt =
     (if txt = [] then False
      else (let body = stripCodeFence txt in
        if body = [] then False
        else (let headstr = (if 800 < length body then take 800 body else body) in
          if has_prefix body ''{'' \<and> str_contains headstr (json_key ''summary'')
          then 2 \<le> length (filter (\<lambda>k. str_contains body (json_key k)) layerADumpMeta)
          else if \<not> rx_match summaryYAMLRE body then False
          else 2 \<le> length (filter (\<lambda>re. rx_match re body) yamlDumpMetaREs))))"

text \<open>The three ways to read the summary out of a dump, tried in order.\<close>

fun first_nonblank :: "gmap \<Rightarrow> string list \<Rightarrow> string option" where
  "first_nonblank m [] = None"
| "first_nonblank m (k # ks) = (case asStringOk (mget m k) of
     Some s \<Rightarrow> if trim_space s \<noteq> [] then Some (trim_space s) else first_nonblank m ks
   | None \<Rightarrow> first_nonblank m ks)"

definition peel_json :: "(string \<Rightarrow> gval option) \<Rightarrow> string \<Rightarrow> string option" where
  "peel_json unmarshal body =
     (if \<not> has_prefix body ''{'' then None
      else (case unmarshal body of
        Some (GObj m) \<Rightarrow> first_nonblank m [''summary'', ''answer'', ''content'']
      | _ \<Rightarrow> None))"

definition unescape_raw :: "string \<Rightarrow> string" where
  "unescape_raw raw =
     str_replace [CHR 0x5C, CHR 0x5C] [CHR 0x5C]
       (str_replace [CHR 0x5C, CHR 0x22] [CHR 0x22]
         (str_replace [CHR 0x5C, CHR ''t''] [CHR 0x09]
           (str_replace [CHR 0x5C, CHR ''n''] [CHR 0x0A] raw)))"

definition peel_quoted :: "(string \<Rightarrow> gval option) \<Rightarrow> string \<Rightarrow> string option" where
  "peel_quoted unmarshal body = (case rx_groups summaryQuotedRE body of
     None \<Rightarrow> None
   | Some g \<Rightarrow> (let m = g ''val'' in case unmarshal m of
       Some v \<Rightarrow> (case asStringOk v of
         Some s \<Rightarrow> if trim_space s \<noteq> [] then Some (trim_space s) else None
       | None \<Rightarrow> None)
     | None \<Rightarrow> (let raw = unescape_raw (butlast (tl m)) in
         if trim_space raw \<noteq> [] then Some (trim_space raw) else None)))"

definition peel_unquoted :: "string \<Rightarrow> string option" where
  "peel_unquoted body = (case rx_groups summaryUnquotedRE body of
     None \<Rightarrow> None
   | Some g \<Rightarrow> (let val = trim_set {CHR 0x22, CHR 0x27} (trim_space (g ''val'')) in
       if val \<noteq> [] \<and> \<not> has_prefix val ''{''
       then Some (trim_space (str_replace [CHR 0x5C, CHR ''n''] [CHR 0x0A] val)) else None))"

definition PeelLayerASummary :: "(string \<Rightarrow> gval option) \<Rightarrow> string \<Rightarrow> string option" where
  "PeelLayerASummary unmarshal txt =
     (if trim_space txt = [] then None
      else if \<not> LooksLikeLayerADump txt then None
      else (let body = stripCodeFence txt in
        case peel_json unmarshal body of
          Some s \<Rightarrow> Some s
        | None \<Rightarrow> (case peel_quoted unmarshal body of
            Some s \<Rightarrow> Some s
          | None \<Rightarrow> peel_unquoted body)))"

section \<open>Pipeline envelopes\<close>

definition maybeJSONValue :: "(string \<Rightarrow> gval option) \<Rightarrow> string \<Rightarrow> gval" where
  "maybeJSONValue unmarshal raw =
     (let s = trim_space raw in
      if s = [] then GStr s
      else if hd s = CHR ''{'' \<or> hd s = CHR ''['' \<or> s = ''true'' \<or> s = ''false'' \<or> s = ''null''
      then (case unmarshal s of Some v \<Rightarrow> v | None \<Rightarrow> GStr s)
      else GStr s)"

definition indexFold :: "string \<Rightarrow> string \<Rightarrow> nat option" where
  "indexFold s sub = str_index (to_lower s) (to_lower sub)"

lemma pipelineOpenRE_strict: "rx_find pipelineOpenRE s = Some (i, j, cs) \<Longrightarrow> 0 < j \<and> s \<noteq> []"
proof -
  assume f: "rx_find pipelineOpenRE s = Some (i, j, cs)"
  have "i < j"
    by (rule rx_find_at_strict [OF _ f [unfolded rx_find_def]])
       (unfold pipelineOpenRE_def, rule rm_seq_class_strict)
  moreover have "j \<le> length s"
    using rx_find_at_bounds [OF f [unfolded rx_find_def]] by simp
  ultimately show ?thesis by auto
qed

text \<open>The loop over the open tags. The slice \<open>after[:idx]\<close> panics when \<open>idx\<close> exceeds the length;
  the second slice is taken after it, and panics when \<open>idx\<close> plus the length of the close tag
  does.\<close>

function parsePipelineChildren :: "(string \<Rightarrow> gval option) \<Rightarrow> string \<Rightarrow> gmap \<Rightarrow> gmap option" where
  "parsePipelineChildren unmarshal s args = (case rx_find pipelineOpenRE s of
     None \<Rightarrow> Some args
   | Some (i, j, cs) \<Rightarrow>
      (let tag = (case map_of cs ''tag'' of Some t \<Rightarrow> t | None \<Rightarrow> []); after = drop j s in
       if to_lower tag = ''pipeline'' then parsePipelineChildren unmarshal after args
       else (let closeTag = ''</'' @ tag @ ''>'' in
         case indexFold after closeTag of
           None \<Rightarrow> parsePipelineChildren unmarshal after args
         | Some idx \<Rightarrow>
            (if length after < idx + length closeTag then None
             else parsePipelineChildren unmarshal (drop (idx + length closeTag) after)
               (if tag \<noteq> [] then amap_put tag (maybeJSONValue unmarshal (take idx after)) args
                else args)))))"
  by pat_completeness auto
termination
proof (relation "measure (\<lambda>(u, s, args). length s)", goal_cases)
  case 1
  then show ?case by simp
next
  case 2
  then show ?case using pipelineOpenRE_strict by fastforce
next
  case 3
  then show ?case using pipelineOpenRE_strict by fastforce
next
  case 4
  then show ?case using pipelineOpenRE_strict by fastforce
qed

declare parsePipelineChildren.simps [simp del]

text \<open>\<open>None\<close> is a panic; \<open>Some None\<close> the nil result; \<open>Some (Some args)\<close> the arguments.\<close>

definition ParsePipelineEnvelope :: "(string \<Rightarrow> gval option) \<Rightarrow> string \<Rightarrow> gmap option option" where
  "ParsePipelineEnvelope unmarshal txt =
     (if trim_space txt = [] then Some None
      else (case rx_groups pipelineBlockRE (stripCodeFence txt) of
        None \<Rightarrow> Some None
      | Some g \<Rightarrow> (case parsePipelineChildren unmarshal (g ''body'') [] of
          None \<Rightarrow> None
        | Some args \<Rightarrow> (case asArray (mget args ''steps'') of
            Some steps \<Rightarrow> Some (if length steps = 0 then None else Some args)
          | None \<Rightarrow> Some None))))"

section \<open>The answer shown to the user\<close>

definition preferred_answer :: "string \<Rightarrow> string \<Rightarrow> string" where
  "preferred_answer uiText layerSummary =
     (if trim_space uiText \<noteq> [] then trim_space uiText
      else if trim_space layerSummary \<noteq> [] then trim_space layerSummary else [])"

text \<open>The part of UserFacingAnswer that handles a pipeline envelope.\<close>

definition pipeline_answer :: "(string \<Rightarrow> gval option) \<Rightarrow> string \<Rightarrow> string \<Rightarrow> string option" where
  "pipeline_answer unmarshal raw preferred =
     (case ParsePipelineEnvelope unmarshal raw of
        None \<Rightarrow> None
      | Some None \<Rightarrow> Some raw
      | Some (Some pipe) \<Rightarrow>
         (case (if preferred \<noteq> [] \<and> \<not> LooksLikeLayerADump preferred
                then map_option (\<lambda>e. e = None) (ParsePipelineEnvelope unmarshal preferred)
                else Some False) of
            None \<Rightarrow> None
          | Some True \<Rightarrow> Some preferred
          | Some False \<Rightarrow> (case asStringOk (mget pipe ''summary'') of
              Some s \<Rightarrow> Some (if trim_space s \<noteq> [] then trim_space s
                else if preferred \<noteq> [] then preferred else raw)
            | None \<Rightarrow> Some (if preferred \<noteq> [] then preferred else raw))))"

definition UserFacingAnswer :: "(string \<Rightarrow> gval option) \<Rightarrow> string \<Rightarrow> string \<Rightarrow> string \<Rightarrow>
    string option" where
  "UserFacingAnswer unmarshal answer uiText layerSummary =
     (let preferred = preferred_answer uiText layerSummary in
      if LooksLikeLayerADump answer then
        (if preferred \<noteq> [] \<and> \<not> LooksLikeLayerADump preferred then Some preferred
         else (case PeelLayerASummary unmarshal answer of
           Some peeled \<Rightarrow> Some peeled
         | None \<Rightarrow> if preferred \<noteq> [] then Some preferred
             else pipeline_answer unmarshal answer preferred))
      else pipeline_answer unmarshal answer preferred)"

section \<open>Byte classes through the matcher\<close>

text \<open>What holds of every byte of the input holds of every byte of the rest and of the groups.\<close>

definition state_all :: "(char \<Rightarrow> bool) \<Rightarrow> rstate \<Rightarrow> bool" where
  "state_all Q st \<longleftrightarrow> (\<forall>c \<in> set (rest_of st). Q c) \<and>
     (\<forall>(n, v) \<in> set (caps_of st). \<forall>c \<in> set v. Q c)"

lemma state_all_class: "state_all Q st \<Longrightarrow> t \<in> set (rm_class neg rs st) \<Longrightarrow> state_all Q t"
  by (cases st) (auto simp: rm_class_def state_all_def Let_def split: if_splits prod.splits
      dest: in_set_dropD)

lemma state_all_test: "state_all Q st \<Longrightarrow> t \<in> set (rm_test P st) \<Longrightarrow> state_all Q t"
  by (auto simp: rm_test_def split: if_splits)

lemma state_all_rm: "t \<in> set (rm r st) \<Longrightarrow> state_all Q st \<Longrightarrow> state_all Q t"
proof (induction r st arbitrary: t rule: rm.induct)
  case (3 a b st)
  then obtain u where "u \<in> set (rm a st)" "length (rest_of u) \<le> length (rest_of st)"
    "t \<in> set (rm b u)" by auto
  with 3 show ?case by fastforce
next
  case (4 a b st)
  then show ?case by auto
next
  case (5 a st)
  from in_rm_star [OF "5.prems"(1)] 5 show ?case by fastforce
next
  case (6 a st)
  from in_rm_lazy [OF "6.prems"(1)] 6 show ?case by fastforce
next
  case (7 n a st)
  then obtain u where u: "u \<in> set (rm a st)" "t = rm_capture n (rest_of st) u" by auto
  with 7 have "state_all Q u" by blast
  moreover obtain p s cs where "u = RState p s cs" by (cases u)
  ultimately show ?case using u(2) "7.prems"(2)
    by (auto simp: state_all_def rm_capture_def dest: in_set_takeD)
qed (auto intro: state_all_class state_all_test)

lemma rx_find_at_all:
  "rx_find_at r p off s = Some (i, j, cs) \<Longrightarrow> (\<forall>c \<in> set s. Q c) \<Longrightarrow>
     (n, v) \<in> set cs \<Longrightarrow> \<forall>c \<in> set v. Q c"
proof (induction r p off s rule: rx_find_at.induct)
  case (1 r p off s)
  show ?case
  proof (cases "rm r (RState p s [])")
    case (Cons st sts)
    with "1.prems"(2) have "state_all Q st"
      using state_all_rm [of st r "RState p s []" Q] by (simp add: state_all_def)
    with Cons "1.prems"(1,3) show ?thesis
      by (auto simp: rx_find_at.simps [of r p off s] state_all_def)
  next
    case Nil
    with "1.prems"(1) have ne: "s \<noteq> []" and
      f: "rx_find_at r (Some (s ! (snd (decode_rune s) - 1))) (off + snd (decode_rune s))
         (drop (snd (decode_rune s)) s) = Some (i, j, cs)"
      by (auto simp: rx_find_at.simps [of r p off s] Let_def split: if_splits)
    from "1.prems"(2) have "\<forall>c \<in> set (drop (snd (decode_rune s)) s). Q c"
      by (auto dest: in_set_dropD)
    from "1.IH" [OF Nil ne refl f this "1.prems"(3)] show ?thesis .
  qed
qed

definition ascii :: "string \<Rightarrow> bool" where
  "ascii s \<longleftrightarrow> (\<forall>c \<in> set s. (of_char c :: nat) < 128)"

lemma ascii_append [simp]: "ascii (a @ b) \<longleftrightarrow> ascii a \<and> ascii b"
  by (auto simp: ascii_def)

lemma ascii_drop [simp]: "ascii s \<Longrightarrow> ascii (drop n s)"
  by (auto simp: ascii_def dest: in_set_dropD)

lemma to_lower_ascii: "ascii s \<Longrightarrow> length (to_lower s) = length s"
  by (induction s rule: to_lower.induct) (auto simp: ascii_def)

lemma indexFold_ascii:
  "ascii s \<Longrightarrow> ascii sub \<Longrightarrow> indexFold s sub = Some i \<Longrightarrow> i + length sub \<le> length s"
  using str_index_split [of "to_lower s" "to_lower sub" i]
  by (auto simp: indexFold_def to_lower_ascii)

lemma parsePipelineChildren_ascii:
  "ascii s \<Longrightarrow> parsePipelineChildren unmarshal s args \<noteq> None"
proof (induction unmarshal s args rule: parsePipelineChildren.induct)
  case (1 unmarshal s args)
  show ?case
  proof (cases "rx_find pipelineOpenRE s")
    case None
    then show ?thesis by (simp add: parsePipelineChildren.simps [of unmarshal s])
  next
    case (Some m)
    then obtain i j cs where f: "rx_find pipelineOpenRE s = Some (i, j, cs)"
      by (cases m) auto
    define tag where "tag = (case map_of cs ''tag'' of Some t \<Rightarrow> t | None \<Rightarrow> [])"
    have "ascii tag"
    proof (cases "map_of cs ''tag''")
      case (Some t)
      with map_of_SomeD [OF Some] "1.prems" show ?thesis
        using rx_find_at_all [OF f [unfolded rx_find_def], where Q = "\<lambda>c. (of_char c :: nat) < 128"]
        by (simp add: tag_def ascii_def)
    qed (simp add: tag_def ascii_def)
    then have close: "ascii (''</'' @ tag @ ''>'')" by (auto simp: ascii_def)
    have after: "ascii (drop j s)" using "1.prems" by simp
    show ?thesis
    proof (cases "to_lower tag = ''pipeline''")
      case True
      with "1.IH"(1) [OF f refl refl tag_def refl] f after show ?thesis
        by (simp add: parsePipelineChildren.simps [of unmarshal s] tag_def [symmetric] Let_def)
    next
      case False
      show ?thesis
      proof (cases "indexFold (drop j s) (''</'' @ tag @ ''>'')")
        case None
        with "1.IH"(2) [OF f refl refl tag_def refl False refl] False f after show ?thesis
          by (simp add: parsePipelineChildren.simps [of unmarshal s] tag_def [symmetric] Let_def)
      next
        case (Some k)
        note len = indexFold_ascii [OF after close Some]
        have "parsePipelineChildren unmarshal s args = parsePipelineChildren unmarshal
          (drop (k + length (''</'' @ tag @ ''>'')) (drop j s))
          (if tag \<noteq> [] then amap_put tag (maybeJSONValue unmarshal (take k (drop j s))) args
           else args)"
          using f False Some len
          by (subst parsePipelineChildren.simps) (simp add: tag_def [symmetric] Let_def)
        moreover have "parsePipelineChildren unmarshal
          (drop (k + length (''</'' @ tag @ ''>'')) (drop j s))
          (if tag \<noteq> [] then amap_put tag (maybeJSONValue unmarshal (take k (drop j s))) args
           else args) \<noteq> None"
          by (rule "1.IH"(3) [OF f refl refl tag_def refl False refl Some])
             (use len in simp, rule ascii_drop [OF after])
        ultimately show ?thesis by simp
      qed
    qed
  qed
qed

text \<open>The text operations only drop bytes, apart from the separator of the joined lines.\<close>

lemma ascii_subset: "set t \<subseteq> set s \<Longrightarrow> ascii s \<Longrightarrow> ascii t"
  by (auto simp: ascii_def)

lemma ascii_trim_space: "ascii s \<Longrightarrow> ascii (trim_space s)"
  by (rule ascii_subset [of _ s])
     (metis order_trans set_mono_prefix set_mono_suffix trim_left_suffix trim_right_prefix
       trim_space_def)

lemma split_on_subset: "\<forall>p \<in> set (split_on sep s). set p \<subseteq> set s"
proof (induction s)
  case (Cons c cs)
  obtain p ps where "split_on sep cs = p # ps"
    by (cases "split_on sep cs") auto
  with Cons show ?case by auto
qed simp

lemma ascii_Nil [simp]: "ascii []"
  by (simp add: ascii_def)

lemma ascii_join: "ascii sep \<Longrightarrow> \<forall>p \<in> set ps. ascii p \<Longrightarrow> ascii (join_with sep ps)"
  by (induction sep ps rule: join_with.induct) simp_all

lemma ascii_groups: "ascii s \<Longrightarrow> rx_groups r s = Some g \<Longrightarrow> ascii (g n)"
proof -
  assume a: "ascii s" and "rx_groups r s = Some g"
  then obtain i j cs where f: "rx_find_at r None 0 s = Some (i, j, cs)"
    and g: "g n = (case map_of cs n of None \<Rightarrow> [] | Some x \<Rightarrow> x)"
    by (auto simp: rx_groups_def rx_find_def)
  show "ascii (g n)"
  proof (cases "map_of cs n")
    case (Some v)
    from rx_find_at_all [OF f _ map_of_SomeD [OF Some], where Q = "\<lambda>c. (of_char c :: nat) < 128"]
    show ?thesis using a g Some by (simp add: ascii_def)
  qed (simp add: g ascii_def)
qed

lemma ascii_stripCodeFence:
  assumes "ascii s"
  shows "ascii (stripCodeFence s)"
proof -
  have t: "ascii (trim_space s)" by (rule ascii_trim_space [OF assms])
  have lines: "\<forall>p \<in> set (split_on c (trim_space s)). ascii p" for c
    using split_on_subset ascii_subset t by blast
  have nl: "ascii [CHR 0x0A]" by (simp add: ascii_def)
  have sub: "set (butlast (tl xs)) \<subseteq> set xs" "set (tl xs) \<subseteq> set xs" "set (butlast xs) \<subseteq> set xs"
    for xs :: "string list"
    by (cases xs; auto dest: in_set_butlastD)+
  have join: "ascii (trim_space (join_with [CHR 0x0A] ps))"
    if "set ps \<subseteq> set (split_on (CHR 0x0A) (trim_space s))" for ps
    using that lines [of "CHR 0x0A"] by (intro ascii_trim_space ascii_join [OF nl]) blast
  show ?thesis
  proof (cases "rx_groups fenceWrapRE (trim_space s)")
    case (Some g)
    with ascii_trim_space [OF ascii_groups [OF t Some, of "''body''"]] show ?thesis
      by (simp add: stripCodeFence_def Let_def)
  next
    case None
    with t join sub show ?thesis
      by (simp add: stripCodeFence_def Let_def)
  qed
qed

lemma ParsePipelineEnvelope_ascii:
  assumes "ascii s"
  shows "ParsePipelineEnvelope unmarshal s \<noteq> None"
proof (cases "rx_groups pipelineBlockRE (stripCodeFence s)")
  case (Some g)
  with ascii_groups [OF ascii_stripCodeFence [OF assms] Some, of "''body''"]
    parsePipelineChildren_ascii [of "g ''body''" unmarshal "[]"]
  show ?thesis
    by (auto simp: ParsePipelineEnvelope_def split: option.splits)
qed (simp add: ParsePipelineEnvelope_def)

lemma pipeline_answer_ascii:
  "ascii raw \<Longrightarrow> ascii preferred \<Longrightarrow> pipeline_answer unmarshal raw preferred \<noteq> None"
  using ParsePipelineEnvelope_ascii [of raw unmarshal]
    ParsePipelineEnvelope_ascii [of preferred unmarshal]
  by (auto simp: pipeline_answer_def split: option.splits bool.splits)

lemma preferred_ascii: "ascii a \<Longrightarrow> ascii b \<Longrightarrow> ascii (preferred_answer a b)"
  by (auto simp: preferred_answer_def ascii_trim_space)

section \<open>Properties\<close>

text \<open>UserFacingAnswer never panics on ASCII chat text, whatever JSON decoding yields: the slice
  taken at an offset of the lower-cased copy stays in range.\<close>

theorem UserFacingAnswer_no_panic:
  assumes "ascii answer" and "ascii uiText" and "ascii layerSummary"
  shows "UserFacingAnswer unmarshal answer uiText layerSummary \<noteq> None"
proof -
  let ?p = "preferred_answer uiText layerSummary"
  have "pipeline_answer unmarshal answer ?p \<noteq> None"
    using assms by (intro pipeline_answer_ascii preferred_ascii)
  then show ?thesis by (auto simp: UserFacingAnswer_def Let_def split: option.splits)
qed

lemma UserFacingAnswer_no_panic_witness:
  "UserFacingAnswer (\<lambda>s. None) ''<pipeline><steps>[]</steps></pipeline>'' [] ''done'' \<noteq> None"
  by (rule UserFacingAnswer_no_panic; code_simp)

text \<open>The offset is wrong as soon as a rune has a longer lower case: a pipeline child whose
  body is U+023A makes the second slice run past the end, and the call panics.\<close>

theorem UserFacingAnswer_panics:
  "UserFacingAnswer unmarshal
     (''<pipeline><a>'' @ [CHR 0xC8, CHR 0xBA] @ ''</a></pipeline>'') [] [] = None"
  by code_simp

text \<open>Ordinary prose (no Layer A dump, no pipeline block) is shown byte for byte; a dump is
  replaced by the preferred text when that is no dump itself, else by its peeled summary, else by
  whatever preferred text there is.\<close>

theorem UserFacingAnswer_prose:
  fixes uiText layerSummary :: string
  defines "preferred \<equiv> preferred_answer uiText layerSummary"
  shows "(\<not> LooksLikeLayerADump answer \<and> \<not> rx_match pipelineBlockRE (stripCodeFence answer) \<longrightarrow>
       UserFacingAnswer unmarshal answer uiText layerSummary = Some answer) \<and>
     (LooksLikeLayerADump answer \<and> preferred \<noteq> [] \<longrightarrow>
       UserFacingAnswer unmarshal answer uiText layerSummary =
         Some (if \<not> LooksLikeLayerADump preferred then preferred
               else case PeelLayerASummary unmarshal answer of Some s \<Rightarrow> s | None \<Rightarrow> preferred))"
proof (intro conjI impI; elim conjE)
  assume "\<not> LooksLikeLayerADump answer" and "\<not> rx_match pipelineBlockRE (stripCodeFence answer)"
  moreover from this have "rx_groups pipelineBlockRE (stripCodeFence answer) = None"
    by (auto simp: rx_match_def rx_groups_def not_Some_eq [symmetric] simp del: not_Some_eq)
  then have "ParsePipelineEnvelope unmarshal answer = Some None"
    by (simp add: ParsePipelineEnvelope_def)
  ultimately show "UserFacingAnswer unmarshal answer uiText layerSummary = Some answer"
    by (simp add: UserFacingAnswer_def pipeline_answer_def Let_def)
next
  assume "LooksLikeLayerADump answer" and "preferred \<noteq> []"
  then show "UserFacingAnswer unmarshal answer uiText layerSummary =
         Some (if \<not> LooksLikeLayerADump preferred then preferred
               else case PeelLayerASummary unmarshal answer of Some s \<Rightarrow> s | None \<Rightarrow> preferred)"
    by (simp add: UserFacingAnswer_def preferred_def Let_def split: option.splits)
qed

lemma UserFacingAnswer_prose_witness:
  "UserFacingAnswer (\<lambda>s. None) ''Hi.'' ''x'' [] = Some ''Hi.'' \<and>
   UserFacingAnswer (\<lambda>s. None) (''summary: x'' @ [CHR 0x0A] @ ''confidence: low'' @
     [CHR 0x0A] @ ''provenance:'') '' Two shoes. '' [] = Some ''Two shoes.''"
proof -
  let ?d = "''summary: x'' @ [CHR 0x0A] @ ''confidence: low'' @
     [CHR 0x0A] @ ''provenance:''"
  have "\<not> LooksLikeLayerADump ''Hi.''"
    and "\<not> rx_match pipelineBlockRE (stripCodeFence ''Hi.'')" by code_simp+
  moreover have "LooksLikeLayerADump ?d" by code_simp
  moreover have "preferred_answer '' Two shoes. '' [] = ''Two shoes.''"
    and "\<not> LooksLikeLayerADump ''Two shoes.''" by code_simp+
  ultimately show ?thesis
    using UserFacingAnswer_prose [of "''Hi.''" "\<lambda>s. None" "''x''" "[]"]
      UserFacingAnswer_prose [of ?d "\<lambda>s. None" "'' Two shoes. ''" "[]"] by simp
qed

end
