(* ===== verification/Policy.thy ===== *)
theory Policy
  imports Layer_A_Text Rules
begin

text \<open>
  The views of a Layer A bag (UIView, ArtifactsView, CompactLayerA of src/domain/layer_a.go) and
  the post-terminate policy table (src/domain/policy.go): sticky flags, the jailbreak trigger test,
  the message map and DecidePolicy. Scores are rationals (the table only compares them).
\<close>

section \<open>Views\<close>

definition map_value :: "gmap option \<Rightarrow> gval" where
  "map_value m = (case m of None \<Rightarrow> GNil | Some kv \<Rightarrow> GObj kv)"

definition slice_value :: "gval list option \<Rightarrow> gval" where
  "slice_value xs = (case xs of None \<Rightarrow> GNil | Some ys \<Rightarrow> GArr ys)"

definition flags_value :: "bool amap \<Rightarrow> gval" where
  "flags_value m = GObj (map (\<lambda>(k, b). (k, GBool b)) m)"

definition UIView :: "LayerA \<Rightarrow> string option \<Rightarrow> gmap" where
  "UIView l uiText =
     (let txt = (case uiText of None \<Rightarrow> la_summary l | Some t \<Rightarrow> t);
          out = [(''summary'', GStr txt), (''confidence'', nilIfEmpty (la_confidence l)),
                 (''policy_action'', nilIfEmpty (la_policy_action l))]
      in fold AList.delete g2UIForbidden out)"

definition ArtifactsView :: "LayerA \<Rightarrow> gval \<Rightarrow> string \<Rightarrow> bool amap \<Rightarrow> gmap" where
  "ArtifactsView l hooksJailbreakScore policy flags =
     [(''summary'', GStr (la_summary l)),
      (''query_decomposition'', map_value (la_query_decomposition l)),
      (''decomposition'', map_value (la_decomposition l)),
      (''confidence'', nilIfEmpty (la_confidence l)),
      (''policy_action'', nilIfEmpty (la_policy_action l)),
      (''business_rules_triggers'', flags_value (la_triggers l)),
      (''app_output'', map_value (la_app_output l)),
      (''jail_break_attempt'', (case la_jail_break_attempt l of None \<Rightarrow> GNil | Some f \<Rightarrow> GFloat f)),
      (''hooks_jailbreak_score'', hooksJailbreakScore),
      (''wish_i_knew'', slice_value (la_wish_i_knew l)),
      (''data_gaps'', slice_value (la_data_gaps l)),
      (''entity_refs'', la_entity_refs l),
      (''node_refs'', la_node_refs l),
      (''provenance'', la_provenance l),
      (''policy'', nilIfEmpty policy),
      (''flags'', flags_value flags),
      (''errors'', GArr (map GStr (la_errors l))),
      (''warnings'', GArr (map GStr (la_warnings l))),
      (''raw'', GObj (la_raw l))]"

definition CompactLayerA :: "LayerA \<Rightarrow> string \<Rightarrow> gmap" where
  "CompactLayerA l via0 =
     (let via = (if via0 = [] then ''client_terminate'' else via0);
          decomp = (case la_decomposition l of None \<Rightarrow> [] | Some d \<Rightarrow> d);
          emptyTargets = (\<not> pyBool (mget decomp ''targets''));
          synthetic = (la_policy_action l = ''error'' \<and> emptyTargets \<or>
            LooksLikeLayerADump (la_summary l))
      in [(''ok'', GBool (LayerA_OK l)),
          (''summary'', GStr (la_summary l)),
          (''confidence'', nilIfEmpty (la_confidence l)),
          (''policy_action'', nilIfEmpty (la_policy_action l)),
          (''query_decomposition'', map_value (la_query_decomposition l)),
          (''decomposition'', map_value (la_decomposition l)),
          (''synthetic'', GBool synthetic),
          (''via'', GStr via),
          (''errors'', GArr (map GStr (la_errors l))),
          (''warnings'', GArr (map GStr (la_warnings l)))])"

section \<open>The policy table\<close>

abbreviation PolicyAnswer :: string where "PolicyAnswer \<equiv> ''answer''"
abbreviation PolicyClarify :: string where "PolicyClarify \<equiv> ''clarify''"
abbreviation PolicyRefuse :: string where "PolicyRefuse \<equiv> ''refuse''"
abbreviation PolicyError :: string where "PolicyError \<equiv> ''error''"

definition defaultMessageJailbreakSoft :: string where
  "defaultMessageJailbreakSoft =
     ''I can only help with questions about our product using store data. '' @
     ''I can'' @ [CHR 0x27] @ ''t ignore those limits or invent offers that are not in our system.''"

definition defaultMessageFailure :: string where
  "defaultMessageFailure =
     ''Sorry '' @ [CHR 0xE2, CHR 0x80, CHR 0x94] @ '' I can'' @ [CHR 0x27] @
     ''t complete that request. Could you rephrase what you need?''"

record PolicySettings =
  ps_messages :: "string amap"
  ps_sticky_flags :: "bool amap"
  ps_soft_require :: bool

record DecidePolicyOpts =
  dp_settings :: PolicySettings
  dp_hooks_score :: rat
  dp_hooks_must_refuse :: bool
  dp_brand_inject :: bool

record PolicyDecision =
  pd_policy :: string
  pd_ui_text :: string
  pd_flags :: "bool amap"
  pd_hooks_score :: rat
  pd_must_refuse :: bool
  pd_forced :: bool
  pd_reason :: string
  pd_soft_missing :: bool

definition PolicyDecision_UI :: "PolicyDecision \<Rightarrow> LayerA \<Rightarrow> gmap" where
  "PolicyDecision_UI d l = UIView l (Some (pd_ui_text d))"

definition PolicyDecision_Artifacts :: "PolicyDecision \<Rightarrow> LayerA \<Rightarrow> gmap" where
  "PolicyDecision_Artifacts d l =
     ArtifactsView l (GFloat (pd_hooks_score d)) (pd_policy d) (pd_flags d)"

fun set_true_flags :: "bool amap \<Rightarrow> bool amap \<Rightarrow> bool amap" where
  "set_true_flags out [] = out"
| "set_true_flags out ((k, v) # m) = set_true_flags (if v then amap_put k True out else out) m"

definition StickyOrFlags :: "bool amap \<Rightarrow> bool amap \<Rightarrow> bool amap" where
  "StickyOrFlags prior triggers = set_true_flags (set_true_flags [] prior) triggers"

definition JailbreakKeysHit :: "bool amap \<Rightarrow> bool" where
  "JailbreakKeysHit triggers = list_ex (\<lambda>k. map_of triggers k = Some True) JailbreakRuleIDs"

definition msg_of :: "string amap \<Rightarrow> string \<Rightarrow> string" where
  "msg_of msgs k = (case map_of msgs k of None \<Rightarrow> [] | Some m \<Rightarrow> m)"

definition MapMessage :: "string \<Rightarrow> PolicySettings \<Rightarrow> LayerA \<Rightarrow> string" where
  "MapMessage policy settings l =
     (let msgs = ps_messages settings in
      if policy = PolicyRefuse then
        (let soft0 = msg_of msgs ''message_jailbreak_soft'';
             soft = (if soft0 = [] then defaultMessageJailbreakSoft else soft0)
         in if la_summary l \<noteq> [] \<and> la_policy_action l = PolicyRefuse then la_summary l else soft)
      else if policy = PolicyError then
        (if msg_of msgs ''message_failure'' \<noteq> [] then msg_of msgs ''message_failure''
         else defaultMessageFailure)
      else if policy = PolicyClarify then
        (if la_summary l \<noteq> [] then la_summary l
         else if msg_of msgs ''message_clarify'' \<noteq> [] then msg_of msgs ''message_clarify''
         else la_summary l)
      else la_summary l)"

text \<open>The switch of DecidePolicy, first match wins: policy, forced, reason.\<close>

definition policy_table :: "LayerA \<Rightarrow> DecidePolicyOpts \<Rightarrow> string \<times> bool \<times> string" where
  "policy_table l opts =
     (let score = dp_hooks_score opts;
          jbaF = (case la_jail_break_attempt l of None \<Rightarrow> 0 | Some f \<Rightarrow> f)
      in if dp_hooks_must_refuse opts then (PolicyRefuse, True, ''hooks_must_refuse'')
         else if \<not> LayerA_OK l then (PolicyError, True, ''layer_a_validation_failed'')
         else if JailbreakKeysHit (la_triggers l) \<and> (1 / 2 \<le> jbaF \<or> 1 / 2 \<le> score)
           then (PolicyRefuse, True, ''jailbreak_triggers_and_score'')
         else if la_policy_action l \<in> {PolicyAnswer, PolicyClarify, PolicyRefuse, PolicyError}
           then (la_policy_action l, False, ''model_policy_action'')
         else if incompleteObject (la_query_decomposition l) \<or> incompleteObject (la_decomposition l)
           then (PolicyClarify, False, ''incomplete_layer_a'')
         else (PolicyAnswer, False, ''default_answer''))"

definition DecidePolicy :: "LayerA \<Rightarrow> DecidePolicyOpts \<Rightarrow> PolicyDecision" where
  "DecidePolicy l opts =
     (let flags = StickyOrFlags (ps_sticky_flags (dp_settings opts)) (la_triggers l);
          softMissing = (ps_soft_require (dp_settings opts) \<and> dp_brand_inject opts \<and>
            la_policy_action l = []);
          (policy, forced, reason) = policy_table l opts
      in \<lparr>pd_policy = policy, pd_ui_text = MapMessage policy (dp_settings opts) l,
          pd_flags = flags, pd_hooks_score = dp_hooks_score opts,
          pd_must_refuse = (policy = PolicyRefuse \<and> forced), pd_forced = forced,
          pd_reason = reason, pd_soft_missing = softMissing\<rparr>)"

section \<open>Facts\<close>

lemma set_true_flags_map:
  "map_of (set_true_flags out m) k =
     (if (k, True) \<in> set m then Some True else map_of out k)"
  by (induction out m rule: set_true_flags.induct) (auto simp: update_conv')

lemma amap_ok_set_true_flags [preserve]: "amap_ok out \<Longrightarrow> amap_ok (set_true_flags out m)"
  by (induction out m rule: set_true_flags.induct) (auto simp: amap_simps)

lemma StickyOrFlags_map:
  "map_of (StickyOrFlags prior triggers) k =
     (if (k, True) \<in> set prior \<or> (k, True) \<in> set triggers then Some True else None)"
  by (simp add: StickyOrFlags_def set_true_flags_map)

lemma StickyOrFlags_ok: "amap_ok (StickyOrFlags prior triggers)"
  unfolding StickyOrFlags_def by (intro preserve)

lemma sticky_member: "(k, True) \<in> set (StickyOrFlags prior triggers) \<longleftrightarrow>
    (k, True) \<in> set prior \<or> (k, True) \<in> set triggers"
  using StickyOrFlags_ok [of prior triggers] StickyOrFlags_map [of prior triggers k]
  by (auto simp: amap_ok_def split: if_splits)

lemma sticky_turns:
  "(k, True) \<in> set (foldl StickyOrFlags flags turns) \<longleftrightarrow>
     (k, True) \<in> set flags \<or> (\<exists>t \<in> set turns. (k, True) \<in> set t)"
  by (induction turns arbitrary: flags) (auto simp: sticky_member)

lemma JailbreakKeysHit_iff:
  "JailbreakKeysHit t \<longleftrightarrow> (\<exists>k \<in> set JailbreakRuleIDs. map_of t k = Some True)"
  by (simp add: JailbreakKeysHit_def list_ex_iff)

lemma policy_table_cases:
  "policy_table l opts \<in>
     {(PolicyRefuse, True, ''hooks_must_refuse''), (PolicyError, True, ''layer_a_validation_failed''),
      (PolicyRefuse, True, ''jailbreak_triggers_and_score''),
      (PolicyAnswer, False, ''model_policy_action''), (PolicyClarify, False, ''model_policy_action''),
      (PolicyRefuse, False, ''model_policy_action''), (PolicyError, False, ''model_policy_action''),
      (PolicyClarify, False, ''incomplete_layer_a''), (PolicyAnswer, False, ''default_answer'')}"
  by (auto simp: policy_table_def Let_def)

lemma DecidePolicy_simps:
  "pd_policy (DecidePolicy l opts) = fst (policy_table l opts)"
  "pd_forced (DecidePolicy l opts) = fst (snd (policy_table l opts))"
  "pd_must_refuse (DecidePolicy l opts) \<longleftrightarrow>
     fst (policy_table l opts) = PolicyRefuse \<and> fst (snd (policy_table l opts))"
  "pd_ui_text (DecidePolicy l opts) = MapMessage (fst (policy_table l opts)) (dp_settings opts) l"
  "pd_flags (DecidePolicy l opts) =
     StickyOrFlags (ps_sticky_flags (dp_settings opts)) (la_triggers l)"
  "pd_hooks_score (DecidePolicy l opts) = dp_hooks_score opts"
  by (simp_all add: DecidePolicy_def Let_def split_def)

lemma UIView_eq:
  "UIView l t = [(''summary'', GStr (case t of None \<Rightarrow> la_summary l | Some x \<Rightarrow> x)),
     (''confidence'', nilIfEmpty (la_confidence l)),
     (''policy_action'', nilIfEmpty (la_policy_action l))]"
  by (simp add: UIView_def g2UIForbidden_def Let_def)

section \<open>Properties\<close>



text \<open>Neither what the chat UI binds nor the compact trace depends on a G2 field (wishes,
  jailbreak score, data gaps, triggers, app_output), and neither has a G2 key; the artifacts view
  has all of them that the bag carries.\<close>

theorem UI_hides_G2:
  fixes l :: LayerA and w j g t a r er nr pr
  defines "l' \<equiv> l\<lparr>la_wish_i_knew := w, la_jail_break_attempt := j, la_data_gaps := g,
     la_triggers := t, la_app_output := a, la_raw := r, la_entity_refs := er, la_node_refs := nr,
     la_provenance := pr\<rparr>"
  shows "UIView l' ui = UIView l ui \<and> CompactLayerA l' via = CompactLayerA l via \<and>
     PolicyDecision_UI (DecidePolicy l opts) l' = PolicyDecision_UI (DecidePolicy l opts) l \<and>
     keys_of (UIView l ui) = {''summary'', ''confidence'', ''policy_action''} \<and>
     keys_of (CompactLayerA l via) \<inter> set g2UIForbidden = {} \<and>
     set g2UIForbidden - {''subject_confidence''} \<subseteq> keys_of (ArtifactsView l s p f)"
proof (intro conjI)
  show "UIView l' ui = UIView l ui" and "CompactLayerA l' via = CompactLayerA l via"
    and "PolicyDecision_UI (DecidePolicy l opts) l' = PolicyDecision_UI (DecidePolicy l opts) l"
    by (simp_all add: UIView_eq CompactLayerA_def PolicyDecision_UI_def LayerA_OK_def l'_def Let_def
        split: option.splits)
  show "keys_of (UIView l ui) = {''summary'', ''confidence'', ''policy_action''}"
    by (simp add: UIView_eq)
  show "keys_of (CompactLayerA l via) \<inter> set g2UIForbidden = {}"
    by (simp add: CompactLayerA_def g2UIForbidden_def Let_def)
  show "set g2UIForbidden - {''subject_confidence''} \<subseteq> keys_of (ArtifactsView l s p f)"
    by (auto simp: ArtifactsView_def g2UIForbidden_def)
qed

text \<open>Flags are sticky over a session: after any sequence of turns a flag is set exactly when it
  was set before or some turn raised it, no turn clears it, and no flag is ever stored as false.\<close>

theorem StickyOrFlags_turns:
  "map_of (foldl StickyOrFlags (StickyOrFlags [] flags) turns) k =
     (if (k, True) \<in> set flags \<or> (\<exists>t \<in> set turns. (k, True) \<in> set t) then Some True else None)"
proof (induction turns rule: rev_induct)
  case Nil
  show ?case by (simp add: StickyOrFlags_map)
next
  case (snoc t turns)
  have "(k, True) \<in> set (foldl StickyOrFlags (StickyOrFlags [] flags) turns) \<longleftrightarrow>
      (k, True) \<in> set flags \<or> (\<exists>t \<in> set turns. (k, True) \<in> set t)"
    by (simp add: sticky_turns sticky_member)
  then show ?case by (auto simp: StickyOrFlags_map)
qed

end
