(* ===== verification/Jobs_Domain.thy ===== *)
theory Jobs_Domain
  imports Redact
begin

text \<open>
  Jobs and units (src/domain/jobs.go): budgets, unit configurations and their public view, events,
  snapshots, and the isolation law ValidateUnitMap. The interface \<open>jobs_port\<close> is what a caller of
  a job runtime (ports.Jobs) relies on when it polls, watches and cancels; the runtimes interpret it.
\<close>

section \<open>Data\<close>

definition jobsComponent :: string where "jobsComponent = ''domain.jobs''"

abbreviation UnitKindAgentTurn :: string where "UnitKindAgentTurn \<equiv> ''agent_turn''"
abbreviation UnitKindZeusDirect :: string where "UnitKindZeusDirect \<equiv> ''zeus_direct''"
abbreviation UnitKindHTTPJSON :: string where "UnitKindHTTPJSON \<equiv> ''http_json''"

abbreviation UnitStatusOK :: string where "UnitStatusOK \<equiv> ''ok''"
abbreviation UnitStatusError :: string where "UnitStatusError \<equiv> ''error''"
abbreviation UnitStatusTimeout :: string where "UnitStatusTimeout \<equiv> ''timeout''"
abbreviation UnitStatusCancelled :: string where "UnitStatusCancelled \<equiv> ''cancelled''"
abbreviation UnitStatusDeadEnd :: string where "UnitStatusDeadEnd \<equiv> ''dead_end''"

abbreviation EventJobStarted :: string where "EventJobStarted \<equiv> ''job.started''"
abbreviation EventJobFinished :: string where "EventJobFinished \<equiv> ''job.finished''"

record JobBudgets =
  bu_max_workers :: int
  bu_wall_ms :: int
  bu_max_waves :: int
  bu_max_replans :: int
  bu_max_evidence_keys :: int
  bu_disable_early_cancel :: bool

definition DefaultJobBudgets :: JobBudgets where
  "DefaultJobBudgets = \<lparr>bu_max_workers = 4, bu_wall_ms = 120000, bu_max_waves = 4,
     bu_max_replans = 2, bu_max_evidence_keys = 32, bu_disable_early_cancel = False\<rparr>"

definition JobBudgets_Validate :: "JobBudgets \<Rightarrow> zerror option" where
  "JobBudgets_Validate b =
     (if bu_max_workers b < 1 \<or> bu_wall_ms b < 1 \<or> bu_max_waves b < 1
      then Some (NewJob CodeJobsBudgetInvalid jobsComponent []) else None)"

record UnitConfig =
  uc_unit_id :: string
  uc_kind :: string
  uc_goal :: string
  uc_zeus_url :: string
  uc_bucket :: string
  uc_scope :: string
  uc_collection :: string
  uc_auth_mode :: string
  uc_password_env :: string
  uc_token_env :: string
  uc_username :: string
  uc_catalog_mode :: string
  uc_base_id :: string
  uc_chat_request :: "gmap option"
  uc_llm :: gmap
  uc_call :: gmap
  uc_share_session_id :: string
  uc_max_rounds :: int

definition UnitConfig_Target :: "UnitConfig \<Rightarrow> string \<times> string \<times> string" where
  "UnitConfig_Target u = (uc_bucket u, uc_scope u, uc_collection u)"

definition unitLLMPublicKeys :: "string list" where
  "unitLLMPublicKeys = [''model'', ''api_key_env'', ''temperature'', ''base_url'', ''provider'']"

definition UnitConfig_ToPublicDict :: "UnitConfig \<Rightarrow> gmap" where
  "UnitConfig_ToPublicDict u =
     [(''unit_id'', GStr (uc_unit_id u)), (''kind'', GStr (uc_kind u)), (''goal'', GStr (uc_goal u)),
      (''zeus_url'', GStr (uc_zeus_url u)), (''bucket'', GStr (uc_bucket u)),
      (''scope'', GStr (uc_scope u)), (''collection'', GStr (uc_collection u)),
      (''auth_mode'', GStr (uc_auth_mode u)), (''catalog_mode'', GStr (uc_catalog_mode u)),
      (''base_id'', GStr (uc_base_id u)),
      (''llm'', GObj (filter (\<lambda>(k, v). k \<in> set unitLLMPublicKeys) (uc_llm u))),
      (''has_chat_request'', GBool (uc_chat_request u \<noteq> None)),
      (''share_session_id'', GBool (uc_share_session_id u \<noteq> []))] @
     (if uc_password_env u \<noteq> [] then [(''password_env'', GStr (uc_password_env u))] else []) @
     (if uc_token_env u \<noteq> [] then [(''token_env'', GStr (uc_token_env u))] else [])"

record UnitResult =
  ur_unit_id :: string
  ur_status :: string
  ur_answer :: string
  ur_req_ids :: "string list"
  ur_artifacts :: gmap
  ur_error_code :: string
  ur_dead_end :: bool
  ur_plan_epoch :: int

record JobHandle =
  jh_job_id :: string
  jh_status :: string
  jh_seq :: int

record JobEvent =
  je_seq :: int
  je_type :: string
  je_job_id :: string
  je_ts_ms :: int
  je_unit_id :: string
  je_wave :: int
  je_plan_epoch :: int
  je_payload :: gmap

definition JobEvent_ToPublicDict :: "JobEvent \<Rightarrow> gmap" where
  "JobEvent_ToPublicDict e =
     [(''seq'', GInt (je_seq e)), (''type'', GStr (je_type e)), (''job_id'', GStr (je_job_id e)),
      (''ts_ms'', GInt (je_ts_ms e)), (''unit_id'', nilIfEmpty (je_unit_id e)),
      (''wave'', GInt (je_wave e)), (''plan_epoch'', GInt (je_plan_epoch e)),
      (''payload'', GObj (je_payload e))]"

record JobSnapshot =
  js_job_id :: string
  js_status :: string
  js_seq :: int
  js_partial :: bool
  js_summaries :: "gmap list"
  js_answer :: string

section \<open>The isolation law\<close>

text \<open>The checks of one unit, against the ids seen so far and the sessions claimed so far; then the
  loop.\<close>

definition check_unit :: "string list \<Rightarrow> string amap \<Rightarrow> UnitConfig \<Rightarrow> zerror option" where
  "check_unit seen sessions u =
     (if uc_unit_id u = [] then Some (NewJob CodeJobsInvalidUnitMap jobsComponent [])
      else if uc_unit_id u \<in> set seen then Some (NewJob CodeJobsInvalidUnitMap jobsComponent [])
      else if uc_kind u = UnitKindHTTPJSON then Some (NewJob CodeNotImplemented jobsComponent
        [WithMessage ''http_json units are not implemented in this SDK train''])
      else if uc_kind u \<notin> {UnitKindAgentTurn, UnitKindZeusDirect}
      then Some (NewJob CodeJobsInvalidUnitMap jobsComponent [])
      else if uc_zeus_url u = [] \<or> uc_bucket u = [] \<or> uc_scope u = [] \<or> uc_collection u = []
      then Some (NewJob CodeJobsInvalidUnitMap jobsComponent [])
      else if uc_kind u = UnitKindAgentTurn \<and> uc_base_id u = [] \<and> uc_catalog_mode u = [] \<and>
        uc_chat_request u = None
      then Some (NewJob CodeUnitsCatalogMissing jobsComponent [])
      else if uc_share_session_id u \<noteq> [] \<and>
        (case map_of sessions (uc_share_session_id u) of
           Some prev \<Rightarrow> prev \<noteq> uc_unit_id u | None \<Rightarrow> False)
      then Some (NewJob CodeUnitsIsolation jobsComponent [])
      else None)"

fun validate_units :: "string list \<Rightarrow> string amap \<Rightarrow> UnitConfig list \<Rightarrow> zerror option" where
  "validate_units seen sessions [] = None"
| "validate_units seen sessions (u # us) = (case check_unit seen sessions u of
     Some e \<Rightarrow> Some e
   | None \<Rightarrow> validate_units (uc_unit_id u # seen)
       (if uc_share_session_id u \<noteq> [] then amap_put (uc_share_session_id u) (uc_unit_id u) sessions
        else sessions) us)"

definition ValidateUnitMap :: "UnitConfig list \<Rightarrow> zerror option" where
  "ValidateUnitMap units =
     (if length units < 1 then Some (NewJob CodeJobsInvalidUnitMap jobsComponent [])
      else validate_units [] [] units)"

section \<open>The runtime interface\<close>

text \<open>
  \<open>log_of\<close> is the event log of a job (\<open>None\<close>: unknown job). What a caller of a runtime relies on:
  a known job has a snapshot, watching yields the events past a sequence number, sequence numbers of
  a valid runtime grow along the log, and a cancelled job reads as cancelled with its log untouched.
\<close>

locale jobs_port =
  fixes log_of :: "'s \<Rightarrow> string \<Rightarrow> JobEvent list option"
    and Get :: "string \<Rightarrow> 's \<Rightarrow> zerror + JobSnapshot"
    and Watch :: "string \<Rightarrow> int \<Rightarrow> 's \<Rightarrow> zerror + JobEvent list"
    and Cancel :: "string \<Rightarrow> 's \<Rightarrow> (zerror + JobSnapshot) \<times> 's"
    and valid :: "'s \<Rightarrow> bool"
  assumes watch_known: "valid s \<Longrightarrow> log_of s j = Some evs \<Longrightarrow>
      Watch j a s = Inr (filter (\<lambda>e. a < je_seq e) evs)"
    and watch_unknown: "log_of s j = None \<Longrightarrow> \<exists>e. Watch j a s = Inl e \<and> ze_code e = CodeJobsNotFound"
    and log_sorted: "valid s \<Longrightarrow> log_of s j = Some evs \<Longrightarrow>
      sorted_wrt (<) (map je_seq evs) \<and> (\<forall>e \<in> set evs. 0 < je_seq e)"
    and get_unknown: "valid s \<Longrightarrow> log_of s j = None \<Longrightarrow>
      \<exists>e. Get j s = Inl e \<and> ze_code e = CodeJobsNotFound"
    and cancel_known: "valid s \<Longrightarrow> log_of s j = Some evs \<Longrightarrow>
      \<exists>sn s'. Cancel j s = (Inr sn, s') \<and> js_status sn = ''cancelled'' \<and> Get j s' = Inr sn \<and>
        valid s' \<and> log_of s' = log_of s"
begin

text \<open>Watching from 0 gives the whole log.\<close>

lemma watch_all: "valid s \<Longrightarrow> log_of s j = Some evs \<Longrightarrow> Watch j 0 s = Inr evs"
  using watch_known log_sorted by (simp add: filter_id_conv)

text \<open>A reader that resumes after the last event it saw misses nothing and sees nothing twice.\<close>

lemma watch_resume:
  assumes "valid s" and "log_of s j = Some (evs @ later)" and "evs \<noteq> []"
  shows "Watch j (je_seq (last evs)) s = Inr later"
proof -
  obtain xs x where evs: "evs = xs @ [x]" using assms(3) by (cases evs rule: rev_cases) auto
  have "sorted_wrt (<) (map je_seq (xs @ [x] @ later))" using log_sorted assms(1,2) evs by fastforce
  then have "\<forall>e \<in> set xs. je_seq e < je_seq x" and "\<forall>e \<in> set later. je_seq x < je_seq e"
    by (auto simp: sorted_wrt_append)
  then have "filter (\<lambda>e. je_seq x < je_seq e) (xs @ [x] @ later) = later"
    by (auto simp: filter_empty_conv filter_id_conv)
  with watch_known [OF assms(1,2)] evs show ?thesis by simp
qed

text \<open>After a cancel every read until the next change of the job says cancelled, and the watch is
  not disturbed.\<close>

lemma cancel_then_read:
  assumes "valid s" and "log_of s j = Some evs"
  shows "\<exists>sn s'. Cancel j s = (Inr sn, s') \<and> Get j s' = Inr sn \<and> js_status sn = ''cancelled'' \<and>
    Watch j a s' = Watch j a s"
  using cancel_known [OF assms] watch_known assms by (metis (no_types, lifting))

end

section \<open>Facts\<close>

text \<open>The isolation law, stated without the loop.\<close>

definition unit_ok :: "UnitConfig \<Rightarrow> bool" where
  "unit_ok u \<longleftrightarrow> uc_unit_id u \<noteq> [] \<and> uc_kind u \<in> {UnitKindAgentTurn, UnitKindZeusDirect} \<and>
     uc_zeus_url u \<noteq> [] \<and> uc_bucket u \<noteq> [] \<and> uc_scope u \<noteq> [] \<and> uc_collection u \<noteq> [] \<and>
     (uc_kind u = UnitKindAgentTurn \<longrightarrow>
        uc_base_id u \<noteq> [] \<or> uc_catalog_mode u \<noteq> [] \<or> uc_chat_request u \<noteq> None)"

definition shared_sessions :: "UnitConfig list \<Rightarrow> string list" where
  "shared_sessions us = filter (\<lambda>x. x \<noteq> []) (map uc_share_session_id us)"

lemma check_unit_None:
  "check_unit seen sessions u = None \<longleftrightarrow> unit_ok u \<and> uc_unit_id u \<notin> set seen \<and>
     (uc_share_session_id u \<noteq> [] \<longrightarrow>
       map_of sessions (uc_share_session_id u) \<in> {None, Some (uc_unit_id u)})"
  by (auto simp: check_unit_def unit_ok_def split: option.splits)

lemma validate_units_None:
  "(\<forall>k v. map_of sessions k = Some v \<longrightarrow> v \<in> set seen) \<Longrightarrow>
     validate_units seen sessions us = None \<longleftrightarrow>
       list_all unit_ok us \<and> distinct (map uc_unit_id us) \<and>
       set (map uc_unit_id us) \<inter> set seen = {} \<and>
       distinct (shared_sessions us) \<and> set (shared_sessions us) \<inter> dom (map_of sessions) = {}"
proof (induction seen sessions us rule: validate_units.induct)
  case (1 seen sessions)
  then show ?case by (simp add: shared_sessions_def)
next
  case (2 seen sessions u us)
  show ?case
  proof (cases "check_unit seen sessions u")
    case (Some e)
    then have bad: "\<not> (unit_ok u \<and> uc_unit_id u \<notin> set seen \<and>
       (uc_share_session_id u \<noteq> [] \<longrightarrow>
         map_of sessions (uc_share_session_id u) \<in> {None, Some (uc_unit_id u)}))"
      using check_unit_None [of seen sessions u] by simp
    show ?thesis
    proof (cases "uc_share_session_id u \<noteq> [] \<and> map_of sessions (uc_share_session_id u) \<noteq> None")
      case True
      with Some show ?thesis by (auto simp: shared_sessions_def)
    next
      case False
      with bad have "\<not> unit_ok u \<or> uc_unit_id u \<in> set seen" by auto
      with Some show ?thesis by auto
    qed
  next
    case None
    then have ok: "unit_ok u" "uc_unit_id u \<notin> set seen"
      and sess: "uc_share_session_id u \<noteq> [] \<Longrightarrow> map_of sessions (uc_share_session_id u) = None"
      using check_unit_None [of seen sessions u] "2.prems" by auto
    let ?s = "if uc_share_session_id u \<noteq> []
      then amap_put (uc_share_session_id u) (uc_unit_id u) sessions else sessions"
    have "\<forall>k v. map_of ?s k = Some v \<longrightarrow> v \<in> set (uc_unit_id u # seen)"
      using "2.prems" by (auto simp: update_conv')
    from "2.IH" [OF None this] None ok sess show ?thesis
      by (auto simp: shared_sessions_def update_conv')
  qed
qed

lemma check_unit_code:
  "check_unit seen sessions u = Some e \<Longrightarrow> ze_code e \<in>
     {CodeJobsInvalidUnitMap, CodeNotImplemented, CodeUnitsCatalogMissing, CodeUnitsIsolation}"
  by (auto simp: check_unit_def split: if_splits)

lemma validate_units_code:
  "validate_units seen sessions us = Some e \<Longrightarrow> ze_code e \<in>
     {CodeJobsInvalidUnitMap, CodeNotImplemented, CodeUnitsCatalogMissing, CodeUnitsIsolation}"
  by (induction seen sessions us rule: validate_units.induct)
     (auto split: option.splits dest: check_unit_code simp del: insert_iff)

definition two_units_base :: UnitConfig where
  "two_units_base = \<lparr>uc_unit_id = ''a'', uc_kind = ''agent_turn'', uc_goal = [], uc_zeus_url = ''http://z'',
     uc_bucket = ''b'', uc_scope = ''s'', uc_collection = ''c'', uc_auth_mode = [], uc_password_env = [],
     uc_token_env = [], uc_username = [], uc_catalog_mode = ''analytics'', uc_base_id = [],
     uc_chat_request = None, uc_llm = [], uc_call = [], uc_share_session_id = ''s-1'',
     uc_max_rounds = 0\<rparr>"

section \<open>Properties\<close>

text \<open>The isolation law: a unit map is accepted exactly when it is not empty, every unit has an id,
  an implemented kind, a Zeus URL and a full scope triple, every agent turn has a catalog pin, ids do
  not repeat, and no durable session is shared by two units; a refusal has one of four codes.\<close>

theorem ValidateUnitMap_iff:
  "(ValidateUnitMap units = None \<longleftrightarrow>
     units \<noteq> [] \<and>
     (\<forall>u \<in> set units. uc_unit_id u \<noteq> [] \<and> uc_kind u \<in> {''agent_turn'', ''zeus_direct''} \<and>
        uc_zeus_url u \<noteq> [] \<and> uc_bucket u \<noteq> [] \<and> uc_scope u \<noteq> [] \<and> uc_collection u \<noteq> [] \<and>
        (uc_kind u = ''agent_turn'' \<longrightarrow>
           uc_base_id u \<noteq> [] \<or> uc_catalog_mode u \<noteq> [] \<or> uc_chat_request u \<noteq> None)) \<and>
     distinct (map uc_unit_id units) \<and>
     distinct (filter (\<lambda>x. x \<noteq> []) (map uc_share_session_id units))) \<and>
   (\<forall>e. ValidateUnitMap units = Some e \<longrightarrow> ze_code e \<in>
     {CodeJobsInvalidUnitMap, CodeNotImplemented, CodeUnitsCatalogMissing, CodeUnitsIsolation})"
proof (intro conjI allI impI)
  show "ValidateUnitMap units = None \<longleftrightarrow>
     units \<noteq> [] \<and>
     (\<forall>u \<in> set units. uc_unit_id u \<noteq> [] \<and> uc_kind u \<in> {''agent_turn'', ''zeus_direct''} \<and>
        uc_zeus_url u \<noteq> [] \<and> uc_bucket u \<noteq> [] \<and> uc_scope u \<noteq> [] \<and> uc_collection u \<noteq> [] \<and>
        (uc_kind u = ''agent_turn'' \<longrightarrow>
           uc_base_id u \<noteq> [] \<or> uc_catalog_mode u \<noteq> [] \<or> uc_chat_request u \<noteq> None)) \<and>
     distinct (map uc_unit_id units) \<and>
     distinct (filter (\<lambda>x. x \<noteq> []) (map uc_share_session_id units))"
    using validate_units_None [of "[]" "[]" units]
    by (simp add: ValidateUnitMap_def unit_ok_def list_all_iff shared_sessions_def Suc_le_eq)
  fix e
  assume "ValidateUnitMap units = Some e"
  then show "ze_code e \<in>
     {CodeJobsInvalidUnitMap, CodeNotImplemented, CodeUnitsCatalogMissing, CodeUnitsIsolation}"
    using validate_units_code [of "[]" "[]" units e]
    by (auto simp: ValidateUnitMap_def split: if_splits)
qed

lemma ValidateUnitMap_iff_witness:
  "ValidateUnitMap [two_units_base, two_units_base\<lparr>uc_unit_id := ''b''\<rparr>] \<noteq> None \<and>
   ValidateUnitMap [two_units_base, two_units_base\<lparr>uc_unit_id := ''b'', uc_share_session_id := []\<rparr>] = None"
  using ValidateUnitMap_iff [of "[two_units_base, two_units_base\<lparr>uc_unit_id := ''b''\<rparr>]"]
    ValidateUnitMap_iff
      [of "[two_units_base, two_units_base\<lparr>uc_unit_id := ''b'', uc_share_session_id := []\<rparr>]"]
  by (simp add: two_units_base_def)

text \<open>The public view of a unit carries no secret and no session id: its keys are a fixed set, a
  model key of the llm bag only the five public ones, and two units that differ in the user name, the
  call bag, the raw session id or any private llm key have the same view.\<close>

theorem UnitConfig_public_view:
  "keys_of (UnitConfig_ToPublicDict u) \<subseteq>
     {''unit_id'', ''kind'', ''goal'', ''zeus_url'', ''bucket'', ''scope'', ''collection'', ''auth_mode'',
      ''catalog_mode'', ''base_id'', ''llm'', ''has_chat_request'', ''share_session_id'',
      ''password_env'', ''token_env''} \<and>
   (\<exists>llm. mget (UnitConfig_ToPublicDict u) ''llm'' = GObj llm \<and> keys_of llm \<subseteq> set unitLLMPublicKeys) \<and>
   UnitConfig_ToPublicDict (u\<lparr>uc_username := name, uc_call := call, uc_max_rounds := n,
     uc_llm := uc_llm u @ filter (\<lambda>(k, v). k \<notin> set unitLLMPublicKeys) extra,
     uc_share_session_id := (if uc_share_session_id u = [] then [] else c # cs)\<rparr>) =
   UnitConfig_ToPublicDict u"
proof (intro conjI)
  show "\<exists>llm. mget (UnitConfig_ToPublicDict u) ''llm'' = GObj llm \<and> keys_of llm \<subseteq> set unitLLMPublicKeys"
    by (auto simp: UnitConfig_ToPublicDict_def mget_def)
  have "filter (\<lambda>(k, v). k \<in> set unitLLMPublicKeys)
      (filter (\<lambda>(k, v). k \<notin> set unitLLMPublicKeys) extra) = []"
    by (auto simp: filter_empty_conv)
  then show "UnitConfig_ToPublicDict (u\<lparr>uc_username := name, uc_call := call, uc_max_rounds := n,
     uc_llm := uc_llm u @ filter (\<lambda>(k, v). k \<notin> set unitLLMPublicKeys) extra,
     uc_share_session_id := (if uc_share_session_id u = [] then [] else c # cs)\<rparr>) =
   UnitConfig_ToPublicDict u"
    by (simp only: UnitConfig_ToPublicDict_def filter_append append_Nil2) simp
qed (auto simp: UnitConfig_ToPublicDict_def)

end
