(* ===== verification/Jobs_Fake.thy ===== *)
theory Jobs_Fake
  imports Jobs_Domain
begin

text \<open>
  The sequential job runtime (src/adapters/jobsfake/runtime.go). Its four maps are one record; every
  critical section of the runtime's mutex is one function. Run holds the mutex only in short sections,
  so other goroutines may call Cancel, Close, Get and Watch between them: \<open>job_step\<close> interleaves the
  sections of any number of runs with those calls and with the cancellation of a job's context. \<open>Run\<close>
  is the same run without interference. What a unit returns is open in the step relation and given by
  the parameter \<open>runner\<close> in \<open>Run\<close>; the fresh job id and the clock are inputs.
\<close>

section \<open>State\<close>

definition fakeJobsComponent :: string where "fakeJobsComponent = ''adapters.jobs_fake''"

record Runtime =
  rt_closed :: bool
  rt_snaps :: "JobSnapshot amap"
  rt_events :: "(JobEvent list) amap"
  rt_cancels :: "string list"
  rt_cancelled :: "bool amap"
  rt_ctx_done :: "string list"

definition New :: Runtime where
  "New = \<lparr>rt_closed = False, rt_snaps = [], rt_events = [], rt_cancels = [], rt_cancelled = [],
     rt_ctx_done = []\<rparr>"

record JobRequest =
  rq_units :: "UnitConfig list option"
  rq_models :: gval
  rq_goal :: gval

definition clonePayload :: "gmap option \<Rightarrow> gmap" where
  "clonePayload m = (case m of None \<Rightarrow> [] | Some kv \<Rightarrow> map (\<lambda>(k, v). (k, v)) kv)"

definition unitsFromRequest :: "JobRequest option \<Rightarrow> UnitConfig list" where
  "unitsFromRequest req = (case req of None \<Rightarrow> [] | Some r \<Rightarrow>
     (case rq_units r of Some us \<Rightarrow> us | None \<Rightarrow> []))"

definition modelsFromRequest :: "JobRequest option \<Rightarrow> gmap option" where
  "modelsFromRequest req = (case req of None \<Rightarrow> None | Some r \<Rightarrow>
     (case asObjectMap (rq_models r) of
        None \<Rightarrow> None | Some m \<Rightarrow> if length m = 0 then None else Some (clonePayload (Some m))))"

definition goalFromRequest :: "JobRequest option \<Rightarrow> string" where
  "goalFromRequest req = (case req of None \<Rightarrow> [] | Some r \<Rightarrow> asString (rq_goal r))"

definition notFound :: zerror where
  "notFound = NewJob CodeJobsNotFound fakeJobsComponent []"

definition unavailable :: zerror where
  "unavailable = NewJob CodeJobsUnavailable fakeJobsComponent []"

section \<open>Critical sections\<close>

definition empty_snapshot :: "string \<Rightarrow> JobSnapshot" where
  "empty_snapshot j = \<lparr>js_job_id = j, js_status = [], js_seq = 0, js_partial = False,
     js_summaries = [], js_answer = []\<rparr>"

text \<open>Registration of a job at the start of Run.\<close>

definition register :: "string \<Rightarrow> Runtime \<Rightarrow> Runtime" where
  "register j rt = rt\<lparr>rt_cancels := j # rt_cancels rt, rt_events := amap_put j [] (rt_events rt),
     rt_cancelled := amap_put j False (rt_cancelled rt),
     rt_snaps := amap_put j ((empty_snapshot j)\<lparr>js_status := ''running''\<rparr>) (rt_snaps rt)\<rparr>"

definition events_of :: "Runtime \<Rightarrow> string \<Rightarrow> JobEvent list" where
  "events_of rt j = (case map_of (rt_events rt) j of None \<Rightarrow> [] | Some evs \<Rightarrow> evs)"

definition emit :: "int \<Rightarrow> string \<Rightarrow> string \<Rightarrow> gmap option \<Rightarrow> Runtime \<Rightarrow> JobEvent \<times> Runtime" where
  "emit now j typ payload rt =
     (let ev = \<lparr>je_seq = int (length (events_of rt j)) + 1, je_type = typ, je_job_id = j, je_ts_ms = now,
          je_unit_id = [], je_wave = 0, je_plan_epoch = 0, je_payload = clonePayload payload\<rparr>
      in (ev, rt\<lparr>rt_events := amap_put j (events_of rt j @ [ev]) (rt_events rt)\<rparr>))"

definition isCancelled :: "Runtime \<Rightarrow> string \<Rightarrow> bool" where
  "isCancelled rt j \<longleftrightarrow> map_of (rt_cancelled rt) j = Some True"

definition ctx_done :: "Runtime \<Rightarrow> string \<Rightarrow> bool" where
  "ctx_done rt j \<longleftrightarrow> j \<in> set (rt_ctx_done rt)"

definition cancel_ctx :: "string \<Rightarrow> Runtime \<Rightarrow> Runtime" where
  "cancel_ctx j rt = rt\<lparr>rt_ctx_done := j # rt_ctx_done rt\<rparr>"

definition unit_summary :: "UnitResult \<Rightarrow> gmap" where
  "unit_summary r = [(''unit_id'', GStr (ur_unit_id r)), (''status'', GStr (ur_status r)),
     (''error_code'', nilIfEmpty (ur_error_code r))]"

definition final_status :: "bool \<Rightarrow> bool \<Rightarrow> bool \<Rightarrow> string" where
  "final_status cancelled anyOK anyErr =
     (if cancelled then ''cancelled'' else if anyErr \<and> anyOK then ''partial''
      else if anyErr then ''error'' else ''ok'')"

text \<open>The last section of Run: the snapshot, with the cancel flag read once more.\<close>

definition store_final :: "string \<Rightarrow> string \<Rightarrow> int \<Rightarrow> gmap list \<Rightarrow> Runtime \<Rightarrow> Runtime" where
  "store_final j status0 seq summaries rt =
     (let status = (if isCancelled rt j then ''cancelled'' else status0) in
      rt\<lparr>rt_snaps := amap_put j \<lparr>js_job_id = j, js_status = status, js_seq = seq,
        js_partial = (status = ''partial''), js_summaries = summaries, js_answer = []\<rparr> (rt_snaps rt)\<rparr>)"

section \<open>The other operations\<close>

definition cloneSnapshot :: "JobSnapshot \<Rightarrow> JobSnapshot" where
  "cloneSnapshot s = s\<lparr>js_summaries := map (\<lambda>m. clonePayload (Some m)) (js_summaries s)\<rparr>"

definition Watch :: "string \<Rightarrow> int \<Rightarrow> Runtime \<Rightarrow> zerror + JobEvent list" where
  "Watch j afterSeq rt = (case map_of (rt_events rt) j of
     None \<Rightarrow> Inl notFound
   | Some evs \<Rightarrow> Inr (map (\<lambda>ev. ev\<lparr>je_payload := clonePayload (Some (je_payload ev))\<rparr>)
       (filter (\<lambda>ev. afterSeq < je_seq ev) evs)))"

definition Get :: "string \<Rightarrow> Runtime \<Rightarrow> zerror + JobSnapshot" where
  "Get j rt = (case map_of (rt_snaps rt) j of
     None \<Rightarrow> Inl notFound | Some snap \<Rightarrow> Inr (cloneSnapshot snap))"

text \<open>The section of Cancel; \<open>cancel()\<close> is called after it (\<open>cancel_ctx\<close>).\<close>

definition mark_cancelled :: "string \<Rightarrow> Runtime \<Rightarrow> (zerror + JobSnapshot) \<times> Runtime" where
  "mark_cancelled j rt =
     (if j \<notin> set (rt_cancels rt) then (Inl notFound, rt)
      else (let prev = (case map_of (rt_snaps rt) j of None \<Rightarrow> empty_snapshot [] | Some p \<Rightarrow> p);
                snap = prev\<lparr>js_job_id := j, js_status := ''cancelled''\<rparr>
        in (Inr (cloneSnapshot snap),
            rt\<lparr>rt_cancelled := amap_put j True (rt_cancelled rt),
               rt_snaps := amap_put j snap (rt_snaps rt)\<rparr>)))"

definition Cancel :: "string \<Rightarrow> Runtime \<Rightarrow> (zerror + JobSnapshot) \<times> Runtime" where
  "Cancel j rt = (case mark_cancelled j rt of
     (Inl e, rt') \<Rightarrow> (Inl e, rt') | (Inr snap, rt') \<Rightarrow> (Inr snap, cancel_ctx j rt'))"

definition Close :: "Runtime \<Rightarrow> Runtime" where
  "Close rt = (if rt_closed rt then rt
     else fold cancel_ctx (rt_cancels rt) (rt\<lparr>rt_closed := True\<rparr>))"

section \<open>Run without interference\<close>

text \<open>The loop over the units; \<open>Inl\<close> is the runner's error. The runner threads its own state, which
  also decides whether the job's context is done.\<close>

fun run_units :: "(UnitConfig \<Rightarrow> string \<Rightarrow> gmap option \<Rightarrow> 'e \<Rightarrow> (zerror + UnitResult) \<times> 'e) \<Rightarrow>
    ('e \<Rightarrow> bool) \<Rightarrow> string \<Rightarrow> gmap option \<Rightarrow> UnitConfig list \<Rightarrow> gmap list \<Rightarrow> bool \<Rightarrow> bool \<Rightarrow> 'e \<Rightarrow>
    (zerror + gmap list \<times> bool \<times> bool) \<times> 'e" where
  "run_units runner done j models [] summaries anyOK anyErr e = (Inr (summaries, anyOK, anyErr), e)"
| "run_units runner done j models (u # us) summaries anyOK anyErr e =
     (if done e then (Inr (summaries, anyOK, anyErr), e)
      else (case runner u j (if uc_kind u = UnitKindAgentTurn then models else None) e of
        (Inl err, e') \<Rightarrow> (Inl err, e')
      | (Inr r, e') \<Rightarrow> run_units runner done j models us (summaries @ [unit_summary r])
          (anyOK \<or> ur_status r = UnitStatusOK) (anyErr \<or> ur_status r \<noteq> UnitStatusOK) e'))"

definition Run :: "(UnitConfig \<Rightarrow> string \<Rightarrow> gmap option \<Rightarrow> 'e \<Rightarrow> (zerror + UnitResult) \<times> 'e) option \<Rightarrow>
    ('e \<Rightarrow> bool) \<Rightarrow> string \<Rightarrow> int \<Rightarrow> int \<Rightarrow> JobRequest option \<Rightarrow> Runtime \<Rightarrow> 'e \<Rightarrow>
    (zerror + JobHandle) \<times> Runtime \<times> 'e" where
  "Run runner done j now1 now2 request rt e =
     (let units = unitsFromRequest request; models = modelsFromRequest request;
          rt1 = register j rt;
          rt2 = snd (emit now1 j EventJobStarted (Some [(''goal'', GStr (goalFromRequest request))]) rt1)
      in if runner = None \<and> 0 < length units then (Inl unavailable, cancel_ctx j rt2, e)
         else (case run_units (case runner of Some f \<Rightarrow> f | None \<Rightarrow> (\<lambda>u j m s. (Inl unavailable, s)))
             done j models units [] False False e of
           (Inl err, e') \<Rightarrow> (Inl err, cancel_ctx j rt2, e')
         | (Inr (summaries, anyOK, anyErr), e') \<Rightarrow>
            (let status = final_status (isCancelled rt2 j \<or> done e') anyOK anyErr;
                 (ev, rt3) = emit now2 j EventJobFinished (Some [(''status'', GStr status)]) rt2
             in (Inr \<lparr>jh_job_id = j, jh_status = ''running'', jh_seq = 1\<rparr>,
                 store_final j status (je_seq ev) summaries rt3, e'))))"

section \<open>Interleaved runs\<close>

text \<open>Where a run stands between two critical sections.\<close>

datatype run_pc =
    Registered "UnitConfig list"
  | Looping "UnitConfig list" "gmap list" bool bool
  | Decided string "gmap list" bool bool
  | Emitted string int "gmap list" bool bool
  | Stored
  | Failed

record conf =
  c_rt :: Runtime
  c_pc :: "run_pc amap"

definition set_pc :: "string \<Rightarrow> run_pc \<Rightarrow> Runtime \<Rightarrow> conf \<Rightarrow> conf" where
  "set_pc j p rt c = \<lparr>c_rt = rt, c_pc = amap_put j p (c_pc c)\<rparr>"

definition stopped :: "conf \<Rightarrow> string \<Rightarrow> bool" where
  "stopped c j \<longleftrightarrow> isCancelled (c_rt c) j \<or> ctx_done (c_rt c) j"

inductive job_step :: "conf \<Rightarrow> conf \<Rightarrow> bool" where
  start: "map_of (c_pc c) j = None \<Longrightarrow> j \<notin> set (rt_ctx_done (c_rt c)) \<Longrightarrow>
    job_step c (set_pc j (Registered units) (register j (c_rt c)) c)"
| begin_loop: "map_of (c_pc c) j = Some (Registered units) \<Longrightarrow>
    emit now j EventJobStarted (Some [(''goal'', GStr goal)]) (c_rt c) = (ev, rt') \<Longrightarrow>
    job_step c (set_pc j (Looping units [] False False) rt' c)"
| no_runner: "map_of (c_pc c) j = Some (Looping units [] False False) \<Longrightarrow> units \<noteq> [] \<Longrightarrow>
    job_step c (set_pc j Failed (cancel_ctx j (c_rt c)) c)"
| unit: "map_of (c_pc c) j = Some (Looping (u # us) rows anyOK anyErr) \<Longrightarrow> \<not> stopped c j \<Longrightarrow>
    job_step c (set_pc j (Looping us (rows @ [unit_summary r]) (anyOK \<or> ur_status r = UnitStatusOK)
      (anyErr \<or> ur_status r \<noteq> UnitStatusOK)) (c_rt c) c)"
| unit_error: "map_of (c_pc c) j = Some (Looping (u # us) rows anyOK anyErr) \<Longrightarrow> \<not> stopped c j \<Longrightarrow>
    job_step c (set_pc j Failed (cancel_ctx j (c_rt c)) c)"
| decide: "map_of (c_pc c) j = Some (Looping us rows anyOK anyErr) \<Longrightarrow> us = [] \<or> stopped c j \<Longrightarrow>
    job_step c (set_pc j (Decided (final_status (stopped c j) anyOK anyErr) rows anyOK anyErr) (c_rt c) c)"
| finish: "map_of (c_pc c) j = Some (Decided status rows anyOK anyErr) \<Longrightarrow>
    emit now j EventJobFinished (Some [(''status'', GStr status)]) (c_rt c) = (ev, rt') \<Longrightarrow>
    job_step c (set_pc j (Emitted status (je_seq ev) rows anyOK anyErr) rt' c)"
| store: "map_of (c_pc c) j = Some (Emitted status seq rows anyOK anyErr) \<Longrightarrow>
    job_step c (set_pc j Stored (store_final j status seq rows (c_rt c)) c)"
| cancel: "job_step c (c\<lparr>c_rt := snd (mark_cancelled j (c_rt c))\<rparr>)"
| ctx_cancel: "j \<in> set (rt_cancels (c_rt c)) \<Longrightarrow> job_step c (c\<lparr>c_rt := cancel_ctx j (c_rt c)\<rparr>)"
| close: "job_step c (c\<lparr>c_rt := Close (c_rt c)\<rparr>)"

definition init_conf :: conf where
  "init_conf = \<lparr>c_rt = New, c_pc = []\<rparr>"

inductive reachable :: "conf \<Rightarrow> bool" where
  reach_init: "reachable init_conf"
| reach_step: "reachable c \<Longrightarrow> job_step c c' \<Longrightarrow> reachable c'"

section \<open>The invariant\<close>

text \<open>A runtime is valid when its maps have one key set, every log is numbered from 1 without a gap and
  belongs to its job, a snapshot belongs to its job, and a job marked cancelled reads as cancelled.\<close>

definition log_ok :: "string \<Rightarrow> JobEvent list \<Rightarrow> bool" where
  "log_ok j evs \<longleftrightarrow> map je_seq evs = map (\<lambda>i. int i + 1) [0..<length evs] \<and>
     (\<forall>e \<in> set evs. je_job_id e = j)"

definition job_valid :: "Runtime \<Rightarrow> string \<Rightarrow> bool" where
  "job_valid rt j = (case (map_of (rt_events rt) j, map_of (rt_snaps rt) j) of
     (None, None) \<Rightarrow> j \<notin> set (rt_cancels rt) \<and> map_of (rt_cancelled rt) j = None
   | (Some evs, Some sn) \<Rightarrow> j \<in> set (rt_cancels rt) \<and> log_ok j evs \<and> js_job_id sn = j \<and>
       (isCancelled rt j \<longrightarrow> js_status sn = ''cancelled'')
   | _ \<Rightarrow> False)"

definition rt_valid :: "Runtime \<Rightarrow> bool" where
  "rt_valid rt \<longleftrightarrow> (\<forall>j. job_valid rt j)"

text \<open>The events a run has emitted at each point.\<close>

definition has_ok :: "gmap list \<Rightarrow> bool" where
  "has_ok rows \<longleftrightarrow> (\<exists>m \<in> set rows. mget m ''status'' = GStr UnitStatusOK)"

definition has_err :: "gmap list \<Rightarrow> bool" where
  "has_err rows \<longleftrightarrow> (\<exists>m \<in> set rows. mget m ''status'' \<noteq> GStr UnitStatusOK)"

definition open_status :: "JobSnapshot \<Rightarrow> bool" where
  "open_status sn \<longleftrightarrow> js_seq sn = 0 \<and> js_status sn \<in> {''running'', ''cancelled''}"

fun pc_ok :: "run_pc \<Rightarrow> JobEvent list \<Rightarrow> JobSnapshot \<Rightarrow> bool" where
  "pc_ok (Registered us) evs sn \<longleftrightarrow> evs = [] \<and> open_status sn"
| "pc_ok (Looping us rows ok err) evs sn \<longleftrightarrow> map je_type evs = [EventJobStarted] \<and> open_status sn \<and>
     ok = has_ok rows \<and> err = has_err rows"
| "pc_ok (Decided st rows ok err) evs sn \<longleftrightarrow> map je_type evs = [EventJobStarted] \<and> open_status sn \<and>
     st \<in> {''cancelled'', final_status False (has_ok rows) (has_err rows)}"
| "pc_ok (Emitted st seq rows ok err) evs sn \<longleftrightarrow>
     map je_type evs = [EventJobStarted, EventJobFinished] \<and> seq = 2 \<and> open_status sn \<and>
     st \<in> {''cancelled'', final_status False (has_ok rows) (has_err rows)}"
| "pc_ok Stored evs sn \<longleftrightarrow> map je_type evs = [EventJobStarted, EventJobFinished] \<and> js_seq sn = 2 \<and>
     js_status sn \<in> {''cancelled'',
       final_status False (has_ok (js_summaries sn)) (has_err (js_summaries sn))}"
| "pc_ok Failed evs sn \<longleftrightarrow> map je_type evs = [EventJobStarted] \<and> open_status sn"

definition job_at :: "conf \<Rightarrow> string \<Rightarrow> bool" where
  "job_at c j = (case (map_of (c_pc c) j, map_of (rt_events (c_rt c)) j, map_of (rt_snaps (c_rt c)) j) of
     (None, None, None) \<Rightarrow> True
   | (Some p, Some evs, Some sn) \<Rightarrow> pc_ok p evs sn
   | _ \<Rightarrow> False)"

definition conf_ok :: "conf \<Rightarrow> bool" where
  "conf_ok c \<longleftrightarrow> rt_valid (c_rt c) \<and> (\<forall>j. job_at c j)"

lemma clonePayload_Some [simp]: "clonePayload (Some m) = m"
  by (simp add: clonePayload_def)

lemma cloneSnapshot_id [simp]: "cloneSnapshot s = s"
  by (simp add: cloneSnapshot_def)

lemma Watch_eq:
  "Watch j a rt = (case map_of (rt_events rt) j of
     None \<Rightarrow> Inl notFound | Some evs \<Rightarrow> Inr (filter (\<lambda>ev. a < je_seq ev) evs))"
  by (simp add: Watch_def split: option.splits)

lemma log_ok_Nil [simp]: "log_ok j []"
  by (simp add: log_ok_def)

lemma log_ok_snoc:
  "log_ok j evs \<Longrightarrow> je_seq e = int (length evs) + 1 \<Longrightarrow> je_job_id e = j \<Longrightarrow> log_ok j (evs @ [e])"
  by (auto simp: log_ok_def)

lemma log_ok_sorted: "log_ok j evs \<Longrightarrow> sorted_wrt (<) (map je_seq evs) \<and> (\<forall>e \<in> set evs. 0 < je_seq e)"
proof -
  assume l: "log_ok j evs"
  then have m: "map je_seq evs = map (\<lambda>i. int i + 1) [0..<length evs]" by (simp add: log_ok_def)
  have "0 < x" if "x \<in> set (map je_seq evs)" for x using that unfolding m by auto
  moreover have "sorted_wrt (<) (map je_seq evs)" unfolding m by (simp add: sorted_wrt_iff_nth_less)
  ultimately show ?thesis by simp
qed

lemma rt_validI [intro?]: "(\<And>j. job_valid rt j) \<Longrightarrow> rt_valid rt"
  by (simp add: rt_valid_def)

lemma rt_validD: "rt_valid rt \<Longrightarrow> job_valid rt j"
  by (simp add: rt_valid_def)

text \<open>Validity of a job only reads the entries of that job.\<close>

lemma job_valid_cong:
  "map_of (rt_events rt') j = map_of (rt_events rt) j \<Longrightarrow> map_of (rt_snaps rt') j = map_of (rt_snaps rt) j \<Longrightarrow>
   map_of (rt_cancelled rt') j = map_of (rt_cancelled rt) j \<Longrightarrow>
   (j \<in> set (rt_cancels rt') \<longleftrightarrow> j \<in> set (rt_cancels rt)) \<Longrightarrow> job_valid rt' j = job_valid rt j"
  by (simp add: job_valid_def isCancelled_def split: option.splits)

lemma job_valid_known:
  "job_valid rt j \<Longrightarrow> map_of (rt_events rt) j = Some evs \<Longrightarrow>
     \<exists>sn. map_of (rt_snaps rt) j = Some sn \<and> j \<in> set (rt_cancels rt) \<and> log_ok j evs \<and>
       js_job_id sn = j \<and> (isCancelled rt j \<longrightarrow> js_status sn = ''cancelled'')"
  by (auto simp: job_valid_def split: option.splits)

lemma rt_valid_New: "rt_valid New"
  by (simp add: rt_valid_def job_valid_def New_def)

lemma rt_valid_register [preserve]:
  assumes "rt_valid rt"
  shows "rt_valid (register j rt)"
proof
  fix k
  show "job_valid (register j rt) k"
  proof (cases "k = j")
    case False
    then have "job_valid (register j rt) k = job_valid rt k"
      by (intro job_valid_cong) (simp_all add: register_def update_conv')
    with rt_validD [OF assms] show ?thesis by simp
  qed (simp add: job_valid_def register_def update_conv' isCancelled_def empty_snapshot_def)
qed

lemma emit_simps:
  "emit now j typ payload rt = (ev, rt') \<Longrightarrow>
     rt_snaps rt' = rt_snaps rt \<and> rt_cancels rt' = rt_cancels rt \<and> rt_cancelled rt' = rt_cancelled rt \<and>
     rt_ctx_done rt' = rt_ctx_done rt \<and> rt_closed rt' = rt_closed rt \<and>
     rt_events rt' = amap_put j (events_of rt j @ [ev]) (rt_events rt) \<and>
     je_seq ev = int (length (events_of rt j)) + 1 \<and> je_job_id ev = j \<and> je_type ev = typ"
  by (auto simp: emit_def Let_def)

lemma rt_valid_emit:
  assumes v: "rt_valid rt" and e: "map_of (rt_events rt) j = Some evs"
    and m: "emit now j typ payload rt = (ev, rt')"
  shows "rt_valid rt'"
proof
  fix k
  note m' = emit_simps [OF m]
  have ev: "events_of rt j = evs" by (simp add: events_of_def e)
  show "job_valid rt' k"
  proof (cases "k = j")
    case False
    then have "job_valid rt' k = job_valid rt k"
      using m' by (intro job_valid_cong) (simp_all add: update_conv')
    with rt_validD [OF v] show ?thesis by simp
  next
    case True
    from job_valid_known [OF rt_validD [OF v] e] have "log_ok j (evs @ [ev])"
      using m' ev by (auto intro: log_ok_snoc)
    with True job_valid_known [OF rt_validD [OF v] e] m' ev show ?thesis
      by (auto simp: job_valid_def update_conv' isCancelled_def)
  qed
qed

lemma rt_valid_ctx [preserve]: "rt_valid rt \<Longrightarrow> rt_valid (cancel_ctx j rt)"
proof
  fix k
  assume "rt_valid rt"
  moreover have "job_valid (cancel_ctx j rt) k = job_valid rt k"
    by (intro job_valid_cong) (simp_all add: cancel_ctx_def)
  ultimately show "job_valid (cancel_ctx j rt) k" using rt_validD by simp
qed

lemma rt_valid_put_snap:
  assumes v: "rt_valid rt" and e: "map_of (rt_events rt) j = Some evs"
    and sn: "js_job_id sn = j" "map_of cd j = Some True \<Longrightarrow> js_status sn = ''cancelled''"
    and cd: "\<And>k. k \<noteq> j \<Longrightarrow> map_of cd k = map_of (rt_cancelled rt) k"
  shows "rt_valid (rt\<lparr>rt_cancelled := cd, rt_snaps := amap_put j sn (rt_snaps rt)\<rparr>)" (is "rt_valid ?r")
proof
  fix k
  show "job_valid ?r k"
  proof (cases "k = j")
    case False
    then have "job_valid ?r k = job_valid rt k"
      by (intro job_valid_cong) (simp_all add: update_conv' cd)
    with rt_validD [OF v] show ?thesis by simp
  next
    case True
    with job_valid_known [OF rt_validD [OF v] e] e sn show ?thesis
      by (auto simp: job_valid_def update_conv' isCancelled_def)
  qed
qed

lemma rt_valid_store:
  assumes "rt_valid rt" and "map_of (rt_events rt) j = Some evs"
  shows "rt_valid (store_final j st seq rows rt)"
  using rt_valid_put_snap [OF assms, where cd = "rt_cancelled rt" and
      sn = "\<lparr>js_job_id = j, js_status = (if isCancelled rt j then ''cancelled'' else st), js_seq = seq,
        js_partial = ((if isCancelled rt j then ''cancelled'' else st) = ''partial''),
        js_summaries = rows, js_answer = []\<rparr>"]
  by (simp add: store_final_def isCancelled_def Let_def)

lemma rt_valid_mark [preserve]:
  assumes "rt_valid rt"
  shows "rt_valid (snd (mark_cancelled j rt))"
proof (cases "j \<in> set (rt_cancels rt)")
  case True
  with rt_validD [OF assms, of j] obtain evs sn where e: "map_of (rt_events rt) j = Some evs"
    "map_of (rt_snaps rt) j = Some sn" by (auto simp: job_valid_def split: option.splits)
  from rt_valid_put_snap [OF assms e(1), where cd = "amap_put j True (rt_cancelled rt)" and
      sn = "sn\<lparr>js_job_id := j, js_status := ''cancelled''\<rparr>"]
  show ?thesis using True e by (simp add: mark_cancelled_def update_conv' Let_def)
qed (simp add: mark_cancelled_def assms)

lemma rt_valid_Close [preserve]: "rt_valid rt \<Longrightarrow> rt_valid (Close rt)"
proof -
  assume v: "rt_valid rt"
  have "rt_valid (fold cancel_ctx js r)" if "rt_valid r" for js r
    using that by (induction js arbitrary: r) (auto intro: rt_valid_ctx)
  moreover have "rt_valid (rt\<lparr>rt_closed := True\<rparr>)"
  proof
    fix k
    have "job_valid (rt\<lparr>rt_closed := True\<rparr>) k = job_valid rt k"
      by (intro job_valid_cong) simp_all
    with rt_validD [OF v] show "job_valid (rt\<lparr>rt_closed := True\<rparr>) k" by simp
  qed
  ultimately show ?thesis using v by (simp add: Close_def)
qed

lemma rt_valid_Cancel [preserve]: "rt_valid rt \<Longrightarrow> rt_valid (snd (Cancel j rt))"
  using rt_valid_mark [of rt j] rt_valid_ctx
  by (auto simp: Cancel_def split: prod.splits sum.splits)

interpretation fake: jobs_port "\<lambda>rt j. map_of (rt_events rt) j" Get Watch Cancel rt_valid
proof unfold_locales
  fix s j evs assume v: "rt_valid s" and e: "map_of (rt_events s) j = Some evs"
  from job_valid_known [OF rt_validD [OF v] e]
  obtain sn where "map_of (rt_snaps s) j = Some sn" and "j \<in> set (rt_cancels s)" by blast
  then show "\<exists>sn s'. Cancel j s = (Inr sn, s') \<and> js_status sn = ''cancelled'' \<and> Get j s' = Inr sn \<and>
      rt_valid s' \<and> map_of (rt_events s') = map_of (rt_events s)"
    using rt_valid_Cancel [OF v, of j]
    by (auto simp: Cancel_def mark_cancelled_def Get_def cancel_ctx_def update_conv' Let_def)
  show "sorted_wrt (<) (map je_seq evs) \<and> (\<forall>e \<in> set evs. 0 < je_seq e)"
    using job_valid_known [OF rt_validD [OF v] e] log_ok_sorted by blast
next
  fix s j assume "rt_valid s" and "map_of (rt_events s) j = None"
  then show "\<exists>e. Get j s = Inl e \<and> ze_code e = CodeJobsNotFound"
    using rt_validD [of s j] by (auto simp: job_valid_def Get_def notFound_def split: option.splits)
qed (auto simp: Watch_eq notFound_def)

section \<open>Every reachable state keeps the invariant\<close>

lemma job_at_known:
  "job_at c j \<Longrightarrow> map_of (c_pc c) j = Some p \<Longrightarrow>
     \<exists>evs sn. map_of (rt_events (c_rt c)) j = Some evs \<and> map_of (rt_snaps (c_rt c)) j = Some sn \<and>
       pc_ok p evs sn"
  by (auto simp: job_at_def split: option.splits)

lemma job_at_cong:
  "map_of (c_pc c') j = map_of (c_pc c) j \<Longrightarrow>
   map_of (rt_events (c_rt c')) j = map_of (rt_events (c_rt c)) j \<Longrightarrow>
   map_of (rt_snaps (c_rt c')) j = map_of (rt_snaps (c_rt c)) j \<Longrightarrow> job_at c' j = job_at c j"
  by (simp add: job_at_def)

text \<open>A step of one run: it is enough to look at its own job.\<close>

lemma conf_ok_set_pc:
  assumes "conf_ok c" and "rt_valid rt'"
    and "\<And>k. k \<noteq> j \<Longrightarrow> map_of (rt_events rt') k = map_of (rt_events (c_rt c)) k \<and>
      map_of (rt_snaps rt') k = map_of (rt_snaps (c_rt c)) k"
    and "\<exists>evs sn. map_of (rt_events rt') j = Some evs \<and> map_of (rt_snaps rt') j = Some sn \<and> pc_ok p evs sn"
  shows "conf_ok (set_pc j p rt' c)"
  unfolding conf_ok_def
proof (intro conjI allI)
  fix k
  show "job_at (set_pc j p rt' c) k"
  proof (cases "k = j")
    case True
    with assms(4) show ?thesis by (auto simp: job_at_def set_pc_def update_conv')
  next
    case False
    then have "job_at (set_pc j p rt' c) k = job_at c k"
      using assms(3) by (intro job_at_cong) (simp_all add: set_pc_def update_conv')
    with assms(1) show ?thesis by (simp add: conf_ok_def)
  qed
qed (simp add: set_pc_def assms(2))

lemma conf_ok_rt:
  assumes "conf_ok c" and "rt_valid rt'"
    and "\<And>k. map_of (rt_events rt') k = map_of (rt_events (c_rt c)) k \<and>
      map_of (rt_snaps rt') k = map_of (rt_snaps (c_rt c)) k"
  shows "conf_ok (c\<lparr>c_rt := rt'\<rparr>)"
  using assms by (auto simp: conf_ok_def job_at_def)

lemma cancel_ctx_simps [simp]:
  "rt_events (cancel_ctx j rt) = rt_events rt" "rt_snaps (cancel_ctx j rt) = rt_snaps rt"
  "rt_cancelled (cancel_ctx j rt) = rt_cancelled rt" "rt_cancels (cancel_ctx j rt) = rt_cancels rt"
  by (simp_all add: cancel_ctx_def)

lemma Close_simps [simp]:
  "rt_events (Close rt) = rt_events rt" "rt_snaps (Close rt) = rt_snaps rt"
proof -
  have "rt_events (fold cancel_ctx js r) = rt_events r \<and> rt_snaps (fold cancel_ctx js r) = rt_snaps r" for js r
    by (induction js arbitrary: r) auto
  then show "rt_events (Close rt) = rt_events rt" "rt_snaps (Close rt) = rt_snaps rt"
    by (simp_all add: Close_def)
qed

lemma pc_ok_cancelled: "pc_ok p evs sn \<Longrightarrow> pc_ok p evs (sn\<lparr>js_job_id := j, js_status := ''cancelled''\<rparr>)"
  by (cases p) (auto simp: open_status_def)

lemma unit_summary_status [simp]: "mget (unit_summary r) ''status'' = GStr (ur_status r)"
  by (simp add: unit_summary_def mget_def)

lemma has_ok_snoc: "has_ok (rows @ [unit_summary r]) \<longleftrightarrow> has_ok rows \<or> ur_status r = UnitStatusOK"
  "has_err (rows @ [unit_summary r]) \<longleftrightarrow> has_err rows \<or> ur_status r \<noteq> UnitStatusOK"
  by (auto simp: has_ok_def has_err_def)

lemma conf_ok_mark: "conf_ok c \<Longrightarrow> conf_ok (c\<lparr>c_rt := snd (mark_cancelled j (c_rt c))\<rparr>)"
proof -
  assume c: "conf_ok c"
  let ?r = "snd (mark_cancelled j (c_rt c))"
  have "job_at (c\<lparr>c_rt := ?r\<rparr>) k" for k
  proof -
    have k: "job_at c k" and v: "job_valid (c_rt c) j" using c by (auto simp: conf_ok_def rt_validD)
    show ?thesis
    proof (cases "k = j \<and> j \<in> set (rt_cancels (c_rt c))")
      case True
      with v k show ?thesis
        by (auto simp: job_at_def job_valid_def mark_cancelled_def update_conv' pc_ok_cancelled Let_def
            split: option.splits)
    next
      case False
      then have "job_at (c\<lparr>c_rt := ?r\<rparr>) k = job_at c k"
        by (intro job_at_cong) (auto simp: mark_cancelled_def update_conv' Let_def)
      with k show ?thesis by simp
    qed
  qed
  with c show ?thesis by (simp add: conf_ok_def rt_valid_mark)
qed

lemma conf_ok_emit:
  assumes c: "conf_ok c" and p: "map_of (c_pc c) j = Some q"
    and m: "emit now j typ payload (c_rt c) = (ev, rt')"
    and pc: "\<And>evs sn. pc_ok q evs sn \<Longrightarrow> je_seq ev = int (length evs) + 1 \<Longrightarrow> pc_ok p' (evs @ [ev]) sn"
  shows "conf_ok (set_pc j p' rt' c)"
proof -
  from c have "job_at c j" by (simp add: conf_ok_def)
  with p obtain evs sn where e: "map_of (rt_events (c_rt c)) j = Some evs"
    "map_of (rt_snaps (c_rt c)) j = Some sn" "pc_ok q evs sn" using job_at_known by blast
  note m' = emit_simps [OF m]
  have "events_of (c_rt c) j = evs" using e by (simp add: events_of_def)
  with m' e pc have "\<exists>evs sn. map_of (rt_events rt') j = Some evs \<and> map_of (rt_snaps rt') j = Some sn \<and>
      pc_ok p' evs sn" by (auto simp: update_conv')
  moreover have "rt_valid rt'" using rt_valid_emit [OF _ e(1) m] c by (simp add: conf_ok_def)
  ultimately show ?thesis using m' by (intro conf_ok_set_pc [OF c]) (auto simp: update_conv')
qed

lemma conf_ok_step: "job_step c c' \<Longrightarrow> conf_ok c \<Longrightarrow> conf_ok c'"
proof (induction rule: job_step.induct)
  case (start c j units)
  then have "rt_valid (register j (c_rt c))" by (intro rt_valid_register) (simp add: conf_ok_def)
  with start(3) show ?case
    by (intro conf_ok_set_pc)
       (simp_all add: register_def update_conv' open_status_def empty_snapshot_def)
next
  case (begin_loop c j units now goal ev rt')
  then show ?case
    by (intro conf_ok_emit [OF _ begin_loop(1,2)])
       (auto simp: emit_simps [OF begin_loop(2)] has_ok_def has_err_def)
next
  case (no_runner c j units)
  then have "job_at c j" by (simp add: conf_ok_def)
  from job_at_known [OF this no_runner(1)] show ?case using no_runner
    by (intro conf_ok_set_pc) (auto simp: conf_ok_def intro: rt_valid_ctx)
next
  case (unit c j u us rows anyOK anyErr r)
  then have "job_at c j" by (simp add: conf_ok_def)
  from job_at_known [OF this unit(1)] show ?case using unit
    by (intro conf_ok_set_pc) (auto simp: conf_ok_def has_ok_snoc)
next
  case (unit_error c j u us rows anyOK anyErr)
  then have "job_at c j" by (simp add: conf_ok_def)
  from job_at_known [OF this unit_error(1)] show ?case using unit_error
    by (intro conf_ok_set_pc) (auto simp: conf_ok_def intro: rt_valid_ctx)
next
  case (decide c j us rows anyOK anyErr)
  then have "job_at c j" by (simp add: conf_ok_def)
  from job_at_known [OF this decide(1)] show ?case using decide
    by (intro conf_ok_set_pc) (auto simp: conf_ok_def final_status_def)
next
  case (finish c j status rows anyOK anyErr now ev rt')
  then show ?case
    by (intro conf_ok_emit [OF _ finish(1,2)]) (auto simp: emit_simps [OF finish(2)])
next
  case (store c j status seq rows anyOK anyErr)
  then have "job_at c j" by (simp add: conf_ok_def)
  from job_at_known [OF this store(1)] obtain evs sn where e: "map_of (rt_events (c_rt c)) j = Some evs"
    "pc_ok (Emitted status seq rows anyOK anyErr) evs sn" by blast
  moreover have "rt_valid (store_final j status seq rows (c_rt c))"
    using rt_valid_store [OF _ e(1)] store by (simp add: conf_ok_def)
  ultimately show ?case using store(2)
    by (intro conf_ok_set_pc) (auto simp: store_final_def update_conv' Let_def)
next
  case (cancel c j)
  then show ?case by (rule conf_ok_mark)
next
  case (ctx_cancel j c)
  then show ?case by (intro conf_ok_rt) (auto simp: conf_ok_def intro: rt_valid_ctx)
next
  case (close c)
  then show ?case by (intro conf_ok_rt) (auto simp: conf_ok_def intro: rt_valid_Close)
qed

lemma reachable_ok: "reachable c \<Longrightarrow> conf_ok c"
proof (induction rule: reachable.induct)
  case reach_init
  show ?case using rt_valid_New by (simp add: conf_ok_def job_at_def init_conf_def New_def)
qed (rule conf_ok_step)

section \<open>What a step keeps\<close>

inductive_cases stepE: "job_step c c'"

definition steps :: "conf \<Rightarrow> conf \<Rightarrow> bool" where
  "steps = job_step\<^sup>*\<^sup>*"

lemma steps_reachable: "reachable c \<Longrightarrow> steps c c' \<Longrightarrow> reachable c'"
  unfolding steps_def by (rotate_tac, induction rule: rtranclp_induct) (auto intro: reach_step)

text \<open>The cancel mark of a known job stays, and a failed run stays as it is.\<close>

lemma cancelled_stays:
  assumes "job_step c c'" and "map_of (c_pc c) j \<noteq> None" and "isCancelled (c_rt c) j"
  shows "map_of (c_pc c') j \<noteq> None \<and> isCancelled (c_rt c') j"
proof -
  have cl: "rt_cancelled (Close rt) = rt_cancelled rt" for rt
  proof -
    have "rt_cancelled (fold cancel_ctx js r) = rt_cancelled r" for js r
      by (induction js arbitrary: r) auto
    then show ?thesis by (simp add: Close_def)
  qed
  show ?thesis
    using assms
    by (cases rule: job_step.cases)
       (auto simp: set_pc_def update_conv' isCancelled_def register_def store_final_def
         mark_cancelled_def cl Let_def dest!: emit_simps)
qed

lemma failed_stays:
  assumes "job_step c c'" and "map_of (c_pc c) j = Some Failed"
  shows "map_of (c_pc c') j = Some Failed"
  using assms by (cases rule: job_step.cases) (auto simp: set_pc_def update_conv')

lemma steps_keep:
  assumes "steps c c'" and "\<And>c c'. job_step c c' \<Longrightarrow> P c \<Longrightarrow> P c'" and "P c"
  shows "P c'"
  using assms(1) unfolding steps_def by (induction rule: rtranclp_induct) (use assms in auto)

lemma reachable_log:
  assumes "reachable c" and "map_of (rt_events (c_rt c)) j = Some evs"
  shows "rt_valid (c_rt c) \<and> log_ok j evs \<and>
    map je_type evs \<in> {[], [EventJobStarted], [EventJobStarted, EventJobFinished]}"
proof -
  from reachable_ok [OF assms(1)] have v: "rt_valid (c_rt c)" and a: "job_at c j"
    by (simp_all add: conf_ok_def)
  from a assms(2) obtain p sn where "pc_ok p evs sn"
    by (auto simp: job_at_def split: option.splits)
  then have "map je_type evs \<in> {[], [EventJobStarted], [EventJobStarted, EventJobFinished]}"
    by (cases p) auto
  with v job_valid_known [OF rt_validD [OF v] assms(2)] show ?thesis by blast
qed

lemma log_ok_filter: "log_ok j evs \<Longrightarrow> 0 \<le> a \<Longrightarrow> filter (\<lambda>e. a < je_seq e) evs = drop (nat a) evs"
proof (induction evs rule: rev_induct)
  case (snoc e evs)
  then have "log_ok j evs" and "je_seq e = int (length evs) + 1" by (auto simp: log_ok_def)
  with snoc show ?case by (auto simp: drop_append)
qed simp

section \<open>The undisturbed run is a run of the step relation\<close>

lemma steps_trans [trans]: "steps a b \<Longrightarrow> steps b c \<Longrightarrow> steps a c"
  by (simp add: steps_def)

lemma step_steps: "job_step a b \<Longrightarrow> steps a b"
  by (simp add: steps_def r_into_rtranclp)

lemma set_pc_again [simp]: "c_rt (set_pc j p rt c) = rt" "map_of (c_pc (set_pc j p rt c)) j = Some p"
  by (simp_all add: set_pc_def update_conv')

lemma set_pc_twice: "set_pc j p rt (set_pc j q rt' c) = set_pc j p rt c"
  by (simp add: set_pc_def) 

text \<open>The loop of Run, step by step, while nothing stops the job.\<close>

lemma run_units_steps:
  assumes "run_units runner (\<lambda>e. False) j models us rows anyOK anyErr e = (res, e')"
    and "map_of (c_pc c) j = Some (Looping us rows anyOK anyErr)" and "\<not> stopped c j"
  shows "steps c (case res of
     Inr (rows', anyOK', anyErr') \<Rightarrow> set_pc j (Looping [] rows' anyOK' anyErr') (c_rt c) c
   | Inl err \<Rightarrow> set_pc j Failed (cancel_ctx j (c_rt c)) c)"
  using assms
proof (induction us arbitrary: rows anyOK anyErr e c)
  case Nil
  then have "set_pc j (Looping [] rows anyOK anyErr) (c_rt c) c = c"
    by (cases c) (simp add: set_pc_def update_triv)
  with Nil show ?case by (auto simp: steps_def)
next
  case (Cons u us)
  obtain x e1 where x: "runner u j (if uc_kind u = UnitKindAgentTurn then models else None) e = (x, e1)"
    by fastforce
  show ?case
  proof (cases x)
    case (Inl err)
    with x Cons.prems have "res = Inl err" by simp
    moreover have "job_step c (set_pc j Failed (cancel_ctx j (c_rt c)) c)"
      using Cons.prems(2,3) by (rule unit_error)
    ultimately show ?thesis by (simp add: step_steps)
  next
    case (Inr r)
    let ?c = "set_pc j (Looping us (rows @ [unit_summary r]) (anyOK \<or> ur_status r = UnitStatusOK)
      (anyErr \<or> ur_status r \<noteq> UnitStatusOK)) (c_rt c) c"
    have s: "steps c ?c" by (rule step_steps) (rule unit [OF Cons.prems(2,3)])
    have "\<not> stopped ?c j" using Cons.prems(3) by (simp add: stopped_def)
    with Cons.IH [of "rows @ [unit_summary r]" "anyOK \<or> ur_status r = UnitStatusOK"
        "anyErr \<or> ur_status r \<noteq> UnitStatusOK" e1 ?c] Cons.prems(1) x Inr
    have "steps ?c (case res of
       Inr (rows', anyOK', anyErr') \<Rightarrow> set_pc j (Looping [] rows' anyOK' anyErr') (c_rt c) c
     | Inl err \<Rightarrow> set_pc j Failed (cancel_ctx j (c_rt c)) c)"
      by (simp add: set_pc_twice split: sum.splits prod.splits)
    with s show ?thesis by (rule steps_trans)
  qed
qed

lemma isCancelled_register [simp]: "\<not> isCancelled (register j rt) j"
  by (simp add: isCancelled_def register_def update_conv')

lemma ctx_done_register [simp]: "ctx_done (register j rt) k = ctx_done rt k"
  by (simp add: ctx_done_def register_def)

lemma emit_flags:
  "emit now j typ payload rt = (ev, rt') \<Longrightarrow> isCancelled rt' k = isCancelled rt k \<and> ctx_done rt' k = ctx_done rt k"
  using emit_simps by (fastforce simp: isCancelled_def ctx_done_def)

lemma finish_steps:
  assumes "map_of (c_pc c) j = Some (Looping [] rows anyOK anyErr)" and "\<not> stopped c j"
    and "emit now j EventJobFinished (Some [(''status'', GStr (final_status False anyOK anyErr))]) (c_rt c) =
      (ev, rt3)"
  shows "steps c (set_pc j Stored (store_final j (final_status False anyOK anyErr) (je_seq ev) rows rt3) c)"
proof -
  let ?st = "final_status False anyOK anyErr"
  let ?c1 = "set_pc j (Decided ?st rows anyOK anyErr) (c_rt c) c"
  let ?c2 = "set_pc j (Emitted ?st (je_seq ev) rows anyOK anyErr) rt3 c"
  have "job_step c ?c1" using decide [OF assms(1)] assms(2) by simp
  moreover have "job_step ?c1 ?c2"
    using finish [of ?c1 j ?st rows anyOK anyErr now ev rt3] assms(3) by (simp add: set_pc_twice)
  moreover have "job_step ?c2 (set_pc j Stored (store_final j ?st (je_seq ev) rows rt3) c)"
    using store [of ?c2 j ?st "je_seq ev" rows anyOK anyErr] by (simp add: set_pc_twice)
  ultimately show ?thesis by (meson step_steps steps_trans)
qed

text \<open>One job with one unit: just started, finished, and failed, for the witnesses.\<close>

definition started_conf :: conf where
  "started_conf = set_pc ''job_1'' (Looping [two_units_base] [] False False)
     (snd (emit 7 ''job_1'' EventJobStarted (Some [(''goal'', GStr ''g'')]) (register ''job_1'' New))) init_conf"

definition ok_result :: UnitResult where
  "ok_result = \<lparr>ur_unit_id = ''a'', ur_status = ''ok'', ur_answer = [], ur_req_ids = [], ur_artifacts = [],
     ur_error_code = [], ur_dead_end = False, ur_plan_epoch = 0\<rparr>"

lemma started_reachable: "reachable started_conf"
proof -
  let ?j = "''job_1''"
  let ?c = "set_pc ?j (Registered [two_units_base]) (register ?j New) init_conf"
  have "reachable ?c"
    using reach_step [OF reach_init start, of ?j "[two_units_base]"] by (simp add: init_conf_def New_def)
  moreover have "job_step ?c (set_pc ?j (Looping [two_units_base] [] False False)
      (snd (emit 7 ?j EventJobStarted (Some [(''goal'', GStr ''g'')]) (register ?j New))) ?c)"
    by (rule begin_loop [where now = 7 and goal = "''g''" and ev = "fst (emit 7 ''job_1'' EventJobStarted
      (Some [(''goal'', GStr ''g'')]) (register ''job_1'' New))"]) simp_all
  ultimately show ?thesis using reach_step by (fastforce simp: started_conf_def set_pc_twice)
qed

lemma started_facts:
  "map_of (c_pc started_conf) ''job_1'' = Some (Looping [two_units_base] [] False False)"
  "\<not> stopped started_conf ''job_1''"
  "\<exists>ev. map_of (rt_events (c_rt started_conf)) ''job_1'' = Some [ev]"
  by (simp_all add: started_conf_def stopped_def isCancelled_def ctx_done_def emit_def register_def
      New_def events_of_def update_conv' Let_def)

lemma failed_reachable:
  "reachable (set_pc ''job_1'' Failed (cancel_ctx ''job_1'' (c_rt started_conf)) started_conf)"
  by (rule reach_step [OF started_reachable]) (rule unit_error [OF started_facts(1,2)])

lemma stored_reachable: "\<exists>c. reachable c \<and> map_of (c_pc c) ''job_1'' = Some Stored"
proof -
  let ?c = "set_pc ''job_1'' (Looping [] [unit_summary ok_result] True False) (c_rt started_conf) started_conf"
  have "job_step started_conf ?c"
    using unit [OF started_facts(1,2), of ok_result] by (simp add: ok_result_def)
  then have "reachable ?c" by (rule reach_step [OF started_reachable])
  moreover obtain ev rt3 where "emit 8 ''job_1'' EventJobFinished
      (Some [(''status'', GStr (final_status False True False))]) (c_rt ?c) = (ev, rt3)" by fastforce
  moreover have "\<not> stopped ?c ''job_1''" using started_facts(2) by (simp add: stopped_def)
  ultimately have "reachable (set_pc ''job_1'' Stored
      (store_final ''job_1'' (final_status False True False) (je_seq ev) [unit_summary ok_result] rt3) ?c)"
    by (intro steps_reachable [OF _ finish_steps]) simp_all
  then show ?thesis by fastforce
qed

section \<open>Properties\<close>



text \<open>C5. In every reachable state the log of a job is numbered 1, 2, ... without gap, begins with
  job.started and holds at most one job.finished, as its last event; Watch after \<open>a\<close> returns exactly
  the log without its first \<open>a\<close> events, so a reader that resumes loses and repeats nothing.\<close>

theorem Watch_reachable:
  assumes "reachable c" and "map_of (rt_events (c_rt c)) j = Some evs" and "0 \<le> a"
  shows "map je_seq evs = map (\<lambda>i. int i + 1) [0..<length evs] \<and>
    map je_type evs \<in> {[], [''job.started''], [''job.started'', ''job.finished'']} \<and>
    Watch j a (c_rt c) = Inr (drop (nat a) evs)"
proof -
  from reachable_log [OF assms(1,2)] have v: "rt_valid (c_rt c)" and l: "log_ok j evs"
    and t: "map je_type evs \<in> {[], [EventJobStarted], [EventJobStarted, EventJobFinished]}" by blast+
  from fake.watch_known [OF v assms(2)] log_ok_filter [OF l assms(3)]
  have "Watch j a (c_rt c) = Inr (drop (nat a) evs)" by simp
  with l t show ?thesis by (simp add: log_ok_def)
qed

lemma Watch_reachable_witness:
  "\<exists>evs. evs \<noteq> [] \<and> Watch ''job_1'' 0 (c_rt started_conf) = Inr evs \<and>
     Watch ''job_1'' 1 (c_rt started_conf) = Inr []"
proof -
  obtain ev where e: "map_of (rt_events (c_rt started_conf)) ''job_1'' = Some [ev]"
    using started_facts(3) by blast
  from Watch_reachable [OF started_reachable e, of 0] Watch_reachable [OF started_reachable e, of 1]
  show ?thesis by auto
qed

text \<open>C4. A cancelled job stays cancelled: once Cancel has marked it, whatever the run and the other
  callers do afterwards, Get reports the status cancelled.\<close>

theorem Cancel_sticky:
  assumes "reachable c" and "map_of (rt_events (c_rt c)) j \<noteq> None"
    and "steps (c\<lparr>c_rt := snd (mark_cancelled j (c_rt c))\<rparr>) c'"
  shows "\<exists>sn. Get j (c_rt c') = Inr sn \<and> js_status sn = ''cancelled''"
proof -
  let ?c = "c\<lparr>c_rt := snd (mark_cancelled j (c_rt c))\<rparr>"
  from reachable_ok [OF assms(1)] have a: "job_at c j" and v: "job_valid (c_rt c) j"
    by (simp_all add: conf_ok_def rt_validD)
  with assms(2) have "map_of (c_pc ?c) j \<noteq> None" "isCancelled (c_rt ?c) j"
    by (auto simp: job_at_def job_valid_def mark_cancelled_def isCancelled_def update_conv' Let_def
        split: option.splits)
  with steps_keep [OF assms(3), of "\<lambda>c. map_of (c_pc c) j \<noteq> None \<and> isCancelled (c_rt c) j"]
  have k: "map_of (c_pc c') j \<noteq> None" "isCancelled (c_rt c') j" using cancelled_stays by auto
  have "reachable c'"
    using steps_reachable [OF reach_step [OF assms(1) cancel] assms(3)] .
  from reachable_ok [OF this] have "job_at c' j" "job_valid (c_rt c') j"
    by (simp_all add: conf_ok_def rt_validD)
  with k show ?thesis
    by (auto simp: job_at_def job_valid_def Get_def split: option.splits)
qed

lemma Cancel_sticky_witness:
  "\<exists>sn. Get ''job_1'' (snd (mark_cancelled ''job_1'' (c_rt started_conf))) = Inr sn \<and>
     js_status sn = ''cancelled''"
proof -
  let ?c = "started_conf\<lparr>c_rt := snd (mark_cancelled ''job_1'' (c_rt started_conf))\<rparr>"
  have "map_of (rt_events (c_rt started_conf)) ''job_1'' \<noteq> None" "steps ?c ?c"
    using started_facts(3) by (auto simp: steps_def)
  from Cancel_sticky [OF started_reachable this] show ?thesis by simp
qed

text \<open>What a finished run stores: sequence number 2 and, unless it was cancelled, the status ok
  when every unit was ok, error when none was, partial when some were and some were not.\<close>

theorem stored_status:
  assumes "reachable c" and "map_of (c_pc c) j = Some Stored"
  shows "\<exists>sn. Get j (c_rt c) = Inr sn \<and> js_seq sn = 2 \<and>
    (js_status sn = ''cancelled'' \<or>
     js_status sn = (if \<forall>m \<in> set (js_summaries sn). mget m ''status'' = GStr ''ok'' then ''ok''
       else if \<forall>m \<in> set (js_summaries sn). mget m ''status'' \<noteq> GStr ''ok'' then ''error''
       else ''partial''))"
proof -
  from reachable_ok [OF assms(1)] have "job_at c j" by (simp add: conf_ok_def)
  with assms(2) obtain sn where "map_of (rt_snaps (c_rt c)) j = Some sn" "js_seq sn = 2"
    "js_status sn \<in> {''cancelled'',
       final_status False (has_ok (js_summaries sn)) (has_err (js_summaries sn))}"
    using job_at_known by fastforce
  moreover have "final_status False (has_ok rows) (has_err rows) =
      (if \<forall>m \<in> set rows. mget m ''status'' = GStr ''ok'' then ''ok''
       else if \<forall>m \<in> set rows. mget m ''status'' \<noteq> GStr ''ok'' then ''error'' else ''partial'')" for rows
    by (auto simp: final_status_def has_ok_def has_err_def)
  ultimately show ?thesis by (auto simp: Get_def)
qed

lemma stored_status_witness:
  "\<exists>(c :: conf) sn. map_of (c_pc c) ''job_1'' = Some Stored \<and> Get ''job_1'' (c_rt c) = Inr sn \<and> js_seq sn = 2"
proof -
  obtain c where c: "reachable c" "map_of (c_pc c) ''job_1'' = Some Stored" using stored_reachable by blast
  from stored_status [OF c] obtain sn where "Get ''job_1'' (c_rt c) = Inr sn" "js_seq sn = 2" by blast
  with c(2) show ?thesis by blast
qed

text \<open>C11. A run that fails because a unit runner returned an error never finishes its job: whatever
  happens afterwards, its log holds job.started alone and Get reports running (or cancelled, when
  someone cancels it), so a watcher waits for ever.\<close>

theorem failed_run_never_finishes:
  assumes "reachable c" and "map_of (c_pc c) j = Some Failed" and "steps c c'"
  shows "\<exists>evs sn. map_of (rt_events (c_rt c')) j = Some evs \<and> map je_type evs = [''job.started''] \<and>
    Get j (c_rt c') = Inr sn \<and> js_status sn \<in> {''running'', ''cancelled''}"
proof -
  have f: "map_of (c_pc c') j = Some Failed"
    by (rule steps_keep [OF assms(3), of "\<lambda>c. map_of (c_pc c) j = Some Failed"])
       (use failed_stays assms(2) in auto)
  have "reachable c'" using assms(1,3) by (rule steps_reachable)
  from reachable_ok [OF this] have "job_at c' j" by (simp add: conf_ok_def)
  from job_at_known [OF this f] show ?thesis by (auto simp: Get_def open_status_def)
qed

lemma failed_run_never_finishes_witness:
  "\<exists>sn. Get ''job_1'' (cancel_ctx ''job_1'' (c_rt started_conf)) = Inr sn \<and>
     js_status sn \<in> {''running'', ''cancelled''}"
proof -
  let ?c = "set_pc ''job_1'' Failed (cancel_ctx ''job_1'' (c_rt started_conf)) started_conf"
  have "map_of (c_pc ?c) ''job_1'' = Some Failed" "steps ?c ?c" by (simp_all add: steps_def)
  from failed_run_never_finishes [OF failed_reachable this] show ?thesis by auto
qed

end
