(* ===== verification/Stamps.thy ===== *)
theory Stamps
  imports Redact
begin

text \<open>
  Identifiers and stamps: typed ids and the hop-id header (src/domain/ids.go), the product stamp
  and its purity check (src/domain/stamps.go), correlation headers
  (src/adapters/zeushttp/headers.go), the client floor (src/domain/floor.go) and the result
  envelope (src/domain/result.go). Minting an id, the clock and the host probe are inputs.
\<close>

section \<open>Ids\<close>

definition ReqIDHeader :: string where
  "ReqIDHeader = ''X-Zeus-Req-Id''"

text \<open>The loop stops at the first key that folds to the header, in the order the map is visited.\<close>

definition ReqIDFromHeaders :: "string amap option \<Rightarrow> string" where
  "ReqIDFromHeaders h = (case h of
     None \<Rightarrow> []
   | Some m \<Rightarrow> (case find (\<lambda>(k, v). equal_fold k ReqIDHeader) m of
       None \<Rightarrow> [] | Some (k, v) \<Rightarrow> trim_space v))"

definition HasReqIDHeader :: "string amap option \<Rightarrow> bool" where
  "HasReqIDHeader h \<longleftrightarrow> ReqIDFromHeaders h \<noteq> []"

text \<open>The error of parseID is its message.\<close>

definition parseID :: "string \<Rightarrow> string \<Rightarrow> string + string" where
  "parseID kind raw = (let s = trim_space raw in
     if s = [] then Inl (kind @ '': id must be non-empty'') else Inr s)"

definition hex_lower :: rx where
  "hex_lower = RCls False [(48, 57), (97, 102)]"

definition UUIDV4Pattern :: rx where
  "UUIDV4Pattern = rseqs
     [RBot, rtimes 8 hex_lower, rchr (CHR ''-''), rtimes 4 hex_lower, rchr (CHR ''-''),
      rchr (CHR ''4''), rtimes 3 hex_lower, rchr (CHR ''-''),
      RCls False [(56, 56), (57, 57), (97, 97), (98, 98)], rtimes 3 hex_lower, rchr (CHR ''-''),
      rtimes 12 hex_lower, REot]"

definition IsUUIDv4 :: "string \<Rightarrow> bool" where
  "IsUUIDv4 value_s \<longleftrightarrow> rx_match UUIDV4Pattern (trim_space value_s)"

text \<open>MintTurnID, given the fresh canonical id and the fresh 32 hex digits.\<close>

definition MintTurnID :: "string \<Rightarrow> string \<Rightarrow> string \<Rightarrow> string" where
  "MintTurnID fresh_id fresh_hex pre = (if pre = [] then fresh_id else pre @ fresh_hex)"

section \<open>IP addresses\<close>

text \<open>net.ParseIP succeeds: a dotted quad without leading zeros, or an IPv6 address with at most one
  \<open>::\<close> (standing for at least one group), the last two groups possibly a dotted quad, no zone.\<close>

definition ipv4_field :: "string \<Rightarrow> bool" where
  "ipv4_field f \<longleftrightarrow> f \<noteq> [] \<and> list_all is_digit f \<and> (length f = 1 \<or> hd f \<noteq> CHR ''0'') \<and>
     length f \<le> 3 \<and> digits_value f \<le> 255"

definition is_ipv4 :: "string \<Rightarrow> bool" where
  "is_ipv4 s \<longleftrightarrow> (let fs = split_on (CHR ''.'') s in length fs = 4 \<and> list_all ipv4_field fs)"

definition is_hex :: "char \<Rightarrow> bool" where
  "is_hex c \<longleftrightarrow> is_digit c \<or> (let n = of_char c :: nat in 97 \<le> n \<and> n \<le> 102 \<or> 65 \<le> n \<and> n \<le> 70)"

definition ipv6_group :: "string \<Rightarrow> bool" where
  "ipv6_group g \<longleftrightarrow> g \<noteq> [] \<and> length g \<le> 4 \<and> list_all is_hex g"

text \<open>The number of groups of a side, or \<open>None\<close> when it is malformed.\<close>

definition ipv6_groups :: "bool \<Rightarrow> string \<Rightarrow> nat option" where
  "ipv6_groups v4_last s =
     (if s = [] then Some 0
      else (let gs = split_on (CHR '':'') s in
        if list_all ipv6_group gs then Some (length gs)
        else if v4_last \<and> list_all ipv6_group (butlast gs) \<and> is_ipv4 (last gs)
        then Some (length gs + 1) else None))"

definition is_ipv6 :: "string \<Rightarrow> bool" where
  "is_ipv6 s = (case str_cut s ''::'' of (l, r, found) \<Rightarrow>
     (if found then (case (ipv6_groups False l, ipv6_groups True r) of
         (Some a, Some b) \<Rightarrow> a + b \<le> 7 | _ \<Rightarrow> False)
      else ipv6_groups True s = Some 8))"

definition ParseIP_ok :: "string \<Rightarrow> bool" where
  "ParseIP_ok s \<longleftrightarrow> is_ipv4 s \<or> is_ipv6 s"

definition IsIPText :: "string \<Rightarrow> bool" where
  "IsIPText value_s = (let t = trim_space value_s in if t = [] then False else ParseIP_ok t)"

section \<open>Stamps\<close>

definition ProductUser :: string where "ProductUser = ''zeus_client''"
definition HubUser :: string where "HubUser = ''admin''"

definition ProductUserEnum :: "string list" where
  "ProductUserEnum = [''zeus_client'', ''zeus'', ''helios'', ''admin'']"

definition stampComponent :: string where "stampComponent = ''domain.stamps''"

definition ResolveStampUser :: "string \<Rightarrow> string" where
  "ResolveStampUser user = (let u = trim_space user in
     if u = [] then ProductUser else if u \<in> set ProductUserEnum then u else ProductUser)"

text \<open>The process environment and the host probe are given as values.\<close>

definition ResolveClientIP :: "string \<Rightarrow> string \<Rightarrow> string \<Rightarrow> bool \<Rightarrow> string" where
  "ResolveClientIP host_probe configIP envVal probeHost =
     (case find (\<lambda>raw. IsIPText (trim_space raw)) [configIP, envVal] of
        Some raw \<Rightarrow> trim_space raw
      | None \<Rightarrow> if probeHost then host_probe else [])"

record StampOptions =
  so_user :: string
  so_ip :: string
  so_version :: string
  so_ts :: string
  so_scope :: string
  so_session :: string

definition ProductStamp :: "string \<Rightarrow> StampOptions \<Rightarrow> gmap" where
  "ProductStamp now_text opts =
     [(''user'', GStr (ResolveStampUser (so_user opts))),
      (''version'', GStr (trim_space (so_version opts)))] @
     (let ip = trim_space (so_ip opts) in if IsIPText ip then [(''ip_address'', GStr ip)] else []) @
     [(''ts'', GStr (if so_ts opts \<noteq> [] then so_ts opts else now_text))] @
     (if so_scope opts \<noteq> [] then [(''scope'', GStr (so_scope opts))] else []) @
     (if so_session opts \<noteq> [] then [(''session_id'', GStr (so_session opts))] else [])"

definition stamp_error :: "string \<Rightarrow> zerror" where
  "stamp_error msg = NewError CodeInvalidArgument stampComponent [WithMessage msg]"

definition AssertProductStamp :: "gmap \<Rightarrow> zerror option" where
  "AssertProductStamp stamp =
     (let user = asString (mget stamp ''user'') in
      if user \<noteq> ProductUser
      then Some (stamp_error (''product stamp user must be '' @ ProductUser @ '', got '' @ user))
      else if user = ''admin'' then Some (stamp_error ''product SDK must not stamp user=admin'')
      else (case map_of stamp ''ip_address'' of
          None \<Rightarrow> None
        | Some ip \<Rightarrow> (if ip \<noteq> GNil \<and> \<not> IsIPText (asString ip)
            then Some (stamp_error ''ip_address must be omitted or a real IP'') else None)))"

section \<open>Headers\<close>

definition copyHeaders :: "string amap \<Rightarrow> string amap" where
  "copyHeaders h = map (\<lambda>(k, v). (k, v)) h"

definition hasFold :: "string amap \<Rightarrow> string \<Rightarrow> bool" where
  "hasFold h name = list_ex (\<lambda>(k, v). equal_fold k name) h"

definition ApplyModeHeader :: "string amap \<Rightarrow> string \<Rightarrow> string amap" where
  "ApplyModeHeader headers mode =
     (let h = copyHeaders headers; m = trim_space mode in
      if m = [] then h
      else if \<not> hasFold h ''X-Zeus-Mode'' then amap_put ''X-Zeus-Mode'' m h else h)"

definition ApplyForceTraceHeader :: "string amap \<Rightarrow> bool \<Rightarrow> string amap" where
  "ApplyForceTraceHeader headers force =
     (let h = copyHeaders headers in if force then amap_put ''X-Zeus-Trace'' ''1'' h else h)"

record Correlation =
  co_chat :: string
  co_turn :: string
  co_call :: string
  co_mode :: string
  co_force_trace :: bool
  co_trace_class :: string
  co_chat_session :: string
  co_brief_sha12 :: string
  co_mini_sha12 :: string

definition put_nonempty :: "string \<Rightarrow> string \<Rightarrow> string amap \<Rightarrow> string amap" where
  "put_nonempty k v h = (if v \<noteq> [] then amap_put k v h else h)"

definition CorrelationHeaders :: "Correlation \<Rightarrow> string amap" where
  "CorrelationHeaders c =
     (let h1 = put_nonempty ''X-Zeus-Chat-Id'' (co_chat c) [];
          h2 = put_nonempty ''X-Zeus-Turn-Id'' (co_turn c) h1;
          h3 = put_nonempty ''X-Zeus-Call-Id'' (co_call c) h2;
          h4 = put_nonempty ''X-Zeus-Mode'' (co_mode c) h3;
          h5 = (if co_force_trace c then amap_put ''X-Zeus-Trace'' ''1'' h4 else h4);
          h6 = put_nonempty ''X-Zeus-Trace-Class'' (trim_space (co_trace_class c)) h5;
          h7 = put_nonempty ''X-Zeus-Chat-Session-Id'' (trim_space (co_chat_session c)) h6;
          h8 = put_nonempty ''X-Zeus-Brief-Sha12'' (trim_space (co_brief_sha12 c)) h7
      in put_nonempty ''X-Zeus-Mini-Sha12'' (trim_space (co_mini_sha12 c)) h8)"

definition StampHeaders :: "string \<Rightarrow> string \<Rightarrow> string amap" where
  "StampHeaders user version =
     [(''X-Zeus-Client'', ResolveStampUser user), (''X-Zeus-Client-Version'', version)]"

definition MergeHeaders :: "string amap list \<Rightarrow> string amap" where
  "MergeHeaders parts = foldl amap_put_all [] parts"

definition RewindQueryParams :: "bool \<Rightarrow> string amap" where
  "RewindQueryParams rewind = (if rewind then [(''rewind'', ''true'')] else [])"

definition VerbBodyWithoutRewind :: "gmap \<Rightarrow> gmap" where
  "VerbBodyWithoutRewind body = filter (\<lambda>(k, v). k \<noteq> ''rewind'') body"

section \<open>The client floor\<close>

definition floorComponent :: string where "floorComponent = ''domain.floor''"
definition DefaultClientFloor :: string where "DefaultClientFloor = ''client-floor-5''"

definition floorRankTable :: "(string \<times> int) list" where
  "floorRankTable =
     [(''client-floor-1'', 1), (''client-floor-4'', 4), (''client-floor-5'', 5),
      (''client-floor-6'', 6), (''client-floor-6.1'', 61)]"

definition version_rx :: "string \<Rightarrow> rx" where
  "version_rx p = rseqs [RBot, rlit p, RCap ''maj'' (rplus rdigit),
     ropt (rseqs [rchr (CHR ''.''), RCap ''min'' (rplus rdigit)]), REot]"

definition floorParseRe :: rx where "floorParseRe = version_rx ''client-floor-''"
definition baseIDRe :: rx where "baseIDRe = version_rx ''base-''"

definition minor_of :: "string \<Rightarrow> int" where
  "minor_of m = (if m \<noteq> [] then atoi_digits m else 0)"

definition FloorRank :: "string \<Rightarrow> int" where
  "FloorRank floorID =
     (let key0 = trim_space floorID; key = (if key0 = [] then DefaultClientFloor else key0) in
      case map_of floorRankTable key of
        Some n \<Rightarrow> n
      | None \<Rightarrow> (case rx_groups floorParseRe key of
          None \<Rightarrow> (case map_of floorRankTable DefaultClientFloor of Some n \<Rightarrow> n | None \<Rightarrow> 0)
        | Some g \<Rightarrow>
            (let major = atoi_digits (g ''maj''); minor = minor_of (g ''min'') in
             if minor \<noteq> 0 then wrap64 (wrap64 (major * 10) + minor) else major)))"

definition FloorRequiredForBaseID :: "string \<Rightarrow> string" where
  "FloorRequiredForBaseID baseID =
     (let raw = trim_space baseID in
      if has_prefix raw ''cus-'' then DefaultClientFloor
      else (case rx_groups baseIDRe raw of
        None \<Rightarrow> DefaultClientFloor
      | Some g \<Rightarrow>
          (let major = atoi_digits (g ''maj''); minor = minor_of (g ''min'') in
           if major \<le> 1 then ''client-floor-1''
           else if major \<le> 4 then ''client-floor-4''
           else if major = 5 then ''client-floor-5''
           else if major = 6 \<and> 1 \<le> minor then ''client-floor-6.1''
           else if 6 \<le> major then ''client-floor-6''
           else DefaultClientFloor)))"

definition floor_message :: "string \<Rightarrow> string \<Rightarrow> string \<Rightarrow> string" where
  "floor_message baseID need clientFloor =
     ''catalog base_id '' @ [CHR 0x27] @ baseID @ [CHR 0x27] @ '' requires '' @ need @
     ''; client.floor is '' @ [CHR 0x27] @ clientFloor @ [CHR 0x27]"

definition FloorViolation :: "string \<Rightarrow> string \<Rightarrow> zerror option" where
  "FloorViolation clientFloor baseID =
     (if trim_space baseID = [] then None
      else (let need = FloorRequiredForBaseID baseID in
        if FloorRank need \<le> FloorRank clientFloor then None
        else Some (NewCatalog CodePreconditionFailed floorComponent
          [WithMessage (floor_message baseID need clientFloor),
           WithDetails [(''base_id'', GStr baseID), (''required_floor'', GStr need),
             (''client_floor'', GStr clientFloor)]])))"

definition AssertFloorAllows :: "string \<Rightarrow> string \<Rightarrow> bool \<Rightarrow> zerror option" where
  "AssertFloorAllows clientFloor baseID allowDegraded =
     (case FloorViolation clientFloor baseID of
        None \<Rightarrow> None | Some e \<Rightarrow> if allowDegraded then None else Some e)"

section \<open>The result envelope\<close>

record 'a Result =
  r_ok :: bool
  r_value :: "'a option"
  r_err :: "zerror option"
  r_req_id :: string
  r_req_ids :: "string list"
  r_meta :: gmap

definition OKResult :: "'a \<Rightarrow> string \<Rightarrow> 'a Result" where
  "OKResult v reqID = \<lparr>r_ok = True, r_value = Some v, r_err = None, r_req_id = reqID,
     r_req_ids = (if reqID \<noteq> [] then [reqID] else []), r_meta = []\<rparr>"

definition FailResult :: "zerror option \<Rightarrow> string \<Rightarrow> 'a Result" where
  "FailResult err reqID = \<lparr>r_ok = False, r_value = None, r_err = err, r_req_id = reqID,
     r_req_ids = (if reqID \<noteq> [] then [reqID] else []), r_meta = []\<rparr>"

text \<open>\<open>Inl\<close> is the returned error; the zero value of a failed envelope is not represented.\<close>

definition Result_Unwrap :: "'a Result \<Rightarrow> zerror + 'a option" where
  "Result_Unwrap r =
     (if r_ok r then Inr (r_value r)
      else (case r_err r of Some e \<Rightarrow> Inl e | None \<Rightarrow> Inl (NewError CodeUnknown ''result'' [])))"

definition Result_Map :: "gval Result \<Rightarrow> gmap" where
  "Result_Map r =
     (''result'', GBool (r_ok r)) #
     (if r_ok r then [(''value'', case r_value r of Some v \<Rightarrow> v | None \<Rightarrow> GNil)]
      else (case r_err r of Some e \<Rightarrow> [(''error'', GObj (ErrorObject e))] | None \<Rightarrow> [])) @
     (if r_req_id r \<noteq> [] then [(''req_id'', GStr (r_req_id r))] else []) @
     (if r_req_ids r \<noteq> [] then [(''req_ids'', GArr (map GStr (r_req_ids r)))] else []) @
     (if r_meta r \<noteq> [] then [(''meta'', GObj (r_meta r))] else [])"

section \<open>Facts\<close>

lemma put_nonempty_keys: "keys_of (put_nonempty k v h) \<subseteq> insert k (keys_of h)"
  by (auto simp: put_nonempty_def dom_update)

lemma foldl_put_all_keys:
  "keys_of (foldl amap_put_all m parts) = keys_of m \<union> \<Union> (keys_of ` set parts)"
proof (induction parts arbitrary: m)
  case (Cons a parts)
  show ?case unfolding foldl_Cons Cons.IH keys_put_all by auto
qed simp

lemma MergeHeaders_keys: "keys_of (MergeHeaders parts) = \<Union> (keys_of ` set parts)"
  unfolding MergeHeaders_def by (simp only: foldl_put_all_keys) simp

definition correlation_names :: "string list" where
  "correlation_names =
     [''X-Zeus-Chat-Id'', ''X-Zeus-Turn-Id'', ''X-Zeus-Call-Id'', ''X-Zeus-Mode'', ''X-Zeus-Trace'',
      ''X-Zeus-Trace-Class'', ''X-Zeus-Chat-Session-Id'', ''X-Zeus-Brief-Sha12'',
      ''X-Zeus-Mini-Sha12'']"

lemma keys_within_put: "keys_of h \<subseteq> S \<Longrightarrow> k \<in> S \<Longrightarrow> keys_of (put_nonempty k v h) \<subseteq> S"
  using put_nonempty_keys [of k v h] by blast

lemma force_put: "(if b then amap_put k (c # cs) h else h) = put_nonempty k (if b then c # cs else []) h"
  by (simp add: put_nonempty_def)

lemma CorrelationHeaders_keys: "keys_of (CorrelationHeaders c) \<subseteq> set correlation_names"
  unfolding CorrelationHeaders_def Let_def force_put
  by (rule keys_within_put)+ (simp_all add: correlation_names_def)

lemma FloorRequired_table: "FloorRequiredForBaseID b \<in> fst ` set floorRankTable"
  by (auto simp: FloorRequiredForBaseID_def DefaultClientFloor_def floorRankTable_def Let_def
      split: option.splits)

lemma FloorRank_table: "list_all (\<lambda>(k, n). FloorRank k = n) floorRankTable"
  by code_simp

section \<open>Properties\<close>

text \<open>The correlation headers never set the session or hop-id header: those names occur in the
  merged headers of a hop only when the caller passed them, and an explicit mode is never
  overwritten, whatever its case.\<close>

theorem hop_headers_never_mint:
  "keys_of (MergeHeaders [CorrelationHeaders c, extra]) \<subseteq>
     {''X-Zeus-Chat-Id'', ''X-Zeus-Turn-Id'', ''X-Zeus-Call-Id'', ''X-Zeus-Mode'', ''X-Zeus-Trace'',
      ''X-Zeus-Trace-Class'', ''X-Zeus-Chat-Session-Id'', ''X-Zeus-Brief-Sha12'',
      ''X-Zeus-Mini-Sha12''} \<union> keys_of extra \<and>
   (\<forall>k v. (k, v) \<in> set extra \<and> equal_fold k ''X-Zeus-Mode'' \<longrightarrow> ApplyModeHeader extra mode = extra)"
proof (intro conjI allI impI)
  show "keys_of (MergeHeaders [CorrelationHeaders c, extra]) \<subseteq>
     {''X-Zeus-Chat-Id'', ''X-Zeus-Turn-Id'', ''X-Zeus-Call-Id'', ''X-Zeus-Mode'', ''X-Zeus-Trace'',
      ''X-Zeus-Trace-Class'', ''X-Zeus-Chat-Session-Id'', ''X-Zeus-Brief-Sha12'',
      ''X-Zeus-Mini-Sha12''} \<union> keys_of extra"
    using CorrelationHeaders_keys [of c] unfolding MergeHeaders_keys correlation_names_def by auto
  fix k v
  assume "(k, v) \<in> set extra \<and> equal_fold k ''X-Zeus-Mode''"
  then have "hasFold extra ''X-Zeus-Mode''" by (auto simp: hasFold_def list_ex_iff)
  then show "ApplyModeHeader extra mode = extra"
    by (simp add: ApplyModeHeader_def copyHeaders_def Let_def)
qed

lemma hop_headers_never_mint_witness:
  "ApplyModeHeader [(''x-zeus-mode'', ''graph'')] ''analytics'' = [(''x-zeus-mode'', ''graph'')]"
proof -
  have "equal_fold ''x-zeus-mode'' ''X-Zeus-Mode''" by code_simp
  with hop_headers_never_mint [of _ "[(''x-zeus-mode'', ''graph'')]" "''analytics''"]
  show ?thesis by simp
qed

text \<open>The product stamp is pure exactly when the configured user resolves to the product: a
  blank or unknown user does, the other known users (zeus, helios, admin) do not.\<close>

theorem ProductStamp_pure_iff:
  "AssertProductStamp (ProductStamp now_text opts) = None \<longleftrightarrow>
     trim_space (so_user opts) \<notin> {''zeus'', ''helios'', ''admin''}"
proof -
  have u: "mget (ProductStamp now_text opts) ''user'' = GStr (ResolveStampUser (so_user opts))"
    by (simp add: ProductStamp_def mget_def)
  have ip: "map_of (ProductStamp now_text opts) ''ip_address'' =
      (if IsIPText (trim_space (so_ip opts)) then Some (GStr (trim_space (so_ip opts))) else None)"
    by (simp add: ProductStamp_def Let_def)
  have "ResolveStampUser (so_user opts) = ProductUser \<longleftrightarrow>
      trim_space (so_user opts) \<notin> {''zeus'', ''helios'', ''admin''}"
    by (auto simp: ResolveStampUser_def ProductUser_def ProductUserEnum_def Let_def)
  moreover have "ProductUser \<noteq> ''admin''" by (simp add: ProductUser_def)
  ultimately show ?thesis
    by (auto simp: AssertProductStamp_def u ip Let_def)
qed

text \<open>The position of a floor in the rank table.\<close>

definition floor_pos :: "string \<Rightarrow> nat" where
  "floor_pos f = length (takeWhile (\<lambda>(k, n). k \<noteq> f) floorRankTable)"

text \<open>With a catalogued client floor a catalog is refused exactly when its base needs a floor
  further down the table, and the refusal has code 000004; degraded mode refuses nothing.\<close>

theorem FloorViolation_table:
  assumes "f \<in> {''client-floor-1'', ''client-floor-4'', ''client-floor-5'', ''client-floor-6'',
    ''client-floor-6.1''}" and "trim_space baseID \<noteq> []"
  shows "(case FloorViolation f baseID of
      None \<Rightarrow> floor_pos (FloorRequiredForBaseID baseID) \<le> floor_pos f
    | Some e \<Rightarrow> floor_pos f < floor_pos (FloorRequiredForBaseID baseID) \<and>
        ze_code e = CodePreconditionFailed) \<and> AssertFloorAllows f baseID True = None"
proof -
  have mono: "\<forall>a \<in> fst ` set floorRankTable. \<forall>b \<in> fst ` set floorRankTable.
      FloorRank a \<le> FloorRank b \<longleftrightarrow> floor_pos a \<le> floor_pos b"
    by code_simp
  have "f \<in> fst ` set floorRankTable" using assms(1) by (auto simp: floorRankTable_def)
  with mono FloorRequired_table [of baseID]
  have "FloorRank (FloorRequiredForBaseID baseID) \<le> FloorRank f \<longleftrightarrow>
      floor_pos (FloorRequiredForBaseID baseID) \<le> floor_pos f" by blast
  with assms(2) show ?thesis
    by (auto simp: FloorViolation_def AssertFloorAllows_def Let_def split: option.splits)
qed

lemma FloorViolation_table_witness:
  "FloorViolation ''client-floor-6'' ''base-6.1'' \<noteq> None \<and> FloorViolation ''client-floor-6'' ''base-6'' = None"
proof -
  have t: "trim_space ''base-6.1'' \<noteq> []" "trim_space ''base-6'' \<noteq> []"
    "floor_pos (FloorRequiredForBaseID ''base-6.1'') = 4"
    "floor_pos (FloorRequiredForBaseID ''base-6'') = 3" "floor_pos ''client-floor-6'' = 3"
    by code_simp+
  show ?thesis
    using FloorViolation_table [OF _ t(1), of "''client-floor-6''"]
      FloorViolation_table [OF _ t(2), of "''client-floor-6''"] t(3-5)
    by (auto split: option.splits)
qed

text \<open>The ranks outside the table are not monotone in the version: the minor version multiplies the
  major one by ten, so a client of floor 7 is refused a catalog of base 6.1 that a client of floor
  6.1 may load.\<close>

theorem newer_floor_refused:
  "FloorRank ''client-floor-7'' = 7 \<and> FloorRank ''client-floor-6.1'' = 61 \<and>
   FloorViolation ''client-floor-7'' ''base-6.1'' \<noteq> None \<and>
   FloorViolation ''client-floor-6.1'' ''base-6.1'' = None"
  by code_simp

end
