(* ===== verification/Contract.thy ===== *)
theory Contract
  imports Redact "HOL-Library.Multiset"
begin

text \<open>
  The contract digest of a chat request and the handling of its Hub stamp
  (src/domain/contract.go): what is left out of the digest, the canonical form, the extraction and
  choice of the hash, the healing of stamps that only drifted by trailing white space, and the
  refusal to invent a hash.

  md5 over the JSON encoding of the canonical value is the parameter \<open>digest\<close>: the hexadecimal sum,
  or \<open>None\<close> when encoding fails. encoding/json writes objects with sorted keys, so \<open>digest\<close> is
  applied to a value whose objects are sorted (\<open>sort_value\<close>). A nil document is \<open>None\<close>.
\<close>

section \<open>Definitions\<close>

definition contractComponent :: string where
  "contractComponent = ''domain.contract''"

definition ScopeBriefMarker :: string where
  "ScopeBriefMarker = [CHR 0x0A, CHR 0x0A] @ ''## SCOPE BRIEF''"

definition MiniSchemaMarker :: string where
  "MiniSchemaMarker = [CHR 0x0A, CHR 0x0A] @ ''## MINI-SCHEMA''"

definition trailingWS :: "char set" where
  "trailingWS = {CHR '' '', CHR 0x09, CHR 0x0A, CHR 0x0D}"

definition runtimeKnobKeys :: "string list" where
  "runtimeKnobKeys =
     [''targets'', ''model'', ''tool_choice'', ''temperature'', ''top_p'', ''max_tokens'']"

record SessionHashChoice =
  shc_hash :: string
  shc_source :: string

definition stripScopeBrief :: "gval \<Rightarrow> string" where
  "stripScopeBrief content = (case content of
     GStr s \<Rightarrow> (case str_index s ScopeBriefMarker of
       Some i \<Rightarrow> trim_right_set trailingWS (take i s)
     | None \<Rightarrow> (case str_index s MiniSchemaMarker of
         Some i \<Rightarrow> trim_right_set trailingWS (take i s)
       | None \<Rightarrow> s))
   | _ \<Rightarrow> [])"

text \<open>The keys the loop of stripForHash passes over.\<close>

definition hash_excluded :: "string \<Rightarrow> bool" where
  "hash_excluded k \<longleftrightarrow> has_prefix k ''_'' \<or> k \<in> set runtimeKnobKeys \<or>
     k = ''guidance'' \<or> k = ''contract'' \<or> k = ''metadata''"

fun stripForHash :: "gval \<Rightarrow> gval" where
  "stripForHash (GObj m) = GObj (map (\<lambda>(k, v). (k, stripForHash v))
     (filter (\<lambda>(k, v). \<not> hash_excluded k) m))"
| "stripForHash (GArr xs) = GArr (map stripForHash xs)"
| "stripForHash (GStr s) = GStr (stripScopeBrief (GStr s))"
| "stripForHash v = v"

text \<open>A system message has the brief stripped from its string content. The code strips before it
  canonicalises the value; a string is its own canonical form, so the order does not matter.\<close>

definition system_content :: "gmap \<Rightarrow> string \<Rightarrow> gval \<Rightarrow> gval" where
  "system_content m k v =
     (if asString (mget m ''role'') = ''system'' \<and> k = ''content''
      then (case v of GStr s \<Rightarrow> GStr (stripScopeBrief v) | _ \<Rightarrow> v) else v)"

fun canonicalize :: "gval \<Rightarrow> gval" where
  "canonicalize (GObj m) = GObj (map (\<lambda>(k, v). (k, system_content m k (canonicalize v))) m)"
| "canonicalize (GArr xs) = GArr (map canonicalize xs)"
| "canonicalize v = v"

fun sort_value :: "gval \<Rightarrow> gval" where
  "sort_value (GObj m) = GObj (sort_key fst (map (\<lambda>(k, v). (k, sort_value v)) m))"
| "sort_value (GArr xs) = GArr (map sort_value xs)"
| "sort_value v = v"

definition ComputeContractHash :: "(gval \<Rightarrow> string option) \<Rightarrow> gmap option \<Rightarrow> string" where
  "ComputeContractHash digest chatRequest = (case chatRequest of
     None \<Rightarrow> []
   | Some req \<Rightarrow> (case digest (sort_value (canonicalize (stripForHash (GObj req)))) of
       None \<Rightarrow> []
     | Some hex \<Rightarrow> ''md5:'' @ hex))"

definition realHash :: "string \<Rightarrow> string" where
  "realHash h = (let hs = trim_space h in
     if hs = [] then [] else if str_contains hs ''TO_BE_FILLED'' then [] else hs)"

text \<open>One candidate of ExtractStampedHash, then the three candidates in order.\<close>

fun first_real :: "string list \<Rightarrow> string" where
  "first_real [] = []"
| "first_real (h # hs) = (if realHash h \<noteq> [] then realHash h else first_real hs)"

definition candidate_hash :: "gmap \<Rightarrow> string" where
  "candidate_hash c = first_real
     ((case asObjectMap (mget c ''contract'') of Some cb \<Rightarrow> [asString (mget cb ''hash'')] | None \<Rightarrow> [])
      @ map (\<lambda>k. asString (mget c k)) [''_hash'', ''hash''])"

fun first_candidate :: "gval list \<Rightarrow> string" where
  "first_candidate [] = []"
| "first_candidate (raw # rest) = (case asObjectMap raw of
     None \<Rightarrow> first_candidate rest
   | Some c \<Rightarrow> if candidate_hash c \<noteq> [] then candidate_hash c else first_candidate rest)"

definition ExtractStampedHash :: "gmap option \<Rightarrow> string" where
  "ExtractStampedHash doc = (case doc of
     None \<Rightarrow> []
   | Some d \<Rightarrow> first_candidate [GObj d, mget d ''stamped_chat_request'', mget d ''stamped''])"

definition ExtractContractID :: "gmap option \<Rightarrow> string" where
  "ExtractContractID doc = (case doc of
     None \<Rightarrow> []
   | Some d \<Rightarrow> (case asObjectMap (mget d ''contract'') of
       None \<Rightarrow> [] | Some cb \<Rightarrow> trim_space (asString (mget cb ''id''))))"

definition ResolveSessionContractHash :: "string \<Rightarrow> string \<Rightarrow> string \<Rightarrow> SessionHashChoice" where
  "ResolveSessionContractHash boundHash stampedHash payloadHash =
     (if payloadHash \<noteq> [] then
        (if stampedHash \<noteq> [] \<and> stampedHash = payloadHash
         then \<lparr>shc_hash = payloadHash, shc_source = ''stamped_matches_payload''\<rparr>
         else if boundHash \<noteq> [] \<and> boundHash = payloadHash
         then \<lparr>shc_hash = payloadHash, shc_source = ''config_matches_payload''\<rparr>
         else \<lparr>shc_hash = payloadHash, shc_source = ''payload_hash''\<rparr>)
      else if stampedHash \<noteq> [] then \<lparr>shc_hash = stampedHash, shc_source = ''stamped_fallback''\<rparr>
      else \<lparr>shc_hash = boundHash, shc_source = ''config_fallback''\<rparr>)"

text \<open>The two surfaces of a system prompt that lose trailing white space.\<close>

definition rstrip_surface :: "string \<Rightarrow> string option" where
  "rstrip_surface content =
     (if content \<noteq> [] \<and> \<not> str_contains content (trim_space ScopeBriefMarker) \<and>
        \<not> str_contains content (trim_space MiniSchemaMarker) \<and>
        trim_right_set trailingWS content \<noteq> content
      then Some (trim_right_set trailingWS content) else None)"

definition rstrip_first_message :: "gmap \<Rightarrow> gmap \<times> bool" where
  "rstrip_first_message d = (case mget d ''messages'' of
     GArr (GObj msg # rest) \<Rightarrow> (case mget msg ''content'' of
       GStr content \<Rightarrow> (case rstrip_surface content of
         Some s \<Rightarrow> (amap_put ''messages'' (GArr (GObj (amap_put ''content'' (GStr s) msg) # rest)) d,
             True)
       | None \<Rightarrow> (d, False))
     | _ \<Rightarrow> (d, False))
   | _ \<Rightarrow> (d, False))"

definition rstrip_instructions :: "gmap \<Rightarrow> gmap \<times> bool" where
  "rstrip_instructions d = (case mget d ''instructions'' of
     GObj instr \<Rightarrow> (case mget instr ''system_prompt'' of
       GStr sp \<Rightarrow> (case rstrip_surface sp of
         Some s \<Rightarrow> (amap_put ''instructions'' (GObj (amap_put ''system_prompt'' (GStr s) instr)) d,
             True)
       | None \<Rightarrow> (d, False))
     | _ \<Rightarrow> (d, False))
   | _ \<Rightarrow> (d, False))"

definition rstripSystemPromptSurfaces :: "gmap \<Rightarrow> gmap \<times> bool" where
  "rstripSystemPromptSurfaces doc = (case cloneJSON (GObj doc) of
     GObj out \<Rightarrow> (let (d1, c1) = rstrip_first_message out; (d2, c2) = rstrip_instructions d1
       in (d2, c1 \<or> c2))
   | _ \<Rightarrow> (doc, False))"

definition rewrite_root :: "string \<Rightarrow> string \<Rightarrow> string \<Rightarrow> gmap \<Rightarrow> gmap" where
  "rewrite_root k oldHash newHash d =
     (if trim_space (asString (mget d k)) = oldHash then amap_put k (GStr newHash) d else d)"

definition rewriteEmbeddedHash :: "gmap \<Rightarrow> string \<Rightarrow> string \<Rightarrow> gmap" where
  "rewriteEmbeddedHash doc oldHash newHash =
     (if oldHash = [] \<or> newHash = [] \<or> oldHash = newHash then doc
      else (let d1 = (case asObjectMap (mget doc ''contract'') of
            Some cb \<Rightarrow> if trim_space (asString (mget cb ''hash'')) = oldHash
              then amap_put ''contract'' (GObj (amap_put ''hash'' (GStr newHash) cb)) doc else doc
          | None \<Rightarrow> doc)
        in rewrite_root ''hash'' oldHash newHash (rewrite_root ''_hash'' oldHash newHash d1)))"

definition HealTrailingWSStampDrift :: "(gval \<Rightarrow> string option) \<Rightarrow> gmap option \<Rightarrow> gmap option" where
  "HealTrailingWSStampDrift digest doc = (case doc of
     None \<Rightarrow> doc
   | Some d \<Rightarrow>
      (let stamped = ExtractStampedHash doc; hRaw = ComputeContractHash digest doc in
       if stamped = [] then doc
       else if stamped \<noteq> hRaw then doc
       else (let (normalized, changed) = rstripSystemPromptSurfaces d;
                 hNorm = ComputeContractHash digest (Some normalized)
         in if \<not> changed then doc
            else if hNorm = [] \<or> hNorm = hRaw then doc
            else Some (rewriteEmbeddedHash normalized stamped hNorm))))"

definition InventProductionHash :: "gmap option \<Rightarrow> zerror" where
  "InventProductionHash doc = NewContract CodeContractHashInventForbidden contractComponent
     [WithMessage ''contract hash invent forbidden'',
      WithDetails ((''hash_source'', GStr ''computed'') #
        (case doc of None \<Rightarrow> []
         | Some d \<Rightarrow> [(''has_stamp'', GBool (ExtractStampedHash doc \<noteq> []))]))]"

definition hash_missing :: zerror where
  "hash_missing = NewCatalog CodeContractHashMissing contractComponent
     [WithMessage ''contract hash missing on stamped catalog'']"

definition PreferStampedForProduction :: "string \<Rightarrow> string \<Rightarrow> zerror + string" where
  "PreferStampedForProduction stamped localCompute =
     (if trim_space stamped \<noteq> [] then Inr (trim_space stamped)
      else if trim_space localCompute \<noteq> [] then Inl (InventProductionHash None)
      else Inl hash_missing)"

definition StampedHash :: "gmap option \<Rightarrow> zerror + string" where
  "StampedHash doc = (let h = ExtractStampedHash doc in if h = [] then Inl hash_missing else Inr h)"

section \<open>The brief and the digest\<close>

lemma str_index_fresh:
  assumes "\<not> str_contains a m" and "\<forall>k \<in> {1..<length m}. take k m \<noteq> drop (length m - k) m"
  shows "str_index (a @ m @ b) m = Some (length a)"
proof -
  obtain i where i: "str_index (a @ m @ b) m = Some i"
    using str_index_append_None [of a m b] by blast
  have le: "i \<le> length a" by (rule str_index_append_skip [OF i])
  have "\<not> i < length a"
  proof
    assume lt: "i < length a"
    define u v where "u = take i (a @ m @ b)" and "v = drop (i + length m) (a @ m @ b)"
    have "u @ (m @ v) = a @ (m @ b)" unfolding u_def v_def
      by (rule str_index_split [OF i, THEN conjunct1, symmetric])
    moreover have "length u < length a" using lt by (simp add: u_def)
    ultimately obtain c where c: "a = u @ c" "m @ v = c @ m @ b"
      using append_eq_append_conv2 [of u "m @ v" a "m @ b"] by auto
    with \<open>length u < length a\<close> have "c \<noteq> []" by auto
    consider d where "c = m @ d" | d where "m = c @ d" "d @ v = m @ b"
      using c(2) append_eq_append_conv2 [of m v c "m @ b"] by blast
    then show False
    proof cases
      case 1
      with c(1) assms(1) show False unfolding str_contains_iff by blast
    next
      case 2
      show False
      proof (cases "d = []")
        case True
        with 2 c(1) assms(1) show False unfolding str_contains_iff
          by (metis append.right_neutral)
      next
        case False
        have "take (length d) (m @ b) = d" using 2(2) by (metis append_eq_conv_conj)
        then have "take (length d) m = drop (length m - length d) m" using 2(1) by simp
        moreover have "length d \<in> {1..<length m}" using False \<open>c \<noteq> []\<close> 2(1)
          by (cases c; cases d) auto
        ultimately show False using assms(2) by blast
      qed
    qed
  qed
  with le i show ?thesis by simp
qed

lemma marker_borders:
  "\<forall>k \<in> {1..<length ScopeBriefMarker}.
     take k ScopeBriefMarker \<noteq> drop (length ScopeBriefMarker - k) ScopeBriefMarker"
  "\<forall>k \<in> {1..<length MiniSchemaMarker}.
     take k MiniSchemaMarker \<noteq> drop (length MiniSchemaMarker - k) MiniSchemaMarker"
  by code_simp+

definition no_brief :: "string \<Rightarrow> bool" where
  "no_brief s \<longleftrightarrow> \<not> str_contains s ScopeBriefMarker \<and> \<not> str_contains s MiniSchemaMarker"

lemma strip_no_brief: "no_brief s \<Longrightarrow> stripScopeBrief (GStr s) = s"
  by (simp add: no_brief_def str_contains_def stripScopeBrief_def)

lemma strip_scope_brief:
  "\<not> str_contains s ScopeBriefMarker \<Longrightarrow>
     stripScopeBrief (GStr (s @ ScopeBriefMarker @ rest)) = trim_right_set trailingWS s"
  by (simp add: stripScopeBrief_def str_index_fresh [OF _ marker_borders(1)])

lemma strip_length: "length (stripScopeBrief (GStr s)) \<le> length s"
proof -
  have "length (trim_right_set trailingWS (take i s)) \<le> length s" for i
    using prefix_length_le [OF trim_right_set_prefix [of trailingWS "take i s"]] by simp
  then show ?thesis by (simp add: stripScopeBrief_def split: option.splits)
qed

lemma strip_excluded: "hash_excluded k \<Longrightarrow> stripForHash (GObj (amap_put k v m)) = stripForHash (GObj m)"
proof -
  assume k: "hash_excluded k"
  have "filter (\<lambda>(k, v). \<not> hash_excluded k) (amap_put k v m) = filter (\<lambda>(k, v). \<not> hash_excluded k) m"
    by (induction m) (use k in auto)
  then show ?thesis by simp
qed

lemma hash_excluded_keys [simp]:
  "hash_excluded ''contract''" "hash_excluded ''_hash''" "hash_excluded ''guidance''"
  "hash_excluded ''metadata''" "\<not> hash_excluded ''messages''" "\<not> hash_excluded ''instructions''"
  by code_simp+

section \<open>Iteration order\<close>

text \<open>Two values that differ only in the order of the entries of their maps, at any depth.\<close>

inductive same_json :: "gval \<Rightarrow> gval \<Rightarrow> bool" where
  same_leaf: "same_json v v"
| same_arr: "list_all2 same_json xs ys \<Longrightarrow> same_json (GArr xs) (GArr ys)"
| same_obj: "list_all2 same_json (map snd m) (map snd m1) \<Longrightarrow> map fst m = map fst m1 \<Longrightarrow>
    mset m1 = mset m2 \<Longrightarrow> same_json (GObj m) (GObj m2)"

text \<open>Such a map, after a function applied entry by entry.\<close>

lemma same_map_upto:
  assumes "list_all2 R (map snd m) (map snd m1)" and "map fst m = map fst m1"
    and "\<And>k v w. (k, v) \<in> set m \<Longrightarrow> R v w \<Longrightarrow> f k v = g k w"
  shows "map (\<lambda>(k, v). (k, f k v)) m = map (\<lambda>(k, v). (k, g k v)) m1"
  using assms
proof (induction m arbitrary: m1)
  case (Cons a m)
  then obtain b m2 where "m1 = b # m2" by (cases m1) auto
  with Cons show ?case by (cases a; cases b) auto
qed auto

lemma same_sorted: "same_json v w \<Longrightarrow> gval_ok v \<Longrightarrow> sort_value v = sort_value w"
proof (induction rule: same_json.induct)
  case (same_arr xs ys)
  then have "list_all2 (\<lambda>v w. sort_value v = sort_value w) xs ys"
    by (auto simp: list_all2_conv_all_nth list_all_length)
  then show ?case by (simp add: list_all2_conv_all_nth list_eq_iff_nth_eq)
next
  case (same_obj m m1 m2)
  let ?f = "\<lambda>(k, v). (k, sort_value v)"
  have ok: "list_all (\<lambda>(k, v). gval_ok v) m" and d: "distinct (map fst m)"
    using same_obj.prems by (simp_all add: amap_ok_def)
  have same: "map ?f m = map ?f m1"
    by (rule same_map_upto [OF same_obj.IH same_obj.hyps(1)])
       (use ok in \<open>auto simp: list_all_iff\<close>)
  have "sort_key fst (map ?f m1) = sort_key fst (map ?f m2)"
  proof (rule sort_key_eq_sort_key)
    show "mset (map ?f m1) = mset (map ?f m2)" using same_obj.hyps(2) by simp
    have "distinct (map fst (map ?f m1))"
      using same_obj.hyps(1) d by (simp add: comp_def split_def)
    then show "inj_on fst (set (map ?f m1))" by (rule distinct_map [THEN iffD1, THEN conjunct2])
  qed
  with same show ?case by simp
qed simp

lemma gval_ok_stripForHash: "gval_ok v \<Longrightarrow> gval_ok (stripForHash v)"
proof (induction v rule: stripForHash.induct)
  case (1 m)
  then show ?case
    by (auto simp: list_all_iff amap_ok_def comp_def split_def distinct_map_filter)
qed (auto simp: list_all_iff)

lemma gval_ok_canonicalize: "gval_ok v \<Longrightarrow> gval_ok (canonicalize v)"
proof (induction v rule: canonicalize.induct)
  case (1 m)
  have "gval_ok w \<Longrightarrow> gval_ok (system_content m k w)" for k w
    by (cases w) (simp_all add: system_content_def)
  with 1 show ?case
    by (auto simp: list_all_iff amap_ok_def comp_def split_def)
qed (auto simp: list_all_iff)

lemma same_stripForHash: "same_json v w \<Longrightarrow> same_json (stripForHash v) (stripForHash w)"
proof (induction rule: same_json.induct)
  case (same_arr xs ys)
  then show ?case by (auto simp: list_all2_conv_all_nth intro!: same_json.same_arr)
next
  case (same_obj m m1 m2)
  let ?p = "\<lambda>(k, v). \<not> hash_excluded k" and ?f = "\<lambda>(k, v). (k, stripForHash v)"
  have "list_all2 same_json (map snd (map ?f (filter ?p m))) (map snd (map ?f (filter ?p m1))) \<and>
      map fst (map ?f (filter ?p m)) = map fst (map ?f (filter ?p m1))"
    using same_obj.IH same_obj.hyps(1)
  proof (induction m arbitrary: m1)
    case (Cons a m)
    then obtain b m2 where "m1 = b # m2" by (cases m1) auto
    with Cons show ?case by (cases a; cases b) auto
  qed auto
  moreover have "mset (map ?f (filter ?p m1)) = mset (map ?f (filter ?p m2))"
    using same_obj.hyps(2) by simp
  ultimately show ?case unfolding stripForHash.simps by (metis same_json.same_obj)
qed (rule same_leaf)

lemma same_json_string: "same_json v (GStr s) \<longleftrightarrow> v = GStr s" "same_json (GStr s) v \<longleftrightarrow> v = GStr s"
  by (auto elim: same_json.cases intro: same_leaf)

lemma same_json_asString: "same_json v w \<Longrightarrow> asString v = asString w"
  by (auto elim: same_json.cases)

lemma same_system_content:
  "same_json v w \<Longrightarrow> asString (mget m ''role'') = asString (mget m' ''role'') \<Longrightarrow>
     same_json (system_content m k v) (system_content m' k w)"
  by (auto simp: system_content_def same_json_string intro: same_leaf split: gval.splits
      elim: same_json.cases)

text \<open>Maps of one entry set have one lookup function.\<close>

lemma mget_mset: "amap_ok m \<Longrightarrow> mset m = mset m' \<Longrightarrow> mget m k = mget m' k"
proof -
  assume a: "amap_ok m" "mset m = mset m'"
  then have "set m = set m'" and "distinct (map fst m')"
    by (metis mset_eq_setD) (metis a amap_ok_def mset_eq_imp_distinct_iff mset_map)
  with a(1) have "map_of m = map_of m'" by (simp add: amap_ok_def map_of_inject_set)
  then show ?thesis by (simp add: mget_def)
qed

lemma same_canonicalize: "same_json v w \<Longrightarrow> gval_ok v \<Longrightarrow> same_json (canonicalize v) (canonicalize w)"
proof (induction rule: same_json.induct)
  case (same_arr xs ys)
  then show ?case
    by (auto simp: list_all2_conv_all_nth list_all_length intro!: same_json.same_arr)
next
  case (same_obj m m1 m2)
  have ok: "amap_ok m1" using same_obj.prems same_obj.hyps(1) by (simp add: amap_ok_def)
  have "list_all2 same_json (map snd m) (map snd m1)"
    using same_obj.IH by (rule list_all2_mono) blast
  then have "same_json (mget m ''role'') (mget m1 ''role'')"
    using same_obj.hyps(1)
  proof (induction m arbitrary: m1)
    case (Cons a m)
    then obtain b m3 where "m1 = b # m3" by (cases m1) auto
    with Cons show ?case by (cases a; cases b) (auto simp: mget_def split: if_splits)
  qed (auto simp: mget_def intro: same_leaf)
  then have role: "asString (mget m ''role'') = asString (mget m2 ''role'')"
    using mget_mset [OF ok same_obj.hyps(2)] by (simp add: same_json_asString)
  let ?f = "\<lambda>m (k, v). (k, system_content m k (canonicalize v))"
  have A: "list_all2 same_json (map snd (map (?f m) m)) (map snd (map (?f m2) m1)) \<and>
      map fst (map (?f m) m) = map fst (map (?f m2) m1)"
  proof -
    have "list_all2 same_json (map snd (map (?f m) n)) (map snd (map (?f m2) n1)) \<and>
        map fst (map (?f m) n) = map fst (map (?f m2) n1)"
      if "list_all2 (\<lambda>v w. same_json (canonicalize v) (canonicalize w)) (map snd n) (map snd n1)"
        "map fst n = map fst n1" for n n1
      using that
    proof (induction n arbitrary: n1)
      case (Cons a n)
      then obtain b n2 where "n1 = b # n2" by (cases n1) auto
      with Cons role show ?case by (cases a; cases b) (auto intro: same_system_content)
    qed auto
    moreover have "list_all2 (\<lambda>v w. same_json (canonicalize v) (canonicalize w)) (map snd m) (map snd m1)"
      using same_obj.IH same_obj.prems
      by (auto simp: list_all2_conv_all_nth list_all_length split_def)
    ultimately show ?thesis using same_obj.hyps(1) by blast
  qed
  have B: "mset (map (?f m2) m1) = mset (map (?f m2) m2)"
    using same_obj.hyps(2) by simp
  show ?case unfolding canonicalize.simps
    by (rule same_json.same_obj [OF conjunct1 [OF A] conjunct2 [OF A] B])
qed (rule same_leaf)

lemma same_hash:
  "same_json v w \<Longrightarrow> gval_ok v \<Longrightarrow>
     sort_value (canonicalize (stripForHash v)) = sort_value (canonicalize (stripForHash w))"
  by (rule same_sorted [OF same_canonicalize [OF same_stripForHash gval_ok_stripForHash]
      gval_ok_canonicalize [OF gval_ok_stripForHash]])

section \<open>Stamps\<close>

lemma realHash_result: "realHash h \<noteq> [] \<Longrightarrow> realHash h = trim_space h \<and> \<not> str_contains (realHash h) ''TO_BE_FILLED''"
  by (simp add: realHash_def Let_def split: if_splits)

lemma first_real_result:
  "first_real hs \<noteq> [] \<Longrightarrow> \<exists>h \<in> set hs. first_real hs = realHash h"
  by (induction hs) (auto split: if_splits)

lemma candidate_hash_result: "candidate_hash c \<noteq> [] \<Longrightarrow> \<exists>h. candidate_hash c = realHash h"
  unfolding candidate_hash_def using first_real_result by blast

lemma first_candidate_result:
  "first_candidate cs \<noteq> [] \<Longrightarrow> \<exists>h. first_candidate cs = realHash h"
  by (induction cs) (auto split: option.splits if_splits dest: candidate_hash_result)

lemma Extract_result:
  "ExtractStampedHash doc \<noteq> [] \<Longrightarrow> \<exists>h. ExtractStampedHash doc = realHash h"
  by (auto simp: ExtractStampedHash_def simp del: first_candidate.simps split: option.splits
      dest: first_candidate_result)

lemma Extract_contract:
  "mget d ''contract'' = GObj cb \<Longrightarrow> realHash (asString (mget cb ''hash'')) \<noteq> [] \<Longrightarrow>
     ExtractStampedHash (Some d) = realHash (asString (mget cb ''hash''))"
  by (simp add: ExtractStampedHash_def candidate_hash_def)

lemma trim_space_fixed:
  assumes "find (\<lambda>p. prefix p s) space_seqs = None"
    and "find (\<lambda>p. prefix p (rev s)) (map rev space_seqs) = None"
  shows "trim_space s = s"
  using assms by (simp add: trim_space_def trim_left_space_def trim_right_space_def strip_seqs_id)

definition hex_digits :: "char set" where
  "hex_digits = set ''0123456789abcdef''"

lemma trim_md5: "list_all (\<lambda>c. c \<in> hex_digits) h \<Longrightarrow> trim_space (''md5:'' @ h) = ''md5:'' @ h"
proof (rule trim_space_fixed)
  show "find (\<lambda>p. prefix p (''md5:'' @ h)) space_seqs = None" by (simp add: space_seqs_def)
  assume h: "list_all (\<lambda>c. c \<in> hex_digits) h"
  have "\<exists>c cs. rev (''md5:'' @ h) = c # cs \<and> (c \<in> hex_digits \<or> c = CHR '':'')"
    using h by (cases h rule: rev_cases) auto
  then obtain c cs where c: "rev (''md5:'' @ h) = c # cs" "c \<in> hex_digits \<or> c = CHR '':''" by blast
  have "\<forall>p \<in> set (map rev space_seqs). \<forall>x \<in> set ''0123456789abcdef:''. hd p \<noteq> x" by code_simp
  moreover from c(2) have "c \<in> set ''0123456789abcdef:''" by (auto simp: hex_digits_def)
  ultimately have "find (\<lambda>p. prefix p (c # cs)) (map rev space_seqs) = None"
    using Nil_notin_space_seqs(2) unfolding find_None_iff prefix_def
    by (metis hd_append2 list.sel(1))
  then show "find (\<lambda>p. prefix p (rev (''md5:'' @ h))) (map rev space_seqs) = None"
    by (simp only: c(1))
qed

lemma Compute_cases:
  "ComputeContractHash digest doc = [] \<or>
     (\<exists>v h. digest v = Some h \<and> ComputeContractHash digest doc = ''md5:'' @ h)"
proof (cases doc)
  case (Some req)
  define w where "w = sort_value (canonicalize (stripForHash (GObj req)))"
  have "ComputeContractHash digest doc = (case digest w of None \<Rightarrow> [] | Some h \<Rightarrow> ''md5:'' @ h)"
    unfolding ComputeContractHash_def Some option.case w_def ..
  then show ?thesis by (cases "digest w") auto
qed (simp add: ComputeContractHash_def)

lemma realHash_md5:
  assumes "list_all (\<lambda>c. c \<in> hex_digits) h"
  shows "realHash (''md5:'' @ h) = ''md5:'' @ h"
proof -
  have "CHR ''T'' \<notin> hex_digits" by (simp add: hex_digits_def)
  then have "CHR ''T'' \<notin> set h" using assms unfolding list_all_iff by metis
  then have "CHR ''T'' \<notin> set (''md5:'' @ h)" by simp
  moreover have "CHR ''T'' \<in> set (a @ ''TO_BE_FILLED'' @ b)" for a b by simp
  ultimately have "\<not> str_contains (''md5:'' @ h) ''TO_BE_FILLED''"
    unfolding str_contains_iff by metis
  then show ?thesis unfolding realHash_def trim_md5 [OF assms] Let_def by simp
qed

lemma realHash_Compute:
  assumes "\<forall>v h. digest v = Some h \<longrightarrow> list_all (\<lambda>c. c \<in> set ''0123456789abcdef'') h"
  shows "realHash (ComputeContractHash digest doc) = ComputeContractHash digest doc"
  using Compute_cases [of digest doc]
proof (elim disjE exE conjE)
  fix v h assume "digest v = Some h" and c: "ComputeContractHash digest doc = ''md5:'' @ h"
  with assms have "list_all (\<lambda>c. c \<in> hex_digits) h" by (simp add: hex_digits_def)
  then show ?thesis unfolding c by (rule realHash_md5)
qed (simp add: realHash_def)

section \<open>Frames of the healing\<close>

lemma rstrip_first_message_frame:
  "k \<noteq> ''messages'' \<Longrightarrow> mget (fst (rstrip_first_message d)) k = mget d k"
  by (auto simp: rstrip_first_message_def mget_put split: gval.splits list.splits option.splits)

lemma rstrip_instructions_frame:
  "k \<noteq> ''instructions'' \<Longrightarrow> mget (fst (rstrip_instructions d)) k = mget d k"
  by (auto simp: rstrip_instructions_def mget_put split: gval.splits list.splits option.splits)

lemma rstrip_surfaces_frame:
  "k \<notin> {''messages'', ''instructions''} \<Longrightarrow> mget (fst (rstripSystemPromptSurfaces d)) k = mget d k"
  using rstrip_first_message_frame [of k d]
    rstrip_instructions_frame [of k "fst (rstrip_first_message d)"]
  by (simp add: rstripSystemPromptSurfaces_def Let_def split_def del: cloneJSON.simps)

lemma rewrite_root_frame: "k \<noteq> r \<Longrightarrow> mget (rewrite_root r o1 n d) k = mget d k"
  by (simp add: rewrite_root_def mget_put)

lemma rewrite_frame:
  "k \<notin> {''contract'', ''_hash'', ''hash''} \<Longrightarrow> mget (rewriteEmbeddedHash d o1 n) k = mget d k"
  by (auto simp: rewriteEmbeddedHash_def rewrite_root_frame mget_put Let_def split: option.splits)

text \<open>Rewriting the stamp of the contract block does not change the digest when there is no root
  key \<open>hash\<close>: the other two keys are left out of it.\<close>

lemma strip_rewrite:
  "mget d ''hash'' = GNil \<Longrightarrow> o1 \<noteq> [] \<Longrightarrow>
     stripForHash (GObj (rewriteEmbeddedHash d o1 n)) = stripForHash (GObj d)"
proof -
  assume h: "mget d ''hash'' = GNil" and o1: "o1 \<noteq> []"
  define e where "e = (case asObjectMap (mget d ''contract'') of
      Some cb \<Rightarrow> if trim_space (asString (mget cb ''hash'')) = o1
        then amap_put ''contract'' (GObj (amap_put ''hash'' (GStr n) cb)) d else d
    | None \<Rightarrow> d)"
  have 1: "stripForHash (GObj e) = stripForHash (GObj d)"
    by (simp add: e_def strip_excluded del: stripForHash.simps split: option.splits)
  have 2: "stripForHash (GObj (rewrite_root ''_hash'' o1 n e)) = stripForHash (GObj e)"
    by (simp add: rewrite_root_def strip_excluded del: stripForHash.simps)
  have "mget e ''hash'' = GNil" using h by (simp add: e_def mget_put split: option.splits)
  then have "mget (rewrite_root ''_hash'' o1 n e) ''hash'' = GNil"
    using rewrite_root_frame [of "''hash''" "''_hash''" o1 n e] by simp
  then have 3: "rewrite_root ''hash'' o1 n (rewrite_root ''_hash'' o1 n e) = rewrite_root ''_hash'' o1 n e"
    using o1 by (simp add: rewrite_root_def [of "''hash''"])
  have "rewriteEmbeddedHash d o1 n = (if o1 = [] \<or> n = [] \<or> o1 = n then d
      else rewrite_root ''hash'' o1 n (rewrite_root ''_hash'' o1 n e))"
    by (simp only: rewriteEmbeddedHash_def Let_def e_def)
  then show ?thesis unfolding 3 using 1 2 by (simp del: stripForHash.simps)
qed

section \<open>Properties\<close>



text \<open>Healing never forges a stamp: a document changes only when its stamp is its own digest and
  a system prompt ends in white space; then only the two prompt surfaces and the stamp fields
  change, and with the stamp in the contract block (and no root key \<open>hash\<close>) the healed document
  carries exactly its own digest.\<close>

theorem HealTrailingWSStampDrift_sound:
  assumes hex: "\<forall>v h. digest v = Some h \<longrightarrow> list_all (\<lambda>c. c \<in> set ''0123456789abcdef'') h"
    and heal: "HealTrailingWSStampDrift digest (Some d) = Some d'" and "d' \<noteq> d"
  shows "ExtractStampedHash (Some d) = ComputeContractHash digest (Some d) \<and>
    snd (rstripSystemPromptSurfaces d) \<and>
    (\<forall>k. k \<notin> {''messages'', ''instructions'', ''contract'', ''_hash'', ''hash''} \<longrightarrow> mget d' k = mget d k) \<and>
    ((\<exists>cb. mget d ''contract'' = GObj cb \<and> realHash (asString (mget cb ''hash'')) \<noteq> []) \<and>
      mget d ''hash'' = GNil \<longrightarrow>
      ExtractStampedHash (Some d') = ComputeContractHash digest (Some d'))"
proof -
  define stamped where "stamped = ExtractStampedHash (Some d)"
  define norm where "norm = fst (rstripSystemPromptSurfaces d)"
  define hNorm where "hNorm = ComputeContractHash digest (Some norm)"
  from heal \<open>d' \<noteq> d\<close> have st: "stamped \<noteq> []" "stamped = ComputeContractHash digest (Some d)"
    "snd (rstripSystemPromptSurfaces d)" "hNorm \<noteq> []" "hNorm \<noteq> stamped"
    and d': "d' = rewriteEmbeddedHash norm stamped hNorm"
    by (auto simp: HealTrailingWSStampDrift_def Let_def split_def stamped_def norm_def hNorm_def
        split: if_splits)
  have frame: "mget d' k = mget d k"
    if "k \<notin> {''messages'', ''instructions'', ''contract'', ''_hash'', ''hash''}" for k
    using that rstrip_surfaces_frame [of k d] rewrite_frame [of k norm stamped hNorm]
    by (simp add: d' norm_def)
  have own: "ExtractStampedHash (Some d') = ComputeContractHash digest (Some d')"
    if cb: "mget d ''contract'' = GObj cb" "realHash (asString (mget cb ''hash'')) \<noteq> []"
      and nh: "mget d ''hash'' = GNil" for cb
  proof -
    have n: "mget norm ''contract'' = GObj cb" "mget norm ''hash'' = GNil"
      using rstrip_surfaces_frame [of "''contract''" d] rstrip_surfaces_frame [of "''hash''" d]
        cb(1) nh by (simp_all add: norm_def)
    have tr: "trim_space (asString (mget cb ''hash'')) = stamped"
      using Extract_contract [OF cb] realHash_result [OF cb(2)] by (simp add: stamped_def)
    have "mget d' ''contract'' = GObj (amap_put ''hash'' (GStr hNorm) cb)"
      using st tr n by (simp add: d' rewriteEmbeddedHash_def Let_def rewrite_root_frame mget_put)
    moreover have rh: "realHash hNorm = hNorm"
      unfolding hNorm_def using realHash_Compute [OF hex] .
    ultimately have "ExtractStampedHash (Some d') = hNorm"
      using Extract_contract [of d' "amap_put ''hash'' (GStr hNorm) cb"] st(4) by (simp add: mget_put)
    moreover have "ComputeContractHash digest (Some d') = hNorm"
      using strip_rewrite [OF n(2) st(1), of hNorm]
      by (simp only: d' ComputeContractHash_def option.case hNorm_def)
    ultimately show ?thesis by simp
  qed
  show ?thesis
  proof (intro conjI impI allI)
    show "ExtractStampedHash (Some d) = ComputeContractHash digest (Some d)"
      using st(2) by (simp add: stamped_def)
    show "snd (rstripSystemPromptSurfaces d)" by (rule st(3))
  next
    fix k :: string
    assume "k \<notin> {''messages'', ''instructions'', ''contract'', ''_hash'', ''hash''}"
    then show "mget d' k = mget d k" by (rule frame)
  next
    assume "(\<exists>cb. mget d ''contract'' = GObj cb \<and> realHash (asString (mget cb ''hash'')) \<noteq> []) \<and>
      mget d ''hash'' = GNil"
    then show "ExtractStampedHash (Some d') = ComputeContractHash digest (Some d')"
      using own by blast
  qed
qed

lemma HealTrailingWSStampDrift_sound_witness:
  fixes dg :: "gval \<Rightarrow> string option" and d d' :: gmap
  defines "dg \<equiv> \<lambda>v. if v = GObj [(''messages'', GArr [GObj [(''content'', GStr ''hi'')]])]
      then Some ''b'' else Some ''a''"
    and "d \<equiv> [(''messages'', GArr [GObj [(''content'', GStr ''hi '')]]),
      (''contract'', GObj [(''hash'', GStr ''md5:a'')])]"
    and "d' \<equiv> [(''messages'', GArr [GObj [(''content'', GStr ''hi'')]]),
      (''contract'', GObj [(''hash'', GStr ''md5:b'')])]"
  shows "HealTrailingWSStampDrift dg (Some d) = Some d' \<and>
    ExtractStampedHash (Some d) = ComputeContractHash dg (Some d) \<and>
    ExtractStampedHash (Some d') = ComputeContractHash dg (Some d')"
proof -
  have heal: "HealTrailingWSStampDrift dg (Some d) = Some d'"
    unfolding dg_def d_def d'_def by code_simp
  have ne: "d' \<noteq> d" by (simp add: d_def d'_def)
  have hex: "\<forall>v h. dg v = Some h \<longrightarrow> list_all (\<lambda>c. c \<in> set ''0123456789abcdef'') h"
    by (auto simp: dg_def)
  have cb: "mget d ''contract'' = GObj [(''hash'', GStr ''md5:a'')]" "mget d ''hash'' = GNil"
    by (simp_all add: d_def mget_def)
  have "realHash (asString (mget [(''hash'', GStr ''md5:a'')] ''hash'')) \<noteq> []" by code_simp
  with HealTrailingWSStampDrift_sound [OF hex heal ne] heal cb show ?thesis by blast
qed

text \<open>A production hash is never invented: what PreferStampedForProduction and StampedHash return
  is the Hub's stamp without surrounding space (never blank, never a placeholder); without a stamp
  the first refuses a local digest with 030005 and reports 030004 when there is none, and the second
  always reports 030004. A session create sends the digest of the payload whenever there is one.\<close>

theorem production_hash_never_invented:
  "(case PreferStampedForProduction stamped local_digest of
      Inr h \<Rightarrow> h = trim_space stamped \<and> h \<noteq> []
    | Inl e \<Rightarrow> trim_space stamped = [] \<and>
        ze_code e = (if trim_space local_digest = [] then CodeContractHashMissing
          else CodeContractHashInventForbidden)) \<and>
   (case StampedHash doc of
      Inr h \<Rightarrow> h = ExtractStampedHash doc \<and> h \<noteq> [] \<and> trim_space h = h \<and> \<not> str_contains h ''TO_BE_FILLED''
    | Inl e \<Rightarrow> ExtractStampedHash doc = [] \<and> ze_code e = CodeContractHashMissing) \<and>
   shc_hash (ResolveSessionContractHash bound stamped payload) =
     (if payload \<noteq> [] then payload else if stamped \<noteq> [] then stamped else bound)"
proof (intro conjI)
  show "case PreferStampedForProduction stamped local_digest of
      Inr h \<Rightarrow> h = trim_space stamped \<and> h \<noteq> []
    | Inl e \<Rightarrow> trim_space stamped = [] \<and>
        ze_code e = (if trim_space local_digest = [] then CodeContractHashMissing
          else CodeContractHashInventForbidden)"
    by (simp add: PreferStampedForProduction_def InventProductionHash_def hash_missing_def)
  have "trim_space h = h \<and> \<not> str_contains h ''TO_BE_FILLED''"
    if "ExtractStampedHash doc = h" "h \<noteq> []" for h
    using that Extract_result [of doc] realHash_result trim_space_idem by metis
  then show "case StampedHash doc of
      Inr h \<Rightarrow> h = ExtractStampedHash doc \<and> h \<noteq> [] \<and> trim_space h = h \<and> \<not> str_contains h ''TO_BE_FILLED''
    | Inl e \<Rightarrow> ExtractStampedHash doc = [] \<and> ze_code e = CodeContractHashMissing"
    by (simp add: StampedHash_def hash_missing_def Let_def)
qed (simp add: ResolveSessionContractHash_def)

end
