(* ===== verification/Session.thy ===== *)
theory Session
  imports Stamps Contract
begin

text \<open>
  Durable sessions: the handle and its updates (src/domain/session.go) and the lifecycle
  (src/application/session_lifecycle.go): create, rehydrate, recovery of a dead session id, commit
  of a turn. The HTTP client of the lifecycle is a record of its three hops over a state \<open>'s\<close>
  (\<open>session_port\<close>); \<open>None\<close> is an unwired client. The lifecycle's log is the list of its events.
  The error of a Go call comes as an option beside its result.
\<close>

section \<open>The handle\<close>

record SessionHandle =
  sh_session_id :: string
  sh_round :: int
  sh_chat_id :: string
  sh_contract_id :: string
  sh_contract_hash :: string
  sh_contract_status :: string
  sh_mode :: string
  sh_created :: bool
  sh_rehydrated :: bool
  sh_recovered_from :: string
  sh_enabled :: bool
  sh_create_req_id :: string
  sh_error :: string

definition zeroHandle :: SessionHandle where
  "zeroHandle = \<lparr>sh_session_id = [], sh_round = 0, sh_chat_id = [], sh_contract_id = [],
     sh_contract_hash = [], sh_contract_status = [], sh_mode = [], sh_created = False,
     sh_rehydrated = False, sh_recovered_from = [], sh_enabled = False, sh_create_req_id = [],
     sh_error = []\<rparr>"

record SessionHandleUpdates =
  up_session_id :: "string option"
  up_round :: "int option"
  up_chat_id :: "string option"
  up_contract_id :: "string option"
  up_contract_hash :: "string option"
  up_contract_status :: "string option"
  up_mode :: "string option"
  up_created :: "bool option"
  up_rehydrated :: "bool option"
  up_recovered_from :: "string option"
  up_enabled :: "bool option"
  up_create_req_id :: "string option"
  up_error :: "string option"

definition noUpdates :: SessionHandleUpdates where
  "noUpdates = \<lparr>up_session_id = None, up_round = None, up_chat_id = None, up_contract_id = None,
     up_contract_hash = None, up_contract_status = None, up_mode = None, up_created = None,
     up_rehydrated = None, up_recovered_from = None, up_enabled = None, up_create_req_id = None,
     up_error = None\<rparr>"

definition or_keep :: "'a option \<Rightarrow> 'a \<Rightarrow> 'a" where
  "or_keep u x = (case u of None \<Rightarrow> x | Some y \<Rightarrow> y)"

definition WithUpdates :: "SessionHandle \<Rightarrow> SessionHandleUpdates \<Rightarrow> SessionHandle" where
  "WithUpdates h u =
     \<lparr>sh_session_id = or_keep (up_session_id u) (sh_session_id h),
      sh_round = or_keep (up_round u) (sh_round h),
      sh_chat_id = or_keep (up_chat_id u) (sh_chat_id h),
      sh_contract_id = or_keep (up_contract_id u) (sh_contract_id h),
      sh_contract_hash = or_keep (up_contract_hash u) (sh_contract_hash h),
      sh_contract_status = or_keep (up_contract_status u) (sh_contract_status h),
      sh_mode = or_keep (up_mode u) (sh_mode h),
      sh_created = or_keep (up_created u) (sh_created h),
      sh_rehydrated = or_keep (up_rehydrated u) (sh_rehydrated h),
      sh_recovered_from = or_keep (up_recovered_from u) (sh_recovered_from h),
      sh_enabled = or_keep (up_enabled u) (sh_enabled h),
      sh_create_req_id = or_keep (up_create_req_id u) (sh_create_req_id h),
      sh_error = or_keep (up_error u) (sh_error h)\<rparr>"

definition NormalizeContractStatus :: "string \<Rightarrow> string" where
  "NormalizeContractStatus raw =
     (if raw = [] then ''none'' else if raw = ''ok'' \<or> raw = ''match'' then ''match'' else raw)"

definition ContractStatusFromRehydrate :: "string \<Rightarrow> string \<Rightarrow> gmap \<Rightarrow> string" where
  "ContractStatusFromRehydrate contractID sessionHash reh =
     (let rehHash = asString (mget reh ''hash''); rehCID = asString (mget reh ''contract_id'');
          cid = trim_space contractID; wantH = trim_space sessionHash
      in if cid = [] \<and> rehCID = [] then ''none''
         else if wantH \<noteq> [] \<and> rehHash \<noteq> [] then (if wantH = rehHash then ''match'' else ''drift'')
         else if cid \<noteq> [] \<or> rehCID \<noteq> [] then ''match''
         else ''none'')"

section \<open>The client port\<close>

record DataTarget =
  dt_bucket :: string
  dt_scope :: string
  dt_collection :: string

record SessionHTTPResult =
  hr_ok :: bool
  hr_status :: int
  hr_body :: gmap
  hr_url :: string
  hr_req_id :: string
  hr_error :: string

record SessionCreateRequest =
  cr_contract_id :: string
  cr_contract_hash :: string
  cr_chat_request :: gmap
  cr_conversation :: "gval list"
  cr_headers :: "string amap"
  cr_mode :: string
  cr_target :: DataTarget
  cr_rewind :: bool

record SessionContinueRequest =
  ct_session_id :: string
  ct_client_round :: int
  ct_chat_request :: gmap
  ct_new_turns :: "gval list"
  ct_headers :: "string amap"
  ct_mode :: string
  ct_target :: DataTarget
  ct_rewind :: bool

type_synonym 's create_op =
  "SessionCreateRequest \<Rightarrow> 's \<Rightarrow> (SessionHTTPResult \<times> zerror option) \<times> 's"
type_synonym 's continue_op =
  "SessionContinueRequest \<Rightarrow> 's \<Rightarrow> (SessionHTTPResult \<times> zerror option) \<times> 's"
type_synonym 's rehydrate_op =
  "string \<Rightarrow> int \<Rightarrow> string \<Rightarrow> string amap \<Rightarrow> DataTarget \<Rightarrow> 's \<Rightarrow> (zerror + gmap option) \<times> 's"

record 's session_port =
  sp_create :: "'s create_op"
  sp_rehydrate :: "'s rehydrate_op"
  sp_continue :: "'s continue_op"
  sp_last_req_id :: "'s \<Rightarrow> string"

section \<open>The lifecycle\<close>

definition sessionLifeComponent :: string where
  "sessionLifeComponent = ''application.session_lifecycle''"

type_synonym life_log = "(string \<times> string \<times> gmap) list"

text \<open>The lifecycle's log lines and the blob Logs returns.\<close>

definition Logs :: "life_log \<Rightarrow> string" where
  "Logs logs = join_with [CHR 0x0A] (map (\<lambda>(level, msg, attrs). level @ '' '' @ msg) logs)"

record SetupOptions =
  su_chat_request :: gmap
  su_user_message :: string
  su_prior :: "SessionHandle option"
  su_contract_id :: string
  su_bound_hash :: string
  su_mode :: string
  su_chat_id :: string
  su_enable_sessions :: bool
  su_headers :: "string amap"
  su_turn_id :: string
  su_force_trace :: bool
  su_rewind :: bool
  su_brief_sha12 :: string
  su_mini_sha12 :: string

record CommitOptions =
  cm_chat_request :: gmap
  cm_produced_delta :: "gval list"
  cm_mode :: string
  cm_headers :: "string amap"
  cm_turn_id :: string
  cm_force_trace :: bool
  cm_rewind :: bool
  cm_brief_sha12 :: string
  cm_mini_sha12 :: string

record CommitResult =
  cmr_ok :: bool
  cmr_handle :: SessionHandle
  cmr_turn_req_id :: string
  cmr_error :: string
  cmr_status :: int

definition sessionHopHeaders :: "string \<Rightarrow> string \<Rightarrow> bool \<Rightarrow> string amap \<Rightarrow> string \<Rightarrow> string \<Rightarrow> string \<Rightarrow>
    string amap" where
  "sessionHopHeaders chatID turnID forceTrace extra chatSessionID brief mini =
     MergeHeaders
       [CorrelationHeaders \<lparr>co_chat = chatID, co_turn = turnID, co_call = [], co_mode = [],
          co_force_trace = forceTrace, co_trace_class = ''session'', co_chat_session = chatSessionID,
          co_brief_sha12 = brief, co_mini_sha12 = mini\<rparr>, extra]"

definition sessionHashFor :: "(gval \<Rightarrow> string option) \<Rightarrow> gmap \<Rightarrow> string \<Rightarrow> string" where
  "sessionHashFor digest chatReq bound =
     shc_hash (ResolveSessionContractHash bound (ExtractStampedHash (Some chatReq))
       (if 0 < length chatReq then ComputeContractHash digest (Some chatReq) else []))"

definition firstNonEmpty :: "string \<Rightarrow> string \<Rightarrow> string" where
  "firstNonEmpty a b = (if a \<noteq> [] then a else b)"

text \<open>A decimal string, folded in a 64-bit int; any other rune, and the value 0, give the default.\<close>

definition digits_fold :: "string \<Rightarrow> int" where
  "digits_fold ds = foldl (\<lambda>n c. wrap64 (wrap64 (n * 10) + int (of_char c - 48))) 0 ds"

definition jsonInt :: "gval \<Rightarrow> int \<Rightarrow> int" where
  "jsonInt v dflt = (case v of
     GInt x \<Rightarrow> if x = 0 then dflt else x
   | GFloat x \<Rightarrow> if x = 0 then dflt else trunc_rat x
   | GStr s \<Rightarrow> (if \<not> list_all is_digit s then dflt
       else if digits_fold s = 0 then dflt else digits_fold s)
   | _ \<Rightarrow> dflt)"

definition http_message :: "SessionHTTPResult \<Rightarrow> string" where
  "http_message r = (if hr_error r = [] then ''HTTP '' @ int_digits (hr_status r) else hr_error r)"

text \<open>The typed error of a refused hop: 409 is a missing contract, anything else the given code.\<close>

definition hop_error :: "Code \<Rightarrow> SessionHTTPResult \<Rightarrow> zerror" where
  "hop_error c r =
     (let details = (''http.status_code'', GInt (hr_status r)) #
            (if hr_req_id r \<noteq> [] then [(''req_id'', GStr (hr_req_id r))] else []);
          opts = [WithMessage (http_message r), WithDetails details]
      in if hr_status r = 409
         then NewZeusTransport CodeZeusContractRequired sessionLifeComponent opts
         else NewSession c sessionLifeComponent opts)"

definition conversation_of :: "string \<Rightarrow> gval list" where
  "conversation_of userMessage = (if userMessage \<noteq> []
     then [GObj [(''role'', GStr ''user''), (''content'', GStr userMessage)]] else [])"

definition created_handle :: "SessionHTTPResult \<Rightarrow> string \<Rightarrow> string \<Rightarrow> string \<Rightarrow> string \<Rightarrow> string \<Rightarrow>
    SessionHandle" where
  "created_handle r contractID contractHash mode chatID recoveredFrom =
     (let rnd = jsonInt (mget (hr_body r) ''round'') 1 in
      zeroHandle\<lparr>sh_session_id := trim_space (asString (mget (hr_body r) ''session_id'')),
        sh_round := (if rnd \<le> 0 then 1 else rnd), sh_chat_id := chatID,
        sh_contract_id := contractID, sh_contract_hash := contractHash,
        sh_contract_status := NormalizeContractStatus (asString (mget (hr_body r) ''contract_status'')),
        sh_created := True, sh_recovered_from := recoveredFrom, sh_enabled := True,
        sh_create_req_id := hr_req_id r, sh_mode := mode\<rparr>)"

definition failed_handle :: "SessionHTTPResult \<Rightarrow> string \<Rightarrow> string \<Rightarrow> string \<Rightarrow> string \<Rightarrow> string \<Rightarrow>
    SessionHandle" where
  "failed_handle r contractID contractHash mode chatID recoveredFrom =
     zeroHandle\<lparr>sh_round := 1, sh_chat_id := chatID, sh_contract_id := contractID,
       sh_contract_hash := contractHash, sh_contract_status := ''none'',
       sh_recovered_from := recoveredFrom, sh_enabled := True, sh_create_req_id := hr_req_id r,
       sh_error := http_message r, sh_mode := mode\<rparr>"

definition failed_event :: "gmap \<Rightarrow> string \<times> string \<times> gmap" where
  "failed_event attrs = (''error'', ''zeus_client.session.failed'', attrs)"

text \<open>\<open>(*SessionLifecycle).create\<close>.\<close>

definition create :: "'s session_port \<Rightarrow> DataTarget \<Rightarrow> gmap \<Rightarrow> string \<Rightarrow> string \<Rightarrow> string \<Rightarrow> string \<Rightarrow>
    string \<Rightarrow> string amap \<Rightarrow> string \<Rightarrow> bool \<Rightarrow> 's \<times> life_log \<Rightarrow>
    (SessionHandle \<times> zerror option) \<times> 's \<times> life_log" where
  "create port target chatReq userMessage contractID contractHash mode chatID headers recoveredFrom
      rewind st =
     (let (s, logs) = st;
          ((result, err), s') = sp_create port
            \<lparr>cr_contract_id = contractID, cr_contract_hash = contractHash, cr_chat_request = chatReq,
             cr_conversation = conversation_of userMessage, cr_headers = headers, cr_mode = mode,
             cr_target = target, cr_rewind = rewind\<rparr> s
      in case err of
           Some e \<Rightarrow> ((zeroHandle, Some e), s', logs)
         | None \<Rightarrow>
            (if hr_ok result then
               (let h = created_handle result contractID contractHash mode chatID recoveredFrom;
                    scope = (if dt_bucket target \<noteq> [] \<and> dt_scope target \<noteq> []
                      then dt_bucket target @ ''/'' @ dt_scope target else [])
                in ((h, None), s', logs @ [(''info'', ''zeus_client.session.created'',
                     [(''session.id'', GStr (sh_session_id h)), (''req_id'', GStr (hr_req_id result)),
                      (''scope'', GStr scope), (''contract_status'', GStr (sh_contract_status h)),
                      (''result'', GStr ''ok'')])]))
             else
               ((failed_handle result contractID contractHash mode chatID recoveredFrom,
                 Some (hop_error CodeSessionCreateFailed result)), s',
                logs @ [failed_event
                  [(''req_id'', GStr (hr_req_id result)), (''http.status_code'', GInt (hr_status result)),
                   (''error.message'', GStr (http_message result)), (''result'', GStr ''error'')]])))"

definition rehydrated_handle :: "string \<Rightarrow> int \<Rightarrow> string \<Rightarrow> string \<Rightarrow> string \<Rightarrow> string \<Rightarrow> string \<Rightarrow>
    SessionHandle" where
  "rehydrated_handle priorSID thisRound chatID cid sessionHash cst mode =
     zeroHandle\<lparr>sh_session_id := priorSID, sh_round := thisRound, sh_chat_id := chatID,
       sh_contract_id := cid, sh_contract_hash := sessionHash, sh_contract_status := cst,
       sh_rehydrated := True, sh_enabled := True, sh_mode := mode\<rparr>"

definition disabled_handle :: "string \<Rightarrow> string \<Rightarrow> string \<Rightarrow> string \<Rightarrow> SessionHandle" where
  "disabled_handle chatID cid sessionHash mode =
     zeroHandle\<lparr>sh_round := 1, sh_chat_id := chatID, sh_contract_id := cid,
       sh_contract_hash := sessionHash,
       sh_contract_status := (if cid \<noteq> [] then ''match'' else ''none''), sh_mode := mode\<rparr>"

text \<open>What Setup reads of the prior handle, and the mode and headers of its hops.\<close>

definition prior_sid :: "SetupOptions \<Rightarrow> string" where
  "prior_sid opts = (case su_prior opts of None \<Rightarrow> [] | Some p \<Rightarrow> trim_space (sh_session_id p))"

definition prior_mode :: "SetupOptions \<Rightarrow> string" where
  "prior_mode opts = (case su_prior opts of None \<Rightarrow> [] | Some p \<Rightarrow> trim_space (sh_mode p))"

definition prior_chat :: "SetupOptions \<Rightarrow> string" where
  "prior_chat opts = (case su_prior opts of None \<Rightarrow> [] | Some p \<Rightarrow> sh_chat_id p)"

definition prior_round :: "SetupOptions \<Rightarrow> int" where
  "prior_round opts = (case su_prior opts of None \<Rightarrow> 0 | Some p \<Rightarrow> sh_round p)"

definition setup_mode :: "SetupOptions \<Rightarrow> string" where
  "setup_mode opts = (if su_mode opts = [] then ''analytics'' else su_mode opts)"

definition setup_headers :: "SetupOptions \<Rightarrow> string amap" where
  "setup_headers opts = sessionHopHeaders (su_chat_id opts) (su_turn_id opts) (su_force_trace opts)
     (su_headers opts) (prior_sid opts) (su_brief_sha12 opts) (su_mini_sha12 opts)"

definition mode_switch :: "SetupOptions \<Rightarrow> bool" where
  "mode_switch opts \<longleftrightarrow> prior_sid opts \<noteq> [] \<and> prior_mode opts \<noteq> [] \<and>
     prior_mode opts \<noteq> trim_space (setup_mode opts)"

text \<open>The calls of \<open>create\<close> in Setup, and the handling of a rehydrated body.\<close>

definition setup_create :: "'s session_port \<Rightarrow> DataTarget \<Rightarrow> SetupOptions \<Rightarrow> string \<Rightarrow> string \<Rightarrow>
    string \<Rightarrow> 's \<times> life_log \<Rightarrow> (SessionHandle \<times> zerror option) \<times> 's \<times> life_log" where
  "setup_create port target opts sessionHash chat recoveredFrom st =
     create port target (su_chat_request opts) (su_user_message opts)
       (trim_space (su_contract_id opts)) sessionHash (setup_mode opts) chat (setup_headers opts)
       recoveredFrom (su_rewind opts) st"

definition setup_rehydrated :: "'s session_port \<Rightarrow> SetupOptions \<Rightarrow> string \<Rightarrow> gmap \<Rightarrow>
    's \<times> life_log \<Rightarrow> (SessionHandle \<times> zerror option) \<times> 's \<times> life_log" where
  "setup_rehydrated port opts sessionHash body st =
     (let (s, logs) = st;
          rehRound = jsonInt (mget body ''round'') (prior_round opts);
          thisRound = (if 0 < rehRound then wrap64 (rehRound + 1) else 1);
          cst = ContractStatusFromRehydrate (trim_space (su_contract_id opts)) sessionHash body;
          reqID = (if asString (mget body ''_req_id'') = [] then sp_last_req_id port s
            else asString (mget body ''_req_id''))
      in ((rehydrated_handle (prior_sid opts) thisRound
             (firstNonEmpty (su_chat_id opts) (prior_chat opts)) (trim_space (su_contract_id opts))
             sessionHash cst (setup_mode opts), None),
          s, logs @ [(''info'', ''zeus_client.session.rehydrated'',
            [(''session.id'', GStr (prior_sid opts)), (''req_id'', GStr reqID),
             (''zeus.round'', GInt thisRound), (''contract_status'', GStr cst),
             (''result'', GStr ''ok'')])]))"

text \<open>\<open>(*SessionLifecycle).Setup\<close>; \<open>ctx_err\<close> is the context's error on entry.\<close>

definition Setup :: "(gval \<Rightarrow> string option) \<Rightarrow> 's session_port option \<Rightarrow> DataTarget \<Rightarrow>
    ctx_error option \<Rightarrow> SetupOptions \<Rightarrow> 's \<times> life_log \<Rightarrow>
    (SessionHandle \<times> zerror option) \<times> 's \<times> life_log" where
  "Setup digest client target ctx_err opts st = (case FromContext ctx_err of
     Some de \<Rightarrow> ((zeroHandle, Some de), st)
   | None \<Rightarrow>
      (let sessionHash = sessionHashFor digest (su_chat_request opts) (su_bound_hash opts);
           chat = firstNonEmpty (su_chat_id opts) (prior_chat opts)
       in if \<not> su_enable_sessions opts
          then ((disabled_handle (su_chat_id opts) (trim_space (su_contract_id opts)) sessionHash
            (setup_mode opts), None), st)
          else (case client of
            None \<Rightarrow> ((zeroHandle, Some (NewSession CodeSessionCreateFailed sessionLifeComponent
                [WithMessage ''session client not wired''])), st)
          | Some port \<Rightarrow>
             (if mode_switch opts then setup_create port target opts sessionHash chat [] st
              else if prior_sid opts \<noteq> [] then
                (let (s, logs) = st;
                     (reh, s') = sp_rehydrate port (prior_sid opts) 6 (setup_mode opts)
                       (setup_headers opts) target s
                 in case reh of
                      Inl e \<Rightarrow> ((zeroHandle, Some e), s', logs)
                    | Inr (Some body) \<Rightarrow> setup_rehydrated port opts sessionHash body (s', logs)
                    | Inr None \<Rightarrow>
                       setup_create port target opts sessionHash chat (prior_sid opts) (s', logs))
              else setup_create port target opts sessionHash (su_chat_id opts) [] st))))"

text \<open>The turns a commit sends: a just created session already holds the user message.\<close>

definition strip_user_turns :: "gval list \<Rightarrow> gval list" where
  "strip_user_turns delta = filter (\<lambda>m. case asObjectMap m of
     None \<Rightarrow> True | Some mm \<Rightarrow> asString (mget mm ''role'') \<noteq> ''user'') delta"

definition commit_round :: "SessionHandle \<Rightarrow> int" where
  "commit_round h = (if sh_created h then wrap64 (sh_round h + 1) else sh_round h)"

definition commit_turns :: "SessionHandle \<Rightarrow> CommitOptions \<Rightarrow> gval list" where
  "commit_turns h opts = (if sh_created h then strip_user_turns (cm_produced_delta opts)
     else cm_produced_delta opts)"

definition continue_request :: "DataTarget \<Rightarrow> SessionHandle \<Rightarrow> CommitOptions \<Rightarrow> SessionContinueRequest" where
  "continue_request target h opts =
     \<lparr>ct_session_id = sh_session_id h, ct_client_round = commit_round h,
      ct_chat_request = cm_chat_request opts, ct_new_turns = commit_turns h opts,
      ct_headers = sessionHopHeaders (sh_chat_id h) (cm_turn_id opts) (cm_force_trace opts)
        (cm_headers opts) (sh_session_id h) (cm_brief_sha12 opts) (cm_mini_sha12 opts),
      ct_mode = (if cm_mode opts = [] then ''analytics'' else cm_mode opts),
      ct_target = target, ct_rewind = cm_rewind opts\<rparr>"

definition commit_result :: "SessionHandle \<Rightarrow> CommitResult" where
  "commit_result h = \<lparr>cmr_ok = False, cmr_handle = h, cmr_turn_req_id = [], cmr_error = [],
     cmr_status = 0\<rparr>"

text \<open>What Commit makes of the answer to its hop.\<close>

definition commit_answer :: "SessionHandle \<Rightarrow> SessionHTTPResult \<Rightarrow> zerror option \<Rightarrow> life_log \<Rightarrow>
    (CommitResult \<times> zerror option) \<times> life_log" where
  "commit_answer h result err logs =
     (let hop = (commit_result h)\<lparr>cmr_turn_req_id := hr_req_id result, cmr_status := hr_status result\<rparr>
      in case err of
           Some e \<Rightarrow> ((hop, Some e), logs)
         | None \<Rightarrow>
            (if hr_ok result then
               ((hop\<lparr>cmr_ok := True, cmr_handle := WithUpdates h
                  (noUpdates\<lparr>up_round := Some (commit_round h), up_created := Some False,
                     up_rehydrated := Some False, up_error := Some []\<rparr>)\<rparr>, None),
                logs @ [(''info'', ''zeus_client.session.committed'',
                  [(''session.id'', GStr (sh_session_id h)), (''round'', GInt (commit_round h)),
                   (''req_id'', GStr (hr_req_id result)), (''result'', GStr ''ok'')])])
             else
               ((hop\<lparr>cmr_error := http_message result, cmr_handle := WithUpdates h
                  (noUpdates\<lparr>up_error := Some (http_message result)\<rparr>)\<rparr>,
                 Some (hop_error CodeSessionContinueFailed result)),
                logs @ [failed_event
                  [(''session.id'', GStr (sh_session_id h)), (''req_id'', GStr (hr_req_id result)),
                   (''error.message'', GStr (http_message result)), (''result'', GStr ''error'')]])))"

text \<open>\<open>(*SessionLifecycle).Commit\<close>.\<close>

definition Commit :: "'s session_port option \<Rightarrow> DataTarget \<Rightarrow> ctx_error option \<Rightarrow> SessionHandle \<Rightarrow>
    CommitOptions \<Rightarrow> 's \<times> life_log \<Rightarrow> (CommitResult \<times> zerror option) \<times> 's \<times> life_log" where
  "Commit client target ctx_err h opts st = (case FromContext ctx_err of
     Some de \<Rightarrow> ((commit_result h, Some de), st)
   | None \<Rightarrow>
      (if \<not> sh_enabled h \<or> sh_session_id h = []
       then (((commit_result h)\<lparr>cmr_ok := True\<rparr>, None), st)
       else (case client of
         None \<Rightarrow> ((commit_result h, Some (NewSession CodeSessionCommitFailed sessionLifeComponent
             [WithMessage ''session client not wired''])), st)
       | Some port \<Rightarrow>
          (if commit_turns h opts = [] then
             (((commit_result h)\<lparr>cmr_ok := True, cmr_handle := WithUpdates h
                (noUpdates\<lparr>up_round := Some (commit_round h), up_created := Some False\<rparr>)\<rparr>, None), st)
           else
             (let (s, logs) = st;
                  ((result, err), s') = sp_continue port (continue_request target h opts) s;
                  (out, logs') = commit_answer h result err logs
              in (out, s', logs'))))))"

section \<open>Facts\<close>

lemma WithUpdates_keeps:
  "sh_session_id (WithUpdates h (noUpdates\<lparr>up_round := r, up_created := c, up_rehydrated := y,
     up_error := e\<rparr>)) = sh_session_id h"
  by (simp add: WithUpdates_def noUpdates_def or_keep_def)

lemmas upd_defs = WithUpdates_def noUpdates_def or_keep_def

lemma WithUpdates_none [simp]: "WithUpdates h noUpdates = h"
  by (simp add: WithUpdates_def noUpdates_def or_keep_def)

lemma FromContext_None_iff [simp]: "FromContext c = None \<longleftrightarrow> c = None"
  by (cases c rule: FromContext.cases) auto

text \<open>The two outcomes of a create, and its only errors.\<close>

lemma create_cases:
  assumes "create port target chatReq um cid ch mode chat hdrs rec rw (s, logs) = ((h, e), s', logs')"
  shows "\<exists>req res err. sp_create port req s = ((res, err), s') \<and>
     cr_conversation req = conversation_of um \<and> cr_contract_hash req = ch \<and>
     ((err = None \<and> hr_ok res \<and> e = None \<and> h = created_handle res cid ch mode chat rec) \<or>
      (err = None \<and> \<not> hr_ok res \<and> e = Some (hop_error CodeSessionCreateFailed res) \<and>
         h = failed_handle res cid ch mode chat rec) \<or>
      (\<exists>x. err = Some x \<and> e = Some x \<and> h = zeroHandle))"
proof -
  let ?req = "\<lparr>cr_contract_id = cid, cr_contract_hash = ch, cr_chat_request = chatReq,
     cr_conversation = conversation_of um, cr_headers = hdrs, cr_mode = mode,
     cr_target = target, cr_rewind = rw\<rparr>"
  obtain res err t where c: "sp_create port ?req s = ((res, err), t)"
    by (metis prod.collapse)
  with assms show ?thesis
    by (intro exI [of _ ?req] exI [of _ res] exI [of _ err])
       (auto simp: create_def Let_def split: option.splits if_splits)
qed

lemma created_handle_simps [simp]:
  "sh_session_id (created_handle r cid ch mode chat rec) =
     trim_space (asString (mget (hr_body r) ''session_id''))"
  "sh_created (created_handle r cid ch mode chat rec)"
  "\<not> sh_rehydrated (created_handle r cid ch mode chat rec)"
  "sh_recovered_from (created_handle r cid ch mode chat rec) = rec"
  "1 \<le> sh_round (created_handle r cid ch mode chat rec)"
  "sh_session_id (failed_handle r cid ch mode chat rec) = []"
  "sh_recovered_from (failed_handle r cid ch mode chat rec) = rec"
  "sh_session_id zeroHandle = []"
  by (simp_all add: created_handle_def failed_handle_def zeroHandle_def Let_def)

lemma hop_error_code [simp]:
  "ze_code (hop_error c r) = (if hr_status r = 409 then CodeZeusContractRequired else c)"
  by (simp add: hop_error_def Let_def)

lemma setup_rehydrated_simps:
  "setup_rehydrated port opts hash body (s, logs) = ((h, e), s', logs') \<Longrightarrow>
     e = None \<and> s' = s \<and> sh_session_id h = prior_sid opts \<and> sh_rehydrated h \<and> \<not> sh_created h \<and>
     sh_recovered_from h = [] \<and>
     (jsonInt (mget body ''round'') (prior_round opts) < 2 ^ 63 - 1 \<longrightarrow> 1 \<le> sh_round h)"
  by (auto simp: setup_rehydrated_def Let_def rehydrated_handle_def zeroHandle_def wrap64_id)

text \<open>The way Setup goes for an enabled session on a wired client.\<close>

lemma Setup_enabled:
  assumes "su_enable_sessions opts"
    and "Setup digest (Some port) target None opts (s, logs) = ((h, e), s', logs')"
  obtains (reuse) body s1 where
    "sp_rehydrate port (prior_sid opts) 6 (setup_mode opts) (setup_headers opts) target s =
       (Inr (Some body), s1)" "\<not> mode_switch opts" "prior_sid opts \<noteq> []"
    "setup_rehydrated port opts (sessionHashFor digest (su_chat_request opts) (su_bound_hash opts))
       body (s1, logs) = ((h, e), s', logs')"
  | (fail) x where
    "sp_rehydrate port (prior_sid opts) 6 (setup_mode opts) (setup_headers opts) target s = (Inl x, s')"
    "e = Some x" "h = zeroHandle" "prior_sid opts \<noteq> []"
  | (make) s1 chat rec where
    "setup_create port target opts (sessionHashFor digest (su_chat_request opts) (su_bound_hash opts))
       chat rec (s1, logs) = ((h, e), s', logs')"
    "rec = [] \<and> s1 = s \<and> (mode_switch opts \<or> prior_sid opts = []) \<or>
     rec = prior_sid opts \<and> rec \<noteq> [] \<and> \<not> mode_switch opts \<and>
       sp_rehydrate port (prior_sid opts) 6 (setup_mode opts) (setup_headers opts) target s = (Inr None, s1)"
proof -
  note d = assms(2) [unfolded Setup_def]
  show thesis
  proof (cases "mode_switch opts \<or> prior_sid opts = []")
    case True
    then obtain chat where "setup_create port target opts
        (sessionHashFor digest (su_chat_request opts) (su_bound_hash opts)) chat [] (s, logs) =
        ((h, e), s', logs')"
      using d assms(1) by (auto simp: Let_def split: if_splits)
    with True show thesis by (intro make) auto
  next
    case False
    obtain reh s1 where r: "sp_rehydrate port (prior_sid opts) 6 (setup_mode opts)
        (setup_headers opts) target s = (reh, s1)" by fastforce
    show thesis
    proof (cases reh)
      case (Inl x)
      with r d assms(1) False show thesis by (intro fail) (auto simp: Let_def)
    next
      case (Inr body)
      show thesis
      proof (cases body)
        case None
        with Inr r d assms(1) False show thesis
          by (intro make [of _ "prior_sid opts" s1]) (auto simp: Let_def)
      next
        case (Some b)
        with Inr r d assms(1) False show thesis by (intro reuse) (auto simp: Let_def)
      qed
    qed
  qed
qed

section \<open>Clients whose success means a success status\<close>

text \<open>What the lifecycle relies on of its client: a hop reported as OK was answered with one of the
  success statuses of its route.\<close>

locale session_hops =
  fixes port :: "'s session_port"
  assumes create_ok: "sp_create port req s = ((res, None), s') \<Longrightarrow> hr_ok res \<Longrightarrow>
      hr_status res \<in> {200, 201}"
    and continue_ok: "sp_continue port creq s = ((res, None), s') \<Longrightarrow> hr_ok res \<Longrightarrow>
      hr_status res = 200"
begin

text \<open>A commit that succeeds sent nothing or was answered 200.\<close>

lemma commit_ok_status:
  assumes "Commit (Some port) target c h opts (s, logs) = ((r, e), st')" and "cmr_ok r"
  shows "e = None \<and> cmr_status r \<in> {0, 200}"
proof -
  obtain res err s1 where a: "sp_continue port (continue_request target h opts) s = ((res, err), s1)"
    by (metis prod.collapse)
  have "cmr_status r = hr_status res" "hr_ok res" "err = None" "e = None"
    if "(r, e) = fst (commit_answer h res err logs)"
    using that assms(2)
    by (auto simp: commit_answer_def commit_result_def Let_def split: option.splits if_splits)
  with assms a continue_ok [of "continue_request target h opts" s res s1] show ?thesis
    by (auto simp: Commit_def commit_result_def split: option.splits if_splits prod.splits)
qed

text \<open>A created handle comes from a hop answered 200 or 201.\<close>

lemma created_status:
  assumes "create port target chatReq um cid ch mode chat hdrs rec rw (s, logs) = ((h, None), s', logs')"
  shows "\<exists>req res. sp_create port req s = ((res, None), s') \<and> hr_status res \<in> {200, 201} \<and>
    sh_session_id h = trim_space (asString (mget (hr_body res) ''session_id''))"
  using create_cases [OF assms] create_ok by fastforce

end

section \<open>Properties\<close>

text \<open>A server that has forgotten every session and accepts every other hop, for the witnesses.\<close>

definition forgetful_port :: "unit session_port" where
  "forgetful_port =
     \<lparr>sp_create = (\<lambda>req s. ((\<lparr>hr_ok = True, hr_status = 201,
          hr_body = [(''session_id'', GStr '' s-1''), (''round'', GInt 1)], hr_url = [], hr_req_id = ''q'',
          hr_error = []\<rparr>, None), s)),
      sp_rehydrate = (\<lambda>sid n mode hdrs target s. (Inr None, s)),
      sp_continue = (\<lambda>req s. ((\<lparr>hr_ok = True, hr_status = 200, hr_body = [], hr_url = [],
          hr_req_id = ''r'', hr_error = []\<rparr>, None), s)),
      sp_last_req_id = (\<lambda>s. [])\<rparr>"

definition dead_setup :: SetupOptions where
  "dead_setup = \<lparr>su_chat_request = [], su_user_message = ''hi'',
     su_prior = Some (zeroHandle\<lparr>sh_session_id := ''s-0'', sh_round := 4, sh_mode := ''graph''\<rparr>),
     su_contract_id = ''c'', su_bound_hash = ''md5:b'', su_mode = ''graph'', su_chat_id = ''chat'',
     su_enable_sessions = True, su_headers = [], su_turn_id = ''t'', su_force_trace = False,
     su_rewind = False, su_brief_sha12 = [], su_mini_sha12 = []\<rparr>"

definition no_target :: DataTarget where
  "no_target = \<lparr>dt_bucket = [], dt_scope = [], dt_collection = []\<rparr>"

definition recovered_handle :: SessionHandle where
  "recovered_handle = zeroHandle\<lparr>sh_session_id := ''s-1'', sh_round := 1, sh_chat_id := ''chat'',
     sh_contract_id := ''c'', sh_contract_hash := ''md5:b'', sh_contract_status := ''none'',
     sh_mode := ''graph'', sh_created := True, sh_recovered_from := ''s-0'', sh_enabled := True,
     sh_create_req_id := ''q''\<rparr>"

definition assistant_commit :: CommitOptions where
  "assistant_commit = \<lparr>cm_chat_request = [],
     cm_produced_delta = [GObj [(''role'', GStr ''assistant'')]], cm_mode = [], cm_headers = [],
     cm_turn_id = [], cm_force_trace = False, cm_rewind = False, cm_brief_sha12 = [],
     cm_mini_sha12 = []\<rparr>"

lemma unit_result: "\<exists>r e l. (x :: ('a \<times> 'b) \<times> unit \<times> 'c) = ((r, e), (), l)"
  by (cases x) auto

lemma dead_setup_recovers:
  "\<exists>logs'. Setup (\<lambda>v. None) (Some forgetful_port) no_target None dead_setup ((), []) =
     ((recovered_handle, None), (), logs')"
proof -
  have "fst (Setup (\<lambda>v. None) (Some forgetful_port) no_target None dead_setup ((), [])) =
     (recovered_handle, None)" by code_simp
  then show ?thesis
    using unit_result [of "Setup (\<lambda>v. None) (Some forgetful_port) no_target None dead_setup ((), [])"]
    by fastforce
qed

text \<open>C7. Setup never invents a session id: the id of the handle it returns is empty (sessions
  disabled), or the trimmed prior id whose rehydration the server answered, or the trimmed id of the
  body of a create the server accepted. The round is at least 1.\<close>

theorem Setup_never_invents:
  assumes "Setup digest (Some port) target None opts (s, logs) = ((h, None), s', logs')"
  shows "(\<not> su_enable_sessions opts \<and> sh_session_id h = [] \<and> s' = s \<and> sh_round h = 1) \<or>
    (\<exists>body. sp_rehydrate port (prior_sid opts) 6 (setup_mode opts) (setup_headers opts) target s =
        (Inr (Some body), s') \<and> sh_session_id h = prior_sid opts \<and> prior_sid opts \<noteq> [] \<and>
        \<not> mode_switch opts \<and> sh_rehydrated h \<and> \<not> sh_created h \<and>
        (jsonInt (mget body ''round'') (prior_round opts) < 2 ^ 63 - 1 \<longrightarrow> 1 \<le> sh_round h)) \<or>
    (\<exists>req res s1. sp_create port req s1 = ((res, None), s') \<and> hr_ok res \<and>
        sh_session_id h = trim_space (asString (mget (hr_body res) ''session_id'')) \<and>
        sh_created h \<and> \<not> sh_rehydrated h \<and> 1 \<le> sh_round h)"
proof (cases "su_enable_sessions opts")
  case False
  with assms show ?thesis by (auto simp: Setup_def disabled_handle_def zeroHandle_def Let_def)
next
  case True
  show ?thesis
    using True assms
  proof (cases rule: Setup_enabled)
    case (reuse body s1)
    with setup_rehydrated_simps [OF reuse(4)] show ?thesis by blast
  next
    case (make s1 chat rec)
    with create_cases [OF make(1) [unfolded setup_create_def]] show ?thesis by fastforce
  qed simp
qed

lemma Setup_never_invents_witness:
  "\<exists>req res s1. sp_create forgetful_port req s1 = ((res, None), ()) \<and>
     sh_session_id recovered_handle = trim_space (asString (mget (hr_body res) ''session_id''))"
proof -
  obtain logs' where "Setup (\<lambda>v. None) (Some forgetful_port) no_target None dead_setup ((), []) =
     ((recovered_handle, None), (), logs')" using dead_setup_recovers by blast
  from Setup_never_invents [OF this]
  have "su_enable_sessions dead_setup \<Longrightarrow> sh_created recovered_handle \<Longrightarrow> ?thesis" by blast
  then show ?thesis by (simp add: dead_setup_def recovered_handle_def)
qed

text \<open>A dead session id is recovered in the same call: after a rehydrate that found nothing
  exactly one create follows and the handle records the dead id, while a switch of mode (or no prior
  id) creates without asking for the old session and records nothing. When Setup fails the handle has
  no session id; a create the server refused gives the contract code for status 409 and
  the create code for any other.\<close>

theorem Setup_recovery:
  assumes "su_enable_sessions opts"
    and "Setup digest (Some port) target None opts (s, logs) = ((h, e), s', logs')"
  shows "(sh_created h \<longrightarrow>
      (if mode_switch opts \<or> prior_sid opts = [] then sh_recovered_from h = [] \<and>
         (\<exists>req res. sp_create port req s = ((res, None), s'))
       else sh_recovered_from h = prior_sid opts \<and>
         (\<exists>s1 req res. sp_rehydrate port (prior_sid opts) 6 (setup_mode opts) (setup_headers opts)
            target s = (Inr None, s1) \<and> sp_create port req s1 = ((res, None), s')))) \<and>
    (e \<noteq> None \<longrightarrow> sh_session_id h = [] \<and> \<not> sh_created h) \<and>
    (\<forall>x. e = Some x \<longrightarrow> (\<exists>s1. sp_rehydrate port (prior_sid opts) 6 (setup_mode opts)
         (setup_headers opts) target s = (Inl x, s1)) \<or>
       (\<exists>req res s1. sp_create port req s1 = ((res, Some x), s')) \<or>
       (\<exists>req res s1. sp_create port req s1 = ((res, None), s') \<and> \<not> hr_ok res \<and>
          ze_code x = (if hr_status res = 409 then CodeZeusContractRequired
            else CodeSessionCreateFailed)))"
  using assms
proof (cases rule: Setup_enabled)
  case (reuse body s1)
  with setup_rehydrated_simps [OF reuse(4)] show ?thesis by simp
next
  case (fail x)
  then show ?thesis by (auto simp: zeroHandle_def)
next
  case (make s1 chat rec)
  have nc: "\<not> sh_created zeroHandle" "\<not> sh_created (failed_handle r a b c d f)" for r a b c d f
    by (simp_all add: zeroHandle_def failed_handle_def)
  from create_cases [OF make(1) [unfolded setup_create_def]] obtain req res err
    where c: "sp_create port req s1 = ((res, err), s')" and
      o: "(err = None \<and> hr_ok res \<and> e = None \<and> sh_recovered_from h = rec \<and> sh_created h) \<or>
        (err = None \<and> \<not> hr_ok res \<and> e = Some (hop_error CodeSessionCreateFailed res) \<and>
          \<not> sh_created h \<and> sh_session_id h = []) \<or>
        (\<exists>x. err = Some x \<and> e = Some x \<and> \<not> sh_created h \<and> sh_session_id h = [])"
    using nc by fastforce
  from o show ?thesis
  proof (elim disjE exE conjE)
    assume "err = None" "sh_recovered_from h = rec" "e = None"
    with c make(2) show ?thesis by auto
  next
    assume r: "err = None" "\<not> hr_ok res" "e = Some (hop_error CodeSessionCreateFailed res)"
      "\<not> sh_created h" "sh_session_id h = []"
    with c have "\<exists>req res s1. sp_create port req s1 = ((res, None), s') \<and> \<not> hr_ok res \<and>
        ze_code (the e) = (if hr_status res = 409 then CodeZeusContractRequired
          else CodeSessionCreateFailed)" by fastforce
    then have "\<exists>req res s1. sp_create port req s1 = ((res, None), s') \<and> \<not> hr_ok res \<and>
        ze_code x = (if hr_status res = 409 then CodeZeusContractRequired
          else CodeSessionCreateFailed)" if "e = Some x" for x
      using that by (simp only: option.sel)
    then show ?thesis using r(4,5) by blast
  next
    fix x assume "err = Some x" "e = Some x" "\<not> sh_created h" "sh_session_id h = []"
    with c show ?thesis by auto
  qed
qed

lemma Setup_recovery_witness:
  "sh_recovered_from recovered_handle = prior_sid dead_setup \<and> prior_sid dead_setup = ''s-0''"
proof -
  obtain logs' where r: "Setup (\<lambda>v. None) (Some forgetful_port) no_target None dead_setup ((), []) =
     ((recovered_handle, None), (), logs')" using dead_setup_recovers by blast
  have s: "su_enable_sessions dead_setup" "sh_created recovered_handle" "\<not> mode_switch dead_setup"
    "prior_sid dead_setup = ''s-0''" by code_simp+
  with Setup_recovery [OF s(1) r] show ?thesis by simp
qed

text \<open>C3. Commit advances the round exactly once: on success the handle keeps its ids, is no longer
  marked as created, and its round is the old one plus one for a just created session and unchanged
  otherwise; on failure round and mark stay, so the same turn can be committed again.\<close>

theorem Commit_round:
  assumes "Commit client target c h opts st = ((r, e), st')"
  shows "sh_session_id (cmr_handle r) = sh_session_id h \<and> sh_chat_id (cmr_handle r) = sh_chat_id h \<and>
    sh_contract_hash (cmr_handle r) = sh_contract_hash h \<and>
    (cmr_ok r \<longleftrightarrow> e = None) \<and>
    (cmr_ok r \<and> sh_enabled h \<and> sh_session_id h \<noteq> [] \<longrightarrow> \<not> sh_created (cmr_handle r) \<and>
       sh_round (cmr_handle r) = (if sh_created h then wrap64 (sh_round h + 1) else sh_round h)) \<and>
    (\<not> cmr_ok r \<longrightarrow> sh_round (cmr_handle r) = sh_round h \<and> sh_created (cmr_handle r) = sh_created h)"
  using assms
proof (cases "\<exists>port. c = None \<and> client = Some port \<and> sh_enabled h \<and> sh_session_id h \<noteq> [] \<and>
    commit_turns h opts \<noteq> []")
  case True
  obtain s logs where st: "st = (s, logs)" by (cases st)
  from True obtain port where p: "client = Some port" by blast
  obtain res err s1 where "sp_continue port (continue_request target h opts) s = ((res, err), s1)"
    by (metis prod.collapse)
  with assms True p st have "(r, e) = fst (commit_answer h res err logs)"
    by (auto simp: Commit_def Let_def split: prod.splits)
  then show ?thesis
    by (auto simp: commit_answer_def commit_result_def commit_round_def upd_defs Let_def
        split: option.splits if_splits)
next
  case False
  with assms show ?thesis
    by (auto simp: Commit_def commit_result_def commit_round_def upd_defs split: option.splits if_splits)
qed

lemma Commit_round_witness:
  "sh_round (cmr_handle (fst (fst (Commit (Some forgetful_port) no_target None recovered_handle
     assistant_commit ((), []))))) = 2"
proof -
  obtain r e logs' where c: "Commit (Some forgetful_port) no_target None recovered_handle
      assistant_commit ((), []) = ((r, e), (), logs')"
    using unit_result [of "Commit (Some forgetful_port) no_target None recovered_handle
      assistant_commit ((), [])"] by blast
  have "snd (fst (Commit (Some forgetful_port) no_target None recovered_handle assistant_commit
      ((), []))) = None" by code_simp
  then have "e = None" unfolding c by (simp only: fst_conv snd_conv)
  moreover have h: "sh_enabled recovered_handle" "sh_session_id recovered_handle \<noteq> []"
    "sh_created recovered_handle" "wrap64 (sh_round recovered_handle + 1) = 2" by code_simp+
  ultimately have "sh_round (cmr_handle r) = 2"
    using Commit_round [OF c] unfolding h(4) by presburger
  then show ?thesis by (simp only: c fst_conv)
qed

text \<open>Every continue hop of a commit carries at least one turn, its round is the committed round,
  and for a just created session (which already holds the user's message) it carries no user turn:
  a client that treats all such hops alike cannot be told apart.\<close>

theorem Commit_hops:
  assumes "\<And>req s. ct_new_turns req \<noteq> [] \<Longrightarrow> ct_session_id req = sh_session_id h \<Longrightarrow>
      ct_client_round req = (if sh_created h then wrap64 (sh_round h + 1) else sh_round h) \<Longrightarrow>
      (sh_created h \<Longrightarrow> \<forall>m \<in> set (ct_new_turns req). \<forall>kv. m = GObj kv \<longrightarrow>
         asString (mget kv ''role'') \<noteq> ''user'') \<Longrightarrow> f req s = g req s"
  shows "Commit (Some (port\<lparr>sp_continue := f\<rparr>)) target c h opts st =
    Commit (Some (port\<lparr>sp_continue := g\<rparr>)) target c h opts st"
proof (cases "commit_turns h opts = []")
  case False
  have "\<forall>m \<in> set (commit_turns h opts). \<forall>kv. m = GObj kv \<longrightarrow> asString (mget kv ''role'') \<noteq> ''user''"
    if "sh_created h" using that by (auto simp: commit_turns_def strip_user_turns_def)
  with False have "f (continue_request target h opts) s = g (continue_request target h opts) s" for s
    by (intro assms) (auto simp: continue_request_def commit_round_def)
  then show ?thesis
    by (cases "FromContext c") (simp_all add: Commit_def del: FromContext_None_iff)
next
  case True
  then show ?thesis
    by (cases "FromContext c") (simp_all add: Commit_def del: FromContext_None_iff)
qed

lemma Commit_hops_witness:
  "\<forall>opts st. Commit (Some (forgetful_port\<lparr>sp_continue := \<lambda>req s.
       if GObj [(''role'', GStr ''user'')] \<in> set (ct_new_turns req)
       then ((undefined, None), s) else sp_continue forgetful_port req s\<rparr>))
     no_target None recovered_handle opts st =
   Commit (Some (forgetful_port\<lparr>sp_continue := sp_continue forgetful_port\<rparr>))
     no_target None recovered_handle opts st"
proof (intro allI, rule Commit_hops)
  fix req :: SessionContinueRequest and s :: unit
  assume a: "sh_created recovered_handle \<Longrightarrow> \<forall>m \<in> set (ct_new_turns req). \<forall>kv. m = GObj kv \<longrightarrow>
    asString (mget kv ''role'') \<noteq> ''user''"
  have "asString (mget [(''role'', GStr ''user'')] ''role'') = ''user''" by (simp add: mget_def)
  moreover have "sh_created recovered_handle" by code_simp
  ultimately have "GObj [(''role'', GStr ''user'')] \<notin> set (ct_new_turns req)" using a by blast
  then show "(if GObj [(''role'', GStr ''user'')] \<in> set (ct_new_turns req)
       then ((undefined, None), s) else sp_continue forgetful_port req s) =
     sp_continue forgetful_port req s" by (simp only: if_False)
qed

end
