(* ===== verification/Zeus_Auth.thy ===== *)
theory Zeus_Auth
  imports Session
begin

text \<open>
  The Zeus HTTP adapter, part one: the endpoint and the HTTP port (src/config/models.go,
  src/ports/http.go) and the auth resolver (src/adapters/zeushttp/auth.go), which turns an auth mode
  into hop headers and, in basic mode, mints and caches a Zeus session per scope.

  What lies outside the client is a record \<open>'s auth_env\<close> over a state \<open>'s\<close> of the world: the HTTP
  port, the secret store, the clock (nanoseconds) and the decoders of encoding/json and strconv. A
  log line is kept as its event (level, message, attributes) and printed by formatAuthLog.
\<close>

section \<open>Endpoint and HTTP port\<close>

record ZeusEndpointConfig =
  ep_url :: string
  ep_auth_mode :: string
  ep_username :: string
  ep_password_env :: string
  ep_token_env :: string
  ep_timeout_s :: rat
  ep_tls_verify :: bool
  ep_scope_credentials :: "string amap amap"
  ep_cert_file :: string
  ep_key_file :: string
  ep_key_file_env :: string

record HTTPRequest =
  hq_method :: string
  hq_url :: string
  hq_headers :: "string amap"
  hq_body :: string
  hq_timeout_s :: rat

record HTTPResponse =
  hp_status :: int
  hp_headers :: "string amap"
  hp_body :: string

text \<open>An error is one of the client's or a foreign one, of which the client sees \<open>%T\<close> and the text.\<close>

datatype go_error = DomainError zerror | OtherError string string

fun error_text :: "go_error \<Rightarrow> string" where
  "error_text (DomainError e) = ErrorString e"
| "error_text (OtherError t m) = m"

type_synonym 's http = "HTTPRequest \<Rightarrow> 's \<Rightarrow> (go_error + HTTPResponse) \<times> 's"

record 's auth_env =
  ae_http :: "'s http"
  ae_close :: "'s \<Rightarrow> go_error option \<times> 's"
  ae_secret :: "string \<Rightarrow> string option"
  ae_now :: "'s \<Rightarrow> int"
  ae_unmarshal :: "string \<Rightarrow> string + gval"
  ae_parse_float :: "string \<Rightarrow> rat option"
  ae_sprint_float :: "rat \<Rightarrow> string"

record AuthContext =
  ac_headers :: "string amap"
  ac_mode :: string

section \<open>Helpers\<close>

definition authComponent :: string where "authComponent = ''adapters.zeushttp.auth''"

abbreviation NewAuth :: "Code \<Rightarrow> string \<Rightarrow> opt list \<Rightarrow> zerror" where
  "NewAuth \<equiv> NewFamily FAuth"

definition headerAuthorization :: string where "headerAuthorization = ''Authorization''"
definition headerZeusSession :: string where "headerZeusSession = ''X-Zeus-Session''"
definition defaultPasswordEnv :: string where "defaultPasswordEnv = ''ZEUS_PASSWORD''"
definition defaultBearerEnv :: string where "defaultBearerEnv = ''ZEUS_BEARER_TOKEN''"
definition defaultSessionEnv :: string where "defaultSessionEnv = ''ZEUS_SESSION_ID''"
definition defaultIdleTTL :: rat where "defaultIdleTTL = 1800"
definition defaultHardTTL :: rat where "defaultHardTTL = 43200"
definition sessionIdleMargin :: int where "sessionIdleMargin = 30 * 10 ^ 9"

text \<open>base64.StdEncoding on bytes.\<close>

definition b64_char :: "nat \<Rightarrow> char" where
  "b64_char n = ''ABCDEFGHIJKLMNOPQRSTUVWXYZabcdefghijklmnopqrstuvwxyz0123456789+/'' ! (n mod 64)"

fun b64_encode :: "string \<Rightarrow> string" where
  "b64_encode [] = []"
| "b64_encode [a] = (let n = of_char a * 16 in [b64_char (n div 64), b64_char n] @ ''=='')"
| "b64_encode [a, b] = (let n = (of_char a * 256 + of_char b) * 4 in
     [b64_char (n div 4096), b64_char (n div 64), b64_char n] @ ''='')"
| "b64_encode (a # b # c # s) = (let n = (of_char a * 256 + of_char b) * 256 + of_char c in
     [b64_char (n div 262144), b64_char (n div 4096), b64_char (n div 64), b64_char n] @ b64_encode s)"

definition mintURL :: "string \<Rightarrow> string \<Rightarrow> string \<Rightarrow> string" where
  "mintURL base bucket scope =
     trim_right_set {CHR ''/''} base @ ''/v1/'' @ bucket @ ''/'' @ scope @ ''/auth/session''"

definition basicAuthHeader :: "string \<Rightarrow> string \<Rightarrow> string" where
  "basicAuthHeader user password = ''Basic '' @ b64_encode (user @ '':'' @ password)"

definition sidPrefix :: "string \<Rightarrow> string" where
  "sidPrefix sid = (if length sid \<le> 12 then sid else take 12 sid)"

text \<open>The errors of parseObjectJSON are their texts.\<close>

definition parseObjectJSON :: "(string \<Rightarrow> string + gval) \<Rightarrow> string \<Rightarrow> string + gmap" where
  "parseObjectJSON unmarshal raw =
     (if raw = [] then Inl ''empty body''
      else (case unmarshal raw of
          Inl e \<Rightarrow> Inl e
        | Inr v \<Rightarrow> (case v of GObj m \<Rightarrow> Inr m | _ \<Rightarrow> Inl ''JSON is not an object'')))"

definition jsonString :: "(rat \<Rightarrow> string) \<Rightarrow> gval \<Rightarrow> string" where
  "jsonString ff v = (case v of
     GNil \<Rightarrow> []
   | GStr s \<Rightarrow> s
   | _ \<Rightarrow> (let s = go_sprint ff v in if s = ''<nil>'' then [] else s))"

definition nonzero_or :: "rat \<Rightarrow> rat \<Rightarrow> rat" where
  "nonzero_or d x = (if x = 0 then d else x)"

definition jsonNumber :: "(string \<Rightarrow> rat option) \<Rightarrow> gval \<Rightarrow> rat \<Rightarrow> rat" where
  "jsonNumber pf v d = (case v of
     GFloat x \<Rightarrow> nonzero_or d x
   | GInt n \<Rightarrow> nonzero_or d (of_int n)
   | GStr s \<Rightarrow> (case pf s of None \<Rightarrow> d | Some x \<Rightarrow> nonzero_or d x)
   | _ \<Rightarrow> d)"

definition reqIDDetails :: "string \<Rightarrow> gmap" where
  "reqIDDetails reqID = (if reqID = [] then [] else [(''req_id'', GStr reqID)])"

text \<open>\<open>time.Duration(x * float64(time.Second))\<close>, truncated to nanoseconds; a value outside int64
  becomes the smallest one, as on amd64.\<close>

definition duration_of :: "rat \<Rightarrow> int" where
  "duration_of x = (let n = trunc_rat (x * 10 ^ 9) in
     if - (2 ^ 63) \<le> n \<and> n < 2 ^ 63 then n else - (2 ^ 63))"

text \<open>\<open>Time.Sub\<close> saturates at the ends of int64.\<close>

definition time_sub :: "int \<Rightarrow> int \<Rightarrow> int" where
  "time_sub a b = max (- (2 ^ 63)) (min (2 ^ 63 - 1) (a - b))"

definition errTypeName :: "go_error \<Rightarrow> string" where
  "errTypeName e = (case e of
     DomainError de \<Rightarrow> if ze_type de \<noteq> [] then ze_type de else ''Error''
   | OtherError t m \<Rightarrow> t)"

type_synonym log_event = "string \<times> string \<times> gmap"

definition formatAuthLog :: "(rat \<Rightarrow> string) \<Rightarrow> log_event \<Rightarrow> string" where
  "formatAuthLog ff = (\<lambda>(level, msg, attrs). level @ '' '' @ msg @
     concat (map (\<lambda>k. '' '' @ k @ ''='' @ go_sprint ff (mget attrs k)) (sort (map fst attrs))))"

section \<open>The resolver\<close>

record cacheKey =
  ck_url :: string
  ck_bucket :: string
  ck_scope :: string
  ck_user :: string

record cachedSID =
  cs_sid :: string
  cs_pwd :: string
  cs_idle_ttl :: int
  cs_hard_deadline :: int
  cs_last_used :: int

record AuthResolver =
  ar_endpoint :: ZeusEndpointConfig
  ar_http_set :: bool
  ar_owns_http :: bool
  ar_closed :: bool
  ar_cache :: "(cacheKey \<times> cachedSID) list"
  ar_logs :: "log_event list"

definition copyScopeCredentials :: "string amap amap \<Rightarrow> string amap amap" where
  "copyScopeCredentials m = map (\<lambda>(k, v). (k, map (\<lambda>(ik, iv). (ik, iv)) v)) m"

definition NewAuthResolver :: "ZeusEndpointConfig \<Rightarrow> bool \<Rightarrow> AuthResolver" where
  "NewAuthResolver ep http_given =
     \<lparr>ar_endpoint = ep\<lparr>ep_scope_credentials := copyScopeCredentials (ep_scope_credentials ep)\<rparr>,
      ar_http_set = http_given, ar_owns_http = False, ar_closed = False, ar_cache = [], ar_logs = []\<rparr>"

definition auth_emit :: "string \<Rightarrow> string \<Rightarrow> gmap \<Rightarrow> AuthResolver \<Rightarrow> AuthResolver" where
  "auth_emit level msg attrs r = r\<lparr>ar_logs := ar_logs r @ [(level, msg, attrs)]\<rparr>"

definition logBlob :: "(rat \<Rightarrow> string) \<Rightarrow> AuthResolver \<Rightarrow> string" where
  "logBlob ff r = join_with [CHR 0x0A] (map (formatAuthLog ff) (ar_logs r))"

definition auth_mode :: "AuthResolver \<Rightarrow> string" where
  "auth_mode r = (let m = to_lower (trim_space (ep_auth_mode (ar_endpoint r))) in
     if m = [] then ''none'' else m)"

definition secret :: "'s auth_env \<Rightarrow> string \<Rightarrow> string option" where
  "secret env name = (if name = [] then None else ae_secret env name)"

definition scoped_or :: "string amap option \<Rightarrow> string \<Rightarrow> string \<Rightarrow> string" where
  "scoped_or scoped k d = (case scoped of
     None \<Rightarrow> d
   | Some m \<Rightarrow> (let v = trim_space (case map_of m k of None \<Rightarrow> [] | Some v \<Rightarrow> v) in
       if v \<noteq> [] then v else d))"

definition scopeUserPwd :: "'s auth_env \<Rightarrow> DataTarget \<Rightarrow> AuthResolver \<Rightarrow> string \<times> string \<times> string" where
  "scopeUserPwd env target r =
     (let scoped = map_of (ep_scope_credentials (ar_endpoint r)) (dt_bucket target @ ''/'' @ dt_scope target);
          user = scoped_or scoped ''username'' (trim_space (ep_username (ar_endpoint r)));
          env0 = scoped_or scoped ''password_env'' (ep_password_env (ar_endpoint r));
          pwdEnv = (if env0 = [] then defaultPasswordEnv else env0)
      in (user, case secret env pwdEnv of None \<Rightarrow> [] | Some p \<Rightarrow> p, pwdEnv))"

definition session_auth :: "string \<Rightarrow> string \<Rightarrow> AuthContext" where
  "session_auth sid mode = \<lparr>ac_headers = [(headerZeusSession, sid)], ac_mode = mode\<rparr>"

definition idle_limit :: "cachedSID \<Rightarrow> int" where
  "idle_limit ent = (let l = wrap64 (cs_idle_ttl ent - sessionIdleMargin) in if l < 0 then 0 else l)"

definition cacheHit :: "cacheKey \<Rightarrow> string \<Rightarrow> int \<Rightarrow> AuthResolver \<Rightarrow> AuthContext option \<times> AuthResolver" where
  "cacheHit key pwd now r = (case map_of (ar_cache r) key of
     None \<Rightarrow> (None, r)
   | Some ent \<Rightarrow>
       (if cs_pwd ent \<noteq> pwd then (None, r)
        else if \<not> now < cs_hard_deadline ent then (None, r)
        else if idle_limit ent \<le> time_sub now (cs_last_used ent) then (None, r)
        else (Some (session_auth (cs_sid ent) ''basic''),
              r\<lparr>ar_cache := AList.update key (ent\<lparr>cs_last_used := now\<rparr>) (ar_cache r)\<rparr>)))"

definition storeCache :: "cacheKey \<Rightarrow> cachedSID \<Rightarrow> AuthResolver \<Rightarrow> AuthResolver" where
  "storeCache key ent r = (if ar_closed r then r
     else r\<lparr>ar_cache := AList.update key ent (ar_cache r)\<rparr>)"

definition auth_httpPort :: "AuthResolver \<Rightarrow> zerror option \<times> AuthResolver" where
  "auth_httpPort r =
     (if ar_closed r
      then (Some (NewAuth CodeAuthFailed authComponent [WithMessage ''auth resolver closed'']), r)
      else if \<not> ar_http_set r then (None, r\<lparr>ar_http_set := True, ar_owns_http := True\<rparr>)
      else (None, r))"

definition resolveBearer :: "'s auth_env \<Rightarrow> AuthResolver \<Rightarrow> (zerror + AuthContext) \<times> AuthResolver" where
  "resolveBearer env r =
     (let envName = (if ep_token_env (ar_endpoint r) = [] then defaultBearerEnv
        else ep_token_env (ar_endpoint r)) in
      case secret env envName of
        None \<Rightarrow> (Inl (NewAuth CodeAuthFailed authComponent
          [WithMessage ''bearer mode selected but token env empty'',
           WithDetails [(''token_env'', GStr envName)]]), r)
      | Some tok \<Rightarrow>
          (Inr \<lparr>ac_headers = [(headerAuthorization, ''Bearer '' @ tok)], ac_mode = ''bearer''\<rparr>,
           auth_emit ''info'' ''zeus.auth resolved''
             [(''mode'', GStr ''bearer''), (''token_env'', GStr envName)] r))"

definition resolveSession :: "'s auth_env \<Rightarrow> AuthResolver \<Rightarrow> (zerror + AuthContext) \<times> AuthResolver" where
  "resolveSession env r =
     (let envName = (if ep_token_env (ar_endpoint r) = [] then defaultSessionEnv
        else ep_token_env (ar_endpoint r)) in
      case secret env envName of
        None \<Rightarrow> (Inl (NewAuth CodeAuthFailed authComponent
          [WithMessage ''session mode selected but session id env empty'',
           WithDetails [(''token_env'', GStr envName)]]), r)
      | Some sid \<Rightarrow> (Inr (session_auth sid ''session''),
           auth_emit ''info'' ''zeus.auth resolved'' [(''mode'', GStr ''session'')] r))"

text \<open>What follows the answer of the mint request.\<close>

definition mint_request :: "AuthResolver \<Rightarrow> DataTarget \<Rightarrow> string \<Rightarrow> string \<Rightarrow> HTTPRequest" where
  "mint_request r target user pwd =
     \<lparr>hq_method = ''POST'', hq_url = mintURL (ep_url (ar_endpoint r)) (dt_bucket target) (dt_scope target),
      hq_headers = [(headerAuthorization, basicAuthHeader user pwd)], hq_body = [],
      hq_timeout_s = ep_timeout_s (ar_endpoint r)\<rparr>"

definition mint_failed :: "DataTarget \<Rightarrow> go_error \<Rightarrow> AuthResolver \<Rightarrow> (zerror + AuthContext) \<times> AuthResolver" where
  "mint_failed target e r =
     (let scope_attrs = [(''bucket'', GStr (dt_bucket target)), (''scope'', GStr (dt_scope target))];
          unreachable = (Inl (NewAuth CodeAuthSessionUnavailable authComponent
            [WithMessage (''Zeus basic login unreachable: '' @ errTypeName e),
             WithCause (error_text e), WithDetails scope_attrs]),
            auth_emit ''warn'' ''zeus.auth basic login unreachable''
              (scope_attrs @ [(''err'', GStr (errTypeName e))]) r)
      in case e of
           DomainError de \<Rightarrow>
             (if ze_code de = CodeCancelled \<or> ze_code de = CodeContextDeadline then (Inl de, r)
              else unreachable)
         | OtherError t m \<Rightarrow> unreachable)"

definition minted_entry :: "'s auth_env \<Rightarrow> int \<Rightarrow> string \<Rightarrow> string \<Rightarrow> gmap \<Rightarrow> cachedSID" where
  "minted_entry env now pwd sid body =
     \<lparr>cs_sid = sid, cs_pwd = pwd,
      cs_idle_ttl = duration_of (jsonNumber (ae_parse_float env) (mget body ''expires_in'') defaultIdleTTL),
      cs_hard_deadline = now +
        duration_of (jsonNumber (ae_parse_float env) (mget body ''hard_ttl_s'') defaultHardTTL),
      cs_last_used = now\<rparr>"

definition mint_answer ::
  "'s auth_env \<Rightarrow> DataTarget \<Rightarrow> cacheKey \<Rightarrow> string \<Rightarrow> int \<Rightarrow> HTTPResponse \<Rightarrow> AuthResolver \<Rightarrow>
   (zerror + AuthContext) \<times> AuthResolver" where
  "mint_answer env target key pwd now resp r =
     (let reqID = ReqIDFromHeaders (Some (hp_headers resp));
          scope_attrs = [(''bucket'', GStr (dt_bucket target)), (''scope'', GStr (dt_scope target))]
      in if hp_status resp \<noteq> 200
         then (Inl (NewAuth CodeAuthFailed authComponent
             [WithMessage (''Zeus basic login failed HTTP '' @ int_digits (hp_status resp)),
              WithDetails ((''status_code'', GInt (hp_status resp)) # reqIDDetails reqID)]),
           auth_emit ''error'' ''zeus.auth basic login failed''
             (scope_attrs @ [(''status'', GInt (hp_status resp)), (''req_id'', GStr reqID)]) r)
         else (case parseObjectJSON (ae_unmarshal env) (hp_body resp) of
             Inl err \<Rightarrow> (Inl (NewAuth CodeAuthFailed authComponent
               [WithMessage ''Zeus login returned invalid JSON'', WithCause err,
                WithDetails (reqIDDetails reqID)]), r)
           | Inr body \<Rightarrow>
               (let sid = jsonString (ae_sprint_float env) (mget body ''session_id'') in
                if sid = [] then (Inl (NewAuth CodeAuthFailed authComponent
                  [WithMessage ''Zeus login returned no session_id'', WithDetails (reqIDDetails reqID)]), r)
                else (Inr (session_auth sid ''basic''),
                  auth_emit ''info'' ''zeus.auth basic session minted''
                    (scope_attrs @ [(''sid_prefix'', GStr (sidPrefix sid)), (''req_id'', GStr reqID)])
                    (storeCache key (minted_entry env now pwd sid body) r)))))"

definition mint ::
  "'s auth_env \<Rightarrow> DataTarget \<Rightarrow> string \<Rightarrow> string \<Rightarrow> cacheKey \<Rightarrow> int \<Rightarrow> AuthResolver \<times> 's \<Rightarrow>
   (zerror + AuthContext) \<times> AuthResolver \<times> 's" where
  "mint env target user pwd key now = (\<lambda>(r, s).
     (case auth_httpPort r of
        (Some e, r1) \<Rightarrow> (Inl e, r1, s)
      | (None, r1) \<Rightarrow>
          (case ae_http env (mint_request r1 target user pwd) s of
             (Inl e, s1) \<Rightarrow> (case mint_failed target e r1 of (a, r2) \<Rightarrow> (a, r2, s1))
           | (Inr resp, s1) \<Rightarrow>
               (case mint_answer env target key pwd now resp r1 of (a, r2) \<Rightarrow> (a, r2, s1)))))"

definition cache_key :: "AuthResolver \<Rightarrow> DataTarget \<Rightarrow> string \<Rightarrow> cacheKey" where
  "cache_key r target user = \<lparr>ck_url = ep_url (ar_endpoint r), ck_bucket = dt_bucket target,
     ck_scope = dt_scope target, ck_user = user\<rparr>"

definition resolveBasic ::
  "'s auth_env \<Rightarrow> DataTarget \<Rightarrow> bool \<Rightarrow> AuthResolver \<times> 's \<Rightarrow> (zerror + AuthContext) \<times> AuthResolver \<times> 's" where
  "resolveBasic env target force = (\<lambda>(r, s).
     (if dt_bucket target = [] \<or> dt_scope target = []
      then (Inl (NewAuth CodeZeusAuthIncomplete authComponent [WithMessage
        ''basic mode needs bucket+scope for per-scope POST /v1/{bucket}/{scope}/auth/session'']), r, s)
      else (case scopeUserPwd env target r of (user, pwd, pwdEnv) \<Rightarrow>
        (if user = [] \<or> pwd = []
         then (Inl (NewAuth CodeZeusAuthIncomplete authComponent
           [WithMessage ''basic auth fields incomplete for auth_mode'',
            WithDetails [(''username_set'', GBool (user \<noteq> [])), (''password_env'', GStr pwdEnv)]]), r, s)
         else (let key = cache_key r target user; now = ae_now env s in
           case (if force then (None, r) else cacheHit key pwd now r) of
             (Some auth, r1) \<Rightarrow>
               (Inr auth, auth_emit ''info'' ''zeus.auth basic cache hit''
                 [(''bucket'', GStr (dt_bucket target)), (''scope'', GStr (dt_scope target)),
                  (''sid_prefix'', GStr (sidPrefix
                     (case map_of (ac_headers auth) headerZeusSession of None \<Rightarrow> [] | Some v \<Rightarrow> v)))] r1, s)
           | (None, r1) \<Rightarrow> mint env target user pwd key now (r1, s))))))"

definition ResolveAuth ::
  "'s auth_env \<Rightarrow> DataTarget \<Rightarrow> bool \<Rightarrow> AuthResolver \<times> 's \<Rightarrow> (zerror + AuthContext) \<times> AuthResolver \<times> 's" where
  "ResolveAuth env target force = (\<lambda>(r, s).
     (if ar_closed r
      then (Inl (NewAuth CodeAuthFailed authComponent [WithMessage ''auth resolver closed'']), r, s)
      else if auth_mode r = ''none'' then (Inr \<lparr>ac_headers = [], ac_mode = ''none''\<rparr>, r, s)
      else if auth_mode r = ''certificate''
      then (Inl (NewAuth CodeNotImplemented authComponent [WithMessage
        ''certificate/mTLS auth_mode is documented but not implemented; set cert_file / key_file_env on ZeusEndpointConfig'',
        WithDetails [(''cert_file'', GStr (ep_cert_file (ar_endpoint r))),
          (''key_file_env'', GStr (ep_key_file_env (ar_endpoint r)))]]), r, s)
      else if auth_mode r = ''bearer'' then (case resolveBearer env r of (a, r1) \<Rightarrow> (a, r1, s))
      else if auth_mode r = ''session'' then (case resolveSession env r of (a, r1) \<Rightarrow> (a, r1, s))
      else if auth_mode r = ''basic'' then resolveBasic env target force (r, s)
      else (Inl (NewAuth CodeZeusAuthModeInvalid authComponent
        [WithMessage (''zeus.auth_mode invalid: '' @ go_quote (auth_mode r))]), r, s)))"

definition AuthResolver_Close :: "'s auth_env \<Rightarrow> AuthResolver \<times> 's \<Rightarrow> go_error option \<times> AuthResolver \<times> 's" where
  "AuthResolver_Close env = (\<lambda>(r, s).
     (if ar_closed r then (None, r, s)
      else (let r1 = r\<lparr>ar_closed := True\<rparr> in
        if ar_owns_http r \<and> ar_http_set r then (case ae_close env s of (e, s1) \<Rightarrow> (e, r1, s1))
        else (None, r1, s))))"

text \<open>A hop takes the auth headers and gives a status or fails with one; it acts on the world only.\<close>

type_synonym 's hop_fn = "AuthContext \<Rightarrow> 's \<Rightarrow> (int \<times> go_error option) \<times> 's"

definition DoWithBasic401Remint ::
  "'s auth_env \<Rightarrow> DataTarget \<Rightarrow> 's hop_fn \<Rightarrow> AuthResolver \<times> 's \<Rightarrow>
   (AuthContext option \<times> int \<times> go_error option) \<times> AuthResolver \<times> 's" where
  "DoWithBasic401Remint env target hop = (\<lambda>(r, s).
     (case ResolveAuth env target False (r, s) of
        (Inl e, r1, s1) \<Rightarrow> ((None, 0, Some (DomainError e)), r1, s1)
      | (Inr auth, r1, s1) \<Rightarrow>
          (case hop auth s1 of
             ((status, Some e), s2) \<Rightarrow> ((Some auth, status, Some e), r1, s2)
           | ((status, None), s2) \<Rightarrow>
               (if status \<noteq> 401 \<or> auth_mode r1 \<noteq> ''basic'' then ((Some auth, status, None), r1, s2)
                else (case ResolveAuth env target True (r1, s2) of
                    (Inl e, r3, s3) \<Rightarrow> ((None, status, Some (DomainError e)), r3, s3)
                  | (Inr auth2, r3, s3) \<Rightarrow>
                      (case hop auth2 s3 of
                         ((status2, e2), s4) \<Rightarrow> ((Some auth2, status2, e2), r3, s4)))))))"


section \<open>Facts\<close>

lemmas resolve_defs = ResolveAuth_def resolveBasic_def resolveBearer_def resolveSession_def mint_def

lemma auth_emit_simps [simp]:
  "ar_closed (auth_emit l m a r) = ar_closed r" "ar_cache (auth_emit l m a r) = ar_cache r"
  "ar_endpoint (auth_emit l m a r) = ar_endpoint r" "ar_logs (auth_emit l m a r) = ar_logs r @ [(l, m, a)]"
  by (simp_all add: auth_emit_def)

lemma storeCache_simps [simp]:
  "ar_endpoint (storeCache k e r) = ar_endpoint r" "ar_logs (storeCache k e r) = ar_logs r"
  "ar_closed (storeCache k e r) = ar_closed r"
  by (simp_all add: storeCache_def)

lemma auth_httpPort_open:
  "\<not> ar_closed r \<Longrightarrow> \<exists>r1. auth_httpPort r = (None, r1) \<and> ar_cache r1 = ar_cache r \<and>
     ar_endpoint r1 = ar_endpoint r \<and> ar_logs r1 = ar_logs r \<and> \<not> ar_closed r1"
  by (simp add: auth_httpPort_def)

text \<open>A cached session is served exactly while it is live.\<close>

definition live :: "cachedSID \<Rightarrow> string \<Rightarrow> int \<Rightarrow> bool" where
  "live ent pwd now \<longleftrightarrow> cs_pwd ent = pwd \<and> now < cs_hard_deadline ent \<and>
     time_sub now (cs_last_used ent) < idle_limit ent"

lemma cacheHit_live:
  "cacheHit key pwd now r = (case map_of (ar_cache r) key of
     Some ent \<Rightarrow> if live ent pwd now then (Some (session_auth (cs_sid ent) ''basic''),
         r\<lparr>ar_cache := AList.update key (ent\<lparr>cs_last_used := now\<rparr>) (ar_cache r)\<rparr>) else (None, r)
   | None \<Rightarrow> (None, r))"
  by (auto simp: cacheHit_def live_def split: option.splits)

lemma cacheHit_miss: "cacheHit key pwd now r = (None, r1) \<Longrightarrow> r1 = r"
  by (auto simp: cacheHit_live split: option.splits if_splits)

text \<open>A successful mint: what was asked and what was answered.\<close>

lemma mint_success:
  assumes "mint env target user pwd key now (r, s) = (Inr auth, r', s')"
  shows "\<exists>resp body sid. ae_http env (mint_request r target user pwd) s = (Inr resp, s') \<and>
    hp_status resp = 200 \<and> ae_unmarshal env (hp_body resp) = Inr (GObj body) \<and>
    sid = jsonString (ae_sprint_float env) (mget body ''session_id'') \<and> sid \<noteq> [] \<and>
    auth = session_auth sid ''basic'' \<and>
    (\<not> ar_closed r \<longrightarrow> map_of (ar_cache r') key = Some (minted_entry env now pwd sid body)) \<and>
    ar_endpoint r' = ar_endpoint r \<and> ar_closed r' = ar_closed r"
proof -
  obtain r1 where p: "auth_httpPort r = (None, r1)" "ar_endpoint r1 = ar_endpoint r" "ar_closed r1 = ar_closed r"
    using assms by (auto simp: mint_def auth_httpPort_def split: if_splits)
  then have q: "mint_request r1 target user pwd = mint_request r target user pwd"
    by (simp add: mint_request_def)
  obtain ans s1 where h: "ae_http env (mint_request r target user pwd) s = (ans, s1)" by fastforce
  show ?thesis
  proof (cases ans)
    case (Inl e)
    with assms p q h show ?thesis
      by (auto simp: mint_def mint_failed_def Let_def split: go_error.splits if_splits)
  next
    case (Inr resp)
    with assms p q h have a: "mint_answer env target key pwd now resp r1 = (Inr auth, r')" "s' = s1"
      by (auto simp: mint_def split: prod.splits)
    from a(1) have st: "hp_status resp = 200" by (auto simp: mint_answer_def Let_def split: if_splits)
    with a(1) obtain body where b: "parseObjectJSON (ae_unmarshal env) (hp_body resp) = Inr body"
      by (auto simp: mint_answer_def Let_def split: sum.splits)
    then have u: "ae_unmarshal env (hp_body resp) = Inr (GObj body)"
      by (auto simp: parseObjectJSON_def split: if_splits sum.splits gval.splits)
    from a st b u h Inr p(2,3) show ?thesis
      by (auto simp: mint_answer_def Let_def update_conv' storeCache_def split: if_splits)
  qed
qed

lemma resolveBasic_ready:
  assumes "dt_bucket target \<noteq> []" "dt_scope target \<noteq> []" "scopeUserPwd env target r = (user, pwd, pe)"
    "user \<noteq> []" "pwd \<noteq> []" "auth_mode r = ''basic''" "\<not> ar_closed r"
  shows "ResolveAuth env target force (r, s) =
    (case (if force then (None, r) else cacheHit (cache_key r target user) pwd (ae_now env s) r) of
       (Some auth, r1) \<Rightarrow> (Inr auth, auth_emit ''info'' ''zeus.auth basic cache hit''
          [(''bucket'', GStr (dt_bucket target)), (''scope'', GStr (dt_scope target)),
           (''sid_prefix'', GStr (sidPrefix
             (case map_of (ac_headers auth) headerZeusSession of None \<Rightarrow> [] | Some v \<Rightarrow> v)))] r1, s)
     | (None, r1) \<Rightarrow> mint env target user pwd (cache_key r target user) (ae_now env s) (r1, s))"
  using assms by (simp add: ResolveAuth_def resolveBasic_def Let_def)

lemma resolveBasic_success:
  assumes "ResolveAuth env target force (r, s) = (Inr auth, r', s')" and "auth_mode r = ''basic''"
  shows "\<not> ar_closed r \<and> dt_bucket target \<noteq> [] \<and> dt_scope target \<noteq> [] \<and>
    (\<exists>user pwd pe. scopeUserPwd env target r = (user, pwd, pe) \<and> user \<noteq> [] \<and> pwd \<noteq> [])"
  using assms by (auto simp: ResolveAuth_def resolveBasic_def Let_def split: if_splits prod.splits)

lemma basic_cases:
  assumes "ResolveAuth env target force (r, s) = (Inr auth, r', s')" and "auth_mode r = ''basic''"
  obtains (minted) user pwd pe resp body sid where
      "scopeUserPwd env target r = (user, pwd, pe)" "user \<noteq> []" "pwd \<noteq> []"
      "ae_http env (mint_request r target user pwd) s = (Inr resp, s')" "hp_status resp = 200"
      "ae_unmarshal env (hp_body resp) = Inr (GObj body)" "sid \<noteq> []"
      "sid = jsonString (ae_sprint_float env) (mget body ''session_id'')" "auth = session_auth sid ''basic''"
      "map_of (ar_cache r') (cache_key r target user) = Some (minted_entry env (ae_now env s) pwd sid body)"
      "ar_endpoint r' = ar_endpoint r" "\<not> ar_closed r'"
  | (cached) user pwd pe ent where
      "scopeUserPwd env target r = (user, pwd, pe)" "user \<noteq> []" "pwd \<noteq> []" "\<not> force" "s' = s"
      "map_of (ar_cache r) (cache_key r target user) = Some ent" "live ent pwd (ae_now env s)"
      "auth = session_auth (cs_sid ent) ''basic''"
      "map_of (ar_cache r') (cache_key r target user) = Some (ent\<lparr>cs_last_used := ae_now env s\<rparr>)"
      "ar_endpoint r' = ar_endpoint r" "\<not> ar_closed r'"
proof -
  from resolveBasic_success [OF assms] obtain user pwd pe
    where u: "dt_bucket target \<noteq> []" "dt_scope target \<noteq> []" "scopeUserPwd env target r = (user, pwd, pe)"
      "user \<noteq> []" "pwd \<noteq> []" "\<not> ar_closed r" by blast
  let ?key = "cache_key r target user" and ?now = "ae_now env s"
  obtain hit r1 where c: "(if force then (None, r) else cacheHit ?key pwd ?now r) = (hit, r1)" by fastforce
  note res = assms(1) [unfolded resolveBasic_ready [OF u(1-5) assms(2) u(6)] c]
  show thesis
  proof (cases hit)
    case None
    with c have "r1 = r" by (auto split: if_splits dest: cacheHit_miss)
    with res None have "mint env target user pwd ?key ?now (r, s) = (Inr auth, r', s')" by simp
    from mint_success [OF this] obtain resp body sid where
      "ae_http env (mint_request r target user pwd) s = (Inr resp, s')" "hp_status resp = 200"
      "ae_unmarshal env (hp_body resp) = Inr (GObj body)" "sid \<noteq> []"
      "sid = jsonString (ae_sprint_float env) (mget body ''session_id'')" "auth = session_auth sid ''basic''"
      "map_of (ar_cache r') ?key = Some (minted_entry env ?now pwd sid body)"
      "ar_endpoint r' = ar_endpoint r" "\<not> ar_closed r'" using u(6) by auto
    from minted [OF u(3-5) this] show thesis .
  next
    case (Some a)
    with c have f: "\<not> force" by (auto split: if_splits)
    with c Some obtain ent where e: "map_of (ar_cache r) ?key = Some ent" "live ent pwd ?now"
      "a = session_auth (cs_sid ent) ''basic''"
      "r1 = r\<lparr>ar_cache := AList.update ?key (ent\<lparr>cs_last_used := ?now\<rparr>) (ar_cache r)\<rparr>"
      by (auto simp: cacheHit_live split: option.splits if_splits)
    with res Some have "auth = session_auth (cs_sid ent) ''basic''" "s' = s" "ar_endpoint r' = ar_endpoint r"
      "\<not> ar_closed r'" "map_of (ar_cache r') ?key = Some (ent\<lparr>cs_last_used := ?now\<rparr>)"
      using u(6) by (auto simp: update_conv')
    from cached [OF u(3-5) f this(2) e(1,2) this(1,5,3,4)] show thesis .
  qed
qed

text \<open>Resolving again at later times, each with the world seen then.\<close>

fun resolve_at :: "'s auth_env \<Rightarrow> DataTarget \<Rightarrow> 's list \<Rightarrow> AuthResolver \<Rightarrow> ((zerror + AuthContext) \<times> 's) list" where
  "resolve_at env target [] r = []"
| "resolve_at env target (w # ws) r = (case ResolveAuth env target False (r, w) of
     (a, r', w') \<Rightarrow> (a, w') # resolve_at env target ws r')"

fun spaced :: "int \<Rightarrow> int \<Rightarrow> int \<Rightarrow> int list \<Rightarrow> bool" where
  "spaced hard idle last_used [] = True"
| "spaced hard idle last_used (t # ts) = (t < hard \<and> time_sub t last_used < idle \<and> spaced hard idle t ts)"

lemma same_endpoint:
  assumes "ar_endpoint r' = ar_endpoint r"
  shows "auth_mode r' = auth_mode r" "cache_key r' target user = cache_key r target user"
    "scopeUserPwd env target r' = scopeUserPwd env target r"
  using assms by (simp_all add: auth_mode_def cache_key_def scopeUserPwd_def)

lemma resolve_live:
  assumes "dt_bucket target \<noteq> []" "dt_scope target \<noteq> []" "scopeUserPwd env target r = (user, pwd, pe)"
    "user \<noteq> []" "pwd \<noteq> []" "auth_mode r = ''basic''" "\<not> ar_closed r"
    "map_of (ar_cache r) (cache_key r target user) = Some ent" "live ent pwd (ae_now env w)"
  shows "\<exists>r'. ResolveAuth env target False (r, w) = (Inr (session_auth (cs_sid ent) ''basic''), r', w) \<and>
    ar_endpoint r' = ar_endpoint r \<and> \<not> ar_closed r' \<and>
    map_of (ar_cache r') (cache_key r target user) = Some (ent\<lparr>cs_last_used := ae_now env w\<rparr>)"
  unfolding resolveBasic_ready [OF assms(1-7)] cacheHit_live assms(8)
  using assms(7,9) by (simp add: update_conv')

lemma resolve_at_live:
  assumes "dt_bucket target \<noteq> []" "dt_scope target \<noteq> []" "scopeUserPwd env target r = (user, pwd, pe)"
    "user \<noteq> []" "pwd \<noteq> []" "auth_mode r = ''basic''" "\<not> ar_closed r"
    "map_of (ar_cache r) (cache_key r target user) = Some ent" "cs_pwd ent = pwd"
    "spaced (cs_hard_deadline ent) (idle_limit ent) (cs_last_used ent) (map (ae_now env) ws)"
  shows "resolve_at env target ws r = map (\<lambda>w. (Inr (session_auth (cs_sid ent) ''basic''), w)) ws"
  using assms
proof (induction ws arbitrary: r ent)
  case (Cons w ws)
  then have l: "live ent pwd (ae_now env w)" by (simp add: live_def)
  from resolve_live [OF Cons.prems(1-8) l] obtain r' where r':
    "ResolveAuth env target False (r, w) = (Inr (session_auth (cs_sid ent) ''basic''), r', w)"
    "ar_endpoint r' = ar_endpoint r" "\<not> ar_closed r'"
    "map_of (ar_cache r') (cache_key r target user) = Some (ent\<lparr>cs_last_used := ae_now env w\<rparr>)" by blast
  from Cons.prems r' have "resolve_at env target ws r' =
      map (\<lambda>w. (Inr (session_auth (cs_sid (ent\<lparr>cs_last_used := ae_now env w\<rparr>)) ''basic''), w)) ws"
    by (intro trans [OF Cons.IH [of r' "ent\<lparr>cs_last_used := ae_now env w\<rparr>"]])
       (simp_all add: same_endpoint [OF r'(2)] idle_limit_def)
  with r' show ?case by simp
qed simp

section \<open>Properties\<close>

text \<open>C13. A basic-mode header is live: a successful resolve either sent one login request for this
  scope and user with the current password, which the server answered 200 with the session id used,
  or sent nothing and used a session that was cached for the same URL, scope and user under the same
  password, before its hard deadline and within its idle time less the margin. A forced resolve
  always logs in.\<close>

theorem basic_auth_live:
  assumes "ResolveAuth env target force (r, s) = (Inr auth, r', s')" and "auth_mode r = ''basic''"
  shows "\<exists>user pwd pe sid. scopeUserPwd env target r = (user, pwd, pe) \<and> pwd \<noteq> [] \<and>
    auth = session_auth sid ''basic'' \<and>
    ((\<exists>resp body. ae_http env (mint_request r target user pwd) s = (Inr resp, s') \<and> hp_status resp = 200 \<and>
        ae_unmarshal env (hp_body resp) = Inr (GObj body) \<and> sid \<noteq> [] \<and>
        sid = jsonString (ae_sprint_float env) (mget body ''session_id'') \<and>
        map_of (ar_cache r') (cache_key r target user) =
          Some (minted_entry env (ae_now env s) pwd sid body)) \<or>
     (\<not> force \<and> s' = s \<and> (\<exists>ent. map_of (ar_cache r) (cache_key r target user) = Some ent \<and>
        cs_sid ent = sid \<and> cs_pwd ent = pwd \<and> ae_now env s < cs_hard_deadline ent \<and>
        time_sub (ae_now env s) (cs_last_used ent) < idle_limit ent)))"
proof -
  from assms show ?thesis
  proof (cases rule: basic_cases)
    case (minted user pwd pe resp body sid)
    then show ?thesis by blast
  next
    case (cached user pwd pe ent)
    then show ?thesis by (auto simp: live_def)
  qed
qed

text \<open>A session once obtained is reused without any request: as long as each later resolve comes
  before the hard deadline and within the idle limit of the one before it, all of them answer with
  the same header and leave the world alone.\<close>

theorem basic_session_reused:
  assumes "ResolveAuth env target force (r, s) = (Inr auth, r', s')" and "auth_mode r = ''basic''"
    and "scopeUserPwd env target r = (user, pwd, pe)"
    and "map_of (ar_cache r') (cache_key r target user) = Some ent"
    and "spaced (cs_hard_deadline ent) (idle_limit ent) (ae_now env s) (map (ae_now env) ws)"
  shows "resolve_at env target ws r' = map (\<lambda>w. (Inr auth, w)) ws"
proof -
  have e: "auth = session_auth (cs_sid ent) ''basic'' \<and> cs_pwd ent = pwd \<and> cs_last_used ent = ae_now env s \<and>
      user \<noteq> [] \<and> pwd \<noteq> [] \<and> ar_endpoint r' = ar_endpoint r \<and> \<not> ar_closed r'"
    using assms(1,2)
  proof (cases rule: basic_cases)
    case (minted user' pwd' pe' resp body sid)
    with assms(3,4) show ?thesis by (auto simp: minted_entry_def)
  next
    case (cached user' pwd' pe' ent')
    with assms(3,4) show ?thesis by (auto simp: live_def)
  qed
  note k = same_endpoint [OF conjunct1 [OF conjunct2 [OF conjunct2 [OF conjunct2 [OF conjunct2 [OF conjunct2 [OF e]]]]]]]
  from resolve_at_live [of target env r' user pwd pe ent ws] resolveBasic_success [OF assms(1,2)] e assms(2-5)
  show ?thesis by (simp add: k)
qed


text \<open>A server that answers every login with the session \<open>s-9\<close>, for the witnesses; its state is the
  clock in nanoseconds.\<close>

definition login_env :: "int auth_env" where
  "login_env = \<lparr>ae_http = (\<lambda>req s. (Inr \<lparr>hp_status = 200, hp_headers = [], hp_body = ''{}''\<rparr>, s)),
     ae_close = (\<lambda>s. (None, s)), ae_secret = (\<lambda>n. if n = ''ZEUS_PASSWORD'' then Some ''pw'' else None),
     ae_now = (\<lambda>s. s), ae_unmarshal = (\<lambda>b. Inr (GObj [(''session_id'', GStr ''s-9'')])),
     ae_parse_float = (\<lambda>x. None), ae_sprint_float = (\<lambda>x. [])\<rparr>"

definition login_resolver :: AuthResolver where
  "login_resolver = NewAuthResolver \<lparr>ep_url = ''http://z/'', ep_auth_mode = ''Basic'', ep_username = ''ann'',
     ep_password_env = [], ep_token_env = [], ep_timeout_s = 30, ep_tls_verify = True,
     ep_scope_credentials = [], ep_cert_file = [], ep_key_file = [], ep_key_file_env = []\<rparr> True"

definition login_target :: DataTarget where
  "login_target = \<lparr>dt_bucket = ''b'', dt_scope = ''s'', dt_collection = ''c''\<rparr>"

definition minted_resolver :: AuthResolver where
  "minted_resolver = fst (snd (ResolveAuth login_env login_target True (login_resolver, 5)))"

definition login_entry :: cachedSID where
  "login_entry = \<lparr>cs_sid = ''s-9'', cs_pwd = ''pw'', cs_idle_ttl = 1800 * 10 ^ 9,
     cs_hard_deadline = 5 + 43200 * 10 ^ 9, cs_last_used = 5\<rparr>"

lemma login_run:
  "ResolveAuth login_env login_target True (login_resolver, 5) =
     (Inr (session_auth ''s-9'' ''basic''), minted_resolver, 5)"
  "auth_mode login_resolver = ''basic''"
  "scopeUserPwd login_env login_target login_resolver = (''ann'', ''pw'', ''ZEUS_PASSWORD'')"
  "map_of (ar_cache minted_resolver) (cache_key login_resolver login_target ''ann'') = Some login_entry"
  by code_simp+

lemma basic_auth_live_witness:
  "\<exists>resp. ae_http login_env (mint_request login_resolver login_target ''ann'' ''pw'') 5 = (Inr resp, 5) \<and>
     hp_status resp = 200"
  using basic_auth_live [OF login_run(1,2)] login_run(3) by auto

lemma basic_session_reused_witness:
  "resolve_at login_env login_target [100, 1000 * 10 ^ 9, 2500 * 10 ^ 9] minted_resolver =
     map (\<lambda>w. (Inr (session_auth ''s-9'' ''basic''), w)) [100, 1000 * 10 ^ 9, 2500 * 10 ^ 9]"
proof (rule basic_session_reused [OF login_run(1-4)])
  show "spaced (cs_hard_deadline login_entry) (idle_limit login_entry) (ae_now login_env 5)
    (map (ae_now login_env) [100, 1000 * 10 ^ 9, 2500 * 10 ^ 9])" by code_simp
qed


end
