(* ===== verification/Session_Client.thy ===== *)
theory Session_Client
  imports Zeus_Auth
begin

text \<open>
  The HTTP client of durable sessions (src/adapters/zeushttp/session.go): create, rehydrate, continue
  and trace hops over the HTTP port, with the headers of the auth resolver. It provides the
  lifecycle's client port; \<open>session_hops\<close> is interpreted on it.

  Further inputs of the world: json.Marshal, the query encoder of net/url, a fresh hop id and the
  time text of a stamp. The context error is checked once, at the guard. A nil slice of turns is
  not told from an empty one.
\<close>

section \<open>The client\<close>

record 's session_env = "'s auth_env" +
  se_marshal :: "gval \<Rightarrow> string + string"
  se_with_query :: "string \<Rightarrow> string amap \<Rightarrow> string"
  se_fresh_id :: "'s \<Rightarrow> string"
  se_now_text :: "'s \<Rightarrow> string"

record SessionClient =
  sc_endpoint :: ZeusEndpointConfig
  sc_owns_http :: bool
  sc_http_set :: bool
  sc_owns_auth :: bool
  sc_auth :: AuthResolver
  sc_version :: string
  sc_ip_address :: string
  sc_stamp_user :: string
  sc_pre_mint :: bool
  sc_closed :: bool
  sc_last_req_id :: string
  sc_logs :: "log_event list"

record SessionTraceRequest =
  tr_session_id :: string
  tr_client_round :: int
  tr_req_id :: string
  tr_contract_id :: string
  tr_contract_hash :: string
  tr_chat_request :: gmap
  tr_turns :: "gval list"
  tr_zeus_response :: gmap
  tr_outcome :: string
  tr_headers :: "string amap"
  tr_mode :: string
  tr_target :: DataTarget
  tr_rewind :: bool
  tr_turn_id :: string

definition sessionComponent :: string where
  "sessionComponent = ''adapters.zeushttp.session''"

text \<open>The options of NewSessionClient, with the optional ports given or not.\<close>

definition NewSessionClient ::
  "ZeusEndpointConfig \<Rightarrow> bool \<Rightarrow> AuthResolver option \<Rightarrow> string \<Rightarrow> string \<Rightarrow> string \<Rightarrow> bool \<Rightarrow> SessionClient" where
  "NewSessionClient ep0 http_given auth version ip stampUser preMint =
     (let ep = ep0\<lparr>ep_scope_credentials := copyScopeCredentials (ep_scope_credentials ep0)\<rparr> in
      \<lparr>sc_endpoint = ep, sc_owns_http = \<not> http_given, sc_http_set = True, sc_owns_auth = (auth = None),
       sc_auth = (case auth of Some a \<Rightarrow> a | None \<Rightarrow> NewAuthResolver ep True),
       sc_version = version, sc_ip_address = ip, sc_stamp_user = stampUser, sc_pre_mint = preMint,
       sc_closed = False, sc_last_req_id = [], sc_logs = []\<rparr>)"

definition session_Logs :: "(rat \<Rightarrow> string) \<Rightarrow> SessionClient \<Rightarrow> string" where
  "session_Logs ff c = join_with [CHR 0x0A] (map (formatAuthLog ff) (sc_logs c))"

definition session_emit :: "string \<Rightarrow> string \<Rightarrow> gmap \<Rightarrow> SessionClient \<Rightarrow> SessionClient" where
  "session_emit level msg attrs c = c\<lparr>sc_logs := sc_logs c @ [(level, msg, attrs)]\<rparr>"

definition setLastReqID :: "string \<Rightarrow> SessionClient \<Rightarrow> SessionClient" where
  "setLastReqID i c = c\<lparr>sc_last_req_id := i\<rparr>"

definition zeroResult :: SessionHTTPResult where
  "zeroResult = \<lparr>hr_ok = False, hr_status = 0, hr_body = [], hr_url = [], hr_req_id = [], hr_error = []\<rparr>"

definition session_closed :: zerror where
  "session_closed = NewSession CodeSessionCreateFailed sessionComponent [WithMessage ''session client closed'']"

text \<open>The context is its error, if any.\<close>

definition guard :: "ctx_error option \<Rightarrow> SessionClient \<Rightarrow> zerror option" where
  "guard ctx c = (case FromContext ctx of
     Some e \<Rightarrow> Some e
   | None \<Rightarrow> if sc_closed c then Some session_closed else None)"

definition session_httpPort :: "SessionClient \<Rightarrow> zerror option \<times> SessionClient" where
  "session_httpPort c = (if sc_closed c then (Some session_closed, c)
     else if \<not> sc_http_set c then (None, c\<lparr>sc_http_set := True, sc_owns_http := True\<rparr>)
     else (None, c))"

definition sinkStamp :: "('s, 'z) session_env_scheme \<Rightarrow> string \<Rightarrow> SessionClient \<Rightarrow> 's \<Rightarrow> gmap" where
  "sinkStamp env sid c s = ProductStamp (se_now_text env s)
     \<lparr>so_user = sc_stamp_user c, so_ip = ResolveClientIP [] (sc_ip_address c) [] False,
      so_version = sc_version c, so_ts = [], so_scope = [], so_session = sid\<rparr>"

definition json_headers :: "string amap" where
  "json_headers = [(''Content-Type'', ''application/json''), (''Accept'', ''application/json'')]"

definition pre_mint :: "bool \<Rightarrow> string \<Rightarrow> string amap \<Rightarrow> string amap" where
  "pre_mint b fresh h = (if b \<and> \<not> HasReqIDHeader (Some h) then amap_put ReqIDHeader fresh h else h)"

definition headers ::
  "('s, 'z) session_env_scheme \<Rightarrow> string \<Rightarrow> string amap \<Rightarrow> DataTarget \<Rightarrow> SessionClient \<times> 's \<Rightarrow>
   (zerror + string amap) \<times> SessionClient \<times> 's" where
  "headers env mode extra target = (\<lambda>(c, s).
     (case ResolveAuth (auth_env.truncate env) target False (sc_auth c, s) of
        (Inl e, a, s1) \<Rightarrow> (Inl e, c\<lparr>sc_auth := a\<rparr>, s1)
      | (Inr auth, a, s1) \<Rightarrow>
          (Inr (pre_mint (sc_pre_mint c) (se_fresh_id env s1) (ApplyModeHeader
             (MergeHeaders [ac_headers auth, StampHeaders (sc_stamp_user c) (sc_version c),
               json_headers, extra]) mode)), c\<lparr>sc_auth := a\<rparr>, s1)))"

definition parseVerbBody :: "(string \<Rightarrow> string + gval) \<Rightarrow> string \<Rightarrow> gmap" where
  "parseVerbBody unmarshal raw =
     (if raw = [] then []
      else (case unmarshal raw of
          Inl e \<Rightarrow> [(''raw'', GStr (if 2000 < length raw then take 2000 raw else raw))]
        | Inr v \<Rightarrow> (case v of GObj m \<Rightarrow> m | _ \<Rightarrow> [(''result'', v)])))"

definition withQuery :: "(string \<Rightarrow> string amap \<Rightarrow> string) \<Rightarrow> string \<Rightarrow> string amap \<Rightarrow> string" where
  "withQuery wq raw params = (if params = [] then raw else wq raw params)"

definition hop_result :: "int list \<Rightarrow> string \<Rightarrow> string \<Rightarrow> gmap \<Rightarrow> int \<Rightarrow> SessionHTTPResult" where
  "hop_result okCodes url reqID body status =
     (if status \<in> set okCodes
      then \<lparr>hr_ok = True, hr_status = status,
        hr_body = (if reqID \<noteq> [] then amap_put ''_req_id'' (GStr reqID) body else body),
        hr_url = url, hr_req_id = reqID, hr_error = []\<rparr>
      else \<lparr>hr_ok = False, hr_status = status, hr_body = body, hr_url = url, hr_req_id = reqID,
        hr_error = ''HTTP '' @ int_digits status\<rparr>)"

definition post_request ::
  "('s, 'z) session_env_scheme \<Rightarrow> SessionClient \<Rightarrow> string \<Rightarrow> string amap \<Rightarrow> string amap \<Rightarrow> string \<Rightarrow> HTTPRequest" where
  "post_request env c url query hdrs raw =
     \<lparr>hq_method = ''POST'', hq_url = withQuery (se_with_query env) url query, hq_headers = hdrs,
      hq_body = raw, hq_timeout_s = ep_timeout_s (sc_endpoint c)\<rparr>"

definition post ::
  "('s, 'z) session_env_scheme \<Rightarrow> string \<Rightarrow> string amap \<Rightarrow> gmap \<Rightarrow> int list \<Rightarrow> string amap \<Rightarrow>
   SessionClient \<times> 's \<Rightarrow> (SessionHTTPResult \<times> zerror option) \<times> SessionClient \<times> 's" where
  "post env url hdrs payload okCodes query = (\<lambda>(c, s).
     (case session_httpPort c of
        (Some e, c1) \<Rightarrow> ((zeroResult, Some e), c1, s)
      | (None, c1) \<Rightarrow>
          (case se_marshal env (GObj payload) of
             Inl err \<Rightarrow> ((zeroResult, Some (NewSession CodeSessionCreateFailed sessionComponent
               [WithCause err, WithMessage ''session body encode failed''])), c1, s)
           | Inr raw \<Rightarrow>
               (case ae_http env (post_request env c1 url query hdrs raw) s of
                  (Inl e, s1) \<Rightarrow> ((zeroResult\<lparr>hr_url := url, hr_error := error_text e\<rparr>, None), c1, s1)
                | (Inr resp, s1) \<Rightarrow>
                    (let reqID = ReqIDFromHeaders (Some (hp_headers resp)) in
                     ((hop_result okCodes url reqID (parseVerbBody (ae_unmarshal env) (hp_body resp))
                         (hp_status resp), None), setLastReqID reqID c1, s1))))))"

text \<open>url.PathEscape: every byte outside the unreserved set and \<open>$&+=:@\<close> is percent-encoded.\<close>

definition path_keep :: "char \<Rightarrow> bool" where
  "path_keep ch \<longleftrightarrow> (let n = of_char ch :: nat in
     48 \<le> n \<and> n \<le> 57 \<or> 65 \<le> n \<and> n \<le> 90 \<or> 97 \<le> n \<and> n \<le> 122) \<or> ch \<in> set ''-_.~$&+=:@''"

definition upper_hex :: "nat \<Rightarrow> char" where
  "upper_hex n = ''0123456789ABCDEF'' ! (n mod 16)"

definition path_escape :: "string \<Rightarrow> string" where
  "path_escape s = concat (map (\<lambda>ch. if path_keep ch then [ch]
     else [CHR ''%'', upper_hex (of_char ch div 16), upper_hex (of_char ch)]) s)"

definition base_url :: "SessionClient \<Rightarrow> string" where
  "base_url c = trim_right_set {CHR ''/''} (ep_url (sc_endpoint c))"

definition rewind_field :: "bool \<Rightarrow> gmap \<Rightarrow> gmap" where
  "rewind_field b m = (if b then amap_put ''rewind'' (GBool True) m else m)"

definition hop ::
  "('s, 'z) session_env_scheme \<Rightarrow> string \<Rightarrow> gmap \<Rightarrow> int list \<Rightarrow> string \<Rightarrow> string amap \<Rightarrow> DataTarget \<Rightarrow> bool \<Rightarrow>
   SessionClient \<times> 's \<Rightarrow> (SessionHTTPResult \<times> zerror option) \<times> SessionClient \<times> 's" where
  "hop env url payload okCodes mode extra target rewind cs =
     (case headers env mode extra target cs of
        (Inl e, cs1) \<Rightarrow> ((zeroResult, Some e), cs1)
      | (Inr hdrs, cs1) \<Rightarrow> post env url hdrs payload okCodes (RewindQueryParams rewind) cs1)"

definition create_payload :: "gmap \<Rightarrow> SessionCreateRequest \<Rightarrow> gmap" where
  "create_payload stamp req = rewind_field (cr_rewind req) (amap_put_all
     [(''contract_id'', GStr (cr_contract_id req)), (''contract_hash'', GStr (cr_contract_hash req)),
      (''chat_request'', GObj (cr_chat_request req)), (''conversation'', GArr (cr_conversation req))] stamp)"

definition Create ::
  "('s, 'z) session_env_scheme \<Rightarrow> ctx_error option \<Rightarrow> SessionCreateRequest \<Rightarrow> SessionClient \<times> 's \<Rightarrow>
   (SessionHTTPResult \<times> zerror option) \<times> SessionClient \<times> 's" where
  "Create env ctx req = (\<lambda>(c, s).
     (case guard ctx c of
        Some e \<Rightarrow> ((zeroResult, Some e), c, s)
      | None \<Rightarrow> hop env (base_url c @ ''/v2/session'')
          (create_payload (sinkStamp env [] c s) req)
          [200, 201] (cr_mode req) (cr_headers req) (cr_target req) (cr_rewind req) (c, s)))"

definition rehydrate_failed :: "string \<Rightarrow> string \<Rightarrow> int \<Rightarrow> SessionClient \<Rightarrow> SessionClient" where
  "rehydrate_failed sid reqID status c = session_emit ''error'' ''zeus_client.session.failed''
     [(''session.id'', GStr sid), (''req_id'', GStr reqID), (''http.status_code'', GInt status),
      (''zeus.url'', GStr (base_url c)), (''result'', GStr ''error'')] c"

definition rehydrate_answer ::
  "('s, 'z) session_env_scheme \<Rightarrow> string \<Rightarrow> go_error + HTTPResponse \<Rightarrow> SessionClient \<Rightarrow> gmap option \<times> SessionClient" where
  "rehydrate_answer env sid ans c = (case ans of
     Inl e \<Rightarrow> (None, rehydrate_failed sid [] 0 c)
   | Inr resp \<Rightarrow>
       (let reqID = ReqIDFromHeaders (Some (hp_headers resp)); c1 = setLastReqID reqID c in
        if hp_status resp \<noteq> 200 then (None, rehydrate_failed sid reqID (hp_status resp) c1)
        else (let body = parseVerbBody (ae_unmarshal env) (hp_body resp) in
          (Some (if reqID \<noteq> [] then amap_put ''_req_id'' (GStr reqID) body else body), c1))))"

definition Rehydrate ::
  "('s, 'z) session_env_scheme \<Rightarrow> ctx_error option \<Rightarrow> string \<Rightarrow> int \<Rightarrow> string \<Rightarrow> string amap \<Rightarrow> DataTarget \<Rightarrow>
   SessionClient \<times> 's \<Rightarrow> (zerror + gmap option) \<times> SessionClient \<times> 's" where
  "Rehydrate env ctx sessionID rounds mode extra target = (\<lambda>(c, s).
     (case guard ctx c of
        Some e \<Rightarrow> (Inl e, c, s)
      | None \<Rightarrow> (let sid = trim_space sessionID; n = (if rounds \<le> 0 then 6 else rounds) in
          if sid = [] then (Inr None, c, s)
          else (case headers env mode extra target (c, s) of
              (Inl e, c1, s1) \<Rightarrow> (Inl e, c1, s1)
            | (Inr h, c1, s1) \<Rightarrow>
                (case session_httpPort c1 of
                   (Some e, c2) \<Rightarrow> (Inl e, c2, s1)
                 | (None, c2) \<Rightarrow>
                     (case ae_http env \<lparr>hq_method = ''GET'', hq_url = withQuery (se_with_query env)
                            (base_url c @ ''/v2/session/'' @ path_escape sid) [(''rounds'', int_digits n)],
                          hq_headers = h, hq_body = [], hq_timeout_s = ep_timeout_s (sc_endpoint c2)\<rparr> s1 of
                        (ans, s2) \<Rightarrow> (case rehydrate_answer env sid ans c2 of
                           (body, c3) \<Rightarrow> (Inr body, c3, s2))))))))"

definition ContinueTurn ::
  "('s, 'z) session_env_scheme \<Rightarrow> ctx_error option \<Rightarrow> SessionContinueRequest \<Rightarrow> SessionClient \<times> 's \<Rightarrow>
   (SessionHTTPResult \<times> zerror option) \<times> SessionClient \<times> 's" where
  "ContinueTurn env ctx req = (\<lambda>(c, s).
     (case guard ctx c of
        Some e \<Rightarrow> ((zeroResult, Some e), c, s)
      | None \<Rightarrow> (let sid = trim_space (ct_session_id req) in
          if sid = [] then ((zeroResult\<lparr>hr_error := ''no session_id''\<rparr>,
            Some (NewSession CodeSessionIDMissing sessionComponent [WithMessage ''session id missing''])), c, s)
          else hop env (base_url c @ ''/v2/session/'' @ path_escape sid @ ''/turn'')
            (rewind_field (ct_rewind req)
              [(''round'', GInt (ct_client_round req)), (''chat_request'', GObj (ct_chat_request req)),
               (''new_turns'', GArr (ct_new_turns req))])
            [200] (ct_mode req) (ct_headers req) (ct_target req) (ct_rewind req) (c, s))))"

fun put_missing :: "gmap \<Rightarrow> gmap \<Rightarrow> gmap" where
  "put_missing m [] = m"
| "put_missing m ((k, v) # kvs) = put_missing (if map_of m k = None then amap_put k v m else m) kvs"

definition trace_payload :: "string \<Rightarrow> gmap \<Rightarrow> SessionTraceRequest \<Rightarrow> gmap" where
  "trace_payload sid stamp req =
     (let p0 = [(''session_id'', GStr sid), (''round'', GInt (tr_client_round req)),
            (''req_id'', GStr (tr_req_id req)), (''contract_id'', GStr (tr_contract_id req)),
            (''contract_hash'', GStr (tr_contract_hash req)), (''chat_request'', GObj (tr_chat_request req)),
            (''turns'', GArr (tr_turns req)),
            (''zeus_response'', GObj (put_missing (tr_zeus_response req) stamp)),
            (''outcome'', GStr (if tr_outcome req = [] then ''ok'' else tr_outcome req))];
          p1 = amap_put_all p0 stamp; tid = trim_space (tr_turn_id req);
          p2 = (if tid \<noteq> [] then amap_put ''turn_id'' (GStr tid) p1 else p1)
      in rewind_field (tr_rewind req) p2)"

definition PostTrace ::
  "('s, 'z) session_env_scheme \<Rightarrow> ctx_error option \<Rightarrow> SessionTraceRequest \<Rightarrow> SessionClient \<times> 's \<Rightarrow>
   (SessionHTTPResult \<times> zerror option) \<times> SessionClient \<times> 's" where
  "PostTrace env ctx req = (\<lambda>(c, s).
     (case guard ctx c of
        Some e \<Rightarrow> ((zeroResult, Some e), c, s)
      | None \<Rightarrow> (let sid = trim_space (tr_session_id req) in
          if sid = [] \<or> tr_client_round req \<le> 0
          then ((zeroResult\<lparr>hr_error := ''bad trace params''\<rparr>, None), c, s)
          else (case headers env (tr_mode req) (tr_headers req) (tr_target req) (c, s) of
              (Inl e, cs1) \<Rightarrow> ((zeroResult, Some e), cs1)
            | (Inr h, cs1) \<Rightarrow>
                (case post env (base_url c @ ''/v2/session/trace'') h
                    (trace_payload sid (sinkStamp env sid c s) req) [200, 201]
                    (RewindQueryParams (tr_rewind req)) cs1 of
                   ((res, err), c2, s2) \<Rightarrow>
                     (let failed = (err \<noteq> None \<or> \<not> hr_ok res) in
                      ((res, err), session_emit (if failed then ''error'' else ''info'')
                         ''zeus_client.session.trace''
                         [(''session.id'', GStr sid), (''req_id'', GStr (tr_req_id req)),
                          (''http.status_code'', GInt (hr_status res)),
                          (''result'', GStr (if failed then ''error'' else ''ok''))] c2, s2)))))))"

definition SessionClient_Close ::
  "('s, 'z) session_env_scheme \<Rightarrow> SessionClient \<times> 's \<Rightarrow> go_error option \<times> SessionClient \<times> 's" where
  "SessionClient_Close env = (\<lambda>(c, s).
     (if sc_closed c then (None, c, s)
      else (let c1 = c\<lparr>sc_closed := True\<rparr> in
        case (if sc_owns_auth c then AuthResolver_Close (auth_env.truncate env) (sc_auth c, s)
              else (None, sc_auth c, s)) of
          (e1, a, s1) \<Rightarrow>
            (let c2 = c1\<lparr>sc_auth := a\<rparr> in
             if sc_owns_http c \<and> sc_http_set c
             then (case ae_close env s1 of (e2, s2) \<Rightarrow> ((case e1 of Some e \<Rightarrow> Some e | None \<Rightarrow> e2), c2, s2))
             else (e1, c2, s1)))))"

text \<open>The client as the lifecycle sees it.\<close>

definition client_port :: "('s, 'z) session_env_scheme \<Rightarrow> ctx_error option \<Rightarrow> (SessionClient \<times> 's) session_port" where
  "client_port env ctx = \<lparr>sp_create = Create env ctx, sp_rehydrate = Rehydrate env ctx,
     sp_continue = ContinueTurn env ctx, sp_last_req_id = (\<lambda>(c, s). sc_last_req_id c)\<rparr>"

section \<open>Facts\<close>

lemma hop_result_ok: "hr_ok (hop_result okCodes url reqID body st) \<longleftrightarrow> st \<in> set okCodes"
  "hr_status (hop_result okCodes url reqID body st) = st"
  by (simp_all add: hop_result_def)

lemma zeroResult_simps [simp]: "\<not> hr_ok zeroResult" "hr_status zeroResult = 0"
  by (simp_all add: zeroResult_def)

lemma session_httpPort_simps:
  "session_httpPort c = (e, c1) \<Longrightarrow> sc_endpoint c1 = sc_endpoint c \<and> sc_auth c1 = sc_auth c"
  by (auto simp: session_httpPort_def split: if_splits)

text \<open>A hop that succeeds was one request, answered with an accepted status.\<close>

lemma post_ok:
  assumes "post env url hdrs payload okCodes query (c, s) = ((res, err), c', s')" and "hr_ok res"
  shows "\<exists>raw resp. err = None \<and> hr_status res \<in> set okCodes \<and> hp_status resp = hr_status res \<and>
    se_marshal env (GObj payload) = Inr raw \<and>
    ae_http env (post_request env c url query hdrs raw) s = (Inr resp, s') \<and>
    res = hop_result okCodes url (ReqIDFromHeaders (Some (hp_headers resp)))
      (parseVerbBody (ae_unmarshal env) (hp_body resp)) (hp_status resp)"
proof -
  have eq: "post_request env c1 url query hdrs raw = post_request env c url query hdrs raw"
    if "session_httpPort c = (e, c1)" for e c1 raw
    using session_httpPort_simps [OF that] by (simp add: post_request_def)
  from assms eq show ?thesis
    by (auto simp: post_def Let_def hop_result_ok split: prod.splits option.splits sum.splits)
qed

lemma headers_endpoint:
  "headers env mode extra target (c, s) = (h, c1, s1) \<Longrightarrow> sc_endpoint c1 = sc_endpoint c"
  by (auto simp: headers_def split: prod.splits sum.splits)

lemma hop_ok:
  assumes "hop env url payload okCodes mode extra target rewind (c, s) = ((res, err), c', s')" and "hr_ok res"
  shows "\<exists>hdrs c1 s1 raw resp. headers env mode extra target (c, s) = (Inr hdrs, c1, s1) \<and> err = None \<and>
    hr_status res \<in> set okCodes \<and> hp_status resp = hr_status res \<and> se_marshal env (GObj payload) = Inr raw \<and>
    ae_http env (post_request env c url (RewindQueryParams rewind) hdrs raw) s1 = (Inr resp, s') \<and>
    res = hop_result okCodes url (ReqIDFromHeaders (Some (hp_headers resp)))
      (parseVerbBody (ae_unmarshal env) (hp_body resp)) (hp_status resp)"
proof -
  obtain h c1 s1 where h: "headers env mode extra target (c, s) = (h, c1, s1)"
    by (cases "headers env mode extra target (c, s)") auto
  with assms obtain hdrs where hd: "h = Inr hdrs"
    by (cases h) (auto simp: hop_def)
  with h assms have "post env url hdrs payload okCodes (RewindQueryParams rewind) (c1, s1) = ((res, err), c', s')"
    by (simp add: hop_def)
  from post_ok [OF this assms(2)] h hd headers_endpoint [OF h] show ?thesis
    by (auto simp: post_request_def)
qed

lemma Create_ok:
  assumes "Create env ctx req (c, s) = ((res, err), c', s')" and "hr_ok res"
  shows "\<exists>hdrs c1 s1 raw resp. headers env (cr_mode req) (cr_headers req) (cr_target req) (c, s) = (Inr hdrs, c1, s1) \<and>
    hr_status res \<in> {200, 201} \<and> hp_status resp = hr_status res \<and>
    ae_http env (post_request env c (base_url c @ ''/v2/session'') (RewindQueryParams (cr_rewind req)) hdrs raw) s1 =
      (Inr resp, s') \<and>
    res = hop_result [200, 201] (base_url c @ ''/v2/session'') (ReqIDFromHeaders (Some (hp_headers resp)))
      (parseVerbBody (ae_unmarshal env) (hp_body resp)) (hp_status resp)"
proof -
  have "guard ctx c = None" using assms by (cases "guard ctx c") (auto simp: Create_def)
  with assms(1) have "hop env (base_url c @ ''/v2/session'')
          (create_payload (sinkStamp env [] c s) req)
          [200, 201] (cr_mode req) (cr_headers req) (cr_target req) (cr_rewind req) (c, s) = ((res, err), c', s')"
    by (simp only: Create_def prod.case option.case)
  from hop_ok [OF this assms(2)] show ?thesis unfolding list.set by blast
qed

lemma ContinueTurn_ok:
  assumes "ContinueTurn env ctx req (c, s) = ((res, err), c', s')" and "hr_ok res"
  shows "hr_status res = 200"
proof -
  have g: "guard ctx c = None" "trim_space (ct_session_id req) \<noteq> []"
    using assms by (cases "guard ctx c"; auto simp: ContinueTurn_def Let_def split: if_splits)+
  show ?thesis
    using assms hop_ok [of env _ _ "[200]"] by (fastforce simp: ContinueTurn_def Let_def g)
qed

interpretation client: session_hops "client_port env ctx" for env ctx
proof
  fix req s res s'
  assume "sp_create (client_port env ctx) req s = ((res, None), s')" "hr_ok res"
  then show "hr_status res \<in> {200, 201}"
    using Create_ok [of env ctx req "fst s" "snd s" res None "fst s'" "snd s'"] by (auto simp: client_port_def)
next
  fix creq s res s'
  assume "sp_continue (client_port env ctx) creq s = ((res, None), s')" "hr_ok res"
  then show "hr_status res = 200"
    using ContinueTurn_ok [of env ctx creq "fst s" "snd s" res None "fst s'" "snd s'"] by (simp add: client_port_def)
qed


lemma mget_hop_body: "k \<noteq> ''_req_id'' \<Longrightarrow> mget (hr_body (hop_result okCodes url reqID body st)) k = mget body k"
  by (simp add: hop_result_def mget_put)

lemma map_of_put_missing:
  "map_of (put_missing m kvs) k = (case map_of m k of Some v \<Rightarrow> Some v | None \<Rightarrow> map_of kvs k)"
  by (induction m kvs rule: put_missing.induct) (auto simp: update_conv' split: option.splits)

text \<open>A closed client, or one whose context is done, sends nothing.\<close>

lemma guarded_no_io:
  assumes "guard ctx c = Some e"
  shows "Create env ctx creq (c, s) = ((zeroResult, Some e), c, s)"
    "Rehydrate env ctx sid n mode extra target (c, s) = (Inl e, c, s)"
    "ContinueTurn env ctx treq (c, s) = ((zeroResult, Some e), c, s)"
    "PostTrace env ctx preq (c, s) = ((zeroResult, Some e), c, s)"
  using assms by (simp_all add: Create_def Rehydrate_def ContinueTurn_def PostTrace_def)

lemma closed_guard: "sc_closed c \<Longrightarrow> guard ctx c \<noteq> None"
  by (auto simp: guard_def split: option.splits)

section \<open>Properties\<close>

text \<open>C15. A created handle, end to end: the session id of the handle is the trimmed \<open>session_id\<close> of the
  JSON body with which the server answered, 200 or 201, the one POST to \<open>/v2/session\<close> that the client
  sent with the headers of the auth resolver; nothing else yields a created handle.\<close>

theorem created_over_http:
  assumes "create (client_port env ctx) target chatReq um cid ch mode chat hdrs rf rw ((c, s), logs) =
    ((h, None), (c', s'), logs')"
  shows "\<exists>(req :: SessionCreateRequest) hs c1 s1 raw resp. headers env (cr_mode req) (cr_headers req) (cr_target req) (c, s) = (Inr hs, c1, s1) \<and>
    ae_http env (post_request env c (base_url c @ ''/v2/session'') (RewindQueryParams (cr_rewind req)) hs raw) s1 =
      (Inr resp, s') \<and> hp_status resp \<in> {200, 201} \<and> sh_created h \<and>
    sh_session_id h = trim_space (asString (mget (parseVerbBody (ae_unmarshal env) (hp_body resp)) ''session_id''))"
proof -
  from create_cases [OF assms] obtain req res where
    r: "sp_create (client_port env ctx) req (c, s) = ((res, None), (c', s'))" "hr_ok res"
    "h = created_handle res cid ch mode chat rf" by blast
  then have "Create env ctx req (c, s) = ((res, None), c', s')" by (simp add: client_port_def)
  from Create_ok [OF this r(2)] obtain hs c1 s1 raw resp where
    "headers env (cr_mode req) (cr_headers req) (cr_target req) (c, s) = (Inr hs, c1, s1)"
    "hp_status resp \<in> {200, 201}"
    "ae_http env (post_request env c (base_url c @ ''/v2/session'') (RewindQueryParams (cr_rewind req)) hs raw) s1 =
      (Inr resp, s')"
    "res = hop_result [200, 201] (base_url c @ ''/v2/session'') (ReqIDFromHeaders (Some (hp_headers resp)))
      (parseVerbBody (ae_unmarshal env) (hp_body resp)) (hp_status resp)" by metis
  moreover from this(4) have "sh_created h \<and>
      sh_session_id h = trim_space (asString (mget (parseVerbBody (ae_unmarshal env) (hp_body resp)) ''session_id''))"
    by (simp add: r(3) created_handle_def mget_hop_body Let_def)
  ultimately show ?thesis by blast
qed

text \<open>The trace hop joins on the ids of the dispatch: the payload carries the dispatch hop's req_id, the
  trimmed session id and the round as given; a field of the Zeus response is never overwritten by the
  client's stamp, a missing one is filled from it.\<close>

theorem trace_payload_joins:
  assumes "\<forall>k. k \<notin> {''user'', ''version'', ''ip_address'', ''ts'', ''session_id''} \<longrightarrow> map_of stamp k = None"
    and "map_of stamp ''session_id'' = Some (GStr sid)" and "amap_ok stamp"
  shows "mget (trace_payload sid stamp req) ''req_id'' = GStr (tr_req_id req) \<and>
    mget (trace_payload sid stamp req) ''session_id'' = GStr sid \<and>
    mget (trace_payload sid stamp req) ''round'' = GInt (tr_client_round req) \<and>
    (\<exists>z. mget (trace_payload sid stamp req) ''zeus_response'' = GObj z \<and>
      (\<forall>k. map_of z k = (case map_of (tr_zeus_response req) k of Some v \<Rightarrow> Some v | None \<Rightarrow> map_of stamp k)))"
proof -
  have u: "map_of (amap_put_all p stamp) k = (case map_of stamp k of Some v \<Rightarrow> Some v | None \<Rightarrow> map_of p k)" for p k
    by (simp add: map_of_put_all [OF assms(3)] map_add_def)
  have n: "map_of stamp ''req_id'' = None" "map_of stamp ''round'' = None" "map_of stamp ''zeus_response'' = None"
    using assms(1) by simp_all
  show ?thesis
    by (simp add: trace_payload_def Let_def rewind_field_def mget_def update_conv' u n assms(2) map_of_put_missing)
qed

text \<open>A server that accepts every session create, for the witnesses.\<close>

definition session_env_of :: "'s auth_env \<Rightarrow> 's session_env" where
  "session_env_of env = auth_env.extend env
     \<lparr>se_marshal = (\<lambda>v. Inr ''{}''), se_with_query = (\<lambda>u q. u), se_fresh_id = (\<lambda>s. ''id''),
      se_now_text = (\<lambda>s. ''t'')\<rparr>"

definition open_client :: SessionClient where
  "open_client = NewSessionClient (ar_endpoint login_resolver) True None ''1.0'' [] [] False"

lemma created_over_http_witness:
  "\<exists>h c' logs'. create (client_port (session_env_of login_env) None) login_target [] ''hi'' [] [] ''analytics'' []
     [] [] False ((open_client, 5), []) = ((h, None), (c', 5), logs') \<and> sh_created h \<and>
     (\<exists>resp :: HTTPResponse. hp_status resp \<in> {200, 201} \<and> sh_session_id h =
       trim_space (asString (mget (parseVerbBody (ae_unmarshal login_env) (hp_body resp)) ''session_id'')))"
proof -
  let ?r = "create (client_port (session_env_of login_env) None) login_target [] ''hi'' [] [] ''analytics'' []
     [] [] False ((open_client, 5), [])"
  have e: "snd (fst ?r) = None" "snd (fst (snd ?r)) = 5" by code_simp+
  then obtain h c' logs' where r: "?r = ((h, None), (c', 5), logs')"
    by (metis prod.collapse)
  have u: "ae_unmarshal (session_env_of login_env) = ae_unmarshal login_env"
    by (simp add: session_env_of_def auth_env.extend_def)
  from created_over_http [OF r] obtain resp :: HTTPResponse where "hp_status resp \<in> {200, 201}" "sh_created h"
    "sh_session_id h = trim_space (asString (mget (parseVerbBody (ae_unmarshal login_env) (hp_body resp)) ''session_id''))"
    unfolding u by blast
  with r show ?thesis by blast
qed

lemma trace_payload_joins_witness:
  "mget (trace_payload ''s-1'' [(''user'', GStr ''u''), (''session_id'', GStr ''s-1'')]
     \<lparr>tr_session_id = ''s-1'', tr_client_round = 2, tr_req_id = ''r-7'', tr_contract_id = [], tr_contract_hash = [],
      tr_chat_request = [], tr_turns = [], tr_zeus_response = [(''user'', GStr ''zeus'')], tr_outcome = [],
      tr_headers = [], tr_mode = [], tr_target = login_target, tr_rewind = False, tr_turn_id = []\<rparr>) ''req_id'' = GStr ''r-7''"
  by (subst trace_payload_joins [THEN conjunct1]) (simp_all add: amap_ok_def)

end
