(* ===== verification/Journal.thy ===== *)
theory Journal
  imports Redact
begin

text \<open>
  The execution journal (src/domain/journal): the content-addressed payload store, the append-only
  event list, span tracing and the export with its redacted and per-turn forms. The SHA-256 digest in
  hexadecimal is the parameter \<open>sha\<close>; fresh ids and times are inputs. A JournalEvent, whose maps the
  code copies at each border, is a value here, so the copies are the identity by construction.
\<close>

section \<open>Payload store\<close>

record PayloadMeta =
  pm_ref :: string
  pm_content_type :: string
  pm_kind :: string
  pm_sha256 :: string
  pm_size :: nat

record storedPayload =
  sp_meta :: PayloadMeta
  sp_data :: string

type_synonym InMemoryPayloadStore = "storedPayload amap"

definition NewInMemoryPayloadStore :: InMemoryPayloadStore where
  "NewInMemoryPayloadStore = []"

definition payload_ref :: "(string \<Rightarrow> string) \<Rightarrow> string \<Rightarrow> string" where
  "payload_ref sha d = ''sha256:'' @ sha d"

definition Put :: "(string \<Rightarrow> string) \<Rightarrow> string \<Rightarrow> string \<Rightarrow> string \<Rightarrow> InMemoryPayloadStore \<Rightarrow>
    string \<times> InMemoryPayloadStore" where
  "Put sha d contentType kind s =
     (let ref = payload_ref sha d in
      case map_of s ref of
        Some _ \<Rightarrow> (ref, s)
      | None \<Rightarrow> (ref, amap_put ref
          \<lparr>sp_meta = \<lparr>pm_ref = ref,
             pm_content_type = (if contentType = [] then ''application/octet-stream'' else contentType),
             pm_kind = (if kind = [] then ''blob'' else kind), pm_sha256 = sha d, pm_size = length d\<rparr>,
           sp_data = d\<rparr> s))"

definition Get_payload :: "string \<Rightarrow> InMemoryPayloadStore \<Rightarrow> string option" where
  "Get_payload ref s = map_option sp_data (map_of s ref)"

definition Meta :: "string \<Rightarrow> InMemoryPayloadStore \<Rightarrow> storedPayload option" where
  "Meta ref s = map_of s ref"

definition Items :: "InMemoryPayloadStore \<Rightarrow> PayloadMeta amap" where
  "Items s = map (\<lambda>(k, rec). (k, sp_meta rec)) s"

section \<open>Events and the journal\<close>

abbreviation EventSpanStarted :: string where "EventSpanStarted \<equiv> ''span.started''"
abbreviation EventSpanEnded :: string where "EventSpanEnded \<equiv> ''span.ended''"
abbreviation EventTurnStarted :: string where "EventTurnStarted \<equiv> ''turn.started''"
abbreviation EventTurnCompleted :: string where "EventTurnCompleted \<equiv> ''turn.completed''"
abbreviation EventErrorRaised :: string where "EventErrorRaised \<equiv> ''error.raised''"
abbreviation EventNote :: string where "EventNote \<equiv> ''note''"
abbreviation EventZeusHop :: string where "EventZeusHop \<equiv> ''zeus.hop''"
abbreviation EventLLMRound :: string where "EventLLMRound \<equiv> ''llm.round''"
abbreviation EventUnitStarted :: string where "EventUnitStarted \<equiv> ''unit.started''"
abbreviation EventUnitFinished :: string where "EventUnitFinished \<equiv> ''unit.finished''"

record JournalEvent =
  jv_event_id :: string
  jv_ts_ms :: int
  jv_type :: string
  jv_component :: string
  jv_turn_id :: string
  jv_span_id :: string
  jv_parent_span_id :: string
  jv_data :: gmap
  jv_payload_refs :: "string list"

definition copyData :: "gmap \<Rightarrow> gmap" where
  "copyData m = map (\<lambda>(k, v). (k, v)) m"

definition freezeEvent :: "JournalEvent \<Rightarrow> JournalEvent" where
  "freezeEvent e = e\<lparr>jv_data := copyData (jv_data e), jv_payload_refs := map (\<lambda>r. r) (jv_payload_refs e)\<rparr>"

record InMemoryJournal =
  ij_evs :: "JournalEvent list"
  ij_store :: InMemoryPayloadStore

definition NewInMemoryJournal :: "InMemoryPayloadStore option \<Rightarrow> InMemoryJournal" where
  "NewInMemoryJournal store = \<lparr>ij_evs = [],
     ij_store = (case store of None \<Rightarrow> NewInMemoryPayloadStore | Some s \<Rightarrow> s)\<rparr>"

definition Append :: "JournalEvent \<Rightarrow> InMemoryJournal \<Rightarrow> InMemoryJournal" where
  "Append e j = j\<lparr>ij_evs := ij_evs j @ [freezeEvent e]\<rparr>"

definition Events :: "InMemoryJournal \<Rightarrow> JournalEvent list" where
  "Events j = map freezeEvent (ij_evs j)"

definition Len :: "InMemoryJournal \<Rightarrow> nat" where
  "Len j = length (ij_evs j)"

definition GetPayload :: "string \<Rightarrow> InMemoryJournal \<Rightarrow> string option" where
  "GetPayload ref j = Get_payload ref (ij_store j)"

definition PutPayload :: "(string \<Rightarrow> string) \<Rightarrow> string \<Rightarrow> string \<Rightarrow> string \<Rightarrow> InMemoryJournal \<Rightarrow>
    string \<times> InMemoryJournal" where
  "PutPayload sha d contentType kind j =
     (case Put sha d (if contentType = [] then ''application/octet-stream'' else contentType)
        (if kind = [] then ''blob'' else kind) (ij_store j) of
        (ref, s) \<Rightarrow> (ref, j\<lparr>ij_store := s\<rparr>))"

definition PayloadItems :: "InMemoryJournal \<Rightarrow> PayloadMeta amap" where
  "PayloadItems j = Items (ij_store j)"

section \<open>Spans\<close>

record SpanHandle =
  shd_span_id :: string
  shd_parent_span_id :: string
  shd_name :: string
  shd_turn_id :: string

record SpanTracer =
  st_journal :: InMemoryJournal
  st_turn_id :: string
  st_component :: string
  st_stack :: "string list"

definition NewSpanTracer :: "InMemoryJournal \<Rightarrow> string \<Rightarrow> SpanTracer" where
  "NewSpanTracer j turnID = \<lparr>st_journal = j, st_turn_id = turnID,
     st_component = ''domain.journal.spans'', st_stack = []\<rparr>"

definition Start :: "string \<Rightarrow> string \<Rightarrow> int \<Rightarrow> string \<Rightarrow> string \<Rightarrow> gmap \<Rightarrow> SpanTracer \<Rightarrow> SpanHandle \<times> SpanTracer" where
  "Start spanID eventID now name parent0 dat t =
     (let parent = (if parent0 = [] \<and> st_stack t \<noteq> [] then last (st_stack t) else parent0) in
      (\<lparr>shd_span_id = spanID, shd_parent_span_id = parent, shd_name = name, shd_turn_id = st_turn_id t\<rparr>,
       t\<lparr>st_journal := Append
           \<lparr>jv_event_id = eventID, jv_ts_ms = now, jv_type = EventSpanStarted, jv_component = st_component t,
            jv_turn_id = st_turn_id t, jv_span_id = spanID, jv_parent_span_id = parent,
            jv_data = amap_put_all [(''name'', GStr name)] dat, jv_payload_refs = []\<rparr> (st_journal t),
         st_stack := st_stack t @ [spanID]\<rparr>))"

definition pop_span :: "string \<Rightarrow> string list \<Rightarrow> string list" where
  "pop_span i stack = (if stack \<noteq> [] \<and> last stack = i then butlast stack else remove1 i stack)"

definition End :: "string \<Rightarrow> int \<Rightarrow> SpanHandle \<Rightarrow> string \<Rightarrow> gmap \<Rightarrow> SpanTracer \<Rightarrow> SpanTracer" where
  "End eventID now h status dat t =
     t\<lparr>st_journal := Append
         \<lparr>jv_event_id = eventID, jv_ts_ms = now, jv_type = EventSpanEnded, jv_component = st_component t,
          jv_turn_id = shd_turn_id h, jv_span_id = shd_span_id h, jv_parent_span_id = shd_parent_span_id h,
          jv_data = amap_put_all [(''name'', GStr (shd_name h)),
            (''status'', GStr (if status = [] then ''ok'' else status))] dat,
          jv_payload_refs = []\<rparr> (st_journal t),
       st_stack := pop_span (shd_span_id h) (st_stack t)\<rparr>"

section \<open>Export\<close>

definition JournalSchemaVersion :: int where "JournalSchemaVersion = 1"

record EventDump =
  ed_event_id :: string
  ed_ts_ms :: int
  ed_type :: string
  ed_component :: string
  ed_turn_id :: string
  ed_span_id :: "string option"
  ed_parent_span_id :: "string option"
  ed_data :: gmap
  ed_payload_refs :: "string list"

record JournalExport =
  jx_schema :: int
  jx_events :: "EventDump list"
  jx_payloads :: "PayloadMeta amap"

definition strPtr :: "string \<Rightarrow> string option" where
  "strPtr s = (if s = [] then None else Some s)"

text \<open>The redactor is its JSONValue, when there is one.\<close>

definition dumpEvent :: "(gval \<Rightarrow> gval) option \<Rightarrow> JournalEvent \<Rightarrow> EventDump" where
  "dumpEvent red ev =
     \<lparr>ed_event_id = jv_event_id ev, ed_ts_ms = jv_ts_ms ev, ed_type = jv_type ev,
      ed_component = jv_component ev, ed_turn_id = jv_turn_id ev, ed_span_id = strPtr (jv_span_id ev),
      ed_parent_span_id = strPtr (jv_parent_span_id ev),
      ed_data = (case red of
          None \<Rightarrow> copyData (jv_data ev)
        | Some walk \<Rightarrow> (case walk (GObj (copyData (jv_data ev))) of GObj m \<Rightarrow> m | w \<Rightarrow> [(''_'', w)])),
      ed_payload_refs = map (\<lambda>r. r) (jv_payload_refs ev)\<rparr>"

definition emptyExport :: JournalExport where
  "emptyExport = \<lparr>jx_schema = JournalSchemaVersion, jx_events = [], jx_payloads = []\<rparr>"

definition snapshotExport :: "(gval \<Rightarrow> gval) option \<Rightarrow> InMemoryJournal option \<Rightarrow> JournalExport" where
  "snapshotExport red j =
     \<lparr>jx_schema = JournalSchemaVersion,
      jx_events = map (dumpEvent red) (case j of None \<Rightarrow> [] | Some j \<Rightarrow> Events j),
      jx_payloads = (case j of None \<Rightarrow> [] | Some j \<Rightarrow> PayloadItems j)\<rparr>"

definition Export :: "InMemoryJournal option \<Rightarrow> JournalExport" where
  "Export j = (case j of None \<Rightarrow> emptyExport | Some j \<Rightarrow> snapshotExport None (Some j))"

definition ExportRedacted :: "(gval \<Rightarrow> gval) option \<Rightarrow> InMemoryJournal option \<Rightarrow> JournalExport" where
  "ExportRedacted red j = snapshotExport (Some (case red of None \<Rightarrow> walkJSON | Some w \<Rightarrow> w)) j"

definition FilterByTurn :: "JournalExport \<Rightarrow> string \<Rightarrow> JournalExport" where
  "FilterByTurn x turnID =
     (if turnID = [] then x
      else (let events = filter (\<lambda>ev. ed_turn_id ev = turnID) (jx_events x);
                refs = concat (map ed_payload_refs events)
            in \<lparr>jx_schema = jx_schema x, jx_events = events,
                jx_payloads = filter (\<lambda>(k, v). k \<in> set refs) (jx_payloads x)\<rparr>))"

definition anyString :: "string option \<Rightarrow> gval" where
  "anyString p = (case p of None \<Rightarrow> GNil | Some s \<Rightarrow> GStr s)"

definition event_map :: "EventDump \<Rightarrow> gval" where
  "event_map ev = GObj
     [(''event_id'', GStr (ed_event_id ev)), (''ts_ms'', GInt (ed_ts_ms ev)), (''type'', GStr (ed_type ev)),
      (''component'', GStr (ed_component ev)), (''turn_id'', GStr (ed_turn_id ev)),
      (''span_id'', anyString (ed_span_id ev)), (''parent_span_id'', anyString (ed_parent_span_id ev)),
      (''data'', GObj (ed_data ev)), (''payload_refs'', GArr (map GStr (ed_payload_refs ev)))]"

definition payload_map :: "PayloadMeta \<Rightarrow> gval" where
  "payload_map v = GObj
     [(''ref'', GStr (pm_ref v)), (''content_type'', GStr (pm_content_type v)), (''kind'', GStr (pm_kind v)),
      (''sha256'', GStr (pm_sha256 v)), (''size'', GInt (int (pm_size v)))]"

definition ToMap :: "JournalExport \<Rightarrow> gmap" where
  "ToMap x = [(''journal_schema'', GInt (jx_schema x)), (''events'', GArr (map event_map (jx_events x))),
     (''payloads'', GObj (map (\<lambda>(k, v). (k, payload_map v)) (jx_payloads x)))]"

section \<open>The interface of a payload store\<close>

text \<open>Storing several payloads one after another.\<close>

fun put_all :: "(string \<Rightarrow> string \<Rightarrow> string \<Rightarrow> 's \<Rightarrow> string \<times> 's) \<Rightarrow> string list \<Rightarrow> 's \<Rightarrow> string list \<times> 's" where
  "put_all put [] s = ([], s)"
| "put_all put (d # ds) s = (case put d [] [] s of (ref, s1) \<Rightarrow>
     (case put_all put ds s1 of (refs, s2) \<Rightarrow> (ref # refs, s2)))"

locale payload_store =
  fixes put :: "string \<Rightarrow> string \<Rightarrow> string \<Rightarrow> 's \<Rightarrow> string \<times> 's"
    and get :: "string \<Rightarrow> 's \<Rightarrow> string option"
    and ok :: "'s \<Rightarrow> bool"
    and admissible :: "string \<Rightarrow> bool"
  assumes put_ok: "ok s \<Longrightarrow> admissible d \<Longrightarrow> put d ct k s = (ref, s') \<Longrightarrow> ok s'"
    and put_get: "ok s \<Longrightarrow> admissible d \<Longrightarrow> put d ct k s = (ref, s') \<Longrightarrow> get ref s' = Some d"
    and put_keep: "ok s \<Longrightarrow> admissible d \<Longrightarrow> put d ct k s = (ref, s') \<Longrightarrow> get r s = Some x \<Longrightarrow> get r s' = Some x"
begin

lemma put_all_keep:
  "ok s \<Longrightarrow> list_all admissible ds \<Longrightarrow> put_all put ds s = (refs, s') \<Longrightarrow>
     ok s' \<and> (\<forall>r x. get r s = Some x \<longrightarrow> get r s' = Some x)"
proof (induction ds arbitrary: s refs)
  case (Cons d ds)
  obtain ref s1 where p: "put d [] [] s = (ref, s1)" by fastforce
  obtain rs s2 where q: "put_all put ds s1 = (rs, s2)" by fastforce
  from Cons.prems p q have "s' = s2" "admissible d" "list_all admissible ds" by auto
  with Cons.IH [OF put_ok [OF Cons.prems(1) _ p]] put_keep [OF Cons.prems(1) _ p] q show ?case by metis
qed simp

lemma put_all_get:
  "ok s \<Longrightarrow> list_all admissible ds \<Longrightarrow> put_all put ds s = (refs, s') \<Longrightarrow>
     map (\<lambda>r. get r s') refs = map Some ds"
proof (induction ds arbitrary: s refs)
  case (Cons d ds)
  obtain ref s1 where p: "put d [] [] s = (ref, s1)" by fastforce
  obtain rs s2 where q: "put_all put ds s1 = (rs, s2)" by fastforce
  from Cons.prems p q have e: "s' = s2" "refs = ref # rs" "admissible d" "list_all admissible ds" by auto
  from put_ok [OF Cons.prems(1) e(3) p] have o: "ok s1" .
  from put_get [OF Cons.prems(1) e(3) p] put_all_keep [OF o e(4) q] have "get ref s' = Some d" by (simp add: e(1))
  moreover from Cons.IH [OF o e(4)] q have "map (\<lambda>r. get r s') rs = map Some ds" by (simp add: e(1))
  ultimately show ?case by (simp add: e(2))
qed simp

end

text \<open>The in-memory store is one, for payloads on which the digest has no collision.\<close>

definition store_ok :: "(string \<Rightarrow> string) \<Rightarrow> string set \<Rightarrow> InMemoryPayloadStore \<Rightarrow> bool" where
  "store_ok sha D s \<longleftrightarrow> inj_on sha D \<and> amap_ok s \<and>
     (\<forall>(k, rec) \<in> set s. k = payload_ref sha (sp_data rec) \<and> sp_data rec \<in> D \<and>
        pm_ref (sp_meta rec) = k \<and> pm_sha256 (sp_meta rec) = sha (sp_data rec) \<and>
        pm_size (sp_meta rec) = length (sp_data rec))"

lemma store_ok_new [preserve]: "inj_on sha D \<Longrightarrow> store_ok sha D NewInMemoryPayloadStore"
  by (simp add: store_ok_def NewInMemoryPayloadStore_def amap_ok_def)

lemma store_ok_lookup:
  assumes "store_ok sha D s" and "map_of s r = Some rec"
  shows "r = payload_ref sha (sp_data rec) \<and> sp_data rec \<in> D"
  using assms map_of_SomeD [OF assms(2)] by (auto simp: store_ok_def)

lemma Put_lookup:
  assumes "store_ok sha D s" and "d \<in> D"
  shows "\<exists>rec. map_of (snd (Put sha d ct k s)) (payload_ref sha d) = Some rec \<and> sp_data rec = d"
    and "r \<noteq> payload_ref sha d \<Longrightarrow> map_of (snd (Put sha d ct k s)) r = map_of s r"
    and "fst (Put sha d ct k s) = payload_ref sha d"
proof -
  show "\<exists>rec. map_of (snd (Put sha d ct k s)) (payload_ref sha d) = Some rec \<and> sp_data rec = d"
  proof (cases "map_of s (payload_ref sha d)")
    case (Some rec)
    from store_ok_lookup [OF assms(1) Some] have "sha (sp_data rec) = sha d" "sp_data rec \<in> D"
      by (auto simp: payload_ref_def)
    with assms have "sp_data rec = d" by (auto simp: store_ok_def dest: inj_onD)
    with Some show ?thesis by (simp add: Put_def Let_def)
  qed (simp add: Put_def Let_def update_conv')
qed (auto simp: Put_def Let_def update_conv' split: option.splits)

lemma put_fresh: "k \<notin> keys_of m \<Longrightarrow> amap_put k v m = m @ [(k, v)]"
  by (induction m) auto

lemma Put_ok [preserve]:
  assumes "store_ok sha D s" and "d \<in> D"
  shows "store_ok sha D (snd (Put sha d ct k s))"
proof (cases "map_of s (payload_ref sha d)")
  case None
  then have n: "payload_ref sha d \<notin> keys_of s" by (simp add: map_of_eq_None_iff)
  have "snd (Put sha d ct k s) = s @ [(payload_ref sha d,
      \<lparr>sp_meta = \<lparr>pm_ref = payload_ref sha d,
         pm_content_type = (if ct = [] then ''application/octet-stream'' else ct),
         pm_kind = (if k = [] then ''blob'' else k), pm_sha256 = sha d, pm_size = length d\<rparr>, sp_data = d\<rparr>)]"
    by (simp add: Put_def Let_def None put_fresh [OF n] del: map_of_eq_None_iff)
  with assms n show ?thesis by (simp add: store_ok_def amap_ok_def)
next
  case (Some rec)
  with assms show ?thesis by (simp add: Put_def Let_def)
qed

interpretation mem: payload_store "Put sha" Get_payload "store_ok sha D" "\<lambda>d. d \<in> D" for sha D
proof
  fix s d ct k ref s'
  assume s: "store_ok sha D s" "d \<in> D" "Put sha d ct k s = (ref, s')"
  from Put_ok [OF s(1,2), of ct k] s(3) show "store_ok sha D s'" by simp
  from Put_lookup(1,3) [OF s(1,2), of ct k] s(3) show "Get_payload ref s' = Some d" by (auto simp: Get_payload_def)
  fix r x assume x: "Get_payload r s = Some x"
  show "Get_payload r s' = Some x"
  proof (cases "r = payload_ref sha d")
    case True
    from x obtain rec where rec: "map_of s r = Some rec" "sp_data rec = x" by (auto simp: Get_payload_def)
    with True have "Put sha d ct k s = (payload_ref sha d, s)" by (simp add: Put_def Let_def)
    with s(3) x show ?thesis by simp
  next
    case False
    from Put_lookup(2) [OF s(1,2) False, of ct k] s(3) x show ?thesis by (simp add: Get_payload_def)
  qed
qed

text \<open>A turn's view of an export has the events of the turn and the payloads they name, and no more.\<close>

lemma FilterByTurn_spec:
  assumes "turnID \<noteq> []"
  shows "jx_events (FilterByTurn x turnID) = filter (\<lambda>ev. ed_turn_id ev = turnID) (jx_events x)"
    and "(k, v) \<in> set (jx_payloads (FilterByTurn x turnID)) \<longleftrightarrow> (k, v) \<in> set (jx_payloads x) \<and>
      (\<exists>ev \<in> set (jx_events x). ed_turn_id ev = turnID \<and> k \<in> set (ed_payload_refs ev))"
    and "FilterByTurn (FilterByTurn x turnID) turnID = FilterByTurn x turnID"
  using assms by (auto simp: FilterByTurn_def Let_def)

section \<open>Span trees\<close>

text \<open>Work done under properly nested spans, and the log it should leave.\<close>

datatype span_tree = Span (span_id: string) (span_name: string) (span_children: "span_tree list")

fun run_span :: "string \<Rightarrow> int \<Rightarrow> span_tree \<Rightarrow> SpanTracer \<Rightarrow> SpanTracer"
  and run_spans :: "string \<Rightarrow> int \<Rightarrow> span_tree list \<Rightarrow> SpanTracer \<Rightarrow> SpanTracer" where
  "run_span e now (Span i n cs) t = (case Start i e now n [] [] t of (h, t1) \<Rightarrow>
     End e now h [] [] (run_spans e now cs t1))"
| "run_spans e now [] t = t"
| "run_spans e now (c # cs) t = run_spans e now cs (run_span e now c t)"

definition span_row :: "string \<Rightarrow> int \<Rightarrow> string \<Rightarrow> string \<Rightarrow> string \<Rightarrow> string \<Rightarrow> string \<Rightarrow> gmap \<Rightarrow> JournalEvent" where
  "span_row e now comp_name turn typ i parent dat =
     \<lparr>jv_event_id = e, jv_ts_ms = now, jv_type = typ, jv_component = comp_name, jv_turn_id = turn,
      jv_span_id = i, jv_parent_span_id = parent, jv_data = dat, jv_payload_refs = []\<rparr>"

fun span_log :: "string \<Rightarrow> int \<Rightarrow> string \<Rightarrow> string \<Rightarrow> string \<Rightarrow> span_tree \<Rightarrow> JournalEvent list"
  and span_logs :: "string \<Rightarrow> int \<Rightarrow> string \<Rightarrow> string \<Rightarrow> string \<Rightarrow> span_tree list \<Rightarrow> JournalEvent list" where
  "span_log e now cn turn parent (Span i n cs) =
     [span_row e now cn turn EventSpanStarted i parent [(''name'', GStr n)]] @ span_logs e now cn turn i cs @
     [span_row e now cn turn EventSpanEnded i parent [(''name'', GStr n), (''status'', GStr ''ok'')]]"
| "span_logs e now cn turn parent [] = []"
| "span_logs e now cn turn parent (c # cs) = span_log e now cn turn parent c @ span_logs e now cn turn parent cs"

definition top_span :: "string list \<Rightarrow> string" where
  "top_span stack = (if stack = [] then [] else last stack)"

lemma freezeEvent_id [simp]: "freezeEvent e = e"
  by (simp add: freezeEvent_def copyData_def)

lemma Append_evs [simp]: "ij_evs (Append e j) = ij_evs j @ [e]" "ij_store (Append e j) = ij_store j"
  by (simp_all add: Append_def)

lemma pop_top [simp]: "pop_span i (stack @ [i]) = stack"
  by (simp add: pop_span_def)

lemma run_span_log:
  "ij_evs (st_journal (run_span e now s t)) =
     ij_evs (st_journal t) @ span_log e now (st_component t) (st_turn_id t) (top_span (st_stack t)) s \<and>
   st_stack (run_span e now s t) = st_stack t \<and> st_turn_id (run_span e now s t) = st_turn_id t \<and>
   st_component (run_span e now s t) = st_component t"
  "ij_evs (st_journal (run_spans e now ss t)) =
     ij_evs (st_journal t) @ span_logs e now (st_component t) (st_turn_id t) (top_span (st_stack t)) ss \<and>
   st_stack (run_spans e now ss t) = st_stack t \<and> st_turn_id (run_spans e now ss t) = st_turn_id t \<and>
   st_component (run_spans e now ss t) = st_component t"
proof (induction e now s t and e now ss t rule: run_span_run_spans.induct)
  case (1 e now i n cs t)
  obtain h t1 where s: "Start i e now n [] [] t = (h, t1)" by fastforce
  then have h: "shd_span_id h = i" "shd_parent_span_id h = top_span (st_stack t)" "shd_name h = n"
      "shd_turn_id h = st_turn_id t"
    and t1: "st_stack t1 = st_stack t @ [i]" "st_turn_id t1 = st_turn_id t" "st_component t1 = st_component t"
      "ij_evs (st_journal t1) = ij_evs (st_journal t) @
         [span_row e now (st_component t) (st_turn_id t) EventSpanStarted i (top_span (st_stack t)) [(''name'', GStr n)]]"
    by (auto simp: Start_def top_span_def span_row_def Let_def)
  from 1 [OF s [symmetric]] s show ?case
    by (simp add: End_def h t1 span_row_def top_span_def)
qed simp_all

section \<open>Properties\<close>

text \<open>C16. The payload store is content addressed and loses nothing: after any sequence of puts on payloads
  whose digests do not collide, each returned reference yields exactly its payload, and every payload
  that was there before is still there.\<close>

theorem payload_roundtrip:
  assumes "store_ok sha D s" and "set ds \<subseteq> D" and "put_all (Put sha) ds s = (refs, s')"
  shows "map (\<lambda>r. Get_payload r s') refs = map Some ds \<and> store_ok sha D s' \<and>
    (\<forall>r x. Get_payload r s = Some x \<longrightarrow> Get_payload r s' = Some x)"
proof -
  have a: "list_all (\<lambda>d. d \<in> D) ds" using assms(2) by (auto simp: list_all_iff)
  from mem.put_all_get [OF assms(1) a assms(3)] mem.put_all_keep [OF assms(1) a assms(3)] show ?thesis by blast
qed

lemma payload_roundtrip_witness:
  "map (\<lambda>r. Get_payload r (snd (put_all (Put (\<lambda>d. d)) [''a'', ''b'', ''a''] NewInMemoryPayloadStore)))
     [''sha256:a'', ''sha256:b'', ''sha256:a''] = map Some [''a'', ''b'', ''a'']"
proof -
  have r: "put_all (Put (\<lambda>d. d)) [''a'', ''b'', ''a''] NewInMemoryPayloadStore =
      ([''sha256:a'', ''sha256:b'', ''sha256:a''],
       snd (put_all (Put (\<lambda>d. d)) [''a'', ''b'', ''a''] NewInMemoryPayloadStore))" by code_simp
  have "store_ok (\<lambda>d. d) UNIV NewInMemoryPayloadStore" by (rule store_ok_new) simp
  from payload_roundtrip [OF this _ r] show ?thesis by simp
qed

text \<open>Spans nest: work done under properly nested spans appends to the journal exactly the log of its
  tree (each span linked to the enclosing one, the outermost to the span that was open before) and
  leaves the stack of open spans as it was.\<close>

theorem spans_nest:
  "ij_evs (st_journal (run_span e now s t)) =
     ij_evs (st_journal t) @ span_log e now (st_component t) (st_turn_id t) (top_span (st_stack t)) s \<and>
   st_stack (run_span e now s t) = st_stack t"
  by (simp add: run_span_log(1))

text \<open>The public dump leaks nothing: the redacted export has one row per event, in order, with ids, type,
  time and spans as recorded and data free of every secret the redactor knows, and it does not depend
  on the payload bytes.\<close>

theorem ExportRedacted_clean:
  "list_all (\<lambda>ev. gval_clean (GObj (ed_data ev))) (jx_events (ExportRedacted None (Some j))) \<and>
   map (\<lambda>d. (ed_event_id d, ed_ts_ms d, ed_type d, ed_turn_id d)) (jx_events (ExportRedacted None (Some j))) =
     map (\<lambda>e. (jv_event_id e, jv_ts_ms e, jv_type e, jv_turn_id e)) (Events j) \<and>
   ExportRedacted red (Some (j\<lparr>ij_store := map (\<lambda>(k, rec). (k, rec\<lparr>sp_data := f k\<rparr>)) (ij_store j)\<rparr>)) =
     ExportRedacted red (Some j)"
proof (unfold list_all_iff, intro conjI ballI)
  fix ev assume "ev \<in> set (jx_events (ExportRedacted None (Some j)))"
  then obtain e where e: "ev = dumpEvent (Some walkJSON) e" by (auto simp: ExportRedacted_def snapshotExport_def)
  obtain m where m: "walkJSON (GObj (copyData (jv_data e))) = GObj m"
    using default_redactor.json_keys by blast
  with default_redactor.json_clean [of "GObj (copyData (jv_data e))"] have "gval_clean (GObj m)" by simp
  with e m show "gval_clean (GObj (ed_data ev))" by (simp add: dumpEvent_def)
qed (simp_all add: ExportRedacted_def snapshotExport_def dumpEvent_def Events_def PayloadItems_def Items_def
    comp_def case_prod_beta)

end
