(* ===== verification/Zeus_Verbs.thy ===== *)
theory Zeus_Verbs
  imports Session_Client Journal
begin

text \<open>
  The Zeus HTTP adapter, part three: the verb port (src/adapters/zeushttp/verbs.go). A call checks the
  context, the port and the allow-list, resolves auth, posts the body, logs in again once after a 401
  in basic mode, and journals the hop with redacted headers.
\<close>

section \<open>Verbs and URLs\<close>

definition verbsComponent :: string where "verbsComponent = ''adapters.zeushttp.verbs''"

definition v2Order :: "string list" where
  "v2Order = [''describe'', ''explain'', ''get'', ''find'', ''set'', ''order'', ''enrich'', ''project'',
     ''traverse'', ''pipeline'', ''search'', ''analyze'', ''return'']"

definition ExposedV2Verbs :: "string list" where
  "ExposedV2Verbs = filter (\<lambda>v. v \<noteq> ''pipeline'') v2Order"

definition V2BareVerbs :: "string list" where "V2BareVerbs = [''explain'', ''return'']"
definition V2ScopeVerbs :: "string list" where "V2ScopeVerbs = [''describe'', ''analyze'']"

definition IsExposedV2Verb :: "string \<Rightarrow> bool" where
  "IsExposedV2Verb verb \<longleftrightarrow> trim_space verb \<in> set ExposedV2Verbs"

definition VerbURL :: "string \<Rightarrow> DataTarget \<Rightarrow> string \<Rightarrow> string" where
  "VerbURL baseURL target verb =
     (let root = trim_right_set {CHR ''/''} baseURL; name = trim_space verb;
          b = path_escape (dt_bucket target); s = path_escape (dt_scope target);
          c = path_escape (dt_collection target)
      in if name \<in> set V2BareVerbs then root @ ''/v2/'' @ name
         else if name \<in> set V2ScopeVerbs then root @ ''/v2/'' @ b @ ''/'' @ s @ ''/'' @ name
         else root @ ''/v2/'' @ b @ ''/'' @ s @ ''/'' @ c @ ''/'' @ name)"

section \<open>The port\<close>

record VerbRequest =
  vr_verb :: string
  vr_body :: gmap
  vr_target :: DataTarget
  vr_mode_header :: string
  vr_headers :: "string amap"
  vr_allow_pipeline :: bool
  vr_pre_mint :: bool
  vr_base_url :: string
  vr_auth_mode :: string
  vr_password_env :: string
  vr_token_env :: string
  vr_username :: string
  vr_rewind :: bool

record VerbHopResult =
  vh_ok :: bool
  vh_status :: int
  vh_req_id :: string
  vh_body :: gmap
  vh_error :: string
  vh_url :: string
  vh_bytes_in :: nat
  vh_bytes_out :: nat
  vh_has_bytes :: bool

record 's verb_env = "'s session_env" +
  ve_now_ms :: "'s \<Rightarrow> int"
  ve_event_id :: "'s \<Rightarrow> string"
  ve_elapsed_ms :: "'s \<Rightarrow> 's \<Rightarrow> int"

record Port =
  vp_endpoint :: ZeusEndpointConfig
  vp_journal :: "InMemoryJournal option"
  vp_turn_id :: string
  vp_version :: string
  vp_stamp_user :: string
  vp_auth :: AuthResolver
  vp_owns_auth :: bool
  vp_http_set :: bool
  vp_owns_http :: bool
  vp_closed :: bool
  vp_logs :: "log_event list"

definition NewPort ::
  "ZeusEndpointConfig \<Rightarrow> bool \<Rightarrow> AuthResolver option \<Rightarrow> InMemoryJournal option \<Rightarrow> string \<Rightarrow> string \<Rightarrow> string \<Rightarrow> Port" where
  "NewPort ep0 http_given auth jr turnID version stampUser =
     (let ep = ep0\<lparr>ep_scope_credentials := copyScopeCredentials (ep_scope_credentials ep0)\<rparr> in
      \<lparr>vp_endpoint = ep, vp_journal = jr, vp_turn_id = turnID, vp_version = version,
       vp_stamp_user = stampUser,
       vp_auth = (case auth of Some a \<Rightarrow> a | None \<Rightarrow> NewAuthResolver ep True), vp_owns_auth = (auth = None),
       vp_http_set = True, vp_owns_http = \<not> http_given, vp_closed = False, vp_logs = []\<rparr>)"

definition or_override :: "string \<Rightarrow> string \<Rightarrow> string" where
  "or_override o_val d = (if o_val \<noteq> [] \<and> o_val \<noteq> d then o_val else d)"

text \<open>An unset override keeps the port's endpoint; the copy of the credentials is the identity.\<close>

definition endpointFor :: "VerbRequest \<Rightarrow> Port \<Rightarrow> ZeusEndpointConfig" where
  "endpointFor req p = (let ep = vp_endpoint p in
     ep\<lparr>ep_url := or_override (vr_base_url req) (ep_url ep),
        ep_auth_mode := or_override (vr_auth_mode req) (ep_auth_mode ep),
        ep_username := or_override (vr_username req) (ep_username ep),
        ep_password_env := or_override (vr_password_env req) (ep_password_env ep),
        ep_token_env := or_override (vr_token_env req) (ep_token_env ep)\<rparr>)"

definition same_auth :: "ZeusEndpointConfig \<Rightarrow> ZeusEndpointConfig \<Rightarrow> bool" where
  "same_auth a b \<longleftrightarrow> ep_url a = ep_url b \<and> ep_auth_mode a = ep_auth_mode b \<and> ep_username a = ep_username b \<and>
     ep_password_env a = ep_password_env b \<and> ep_token_env a = ep_token_env b"

text \<open>With overrides a resolver of its own is built for the call and dropped afterwards.\<close>

definition authFor ::
  "('s, 'z) verb_env_scheme \<Rightarrow> VerbRequest \<Rightarrow> DataTarget \<Rightarrow> bool \<Rightarrow> Port \<times> 's \<Rightarrow> (zerror + AuthContext) \<times> Port \<times> 's" where
  "authFor env req target force = (\<lambda>(p, s).
     (if same_auth (endpointFor req p) (vp_endpoint p)
      then (case ResolveAuth (auth_env.truncate env) target force (vp_auth p, s) of
          (a, r, s1) \<Rightarrow> (a, p\<lparr>vp_auth := r\<rparr>, s1))
      else (case ResolveAuth (auth_env.truncate env) target force
              (NewAuthResolver (endpointFor req p) (vp_http_set p), s) of
          (a, r, s1) \<Rightarrow> (a, p, s1))))"

definition verb_emit :: "string \<Rightarrow> string \<Rightarrow> gmap \<Rightarrow> Port \<Rightarrow> Port" where
  "verb_emit level msg attrs p = p\<lparr>vp_logs := vp_logs p @ [(level, msg, attrs)]\<rparr>"

definition verb_httpPort :: "Port \<Rightarrow> zerror option \<times> Port" where
  "verb_httpPort p =
     (if vp_closed p
      then (Some (NewZeusTransport CodeZeusTransport verbsComponent [WithMessage ''zeus port closed'']), p)
      else if \<not> vp_http_set p then (None, p\<lparr>vp_http_set := True, vp_owns_http := True\<rparr>)
      else (None, p))"

definition verbHeaders :: "string \<Rightarrow> AuthContext \<Rightarrow> VerbRequest \<Rightarrow> string \<Rightarrow> Port \<Rightarrow> string amap" where
  "verbHeaders fresh auth req verb p =
     (let t = vr_target req;
          h0 = ApplyModeHeader (MergeHeaders [ac_headers auth, StampHeaders (vp_stamp_user p) (vp_version p),
            json_headers, vr_headers req]) (vr_mode_header req);
          h1 = (if dt_bucket t \<noteq> [] \<and> dt_scope t \<noteq> [] \<and> verb \<notin> set V2BareVerbs \<and> \<not> hasFold h0 ''X-Zeus-Scope''
            then amap_put ''X-Zeus-Scope'' (dt_bucket t @ ''/'' @ dt_scope t) h0 else h0)
      in pre_mint (vr_pre_mint req) fresh h1)"

definition hop_event ::
  "('s, 'z) verb_env_scheme \<Rightarrow> string \<Rightarrow> string \<Rightarrow> int \<Rightarrow> string \<Rightarrow> bool \<Rightarrow> string \<Rightarrow> string amap \<Rightarrow> int \<Rightarrow> string \<Rightarrow> string \<Rightarrow>
   's \<Rightarrow> Port \<Rightarrow> JournalEvent" where
  "hop_event env verb url status reqID ok err hdrs ms scope zurl s p =
     \<lparr>jv_event_id = ''evt_'' @ ve_event_id env s, jv_ts_ms = ve_now_ms env s, jv_type = EventZeusHop,
      jv_component = verbsComponent,
      jv_turn_id = (if vp_turn_id p = [] then ''turn_unknown'' else vp_turn_id p), jv_span_id = [],
      jv_parent_span_id = [],
      jv_data = [(''verb'', GStr verb), (''url'', GStr url), (''status'', GInt status), (''req_id'', GStr reqID),
        (''ok'', GBool ok), (''error'', GStr err),
        (''headers'', GObj (map (\<lambda>(k, v). (k, GStr v)) (RedactHeaders hdrs))),
        (''scope'', GStr scope), (''zeus.url'', GStr zurl), (''duration_ms'', GInt ms)],
      jv_payload_refs = []\<rparr>"

definition journalHop ::
  "('s, 'z) verb_env_scheme \<Rightarrow> string \<Rightarrow> string \<Rightarrow> int \<Rightarrow> string \<Rightarrow> bool \<Rightarrow> string \<Rightarrow> string amap \<Rightarrow> int \<Rightarrow> string \<Rightarrow> string \<Rightarrow>
   's \<Rightarrow> Port \<Rightarrow> Port" where
  "journalHop env verb url status reqID ok err hdrs ms scope zurl s p = (case vp_journal p of
     None \<Rightarrow> p
   | Some j \<Rightarrow> p\<lparr>vp_journal := Some (Append (hop_event env verb url status reqID ok err hdrs ms scope zurl s p) j)\<rparr>)"

definition target_scope :: "DataTarget \<Rightarrow> string" where
  "target_scope t = (if dt_bucket t \<noteq> [] \<and> dt_scope t \<noteq> [] then dt_bucket t @ ''/'' @ dt_scope t else [])"

definition verb_post :: "('s, 'z) verb_env_scheme \<Rightarrow> ZeusEndpointConfig \<Rightarrow> string \<Rightarrow> string \<Rightarrow> string amap \<Rightarrow> HTTPRequest" where
  "verb_post env ep url raw hdrs = \<lparr>hq_method = ''POST'', hq_url = url, hq_headers = hdrs, hq_body = raw,
     hq_timeout_s = ep_timeout_s ep\<rparr>"

definition is_basic :: "ZeusEndpointConfig \<Rightarrow> bool" where
  "is_basic ep \<longleftrightarrow> to_lower (trim_space (ep_auth_mode ep)) = ''basic''"

definition answered_401 :: "go_error + HTTPResponse \<Rightarrow> bool" where
  "answered_401 ans = (case ans of Inl e \<Rightarrow> False | Inr resp \<Rightarrow> hp_status resp = 401)"

text \<open>The request and, after a 401 in basic mode, the second one with fresh headers.\<close>

definition verb_attempts ::
  "('s, 'z) verb_env_scheme \<Rightarrow> VerbRequest \<Rightarrow> string \<Rightarrow> string \<Rightarrow> string \<Rightarrow> AuthContext \<Rightarrow> Port \<times> 's \<Rightarrow>
   (zerror + (string amap \<times> (go_error + HTTPResponse))) \<times> Port \<times> 's" where
  "verb_attempts env req verb url raw auth = (\<lambda>(p, s).
     (let ep = endpointFor req p; h = verbHeaders (se_fresh_id env s) auth req verb p in
      case ae_http env (verb_post env ep url raw h) s of
        (ans, s1) \<Rightarrow>
          (if answered_401 ans \<and> is_basic ep
           then (case authFor env req (vr_target req) True (p, s1) of
               (Inl e, p2, s2) \<Rightarrow> (Inl e, p2, s2)
             | (Inr auth2, p2, s2) \<Rightarrow>
                 (let h2 = verbHeaders (se_fresh_id env s2) auth2 req verb p2 in
                  case ae_http env (verb_post env ep url raw h2) s2 of
                    (ans2, s3) \<Rightarrow> (Inr (h2, ans2), p2, s3)))
           else (Inr (h, ans), p, s1))))"

definition verb_failed ::
  "('s, 'z) verb_env_scheme \<Rightarrow> string \<Rightarrow> string \<Rightarrow> string \<Rightarrow> string \<Rightarrow> nat \<Rightarrow> int \<Rightarrow> string amap \<Rightarrow> go_error \<Rightarrow>
   Port \<times> 's \<Rightarrow> (zerror + VerbHopResult) \<times> Port \<times> 's" where
  "verb_failed env verb url scope zurl n ms hdrs e = (\<lambda>(p, s).
     (let lost = (Inl (NewZeusTransport CodeZeusTransport verbsComponent
             [WithMessage ''zeus HTTP transport error'', WithCause (error_text e),
              WithDetails [(''verb'', GStr verb), (''url'', GStr url), (''scope'', GStr scope)]]),
           verb_emit ''error'' ''zeus_client.zeus.dispatch_failed''
             [(''req_id'', GStr []), (''verb'', GStr verb), (''http.status_code'', GInt 0), (''duration_ms'', GInt ms),
              (''scope'', GStr scope), (''zeus.url'', GStr zurl), (''result'', GStr ''error''), (''bytes.out'', GInt (int n))]
             (journalHop env verb url 0 [] False (errTypeName e) hdrs ms scope zurl s p), s)
      in case e of
           DomainError de \<Rightarrow>
             (if ze_code de = CodeCancelled \<or> ze_code de = CodeContextDeadline then (Inl de, p, s) else lost)
         | OtherError t m \<Rightarrow> lost))"

definition verb_answered ::
  "('s, 'z) verb_env_scheme \<Rightarrow> string \<Rightarrow> string \<Rightarrow> string \<Rightarrow> string \<Rightarrow> nat \<Rightarrow> int \<Rightarrow> string amap \<Rightarrow> HTTPResponse \<Rightarrow>
   Port \<times> 's \<Rightarrow> (zerror + VerbHopResult) \<times> Port \<times> 's" where
  "verb_answered env verb url scope zurl n ms hdrs resp = (\<lambda>(p, s).
     (let reqID = ReqIDFromHeaders (Some (hp_headers resp)); status = hp_status resp;
          err = (if 400 \<le> status then ''zeus HTTP '' @ int_digits status else []);
          ok = (200 \<le> status \<and> status < 300 \<and> err = []);
          attrs = [(''req_id'', GStr reqID), (''verb'', GStr verb), (''http.status_code'', GInt status),
            (''duration_ms'', GInt ms), (''scope'', GStr scope), (''zeus.url'', GStr zurl),
            (''bytes.out'', GInt (int n)), (''bytes.in'', GInt (int (length (hp_body resp))))];
          p1 = journalHop env verb url status reqID ok err hdrs ms scope zurl s p
      in (Inr \<lparr>vh_ok = ok, vh_status = status, vh_req_id = reqID,
            vh_body = parseVerbBody (ae_unmarshal env) (hp_body resp), vh_error = err, vh_url = url,
            vh_bytes_in = length (hp_body resp), vh_bytes_out = n, vh_has_bytes = True\<rparr>,
          (if ok then verb_emit ''info'' ''zeus_client.zeus.req'' attrs p1
           else verb_emit ''error'' ''zeus_client.zeus.dispatch_failed''
             (attrs @ [(''result'', GStr ''error'')]) p1), s)))"

definition verb_refused :: "VerbRequest \<Rightarrow> zerror option" where
  "verb_refused req = (let verb = trim_space (vr_verb req) in
     if verb = ''pipeline'' \<and> \<not> vr_allow_pipeline req
     then Some (NewFamily FZeusTool CodeZeusPipelineNotOnDirect verbsComponent
       [WithMessage ''zeus pipeline not on direct surface''])
     else if verb \<noteq> ''pipeline'' \<and> \<not> IsExposedV2Verb verb
     then Some (NewFamily FZeusTool CodeZeusVerbNotAllowed verbsComponent
       [WithMessage ''zeus verb not allow-listed'', WithDetails [(''verb'', GStr verb)]])
     else None)"

definition port_guard :: "ctx_error option \<Rightarrow> Port \<Rightarrow> zerror option" where
  "port_guard ctx p = (case FromContext ctx of
     Some e \<Rightarrow> Some e
   | None \<Rightarrow> if vp_closed p
       then Some (NewZeusTransport CodeZeusTransport verbsComponent [WithMessage ''zeus port closed''])
       else None)"

definition verb_dispatch ::
  "('s, 'z) verb_env_scheme \<Rightarrow> VerbRequest \<Rightarrow> AuthContext \<Rightarrow> Port \<times> 's \<Rightarrow> (zerror + VerbHopResult) \<times> Port \<times> 's" where
  "verb_dispatch env req auth = (\<lambda>(p, s).
     (let verb = trim_space (vr_verb req); ep = endpointFor req p;
          url = VerbURL (ep_url ep) (vr_target req) verb; scope = target_scope (vr_target req);
          zurl = trim_right_set {CHR ''/''} (ep_url ep)
      in case se_marshal env (GObj (VerbBodyWithoutRewind (vr_body req))) of
           Inl err \<Rightarrow> (Inl (NewZeusTransport CodeZeusTransport verbsComponent
             [WithCause err, WithMessage ''verb body encode failed'']), p, s)
         | Inr raw \<Rightarrow>
             (case verb_httpPort p of
                (Some e, p1) \<Rightarrow> (Inl e, p1, s)
              | (None, p1) \<Rightarrow>
                  (case verb_attempts env req verb
                      (withQuery (se_with_query env) url (RewindQueryParams (vr_rewind req))) raw auth (p1, s) of
                     (Inl e, ps) \<Rightarrow> (Inl e, ps)
                   | (Inr (h, Inl e), p2, s2) \<Rightarrow>
                       verb_failed env verb url scope zurl (length raw) (ve_elapsed_ms env s s2) h e (p2, s2)
                   | (Inr (h, Inr resp), p2, s2) \<Rightarrow>
                       verb_answered env verb url scope zurl (length raw) (ve_elapsed_ms env s s2) h resp (p2, s2)))))"

definition CallVerb ::
  "('s, 'z) verb_env_scheme \<Rightarrow> ctx_error option \<Rightarrow> VerbRequest \<Rightarrow> Port \<times> 's \<Rightarrow> (zerror + VerbHopResult) \<times> Port \<times> 's" where
  "CallVerb env ctx req = (\<lambda>(p, s).
     (case port_guard ctx p of
        Some e \<Rightarrow> (Inl e, p, s)
      | None \<Rightarrow>
          (case verb_refused req of
             Some e \<Rightarrow> (Inl e, p, s)
           | None \<Rightarrow>
               (case authFor env req (vr_target req) False (p, s) of
                  (Inl e, ps) \<Rightarrow> (Inl e, ps)
                | (Inr auth, ps) \<Rightarrow> verb_dispatch env req auth ps))))"

definition Port_Close :: "('s, 'z) verb_env_scheme \<Rightarrow> Port \<times> 's \<Rightarrow> go_error option \<times> Port \<times> 's" where
  "Port_Close env = (\<lambda>(p, s).
     (if vp_closed p then (None, p, s)
      else (let p1 = p\<lparr>vp_closed := True\<rparr> in
        case (if vp_owns_auth p then AuthResolver_Close (auth_env.truncate env) (vp_auth p, s)
              else (None, vp_auth p, s)) of
          (e1, a, s1) \<Rightarrow>
            (let p2 = p1\<lparr>vp_auth := a\<rparr> in
             if vp_owns_http p \<and> vp_http_set p
             then (case ae_close env s1 of (e2, s2) \<Rightarrow> ((case e1 of Some e \<Rightarrow> Some e | None \<Rightarrow> e2), p2, s2))
             else (e1, p2, s1)))))"

definition HopCode :: "int \<Rightarrow> Code" where
  "HopCode status =
     (if status = 409 then CodeZeusContractRequired
      else if status = 401 \<or> status = 403 then CodeZeusAuthFailed
      else if 500 \<le> status then CodeZeusHTTP5xx
      else if 400 \<le> status then CodeZeusHTTP4xx
      else CodeZeusTransport)"

section \<open>Requests sent\<close>

text \<open>The same world with a record of every request.\<close>

definition logged :: "('s, 'z) verb_env_scheme \<Rightarrow> ('s \<times> HTTPRequest list) verb_env" where
  "logged env =
     \<lparr>ae_http = (\<lambda>req (s, l). case ae_http env req s of (a, s') \<Rightarrow> (a, s', l @ [req])),
      ae_close = (\<lambda>(s, l). case ae_close env s of (e, s') \<Rightarrow> (e, s', l)),
      ae_secret = ae_secret env, ae_now = (\<lambda>(s, l). ae_now env s), ae_unmarshal = ae_unmarshal env,
      ae_parse_float = ae_parse_float env, ae_sprint_float = ae_sprint_float env,
      se_marshal = se_marshal env, se_with_query = se_with_query env,
      se_fresh_id = (\<lambda>(s, l). se_fresh_id env s), se_now_text = (\<lambda>(s, l). se_now_text env s),
      ve_now_ms = (\<lambda>(s, l). ve_now_ms env s), ve_event_id = (\<lambda>(s, l). ve_event_id env s),
      ve_elapsed_ms = (\<lambda>(s, l) (s', l'). ve_elapsed_ms env s s')\<rparr>"

definition logins_only :: "HTTPRequest list \<Rightarrow> bool" where
  "logins_only l \<longleftrightarrow> length l \<le> 1 \<and> (\<forall>q \<in> set l. \<exists>base b sc. hq_url q = mintURL base b sc \<and> hq_body q = [])"

definition calls_only :: "string \<Rightarrow> string \<Rightarrow> HTTPRequest list \<Rightarrow> bool" where
  "calls_only url raw l \<longleftrightarrow> length l \<le> 1 \<and> (\<forall>q \<in> set l. hq_url q = url \<and> hq_body q = raw)"

lemma http_logged:
  "ae_http (logged env) req (s, l) = (a, s', l') \<Longrightarrow> l' = l @ [req]"
  "ae_http (auth_env.truncate (logged env)) req (s, l) = (a, s', l') \<Longrightarrow> l' = l @ [req]"
  by (auto simp: logged_def auth_env.truncate_def split: prod.splits)

lemma mint_sends:
  assumes "mint (auth_env.truncate (logged env)) t user pwd key now (r, s, l) = (a, r', s', l')"
  shows "\<exists>d. l' = l @ d \<and> logins_only d"
proof -
  obtain e r1 where p: "auth_httpPort r = (e, r1)" by fastforce
  show ?thesis
  proof (cases e)
    case (Some x)
    with assms p show ?thesis by (simp add: mint_def logins_only_def)
  next
    case None
    obtain ans s1 l1 where h: "ae_http (auth_env.truncate (logged env)) (mint_request r1 t user pwd) (s, l) = (ans, s1, l1)"
      by (metis prod_cases3)
    from http_logged(2) [OF h] assms p None h have "l' = l @ [mint_request r1 t user pwd]"
      by (cases ans) (auto simp: mint_def split: prod.splits)
    then show ?thesis by (auto simp: logins_only_def mint_request_def)
  qed
qed

lemma ResolveAuth_sends:
  assumes "ResolveAuth (auth_env.truncate (logged env)) t force (r, s, l) = (a, r', s', l')"
  shows "\<exists>d. l' = l @ d \<and> logins_only d"
proof -
  have n: "\<exists>d. l = l @ d \<and> logins_only d" by (simp add: logins_only_def)
  from assms n show ?thesis
    by (auto simp: ResolveAuth_def resolveBasic_def Let_def resolveBearer_def resolveSession_def
        split: if_splits prod.splits option.splits dest: mint_sends)
qed

lemma logins_only_Nil [simp]: "logins_only []" and calls_only_Nil [simp]: "calls_only url raw []"
  by (simp_all add: logins_only_def calls_only_def)

lemma calls_only_post: "calls_only url raw [verb_post env ep url raw h]"
  by (simp add: calls_only_def verb_post_def)

lemma authFor_sends:
  assumes "authFor (logged env) req t force (p, s, l) = (a, p', s', l')"
  shows "(\<exists>d. l' = l @ d \<and> logins_only d) \<and> vp_endpoint p' = vp_endpoint p \<and> vp_journal p' = vp_journal p"
proof -
  obtain a1 r1 s1 l1 where x: "ResolveAuth (auth_env.truncate (logged env)) t force (vp_auth p, s, l) = (a1, r1, s1, l1)"
    by (metis prod_cases4)
  obtain a2 r2 s2 l2 where y: "ResolveAuth (auth_env.truncate (logged env)) t force
      (NewAuthResolver (endpointFor req p) (vp_http_set p), s, l) = (a2, r2, s2, l2)"
    by (metis prod_cases4)
  from assms x y ResolveAuth_sends [OF x] ResolveAuth_sends [OF y] show ?thesis
    by (auto simp: authFor_def split: if_splits)
qed

lemma endpointFor_eq: "vp_endpoint p' = vp_endpoint p \<Longrightarrow> endpointFor req p' = endpointFor req p"
  by (simp add: endpointFor_def)

lemma verb_attempts_sends:
  assumes "verb_attempts (logged env) req verb url raw auth (p, s, l) = (a, p', s', l')"
  shows "\<exists>c1 b c2. l' = l @ c1 @ b @ c2 \<and> calls_only url raw c1 \<and> logins_only b \<and> calls_only url raw c2 \<and>
    (b @ c2 \<noteq> [] \<longrightarrow> is_basic (endpointFor req p))"
proof -
  let ?ep = "endpointFor req p"
  define q where "q = verb_post (logged env) ?ep url raw (verbHeaders (se_fresh_id (logged env) (s, l)) auth req verb p)"
  obtain ans s1 l1 where h: "ae_http (logged env) q (s, l) = (ans, s1, l1)" by (metis prod_cases3)
  have c: "calls_only url raw [q]" unfolding q_def by (rule calls_only_post)
  have l1: "l1 = l @ [q]" by (rule http_logged(1) [OF h])
  show ?thesis
  proof (cases "answered_401 ans \<and> is_basic ?ep")
    case False
    with assms h l1 have "l' = l @ [q] @ [] @ []"
      by (simp add: verb_attempts_def Let_def q_def [symmetric])
    with c show ?thesis
      by (intro exI [of _ "[q]"] exI [of _ "[]"]) simp
  next
    case True
    obtain a2 p2 s2 l2 where y: "authFor (logged env) req (vr_target req) True (p, s1, l1) = (a2, p2, s2, l2)"
      by (metis prod_cases4)
    from authFor_sends [OF y] obtain d where d: "l2 = l1 @ d" "logins_only d" by blast
    show ?thesis
    proof (cases a2)
      case (Inl e)
      with assms h l1 True y d have "l' = l @ [q] @ d @ []"
        by (simp add: verb_attempts_def Let_def q_def [symmetric])
      with c d True show ?thesis using calls_only_Nil by blast
    next
      case (Inr auth2)
      define q2 where "q2 = verb_post (logged env) ?ep url raw (verbHeaders (se_fresh_id (logged env) (s2, l2)) auth2 req verb p2)"
      obtain ans2 s3 l3 where h2: "ae_http (logged env) q2 (s2, l2) = (ans2, s3, l3)" by (metis prod_cases3)
      from assms h True y Inr h2 have "l' = l3"
        by (simp add: verb_attempts_def Let_def q_def [symmetric] q2_def [symmetric])
      with http_logged(1) [OF h2] d l1 have "l' = l @ [q] @ d @ [q2]" by simp
      moreover have "calls_only url raw [q2]" unfolding q2_def by (rule calls_only_post)
      ultimately show ?thesis using c d True by blast
    qed
  qed
qed

lemma verb_outcome_world:
  "snd (snd (verb_failed env verb url scope zurl n ms h e (p, s))) = s"
  "snd (snd (verb_answered env verb url scope zurl n ms h resp (p, s))) = s"
  by (auto simp: verb_failed_def verb_answered_def Let_def split: go_error.splits)

lemma verb_dispatch_sends:
  assumes "verb_dispatch (logged env) req auth (p, s, l) = (a, p', s', l')"
  shows "\<exists>c1 b c2 url raw. l' = l @ c1 @ b @ c2 \<and> calls_only url raw c1 \<and> logins_only b \<and> calls_only url raw c2 \<and>
    (b @ c2 \<noteq> [] \<longrightarrow> is_basic (endpointFor req p)) \<and>
    url = withQuery (se_with_query env) (VerbURL (ep_url (endpointFor req p)) (vr_target req) (trim_space (vr_verb req)))
      (RewindQueryParams (vr_rewind req))"
proof -
  define url where "url = withQuery (se_with_query (logged env))
    (VerbURL (ep_url (endpointFor req p)) (vr_target req) (trim_space (vr_verb req))) (RewindQueryParams (vr_rewind req))"
  have u: "url = withQuery (se_with_query env)
    (VerbURL (ep_url (endpointFor req p)) (vr_target req) (trim_space (vr_verb req))) (RewindQueryParams (vr_rewind req))"
    by (simp add: url_def logged_def)
  obtain e p1 where hp: "verb_httpPort p = (e, p1)" by fastforce
  then have ep: "endpointFor req p1 = endpointFor req p"
    by (auto simp: verb_httpPort_def endpointFor_def split: if_splits)
  show ?thesis
  proof (cases "\<exists>raw. se_marshal (logged env) (GObj (VerbBodyWithoutRewind (vr_body req))) = Inr raw \<and> e = None")
    case False
    with assms hp have "l' = l @ [] @ [] @ []"
      by (auto simp: verb_dispatch_def Let_def split: sum.splits option.splits)
    then show ?thesis using u calls_only_Nil logins_only_Nil by blast
  next
    case True
    then obtain raw where m: "se_marshal (logged env) (GObj (VerbBodyWithoutRewind (vr_body req))) = Inr raw" "e = None"
      by blast
    obtain x p2 s2 l2 where v: "verb_attempts (logged env) req (trim_space (vr_verb req)) url raw auth (p1, s, l) = (x, p2, s2, l2)"
      by (metis prod_cases4)
    have "l' = l2"
      using assms hp m v
        verb_outcome_world(1) [of "logged env" "trim_space (vr_verb req)"] verb_outcome_world(2) [of "logged env" "trim_space (vr_verb req)"]
      by (auto simp: verb_dispatch_def Let_def url_def [symmetric] split: sum.splits prod.splits) (metis prod.inject snd_conv)+
    with verb_attempts_sends [OF v] u ep show ?thesis by metis
  qed
qed

lemma call_refused:
  "port_guard ctx p \<noteq> None \<or> verb_refused req \<noteq> None \<longleftrightarrow> ctx \<noteq> None \<or> vp_closed p \<or>
     (if trim_space (vr_verb req) = ''pipeline'' then \<not> vr_allow_pipeline req
      else trim_space (vr_verb req) \<notin> set ExposedV2Verbs)"
  by (cases ctx rule: FromContext.cases) (auto simp: port_guard_def verb_refused_def IsExposedV2Verb_def Let_def)

lemma CallVerb_sends:
  assumes "CallVerb (logged env) ctx req (p, s, []) = (res, p', s', sent)"
  shows "\<exists>a c1 b c2 url raw. sent = a @ c1 @ b @ c2 \<and> logins_only a \<and> calls_only url raw c1 \<and> logins_only b \<and>
      calls_only url raw c2 \<and> (b @ c2 \<noteq> [] \<longrightarrow> is_basic (endpointFor req p)) \<and>
      (port_guard ctx p \<noteq> None \<or> verb_refused req \<noteq> None \<longrightarrow> isl res \<and> sent = [] \<and> p' = p)"
proof (cases "port_guard ctx p \<noteq> None \<or> verb_refused req \<noteq> None")
  case True
  with assms have "isl res \<and> sent = [] @ [] @ [] @ [] \<and> p' = p" by (auto simp: CallVerb_def split: option.splits)
  with calls_only_Nil logins_only_Nil show ?thesis by fastforce
next
  case False
  obtain x p1 s1 l1 where a: "authFor (logged env) req (vr_target req) False (p, s, []) = (x, p1, s1, l1)"
    by (metis prod_cases4)
  from authFor_sends [OF a] have d: "logins_only l1" "endpointFor req p1 = endpointFor req p"
    by (auto simp: endpointFor_def)
  show ?thesis
  proof (cases x)
    case (Inl e)
    with assms False a have "sent = l1 @ [] @ [] @ []" by (auto simp: CallVerb_def)
    with d False calls_only_Nil logins_only_Nil show ?thesis by fastforce
  next
    case (Inr auth)
    with assms False a have "verb_dispatch (logged env) req auth (p1, s1, l1) = (res, p', s', sent)"
      by (simp add: CallVerb_def)
    from verb_dispatch_sends [OF this] d False show ?thesis by metis
  qed
qed

section \<open>Properties\<close>


text \<open>What a verb call returns and journals: an answer is a success exactly for a 2xx status, carries the
  status and the hop id of the response, and leaves exactly one hop event in the journal, in which
  every sensitive header is the redaction marker.\<close>

theorem CallVerb_answer:
  assumes "CallVerb env ctx req (p, s) = (Inr res, p', s')"
  shows "verb_refused req = None \<and> (vh_ok res \<longleftrightarrow> 200 \<le> vh_status res \<and> vh_status res < 300) \<and>
    (vh_error res = [] \<longleftrightarrow> vh_status res < 400) \<and>
    (case vp_journal p of
       None \<Rightarrow> vp_journal p' = None
     | Some j \<Rightarrow> (\<exists>ev hdrs. vp_journal p' = Some (Append ev j) \<and> jv_type ev = EventZeusHop \<and>
         mget (jv_data ev) ''status'' = GInt (vh_status res) \<and> mget (jv_data ev) ''req_id'' = GStr (vh_req_id res) \<and>
         mget (jv_data ev) ''headers'' = GObj hdrs \<and>
         (\<forall>(k, v) \<in> set hdrs. IsSensitiveHeader k \<longrightarrow> v = GStr Redacted)))"
proof -
  obtain x p1 s1 where a: "authFor env req (vr_target req) False (p, s) = (x, p1, s1)" by (metis prod_cases3)
  from assms a obtain auth where auth: "x = Inr auth" "port_guard ctx p = None" "verb_refused req = None"
    by (cases x) (auto simp: CallVerb_def split: option.splits)
  with assms a have v: "verb_dispatch env req auth (p1, s1) = (Inr res, p', s')" by (simp add: CallVerb_def)
  have j1: "vp_journal p1 = vp_journal p" using a by (auto simp: authFor_def split: if_splits prod.splits)
  obtain h resp p2 s2 n ms url scope zurl verb where
    w: "verb_answered env verb url scope zurl n ms h resp (p2, s2) = (Inr res, p', s')"
    and j2: "vp_journal p2 = vp_journal p"
  proof -
    obtain e q where hp: "verb_httpPort p1 = (e, q)" by fastforce
    then have jq: "vp_journal q = vp_journal p1" by (auto simp: verb_httpPort_def split: if_splits)
    have vf: "verb_failed env vb u sc z n ms h e (pp, ss) \<noteq> (Inr res, p', s')" for vb u sc z n ms h e pp ss
      by (auto simp: verb_failed_def Let_def split: go_error.splits if_splits)
    have va: "vp_journal pp = vp_journal q" if "verb_attempts env req vb u r auth (q, s1) = (y, pp, ss)" for vb u r y pp ss
      using that by (auto simp: verb_attempts_def Let_def authFor_def split: prod.splits if_splits sum.splits)
    from v hp vf obtain raw h resp p2 s2 where
      at: "verb_attempts env req (trim_space (vr_verb req)) (withQuery (se_with_query env)
         (VerbURL (ep_url (endpointFor req p1)) (vr_target req) (trim_space (vr_verb req)))
         (RewindQueryParams (vr_rewind req))) raw auth (q, s1) = (Inr (h, Inr resp), p2, s2)"
      and an: "verb_answered env (trim_space (vr_verb req))
         (VerbURL (ep_url (endpointFor req p1)) (vr_target req) (trim_space (vr_verb req)))
         (target_scope (vr_target req)) (trim_right_set {CHR ''/''} (ep_url (endpointFor req p1))) (length raw)
         (ve_elapsed_ms env s1 s2) h resp (p2, s2) = (Inr res, p', s')"
      by (auto simp: verb_dispatch_def Let_def split: sum.splits option.splits prod.splits)
    from that [OF an] va [OF at] jq j1 show ?thesis by simp
  qed
  have red: "\<forall>(k, v) \<in> set (map (\<lambda>(k, v). (k, GStr v)) (RedactHeaders h)). IsSensitiveHeader k \<longrightarrow> v = GStr Redacted"
    by (auto simp: RedactHeaders_def)
  have out: "vh_ok res \<longleftrightarrow> 200 \<le> hp_status resp \<and> hp_status resp < 300" "vh_status res = hp_status resp"
    "vh_error res = [] \<longleftrightarrow> hp_status resp < 400" "vh_req_id res = ReqIDFromHeaders (Some (hp_headers resp))"
    using w by (cases "400 \<le> hp_status resp"; auto simp: verb_answered_def Let_def)+
  show ?thesis
  proof (cases "vp_journal p")
    case None
    with w j2 out auth show ?thesis by (auto simp: verb_answered_def Let_def journalHop_def verb_emit_def split: if_splits)
  next
    case (Some j)
    with w j2 obtain ev where ev: "vp_journal p' = Some (Append ev j)"
      "ev = hop_event env verb url (hp_status resp) (vh_req_id res) (vh_ok res) (vh_error res) h ms scope zurl s2 p2"
      by (auto simp: verb_answered_def Let_def journalHop_def verb_emit_def split: if_splits)
    with red have "jv_type ev = EventZeusHop \<and> mget (jv_data ev) ''status'' = GInt (vh_status res) \<and>
        mget (jv_data ev) ''req_id'' = GStr (vh_req_id res) \<and>
        mget (jv_data ev) ''headers'' = GObj (map (\<lambda>(k, v). (k, GStr v)) (RedactHeaders h))"
      by (simp add: hop_event_def mget_def out(2))
    with ev(1) red out auth Some show ?thesis by fastforce
  qed
qed

text \<open>A world that answers every verb with 401 and every login with a session, for the witnesses.\<close>

definition denying_env :: "int verb_env" where
  "denying_env =
     \<lparr>ae_http = (\<lambda>req s. (Inr \<lparr>hp_status = (if has_suffix (hq_url req) ''/auth/session'' then 200 else 401),
        hp_headers = [], hp_body = ''{}''\<rparr>, s + 1)),
      ae_close = (\<lambda>s. (None, s)), ae_secret = ae_secret login_env, ae_now = (\<lambda>s. s),
      ae_unmarshal = ae_unmarshal login_env, ae_parse_float = (\<lambda>x. None), ae_sprint_float = (\<lambda>x. []),
      se_marshal = (\<lambda>v. Inr ''{}''), se_with_query = (\<lambda>u q. u), se_fresh_id = (\<lambda>s. ''id''),
      se_now_text = (\<lambda>s. ''t''), ve_now_ms = (\<lambda>s. s), ve_event_id = (\<lambda>s. ''e''), ve_elapsed_ms = (\<lambda>s s'. s' - s)\<rparr>"

definition find_request :: VerbRequest where
  "find_request = \<lparr>vr_verb = ''find'', vr_body = [], vr_target = login_target, vr_mode_header = [],
     vr_headers = [], vr_allow_pipeline = False, vr_pre_mint = False, vr_base_url = [], vr_auth_mode = [],
     vr_password_env = [], vr_token_env = [], vr_username = [], vr_rewind = False\<rparr>"

definition open_port :: Port where
  "open_port = NewPort (ar_endpoint login_resolver) True None (Some (NewInMemoryJournal None)) ''t1'' ''1.0'' []"


lemma CallVerb_answer_witness:
  "\<exists>res p' s'. CallVerb denying_env None find_request (open_port, 5) = (Inr res, p', s') \<and> \<not> vh_ok res \<and>
     vh_status res = 401"
proof -
  have "\<not> isl (fst (CallVerb denying_env None find_request (open_port, 5))) \<and>
      vh_status (projr (fst (CallVerb denying_env None find_request (open_port, 5)))) = 401" by code_simp
  then obtain res p' s' where r: "CallVerb denying_env None find_request (open_port, 5) = (Inr res, p', s')"
    "vh_status res = 401"
    by (cases "CallVerb denying_env None find_request (open_port, 5)"; cases "fst (CallVerb denying_env None find_request (open_port, 5))") auto
  with CallVerb_answer [OF r(1)] show ?thesis by auto
qed

end
