(* ===== verification/Session_Trace.thy ===== *)
theory Session_Trace
  imports Zeus_Verbs
begin

text \<open>
  The session-trace projector (src/application/projectors/session_trace.go): normalization of tool
  hops, the choice of the primary hop, the aggregate body, and the posting of that body once per hop
  id, the primary one last. \<open>ff\<close> is how a float64 is printed. The context of a posting run is a
  function of the world, so it may end between two posts.
\<close>

section \<open>Helpers\<close>

definition projectorComponent :: string where
  "projectorComponent = ''application.projectors.session_trace''"

definition TraceSnippetMax :: nat where "TraceSnippetMax = 2000"

definition searchFindNames :: "string list" where
  "searchFindNames = [''search'', ''find'', ''find_nodes'', ''text_search'', ''hybrid_search'', ''project'',
     ''get'', ''get_by_keys'']"

definition clipSnippet :: "string \<Rightarrow> string" where
  "clipSnippet s = (if TraceSnippetMax < length s then take TraceSnippetMax s else s)"

definition trace_str :: "(rat \<Rightarrow> string) \<Rightarrow> gval \<Rightarrow> string" where
  "trace_str ff v = (case v of GNil \<Rightarrow> [] | GStr s \<Rightarrow> s | _ \<Rightarrow> go_sprint ff v)"

text \<open>strconv.Atoi: a syntax error and a value out of range are errors.\<close>

definition atoi :: "string \<Rightarrow> int option" where
  "atoi s = (let (neg, ds) = (case s of
       [] \<Rightarrow> (False, [])
     | ch # cs \<Rightarrow> if ch = CHR ''-'' then (True, cs) else if ch = CHR ''+'' then (False, cs) else (False, s));
       n = (if neg then - int (digits_value ds) else int (digits_value ds))
     in if ds = [] \<or> \<not> list_all is_digit ds then None
        else if n < - (2 ^ 63) \<or> 2 ^ 63 \<le> n then None else Some n)"

definition trace_int :: "gval \<Rightarrow> int option" where
  "trace_int v = (case v of
     GInt n \<Rightarrow> Some n | GFloat x \<Rightarrow> Some (trunc_rat x) | GStr s \<Rightarrow> atoi (trim_space s) | _ \<Rightarrow> None)"

fun firstNonNil :: "gval list \<Rightarrow> gval" where
  "firstNonNil [] = GNil"
| "firstNonNil (v # vs) = (if v \<noteq> GNil then v else firstNonNil vs)"

definition truthy :: "gval \<Rightarrow> bool" where
  "truthy v = (case v of GNil \<Rightarrow> False | GStr s \<Rightarrow> s \<noteq> [] | GBool b \<Rightarrow> b | GArr xs \<Rightarrow> xs \<noteq> []
     | GObj m \<Rightarrow> m \<noteq> [] | GInt n \<Rightarrow> n \<noteq> 0 | GFloat x \<Rightarrow> x \<noteq> 0)"

definition statusOK :: "(rat \<Rightarrow> string) \<Rightarrow> gval \<Rightarrow> bool" where
  "statusOK ff status = (if status = GNil then True
     else (case trace_int status of
         Some n \<Rightarrow> 0 < n \<and> n < 400
       | None \<Rightarrow> to_lower (go_sprint ff status) \<in> {''ok'', ''200'', ''201'', ''204''}))"

definition put_some :: "gmap \<Rightarrow> string \<Rightarrow> gmap \<Rightarrow> gmap" where
  "put_some src k m = (if mget src k \<noteq> GNil then amap_put k (mget src k) m else m)"

definition put_nonempty :: "string \<Rightarrow> gmap \<Rightarrow> gmap \<Rightarrow> gmap" where
  "put_nonempty k v m = (if v \<noteq> [] then amap_put k (GObj v) m else m)"

section \<open>Hops\<close>

definition hop_core :: "string \<Rightarrow> string \<Rightarrow> gval \<Rightarrow> string \<Rightarrow> string \<Rightarrow> gmap" where
  "hop_core rid name status snippet url =
     [(''req_id'', GStr rid), (''name'', GStr name), (''status'', status), (''snippet'', GStr snippet), (''url'', GStr url)]"

definition put_ms :: "gval \<Rightarrow> gmap \<Rightarrow> gmap" where
  "put_ms v hp = (case trace_int v of Some ms \<Rightarrow> amap_put ''ms'' (GInt ms) hp | None \<Rightarrow> hp)"

definition hop_of_map :: "(rat \<Rightarrow> string) \<Rightarrow> gmap \<Rightarrow> gmap" where
  "hop_of_map ff m =
     (let rid = trim_space (trace_str ff (mget m ''req_id''));
          name0 = trim_space (trace_str ff (mget m ''name''));
          name = (if name0 = [] then trim_space (trace_str ff (mget m ''verb'')) else name0);
          status = (if map_of m ''status'' = None then mget m ''tstatus'' else mget m ''status'');
          snip = (if mget m ''snippet'' = GNil then firstNonNil [mget m ''result_text'', mget m ''snip'', GStr []]
                  else mget m ''snippet'');
          url0 = trace_str ff (mget m ''url'');
          url = (if url0 = [] then trace_str ff (mget m ''dispatch_url'') else url0)
      in fold (put_some m) [''step_costs'', ''result_size'', ''pipeline_status'', ''steps_executed'', ''bytes'', ''error'']
           (put_ms (mget m ''ms'') (hop_core rid name status (clipSnippet (trace_str ff snip)) url)))"

definition seq_at :: "gval list \<Rightarrow> nat \<Rightarrow> gval" where
  "seq_at xs i = (if i < length xs then xs ! i else GNil)"

definition hop_of_seq :: "(rat \<Rightarrow> string) \<Rightarrow> gval list \<Rightarrow> gmap" where
  "hop_of_seq ff xs = put_ms (seq_at xs 5) (hop_core (trim_space (trace_str ff (seq_at xs 0)))
     (trim_space (trace_str ff (seq_at xs 1))) (seq_at xs 2) (clipSnippet (trace_str ff (seq_at xs 3)))
     (trace_str ff (seq_at xs 4)))"

definition NormalizeHop :: "(rat \<Rightarrow> string) \<Rightarrow> gval \<Rightarrow> gmap" where
  "NormalizeHop ff raw = (case raw of
     GObj m \<Rightarrow> hop_of_map ff m
   | GArr xs \<Rightarrow> hop_of_seq ff xs
   | _ \<Rightarrow> hop_core [] [] GNil [] [])"

definition hop_rid :: "(rat \<Rightarrow> string) \<Rightarrow> gmap \<Rightarrow> string" where
  "hop_rid ff h = trace_str ff (mget h ''req_id'')"

fun normalize_from :: "(rat \<Rightarrow> string) \<Rightarrow> string list \<Rightarrow> gval list \<Rightarrow> gmap list" where
  "normalize_from ff seen [] = []"
| "normalize_from ff seen (raw # raws) =
     (let hp = NormalizeHop ff raw; rid = hop_rid ff hp in
      if rid = [] \<or> rid \<in> set seen then normalize_from ff seen raws
      else hp # normalize_from ff (rid # seen) raws)"

definition NormalizeHops :: "(rat \<Rightarrow> string) \<Rightarrow> gval list \<Rightarrow> gmap list" where
  "NormalizeHops ff raws = normalize_from ff [] raws"

text \<open>The sum of the result sizes of a list of step costs, when one has a size.\<close>

fun sum_sizes :: "gval list \<Rightarrow> int option \<Rightarrow> int option" where
  "sum_sizes [] acc = acc"
| "sum_sizes (v # vs) acc = sum_sizes vs (case v of
     GObj cm \<Rightarrow> (case trace_int (mget cm ''result_size'') of
         Some n \<Rightarrow> Some (wrap64 ((case acc of Some t \<Rightarrow> t | None \<Rightarrow> 0) + n))
       | None \<Rightarrow> acc)
   | _ \<Rightarrow> acc)"

definition resultSizeOf :: "gmap \<Rightarrow> int option" where
  "resultSizeOf hp = (case trace_int (mget hp ''result_size'') of
     Some n \<Rightarrow> Some n
   | None \<Rightarrow> (case mget hp ''step_costs'' of GArr costs \<Rightarrow> sum_sizes costs None | _ \<Rightarrow> None))"

record hopScore =
  hs_err :: bool
  hs_has_rows :: bool
  hs_is_search_find :: bool
  hs_has_costs :: bool
  hs_has_body :: bool
  hs_non_pipeline :: bool

definition hopScoreOf :: "(rat \<Rightarrow> string) \<Rightarrow> gmap \<Rightarrow> hopScore" where
  "hopScoreOf ff hp = (let name = to_lower (trace_str ff (mget hp ''name'')) in
     \<lparr>hs_err = (\<not> statusOK ff (mget hp ''status'')),
      hs_has_rows = (case resultSizeOf hp of Some n \<Rightarrow> 0 < n | None \<Rightarrow> False),
      hs_is_search_find = (name \<in> set searchFindNames),
      hs_has_costs = truthy (mget hp ''step_costs''),
      hs_has_body = (truthy (mget hp ''snippet'') \<or> truthy (mget hp ''bytes'')),
      hs_non_pipeline = (name \<noteq> ''pipeline'')\<rparr>)"

definition greater :: "hopScore \<Rightarrow> hopScore \<Rightarrow> bool" where
  "greater a b =
     (if hs_err a \<noteq> hs_err b then hs_err a
      else if hs_has_rows a \<noteq> hs_has_rows b then hs_has_rows a
      else if hs_is_search_find a \<noteq> hs_is_search_find b then hs_is_search_find a
      else if hs_has_costs a \<noteq> hs_has_costs b then hs_has_costs a
      else if hs_has_body a \<noteq> hs_has_body b then hs_has_body a
      else hs_non_pipeline a \<and> \<not> hs_non_pipeline b)"

fun best_hop :: "(rat \<Rightarrow> string) \<Rightarrow> gmap \<Rightarrow> gmap list \<Rightarrow> gmap" where
  "best_hop ff best [] = best"
| "best_hop ff best (h # hs) =
     best_hop ff (if greater (hopScoreOf ff h) (hopScoreOf ff best) then h else best) hs"

definition SelectPrimaryHop :: "(rat \<Rightarrow> string) \<Rightarrow> gmap list \<Rightarrow> gmap option" where
  "SelectPrimaryHop ff hops = (case filter (\<lambda>h. hop_rid ff h \<noteq> []) hops of
     [] \<Rightarrow> None
   | h # hs \<Rightarrow> Some (best_hop ff h hs))"

definition SelectPrimaryReqID :: "(rat \<Rightarrow> string) \<Rightarrow> gval list \<Rightarrow> string" where
  "SelectPrimaryReqID ff hops = (case SelectPrimaryHop ff (NormalizeHops ff hops) of
     None \<Rightarrow> [] | Some h \<Rightarrow> hop_rid ff h)"

section \<open>The aggregate\<close>

text \<open>The arrow and the dot of a turn line, in UTF-8.\<close>

definition arrow :: string where "arrow = '' '' @ [CHR 0xE2, CHR 0x86, CHR 0x92] @ '' ''"
definition middot :: string where "middot = '' '' @ [CHR 0xC2, CHR 0xB7] @ '' ''"

definition cost_brief :: "(rat \<Rightarrow> string) \<Rightarrow> gval \<Rightarrow> string list" where
  "cost_brief ff v = (case v of
     GObj cm \<Rightarrow>
       (let a = trace_str ff (firstNonNil [mget cm ''as'', mget cm ''name'', GStr ''?'']);
            st0 = trace_str ff (mget cm ''status''); st = (if st0 = [] then ''ok'' else st0);
            sz = mget cm ''result_size''
        in [if sz \<noteq> GNil then a @ '':'' @ st @ '':'' @ go_sprint ff sz else a @ '':'' @ st])
   | _ \<Rightarrow> [])"

definition turnLine :: "(rat \<Rightarrow> string) \<Rightarrow> gmap \<Rightarrow> string" where
  "turnLine ff hp =
     (let name0 = trace_str ff (mget hp ''name''); name = (if name0 = [] then ''tool'' else name0);
          status = mget hp ''status'';
          ms = (if mget hp ''ms'' \<noteq> GNil then [go_sprint ff (mget hp ''ms'') @ ''ms''] else []);
          sz = (case resultSizeOf hp of Some n \<Rightarrow> [''result_size='' @ int_digits n] | None \<Rightarrow> []);
          costs = (case mget hp ''step_costs'' of GArr xs \<Rightarrow> xs | _ \<Rightarrow> []);
          brief = concat (map (cost_brief ff) (take 8 costs));
          stepsPart = (if costs \<noteq> [] then [''steps='' @ int_digits (int (length costs))] @
            (if brief \<noteq> [] then [''['' @ join_with '', '' brief @ '']''] else []) else []);
          errPart = (if mget hp ''error'' \<noteq> GNil then [''err='' @ take 120 (go_sprint ff (mget hp ''error''))]
            else if \<not> statusOK ff status \<and> truthy (mget hp ''snippet'')
            then [take 120 (trace_str ff (mget hp ''snippet''))] else [])
      in join_with middot ([name @ arrow @ go_sprint ff status] @ ms @ sz @ stepsPart @ errPart))"

record AggregateTracePayload =
  ag_primary_req_id :: string
  ag_turns :: "gmap list"
  ag_zeus_response :: gmap
  ag_outcome :: string

record trace_parts =
  tp_layer_a :: gmap
  tp_inject :: gmap
  tp_tokens :: gmap
  tp_catalog :: gmap
  tp_terminate :: gmap
  tp_stamp :: gmap

definition put_parts :: "trace_parts \<Rightarrow> gmap \<Rightarrow> gmap" where
  "put_parts ps z = put_nonempty ''terminate'' (tp_terminate ps) (put_nonempty ''catalog'' (tp_catalog ps)
     (put_nonempty ''tokens'' (tp_tokens ps) (put_nonempty ''inject'' (tp_inject ps)
       (put_nonempty ''layer_a'' (tp_layer_a ps) z))))"

fun stamp_all :: "gmap \<Rightarrow> gmap \<Rightarrow> gmap" where
  "stamp_all z [] = z"
| "stamp_all z ((k, v) # kvs) = stamp_all (if v \<noteq> GNil then amap_put k v z else z) kvs"

fun stamp_missing :: "gmap \<Rightarrow> gmap \<Rightarrow> gmap" where
  "stamp_missing z [] = z"
| "stamp_missing z ((k, v) # kvs) =
     stamp_missing (if v \<noteq> GNil \<and> map_of z k = None then amap_put k v z else z) kvs"

definition hop_summary :: "(rat \<Rightarrow> string) \<Rightarrow> string \<Rightarrow> gmap \<Rightarrow> gmap" where
  "hop_summary ff primaryRID h =
     (let e0 = [(''req_id'', mget h ''req_id''), (''name'', mget h ''name''), (''status'', mget h ''status''),
            (''url'', mget h ''url''), (''primary'', GBool (hop_rid ff h = primaryRID))];
          e1 = put_some h ''ms'' e0;
          e2 = (case resultSizeOf h of Some n \<Rightarrow> amap_put ''result_size'' (GInt n) e1 | None \<Rightarrow> e1);
          e3 = fold (put_some h) [''step_costs'', ''pipeline_status'', ''steps_executed'', ''error''] e2
      in if truthy (mget h ''snippet'') then amap_put ''snippet'' (mget h ''snippet'') e3 else e3)"

definition BuildAggregateTracePayload :: "(rat \<Rightarrow> string) \<Rightarrow> gval list \<Rightarrow> trace_parts \<Rightarrow> AggregateTracePayload" where
  "BuildAggregateTracePayload ff hops ps = (let norm = NormalizeHops ff hops in
     case norm of
       [] \<Rightarrow> \<lparr>ag_primary_req_id = [], ag_turns = [],
              ag_zeus_response = stamp_all (put_parts ps []) (tp_stamp ps), ag_outcome = ''ok''\<rparr>
     | h0 # _ \<Rightarrow>
         (let prim = (case SelectPrimaryHop ff norm of Some h \<Rightarrow> h | None \<Rightarrow> h0);
              primaryRID = hop_rid ff prim;
              z0 = [(''status'', mget prim ''status''), (''url'', GStr (trace_str ff (mget prim ''url''))),
                (''snippet'', GStr (trace_str ff (mget prim ''snippet''))), (''primary_req_id'', GStr primaryRID),
                (''req_ids'', GArr (map (GStr \<circ> hop_rid ff) norm)),
                (''tool_hops'', GArr (map (GObj \<circ> hop_summary ff primaryRID) norm)),
                (''hop_count'', GInt (int (length norm))), (''aggregate'', GBool True)];
              z1 = put_some prim ''step_costs'' (put_some prim ''ms'' z0);
              z2 = (case resultSizeOf prim of Some n \<Rightarrow> amap_put ''result_size'' (GInt n) z1 | None \<Rightarrow> z1)
          in \<lparr>ag_primary_req_id = primaryRID,
              ag_turns = map (\<lambda>h. [(''role'', GStr ''tool''), (''content'', GStr (turnLine ff h))]) norm,
              ag_zeus_response = stamp_missing (put_parts ps z2) (tp_stamp ps),
              ag_outcome = (if list_ex (\<lambda>h. \<not> statusOK ff (mget h ''status'')) norm then ''error'' else ''ok'')\<rparr>))"

definition OrderedReqIDsForTracePosts :: "(rat \<Rightarrow> string) \<Rightarrow> gval list \<Rightarrow> string list" where
  "OrderedReqIDsForTracePosts ff hops = (let norm = NormalizeHops ff hops in
     if norm = [] then []
     else (let primaryRID = hop_rid ff (case SelectPrimaryHop ff norm of Some h \<Rightarrow> h | None \<Rightarrow> last norm)
           in filter (\<lambda>rid. rid \<noteq> primaryRID) (map (hop_rid ff) norm) @ [primaryRID]))"

section \<open>Pipeline meta\<close>

definition put_new :: "string \<Rightarrow> gval \<Rightarrow> gmap \<Rightarrow> gmap" where
  "put_new k v m = (if map_of m k = None then amap_put k v m else m)"

definition meta_costs :: "gmap \<Rightarrow> gmap \<Rightarrow> gmap" where
  "meta_costs meta out = (case mget meta ''step_costs'' of
     GArr costs \<Rightarrow> (let o1 = amap_put ''step_costs'' (GArr costs) out in
       case sum_sizes costs None of Some n \<Rightarrow> amap_put ''result_size'' (GInt n) o1 | None \<Rightarrow> o1)
   | _ \<Rightarrow> out)"

definition meta_fields :: "gmap \<Rightarrow> gmap \<Rightarrow> gmap" where
  "meta_fields meta out =
     (let o1 = put_some meta ''steps_executed'' (meta_costs meta out) in
      case trace_int (mget meta ''elapsed_ms'') of Some n \<Rightarrow> put_new ''ms_meta'' (GInt n) o1 | None \<Rightarrow> o1)"

text \<open>The number of rows a result reports: its count, or the length of its items or node ids.\<close>

definition result_count :: "gmap \<Rightarrow> gval" where
  "result_count result = (if mget result ''returned_count'' \<noteq> GNil then mget result ''returned_count''
     else case mget result ''items'' of
         GArr xs \<Rightarrow> GInt (int (length xs))
       | _ \<Rightarrow> (case mget result ''node_ids'' of GArr xs \<Rightarrow> GInt (int (length xs)) | _ \<Rightarrow> GNil))"

definition error_meta :: "(rat \<Rightarrow> string) \<Rightarrow> gval \<Rightarrow> gval" where
  "error_meta ff e = (case e of
     GObj em \<Rightarrow> (if mget em ''message'' \<noteq> GNil then mget em ''message''
       else if mget em ''code'' \<noteq> GNil then mget em ''code'' else GStr (go_sprint ff e))
   | _ \<Rightarrow> GStr (go_sprint ff e))"

definition ExtractPipelineMeta :: "(rat \<Rightarrow> string) \<Rightarrow> gval \<Rightarrow> gmap" where
  "ExtractPipelineMeta ff parsed = (case parsed of
     GObj rt \<Rightarrow>
       (let o1 = (case mget rt ''meta'' of
              GObj meta \<Rightarrow> meta_fields meta []
            | _ \<Rightarrow> (case mget rt ''data'' of
                GObj d \<Rightarrow>
                  (let o0 = (if mget rt ''status'' \<noteq> GNil then [(''pipeline_status'', mget rt ''status'')] else [])
                   in case mget d ''meta'' of GObj meta \<Rightarrow> meta_fields meta o0 | _ \<Rightarrow> o0)
              | _ \<Rightarrow> []));
            o2 = (case mget rt ''status'' of GStr s \<Rightarrow> put_new ''pipeline_status'' (GStr s) o1 | _ \<Rightarrow> o1);
            o3 = (case mget rt ''result'' of
                GObj result \<Rightarrow> (case trace_int (result_count result) of
                    Some n \<Rightarrow> put_new ''result_size'' (GInt n) o2 | None \<Rightarrow> o2)
              | _ \<Rightarrow> o2)
        in if mget rt ''error'' \<noteq> GNil then amap_put ''error'' (error_meta ff (mget rt ''error'')) o3 else o3)
   | _ \<Rightarrow> [])"

definition MergeHopIntoTraceSession :: "gmap \<Rightarrow> string list \<Rightarrow> string \<Rightarrow> gmap" where
  "MergeHopIntoTraceSession trace reqIDs primaryReqID =
     (let stamp = (\<lambda>sess. (let s1 = amap_put ''req_ids'' (GArr (map GStr reqIDs)) sess in
            if primaryReqID \<noteq> [] then amap_put ''preferred_req_id'' (GStr primaryReqID)
              (amap_put ''primary_req_id'' (GStr primaryReqID) s1) else s1))
      in case mget trace ''session'' of
           GObj sess \<Rightarrow> amap_put ''session'' (GObj (stamp sess)) trace
         | GNil \<Rightarrow> amap_put ''session'' (GObj (stamp [])) trace
         | _ \<Rightarrow> trace)"

section \<open>Posting\<close>

record SessionTraceProjectResult =
  pr_ok :: bool
  pr_primary_req_id :: string
  pr_preferred_req_id :: string
  pr_post_order :: "string list"
  pr_posts :: nat
  pr_errors :: "string list"
  pr_contract_status :: string
  pr_aggregate :: gmap

record ProjectOptions =
  po_handle :: SessionHandle
  po_hops :: "gval list"
  po_chat_request :: gmap
  po_parts :: trace_parts
  po_mode :: string
  po_headers :: "string amap"
  po_rewind :: bool
  po_turn_id :: string
  po_target :: DataTarget
  po_journal :: "InMemoryJournal option"

definition noteProjectorError ::
  "('s, 'z) verb_env_scheme \<Rightarrow> 's \<Rightarrow> string \<Rightarrow> string \<Rightarrow> SessionTraceProjectResult \<Rightarrow> InMemoryJournal option \<Rightarrow> InMemoryJournal option" where
  "noteProjectorError env s turnID sessionID r jr = (case jr of
     None \<Rightarrow> None
   | Some j \<Rightarrow> Some (Append \<lparr>jv_event_id = ve_event_id env s, jv_ts_ms = ve_now_ms env s, jv_type = EventNote,
       jv_component = projectorComponent, jv_turn_id = turnID, jv_span_id = [], jv_parent_span_id = [],
       jv_data = [(''kind'', GStr ''projector.session_trace''), (''ok'', GBool False), (''session.id'', GStr sessionID),
         (''primary_req_id'', GStr (pr_primary_req_id r)), (''errors'', GArr (map GStr (pr_errors r))),
         (''posts'', GInt (int (pr_posts r)))],
       jv_payload_refs = []\<rparr> j))"

definition trace_request :: "ProjectOptions \<Rightarrow> AggregateTracePayload \<Rightarrow> string \<Rightarrow> SessionTraceRequest" where
  "trace_request opts agg rid =
     \<lparr>tr_session_id = sh_session_id (po_handle opts), tr_client_round = sh_round (po_handle opts), tr_req_id = rid,
      tr_contract_id = sh_contract_id (po_handle opts), tr_contract_hash = sh_contract_hash (po_handle opts),
      tr_chat_request = po_chat_request opts, tr_turns = map GObj (ag_turns agg),
      tr_zeus_response = ag_zeus_response agg, tr_outcome = ag_outcome agg, tr_headers = po_headers opts,
      tr_mode = (if po_mode opts = [] then ''analytics'' else po_mode opts), tr_target = po_target opts,
      tr_rewind = po_rewind opts, tr_turn_id = po_turn_id opts\<rparr>"

definition ctx_text :: "ctx_error \<Rightarrow> string" where
  "ctx_text e = (case e of Canceled \<Rightarrow> ''context canceled'' | DeadlineExceeded \<Rightarrow> ''context deadline exceeded'')"

text \<open>The counters of the posting loop: successful posts, errors, the contract status and the log.\<close>

record post_state =
  ps_posts :: nat
  ps_errors :: "string list"
  ps_status :: string
  ps_logs :: "log_event list"

definition trace_log :: "string \<Rightarrow> string \<Rightarrow> string \<Rightarrow> int \<Rightarrow> log_event" where
  "trace_log sid rid res status = (if res = ''ok'' then ''info'' else ''error'', ''zeus_client.session.trace'',
     [(''session.id'', GStr sid), (''req_id'', GStr rid), (''http.status_code'', GInt status), (''result'', GStr res)])"

definition post_answer :: "(rat \<Rightarrow> string) \<Rightarrow> string \<Rightarrow> string \<Rightarrow> SessionHTTPResult \<times> zerror option \<Rightarrow> post_state \<Rightarrow> post_state" where
  "post_answer ff sid rid = (\<lambda>(res, err) st.
     (case err of
        Some e \<Rightarrow> st\<lparr>ps_errors := ps_errors st @ [''trace '' @ rid @ '' exception: '' @ ErrorString e]\<rparr>
      | None \<Rightarrow>
          (if hr_ok res then
             (let cst = trace_str ff (mget (hr_body res) ''contract_status'') in
              st\<lparr>ps_posts := ps_posts st + 1, ps_status := (if cst \<noteq> [] then cst else ps_status st),
                 ps_logs := ps_logs st @ [trace_log sid rid ''ok'' (hr_status res)]\<rparr>)
           else
             (let part = (if hr_error res = [] then take 120 (go_sprint ff (GObj (hr_body res))) else hr_error res) in
              st\<lparr>ps_errors := ps_errors st @ [''trace '' @ rid @ '' -> '' @ int_digits (hr_status res) @ '': '' @ part],
                 ps_logs := ps_logs st @ [trace_log sid rid ''error'' (hr_status res)]\<rparr>))))"

fun post_loop ::
  "('s, 'z) verb_env_scheme \<Rightarrow> ('s \<Rightarrow> ctx_error option) \<Rightarrow> ProjectOptions \<Rightarrow> AggregateTracePayload \<Rightarrow> string list \<Rightarrow>
   SessionClient \<times> 's \<Rightarrow> post_state \<Rightarrow> post_state \<times> SessionClient \<times> 's" where
  "post_loop env ctx opts agg [] cs st = (st, cs)"
| "post_loop env ctx opts agg (rid # rids) cs st = (case ctx (snd cs) of
     Some e \<Rightarrow> post_loop env ctx opts agg rids cs
       (st\<lparr>ps_errors := ps_errors st @ [''trace '' @ rid @ '' exception: '' @ ctx_text e]\<rparr>)
   | None \<Rightarrow>
       (case PostTrace env None (trace_request opts agg rid) cs of
          (ans, cs1) \<Rightarrow> post_loop env ctx opts agg rids cs1
            (post_answer (ae_sprint_float env) (sh_session_id (po_handle opts)) rid ans st)))"

definition project_result :: "AggregateTracePayload \<Rightarrow> string list \<Rightarrow> post_state \<Rightarrow> SessionTraceProjectResult" where
  "project_result agg order st =
     \<lparr>pr_ok = (ps_errors st = []), pr_primary_req_id = ag_primary_req_id agg,
      pr_preferred_req_id = ag_primary_req_id agg, pr_post_order = order, pr_posts = ps_posts st,
      pr_errors = ps_errors st, pr_contract_status = ps_status st, pr_aggregate = ag_zeus_response agg\<rparr>"

definition emptyProject :: SessionTraceProjectResult where
  "emptyProject = \<lparr>pr_ok = True, pr_primary_req_id = [], pr_preferred_req_id = [], pr_post_order = [],
     pr_posts = 0, pr_errors = [], pr_contract_status = [], pr_aggregate = []\<rparr>"

text \<open>The projector returns its result and log, and the journal; the client is optional.\<close>

definition ProjectSessionTrace ::
  "('s, 'z) verb_env_scheme \<Rightarrow> ('s \<Rightarrow> ctx_error option) \<Rightarrow> ProjectOptions \<Rightarrow> SessionClient option \<times> 's \<Rightarrow>
   (SessionTraceProjectResult \<times> log_event list \<times> InMemoryJournal option) \<times> SessionClient option \<times> 's" where
  "ProjectSessionTrace env ctx opts = (\<lambda>(client, s).
     (let h = po_handle opts; ff = ae_sprint_float env; jr = po_journal opts;
          note = (\<lambda>s r. noteProjectorError env s (po_turn_id opts) (sh_session_id h) r jr) in
      if \<not> sh_enabled h \<or> trim_space (sh_session_id h) = [] then ((emptyProject, [], jr), client, s)
      else (let agg = BuildAggregateTracePayload ff (po_hops opts) (po_parts opts);
                order = OrderedReqIDsForTracePosts ff (po_hops opts);
                st0 = \<lparr>ps_posts = 0, ps_errors = [], ps_status = sh_contract_status h, ps_logs = []\<rparr>
        in if order = [] then
             ((emptyProject\<lparr>pr_primary_req_id := ag_primary_req_id agg, pr_preferred_req_id := ag_primary_req_id agg,
                pr_aggregate := ag_zeus_response agg\<rparr>, [], jr), client, s)
           else case client of
             None \<Rightarrow>
               (let r = project_result agg order (st0\<lparr>ps_errors := [''session client not wired'']\<rparr>)
                in ((r, [], note s r), None, s))
           | Some c \<Rightarrow>
               (case post_loop env ctx opts agg order (c, s) st0 of
                  (st, c1, s1) \<Rightarrow> (let r = project_result agg order st
                    in ((r, ps_logs st, if ps_errors st \<noteq> [] then note s1 r else jr), Some c1, s1))))))"

section \<open>Facts\<close>

text \<open>The score as a number: the comparison is the order of the weights.\<close>

definition weight :: "hopScore \<Rightarrow> nat" where
  "weight a = 32 * of_bool (hs_err a) + 16 * of_bool (hs_has_rows a) + 8 * of_bool (hs_is_search_find a) +
     4 * of_bool (hs_has_costs a) + 2 * of_bool (hs_has_body a) + of_bool (hs_non_pipeline a)"

lemma greater_weight: "greater a b \<longleftrightarrow> weight b < weight a"
  by (simp add: greater_def weight_def of_bool_def)

lemma best_hop_in: "best_hop ff b hs \<in> set (b # hs)"
  by (induction ff b hs rule: best_hop.induct) auto

lemma best_hop_max:
  "h \<in> set (b # hs) \<Longrightarrow> weight (hopScoreOf ff h) \<le> weight (hopScoreOf ff (best_hop ff b hs))"
proof (induction ff b hs arbitrary: h rule: best_hop.induct)
  case (2 ff best h' hs)
  let ?n = "if greater (hopScoreOf ff h') (hopScoreOf ff best) then h' else best"
  have "weight (hopScoreOf ff ?n) \<le> weight (hopScoreOf ff (best_hop ff ?n hs))" by (rule "2.IH") simp
  moreover have "h \<in> set hs \<or> weight (hopScoreOf ff h) \<le> weight (hopScoreOf ff ?n)"
    using "2.prems" by (auto simp: greater_weight)
  ultimately show ?case using "2.IH" [of h] by auto
qed simp

lemma SelectPrimaryHop_props:
  assumes "SelectPrimaryHop ff hops = Some h"
  shows "h \<in> set hops" and "hop_rid ff h \<noteq> []"
    and "h' \<in> set hops \<Longrightarrow> hop_rid ff h' \<noteq> [] \<Longrightarrow> \<not> greater (hopScoreOf ff h') (hopScoreOf ff h)"
proof -
  obtain b hs where f: "filter (\<lambda>h. hop_rid ff h \<noteq> []) hops = b # hs" and h: "h = best_hop ff b hs"
    using assms by (auto simp: SelectPrimaryHop_def split: list.splits)
  have "h \<in> set (filter (\<lambda>h. hop_rid ff h \<noteq> []) hops)" using best_hop_in [of ff b hs] f h by simp
  then show "h \<in> set hops" and "hop_rid ff h \<noteq> []" by auto
  assume "h' \<in> set hops" "hop_rid ff h' \<noteq> []"
  then have "h' \<in> set (filter (\<lambda>h. hop_rid ff h \<noteq> []) hops)" by simp
  with best_hop_max [of h' b hs ff] f h show "\<not> greater (hopScoreOf ff h') (hopScoreOf ff h)"
    by (simp add: greater_weight)
qed

lemma normalize_from_ids:
  "distinct (map (hop_rid ff) (normalize_from ff seen raws))"
  "set (map (hop_rid ff) (normalize_from ff seen raws)) =
     (\<lambda>raw. hop_rid ff (NormalizeHop ff raw)) ` set raws - insert [] (set seen)"
  by (induction ff seen raws rule: normalize_from.induct) (auto simp: Let_def)

lemma NormalizeHops_ids:
  "distinct (map (hop_rid ff) (NormalizeHops ff raws))"
  "set (map (hop_rid ff) (NormalizeHops ff raws)) = (\<lambda>raw. hop_rid ff (NormalizeHop ff raw)) ` set raws - {[]}"
  using normalize_from_ids [of ff "[]" raws] by (simp_all add: NormalizeHops_def)

lemma SelectPrimaryHop_None: "SelectPrimaryHop ff (NormalizeHops ff raws) = None \<longleftrightarrow> NormalizeHops ff raws = []"
proof -
  have "filter (\<lambda>h. hop_rid ff h \<noteq> []) (NormalizeHops ff raws) = NormalizeHops ff raws"
    using NormalizeHops_ids(2) [of ff raws] by (intro filter_True) auto
  then show ?thesis by (simp add: SelectPrimaryHop_def split: list.splits)
qed

lemma ordered_ids:
  "OrderedReqIDsForTracePosts ff hops =
     (case SelectPrimaryHop ff (NormalizeHops ff hops) of
        None \<Rightarrow> []
      | Some h \<Rightarrow> filter (\<lambda>rid. rid \<noteq> hop_rid ff h) (map (hop_rid ff) (NormalizeHops ff hops)) @ [hop_rid ff h])"
  using SelectPrimaryHop_None [of ff hops] by (auto simp: OrderedReqIDsForTracePosts_def Let_def split: option.splits)

lemma post_answer_counts:
  "ps_posts (post_answer ff sid rid ans st) + length (ps_errors (post_answer ff sid rid ans st)) =
     Suc (ps_posts st + length (ps_errors st))"
  by (simp add: post_answer_def Let_def split: prod.splits option.splits)

lemma post_loop_counts:
  "post_loop env ctx opts agg rids cs st = (st', cs') \<Longrightarrow>
     ps_posts st' + length (ps_errors st') = ps_posts st + length (ps_errors st) + length rids"
proof (induction env ctx opts agg rids cs st rule: post_loop.induct)
  case (2 env ctx opts agg rid rids cs st)
  show ?case
  proof (cases "ctx (snd cs)")
    case None
    obtain ans cs1 where p: "PostTrace env None (trace_request opts agg rid) cs = (ans, cs1)" by (metis surj_pair)
    with None "2.prems" have "post_loop env ctx opts agg rids cs1
        (post_answer (ae_sprint_float env) (sh_session_id (po_handle opts)) rid ans st) = (st', cs')" by simp
    from "2.IH"(1) [OF None p [symmetric] this] show ?thesis by (simp add: post_answer_counts)
  next
    case (Some e)
    with 2 show ?thesis by simp
  qed
qed simp

section \<open>Properties\<close>

text \<open>Every hop is posted once and the primary one last: the post order lists exactly the hop ids of the
  turn (trimmed, without blanks), each once; its last id is the primary one, and no hop scores higher
  than the primary.\<close>

theorem trace_post_order:
  "distinct (OrderedReqIDsForTracePosts ff hops) \<and>
   set (OrderedReqIDsForTracePosts ff hops) = (\<lambda>raw. hop_rid ff (NormalizeHop ff raw)) ` set hops - {[]} \<and>
   (case SelectPrimaryHop ff (NormalizeHops ff hops) of
      None \<Rightarrow> OrderedReqIDsForTracePosts ff hops = []
    | Some h \<Rightarrow> last (OrderedReqIDsForTracePosts ff hops) = hop_rid ff h \<and>
        SelectPrimaryReqID ff hops = hop_rid ff h \<and>
        list_all (\<lambda>h'. \<not> greater (hopScoreOf ff h') (hopScoreOf ff h)) (NormalizeHops ff hops))"
proof (cases "SelectPrimaryHop ff (NormalizeHops ff hops)")
  case None
  with NormalizeHops_ids(2) [of ff hops] SelectPrimaryHop_None [of ff hops] show ?thesis by (simp add: ordered_ids)
next
  case (Some h)
  note p = SelectPrimaryHop_props [OF Some]
  have "set (map (hop_rid ff) (NormalizeHops ff hops)) = (\<lambda>raw. hop_rid ff (NormalizeHop ff raw)) ` set hops - {[]}"
    "distinct (map (hop_rid ff) (NormalizeHops ff hops))"
    by (rule NormalizeHops_ids)+
  moreover have "hop_rid ff h \<in> set (map (hop_rid ff) (NormalizeHops ff hops))" using p(1) by simp
  moreover have "hop_rid ff h' \<noteq> []" if "h' \<in> set (NormalizeHops ff hops)" for h'
    using that NormalizeHops_ids(2) [of ff hops] by auto
  then have "list_all (\<lambda>h'. \<not> greater (hopScoreOf ff h') (hopScoreOf ff h)) (NormalizeHops ff hops)"
    using p(3) by (auto simp: list_all_iff)
  ultimately show ?thesis
    by (auto simp: ordered_ids Some SelectPrimaryReqID_def distinct_map_filter)
qed

text \<open>The projector fails softly and loses count of nothing: it always returns, with one success or one
  error per hop id; it reports success exactly when every hop was posted, and leaves one note in the
  journal exactly when one was not.\<close>

theorem ProjectSessionTrace_accounts:
  assumes "ProjectSessionTrace env ctx opts (Some c, s) = ((r, logs, jr), cs')"
    and "sh_enabled (po_handle opts)" and "trim_space (sh_session_id (po_handle opts)) \<noteq> []"
  shows "pr_posts r + length (pr_errors r) = length (OrderedReqIDsForTracePosts (ae_sprint_float env) (po_hops opts)) \<and>
    pr_post_order r = OrderedReqIDsForTracePosts (ae_sprint_float env) (po_hops opts) \<and>
    (pr_ok r \<longleftrightarrow> pr_posts r = length (pr_post_order r)) \<and>
    (if pr_ok r then jr = po_journal opts
     else (\<forall>j. po_journal opts = Some j \<longrightarrow> (\<exists>ev. jr = Some (Append ev j) \<and> jv_type ev = EventNote \<and>
       mget (jv_data ev) ''errors'' = GArr (map GStr (pr_errors r)))))"
proof -
  let ?o = "OrderedReqIDsForTracePosts (ae_sprint_float env) (po_hops opts)"
  let ?agg = "BuildAggregateTracePayload (ae_sprint_float env) (po_hops opts) (po_parts opts)"
  let ?st0 = "\<lparr>ps_posts = 0, ps_errors = [], ps_status = sh_contract_status (po_handle opts), ps_logs = []\<rparr>"
  show ?thesis
  proof (cases "?o = []")
    case True
    with assms show ?thesis by (auto simp: ProjectSessionTrace_def Let_def emptyProject_def)
  next
    case False
    obtain st c1 s1 where l: "post_loop env ctx opts ?agg ?o (c, s) ?st0 = (st, c1, s1)" by (metis prod_cases3)
    with assms False have r: "r = project_result ?agg ?o st"
      "jr = (if ps_errors st \<noteq> [] then noteProjectorError env s1 (po_turn_id opts)
         (sh_session_id (po_handle opts)) r (po_journal opts) else po_journal opts)"
      by (auto simp: ProjectSessionTrace_def Let_def)
    with post_loop_counts [OF l] show ?thesis
      by (auto simp: project_result_def noteProjectorError_def mget_def)
  qed
qed

text \<open>A run against a world that answers every post with 401.\<close>

definition two_hops :: ProjectOptions where
  "two_hops = \<lparr>po_handle = zeroHandle\<lparr>sh_session_id := ''s-1'', sh_enabled := True, sh_round := 1\<rparr>,
     po_hops = [GObj [(''req_id'', GStr ''r1'')], GObj [(''req_id'', GStr ''r2'')]], po_chat_request = [],
     po_parts = \<lparr>tp_layer_a = [], tp_inject = [], tp_tokens = [], tp_catalog = [], tp_terminate = [], tp_stamp = []\<rparr>,
     po_mode = [], po_headers = [], po_rewind = False, po_turn_id = ''t'', po_target = login_target,
     po_journal = Some (NewInMemoryJournal None)\<rparr>"

lemma ProjectSessionTrace_accounts_witness:
  "\<exists>r logs jr cs'. ProjectSessionTrace denying_env (\<lambda>s. None) two_hops (Some open_client, 5) = ((r, logs, jr), cs') \<and>
     pr_posts r + length (pr_errors r) = 2"
proof -
  obtain r logs jr cs' where p: "ProjectSessionTrace denying_env (\<lambda>s. None) two_hops (Some open_client, 5) = ((r, logs, jr), cs')"
    by (metis prod.collapse)
  have h: "sh_enabled (po_handle two_hops)" "trim_space (sh_session_id (po_handle two_hops)) \<noteq> []" by code_simp+
  have "length (OrderedReqIDsForTracePosts (ae_sprint_float denying_env) (po_hops two_hops)) = 2" by code_simp
  with ProjectSessionTrace_accounts [OF p h] p show ?thesis by metis
qed

end
