(* ===== verification/Tokens.thy ===== *)
theory Tokens
  imports Session_Trace
begin

text \<open>
  Provider token sums (src/application/tokens.go) and the public trace of a turn
  (src/application/projectors/public_trace.go). A usage map of the code, which has the four keys
  prompt, completion, total and cached, is the record \<open>token_usage\<close>; sums wrap at 64 bits.
\<close>

section \<open>Usage\<close>

definition llmStepTypes :: "string list" where
  "llmStepTypes = [''llm'', ''force_final'']"

definition llmErrorType :: string where "llmErrorType = ''llm_error''"

definition tokenAsInt :: "gval \<Rightarrow> int" where
  "tokenAsInt v = (case v of GInt n \<Rightarrow> n | GFloat x \<Rightarrow> trunc_rat x | _ \<Rightarrow> 0)"

record token_usage =
  tu_prompt :: int
  tu_completion :: int
  tu_total :: int
  tu_cached :: int

definition obj_or_empty :: "gval \<Rightarrow> gmap" where
  "obj_or_empty v = (case v of GObj m \<Rightarrow> m | _ \<Rightarrow> [])"

definition NormalizeUsage :: "gmap \<Rightarrow> token_usage" where
  "NormalizeUsage u =
     (let details = obj_or_empty (mget u ''prompt_tokens_details'');
          cached0 = mget details ''cached_tokens'';
          cached = (if cached0 = GNil then mget u ''cached_tokens'' else cached0)
      in \<lparr>tu_prompt = tokenAsInt (mget u ''prompt_tokens''), tu_completion = tokenAsInt (mget u ''completion_tokens''),
          tu_total = tokenAsInt (mget u ''total_tokens''), tu_cached = tokenAsInt cached\<rparr>)"

text \<open>The usage of a recorded response: of its body first.\<close>

definition usage_field :: "gmap \<Rightarrow> token_usage option" where
  "usage_field m = (case mget m ''usage'' of GObj u \<Rightarrow> Some (NormalizeUsage u) | _ \<Rightarrow> None)"

definition UsageFromAIResponse :: "gmap \<Rightarrow> token_usage option" where
  "UsageFromAIResponse entry = (case mget entry ''body'' of
     GObj body \<Rightarrow> (case usage_field body of Some n \<Rightarrow> Some n | None \<Rightarrow> usage_field entry)
   | _ \<Rightarrow> usage_field entry)"

definition hasBilling :: "token_usage \<Rightarrow> bool" where
  "hasBilling n \<longleftrightarrow> tu_prompt n \<noteq> 0 \<or> tu_completion n \<noteq> 0 \<or> tu_total n \<noteq> 0"

definition billed :: "token_usage option \<Rightarrow> token_usage option" where
  "billed n = (case n of Some u \<Rightarrow> (if hasBilling u then Some u else None) | None \<Rightarrow> None)"

definition stepUsage :: "gmap \<Rightarrow> token_usage option" where
  "stepUsage step = billed (usage_field step)"

section \<open>Sums\<close>

definition zero_usage :: token_usage where
  "zero_usage = \<lparr>tu_prompt = 0, tu_completion = 0, tu_total = 0, tu_cached = 0\<rparr>"

definition add_usage :: "token_usage \<Rightarrow> token_usage \<Rightarrow> token_usage" where
  "add_usage a n = \<lparr>tu_prompt = wrap64 (tu_prompt a + tu_prompt n),
     tu_completion = wrap64 (tu_completion a + tu_completion n),
     tu_total = wrap64 (tu_total a + tu_total n), tu_cached = wrap64 (tu_cached a + tu_cached n)\<rparr>"

definition step_type :: "gmap \<Rightarrow> string" where
  "step_type s = (case mget s ''type'' of GStr t \<Rightarrow> t | _ \<Rightarrow> [])"

definition llm_step :: "gmap \<Rightarrow> bool" where
  "llm_step s \<longleftrightarrow> step_type s \<in> set llmStepTypes"

text \<open>The usage counted for the step at position \<open>i\<close>, with the response at the same position as its
  fallback.\<close>

fun step_usages :: "gmap list \<Rightarrow> gmap list \<Rightarrow> token_usage list" where
  "step_usages [] rs = []"
| "step_usages (s # ss) rs =
     (case stepUsage s of
        Some n \<Rightarrow> n
      | None \<Rightarrow> (case rs of
          [] \<Rightarrow> zero_usage
        | r # _ \<Rightarrow> (case billed (UsageFromAIResponse r) of Some n \<Rightarrow> n | None \<Rightarrow> zero_usage)))
     # step_usages ss (drop 1 rs)"

definition response_usages :: "gmap list \<Rightarrow> token_usage list" where
  "response_usages rs = List.map_filter (\<lambda>r. billed (UsageFromAIResponse r)) rs"

definition sum_usage :: "gmap list \<Rightarrow> gmap list \<Rightarrow> token_usage" where
  "sum_usage steps responses =
     (let llmish = filter llm_step steps in
      foldl add_usage zero_usage (if llmish = [] then response_usages responses else step_usages llmish responses))"

definition token_totals :: "token_usage \<Rightarrow> int \<times> int \<times> bool" where
  "token_totals n =
     (let total = (if tu_total n = 0 \<and> (tu_prompt n \<noteq> 0 \<or> tu_completion n \<noteq> 0)
            then wrap64 (tu_prompt n + tu_completion n) else tu_total n);
          extra = wrap64 (total - tu_prompt n - tu_completion n)
      in (total, if extra < 0 then 0 else extra, total \<noteq> 0 \<or> tu_prompt n \<noteq> 0 \<or> tu_completion n \<noteq> 0))"

definition SumProviderTokens :: "gmap list \<Rightarrow> gmap list \<Rightarrow> gmap" where
  "SumProviderTokens steps aiResponses =
     (let n = sum_usage steps aiResponses; (total, extra, ok) = token_totals n in
      [(''prompt'', GInt (tu_prompt n)), (''completion'', GInt (tu_completion n)), (''total'', GInt total),
       (''cached'', GInt (tu_cached n)), (''extra'', GInt extra), (''ok'', GBool ok)])"

definition mapsFromAnySlice :: "gval \<Rightarrow> gmap list" where
  "mapsFromAnySlice v = (case v of
     GArr xs \<Rightarrow> List.map_filter (\<lambda>x. case x of GObj m \<Rightarrow> Some m | _ \<Rightarrow> None) xs | _ \<Rightarrow> [])"

definition AttachTraceTokens :: "gmap \<Rightarrow> gmap \<times> gmap" where
  "AttachTraceTokens trace =
     (let tokens = SumProviderTokens (mapsFromAnySlice (mget trace ''steps'')) (mapsFromAnySlice (mget trace ''ai_responses''))
      in (tokens, amap_put ''tokens'' (GObj tokens) trace))"

definition usageReportsCached :: "gmap \<Rightarrow> bool" where
  "usageReportsCached usage \<longleftrightarrow> map_of usage ''cached_tokens'' \<noteq> None \<or>
     map_of (obj_or_empty (mget usage ''prompt_tokens_details'')) ''cached_tokens'' \<noteq> None"

definition TokensForSessionTrace :: "gmap list \<Rightarrow> gmap option" where
  "TokensForSessionTrace steps =
     (let returned = filter llm_step steps; errored = filter (\<lambda>s. step_type s = llmErrorType) steps in
      if returned = [] \<and> errored = [] then None
      else (let summed = SumProviderTokens returned [];
                prompt = tokenAsInt (mget summed ''prompt''); completion = tokenAsInt (mget summed ''completion'');
                total = tokenAsInt (mget summed ''total'')
            in if prompt = 0 \<and> completion = 0 \<and> total = 0 then None
               else Some ([(''prompt'', GInt prompt), (''completion'', GInt completion), (''total'', GInt total),
                      (''rounds'', GInt (int (length returned))), (''ok'', GBool (errored = []))] @
                    (if list_ex (\<lambda>s. usageReportsCached (obj_or_empty (mget s ''usage''))) returned
                     then [(''cached'', GInt (tokenAsInt (mget summed ''cached'')))] else []))))"

section \<open>The public trace\<close>

record PublicTrace =
  pt_turn_id :: string
  pt_answer :: string
  pt_status :: string
  pt_rounds :: int
  pt_notes :: "string list"
  pt_hops :: "gmap list"
  pt_ai_process_result :: bool
  pt_ai_exit :: string
  pt_layer_a :: gmap
  pt_policy :: string
  pt_flags :: "bool amap"
  pt_steps :: "gmap list"
  pt_tokens :: "gmap option"
  pt_session :: gmap
  pt_inject :: gmap
  pt_stamp :: gmap
  pt_detective :: gmap

definition strs :: "string list \<Rightarrow> gval" where
  "strs xs = GArr (map GStr xs)"

definition flags_value :: "bool amap \<Rightarrow> gval" where
  "flags_value fs = GObj (map (\<lambda>(k, b). (k, GBool b)) fs)"

definition BuildPublicTrace :: "PublicTrace \<Rightarrow> gmap" where
  "BuildPublicTrace i =
     [(''turn_id'', GStr (pt_turn_id i)), (''answer'', GStr (pt_answer i)), (''status'', GStr (pt_status i)),
      (''rounds'', GInt (pt_rounds i)), (''notes'', strs (pt_notes i)),
      (''steps'', GArr (map GObj (pt_steps i))), (''hops'', GArr (map GObj (pt_hops i))),
      (''ai_process_result'', GBool (pt_ai_process_result i)),
      (''ai_process_result_exit'', nilIfEmpty (pt_ai_exit i)),
      (''layer_a'', if pt_layer_a i \<noteq> [] then GObj (pt_layer_a i) else GNil),
      (''policy'', nilIfEmpty (pt_policy i)), (''flags'', flags_value (pt_flags i)),
      (''artifacts_keys'', if pt_layer_a i \<noteq> []
         then strs [''jail_break_attempt'', ''wish_i_knew'', ''hooks_jailbreak_score''] else strs [])] @
     (case pt_tokens i of None \<Rightarrow> [] | Some t \<Rightarrow> [(''tokens'', GObj t)]) @
     (if pt_session i \<noteq> [] then [(''session'', GObj (pt_session i))] else []) @
     (if pt_inject i \<noteq> [] then [(''inject'', GObj (pt_inject i))] else []) @
     (if pt_stamp i \<noteq> [] then [(''user'', mget (pt_stamp i) ''user''), (''stamp'', GObj (pt_stamp i))] else []) @
     (if pt_detective i \<noteq> [] then [(''detective'', GObj (pt_detective i))] else [])"

section \<open>Facts\<close>

lemma add_usage_commute: "add_usage (add_usage a m) n = add_usage (add_usage a n) m"
proof -
  have w: "wrap64 (wrap64 (x + y) + z) = wrap64 (wrap64 (x + z) + y)" for x y z
  proof -
    have "wrap64 (wrap64 (x + y) + z) = wrap64 (x + y + z)" for x y z by (simp add: wrap64_def mod_simps algebra_simps)
    from this [of x y z] this [of x z y] show ?thesis by (simp add: ac_simps)
  qed
  show ?thesis by (simp add: add_usage_def w)
qed

lemma foldl_commute:
  assumes c: "\<And>a x y. f (f a x) y = f (f a y) x" and "mset xs = mset ys"
  shows "foldl f a xs = foldl f a ys"
proof -
  have move: "foldl f (f a x) zs = f (foldl f a zs) x" for a x zs
    by (induction zs arbitrary: a) (simp_all add: c)
  show ?thesis using assms(2)
  proof (induction xs arbitrary: ys a)
    case (Cons x xs)
    then have "x \<in> set ys" by (metis list.set_intros(1) set_mset_mset)
    then obtain us vs where ys: "ys = us @ x # vs" by (meson split_list)
    with Cons.prems have "mset xs = mset (us @ vs)" by simp
    from Cons.IH [OF this] show ?case by (simp add: ys move)
  qed simp
qed

lemma step_usages_plain: "step_usages ss [] = map (\<lambda>s. case stepUsage s of Some n \<Rightarrow> n | None \<Rightarrow> zero_usage) ss"
  by (induction ss) (simp_all split: option.split)

text \<open>The token sums of a turn do not depend on the order of its rounds.\<close>

lemma SumProviderTokens_order:
  assumes "mset steps = mset steps'"
  shows "SumProviderTokens steps [] = SumProviderTokens steps' []"
proof -
  have m: "mset (filter llm_step steps) = mset (filter llm_step steps')" using assms by simp
  then have e: "filter llm_step steps = [] \<longleftrightarrow> filter llm_step steps' = []" by (metis mset_zero_iff)
  have "sum_usage steps [] = sum_usage steps' []"
    unfolding sum_usage_def Let_def step_usages_plain using m e
    by (auto intro!: foldl_commute add_usage_commute simp: response_usages_def)
  then show ?thesis by (simp add: SumProviderTokens_def)
qed

lemma BuildPublicTrace_views [simp]:
  "mget (BuildPublicTrace i) ''answer'' = GStr (pt_answer i)" "mget (BuildPublicTrace i) ''hops'' = GArr (map GObj (pt_hops i))"
  "mget (BuildPublicTrace i) ''steps'' = GArr (map GObj (pt_steps i))"
  by (simp_all add: BuildPublicTrace_def mget_def)

end
