(* ===== verification/Middleware.thy ===== *)
theory Middleware
  imports Jailbreak
begin

text \<open>
  Agent-turn middleware (src/application/middleware.go): the per-turn context, the chain with isolated
  failures and the baseline security hooks. A value of the context's map is a \<open>dval\<close>, which keeps the Go
  types the readers switch on. A hook is a function of the context; a panic is returned as its
  recovered text beside the context as the hook left it. A hook does not change the messages or bodies
  it is shown.
\<close>

section \<open>Context\<close>

datatype dval =
    DVal gval
  | DStrs "string list"
  | DNames "bool amap"
  | DSet "string list"

record MiddlewareContext =
  mc_turn_id :: string
  mc_user_msg :: string
  mc_round :: int
  mc_notes :: "string list"
  mc_data :: "dval amap"

record mw_env = jb_env +
  mw_parse_float :: "string \<Rightarrow> rat option"

definition newMiddlewareContext :: "string \<Rightarrow> string \<Rightarrow> MiddlewareContext" where
  "newMiddlewareContext turnID userMsg =
     \<lparr>mc_turn_id = turnID, mc_user_msg = userMsg, mc_round = 0, mc_notes = [], mc_data = []\<rparr>"

definition takeNotes :: "MiddlewareContext \<Rightarrow> string list \<times> MiddlewareContext" where
  "takeNotes c = (mc_notes c, c\<lparr>mc_notes := []\<rparr>)"

definition put_data :: "string \<Rightarrow> dval \<Rightarrow> MiddlewareContext \<Rightarrow> MiddlewareContext" where
  "put_data k v c = c\<lparr>mc_data := amap_put k v (mc_data c)\<rparr>"

definition boolData :: "MiddlewareContext \<Rightarrow> string \<Rightarrow> bool" where
  "boolData c key \<longleftrightarrow> map_of (mc_data c) key = Some (DVal (GBool True))"

definition asFloat :: "(string \<Rightarrow> rat option) \<Rightarrow> dval option \<Rightarrow> rat \<times> bool" where
  "asFloat parse v = (case v of
     Some (DVal (GFloat x)) \<Rightarrow> (x, True)
   | Some (DVal (GInt n)) \<Rightarrow> (of_int n, True)
   | Some (DVal (GStr s)) \<Rightarrow> (case parse s of Some x \<Rightarrow> (x, True) | None \<Rightarrow> (0, False))
   | _ \<Rightarrow> (0, False))"

definition floatData :: "('z) mw_env_scheme \<Rightarrow> MiddlewareContext \<Rightarrow> string \<Rightarrow> rat" where
  "floatData env c key = fst (asFloat (mw_parse_float env) (map_of (mc_data c) key))"

definition strings_of :: "gval list \<Rightarrow> string list" where
  "strings_of xs = concat (map (\<lambda>v. case v of GStr s \<Rightarrow> [s] | _ \<Rightarrow> []) xs)"

definition asStringSlice :: "dval option \<Rightarrow> string list" where
  "asStringSlice v = (case v of
     Some (DStrs xs) \<Rightarrow> xs
   | Some (DVal (GArr xs)) \<Rightarrow> strings_of xs
   | _ \<Rightarrow> [])"

definition asNameSet :: "dval option \<Rightarrow> bool amap" where
  "asNameSet v = (case v of
     Some (DNames m) \<Rightarrow> m
   | Some (DSet ks) \<Rightarrow> map (\<lambda>k. (k, True)) ks
   | _ \<Rightarrow> [])"

definition asToolCallMaps :: "gval \<Rightarrow> gmap list" where
  "asToolCallMaps v = (case v of
     GArr xs \<Rightarrow> concat (map (\<lambda>x. case x of GObj m \<Rightarrow> [m] | _ \<Rightarrow> []) xs)
   | _ \<Rightarrow> [])"

definition priorTextsFromData :: "dval option \<Rightarrow> string list" where
  "priorTextsFromData v = (case v of
     Some (DStrs xs) \<Rightarrow> xs
   | Some (DVal (GArr xs)) \<Rightarrow> strings_of xs
   | _ \<Rightarrow> [])"

section \<open>The chain\<close>

type_synonym hook_result = "string option \<times> MiddlewareContext"

record Middleware =
  mw_name :: string
  mw_critical :: bool
  mw_on_turn_start :: "MiddlewareContext \<Rightarrow> hook_result"
  mw_before_llm :: "gmap list \<Rightarrow> MiddlewareContext \<Rightarrow> hook_result"
  mw_after_llm :: "gmap \<Rightarrow> MiddlewareContext \<Rightarrow> hook_result"
  mw_before_zeus :: "string \<Rightarrow> gmap \<Rightarrow> MiddlewareContext \<Rightarrow> gmap option \<times> hook_result"
  mw_after_zeus :: "string \<Rightarrow> int \<Rightarrow> gval \<Rightarrow> MiddlewareContext \<Rightarrow> hook_result"
  mw_on_turn_end :: "string \<Rightarrow> MiddlewareContext \<Rightarrow> hook_result"

definition NoopMiddleware :: "string \<Rightarrow> Middleware" where
  "NoopMiddleware name = \<lparr>mw_name = (if name = [] then ''noop'' else name), mw_critical = False,
     mw_on_turn_start = (\<lambda>c. (None, c)), mw_before_llm = (\<lambda>msgs c. (None, c)),
     mw_after_llm = (\<lambda>resp c. (None, c)), mw_before_zeus = (\<lambda>name args c. (Some args, None, c)),
     mw_after_zeus = (\<lambda>name status body c. (None, c)), mw_on_turn_end = (\<lambda>answer c. (None, c))\<rparr>"

type_synonym MiddlewareChain = "Middleware list"

definition Add :: "Middleware \<Rightarrow> MiddlewareChain \<Rightarrow> MiddlewareChain" where
  "Add mw chain = chain @ [mw]"

text \<open>A panic leaves a note; it goes on only out of a critical middleware.\<close>

definition isolate :: "Middleware \<Rightarrow> string \<Rightarrow> hook_result \<Rightarrow> hook_result" where
  "isolate mw meth = (\<lambda>(panic, c). (case panic of
     None \<Rightarrow> (None, c)
   | Some v \<Rightarrow> (if mw_critical mw then Some v else None,
       c\<lparr>mc_notes := mc_notes c @ [''middleware.'' @ mw_name mw @ ''.'' @ meth @ ''_failed: '' @ v]\<rparr>)))"

fun run_hooks :: "(Middleware \<Rightarrow> MiddlewareContext \<Rightarrow> hook_result) \<Rightarrow> string \<Rightarrow> MiddlewareChain \<Rightarrow> MiddlewareContext \<Rightarrow> hook_result" where
  "run_hooks f meth [] c = (None, c)"
| "run_hooks f meth (mw # mws) c = (case isolate mw meth (f mw c) of
     (Some v, c1) \<Rightarrow> (Some v, c1)
   | (None, c1) \<Rightarrow> run_hooks f meth mws c1)"

definition OnTurnStart :: "MiddlewareChain \<Rightarrow> MiddlewareContext \<Rightarrow> hook_result" where
  "OnTurnStart chain = run_hooks mw_on_turn_start ''on_turn_start'' chain"

definition BeforeLLM :: "MiddlewareChain \<Rightarrow> gmap list \<Rightarrow> MiddlewareContext \<Rightarrow> hook_result" where
  "BeforeLLM chain messages = run_hooks (\<lambda>mw. mw_before_llm mw messages) ''before_llm'' chain"

definition AfterLLM :: "MiddlewareChain \<Rightarrow> gmap \<Rightarrow> MiddlewareContext \<Rightarrow> hook_result" where
  "AfterLLM chain response = run_hooks (\<lambda>mw. mw_after_llm mw response) ''after_llm'' chain"

text \<open>Each middleware sees the arguments the previous one returned; nil or a panic keeps them.\<close>

fun before_zeus :: "string \<Rightarrow> MiddlewareChain \<Rightarrow> gmap \<Rightarrow> MiddlewareContext \<Rightarrow> gmap \<times> hook_result" where
  "before_zeus name [] args c = (args, None, c)"
| "before_zeus name (mw # mws) args c =
     (let (got, panic, c0) = mw_before_zeus mw name args c;
          args1 = (case (panic, got) of (None, Some a) \<Rightarrow> a | _ \<Rightarrow> args)
      in case isolate mw ''before_zeus'' (panic, c0) of
           (Some v, c1) \<Rightarrow> (args1, Some v, c1)
         | (None, c1) \<Rightarrow> before_zeus name mws args1 c1)"

definition BeforeZeus :: "MiddlewareChain \<Rightarrow> string \<Rightarrow> gmap \<Rightarrow> MiddlewareContext \<Rightarrow> gmap \<times> hook_result" where
  "BeforeZeus chain name args = before_zeus name chain args"

definition AfterZeus :: "MiddlewareChain \<Rightarrow> string \<Rightarrow> int \<Rightarrow> gval \<Rightarrow> MiddlewareContext \<Rightarrow> hook_result" where
  "AfterZeus chain name status body = run_hooks (\<lambda>mw. mw_after_zeus mw name status body) ''after_zeus'' chain"

definition OnTurnEnd :: "MiddlewareChain \<Rightarrow> string \<Rightarrow> MiddlewareContext \<Rightarrow> hook_result" where
  "OnTurnEnd chain answer = run_hooks (\<lambda>mw. mw_on_turn_end mw answer) ''on_turn_end'' chain"

section \<open>Security hooks\<close>

fun add_hits :: "string list \<Rightarrow> string list \<Rightarrow> string list" where
  "add_hits hits [] = hits"
| "add_hits hits (i # ids) = add_hits (if i \<in> set hits then hits else hits @ [i]) ids"

definition foldAssessment :: "('z) mw_env_scheme \<Rightarrow> JailbreakAssessment \<Rightarrow> MiddlewareContext \<Rightarrow> MiddlewareContext" where
  "foldAssessment env a c =
     (let prev = floatData env c ''hooks_jailbreak_score'';
          score0 = (if prev < ja_score a then ja_score a else prev);
          score = (if 1 < score0 then 1 else score0);
          c1 = put_data ''hooks_jailbreak_score'' (DVal (GFloat score)) c;
          c2 = (if ja_must_refuse a \<or> HardRefuseScore \<le> score
                then put_data ''hooks_must_refuse'' (DVal (GBool True)) c1 else c1)
      in put_data ''jailbreak_hits''
           (DStrs (add_hits (asStringSlice (map_of (mc_data c2) ''jailbreak_hits'')) (AttemptIDs a))) c2)"

definition InspectJailbreak :: "('z) mw_env_scheme \<Rightarrow> gval \<Rightarrow> string \<Rightarrow> MiddlewareContext \<Rightarrow> JailbreakAssessment \<times> MiddlewareContext" where
  "InspectJailbreak env payload surface c =
     (let a = AssessPayload (jb_env.truncate env) payload surface in (a, foldAssessment env a c))"

definition raise_score :: "('z) mw_env_scheme \<Rightarrow> MiddlewareContext \<Rightarrow> MiddlewareContext" where
  "raise_score env c = (if floatData env c ''hooks_jailbreak_score'' < DeniedVerbScore
     then put_data ''hooks_jailbreak_score'' (DVal (GFloat DeniedVerbScore)) c else c)"

definition denyVerb :: "('z) mw_env_scheme \<Rightarrow> string \<Rightarrow> MiddlewareContext \<Rightarrow> MiddlewareContext" where
  "denyVerb env name c =
     (let denied = asStringSlice (map_of (mc_data c) ''denied_verbs'') in
      if name \<in> set denied then raise_score env c
      else raise_score env (put_data ''denied_verbs'' (DStrs (denied @ [name])) c))"

record SecurityHooks =
  sk_name :: string
  sk_critical :: bool
  sk_denied_verbs :: "string list"

definition ScoreJailbreak :: "('z) mw_env_scheme \<Rightarrow> MiddlewareContext \<Rightarrow> rat \<times> MiddlewareContext" where
  "ScoreJailbreak env c =
     (let priors = priorTextsFromData (map_of (mc_data c) ''prior_user_texts'');
          c1 = foldAssessment env (AssessTurn (jb_env.truncate env) (mc_user_msg c) priors) c;
          c2 = (if asStringSlice (map_of (mc_data c1) ''denied_verbs'') \<noteq> [] then raise_score env c1 else c1);
          score = floatData env c2 ''hooks_jailbreak_score''
      in (if 1 < score then 1 else score, c2))"

definition MustRefuse :: "('z) mw_env_scheme \<Rightarrow> MiddlewareContext \<Rightarrow> bool \<times> MiddlewareContext" where
  "MustRefuse env c = (let (score, c1) = ScoreJailbreak env c in (HardRefuseScore \<le> score, c1))"

definition security_OnTurnStart :: "('z) mw_env_scheme \<Rightarrow> MiddlewareContext \<Rightarrow> MiddlewareContext" where
  "security_OnTurnStart env c =
     (let (score, c1) = ScoreJailbreak env c;
          c2 = put_data ''hooks_jailbreak_score'' (DVal (GFloat score)) c1
      in put_data ''hooks_must_refuse''
           (DVal (GBool (boolData c2 ''hooks_must_refuse'' \<or> HardRefuseScore \<le> score))) c2)"

definition call_args :: "gmap \<Rightarrow> gval" where
  "call_args tc = (case mget tc ''function'' of GObj fn \<Rightarrow> mget fn ''arguments'' | _ \<Rightarrow> GNil)"

definition security_AfterLLM :: "('z) mw_env_scheme \<Rightarrow> gmap \<Rightarrow> MiddlewareContext \<Rightarrow> MiddlewareContext" where
  "security_AfterLLM env response c =
     fold (\<lambda>tc c. snd (InspectJailbreak env (call_args tc) ''tool_args'' c))
       (asToolCallMaps (mget response ''tool_calls''))
       (snd (InspectJailbreak env (mget response ''content'') ''llm'' c))"

definition verbDenied :: "SecurityHooks \<Rightarrow> MiddlewareContext \<Rightarrow> string \<Rightarrow> bool" where
  "verbDenied s c name =
     (if name \<in> set (sk_denied_verbs s) then True
      else (let allowed = asNameSet (map_of (mc_data c) ''catalog_tool_names'') in
        if allowed = [] then False
        else if map_of allowed name = Some True then False
        else \<not> (name = ''return'' \<or> name = ''return_result'')))"

definition security_BeforeZeus :: "('z) mw_env_scheme \<Rightarrow> SecurityHooks \<Rightarrow> string \<Rightarrow> MiddlewareContext \<Rightarrow> MiddlewareContext" where
  "security_BeforeZeus env s name c = (if verbDenied s c name then denyVerb env name c else c)"

definition untrustedToolPayloadError :: string where
  "untrustedToolPayloadError = ''untrusted_tool_payload''"

definition untrusted_body :: string where
  "untrusted_body = ''{\"error\":\"'' @ untrustedToolPayloadError @ ''\"}''"

definition security_AfterZeus :: "('z) mw_env_scheme \<Rightarrow> gval \<Rightarrow> MiddlewareContext \<Rightarrow> MiddlewareContext" where
  "security_AfterZeus env body c =
     (let (a, c1) = InspectJailbreak env body ''tool_body'' c in
      if \<not> ja_must_refuse a then c1 else put_data ''tool_body_override'' (DVal (GStr untrusted_body)) c1)"

definition security_hooks :: "('z) mw_env_scheme \<Rightarrow> SecurityHooks \<Rightarrow> Middleware" where
  "security_hooks env s = \<lparr>mw_name = (if sk_name s = [] then ''security'' else sk_name s),
     mw_critical = sk_critical s,
     mw_on_turn_start = (\<lambda>c. (None, security_OnTurnStart env c)), mw_before_llm = (\<lambda>msgs c. (None, c)),
     mw_after_llm = (\<lambda>resp c. (None, security_AfterLLM env resp c)),
     mw_before_zeus = (\<lambda>name args c. (Some args, None, security_BeforeZeus env s name c)),
     mw_after_zeus = (\<lambda>name status body c. (None, security_AfterZeus env body c)),
     mw_on_turn_end = (\<lambda>answer c. (None, c))\<rparr>"

definition DefaultMiddlewareChain :: "('z) mw_env_scheme \<Rightarrow> MiddlewareChain" where
  "DefaultMiddlewareChain env = [security_hooks env \<lparr>sk_name = [], sk_critical = False, sk_denied_verbs = []\<rparr>]"

section \<open>Facts\<close>

text \<open>What every hook keeps of a context (\<open>ctx_ok\<close>), and how a context may grow.\<close>

abbreviation score_of :: "('z) mw_env_scheme \<Rightarrow> MiddlewareContext \<Rightarrow> rat" where
  "score_of env c \<equiv> floatData env c ''hooks_jailbreak_score''"

abbreviation refused :: "MiddlewareContext \<Rightarrow> bool" where
  "refused c \<equiv> boolData c ''hooks_must_refuse''"

abbreviation denied_of :: "MiddlewareContext \<Rightarrow> string list" where
  "denied_of c \<equiv> asStringSlice (map_of (mc_data c) ''denied_verbs'')"

abbreviation hits_of :: "MiddlewareContext \<Rightarrow> string list" where
  "hits_of c \<equiv> asStringSlice (map_of (mc_data c) ''jailbreak_hits'')"

definition ctx_ok :: "('z) mw_env_scheme \<Rightarrow> MiddlewareContext \<Rightarrow> bool" where
  "ctx_ok env c \<longleftrightarrow> 0 \<le> score_of env c \<and> score_of env c \<le> 1 \<and>
     (HardRefuseScore \<le> score_of env c \<longrightarrow> refused c) \<and> distinct (hits_of c)"

definition grows :: "('z) mw_env_scheme \<Rightarrow> MiddlewareContext \<Rightarrow> MiddlewareContext \<Rightarrow> bool" where
  "grows env c c' \<longleftrightarrow> ctx_ok env c' \<and> score_of env c \<le> score_of env c' \<and> (refused c \<longrightarrow> refused c') \<and>
     set (denied_of c) \<subseteq> set (denied_of c') \<and> set (hits_of c) \<subseteq> set (hits_of c')"

lemma grows_refl [simp]: "ctx_ok env c \<Longrightarrow> grows env c c"
  by (simp add: grows_def)

lemma grows_trans: "grows env a b \<Longrightarrow> grows env b c \<Longrightarrow> grows env a c"
  by (auto simp: grows_def)

lemma grows_ok: "grows env c c' \<Longrightarrow> ctx_ok env c'"
  by (simp add: grows_def)

lemma data_put [simp]: "map_of (mc_data (put_data k v c)) k' = (if k' = k then Some v else map_of (mc_data c) k')"
  by (simp add: put_data_def update_conv')

lemma floatData_put [simp]:
  "floatData env (put_data k v c) k' = (if k' = k then fst (asFloat (mw_parse_float env) (Some v)) else floatData env c k')"
  by (simp add: floatData_def)

lemma boolData_put [simp]: "boolData (put_data k v c) k' = (if k' = k then v = DVal (GBool True) else boolData c k')"
  by (simp add: boolData_def)

lemma view_simps [simp]: "fst (asFloat q (Some (DVal (GFloat x)))) = x" "asStringSlice (Some (DStrs xs)) = xs"
  by (simp_all add: asFloat_def asStringSlice_def)

lemma add_hits_props: "set (add_hits hits ids) = set hits \<union> set ids"
  "distinct hits \<Longrightarrow> distinct (add_hits hits ids)"
  by (induction hits ids rule: add_hits.induct) auto

lemma notes_irrelevant [simp]:
  "floatData env (c\<lparr>mc_notes := ns\<rparr>) k = floatData env c k" "boolData (c\<lparr>mc_notes := ns\<rparr>) k = boolData c k"
  "ctx_ok env (c\<lparr>mc_notes := ns\<rparr>) = ctx_ok env c" "grows env c0 (c\<lparr>mc_notes := ns\<rparr>) = grows env c0 c"
  by (simp_all add: floatData_def boolData_def ctx_ok_def grows_def)

lemma foldAssessment_grows: "ctx_ok env c \<Longrightarrow> grows env c (foldAssessment env a c)"
  by (auto simp: foldAssessment_def Let_def grows_def ctx_ok_def add_hits_props)

lemma foldAssessment_refuses: "ja_must_refuse a \<Longrightarrow> refused (foldAssessment env a c)"
  by (simp add: foldAssessment_def Let_def)

lemma InspectJailbreak_grows: "ctx_ok env c \<Longrightarrow> grows env c (snd (InspectJailbreak env payload surface c))"
  by (simp add: InspectJailbreak_def Let_def foldAssessment_grows)

lemma raise_score_grows: "ctx_ok env c \<Longrightarrow> grows env c (raise_score env c)"
  by (auto simp: raise_score_def grows_def ctx_ok_def DeniedVerbScore_def HardRefuseScore_def)

lemma put_denied_grows:
  "ctx_ok env c \<Longrightarrow> set (denied_of c) \<subseteq> set ds \<Longrightarrow> grows env c (put_data ''denied_verbs'' (DStrs ds) c)"
  by (simp add: grows_def ctx_ok_def)

lemma denyVerb_grows: "ctx_ok env c \<Longrightarrow> grows env c (denyVerb env name c)"
proof -
  assume ok: "ctx_ok env c"
  let ?c1 = "put_data ''denied_verbs'' (DStrs (denied_of c @ [name])) c"
  have g: "grows env c ?c1" using ok by (rule put_denied_grows) auto
  from grows_trans [OF g raise_score_grows [OF grows_ok [OF g]]] raise_score_grows [OF ok] show ?thesis
    by (simp add: denyVerb_def Let_def)
qed

lemma denied_raise [simp]: "denied_of (raise_score env c) = denied_of c"
  by (simp add: raise_score_def)

lemma denyVerb_denies: "name \<in> set (denied_of (denyVerb env name c))"
  by (simp add: denyVerb_def Let_def)

lemma ScoreJailbreak_grows:
  assumes "ctx_ok env c"
  shows "grows env c (snd (ScoreJailbreak env c))"
    and "fst (ScoreJailbreak env c) = score_of env (snd (ScoreJailbreak env c))"
proof -
  let ?a = "AssessTurn (jb_env.truncate env) (mc_user_msg c)
    (priorTextsFromData (map_of (mc_data c) ''prior_user_texts''))"
  note f = foldAssessment_grows [OF assms, of ?a]
  from grows_trans [OF f raise_score_grows [OF grows_ok [OF f]]] f
  show g: "grows env c (snd (ScoreJailbreak env c))" by (simp add: ScoreJailbreak_def Let_def)
  from grows_ok [OF g] show "fst (ScoreJailbreak env c) = score_of env (snd (ScoreJailbreak env c))"
    by (simp add: ScoreJailbreak_def Let_def ctx_ok_def)
qed

lemma OnTurnStart_grows:
  assumes "ctx_ok env c"
  shows "grows env c (security_OnTurnStart env c)"
proof -
  obtain score c1 where s: "ScoreJailbreak env c = (score, c1)" by fastforce
  with ScoreJailbreak_grows [OF assms] have g: "grows env c c1" "score = score_of env c1" by simp_all
  then have "grows env c1 (security_OnTurnStart env c)"
    using grows_ok [OF g(1)] by (simp add: security_OnTurnStart_def s grows_def ctx_ok_def)
  with g(1) show ?thesis by (rule grows_trans)
qed

lemma AfterLLM_grows:
  assumes "ctx_ok env c"
  shows "grows env c (security_AfterLLM env response c)"
proof -
  have f: "ctx_ok env c0 \<Longrightarrow>
      grows env c0 (fold (\<lambda>tc c. snd (InspectJailbreak env (call_args tc) ''tool_args'' c)) tcs c0)" for tcs c0
  proof (induction tcs arbitrary: c0)
    case (Cons tc tcs)
    note g = InspectJailbreak_grows [OF Cons.prems, of "call_args tc" "''tool_args''"]
    from grows_trans [OF g Cons.IH [OF grows_ok [OF g]]] show ?case by simp
  qed simp
  note g = InspectJailbreak_grows [OF assms, of "mget response ''content''" "''llm''"]
  from grows_trans [OF g f [OF grows_ok [OF g]]] show ?thesis by (simp add: security_AfterLLM_def)
qed

lemma AfterZeus_grows:
  assumes "ctx_ok env c"
  shows "grows env c (security_AfterZeus env body c)"
proof -
  obtain a c1 where i: "InspectJailbreak env body ''tool_body'' c = (a, c1)" by fastforce
  with InspectJailbreak_grows [OF assms, of body "''tool_body''"] have g: "grows env c c1" by simp
  then have "grows env c1 (put_data ''tool_body_override'' v c1)" for v
    using grows_ok [OF g] by (simp add: grows_def ctx_ok_def)
  with g show ?thesis by (auto simp: security_AfterZeus_def i intro: grows_trans)
qed

section \<open>The interface of a guarded chain\<close>

text \<open>A middleware is guarded when each of its hooks only lets a context grow, also when it panics.\<close>

definition guarded :: "('z) mw_env_scheme \<Rightarrow> Middleware \<Rightarrow> bool" where
  "guarded env mw \<longleftrightarrow> (\<forall>c. ctx_ok env c \<longrightarrow>
     grows env c (snd (mw_on_turn_start mw c)) \<and>
     (\<forall>msgs. grows env c (snd (mw_before_llm mw msgs c))) \<and>
     (\<forall>resp. grows env c (snd (mw_after_llm mw resp c))) \<and>
     (\<forall>name args. grows env c (snd (snd (mw_before_zeus mw name args c)))) \<and>
     (\<forall>name status body. grows env c (snd (mw_after_zeus mw name status body c))) \<and>
     (\<forall>answer. grows env c (snd (mw_on_turn_end mw answer c))))"

lemma isolate_ctx: "grows env c0 (snd (isolate mw meth r)) = grows env c0 (snd r)"
  by (auto simp: isolate_def split: prod.splits option.splits)

lemma run_hooks_grows:
  assumes "\<And>mw c. mw \<in> set mws \<Longrightarrow> ctx_ok env c \<Longrightarrow> grows env c (snd (f mw c))" and "ctx_ok env c"
  shows "grows env c (snd (run_hooks f meth mws c))"
  using assms
proof (induction mws arbitrary: c)
  case (Cons mw mws)
  from Cons.prems have g: "grows env c (snd (isolate mw meth (f mw c)))" by (simp add: isolate_ctx)
  show ?case
  proof (cases "isolate mw meth (f mw c)")
    case (Pair v c1)
    with g have g1: "grows env c c1" by simp
    show ?thesis
    proof (cases v)
      case None
      have "grows env c1 (snd (run_hooks f meth mws c1))"
        using Cons.prems(1) grows_ok [OF g1] by (intro Cons.IH) auto
      with g1 Pair None show ?thesis using grows_trans by fastforce
    qed (use g1 Pair in simp)
  qed
qed simp

lemma before_zeus_grows:
  assumes "\<And>mw name args c. mw \<in> set mws \<Longrightarrow> ctx_ok env c \<Longrightarrow> grows env c (snd (snd (mw_before_zeus mw name args c)))"
    and "ctx_ok env c"
  shows "grows env c (snd (snd (before_zeus name mws args c)))"
  using assms
proof (induction mws arbitrary: args c)
  case (Cons mw mws)
  obtain got panic c0 where b: "mw_before_zeus mw name args c = (got, panic, c0)" by (metis prod_cases3)
  with Cons.prems(1) [of mw c name args] Cons.prems(2) have g0: "grows env c c0" by simp
  obtain v c1 where i: "isolate mw ''before_zeus'' (panic, c0) = (v, c1)" by fastforce
  with isolate_ctx [of env c mw "''before_zeus''" "(panic, c0)"] g0 have g1: "grows env c c1" by simp
  have "grows env c1 (snd (snd (before_zeus name mws x c1)))" for x
    using Cons.prems(1) grows_ok [OF g1] by (intro Cons.IH) auto
  with g1 show ?case using grows_trans by (cases v) (fastforce simp: b i Let_def)+
qed simp

locale guarded_chain =
  fixes env :: "('z) mw_env_scheme" and chain :: MiddlewareChain
  assumes items: "mw \<in> set chain \<Longrightarrow> guarded env mw"
begin

lemma OnTurnStart: "ctx_ok env c \<Longrightarrow> grows env c (snd (OnTurnStart chain c))"
  unfolding OnTurnStart_def using items by (intro run_hooks_grows) (auto simp: guarded_def)

lemma BeforeLLM: "ctx_ok env c \<Longrightarrow> grows env c (snd (BeforeLLM chain msgs c))"
  unfolding BeforeLLM_def using items by (intro run_hooks_grows) (auto simp: guarded_def)

lemma AfterLLM: "ctx_ok env c \<Longrightarrow> grows env c (snd (AfterLLM chain resp c))"
  unfolding AfterLLM_def using items by (intro run_hooks_grows) (auto simp: guarded_def)

lemma BeforeZeus: "ctx_ok env c \<Longrightarrow> grows env c (snd (snd (BeforeZeus chain name args c)))"
  unfolding BeforeZeus_def using items by (intro before_zeus_grows) (auto simp: guarded_def)

lemma AfterZeus: "ctx_ok env c \<Longrightarrow> grows env c (snd (AfterZeus chain name status body c))"
  unfolding AfterZeus_def using items by (intro run_hooks_grows) (auto simp: guarded_def)

lemma OnTurnEnd: "ctx_ok env c \<Longrightarrow> grows env c (snd (OnTurnEnd chain answer c))"
  unfolding OnTurnEnd_def using items by (intro run_hooks_grows) (auto simp: guarded_def)

end

lemma security_guarded: "guarded env (security_hooks env s)"
  by (simp add: guarded_def security_hooks_def OnTurnStart_grows AfterLLM_grows AfterZeus_grows
      security_BeforeZeus_def denyVerb_grows)

lemma noop_guarded: "guarded env (NoopMiddleware name)"
  by (simp add: guarded_def NoopMiddleware_def)

interpretation hooks: guarded_chain env "DefaultMiddlewareChain env" for env :: "('z) mw_env_scheme"
  by unfold_locales (simp add: DefaultMiddlewareChain_def security_guarded)

section \<open>Properties\<close>

text \<open>The calls the agent turn makes on a context.\<close>

datatype hook_call =
    CallTurnStart
  | CallBeforeLLM "gmap list"
  | CallAfterLLM gmap
  | CallBeforeZeus string gmap
  | CallAfterZeus string int gval
  | CallTurnEnd string
  | CallInspect gval string
  | CallTakeNotes

definition run_call :: "('z) mw_env_scheme \<Rightarrow> MiddlewareChain \<Rightarrow> hook_call \<Rightarrow> MiddlewareContext \<Rightarrow> MiddlewareContext" where
  "run_call env chain call c = (case call of
     CallTurnStart \<Rightarrow> snd (OnTurnStart chain c)
   | CallBeforeLLM msgs \<Rightarrow> snd (BeforeLLM chain msgs c)
   | CallAfterLLM resp \<Rightarrow> snd (AfterLLM chain resp c)
   | CallBeforeZeus name args \<Rightarrow> snd (snd (BeforeZeus chain name args c))
   | CallAfterZeus name status body \<Rightarrow> snd (AfterZeus chain name status body c)
   | CallTurnEnd answer \<Rightarrow> snd (OnTurnEnd chain answer c)
   | CallInspect payload surface \<Rightarrow> snd (InspectJailbreak env payload surface c)
   | CallTakeNotes \<Rightarrow> snd (takeNotes c))"

context guarded_chain
begin

lemma run_call_grows: "ctx_ok env c \<Longrightarrow> grows env c (run_call env chain call c)"
  by (cases call) (simp_all add: run_call_def OnTurnStart BeforeLLM AfterLLM BeforeZeus AfterZeus OnTurnEnd
      InspectJailbreak_grows takeNotes_def)

lemma run_calls_grow: "ctx_ok env c \<Longrightarrow> grows env c (fold (run_call env chain) calls c)"
proof (induction calls arbitrary: c)
  case (Cons call calls)
  note g = run_call_grows [OF Cons.prems, of call]
  from grows_trans [OF g Cons.IH [OF grows_ok [OF g]]] show ?case by simp
qed simp

end

lemma new_context_ok: "ctx_ok env (newMiddlewareContext turnID userMsg)"
  by (simp add: ctx_ok_def newMiddlewareContext_def floatData_def boolData_def asFloat_def asStringSlice_def
      HardRefuseScore_def)


text \<open>A hostile tool body never reaches the model: when a body is refused on the tool surface, the
  default hooks replace it by the untrusted-payload marker and the turn is refused from then on.\<close>

theorem hostile_body_replaced:
  assumes "ja_must_refuse (AssessPayload (jb_env.truncate env) body ''tool_body'')"
  shows "\<exists>c'. AfterZeus (DefaultMiddlewareChain env) name status body c = (None, c') \<and>
    map_of (mc_data c') ''tool_body_override'' = Some (DVal (GStr untrusted_body)) \<and> refused c'"
  using assms foldAssessment_refuses [OF assms, of env c]
  by (simp add: AfterZeus_def DefaultMiddlewareChain_def security_hooks_def isolate_def security_AfterZeus_def
      InspectJailbreak_def Let_def)

definition plain_env :: mw_env where
  "plain_env = \<lparr>jb_nfkc = (\<lambda>s. s), jb_is_letter = (\<lambda>r. 65 \<le> r \<and> r \<le> 90 \<or> 97 \<le> r \<and> r \<le> 122),
     mw_parse_float = (\<lambda>s. None)\<rparr>"

definition bad_body :: gval where
  "bad_body = GObj [(''note'', GStr ''new instructions'')]"

lemma bad_body_refused: "ja_must_refuse (AssessPayload (jb_env.truncate plain_env) bad_body ''tool_body'')"
proof -
  have t: "payloadText bad_body 48 = ''new instructions''" by code_simp
  have e: "jb_nfkc (jb_env.truncate plain_env) = (\<lambda>s. s)" by (simp add: jb_env.truncate_def plain_env_def)
  show ?thesis unfolding AssessPayload_def t
  proof (rule pattern_refuses)
    show "trim_space ''new instructions'' \<noteq> []" by code_simp
    show "jb_pattern ''D-inject'' ''D'' HardRefuseScore ''tool_injection'' rxDi surfTool \<in> set jbPatterns"
      by (simp add: jbPatterns_def)
    have "rx_match rxDi (stripZW ''new instructions'')" by code_simp
    then show "rx_match (jp_regex (jb_pattern ''D-inject'' ''D'' HardRefuseScore ''tool_injection'' rxDi surfTool))
      (stripZW (jb_nfkc (jb_env.truncate plain_env) ''new instructions''))" by (simp add: jb_pattern_def e)
  qed (simp_all add: jb_pattern_def surfTool_def)
qed

lemma hostile_body_replaced_witness:
  "\<exists>c'. AfterZeus (DefaultMiddlewareChain plain_env) ''find'' 200 bad_body (newMiddlewareContext ''t'' ''m'') = (None, c') \<and>
    map_of (mc_data c') ''tool_body_override'' = Some (DVal (GStr untrusted_body)) \<and> refused c'"
  by (rule hostile_body_replaced [OF bad_body_refused])


end
