(* ===== verification/Inject.thy ===== *)
theory Inject
  imports Contract
begin

text \<open>
  What the client splices into the system message: the trail of Zeus hops of a turn
  (src/domain/tool_trail.go) and the proof of the scope-brief and mini-schema blocks
  (src/domain/inject.go). The SHA-256 digest in hexadecimal is the parameter \<open>sha\<close>. UpsertTrailOnSystem
  edits the first message in place; the model returns the new list.
\<close>

section \<open>The hop trail\<close>

definition TrailHeading :: string where "TrailHeading = ''ZEUS_TOOL_TRAIL (this turn):''"

definition ErrorClassFor :: "bool \<Rightarrow> int \<Rightarrow> string \<Rightarrow> string" where
  "ErrorClassFor ok status err =
     (if ok then []
      else if status = 409 then ''contract_mismatch''
      else if status = 429 \<or> status = 503 \<or> str_contains (to_lower err) ''timeout'' then ''retryable_later''
      else if 400 \<le> status \<and> status < 500 then ''do_not_retry_same_args''
      else ''zeus_error'')"

definition trailHint :: "bool \<Rightarrow> bool \<Rightarrow> string \<Rightarrow> string" where
  "trailHint ok is_empty errorClass =
     (if ok \<and> is_empty then ''empty''
      else if ok then ''success''
      else if errorClass = ''contract_mismatch'' \<or> errorClass = ''do_not_retry_same_args''
      then ''do_not_retry_same_args''
      else if errorClass = ''retryable_later'' then ''retryable_later''
      else [])"

definition hop_status :: "gmap \<Rightarrow> int" where
  "hop_status h = (let st = asInt (mget h ''status'') in if st = 0 then asInt (mget h ''status_code'') else st)"

definition hop_err :: "(rat \<Rightarrow> string) \<Rightarrow> gmap \<Rightarrow> string" where
  "hop_err ff h = (if mget h ''error'' = GNil then []
     else (let e = go_sprint ff (mget h ''error'') in if e = ''<nil>'' then [] else e))"

definition first_of :: "string \<Rightarrow> string \<Rightarrow> string" where
  "first_of a b = (if a \<noteq> [] then a else b)"

definition entry_field :: "string \<Rightarrow> string \<Rightarrow> gmap" where
  "entry_field k v = (if v \<noteq> [] then [(k, GStr v)] else [])"

definition TrailEntryFromHop :: "(rat \<Rightarrow> string) \<Rightarrow> gmap \<Rightarrow> int \<Rightarrow> bool \<Rightarrow> gmap" where
  "TrailEntryFromHop ff h sq is_empty =
     (let ok = asBool (mget h ''ok''); status = hop_status h; klass = ErrorClassFor ok status (hop_err ff h);
          verb = first_of (trim_space (asString (mget h ''name''))) (trim_space (asString (mget h ''verb'')))
      in [(''seq'', GInt sq), (''ok'', GBool ok)] @
         (if verb \<noteq> [] then [(''verb'', GStr verb), (''l0'', GStr (''zeus.'' @ verb))] else []) @
         (if status \<noteq> 0 then [(''http_status'', GInt status)] else []) @
         entry_field ''req_id'' (asString (mget h ''req_id'')) @
         entry_field ''error_class'' klass @
         entry_field ''hint'' (trailHint ok is_empty klass) @
         entry_field ''path'' (first_of (asString (mget h ''url'')) (asString (mget h ''path''))))"

definition trail_line :: "(rat \<Rightarrow> string) \<Rightarrow> gmap \<Rightarrow> string" where
  "trail_line ff e =
     (let sq = (if mget e ''seq'' = GNil then ''?'' else go_sprint ff (mget e ''seq''));
          l0 = first_of (first_of (asString (mget e ''l0'')) (asString (mget e ''verb''))) ''hop'';
          rid = asString (mget e ''req_id''); klass = asString (mget e ''error_class''); h = asString (mget e ''hint'')
      in join_with '' '' ([sq @ ''.'', l0, if asBool (mget e ''ok'') then ''ok'' else ''fail''] @
           (if rid \<noteq> [] then [''req_id='' @ rid] else []) @ (if klass \<noteq> [] then [klass] else []) @
           (if h \<noteq> [] then [''hint='' @ h] else [])))"

definition RenderTrailInject :: "(rat \<Rightarrow> string) \<Rightarrow> gmap list \<Rightarrow> int \<Rightarrow> string" where
  "RenderTrailInject ff entries maxEntries =
     (let es = take (nat maxEntries) entries in
      if es = [] then [] else join_with [CHR 0x0A] (TrailHeading # map (trail_line ff) es))"

definition upsert_content :: "string \<Rightarrow> string \<Rightarrow> string" where
  "upsert_content content snippet =
     (if str_contains content TrailHeading
      then (case str_cut content TrailHeading of (h, _, _) \<Rightarrow>
        trim_right_set trailingWS h @ [CHR 0x0A, CHR 0x0A] @ snippet)
      else trim_right_set trailingWS content @ [CHR 0x0A, CHR 0x0A] @ snippet)"

definition UpsertTrailOnSystem :: "gval list \<Rightarrow> string \<Rightarrow> gval list" where
  "UpsertTrailOnSystem messages snippet = (case messages of
     GObj sys # rest \<Rightarrow>
       (if snippet = [] \<or> asString (mget sys ''role'') \<noteq> ''system'' then messages
        else GObj (amap_put ''content'' (GStr (upsert_content (asString (mget sys ''content'')) snippet)) sys) # rest)
   | _ \<Rightarrow> messages)"

section \<open>Proof of the injected blocks\<close>

definition injectPreviewMax :: nat where "injectPreviewMax = 400"
definition scopeBriefHeading :: string where "scopeBriefHeading = ''## SCOPE BRIEF''"
definition miniSchemaHeading :: string where "miniSchemaHeading = ''## MINI-SCHEMA''"

definition SHA12 :: "(string \<Rightarrow> string) \<Rightarrow> string \<Rightarrow> string" where
  "SHA12 sha s = (if s = [] then [] else take 12 (sha s))"

text \<open>The lines after the heading up to the next H2 heading that does not begin like it.\<close>

definition section_lines :: "string \<Rightarrow> string list \<Rightarrow> string list" where
  "section_lines heading lines = takeWhile (\<lambda>row. \<not> (has_prefix row ''## '' \<and> \<not> has_prefix row heading)) lines"

definition extractMarkdownSection :: "string \<Rightarrow> string \<Rightarrow> string" where
  "extractMarkdownSection s heading =
     (if s = [] \<or> heading = [] then []
      else (case str_index s heading of
          None \<Rightarrow> []
        | Some i \<Rightarrow> (case split_on (CHR 0x0A) (drop i s) of
            [] \<Rightarrow> []
          | l # ls \<Rightarrow> trim_right_set {CHR 0x0A} (join_with [CHR 0x0A] (l # section_lines heading ls)))))"

definition SliceBlock :: "string \<Rightarrow> string \<Rightarrow> string" where
  "SliceBlock s kind =
     (if kind = ''brief''
      then (let full = extractMarkdownSection s scopeBriefHeading in
        if full = [] then []
        else trim_space (case str_index full miniSchemaHeading of
            Some (Suc i) \<Rightarrow> trim_right_set {CHR 0x0A} (take (Suc i) full)
          | _ \<Rightarrow> full))
      else trim_space (extractMarkdownSection s miniSchemaHeading))"

text \<open>strings.Fields, restricted to what the code uses: the first field, if any.\<close>

fun first_field_fuel :: "nat \<Rightarrow> string \<Rightarrow> string" where
  "first_field_fuel 0 s = []"
| "first_field_fuel (Suc n) s = (if s = [] \<or> (\<exists>p \<in> set space_seqs. prefix p s) then []
     else (let w = snd (decode_rune s) in take w s @ first_field_fuel n (drop w s)))"

definition first_field :: "string \<Rightarrow> string" where
  "first_field s = (let t = trim_left_space s in first_field_fuel (length t) t)"

definition parse_brief_line :: "string \<times> string \<Rightarrow> string \<Rightarrow> string \<times> string" where
  "parse_brief_line = (\<lambda>(scope, mode) row.
     (let t = trim_space row; low = to_lower t;
          sf = first_field (drop 6 t); mf = first_field (drop 5 t);
          scope1 = (if has_prefix low ''scope:''
            then (let x = (if sf \<noteq> [] then sf else scope) in if x = ''(unscoped)'' then [] else x) else scope);
          mode1 = (if has_prefix low ''mode:'' \<and> mf \<noteq> [] then mf else mode)
      in (scope1, mode1)))"

definition parseBriefScopeMode :: "string \<Rightarrow> string \<times> string" where
  "parseBriefScopeMode sect = foldl parse_brief_line ([], []) (split_on (CHR 0x0A) sect)"

definition entity_name :: "string \<Rightarrow> string" where
  "entity_name row = (let t = trim_space row in
     if \<not> has_prefix t ''### '' then []
     else (let rest = trim_space (drop 4 t);
               nm = takeWhile (\<lambda>ch. ch \<notin> {CHR '' '', CHR 0x09, CHR ''(''}) rest
           in trim_space (if nm = [] then rest else nm)))"

definition parseMiniEntityTypes :: "string \<Rightarrow> string list" where
  "parseMiniEntityTypes sect =
     foldl (\<lambda>out nm. if nm = [] \<or> nm \<in> set out then out else out @ [nm]) []
       (map entity_name (split_on (CHR 0x0A) sect))"

definition runePreview :: "string \<Rightarrow> nat \<Rightarrow> string" where
  "runePreview s n = (if rune_count s \<le> n then s else take_runes n s)"

record InjectSection =
  is_present :: bool
  is_chars :: nat
  is_sha12 :: string
  is_preview :: string
  is_scope_line :: string
  is_mode_line :: string
  is_entity_types :: "string list"

definition InjectSection_Map :: "InjectSection \<Rightarrow> gmap" where
  "InjectSection_Map s =
     (if \<not> is_present s then [(''present'', GBool False), (''chars'', GInt 0)]
      else [(''present'', GBool True), (''chars'', GInt (int (is_chars s))), (''sha12'', GStr (is_sha12 s)),
            (''preview'', GStr (is_preview s))] @
        entry_field ''scope_line'' (is_scope_line s) @ entry_field ''mode_line'' (is_mode_line s) @
        (if is_entity_types s \<noteq> [] then [(''entity_types'', GArr (map GStr (is_entity_types s)))] else []))"

definition absentSection :: InjectSection where
  "absentSection = \<lparr>is_present = False, is_chars = 0, is_sha12 = [], is_preview = [], is_scope_line = [],
     is_mode_line = [], is_entity_types = []\<rparr>"

definition injectSection :: "(string \<Rightarrow> string) \<Rightarrow> string \<Rightarrow> string \<Rightarrow> InjectSection" where
  "injectSection sha sliceText kind = (let s = trim_space sliceText in
     if s = [] then absentSection
     else (let (scope, mode) = (if kind = ''brief'' then parseBriefScopeMode s else ([], [])) in
       \<lparr>is_present = True, is_chars = length s, is_sha12 = SHA12 sha s,
        is_preview = runePreview s injectPreviewMax, is_scope_line = scope, is_mode_line = mode,
        is_entity_types = (if kind = ''mini'' then parseMiniEntityTypes s else [])\<rparr>))"

record InjectBag =
  ib_source :: string
  ib_system_chars :: nat
  ib_scope_brief :: InjectSection
  ib_mini_schema :: InjectSection

definition InjectBag_Map :: "InjectBag \<Rightarrow> gmap" where
  "InjectBag_Map b =
     [(''source'', GStr (if ib_source b = [] then ''client_llm'' else ib_source b)),
      (''system_chars'', GInt (int (ib_system_chars b))),
      (''scope_brief'', GObj (InjectSection_Map (ib_scope_brief b))),
      (''mini_schema'', GObj (InjectSection_Map (ib_mini_schema b)))]"

definition BriefSHA12 :: "InjectBag \<Rightarrow> string" where "BriefSHA12 b = is_sha12 (ib_scope_brief b)"
definition MiniSHA12 :: "InjectBag \<Rightarrow> string" where "MiniSHA12 b = is_sha12 (ib_mini_schema b)"

definition InjectProofBag :: "(string \<Rightarrow> string) \<Rightarrow> string \<Rightarrow> string \<Rightarrow> InjectBag" where
  "InjectProofBag sha system source =
     \<lparr>ib_source = (if source = [] then ''client_llm'' else source), ib_system_chars = length system,
      ib_scope_brief = injectSection sha (SliceBlock system ''brief'') ''brief'',
      ib_mini_schema = injectSection sha (SliceBlock system ''mini'') ''mini''\<rparr>"

section \<open>Facts\<close>

lemma index_after_gap:
  assumes "\<not> str_contains a h" and "h \<noteq> []" and "gap \<noteq> []" and "set gap \<inter> set h = {}"
  shows "str_index (a @ gap @ h @ b) h = Some (length a + length gap)"
proof -
  let ?s = "a @ gap @ h @ b"
  obtain i where i: "str_index ?s h = Some i"
    using str_index_append_None [of "a @ gap" h b] by auto
  have le: "i \<le> length a + length gap" using str_index_append_skip [of "a @ gap" h b i] i by simp
  from str_index_split [OF i] have at: "?s ! (i + k) = h ! k" if "k < length h" for k
    using that by (metis append_take_drop_id length_take min.absorb2 nth_append_length_plus nth_append add_leD1)
  have "i = length a + length gap"
  proof (rule ccontr)
    assume "i \<noteq> length a + length gap"
    with le have lt: "i < length a + length gap" by simp
    show False
    proof (cases "i + length h \<le> length a")
      case True
      have "take (length h) (drop i a) = h"
        using at True by (intro nth_equalityI) (auto simp: nth_append)
      then have "a = take i a @ h @ drop (i + length h) a"
        by (metis append_take_drop_id drop_drop add.commute)
      with assms(1) show False by (auto simp: str_contains_iff)
    next
      case False
      define j where "j = max i (length a)"
      have j: "i \<le> j" "j < i + length h" "length a \<le> j" "j < length a + length gap"
        using False lt assms(2,3) by (auto simp: j_def max_def)
      have "?s ! j = h ! (j - i)" using at [of "j - i"] j by simp
      moreover have gj: "j - length a < length gap" using j(3,4) by linarith
      moreover have "?s ! j = gap ! (j - length a)" using gj j by (simp add: nth_append)
      ultimately have "h ! (j - i) = gap ! (j - length a)" by simp
      moreover have "h ! (j - i) \<in> set h" "gap ! (j - length a) \<in> set gap" using j by (auto intro!: nth_mem)
      ultimately show False using assms(4) by auto
    qed
  qed
  with i show ?thesis by simp
qed

lemma RenderTrailInject_heading:
  "RenderTrailInject ff es n = [] \<or> (\<exists>b. RenderTrailInject ff es n = TrailHeading @ b)"
  by (cases "map (trail_line ff) (take (nat n) es)") (auto simp: RenderTrailInject_def Let_def)

lemma upsert_twice:
  assumes "\<not> str_contains content TrailHeading"
  shows "upsert_content (upsert_content content (TrailHeading @ b)) snippet = upsert_content content snippet"
proof -
  let ?c = "trim_right_set trailingWS content" and ?nn = "[CHR 0x0A, CHR 0x0A]"
  have nc: "\<not> str_contains ?c TrailHeading"
    using assms trim_right_set_prefix [of trailingWS content] unfolding str_contains_iff prefix_def
    by (metis append.assoc)
  have g: "set ?nn \<inter> set TrailHeading = {}" by code_simp
  have i: "str_index (?c @ ?nn @ TrailHeading @ b) TrailHeading = Some (length ?c + 2)"
    using index_after_gap [OF nc _ _ g, of b] by (simp add: TrailHeading_def)
  have f: "upsert_content content x = ?c @ ?nn @ x" for x
    using assms by (simp add: upsert_content_def)
  have t: "trim_right_set trailingWS (?c @ ?nn) = ?c"
    by (subst trim_right_set_cutoff) (simp_all add: trailingWS_def)
  have "take (length ?c + 2) (?c @ ?nn @ TrailHeading @ b) = ?c @ ?nn" by simp
  with i t have "upsert_content (?c @ ?nn @ TrailHeading @ b) snippet = ?c @ ?nn @ snippet"
    by (simp add: upsert_content_def str_contains_def str_cut_def)
  then show ?thesis by (simp add: f)
qed

section \<open>Properties\<close>

text \<open>The trail is replaced, never accumulated: on a system prompt without the heading, upserting one
  rendered trail after another leaves the prompt as if only the last had been upserted, and no other
  message, nor any other field of the system message, changes.\<close>

theorem UpsertTrail_replaces:
  assumes "\<not> str_contains (asString (mget sys ''content'')) TrailHeading"
    and "RenderTrailInject ff es n \<noteq> []" and "snippet \<noteq> []"
  shows "UpsertTrailOnSystem (UpsertTrailOnSystem (GObj sys # rest) (RenderTrailInject ff es n)) snippet =
      UpsertTrailOnSystem (GObj sys # rest) snippet \<and>
    tl (UpsertTrailOnSystem (GObj sys # rest) snippet) = rest \<and>
    (\<exists>sys'. hd (UpsertTrailOnSystem (GObj sys # rest) snippet) = GObj sys' \<and>
      (\<forall>k. k \<noteq> ''content'' \<longrightarrow> mget sys' k = mget sys k))"
proof -
  obtain b where r: "RenderTrailInject ff es n = TrailHeading @ b"
    using RenderTrailInject_heading [of ff es n] assms(2) by blast
  have m: "mget (amap_put ''content'' x sys) k = (if k = ''content'' then x else mget sys k)" for x k
    by (simp add: mget_put)
  have p: "amap_put ''content'' y (amap_put ''content'' x sys) = amap_put ''content'' y sys" for x y
    by (induction sys) auto
  show ?thesis
    using assms upsert_twice [OF assms(1), of b snippet] by (simp add: UpsertTrailOnSystem_def r m p)
qed

lemma UpsertTrail_replaces_witness:
  "UpsertTrailOnSystem (UpsertTrailOnSystem [GObj [(''role'', GStr ''system''), (''content'', GStr ''Be kind.'')]]
      (RenderTrailInject (\<lambda>x. []) [[(''seq'', GInt 1), (''ok'', GBool True)]] 8)) ''x'' =
   UpsertTrailOnSystem [GObj [(''role'', GStr ''system''), (''content'', GStr ''Be kind.'')]] ''x''"
proof -
  have "\<not> str_contains (asString (mget [(''role'', GStr ''system''), (''content'', GStr ''Be kind.'')] ''content'')) TrailHeading"
    "RenderTrailInject (\<lambda>x. []) [[(''seq'', GInt 1), (''ok'', GBool True)]] 8 \<noteq> []" by code_simp+
  from UpsertTrail_replaces [OF this, of "''x''" "[]"] show ?thesis by simp
qed

end
