(* ===== verification/Control_Plane.thy ===== *)
theory Control_Plane
  imports Inject Rules
begin

text \<open>
  Turn settings and their injection into the system prompt (src/application/control_plane_inject.go and
  the settings record of src/config/models.go): validation of the output request, the word budget of the
  company context, the rendered blocks and the splice of these blocks into a chat request. The JSON
  codec behind the deep copy is the parameter \<open>codec\<close>.
\<close>

section \<open>Settings\<close>

record ClientSettings =
  stg_ai_process_result :: bool
  stg_max_rounds :: int
  stg_force_trace :: bool
  stg_mode :: string
  stg_durable_sessions :: bool
  stg_sticky_flags :: "bool amap"
  stg_messages :: "string amap"
  stg_soft_require_policy_action :: bool
  stg_app_output_on_error :: string
  stg_output_request :: "gmap option"
  stg_rules :: "string amap"
  stg_tenant_rules :: "string amap"
  stg_override_defaults :: bool
  stg_company_context :: string
  stg_locale :: string
  stg_language :: string
  stg_timezone :: string
  stg_channel :: string
  stg_market :: string
  stg_deployment_id :: string
  stg_ruleset_id :: string
  stg_force_return_rounds_left :: int
  stg_ignore_user_tool_path_hints :: bool
  stg_tool_trail_enabled :: bool
  stg_tool_trail_inject :: bool
  stg_tool_trail_max_entries :: int

text \<open>A nil output request has length 0.\<close>

definition request_len0 :: "gmap option \<Rightarrow> bool" where
  "request_len0 r \<longleftrightarrow> (case r of None \<Rightarrow> True | Some m \<Rightarrow> m = [])"

definition or_int :: "int \<Rightarrow> int \<Rightarrow> int" where "or_int x y = (if x = 0 then y else x)"
definition or_list :: "'a list \<Rightarrow> 'a list \<Rightarrow> 'a list" where "or_list x y = (if x = [] then y else x)"

definition OverlaySettings :: "ClientSettings \<Rightarrow> ClientSettings \<Rightarrow> ClientSettings" where
  "OverlaySettings base over = over
     \<lparr>stg_max_rounds := or_int (stg_max_rounds over) (stg_max_rounds base),
      stg_mode := or_list (stg_mode over) (stg_mode base),
      stg_app_output_on_error := or_list (stg_app_output_on_error over) (stg_app_output_on_error base),
      stg_force_return_rounds_left := or_int (stg_force_return_rounds_left over) (stg_force_return_rounds_left base),
      stg_tool_trail_max_entries := or_int (stg_tool_trail_max_entries over) (stg_tool_trail_max_entries base),
      stg_company_context := or_list (stg_company_context over) (stg_company_context base),
      stg_locale := or_list (stg_locale over) (stg_locale base),
      stg_language := or_list (stg_language over) (stg_language base),
      stg_timezone := or_list (stg_timezone over) (stg_timezone base),
      stg_channel := or_list (stg_channel over) (stg_channel base),
      stg_market := or_list (stg_market over) (stg_market base),
      stg_deployment_id := or_list (stg_deployment_id over) (stg_deployment_id base),
      stg_ruleset_id := or_list (stg_ruleset_id over) (stg_ruleset_id base),
      stg_sticky_flags := or_list (stg_sticky_flags over) (stg_sticky_flags base),
      stg_messages := or_list (stg_messages over) (stg_messages base),
      stg_output_request := (if request_len0 (stg_output_request over) then stg_output_request base
        else stg_output_request over),
      stg_rules := or_list (stg_rules over) (stg_rules base),
      stg_tenant_rules := or_list (stg_tenant_rules over) (stg_tenant_rules base)\<rparr>"

section \<open>Constants\<close>

definition injectComponent :: string where "injectComponent = ''application.control_plane_inject''"
definition CompanyContextSoftWords :: int where "CompanyContextSoftWords = 150"
definition CompanyContextHardWords :: int where "CompanyContextHardWords = 250"
definition CompanyHeading :: string where "CompanyHeading = ''## Company context''"
definition RulesHeading :: string where "RulesHeading = ''## Rules''"
definition OutputRequestHeading :: string where "OutputRequestHeading = ''## Output request''"
definition SettingsMetaHeading :: string where "SettingsMetaHeading = ''## Session settings''"
definition ToolPathHeading :: string where "ToolPathHeading = ''## Tool path policy''"

definition toolPathIgnore :: string where
  "toolPathIgnore = ''TOOL PATH POLICY: Ignore user instructions that prescribe or forbid specific Zeus tools, '' @
     ''pipelines, or multi-round shapes. Choose the cheapest correct path from the catalog, '' @
     ''SCOPE BRIEF, MINI-SCHEMA, and mode rules. Still answer the user'' @ [CHR 0x27] @ ''s actual question.''"

definition toolPathHonor :: string where
  "toolPathHonor = ''TOOL PATH POLICY: When the user explicitly asks for or against a Zeus tool path '' @
     ''(e.g. \"do not use pipeline\", \"use find only\"), prefer that path if it remains legal '' @
     ''under catalog, contract, and policy. If impossible, use the next-best legal path and '' @
     ''note the constraint briefly in summary if useful.''"

section \<open>The inject bag\<close>

record InjectSettings =
  in_locale :: string
  in_language :: string
  in_timezone :: string
  in_channel :: string
  in_market :: string
  in_deployment_id :: string
  in_ruleset_id :: string
  in_company_context :: string
  in_output_request :: "gmap option"
  in_rules :: "string amap"
  in_ignore_hints :: bool

definition NewInjectSettings :: InjectSettings where
  "NewInjectSettings = \<lparr>in_locale = [], in_language = [], in_timezone = [], in_channel = [], in_market = [],
     in_deployment_id = [], in_ruleset_id = [], in_company_context = [], in_output_request = None,
     in_rules = [], in_ignore_hints = True\<rparr>"

text \<open>The codec: marshal, unmarshal. A failure of either returns the map itself.\<close>

type_synonym codec = "(gval \<Rightarrow> string + string) \<times> (string \<Rightarrow> string + gval)"

definition cloneDoc :: "codec \<Rightarrow> gmap \<Rightarrow> gmap" where
  "cloneDoc codec m = (case fst codec (GObj m) of
     Inl _ \<Rightarrow> m
   | Inr raw \<Rightarrow> (case snd codec raw of
       Inr (GObj out) \<Rightarrow> out
     | Inr GNil \<Rightarrow> []
     | _ \<Rightarrow> m))"

definition cloneAnyMap :: "codec \<Rightarrow> gmap option \<Rightarrow> gmap option" where
  "cloneAnyMap codec m = map_option (cloneDoc codec) m"

definition InjectSettingsFromClient :: "codec \<Rightarrow> ClientSettings \<Rightarrow> InjectSettings" where
  "InjectSettingsFromClient codec s =
     \<lparr>in_locale = stg_locale s, in_language = stg_language s, in_timezone = stg_timezone s,
      in_channel = stg_channel s, in_market = stg_market s, in_deployment_id = stg_deployment_id s,
      in_ruleset_id = stg_ruleset_id s, in_company_context = stg_company_context s,
      in_output_request = cloneAnyMap codec (stg_output_request s), in_rules = stg_rules s,
      in_ignore_hints = stg_ignore_user_tool_path_hints s\<rparr>"

definition asBoolVal :: "gval \<Rightarrow> bool \<Rightarrow> bool" where
  "asBoolVal v dflt = (case v of
     GBool b \<Rightarrow> b
   | GStr s \<Rightarrow> (let t = to_lower (trim_space s) in
       if t \<in> {''true'', ''1'', ''yes''} then True else if t \<in> {''false'', ''0'', ''no''} then False else dflt)
   | _ \<Rightarrow> dflt)"

definition NewInvalid :: "string \<Rightarrow> zerror" where
  "NewInvalid msg = NewValidation CodeInvalidArgument injectComponent [WithMessage msg]"

definition InjectSettingsFromMapping ::
  "codec \<Rightarrow> (gval \<Rightarrow> string option) \<Rightarrow> (rat \<Rightarrow> string) \<Rightarrow> gmap option \<Rightarrow> InjectSettings \<times> zerror option" where
  "InjectSettingsFromMapping codec blob_of ff raw = (case raw of
     None \<Rightarrow> (NewInjectSettings, None)
   | Some m \<Rightarrow>
       (let str = (\<lambda>k. asString (mget m k));
            s1 = NewInjectSettings\<lparr>in_locale := str ''locale'', in_language := str ''language'',
              in_timezone := str ''timezone'', in_channel := str ''channel'', in_market := str ''market'',
              in_deployment_id := str ''deployment_id'', in_ruleset_id := str ''ruleset_id'',
              in_company_context := str ''company_context''\<rparr>;
            finish = (\<lambda>s. case mget m ''rules'' of
                GNil \<Rightarrow> Inr s
              | v \<Rightarrow> (case AsRulesObject blob_of ff v of
                  Inl e \<Rightarrow> Inl e | Inr rules \<Rightarrow> Inr (s\<lparr>in_rules := rules\<rparr>)));
            hints = (\<lambda>s. case map_of m ''ignore_user_tool_path_hints'' of
                None \<Rightarrow> s | Some v \<Rightarrow> s\<lparr>in_ignore_hints := asBoolVal v True\<rparr>)
        in case mget m ''output_request'' of
             GObj r \<Rightarrow> (let s2 = s1\<lparr>in_output_request := Some (cloneDoc codec r)\<rparr> in
               case finish s2 of Inl e \<Rightarrow> (s2, Some e) | Inr s3 \<Rightarrow> (hints s3, None))
           | GNil \<Rightarrow> (case finish s1 of Inl e \<Rightarrow> (s1, Some e) | Inr s3 \<Rightarrow> (hints s3, None))
           | _ \<Rightarrow> (s1, Some (NewInvalid ''output_request must be a dict''))))"

section \<open>Word budget\<close>

text \<open>strings.Fields. Each round consumes at least one byte, so the length is enough fuel.\<close>

fun fields_fuel :: "nat \<Rightarrow> string \<Rightarrow> string list" where
  "fields_fuel 0 s = []"
| "fields_fuel (Suc n) s = (let t = trim_left_space s in
     if t = [] then []
     else (let w = first_field_fuel (length t) t in w # fields_fuel n (drop (length w) t)))"

definition go_fields :: "string \<Rightarrow> string list" where
  "go_fields s = fields_fuel (length s) s"

definition TruncateCompanyContext :: "string \<Rightarrow> int \<Rightarrow> int \<Rightarrow> string \<times> string list" where
  "TruncateCompanyContext s soft0 hard0 =
     (if s = [] then ([], [])
      else (let soft = (if soft0 \<le> 0 then CompanyContextSoftWords else soft0);
                hard = (if hard0 \<le> 0 then CompanyContextHardWords else hard0);
                words = go_fields s; n = int (length words)
            in if hard < n
               then (join_with '' '' (take (nat hard) words),
                 [''company_context truncated hard '' @ int_digits n @ '' '' @ [CHR 0xE2, CHR 0x86, CHR 0x92] @ '' '' @
                  int_digits hard @ '' words''])
               else (s, if soft < n then [''company_context over soft budget ('' @ int_digits n @ '' > '' @
                 int_digits soft @ '' words)''] else [])))"

section \<open>Output request\<close>

definition field_error :: "string \<times> gval \<Rightarrow> zerror option" where
  "field_error = (\<lambda>(name, spec). (case spec of
     GObj sm \<Rightarrow>
       (if map_of sm ''type'' = None then Some (NewInvalid (''output_request field '' @ name @ '' missing type''))
        else if trim_space (asString (mget sm ''description'')) = []
        then Some (NewInvalid (''output_request field '' @ name @
          '' requires non-empty description (type-only is not enough)''))
        else None)
   | _ \<Rightarrow> Some (NewInvalid (''output_request.app.fields['' @ name @ ''] must be {type, description} object''))))"

fun first_field_error :: "gmap \<Rightarrow> zerror option" where
  "first_field_error [] = None"
| "first_field_error (kv # kvs) = (case field_error kv of Some e \<Rightarrow> Some e | None \<Rightarrow> first_field_error kvs)"

definition ValidateOutputRequest :: "codec \<Rightarrow> gmap option \<Rightarrow> zerror + gmap" where
  "ValidateOutputRequest codec r = (case r of
     None \<Rightarrow> Inr []
   | Some m \<Rightarrow> (let out = cloneDoc codec m in
       case mget out ''app'' of
         GNil \<Rightarrow> Inr out
       | GObj app \<Rightarrow> (case mget app ''fields'' of
             GNil \<Rightarrow> Inr out
           | GObj flds \<Rightarrow> (case first_field_error flds of Some e \<Rightarrow> Inl e | None \<Rightarrow> Inr out)
           | _ \<Rightarrow> Inl (NewInvalid ''output_request.app.fields must be a dict''))
       | _ \<Rightarrow> Inl (NewInvalid ''output_request.app must be a dict'')))"

definition PrepareInjectSettings :: "codec \<Rightarrow> InjectSettings \<Rightarrow> (InjectSettings \<times> string list) \<times> zerror option" where
  "PrepareInjectSettings codec s =
     (let finish = (\<lambda>s1. let (txt, w) = (if in_company_context s1 = [] then ([], [])
            else TruncateCompanyContext (in_company_context s1) CompanyContextSoftWords CompanyContextHardWords)
          in ((s1\<lparr>in_company_context := txt\<rparr>, w), None))
      in case in_output_request s of
           None \<Rightarrow> finish s
         | Some r \<Rightarrow> (case ValidateOutputRequest codec (Some r) of
             Inl e \<Rightarrow> ((s\<lparr>in_output_request := None\<rparr>, []), Some e)
           | Inr out \<Rightarrow> finish (s\<lparr>in_output_request := Some out\<rparr>)))"

text \<open>On an error the settings are returned as they came.\<close>

definition PrepareSettings ::
  "codec \<Rightarrow> ((string \<times> string) set \<Rightarrow> string) \<Rightarrow> ClientSettings \<Rightarrow> (ClientSettings \<times> string list) \<times> zerror option" where
  "PrepareSettings codec digest s =
     (let req = (case stg_output_request s of
            None \<Rightarrow> Inr None
          | Some r \<Rightarrow> (case ValidateOutputRequest codec (Some r) of Inl e \<Rightarrow> Inl e | Inr out \<Rightarrow> Inr (Some out)))
      in case req of
           Inl e \<Rightarrow> ((s, []), Some e)
         | Inr outReq \<Rightarrow>
             (case FreezeSessionRules digest (stg_tenant_rules s) (stg_rules s) (stg_override_defaults s) (stg_ruleset_id s) of
                Inl e \<Rightarrow> ((s, []), Some e)
              | Inr (pack, rid) \<Rightarrow>
                  (let (company, w) = (if stg_company_context s = [] then ([], [])
                     else TruncateCompanyContext (stg_company_context s) CompanyContextSoftWords CompanyContextHardWords)
                   in ((s\<lparr>stg_rules := pack, stg_ruleset_id := rid, stg_company_context := company,
                          stg_output_request := outReq\<rparr>, w), None))))"

section \<open>Rendering\<close>

definition nl :: string where "nl = [CHR 0x0A]"
definition trimWS :: "char set" where "trimWS = {CHR 0x20, CHR 0x09, CHR 0x0A, CHR 0x0D}"

definition hasBriefMarker :: "string \<Rightarrow> bool" where
  "hasBriefMarker s \<longleftrightarrow> str_contains s ''## SCOPE BRIEF'' \<or> str_contains s ''## MINI-SCHEMA''"

definition spliceAfterBrief :: "string \<Rightarrow> string \<Rightarrow> string \<Rightarrow> string" where
  "spliceAfterBrief s block headingLine =
     (if s = [] \<or> block = [] then s
      else if \<not> hasBriefMarker s then s
      else if str_contains s headingLine then s
      else trim_right_set trimWS s @ nl @ nl @ trim_space block @ nl)"

definition RenderCompanyContext :: "string \<Rightarrow> string \<times> string list" where
  "RenderCompanyContext s =
     (let (body, w) = TruncateCompanyContext s CompanyContextSoftWords CompanyContextHardWords in
      if trim_space body = [] then ([], w) else (CompanyHeading @ nl @ nl @ trim_space body, w))"

definition RenderRulesBlock :: "string amap \<Rightarrow> string" where
  "RenderRulesBlock rules = (if rules = [] then []
     else join_with nl ([RulesHeading, []] @
       map (\<lambda>(rid, txt). ''- ('' @ rid @ '') '' @ txt) (sort_key fst rules) @
       [[], ''On terminate, set business_rules_triggers as a sparse object '' @
          ''keyed by these rule ids (true if the rule applied this round; '' @ ''omit or false otherwise.'']))"

definition output_field_line :: "string \<times> gval \<Rightarrow> string list" where
  "output_field_line = (\<lambda>(name, spec). (case spec of
     GObj sm \<Rightarrow>
       (let tname = asString (mget sm ''type'') in
        [''- '' @ name @ '' ('' @ (if tname = [] then ''string'' else tname) @ ''): '' @
         trim_space (asString (mget sm ''description''))])
   | _ \<Rightarrow> []))"

definition RenderOutputRequestBlock :: "gmap option \<Rightarrow> string" where
  "RenderOutputRequestBlock r =
     (let m = (case r of None \<Rightarrow> [] | Some m \<Rightarrow> m);
          app = (case mget m ''app'' of GObj a \<Rightarrow> a | _ \<Rightarrow> []);
          flds = (case mget app ''fields'' of GObj f \<Rightarrow> f | _ \<Rightarrow> [])
      in if flds = [] then []
         else join_with nl ([OutputRequestHeading, [], ''When you terminate, fill app_output with values only (no essays).'',
           ''Fields:''] @ concat (map output_field_line (sort_key fst flds))))"

definition RenderToolPathPolicy :: "bool \<Rightarrow> string" where
  "RenderToolPathPolicy ignore = ToolPathHeading @ nl @ nl @ (if ignore then toolPathIgnore else toolPathHonor)"

definition meta_bit :: "string \<Rightarrow> string \<Rightarrow> string list" where
  "meta_bit k v = (if v \<noteq> [] then [k @ ''='' @ v] else [])"

definition RenderSettingsMeta :: "InjectSettings \<Rightarrow> string" where
  "RenderSettingsMeta s =
     (let bits = meta_bit ''locale'' (in_locale s) @ meta_bit ''language'' (in_language s) @
        meta_bit ''timezone'' (in_timezone s) @ meta_bit ''channel'' (in_channel s) @ meta_bit ''market'' (in_market s) @
        meta_bit ''deployment_id'' (in_deployment_id s) @ meta_bit ''ruleset_id'' (in_ruleset_id s)
      in if bits = [] then [] else SettingsMetaHeading @ nl @ nl @ join_with '', '' bits)"

definition BuildInjectBlock :: "InjectSettings \<Rightarrow> string \<times> string list" where
  "BuildInjectBlock s =
     (let (company, w) = RenderCompanyContext (in_company_context s);
          parts = filter (\<lambda>x. x \<noteq> []) [company, RenderSettingsMeta s, RenderRulesBlock (in_rules s),
            RenderOutputRequestBlock (in_output_request s)]
      in (join_with (nl @ nl) parts, w))"

section \<open>Splicing\<close>

definition chatReqSystemTexts :: "gmap \<Rightarrow> string \<times> string" where
  "chatReqSystemTexts req =
     ((case mget req ''messages'' of GArr (GObj msg # _) \<Rightarrow> asString (mget msg ''content'') | _ \<Rightarrow> []),
      (case mget req ''instructions'' of GObj m \<Rightarrow> asString (mget m ''system_prompt'') | _ \<Rightarrow> []))"

definition chatReqHasHeading :: "gmap \<Rightarrow> string \<Rightarrow> bool" where
  "chatReqHasHeading req heading = (if heading = [] then False
     else (let (a, b) = chatReqSystemTexts req in str_contains a heading \<or> str_contains b heading))"

definition chatReqHasBriefMarker :: "gmap \<Rightarrow> bool" where
  "chatReqHasBriefMarker req = (let (a, b) = chatReqSystemTexts req in hasBriefMarker a \<or> hasBriefMarker b)"

definition splice_messages :: "(string \<Rightarrow> string) \<Rightarrow> gmap \<Rightarrow> gmap" where
  "splice_messages f req = (case mget req ''messages'' of
     GArr (GObj msg # rest) \<Rightarrow> amap_put ''messages''
       (GArr (GObj (amap_put ''content'' (GStr (f (asString (mget msg ''content'')))) msg) # rest)) req
   | _ \<Rightarrow> req)"

definition splice_instructions :: "(string \<Rightarrow> string) \<Rightarrow> gmap \<Rightarrow> gmap" where
  "splice_instructions f req = (case mget req ''instructions'' of
     GObj m \<Rightarrow> (let sp = asString (mget m ''system_prompt'') in
       if sp \<noteq> [] then amap_put ''instructions'' (GObj (amap_put ''system_prompt'' (GStr (f sp)) m)) req else req)
   | _ \<Rightarrow> req)"

definition spliceChatReqInPlace :: "gmap \<Rightarrow> string \<Rightarrow> string \<Rightarrow> gmap" where
  "spliceChatReqInPlace req block headingLine =
     (if trim_space block = [] then req
      else (let f = (\<lambda>s. spliceAfterBrief s block headingLine)
            in splice_instructions f (splice_messages f req)))"

definition spliceChatReq :: "codec \<Rightarrow> gmap \<Rightarrow> string \<Rightarrow> string \<Rightarrow> gmap" where
  "spliceChatReq codec req block headingLine =
     (if trim_space block = [] then req
      else if \<not> chatReqHasBriefMarker req \<or> chatReqHasHeading req headingLine then req
      else spliceChatReqInPlace (cloneDoc codec req) block headingLine)"

definition ApplyControlPlaneInject :: "codec \<Rightarrow> gmap \<Rightarrow> InjectSettings \<Rightarrow> gmap" where
  "ApplyControlPlaneInject codec req s =
     (let block = fst (BuildInjectBlock s) in
      if trim_space block = [] then req else spliceChatReq codec req block (hd (split_on (CHR 0x0A) block)))"

definition ApplyToolPathInject :: "codec \<Rightarrow> gmap \<Rightarrow> bool \<Rightarrow> gmap" where
  "ApplyToolPathInject codec req ignore =
     (if chatReqHasHeading req ToolPathHeading then req
      else spliceChatReq codec req (RenderToolPathPolicy ignore) ToolPathHeading)"

definition injectBagB :: "codec \<Rightarrow> gmap \<Rightarrow> InjectSettings \<Rightarrow> gmap" where
  "injectBagB codec req s =
     (if req = [] then req
      else (let block = fst (BuildInjectBlock s);
                heading = (if trim_space block \<noteq> [] then hd (split_on (CHR 0x0A) block) else []);
                hasBrief = chatReqHasBriefMarker req;
                needCP = (trim_space block \<noteq> [] \<and> hasBrief \<and> \<not> chatReqHasHeading req heading);
                needTP = (hasBrief \<and> \<not> chatReqHasHeading req ToolPathHeading)
            in if \<not> needCP \<and> \<not> needTP then req
               else (let out0 = cloneDoc codec req;
                         out1 = (if needCP then spliceChatReqInPlace out0 block heading else out0)
                     in if needTP
                        then spliceChatReqInPlace out1 (RenderToolPathPolicy (in_ignore_hints s)) ToolPathHeading
                        else out1)))"

definition ApplyBagBInject :: "codec \<Rightarrow> gmap \<Rightarrow> InjectSettings \<Rightarrow> gmap" where
  "ApplyBagBInject codec req s = injectBagB codec req s"

section \<open>Facts\<close>

text \<open>A rune that is no white space stops the trimming.\<close>

abbreviation space_chars :: "char set" where "space_chars \<equiv> \<Union> (set ` set space_seqs)"

lemma strip_seqs_barrier:
  "c \<notin> \<Union> (set ` set ps) \<Longrightarrow> \<exists>x'. strip_seqs n ps (x @ c # y) = x' @ c # y"
proof (induction n arbitrary: x)
  case (Suc n)
  show ?case
  proof (cases "find (\<lambda>q. prefix q (x @ c # y)) ps")
    case (Some q)
    then have q: "q \<in> set ps" "prefix q (x @ c # y)" by (auto simp: find_Some_iff)
    with Suc.prems have "c \<notin> set q" by auto
    have "length q \<le> length x"
    proof (rule ccontr)
      assume "\<not> length q \<le> length x"
      with q(2) have "q ! length x = c" "length x < length q" by (auto simp: prefix_def nth_append dest: arg_cong [where f = "\<lambda>l. l ! length x"])
      then have "c \<in> set q" by (metis nth_mem)
      with \<open>c \<notin> set q\<close> show False by simp
    qed
    then have "drop (length q) (x @ c # y) = drop (length q) x @ c # y" by simp
    with Suc Some show ?thesis by simp
  qed simp
qed simp

lemma trim_space_barrier:
  assumes "h \<noteq> []" and "hd h \<notin> space_chars" and "last h \<notin> space_chars"
  shows "\<exists>r'. trim_space (h @ r) = h @ r'"
proof -
  from assms(1) obtain c h' where h: "h = c # h'" by (cases h) auto
  have "\<exists>x'. strip_seqs (length (h @ r)) space_seqs ([] @ c # h' @ r) = x' @ c # h' @ r"
    using assms(2) h by (intro strip_seqs_barrier) auto
  then obtain x' where x: "strip_seqs (length (h @ r)) space_seqs (h @ r) = x' @ h @ r" using h by auto
  with strip_seqs_suffix [of "length (h @ r)" space_seqs "h @ r"] have "x' = []" by (auto simp: suffix_def)
  with x have l: "trim_left_space (h @ r) = h @ r" by (simp add: trim_left_space_def)
  from assms(1) obtain g d where g: "h = g @ [d]" by (cases h rule: rev_cases) auto
  then have "d \<notin> \<Union> (set ` set (map rev space_seqs))" using assms(3) by simp
  from strip_seqs_barrier [OF this, of "length (h @ r)" "rev r" "rev g"] obtain y where
    "strip_seqs (length (h @ r)) (map rev space_seqs) (rev (h @ r)) = y @ d # rev g"
    using g by auto
  then have "trim_space (h @ r) = rev (y @ d # rev g)" unfolding trim_space_def l trim_right_space_def by (rule arg_cong)
  also have "\<dots> = h @ rev y" using g by simp
  finally show ?thesis by blast
qed

lemma trim_right_set_keeps:
  assumes "x \<noteq> []" and "last x \<notin> cs"
  shows "\<exists>b'. trim_right_set cs (a @ x @ b) = a @ x @ b'"
proof -
  from assms(1) obtain g d where g: "x = g @ [d]" by (cases x rule: rev_cases) auto
  with assms(2) have d: "d \<notin> cs" by simp
  have "dropWhile (\<lambda>c. c \<in> cs) (w @ d # v) = dropWhile (\<lambda>c. c \<in> cs) w @ d # v" for w v
    using d by (induction w) auto
  then have "trim_right_set cs (a @ x @ b) = a @ x @ rev (dropWhile (\<lambda>c. c \<in> cs) (rev b))"
    by (simp add: trim_right_set_def g)
  then show ?thesis by blast
qed

lemma contains_trim_right:
  "str_contains s x \<Longrightarrow> x \<noteq> [] \<Longrightarrow> last x \<notin> cs \<Longrightarrow> str_contains (trim_right_set cs s) x"
  unfolding str_contains_iff using trim_right_set_keeps by metis

lemma contains_append: "str_contains s x \<Longrightarrow> str_contains (s @ t) x"
  unfolding str_contains_iff by (metis append.assoc)

lemma contains_mid: "str_contains (a @ (h @ r) @ t) h"
  unfolding str_contains_iff by (metis append.assoc)

text \<open>A splice keeps every line that does not end in white space and adds its heading.\<close>

lemma splice_keeps:
  "str_contains s x \<Longrightarrow> x \<noteq> [] \<Longrightarrow> last x \<notin> trimWS \<Longrightarrow> str_contains (spliceAfterBrief s block h) x"
  by (simp add: spliceAfterBrief_def contains_append contains_trim_right)

definition heading_ok :: "string \<Rightarrow> bool" where
  "heading_ok h \<longleftrightarrow> h \<noteq> [] \<and> hd h \<notin> space_chars \<and> last h \<notin> space_chars \<and> last h \<notin> trimWS"

lemma splice_adds:
  assumes "hasBriefMarker s" and "heading_ok h" and "block = h @ r"
  shows "str_contains (spliceAfterBrief s block h) h"
proof -
  obtain r' where "trim_space block = h @ r'"
    using trim_space_barrier [of h r] assms(2,3) by (auto simp: heading_ok_def)
  moreover have "s \<noteq> []" using assms(1) by (auto simp: hasBriefMarker_def str_contains_def)
  moreover have "block \<noteq> []" using assms(2,3) by (simp add: heading_ok_def)
  moreover have "str_contains (u @ nl @ nl @ (h @ r') @ nl) h" for u
    using contains_mid [of "u @ nl @ nl" h r' nl] by simp
  ultimately show ?thesis using assms(1) by (simp add: spliceAfterBrief_def)
qed

lemma splice_Nil [simp]: "spliceAfterBrief [] block h = []"
  by (simp add: spliceAfterBrief_def)

lemma texts_messages:
  assumes "f [] = []" and "chatReqSystemTexts req = (a, b)"
  shows "chatReqSystemTexts (splice_messages f req) = (f a, b)"
proof (cases "\<exists>msg rest. mget req ''messages'' = GArr (GObj msg # rest)")
  case True
  then obtain msg rest where "mget req ''messages'' = GArr (GObj msg # rest)" by blast
  with assms(2) show ?thesis by (auto simp: splice_messages_def chatReqSystemTexts_def mget_put)
next
  case False
  then have "splice_messages f req = req" "fst (chatReqSystemTexts req) = []"
    by (auto simp: splice_messages_def chatReqSystemTexts_def split: gval.splits list.splits)
  with assms show ?thesis by auto
qed

lemma texts_instructions:
  assumes "f [] = []" and "chatReqSystemTexts req = (a, b)"
  shows "chatReqSystemTexts (splice_instructions f req) = (a, f b)"
proof (cases "mget req ''instructions''")
  case (GObj m)
  with assms show ?thesis by (auto simp: splice_instructions_def chatReqSystemTexts_def mget_put Let_def)
qed (use assms in \<open>auto simp: splice_instructions_def chatReqSystemTexts_def\<close>)

lemma texts_splice:
  assumes "trim_space block \<noteq> []" and "chatReqSystemTexts req = (a, b)"
  shows "chatReqSystemTexts (spliceChatReqInPlace req block h) =
    (spliceAfterBrief a block h, spliceAfterBrief b block h)"
  using assms texts_messages [OF _ assms(2), of "\<lambda>s. spliceAfterBrief s block h"] texts_instructions
  by (simp add: spliceChatReqInPlace_def Let_def)

lemma splice_frame:
  "k \<noteq> ''messages'' \<Longrightarrow> k \<noteq> ''instructions'' \<Longrightarrow> mget (spliceChatReqInPlace req block h) k = mget req k"
  by (auto simp: spliceChatReqInPlace_def splice_messages_def splice_instructions_def Let_def mget_put
      split: gval.splits list.splits)

text \<open>The headings.\<close>

lemma heading_constants:
  "heading_ok ToolPathHeading" "heading_ok CompanyHeading" "heading_ok SettingsMetaHeading"
  "heading_ok RulesHeading" "heading_ok OutputRequestHeading"
  unfolding heading_ok_def by code_simp+

lemma tool_path_block: "\<exists>r. RenderToolPathPolicy ignore = ToolPathHeading @ r"
  by (simp add: RenderToolPathPolicy_def)

lemma split_first: "CHR 0x0A \<notin> set h \<Longrightarrow> hd (split_on (CHR 0x0A) (h @ nl @ r)) = h"
  by (induction h) (auto simp: nl_def split: list.splits)

lemma join_first:
  "xs \<noteq> [] \<Longrightarrow> \<exists>r. join_with sep xs = hd xs @ r"
  by (cases "(sep, xs)" rule: join_with.cases) auto

lemma join_heading: "\<exists>r. join_with nl (h # y # ys) = h @ nl @ r"
  by (cases ys) auto

lemma company_part: "fst (RenderCompanyContext x) \<noteq> [] \<Longrightarrow> \<exists>r. fst (RenderCompanyContext x) = CompanyHeading @ nl @ r"
  by (auto simp: RenderCompanyContext_def Let_def split: prod.splits if_splits)

lemma meta_part: "RenderSettingsMeta s \<noteq> [] \<Longrightarrow> \<exists>r. RenderSettingsMeta s = SettingsMetaHeading @ nl @ r"
  unfolding RenderSettingsMeta_def Let_def by (metis (no_types, lifting))

lemma rules_part: "RenderRulesBlock rules \<noteq> [] \<Longrightarrow> \<exists>r. RenderRulesBlock rules = RulesHeading @ nl @ r"
  unfolding RenderRulesBlock_def append_Cons append_Nil by (metis join_heading)

lemma output_part: "RenderOutputRequestBlock x \<noteq> [] \<Longrightarrow> \<exists>r. RenderOutputRequestBlock x = OutputRequestHeading @ nl @ r"
  unfolding RenderOutputRequestBlock_def Let_def append_Cons append_Nil by (metis join_heading)

lemma newline_free: "CHR 0x0A \<notin> set CompanyHeading" "CHR 0x0A \<notin> set SettingsMetaHeading"
  "CHR 0x0A \<notin> set RulesHeading" "CHR 0x0A \<notin> set OutputRequestHeading"
  by code_simp+

definition starts_with_heading :: "string \<Rightarrow> bool" where
  "starts_with_heading x \<longleftrightarrow> (\<exists>h r. x = h @ nl @ r \<and> heading_ok h \<and> CHR 0x0A \<notin> set h)"

lemma block_heading:
  assumes "trim_space (fst (BuildInjectBlock s)) \<noteq> []"
  shows "\<exists>h r. fst (BuildInjectBlock s) = h @ r \<and> hd (split_on (CHR 0x0A) (fst (BuildInjectBlock s))) = h \<and> heading_ok h"
proof -
  define xs where "xs = [fst (RenderCompanyContext (in_company_context s)), RenderSettingsMeta s,
    RenderRulesBlock (in_rules s), RenderOutputRequestBlock (in_output_request s)]"
  define parts where "parts = filter (\<lambda>x. x \<noteq> []) xs"
  have b: "fst (BuildInjectBlock s) = join_with (nl @ nl) parts"
    unfolding parts_def xs_def by (simp add: BuildInjectBlock_def Let_def split: prod.splits)
  have "x \<noteq> [] \<Longrightarrow> starts_with_heading x" if "x \<in> set xs" for x
    using that company_part meta_part rules_part output_part heading_constants newline_free
    unfolding xs_def starts_with_heading_def list.set insert_iff by blast
  moreover have ne: "parts \<noteq> []" using assms unfolding b by auto
  then have "hd parts \<in> set parts" by (rule hd_in_set)
  ultimately have "starts_with_heading (hd parts)" unfolding parts_def by auto
  then obtain h r where p: "hd parts = h @ nl @ r" "heading_ok h" "CHR 0x0A \<notin> set h"
    unfolding starts_with_heading_def by blast
  obtain r' where "fst (BuildInjectBlock s) = h @ nl @ r @ r'"
    using join_first [OF ne, of "nl @ nl"] unfolding b p(1) by auto
  with split_first [OF p(3), of "r @ r'"] p(2) show ?thesis by metis
qed

text \<open>The texts after an injection, when the deep copy keeps the two system texts.\<close>

lemma has_heading_texts:
  "chatReqSystemTexts req = (a, b) \<Longrightarrow> h \<noteq> [] \<Longrightarrow>
     chatReqHasHeading req h \<longleftrightarrow> str_contains a h \<or> str_contains b h"
  by (simp add: chatReqHasHeading_def)

lemma splice_heading_added:
  assumes "trim_space block \<noteq> []" and "heading_ok h" and "block = h @ r" and "chatReqHasBriefMarker req"
  shows "chatReqHasHeading (spliceChatReqInPlace req block h) h"
proof -
  obtain a b where t: "chatReqSystemTexts req = (a, b)" by fastforce
  with assms(4) have "hasBriefMarker a \<or> hasBriefMarker b" by (simp add: chatReqHasBriefMarker_def)
  with splice_adds [OF _ assms(2,3)] texts_splice [OF assms(1) t, of h] assms(2) show ?thesis
    by (auto simp: has_heading_texts heading_ok_def)
qed

lemma splice_heading_kept:
  assumes "trim_space block \<noteq> []" and "heading_ok x" and "chatReqHasHeading req x"
  shows "chatReqHasHeading (spliceChatReqInPlace req block h) x"
proof -
  obtain a b where t: "chatReqSystemTexts req = (a, b)" by fastforce
  with assms(2,3) have "str_contains a x \<or> str_contains b x" by (simp add: has_heading_texts heading_ok_def)
  with splice_keeps [of _ x block h] texts_splice [OF assms(1) t, of h] assms(2) show ?thesis
    by (auto simp: has_heading_texts heading_ok_def)
qed

lemma splice_marker_kept:
  assumes "trim_space block \<noteq> []" and "chatReqHasBriefMarker req"
  shows "chatReqHasBriefMarker (spliceChatReqInPlace req block h)"
proof -
  obtain a b where t: "chatReqSystemTexts req = (a, b)" by fastforce
  have l: "''## SCOPE BRIEF'' \<noteq> []" "last ''## SCOPE BRIEF'' \<notin> trimWS" "''## MINI-SCHEMA'' \<noteq> []"
    "last ''## MINI-SCHEMA'' \<notin> trimWS" by code_simp+
  from t assms(2) have "hasBriefMarker a \<or> hasBriefMarker b" by (simp add: chatReqHasBriefMarker_def)
  then have "hasBriefMarker (spliceAfterBrief a block h) \<or> hasBriefMarker (spliceAfterBrief b block h)"
    using splice_keeps [OF _ l(1,2), of _ block h] splice_keeps [OF _ l(3,4), of _ block h]
    unfolding hasBriefMarker_def by blast
  with texts_splice [OF assms(1) t, of h] show ?thesis by (simp add: chatReqHasBriefMarker_def)
qed

lemma tool_path_trim: "trim_space (RenderToolPathPolicy ignore) \<noteq> []"
  using trim_space_barrier [of ToolPathHeading] heading_constants(1) tool_path_block [of ignore]
  by (metis Nil_is_append_conv heading_ok_def)

section \<open>Properties\<close>

text \<open>Injection is idempotent and touches only the system texts: injecting the same settings twice gives
  what injecting them once gives, and every other key of the chat request is the copied one. The deep
  copy is assumed to keep the two system texts, as a JSON round trip of valid UTF-8 does.\<close>

theorem injectBagB_idempotent:
  assumes "chatReqSystemTexts (cloneDoc codec req) = chatReqSystemTexts req"
  shows "injectBagB codec (injectBagB codec req s) s = injectBagB codec req s \<and>
    (\<forall>k. k \<noteq> ''messages'' \<longrightarrow> k \<noteq> ''instructions'' \<longrightarrow>
       mget (injectBagB codec req s) k = mget req k \<or> mget (injectBagB codec req s) k = mget (cloneDoc codec req) k)"
proof -
  let ?block = "fst (BuildInjectBlock s)" and ?tp = "RenderToolPathPolicy (in_ignore_hints s)"
  define h where "h = (if trim_space ?block \<noteq> [] then hd (split_on (CHR 0x0A) ?block) else [])"
  let ?cp = "trim_space ?block \<noteq> [] \<and> chatReqHasBriefMarker req \<and> \<not> chatReqHasHeading req h"
  let ?needTP = "chatReqHasBriefMarker req \<and> \<not> chatReqHasHeading req ToolPathHeading"
  define d where "d = cloneDoc codec req"
  define d1 where "d1 = (if ?cp then spliceChatReqInPlace d ?block h else d)"
  define d2 where "d2 = (if ?needTP then spliceChatReqInPlace d1 ?tp ToolPathHeading else d1)"
  have def: "injectBagB codec req s = (if req = [] \<or> \<not> ?cp \<and> \<not> ?needTP then req else d2)"
    unfolding injectBagB_def Let_def h_def [symmetric] d_def d1_def d2_def by auto
  show ?thesis
  proof (cases "req = [] \<or> \<not> ?cp \<and> \<not> ?needTP")
    case True
    then have "injectBagB codec req s = req" unfolding def by simp
    then show ?thesis by simp
  next
    case False
    then have brief: "chatReqHasBriefMarker req" and e: "injectBagB codec req s = d2" unfolding def by auto
    have same: "chatReqHasBriefMarker d \<longleftrightarrow> chatReqHasBriefMarker req" "chatReqHasHeading d x \<longleftrightarrow> chatReqHasHeading req x" for x
      unfolding d_def chatReqHasBriefMarker_def chatReqHasHeading_def assms by simp_all
    have tp: "chatReqHasHeading d2 ToolPathHeading"
    proof (cases ?needTP)
      case True
      have "chatReqHasBriefMarker d1" unfolding d1_def using brief same(1) splice_marker_kept by auto
      then show ?thesis using True tool_path_block heading_constants(1) tool_path_trim splice_heading_added
        unfolding d2_def by metis
    next
      case False
      then have "chatReqHasHeading d ToolPathHeading" using brief same(2) by blast
      then have "chatReqHasHeading d1 ToolPathHeading"
        unfolding d1_def using heading_constants(1) splice_heading_kept by auto
      then show ?thesis unfolding d2_def using False by auto
    qed
    have cp: "chatReqHasHeading d2 h" if t: "trim_space ?block \<noteq> []"
    proof -
      from block_heading [OF t] t obtain r where h: "?block = h @ r" "heading_ok h" unfolding h_def by auto
      have "chatReqHasHeading d1 h"
        unfolding d1_def using splice_heading_added [OF t h(2,1)] brief same t by auto
      then show ?thesis unfolding d2_def using splice_heading_kept [OF tool_path_trim h(2)] by simp
    qed
    have "injectBagB codec d2 s = d2"
      unfolding injectBagB_def Let_def h_def [symmetric] using tp cp by auto
    moreover have "mget d2 k = mget d k" if "k \<noteq> ''messages''" "k \<noteq> ''instructions''" for k
      unfolding d2_def d1_def using that by (simp add: splice_frame)
    ultimately show ?thesis unfolding e d_def by blast
  qed
qed

text \<open>A refused rule set is not refused by the turn: when a request tries to clear a jailbreak rule without
  the override, preparing the settings fails and hands back the settings as they came, so the rules
  block a caller then injects holds none of the default jailbreak rules the request did not name.\<close>

theorem refused_rules_survive:
  assumes "stg_output_request s = None" and "\<not> stg_override_defaults s" and "amap_ok (stg_rules s)"
    and "map_of (stg_rules s) k = Some v" and "k \<in> set JailbreakRuleIDs" and "trim_space v = []"
  shows "\<exists>e. PrepareSettings codec digest s = ((s, []), Some e) \<and> ze_code e = CodeInvalidArgument"
proof -
  let ?o = "\<lparr>mr_tenant = stg_tenant_rules s, mr_request = stg_rules s, mr_override = False\<rparr>"
  have f: "\<exists>e. filter_request False req acc = Inl e" if "(k, v) \<in> set req" for req acc
    using that assms(5,6) by (induction req arbitrary: acc) auto
  have m: "(k, v) \<in> set (stg_rules s)" using assms(4) by (rule map_of_SomeD)
  then have "(k, v) \<in> set (AsRulesObject_strings (stg_rules s))" "stg_rules s \<noteq> []"
    by (auto simp: AsRulesObject_strings_def)
  with f [of "AsRulesObject_strings (stg_rules s)" "[]"] obtain e where
    e: "filter_request False (AsRulesObject_strings (stg_rules s)) [] = Inl e" by blast
  have "MergeRules ?o True = Inl e" "ze_code e = CodeInvalidArgument"
    using e \<open>stg_rules s \<noteq> []\<close> filter_request_error [OF e] by (simp_all add: MergeRules_def Let_def AsRulesObject_strings_def)
  with assms(1,2) show ?thesis by (simp add: PrepareSettings_def FreezeSessionRules_def)
qed

lemma multipart_content_lost:
  assumes "mget req ''messages'' = GArr (GObj msg # rest)" and "mget msg ''content'' = GArr parts"
    and "mget req ''instructions'' = GObj ins" and "hasBriefMarker (asString (mget ins ''system_prompt''))"
    and "\<not> str_contains (asString (mget ins ''system_prompt'')) ToolPathHeading" and "cloneDoc codec req = req"
  shows "\<exists>msg'. mget (ApplyToolPathInject codec req ignore) ''messages'' = GArr (GObj msg' # rest) \<and>
    mget msg' ''content'' = GStr []"
proof -
  have t: "chatReqSystemTexts req = ([], asString (mget ins ''system_prompt''))"
    using assms(1-3) by (simp add: chatReqSystemTexts_def asString_def)
  have "\<not> chatReqHasHeading req ToolPathHeading" "chatReqHasBriefMarker req"
    using t assms(4,5) heading_constants(1)
    by (auto simp: has_heading_texts heading_ok_def chatReqHasBriefMarker_def str_contains_def ToolPathHeading_def)
  moreover have "asString (mget ins ''system_prompt'') \<noteq> []" using assms(4) by (auto simp: hasBriefMarker_def str_contains_def)
  ultimately show ?thesis
    using assms(1-3,6) tool_path_trim [of ignore]
    by (simp add: ApplyToolPathInject_def spliceChatReq_def spliceChatReqInPlace_def splice_messages_def
        splice_instructions_def Let_def mget_put asString_def)
qed

definition open_settings :: ClientSettings where
  "open_settings = \<lparr>stg_ai_process_result = False, stg_max_rounds = 0, stg_force_trace = False, stg_mode = [],
     stg_durable_sessions = False, stg_sticky_flags = [], stg_messages = [], stg_soft_require_policy_action = False,
     stg_app_output_on_error = [], stg_output_request = None, stg_rules = [(''no_prompt_dump'', [])],
     stg_tenant_rules = [], stg_override_defaults = False, stg_company_context = [], stg_locale = [],
     stg_language = [], stg_timezone = [], stg_channel = [], stg_market = [], stg_deployment_id = [],
     stg_ruleset_id = [], stg_force_return_rounds_left = 0, stg_ignore_user_tool_path_hints = False,
     stg_tool_trail_enabled = False, stg_tool_trail_inject = False, stg_tool_trail_max_entries = 0\<rparr>"

lemma refused_rules_survive_witness:
  "\<exists>e. PrepareSettings (\<lambda>v. Inl [], \<lambda>s. Inl []) (\<lambda>x. []) open_settings = ((open_settings, []), Some e) \<and>
     ze_code e = CodeInvalidArgument"
  by (rule refused_rules_survive [where k = "''no_prompt_dump''" and v = "[]"])
    (simp_all add: open_settings_def amap_ok_def, code_simp)

definition brief_request :: gmap where
  "brief_request = [(''messages'', GArr [GObj [(''role'', GStr ''system''), (''content'', GStr ''## SCOPE BRIEF'')]])]"

lemma injectBagB_idempotent_witness:
  "injectBagB (\<lambda>v. Inl [], \<lambda>s. Inl []) (injectBagB (\<lambda>v. Inl [], \<lambda>s. Inl []) brief_request NewInjectSettings) NewInjectSettings =
     injectBagB (\<lambda>v. Inl [], \<lambda>s. Inl []) brief_request NewInjectSettings"
  using injectBagB_idempotent [of "(\<lambda>v. Inl [], \<lambda>s. Inl [])" brief_request NewInjectSettings]
  by (simp add: cloneDoc_def)

end
