(* ===== verification/Turn_Tools.thy ===== *)
theory Turn_Tools
  imports Tokens Middleware Control_Plane Policy
begin

text \<open>
  The tool round of an agent turn (src/application/agent_turn.go): settings of the turn, argument and
  body helpers, and \<open>executeToolCalls\<close>, which runs the calls of one model response against the Zeus
  port. The world \<open>'s\<close> is what the ports share; reading the clock leaves it alone. The field
  \<open>xs_calls\<close> is a ghost: the calls sent to the two ports so far, in order.
\<close>

section \<open>Ports\<close>

record LlmRequest =
  lq_messages :: "gmap list"
  lq_model :: string
  lq_tools :: "gmap list"
  lq_temperature :: "rat option"
  lq_max_tokens :: "int option"
  lq_conv_id :: string

text \<open>A nil map among the tool calls is \<open>None\<close>.\<close>

record LlmResponse =
  lr_content :: string
  lr_tool_calls :: "gmap option list"
  lr_raw :: gmap
  lr_usage :: gmap

text \<open>An error of a port: a domain error, one that wraps a context error, any other.\<close>

datatype call_error = CallDomain zerror | CallCtx ctx_error | CallOther string

fun call_error_text :: "call_error \<Rightarrow> string" where
  "call_error_text (CallDomain e) = ErrorString e"
| "call_error_text (CallCtx c) = ctx_text c"
| "call_error_text (CallOther t) = t"

fun ctxErrAsDomain :: "call_error \<Rightarrow> zerror option" where
  "ctxErrAsDomain (CallDomain e) = Some e"
| "ctxErrAsDomain (CallCtx c) = FromContext (Some c)"
| "ctxErrAsDomain (CallOther t) = None"

definition ctxErr :: "ctx_error option \<Rightarrow> call_error option" where
  "ctxErr c = map_option CallDomain (FromContext c)"

type_synonym 's llm_port = "LlmRequest \<Rightarrow> 's \<Rightarrow> (call_error + LlmResponse) \<times> 's"
type_synonym 's zeus_port = "VerbRequest \<Rightarrow> 's \<Rightarrow> (call_error + VerbHopResult) \<times> 's"

datatype port_call = LlmCall LlmRequest | VerbCall VerbRequest

record 's tool_env = mw_env +
  te_ff :: "rat \<Rightarrow> string"
  te_codec :: codec
  te_sha :: "string \<Rightarrow> string"
  te_ctx :: "'s \<Rightarrow> ctx_error option"
  te_req_id :: "'s \<Rightarrow> string \<times> 's"
  te_elapsed_ms :: "'s \<Rightarrow> 's \<Rightarrow> int"

section \<open>Settings of a turn\<close>

definition defaultMaxRounds :: int where "defaultMaxRounds = 8"
definition maxToolCallsPerRound :: nat where "maxToolCallsPerRound = 8"
definition maxToolJSONBytes :: nat where "maxToolJSONBytes = 65536"

definition fillTurnSettings :: "ClientSettings \<Rightarrow> ClientSettings" where
  "fillTurnSettings s = s
     \<lparr>stg_max_rounds := (if stg_max_rounds s \<le> 0 then defaultMaxRounds else stg_max_rounds s),
      stg_mode := or_list (stg_mode s) ''analytics'',
      stg_force_return_rounds_left := or_int (stg_force_return_rounds_left s) 1,
      stg_tool_trail_max_entries := (if stg_tool_trail_max_entries s \<le> 0 then 16 else stg_tool_trail_max_entries s),
      stg_app_output_on_error := or_list (stg_app_output_on_error s) ''strip''\<rparr>"

definition clientSettingsZero :: "ClientSettings \<Rightarrow> bool" where
  "clientSettingsZero s \<longleftrightarrow> stg_max_rounds s = 0 \<and> stg_mode s = [] \<and> stg_company_context s = [] \<and>
     stg_app_output_on_error s = [] \<and> stg_locale s = [] \<and> stg_language s = [] \<and> stg_timezone s = [] \<and>
     stg_channel s = [] \<and> stg_market s = [] \<and> stg_deployment_id s = [] \<and> stg_ruleset_id s = [] \<and>
     stg_force_return_rounds_left s = 0 \<and> stg_tool_trail_max_entries s = 0 \<and>
     \<not> stg_ai_process_result s \<and> \<not> stg_force_trace s \<and> \<not> stg_durable_sessions s \<and>
     \<not> stg_soft_require_policy_action s \<and> \<not> stg_ignore_user_tool_path_hints s \<and>
     \<not> stg_tool_trail_enabled s \<and> \<not> stg_tool_trail_inject s \<and> \<not> stg_override_defaults s \<and>
     stg_sticky_flags s = [] \<and> stg_messages s = [] \<and> request_len0 (stg_output_request s) \<and>
     stg_rules s = [] \<and> stg_tenant_rules s = []"

definition overlay_request :: "ClientSettings \<Rightarrow> ClientSettings \<Rightarrow> ClientSettings" where
  "overlay_request out req = out
     \<lparr>stg_ai_process_result := stg_ai_process_result req, stg_force_trace := stg_force_trace req,
      stg_durable_sessions := stg_durable_sessions req, stg_override_defaults := stg_override_defaults req,
      stg_ignore_user_tool_path_hints := stg_ignore_user_tool_path_hints req,
      stg_tool_trail_enabled := stg_tool_trail_enabled req, stg_tool_trail_inject := stg_tool_trail_inject req,
      stg_soft_require_policy_action := stg_soft_require_policy_action req,
      stg_max_rounds := or_int (stg_max_rounds req) (stg_max_rounds out),
      stg_mode := or_list (stg_mode req) (stg_mode out),
      stg_force_return_rounds_left := or_int (stg_force_return_rounds_left req) (stg_force_return_rounds_left out),
      stg_tool_trail_max_entries := or_int (stg_tool_trail_max_entries req) (stg_tool_trail_max_entries out),
      stg_company_context := or_list (stg_company_context req) (stg_company_context out),
      stg_locale := or_list (stg_locale req) (stg_locale out),
      stg_language := or_list (stg_language req) (stg_language out),
      stg_timezone := or_list (stg_timezone req) (stg_timezone out),
      stg_channel := or_list (stg_channel req) (stg_channel out),
      stg_market := or_list (stg_market req) (stg_market out),
      stg_deployment_id := or_list (stg_deployment_id req) (stg_deployment_id out),
      stg_ruleset_id := or_list (stg_ruleset_id req) (stg_ruleset_id out),
      stg_rules := or_list (stg_rules req) (stg_rules out),
      stg_tenant_rules := or_list (stg_tenant_rules req) (stg_tenant_rules out),
      stg_messages := or_list (stg_messages req) (stg_messages out),
      stg_sticky_flags := or_list (stg_sticky_flags req) (stg_sticky_flags out),
      stg_app_output_on_error := or_list (stg_app_output_on_error req) (stg_app_output_on_error out),
      stg_output_request := (case stg_output_request req of None \<Rightarrow> stg_output_request out | Some r \<Rightarrow> Some r)\<rparr>"

definition mergeTurnSettings :: "ClientSettings \<Rightarrow> ClientSettings \<Rightarrow> ClientSettings" where
  "mergeTurnSettings dflt req =
     (if clientSettingsZero req then fillTurnSettings dflt
      else fillTurnSettings (overlay_request (fillTurnSettings dflt) req))"

section \<open>Helpers\<close>

text \<open>\<open>asString\<close> of the application package prints other values.\<close>

definition app_str :: "(rat \<Rightarrow> string) \<Rightarrow> gval \<Rightarrow> string" where
  "app_str ff v = (case v of GNil \<Rightarrow> [] | GStr s \<Rightarrow> s
     | _ \<Rightarrow> (let s = go_sprint ff v in if s = ''<nil>'' then [] else s))"

definition mustJSON :: "codec \<Rightarrow> gval \<Rightarrow> string" where
  "mustJSON codec v = (if v = GNil then [] else (case fst codec v of Inl _ \<Rightarrow> [] | Inr b \<Rightarrow> b))"

definition decode_json :: "codec \<Rightarrow> string \<Rightarrow> gval option" where
  "decode_json codec s = (case snd codec s of Inl _ \<Rightarrow> None | Inr v \<Rightarrow> Some v)"

definition clipStr :: "string \<Rightarrow> nat \<Rightarrow> string" where
  "clipStr s n = (if n = 0 \<or> length s \<le> n then s else take n s)"

definition orAnalytics :: "string \<Rightarrow> string" where
  "orAnalytics mode = (if trim_space mode = [] then ''analytics'' else mode)"

definition parseToolArgs :: "codec \<Rightarrow> gval \<Rightarrow> gmap" where
  "parseToolArgs codec raw = (case raw of
     GObj m \<Rightarrow> m
   | GStr s \<Rightarrow> (case decode_json codec s of Some (GObj m) \<Rightarrow> m | _ \<Rightarrow> [])
   | _ \<Rightarrow> [])"

text \<open>The cut is shortened by bytes until it is valid UTF-8.\<close>

function valid_prefix :: "string \<Rightarrow> string" where
  "valid_prefix s = (if s = [] \<or> utf8_valid s then s else valid_prefix (butlast s))"
  by pat_completeness auto
termination by (relation "measure length") auto

declare valid_prefix.simps [simp del]

definition truncated_mark :: string where
  "truncated_mark = [CHR 0x0A, CHR 0xE2, CHR 0x80, CHR 0xA6] @ ''[truncated]''"

definition truncateToolJSON :: "string \<Rightarrow> string \<times> bool" where
  "truncateToolJSON txt = (if length txt \<le> maxToolJSONBytes then (txt, False)
     else (valid_prefix (take maxToolJSONBytes txt) @ truncated_mark, True))"

lemma map_of_size: "map_of m k = Some v \<Longrightarrow> size v < size (GObj m)"
  by (induction m) (auto split: if_splits)

function isEmptyJSONValue :: "gval \<Rightarrow> bool" where
  "isEmptyJSONValue GNil = True"
| "isEmptyJSONValue (GStr s) = (trim_space s = [])"
| "isEmptyJSONValue (GArr xs) = (xs = [])"
| "isEmptyJSONValue (GObj m) = (if m = [] then True
     else (case List.find (\<lambda>k. map_of m k \<noteq> None) [''rows'', ''items'', ''results'', ''entities'', ''data'', ''result''] of
         None \<Rightarrow> False
       | Some k \<Rightarrow> (case map_of m k of None \<Rightarrow> False | Some v \<Rightarrow> isEmptyJSONValue v)))"
| "isEmptyJSONValue (GBool b) = False"
| "isEmptyJSONValue (GInt n) = False"
| "isEmptyJSONValue (GFloat x) = False"
  by pat_completeness auto
termination by (relation "measure size") (use map_of_size in auto)

definition hasTurnComplete :: "gmap \<Rightarrow> bool" where
  "hasTurnComplete body \<longleftrightarrow> mget body ''turn_complete'' = GBool True"

definition nonblank :: "gval \<Rightarrow> string option" where
  "nonblank v = (case v of GStr s \<Rightarrow> (if trim_space s = [] then None else Some (trim_space s)) | _ \<Rightarrow> None)"

definition summaryFromTerminal :: "gmap \<Rightarrow> gmap \<Rightarrow> string" where
  "summaryFromTerminal body tcArgs =
     (case List.map_filter (\<lambda>k. nonblank (mget body k)) [''summary'', ''answer'', ''message''] of
        s # _ \<Rightarrow> s
      | [] \<Rightarrow> (case mget tcArgs ''summary'' of GStr s \<Rightarrow> trim_space s | _ \<Rightarrow> []))"

definition toolCallName :: "(rat \<Rightarrow> string) \<Rightarrow> gmap \<Rightarrow> gval" where
  "toolCallName ff tc = (case mget tc ''function'' of GObj fn \<Rightarrow> nilIfEmpty (app_str ff (mget fn ''name'')) | _ \<Rightarrow> GNil)"

definition terminateNames :: "string list" where "terminateNames = [''return'', ''return_result'']"
definition orientationVerbs :: "string list" where "orientationVerbs = [''describe'', ''explain'']"

section \<open>One tool call\<close>

record ToolRoundOutcome =
  to_return_seen :: bool
  to_terminal_summary :: string
  to_tool_arg_summary :: string
  to_executed :: int
  to_with_data :: int
  to_with_payload :: int
  to_empty :: int
  to_hops :: "gmap list"
  to_steps :: "gmap list"
  to_return_args :: "gmap option"
  to_terminate_via :: string

definition emptyOutcome :: ToolRoundOutcome where
  "emptyOutcome = \<lparr>to_return_seen = False, to_terminal_summary = [], to_tool_arg_summary = [], to_executed = 0,
     to_with_data = 0, to_with_payload = 0, to_empty = 0, to_hops = [], to_steps = [], to_return_args = None,
     to_terminate_via = []\<rparr>"

record executeToolOpts =
  eo_target :: DataTarget
  eo_mode :: string
  eo_round :: int
  eo_chat_id :: string
  eo_turn_id :: string
  eo_force_trace :: bool
  eo_rewind :: bool
  eo_chat_session_id :: string
  eo_brief_sha12 :: string
  eo_mini_sha12 :: string

record 's exec_state =
  xs_out :: ToolRoundOutcome
  xs_final :: string
  xs_return_seen :: bool
  xs_messages :: "gmap list"
  xs_notes :: "string list"
  xs_mw :: MiddlewareContext
  xs_world :: 's
  xs_calls :: "port_call list"

datatype 'a flow = Next 'a | Halt call_error 'a | Crash string 'a

fun state_of :: "'a flow \<Rightarrow> 'a" where
  "state_of (Next st) = st"
| "state_of (Halt e st) = st"
| "state_of (Crash v st) = st"

definition call_fn :: "gmap \<Rightarrow> gmap" where
  "call_fn tc = obj_or_empty (mget tc ''function'')"

definition call_name :: "('s, 'z) tool_env_scheme \<Rightarrow> gmap \<Rightarrow> string" where
  "call_name env tc = trim_space (app_str (te_ff env) (mget (call_fn tc) ''name''))"

definition call_body :: "('s, 'z) tool_env_scheme \<Rightarrow> gmap \<Rightarrow> gmap" where
  "call_body env tc = VerbBodyWithoutRewind (parseToolArgs (te_codec env) (mget (call_fn tc) ''arguments''))"

definition call_id :: "('s, 'z) tool_env_scheme \<Rightarrow> gmap \<Rightarrow> 's \<Rightarrow> string \<times> 's" where
  "call_id env tc s = (let i = trim_space (app_str (te_ff env) (mget tc ''id'')) in
     if i = [] then te_req_id env s else (i, s))"

definition note_summary :: "gmap \<Rightarrow> ToolRoundOutcome \<Rightarrow> ToolRoundOutcome" where
  "note_summary args out = (case nonblank (mget args ''summary'') of
     None \<Rightarrow> out | Some s \<Rightarrow> out\<lparr>to_tool_arg_summary := s\<rparr>)"

definition tool_message :: "string \<Rightarrow> string \<Rightarrow> string \<Rightarrow> gmap" where
  "tool_message callID name content =
     [(''role'', GStr ''tool''), (''tool_call_id'', GStr callID), (''name'', GStr name), (''content'', GStr content)]"

definition add_step :: "gmap \<Rightarrow> ToolRoundOutcome \<Rightarrow> ToolRoundOutcome" where
  "add_step step out = out\<lparr>to_steps := to_steps out @ [step]\<rparr>"

text \<open>The call answered without the port: a terminate, a denied verb, a refused turn.\<close>

definition terminate_call ::
  "('s, 'z) tool_env_scheme \<Rightarrow> executeToolOpts \<Rightarrow> string \<Rightarrow> string \<Rightarrow> gmap \<Rightarrow> 's exec_state \<Rightarrow> 's exec_state" where
  "terminate_call env eo name callID args st = st
     \<lparr>xs_final := app_str (te_ff env) (mget args ''summary''), xs_return_seen := True,
      xs_messages := xs_messages st @ [tool_message callID name (mustJSON (te_codec env) (GObj args))],
      xs_out := add_step [(''round'', GInt (eo_round eo)), (''type'', GStr name), (''args'', GObj args)]
        ((xs_out st)\<lparr>to_return_args := Some (cloneDoc (te_codec env) args), to_terminate_via := ''return''\<rparr>)\<rparr>"

definition answer_error ::
  "('s, 'z) tool_env_scheme \<Rightarrow> executeToolOpts \<Rightarrow> string \<Rightarrow> string \<Rightarrow> string \<Rightarrow> string \<Rightarrow> gmap \<Rightarrow> 's exec_state \<Rightarrow> 's exec_state" where
  "answer_error env eo code kind name callID args st = st
     \<lparr>xs_messages := xs_messages st @ [tool_message callID name
        (mustJSON (te_codec env) (GObj [(''error'', GStr code), (''verb'', GStr name)]))],
      xs_out := add_step [(''round'', GInt (eo_round eo)), (''type'', GStr kind), (''name'', GStr name), (''args'', GObj args)]
        (xs_out st)\<rparr>"

definition TraceClassAgent :: string where "TraceClassAgent = ''agent''"

definition verb_request :: "executeToolOpts \<Rightarrow> string \<Rightarrow> string \<Rightarrow> gmap \<Rightarrow> VerbRequest" where
  "verb_request eo name callID args =
     \<lparr>vr_verb = name, vr_body = args, vr_target = eo_target eo, vr_mode_header = orAnalytics (eo_mode eo),
      vr_headers = CorrelationHeaders
        \<lparr>co_chat = eo_chat_id eo, co_turn = eo_turn_id eo, co_call = callID, co_mode = orAnalytics (eo_mode eo),
         co_force_trace = eo_force_trace eo, co_trace_class = TraceClassAgent,
         co_chat_session = eo_chat_session_id eo, co_brief_sha12 = eo_brief_sha12 eo,
         co_mini_sha12 = eo_mini_sha12 eo\<rparr>,
      vr_allow_pipeline = True, vr_pre_mint = False, vr_base_url = [], vr_auth_mode = [], vr_password_env = [],
      vr_token_env = [], vr_username = [], vr_rewind = eo_rewind eo\<rparr>"

definition context_stop :: "call_error \<Rightarrow> bool" where
  "context_stop e \<longleftrightarrow> (case ctxErrAsDomain e of None \<Rightarrow> False
     | Some de \<Rightarrow> ze_code de = CodeCancelled \<or> ze_code de = CodeContextDeadline)"

definition failed_hop :: "call_error \<Rightarrow> VerbHopResult" where
  "failed_hop e = \<lparr>vh_ok = False, vh_status = 0, vh_req_id = [], vh_body = [], vh_error = call_error_text e,
     vh_url = [], vh_bytes_in = 0, vh_bytes_out = 0, vh_has_bytes = False\<rparr>"

text \<open>What the model is shown of a body: the override of a hook, if there is one, else the body.\<close>

definition untrusted_map :: gmap where
  "untrusted_map = [(''error'', GStr ''untrusted_tool_payload'')]"

definition take_override ::
  "('s, 'z) tool_env_scheme \<Rightarrow> string \<Rightarrow> gmap \<Rightarrow> MiddlewareContext \<Rightarrow> string \<times> gmap \<times> MiddlewareContext" where
  "take_override env txt body c = (case map_of (mc_data c) ''tool_body_override'' of
     Some (DVal (GStr ov)) \<Rightarrow>
       (if trim_space ov = [] then (txt, body, c)
        else (ov, (case decode_json (te_codec env) ov of Some (GObj m) \<Rightarrow> m | _ \<Rightarrow> untrusted_map),
              c\<lparr>mc_data := AList.delete ''tool_body_override'' (mc_data c)\<rparr>))
   | _ \<Rightarrow> (txt, body, c))"

definition hop_record ::
  "('s, 'z) tool_env_scheme \<Rightarrow> executeToolOpts \<Rightarrow> string \<Rightarrow> VerbHopResult \<Rightarrow> int \<Rightarrow> string \<Rightarrow> gmap \<Rightarrow> gmap" where
  "hop_record env eo name hp ms txt body =
     (let r0 = [(''req_id'', GStr (vh_req_id hp)), (''name'', GStr name), (''path_class'', GStr name),
                (''status'', GInt (vh_status hp)), (''ok'', GBool (vh_ok hp)), (''ms'', GInt ms), (''url'', GStr (vh_url hp)),
                (''error'', GStr (vh_error hp)), (''snippet'', GStr (clipStr txt TraceSnippetMax)),
                (''scope'', GStr (if dt_bucket (eo_target eo) \<noteq> []
                   then dt_bucket (eo_target eo) @ ''/'' @ dt_scope (eo_target eo) else []))] @
               (if vh_has_bytes hp then [(''bytes.in'', GInt (int (vh_bytes_in hp))), (''bytes.out'', GInt (int (vh_bytes_out hp)))]
                else []);
          r1 = amap_put_all r0 (ExtractPipelineMeta (te_ff env) (GObj body))
      in if body \<noteq> [] then amap_put ''result_json'' (GObj body) r1 else r1)"

definition count_hop :: "string \<Rightarrow> bool \<Rightarrow> ToolRoundOutcome \<Rightarrow> ToolRoundOutcome" where
  "count_hop name is_empty out =
     (let out1 = out\<lparr>to_executed := to_executed out + 1\<rparr> in
      if is_empty then out1\<lparr>to_empty := to_empty out + 1\<rparr>
      else (let out2 = out1\<lparr>to_with_data := to_with_data out + 1\<rparr> in
            if name \<in> set orientationVerbs then out2 else out2\<lparr>to_with_payload := to_with_payload out + 1\<rparr>))"

text \<open>A pipeline body that says the turn is complete terminates it like the return tool.\<close>

definition fill_missing :: "gmap \<Rightarrow> string \<Rightarrow> gmap \<Rightarrow> gmap" where
  "fill_missing body k cand = (if map_of cand k = None
     then (case map_of body k of None \<Rightarrow> cand | Some v \<Rightarrow> amap_put k v cand) else cand)"

definition complete_args :: "gmap \<Rightarrow> bool" where
  "complete_args cand \<longleftrightarrow> asString (mget cand ''summary'') \<noteq> [] \<and>
     asObjectMap (mget cand ''query_decomposition'') \<noteq> None \<and> asObjectMap (mget cand ''decomposition'') \<noteq> None \<and>
     asStringOk (mget cand ''confidence'') \<noteq> None"

definition pipeline_complete ::
  "('s, 'z) tool_env_scheme \<Rightarrow> gmap \<Rightarrow> gmap \<Rightarrow> 's exec_state \<Rightarrow> 's exec_state" where
  "pipeline_complete env body args st =
     (let cand = fold (fill_missing body)
            [''summary'', ''query_decomposition'', ''decomposition'', ''confidence'', ''policy_action'']
            (cloneDoc (te_codec env) args);
          st1 = st\<lparr>xs_return_seen := True,
            xs_final := (if xs_final st = [] then summaryFromTerminal body args else xs_final st)\<rparr>
      in if complete_args cand
         then st1\<lparr>xs_out := (xs_out st1)\<lparr>to_return_args := Some cand, to_terminate_via := ''pipeline''\<rparr>\<rparr>
         else st1)"

text \<open>What is recorded of a hop the port answered.\<close>

definition record_hop ::
  "('s, 'z) tool_env_scheme \<Rightarrow> executeToolOpts \<Rightarrow> string \<Rightarrow> string \<Rightarrow> gmap \<Rightarrow> VerbHopResult \<Rightarrow> int \<Rightarrow> string \<Rightarrow> gmap \<Rightarrow>
   's exec_state \<Rightarrow> 's exec_state" where
  "record_hop env eo name callID args hp ms txt0 body st =
     (let (txt, did) = truncateToolJSON txt0;
          out1 = add_step [(''round'', GInt (eo_round eo)), (''type'', GStr ''tool''), (''name'', GStr name),
              (''args'', GObj args), (''status'', GInt (vh_status hp)), (''ms'', GInt ms), (''req_id'', GStr (vh_req_id hp))]
            ((xs_out st)\<lparr>to_hops := to_hops (xs_out st) @ [hop_record env eo name hp ms txt body]\<rparr>);
          st1 = st\<lparr>xs_notes := xs_notes st @ (if did then [''tool_json_truncated''] else []),
            xs_messages := xs_messages st @ [tool_message callID name txt],
            xs_out := count_hop name (\<not> vh_ok hp \<or> isEmptyJSONValue (GObj body) \<or> trim_space txt = []) out1\<rparr>
      in if name = ''pipeline'' \<and> hasTurnComplete body then pipeline_complete env body args st1 else st1)"

definition dispatch_call ::
  "('s, 'z) tool_env_scheme \<Rightarrow> 's zeus_port \<Rightarrow> MiddlewareChain \<Rightarrow> executeToolOpts \<Rightarrow> string \<Rightarrow> string \<Rightarrow> gmap \<Rightarrow>
   's exec_state \<Rightarrow> 's exec_state flow" where
  "dispatch_call env zeus chain eo name callID args st =
     (let vr = verb_request eo name callID args; (ans, s1) = zeus vr (xs_world st);
          st1 = st\<lparr>xs_world := s1, xs_calls := xs_calls st @ [VerbCall vr]\<rparr>;
          after = (\<lambda>hp.
            (let ms = te_elapsed_ms env (xs_world st) s1; body = vh_body hp;
                 txt = (if body = [] then vh_error hp else mustJSON (te_codec env) (GObj body))
             in case AfterZeus chain name (vh_status hp) (GObj body) (xs_mw st1) of
                  (Some v, c) \<Rightarrow> Crash v (st1\<lparr>xs_mw := c\<rparr>)
                | (None, c) \<Rightarrow>
                    (let (txt1, body1, c1) = take_override env txt body c
                     in Next (record_hop env eo name callID args hp ms txt1 body1 (st1\<lparr>xs_mw := c1\<rparr>)))))
      in case ans of
           Inl e \<Rightarrow> (if context_stop e then Halt e st1 else after (failed_hop e))
         | Inr hp \<Rightarrow> after hp)"

definition denied_list :: "MiddlewareContext \<Rightarrow> string list" where
  "denied_list c = (case map_of (mc_data c) ''denied_verbs'' of Some (DStrs xs) \<Rightarrow> xs | _ \<Rightarrow> [])"

definition guarded_call ::
  "('s, 'z) tool_env_scheme \<Rightarrow> 's zeus_port \<Rightarrow> MiddlewareChain \<Rightarrow> executeToolOpts \<Rightarrow> string \<Rightarrow> string \<Rightarrow> gmap \<Rightarrow>
   's exec_state \<Rightarrow> 's exec_state flow" where
  "guarded_call env zeus chain eo name callID args0 st = (case BeforeZeus chain name args0 (xs_mw st) of
     (args, Some v, c) \<Rightarrow> Crash v (st\<lparr>xs_mw := c\<rparr>)
   | (args, None, c) \<Rightarrow>
       (let st1 = st\<lparr>xs_mw := c, xs_out := note_summary args (xs_out st)\<rparr> in
        if name \<in> set (denied_list c) then Next (answer_error env eo ''verb_denied'' ''denied'' name callID args st1)
        else if boolData c ''hooks_must_refuse''
          then Next (answer_error env eo ''turn_refused'' ''refused'' name callID args st1)
        else dispatch_call env zeus chain eo name callID args st1))"

definition exec_call ::
  "('s, 'z) tool_env_scheme \<Rightarrow> 's zeus_port \<Rightarrow> MiddlewareChain \<Rightarrow> executeToolOpts \<Rightarrow> gmap \<Rightarrow> 's exec_state \<Rightarrow> 's exec_state flow" where
  "exec_call env zeus chain eo tc st =
     (let name = call_name env tc; args = call_body env tc; (callID, s1) = call_id env tc (xs_world st);
          st1 = st\<lparr>xs_world := s1, xs_out := note_summary args (xs_out st)\<rparr>
      in if name \<in> set terminateNames then Next (terminate_call env eo name callID args st1)
         else guarded_call env zeus chain eo name callID args st1)"

fun tool_loop ::
  "('s, 'z) tool_env_scheme \<Rightarrow> 's zeus_port \<Rightarrow> MiddlewareChain \<Rightarrow> executeToolOpts \<Rightarrow> gmap option list \<Rightarrow> 's exec_state \<Rightarrow>
   's exec_state flow" where
  "tool_loop env zeus chain eo [] st = Next st"
| "tool_loop env zeus chain eo (tc # tcs) st = (case ctxErr (te_ctx env (xs_world st)) of
     Some e \<Rightarrow> Halt e st
   | None \<Rightarrow> (case tc of
       None \<Rightarrow> tool_loop env zeus chain eo tcs st
     | Some m \<Rightarrow> (case exec_call env zeus chain eo m st of
         Next st1 \<Rightarrow> tool_loop env zeus chain eo tcs st1
       | r \<Rightarrow> r)))"

definition executeToolCalls ::
  "('s, 'z) tool_env_scheme \<Rightarrow> 's zeus_port \<Rightarrow> MiddlewareChain \<Rightarrow> executeToolOpts \<Rightarrow> gmap option list \<Rightarrow> 's exec_state \<Rightarrow>
   's exec_state flow" where
  "executeToolCalls env zeus chain eo toolCalls st =
     (case tool_loop env zeus chain eo (take maxToolCallsPerRound toolCalls)
        (st\<lparr>xs_out := emptyOutcome, xs_final := [], xs_return_seen := False\<rparr>) of
        Next st1 \<Rightarrow> Next (st1\<lparr>xs_out := (xs_out st1)\<lparr>to_return_seen := xs_return_seen st1,
          to_terminal_summary := (if xs_return_seen st1 then xs_final st1 else [])\<rparr>\<rparr>)
      | r \<Rightarrow> r)"

section \<open>What a hop records\<close>

lemma out_simps [simp]:
  "to_hops (note_summary args out) = to_hops out" "to_hops (add_step sp out) = to_hops out"
  "to_hops (count_hop name b out) = to_hops out"
  by (simp_all add: note_summary_def add_step_def count_hop_def Let_def split: option.split)

lemma pipeline_complete_keeps [simp]:
  "xs_calls (pipeline_complete env body args st) = xs_calls st" "xs_mw (pipeline_complete env body args st) = xs_mw st"
  "xs_world (pipeline_complete env body args st) = xs_world st"
  "xs_messages (pipeline_complete env body args st) = xs_messages st"
  "to_hops (xs_out (pipeline_complete env body args st)) = to_hops (xs_out st)"
  by (simp_all add: pipeline_complete_def Let_def)

lemma record_hop_keeps [simp]:
  "xs_calls (record_hop env eo name callID args hp ms txt body st) = xs_calls st"
  "xs_mw (record_hop env eo name callID args hp ms txt body st) = xs_mw st"
  "xs_world (record_hop env eo name callID args hp ms txt body st) = xs_world st"
  "xs_messages (record_hop env eo name callID args hp ms txt body st) =
     xs_messages st @ [tool_message callID name (fst (truncateToolJSON txt))]"
  "to_hops (xs_out (record_hop env eo name callID args hp ms txt body st)) =
     to_hops (xs_out st) @ [hop_record env eo name hp ms (fst (truncateToolJSON txt)) body]"
  by (simp_all add: record_hop_def Let_def split: prod.split)

lemma take_override_data:
  "k \<noteq> ''tool_body_override'' \<Longrightarrow>
     map_of (mc_data (snd (snd (take_override env txt body c)))) k = map_of (mc_data c) k"
  by (auto simp: take_override_def delete_conv' split: option.split dval.split gval.split)

lemma answered_keeps [simp]:
  "xs_calls (terminate_call env eo name callID args st) = xs_calls st"
  "xs_mw (terminate_call env eo name callID args st) = xs_mw st"
  "xs_world (terminate_call env eo name callID args st) = xs_world st"
  "to_hops (xs_out (terminate_call env eo name callID args st)) = to_hops (xs_out st)"
  "xs_calls (answer_error env eo code kind name callID args st) = xs_calls st"
  "xs_mw (answer_error env eo code kind name callID args st) = xs_mw st"
  "xs_world (answer_error env eo code kind name callID args st) = xs_world st"
  "to_hops (xs_out (answer_error env eo code kind name callID args st)) = to_hops (xs_out st)"
  by (simp_all add: terminate_call_def answer_error_def)

text \<open>What one call does to the ghost trace, the hops and the messages of the round.\<close>

definition call_effect :: "string \<Rightarrow> string \<Rightarrow> 's exec_state \<Rightarrow> 's exec_state flow \<Rightarrow> bool" where
  "call_effect name callID st r \<longleftrightarrow>
     (\<exists>vrs. xs_calls (state_of r) = xs_calls st @ map VerbCall vrs \<and> length vrs \<le> 1 \<and>
        list_all (\<lambda>vr. vr_verb vr = name \<and> vr_allow_pipeline vr) vrs \<and>
        (\<forall>st'. r = Next st' \<longrightarrow> length (to_hops (xs_out st')) = length (to_hops (xs_out st)) + length vrs \<and>
           (\<exists>content. xs_messages st' = xs_messages st @ [tool_message callID name content])))"

lemma dispatch_effect:
  "call_effect name callID st (dispatch_call env zeus chain eo name callID args st)"
proof -
  define vr where "vr = verb_request eo name callID args"
  obtain ans s1 where z: "zeus vr (xs_world st) = (ans, s1)" by (cases "zeus vr (xs_world st)") auto
  have "xs_calls (state_of r) = xs_calls st @ [VerbCall vr] \<and>
      (\<forall>st'. r = Next st' \<longrightarrow> length (to_hops (xs_out st')) = length (to_hops (xs_out st)) + 1 \<and>
           (\<exists>content. xs_messages st' = xs_messages st @ [tool_message callID name content]))"
    if "r = dispatch_call env zeus chain eo name callID args st" for r
    unfolding that dispatch_call_def Let_def vr_def [symmetric] z
    by (auto split: sum.split prod.split option.split)
  then show ?thesis
    unfolding call_effect_def by (intro exI [of _ "[vr]"]) (auto simp: vr_def verb_request_def)
qed

lemma exec_effect:
  "call_effect (call_name env tc) (fst (call_id env tc (xs_world st))) st (exec_call env zeus chain eo tc st)"
proof -
  define name args i where "name = call_name env tc" and "args = call_body env tc" and "i = fst (call_id env tc (xs_world st))"
  define st1 where "st1 = st\<lparr>xs_world := snd (call_id env tc (xs_world st)), xs_out := note_summary args (xs_out st)\<rparr>"
  have same: "call_effect n j st r = call_effect n j st1 r" for n j r
    by (simp add: call_effect_def st1_def)
  have exec: "exec_call env zeus chain eo tc st = (if name \<in> set terminateNames
      then Next (terminate_call env eo name i args st1) else guarded_call env zeus chain eo name i args st1)"
    by (simp add: exec_call_def name_def args_def i_def st1_def split_beta Let_def)
  have g: "call_effect name i st1 (guarded_call env zeus chain eo name i args st1)"
  proof (cases "BeforeZeus chain name args (xs_mw st1)")
    case (fields a p c)
    define st2 where "st2 = st1\<lparr>xs_mw := c, xs_out := note_summary a (xs_out st1)\<rparr>"
    have e2: "call_effect n j st1 r = call_effect n j st2 r" for n j r by (simp add: call_effect_def st2_def)
    have "call_effect name i st2 (Next (answer_error env eo code kind name i a st2))" for code kind
      unfolding call_effect_def by (rule exI [of _ "[]"]) (auto simp: answer_error_def add_step_def)
    moreover have "call_effect name i st1 (Crash v (st1\<lparr>xs_mw := c\<rparr>))" for v
      unfolding call_effect_def by (rule exI [of _ "[]"]) auto
    ultimately show ?thesis using fields e2 dispatch_effect [of name i st2 env zeus chain eo a]
      by (auto simp: guarded_call_def Let_def st2_def [symmetric] split: option.split)
  qed
  have "call_effect name i st1 (Next (terminate_call env eo name i args st1))"
    unfolding call_effect_def by (rule exI [of _ "[]"]) (auto simp: terminate_call_def add_step_def)
  with g show ?thesis by (simp add: same exec name_def [symmetric] i_def [symmetric])
qed

section \<open>A round of calls\<close>

definition somes :: "'a option list \<Rightarrow> 'a list" where
  "somes xs = List.map_filter (\<lambda>x. x) xs"

lemma somes_simps [simp]: "somes [] = []" "somes (None # xs) = somes xs" "somes (Some x # xs) = x # somes xs"
  by (simp_all add: somes_def map_filter_simps)

lemma length_somes: "length (somes xs) \<le> length xs"
  by (simp add: somes_def map_filter_def length_filter_le)

text \<open>A tool message that answers a call: under its name and, when it has one, under its id.\<close>

definition answers_call :: "('s, 'z) tool_env_scheme \<Rightarrow> gmap \<Rightarrow> gmap \<Rightarrow> bool" where
  "answers_call env tc m \<longleftrightarrow> (\<exists>callID content. m = tool_message callID (call_name env tc) content \<and>
     (let i = trim_space (app_str (te_ff env) (mget tc ''id'')) in i \<noteq> [] \<longrightarrow> callID = i))"

definition round_effect ::
  "('s, 'z) tool_env_scheme \<Rightarrow> gmap list \<Rightarrow> 's exec_state \<Rightarrow> 's exec_state flow \<Rightarrow> bool" where
  "round_effect env tcs st r \<longleftrightarrow>
     (\<exists>vrs. xs_calls (state_of r) = xs_calls st @ map VerbCall vrs \<and> length vrs \<le> length tcs \<and>
        (\<forall>st'. r = Next st' \<longrightarrow> length (to_hops (xs_out st')) = length (to_hops (xs_out st)) + length vrs \<and>
           (\<exists>ms. xs_messages st' = xs_messages st @ ms \<and> list_all2 (answers_call env) tcs ms)))"

lemma answers_own: "answers_call env tc (tool_message (fst (call_id env tc s)) (call_name env tc) content)"
  by (auto simp: answers_call_def call_id_def Let_def)

lemma call_round: "call_effect (call_name env tc) (fst (call_id env tc s)) st r \<Longrightarrow> round_effect env [tc] st r"
  unfolding call_effect_def round_effect_def using answers_own [of env tc s] by fastforce

lemma round_compose:
  assumes a: "round_effect env xs st (Next st1)" and b: "round_effect env ys st1 r"
  shows "round_effect env (xs @ ys) st r"
proof -
  from a obtain us ms where u: "xs_calls st1 = xs_calls st @ map VerbCall us" "length us \<le> length xs"
    "length (to_hops (xs_out st1)) = length (to_hops (xs_out st)) + length us"
    "xs_messages st1 = xs_messages st @ ms" "list_all2 (answers_call env) xs ms"
    unfolding round_effect_def by auto
  from b obtain vs where v: "xs_calls (state_of r) = xs_calls st1 @ map VerbCall vs" "length vs \<le> length ys"
    and n: "\<And>st'. r = Next st' \<Longrightarrow> length (to_hops (xs_out st')) = length (to_hops (xs_out st1)) + length vs \<and>
      (\<exists>ms. xs_messages st' = xs_messages st1 @ ms \<and> list_all2 (answers_call env) ys ms)"
    unfolding round_effect_def by auto
  show ?thesis unfolding round_effect_def
  proof (intro exI [of _ "us @ vs"] conjI allI impI)
    show "xs_calls (state_of r) = xs_calls st @ map VerbCall (us @ vs)" using u v by simp
    show "length (us @ vs) \<le> length (xs @ ys)" using u v by simp
    fix st' assume r: "r = Next st'"
    show "length (to_hops (xs_out st')) = length (to_hops (xs_out st)) + length (us @ vs)" using n [OF r] u by simp
    from n [OF r] obtain ns where "xs_messages st' = xs_messages st1 @ ns" "list_all2 (answers_call env) ys ns" by blast
    with u show "\<exists>ms. xs_messages st' = xs_messages st @ ms \<and> list_all2 (answers_call env) (xs @ ys) ms"
      by (intro exI [of _ "ms @ ns"]) (simp add: list_all2_appendI)
  qed
qed

lemma stopped_round: "xs_calls (state_of r) = xs_calls st \<Longrightarrow> (\<And>st'. r \<noteq> Next st') \<Longrightarrow> round_effect env xs st r"
  unfolding round_effect_def by (rule exI [of _ "[]"]) auto

lemma partial_round:
  "round_effect env xs st r \<Longrightarrow> (\<And>st'. r \<noteq> Next st') \<Longrightarrow> length xs \<le> length ys \<Longrightarrow> round_effect env ys st r"
  unfolding round_effect_def by fastforce

lemma tool_loop_effect: "round_effect env (somes tcs) st (tool_loop env zeus chain eo tcs st)"
proof (induction tcs arbitrary: st)
  case Nil
  show ?case unfolding round_effect_def by (rule exI [of _ "[]"]) auto
next
  case (Cons tc tcs)
  show ?case
  proof (cases "ctxErr (te_ctx env (xs_world st))")
    case (Some e)
    then show ?thesis by (simp add: stopped_round)
  next
    case None
    show ?thesis
    proof (cases tc)
      case None
      with \<open>ctxErr _ = None\<close> show ?thesis by (simp add: Cons.IH)
    next
      case (Some m)
      have e: "round_effect env [m] st (exec_call env zeus chain eo m st)"
        by (rule call_round [OF exec_effect])
      show ?thesis
      proof (cases "exec_call env zeus chain eo m st")
        case (Next st1)
        with round_compose [OF e [unfolded Next] Cons.IH] \<open>ctxErr _ = None\<close> Some show ?thesis by simp
      qed (use e partial_round [OF e] \<open>ctxErr _ = None\<close> Some in auto)
    qed
  qed
qed

lemma executeToolCalls_effect:
  assumes "r = executeToolCalls env zeus chain eo tcs st"
  shows "\<exists>vrs. xs_calls (state_of r) = xs_calls st @ map VerbCall vrs \<and> length vrs \<le> maxToolCallsPerRound \<and>
     (\<forall>st'. r = Next st' \<longrightarrow> length (to_hops (xs_out st')) = length vrs \<and>
        (\<exists>ms. xs_messages st' = xs_messages st @ ms \<and>
           list_all2 (answers_call env) (somes (take maxToolCallsPerRound tcs)) ms))"
proof -
  define st0 where "st0 = st\<lparr>xs_out := emptyOutcome, xs_final := [], xs_return_seen := False\<rparr>"
  define q where "q = tool_loop env zeus chain eo (take maxToolCallsPerRound tcs) st0"
  have "round_effect env (somes (take maxToolCallsPerRound tcs)) st0 q" unfolding q_def by (rule tool_loop_effect)
  moreover have "length (somes (take maxToolCallsPerRound tcs)) \<le> maxToolCallsPerRound"
    using length_somes [of "take maxToolCallsPerRound tcs"] by simp
  moreover have "xs_calls st0 = xs_calls st" "xs_messages st0 = xs_messages st" "to_hops (xs_out st0) = []"
    by (simp_all add: st0_def emptyOutcome_def)
  ultimately show ?thesis
    unfolding assms executeToolCalls_def st0_def [symmetric] q_def [symmetric] round_effect_def
    by (cases q) (fastforce+)
qed


text \<open>A round stops only with an error of the context.\<close>

lemma dispatch_halt: "dispatch_call env zeus chain eo name callID args st = Halt e st' \<Longrightarrow> ctxErrAsDomain e \<noteq> None"
  by (auto simp: dispatch_call_def Let_def context_stop_def split: prod.splits sum.splits option.splits if_splits)

lemma exec_halt: "exec_call env zeus chain eo tc st = Halt e st' \<Longrightarrow> ctxErrAsDomain e \<noteq> None"
  by (auto simp: exec_call_def guarded_call_def Let_def split: prod.splits option.splits if_splits dest: dispatch_halt)

lemma tool_loop_halt: "tool_loop env zeus chain eo tcs st = Halt e st' \<Longrightarrow> ctxErrAsDomain e \<noteq> None"
  by (induction tcs arbitrary: st) (auto simp: ctxErr_def split: option.splits flow.splits dest: exec_halt)

lemma executeToolCalls_halt: "executeToolCalls env zeus chain eo tcs st = Halt e st' \<Longrightarrow> ctxErrAsDomain e \<noteq> None"
  by (auto simp: executeToolCalls_def split: flow.splits dest: tool_loop_halt)

section \<open>Closed catalogs\<close>

text \<open>What a chain must promise so that only verbs of the catalog are dispatched and none once the
  turn is refused.\<close>

abbreviation catalog_of :: "MiddlewareContext \<Rightarrow> dval option" where
  "catalog_of c \<equiv> map_of (mc_data c) ''catalog_tool_names''"

definition catalog_call :: "bool amap \<Rightarrow> port_call \<Rightarrow> bool" where
  "catalog_call cat pc \<longleftrightarrow> (case pc of LlmCall rq \<Rightarrow> True
     | VerbCall vr \<Rightarrow> vr_verb vr \<notin> set terminateNames \<and> (cat \<noteq> [] \<longrightarrow> map_of cat (vr_verb vr) = Some True))"

text \<open>The executor reads the denied verbs only as a list of strings.\<close>

definition typed_denied :: "MiddlewareContext \<Rightarrow> bool" where
  "typed_denied c \<longleftrightarrow> (case map_of (mc_data c) ''denied_verbs'' of None \<Rightarrow> True | Some (DStrs xs) \<Rightarrow> True | _ \<Rightarrow> False)"

definition keeps_ctx :: "MiddlewareContext \<Rightarrow> MiddlewareContext \<Rightarrow> bool" where
  "keeps_ctx c c' \<longleftrightarrow> catalog_of c' = catalog_of c \<and> (refused c \<longrightarrow> refused c') \<and> (typed_denied c \<longrightarrow> typed_denied c')"

definition closed_ctx :: "bool amap \<Rightarrow> MiddlewareContext \<Rightarrow> bool" where
  "closed_ctx cat c \<longleftrightarrow> catalog_of c = Some (DNames cat) \<and> typed_denied c"

lemma keeps_refl [simp]: "keeps_ctx c c"
  by (simp add: keeps_ctx_def)

lemma keeps_trans: "keeps_ctx a b \<Longrightarrow> keeps_ctx b c \<Longrightarrow> keeps_ctx a c"
  by (auto simp: keeps_ctx_def)

lemma keeps_closed: "keeps_ctx c c' \<Longrightarrow> closed_ctx cat c \<Longrightarrow> closed_ctx cat c'"
  by (simp add: keeps_ctx_def closed_ctx_def)

lemma keeps_refused: "keeps_ctx c c' \<Longrightarrow> refused c \<Longrightarrow> refused c'"
  by (simp add: keeps_ctx_def)

lemma take_override_keeps: "keeps_ctx c (snd (snd (take_override env txt body c)))"
  by (simp add: keeps_ctx_def typed_denied_def boolData_def take_override_data)

definition safe :: "bool amap \<Rightarrow> 's exec_state \<Rightarrow> bool" where
  "safe cat st \<longleftrightarrow> closed_ctx cat (xs_mw st) \<and> list_all (catalog_call cat) (xs_calls st)"

locale closed_catalog =
  fixes chain :: MiddlewareChain and cat :: "bool amap"
  assumes on_start: "keeps_ctx c (snd (OnTurnStart chain c))"
    and before_llm: "keeps_ctx c (snd (BeforeLLM chain msgs c))"
    and after_llm: "keeps_ctx c (snd (AfterLLM chain resp c))"
    and before_zeus: "keeps_ctx c (snd (snd (BeforeZeus chain name args c)))"
    and after_zeus: "keeps_ctx c (snd (AfterZeus chain name status body c))"
    and denies: "closed_ctx cat c \<Longrightarrow> cat \<noteq> [] \<Longrightarrow> map_of cat name \<noteq> Some True \<Longrightarrow>
      name \<notin> set terminateNames \<Longrightarrow> name \<in> set (denied_list (snd (snd (BeforeZeus chain name args c))))"
begin

lemma dispatch_safe:
  assumes "safe cat st" and "name \<notin> set terminateNames" and "cat \<noteq> [] \<longrightarrow> map_of cat name = Some True"
  shows "safe cat (state_of (dispatch_call env zeus chain eo name callID args st))"
proof -
  define vr where "vr = verb_request eo name callID args"
  obtain ans s1 where z: "zeus vr (xs_world st) = (ans, s1)" by (cases "zeus vr (xs_world st)") auto
  have ok: "catalog_call cat (VerbCall vr)" using assms by (simp add: catalog_call_def vr_def verb_request_def)
  have cats: "closed_ctx cat c" if "AfterZeus chain name n b (xs_mw st) = (v, c)" for n b v c
    using keeps_closed [OF after_zeus [of "xs_mw st" name n b], of cat] that assms(1) by (simp add: safe_def)
  have take_cat: "closed_ctx cat c1" if "take_override env t b c = (t1, b1, c1)" "closed_ctx cat c" for t b c t1 b1 c1
    using keeps_closed [OF take_override_keeps [of c env t b], of cat] that by simp
  show ?thesis
    unfolding dispatch_call_def Let_def vr_def [symmetric] z using assms(1) ok cats take_cat
    by (auto simp: safe_def split: sum.split prod.split option.split)
qed

lemma exec_safe: "safe cat st \<Longrightarrow> safe cat (state_of (exec_call env zeus chain eo tc st))"
proof -
  assume s: "safe cat st"
  define name args i where "name = call_name env tc" and "args = call_body env tc" and "i = fst (call_id env tc (xs_world st))"
  define st1 where "st1 = st\<lparr>xs_world := snd (call_id env tc (xs_world st)), xs_out := note_summary args (xs_out st)\<rparr>"
  have s1: "safe cat st1" using s by (simp add: safe_def st1_def)
  have exec: "exec_call env zeus chain eo tc st = (if name \<in> set terminateNames
      then Next (terminate_call env eo name i args st1) else guarded_call env zeus chain eo name i args st1)"
    by (simp add: exec_call_def name_def args_def i_def st1_def split_beta Let_def)
  show ?thesis
  proof (cases "name \<in> set terminateNames")
    case True
    with s1 show ?thesis by (simp add: exec safe_def)
  next
    case False
    obtain a p c where b: "BeforeZeus chain name args (xs_mw st1) = (a, p, c)" by (cases "BeforeZeus chain name args (xs_mw st1)")
    have c: "closed_ctx cat c" using keeps_closed [OF before_zeus [of "xs_mw st1" name args], of cat] b s1 by (simp add: safe_def)
    define st2 where "st2 = st1\<lparr>xs_mw := c, xs_out := note_summary a (xs_out st1)\<rparr>"
    have s2: "safe cat st2" "safe cat (st1\<lparr>xs_mw := c\<rparr>)" using s1 c by (simp_all add: safe_def st2_def)
    have ans: "safe cat (answer_error env eo code kind name i a st2)" for code kind using s2 by (simp add: safe_def)
    have "cat \<noteq> [] \<longrightarrow> map_of cat name = Some True" if "name \<notin> set (denied_list c)"
      using denies [of "xs_mw st1" name args] b s1 False that by (auto simp: safe_def)
    then show ?thesis using False b s2 ans dispatch_safe [OF s2(1) False, of env zeus eo i a]
      by (auto simp: exec guarded_call_def Let_def st2_def [symmetric] split: option.split)
  qed
qed

lemma tool_loop_safe: "safe cat st \<Longrightarrow> safe cat (state_of (tool_loop env zeus chain eo tcs st))"
proof (induction tcs arbitrary: st)
  case (Cons tc tcs)
  show ?case
  proof (cases tc)
    case (Some m)
    have "safe cat (state_of (exec_call env zeus chain eo m st))" by (rule exec_safe [OF Cons.prems])
    then show ?thesis using Some Cons
      by (cases "exec_call env zeus chain eo m st") (auto split: option.split)
  qed (use Cons in \<open>auto split: option.split\<close>)
qed simp

lemma executeToolCalls_safe: "safe cat st \<Longrightarrow> safe cat (state_of (executeToolCalls env zeus chain eo tcs st))"
proof -
  assume "safe cat st"
  then have "safe cat (st\<lparr>xs_out := emptyOutcome, xs_final := [], xs_return_seen := False\<rparr>)" by (simp add: safe_def)
  from tool_loop_safe [OF this, of env zeus eo "take maxToolCallsPerRound tcs"] show ?thesis
    by (auto simp: executeToolCalls_def safe_def split: flow.split)
qed

lemma exec_refused:
  assumes "refused (xs_mw st)"
  shows "xs_calls (state_of (exec_call env zeus chain eo tc st)) = xs_calls st \<and>
    refused (xs_mw (state_of (exec_call env zeus chain eo tc st)))"
proof -
  define name args i where "name = call_name env tc" and "args = call_body env tc" and "i = fst (call_id env tc (xs_world st))"
  define st1 where "st1 = st\<lparr>xs_world := snd (call_id env tc (xs_world st)), xs_out := note_summary args (xs_out st)\<rparr>"
  have exec: "exec_call env zeus chain eo tc st = (if name \<in> set terminateNames
      then Next (terminate_call env eo name i args st1) else guarded_call env zeus chain eo name i args st1)"
    by (simp add: exec_call_def name_def args_def i_def st1_def split_beta Let_def)
  obtain a p c where b: "BeforeZeus chain name args (xs_mw st) = (a, p, c)" by (cases "BeforeZeus chain name args (xs_mw st)")
  have "refused c" using keeps_refused [OF before_zeus [of "xs_mw st" name args] assms] b by simp
  then show ?thesis using assms b
    by (auto simp: exec guarded_call_def st1_def Let_def split: option.split)
qed

lemma tool_loop_refused:
  "refused (xs_mw st) \<Longrightarrow> xs_calls (state_of (tool_loop env zeus chain eo tcs st)) = xs_calls st"
proof (induction tcs arbitrary: st)
  case (Cons tc tcs)
  show ?case
  proof (cases tc)
    case (Some m)
    from exec_refused [OF Cons.prems, of env zeus eo m] show ?thesis using Some Cons
      by (cases "exec_call env zeus chain eo m st") (auto split: option.split)
  qed (use Cons in \<open>auto split: option.split\<close>)
qed simp

end

subsection \<open>The default chain is one\<close>

lemma keeps_simps [simp]:
  "typed_denied (put_data k v c) \<longleftrightarrow> (if k = ''denied_verbs'' then (\<exists>xs. v = DStrs xs) else typed_denied c)"
  by (auto simp: typed_denied_def split: dval.split)

lemma foldAssessment_keeps: "keeps_ctx c (foldAssessment env a c)"
  by (auto simp: foldAssessment_def Let_def keeps_ctx_def)

lemma InspectJailbreak_keeps: "keeps_ctx c (snd (InspectJailbreak env payload surface c))"
  by (simp add: InspectJailbreak_def Let_def foldAssessment_keeps)

lemma raise_score_keeps: "keeps_ctx c (raise_score env c)"
  by (simp add: raise_score_def keeps_ctx_def)

lemma denyVerb_keeps: "keeps_ctx c (denyVerb env name c)"
  by (auto simp: denyVerb_def raise_score_def Let_def keeps_ctx_def)

lemma ScoreJailbreak_keeps: "keeps_ctx c (snd (ScoreJailbreak env c))"
  by (auto simp: ScoreJailbreak_def Let_def
      intro: keeps_trans [OF foldAssessment_keeps raise_score_keeps] foldAssessment_keeps)

lemma security_start_keeps: "keeps_ctx c (security_OnTurnStart env c)"
  using ScoreJailbreak_keeps [of c env]
  by (auto simp: security_OnTurnStart_def Let_def keeps_ctx_def split: prod.split)

lemma security_after_llm_keeps: "keeps_ctx c (security_AfterLLM env resp c)"
proof -
  have "keeps_ctx d (fold (\<lambda>tc c. snd (InspectJailbreak env (call_args tc) ''tool_args'' c)) tcs d)" for tcs d
    by (induction tcs arbitrary: d) (auto intro: keeps_trans [OF InspectJailbreak_keeps])
  from keeps_trans [OF InspectJailbreak_keeps this] show ?thesis unfolding security_AfterLLM_def .
qed

lemma security_after_zeus_keeps: "keeps_ctx c (security_AfterZeus env body c)"
  using InspectJailbreak_keeps [of c env body "''tool_body''"]
  by (auto simp: security_AfterZeus_def Let_def keeps_ctx_def split: prod.split)

lemma DefaultMiddlewareChain_hooks:
  "OnTurnStart (DefaultMiddlewareChain env) c = (None, security_OnTurnStart env c)"
  "BeforeLLM (DefaultMiddlewareChain env) msgs c = (None, c)"
  "AfterLLM (DefaultMiddlewareChain env) resp c = (None, security_AfterLLM env resp c)"
  "BeforeZeus (DefaultMiddlewareChain env) name args c =
     (args, None, security_BeforeZeus env \<lparr>sk_name = [], sk_critical = False, sk_denied_verbs = []\<rparr> name c)"
  "AfterZeus (DefaultMiddlewareChain env) name status body c = (None, security_AfterZeus env body c)"
  "OnTurnEnd (DefaultMiddlewareChain env) answer c = (None, c)"
  by (simp_all add: DefaultMiddlewareChain_def security_hooks_def OnTurnStart_def BeforeLLM_def AfterLLM_def
      BeforeZeus_def AfterZeus_def OnTurnEnd_def isolate_def)

lemma security_before_zeus_keeps: "keeps_ctx c (security_BeforeZeus env sk name c)"
  by (simp add: security_BeforeZeus_def denyVerb_keeps)

lemma security_denies:
  assumes "closed_ctx cat c" and "cat \<noteq> []" and "map_of cat name \<noteq> Some True" and "name \<notin> set terminateNames"
  shows "name \<in> set (denied_list (security_BeforeZeus env sk name c))"
proof -
  have "verbDenied sk c name"
    using assms by (auto simp: closed_ctx_def verbDenied_def asNameSet_def Let_def terminateNames_def)
  then show ?thesis
    using assms(1) by (auto simp: security_BeforeZeus_def denyVerb_def raise_score_def Let_def denied_list_def
        asStringSlice_def closed_ctx_def typed_denied_def split: option.splits dval.splits gval.splits)
qed

lemmas security_keeps = security_start_keeps security_after_llm_keeps security_before_zeus_keeps security_after_zeus_keeps

interpretation default: closed_catalog "DefaultMiddlewareChain env" cat for env cat
  by unfold_locales
    (simp_all add: DefaultMiddlewareChain_hooks security_keeps security_denies)

end
