(* ===== verification/Jobs_MA.thy ===== *)
theory Jobs_MA
  imports Jobs_Fake Turn_Tools
begin

text \<open>
  The multi-agent job runtime (src/adapters/jobsma/runtime.go, unit.go): a unit of the client as a work
  unit of the engine, and the runtime that runs the engine in a goroutine per job. The engine is not in
  this repository: its events and its result are inputs. Of its events the runtime relies on this: the
  sequence numbers of one job are positive and never repeat.

  Every critical section of the mutex is one function; \<open>ma_step\<close> interleaves the sections of any number
  of runs with events, Cancel and Close. The check of \<open>closed\<close> and the registration of a job are two
  sections of Run, so an admitted run is counted until it registers. A fresh job id is an input.
\<close>

section \<open>State\<close>

definition jobsMAComponent :: string where "jobsMAComponent = ''adapters.jobsma''"

record MaRuntime =
  ma_closed :: bool
  ma_snaps :: "JobSnapshot amap"
  ma_events :: "(JobEvent list) amap"
  ma_cancels :: "string list"
  ma_cancelled :: "bool amap"
  ma_ctx_done :: "string list"
  ma_running :: "string list"

definition ma_New :: MaRuntime where
  "ma_New = \<lparr>ma_closed = False, ma_snaps = [], ma_events = [], ma_cancels = [], ma_cancelled = [],
     ma_ctx_done = [], ma_running = []\<rparr>"

record MaRequest = JobRequest +
  rq_budgets :: "JobBudgets option"

definition ma_clonePayload :: "gmap option \<Rightarrow> gmap" where
  "ma_clonePayload m = (case m of None \<Rightarrow> [] | Some kv \<Rightarrow> map (\<lambda>(k, v). (k, v)) kv)"

definition ma_cloneSnapshot :: "JobSnapshot \<Rightarrow> JobSnapshot" where
  "ma_cloneSnapshot s = s\<lparr>js_summaries := map (\<lambda>m. ma_clonePayload (Some m)) (js_summaries s)\<rparr>"

definition ma_notFound :: zerror where
  "ma_notFound = NewJob CodeJobsNotFound jobsMAComponent []"

definition ma_unavailable :: zerror where
  "ma_unavailable = NewJob CodeJobsUnavailable jobsMAComponent []"

definition ma_units :: "MaRequest option \<Rightarrow> UnitConfig list" where
  "ma_units req = (case req of None \<Rightarrow> [] | Some r \<Rightarrow> (case rq_units r of None \<Rightarrow> [] | Some us \<Rightarrow> us))"

definition ma_models :: "MaRequest option \<Rightarrow> gmap option" where
  "ma_models req = (case req of None \<Rightarrow> None | Some r \<Rightarrow> (case asObjectMap (rq_models r) of
     None \<Rightarrow> None | Some m \<Rightarrow> if length m = 0 then None else Some (ma_clonePayload (Some m))))"

definition ma_goal :: "MaRequest option \<Rightarrow> string" where
  "ma_goal req = (case req of None \<Rightarrow> [] | Some r \<Rightarrow> asString (rq_goal r))"

definition ma_budgets :: "MaRequest option \<Rightarrow> JobBudgets" where
  "ma_budgets req = (case req of None \<Rightarrow> DefaultJobBudgets | Some r \<Rightarrow> (case rq_budgets r of
     None \<Rightarrow> DefaultJobBudgets | Some b \<Rightarrow> b))"

section \<open>The engine's side\<close>

text \<open>The fields of the engine's event, unit result, job result and budget that the runtime uses; the
  time stamp of an event is in milliseconds.\<close>

record EngineEvent =
  ee_Seq :: int
  ee_Type :: string
  ee_JobID :: string
  ee_TSMS :: int
  ee_UnitID :: string
  ee_PlanEpoch :: int
  ee_Summary :: string
  ee_Status :: string
  ee_DeadEnd :: bool

record EngineUnit =
  eu_UnitID :: string
  eu_Status :: string
  eu_Error :: string
  eu_Payload :: "gmap option"

record EngineResult =
  er_Units :: "EngineUnit list"
  er_Partial :: bool
  er_OK :: bool
  er_Summary :: string

record EngineSpec =
  es_ID :: string
  es_Goal :: string
  es_MaxReplans :: int
  es_MaxWorkers :: int
  es_MaxWaves :: int
  es_MaxWallTime :: int
  es_MaxEvidenceKeys :: int
  es_DisableEarlyCancel :: bool

text \<open>A duration is in nanoseconds; the product wraps at 64 bits.\<close>

definition engine_spec :: "string \<Rightarrow> string \<Rightarrow> JobBudgets \<Rightarrow> EngineSpec" where
  "engine_spec jobID goal bag =
     \<lparr>es_ID = jobID, es_Goal = goal, es_MaxReplans = bu_max_replans bag, es_MaxWorkers = bu_max_workers bag,
      es_MaxWaves = bu_max_waves bag, es_MaxWallTime = wrap64 (bu_wall_ms bag * 1000000),
      es_MaxEvidenceKeys = bu_max_evidence_keys bag, es_DisableEarlyCancel = bu_disable_early_cancel bag\<rparr>"

definition mapEvent :: "EngineEvent \<Rightarrow> JobEvent" where
  "mapEvent e = \<lparr>je_seq = ee_Seq e, je_type = ee_Type e, je_job_id = ee_JobID e, je_ts_ms = ee_TSMS e,
     je_unit_id = ee_UnitID e, je_wave = 0, je_plan_epoch = ee_PlanEpoch e,
     je_payload = (if ee_Summary e \<noteq> [] then [(''summary'', GStr (ee_Summary e))] else []) @
       (if ee_Status e \<noteq> [] then [(''status'', GStr (ee_Status e))] else []) @
       (if ee_DeadEnd e then [(''dead_end'', GBool True)] else [])\<rparr>"

definition summary_of :: "EngineUnit \<Rightarrow> gmap" where
  "summary_of u = (let c = (case eu_Payload u of None \<Rightarrow> GNil | Some p \<Rightarrow> mget p ''error_code'');
       errCode = (if c = GNil \<and> eu_Error u \<noteq> [] then GStr (eu_Error u) else c)
     in [(''unit_id'', GStr (eu_UnitID u)), (''status'', GStr (eu_Status u)), (''error_code'', errCode)])"

definition summariesFrom :: "EngineUnit list \<Rightarrow> gmap list" where
  "summariesFrom us = map summary_of us"

section \<open>Critical sections\<close>

definition ma_events_of :: "MaRuntime \<Rightarrow> string \<Rightarrow> JobEvent list" where
  "ma_events_of rt j = (case map_of (ma_events rt) j of None \<Rightarrow> [] | Some evs \<Rightarrow> evs)"

definition record_event :: "JobEvent \<Rightarrow> MaRuntime \<Rightarrow> MaRuntime" where
  "record_event ev rt = rt\<lparr>ma_events :=
     amap_put (je_job_id ev) (ma_events_of rt (je_job_id ev) @ [ev]) (ma_events rt)\<rparr>"

definition ma_isCancelled :: "MaRuntime \<Rightarrow> string \<Rightarrow> bool" where
  "ma_isCancelled rt j \<longleftrightarrow> map_of (ma_cancelled rt) j = Some True"

definition ma_cancel_ctx :: "string \<Rightarrow> MaRuntime \<Rightarrow> MaRuntime" where
  "ma_cancel_ctx j rt = rt\<lparr>ma_ctx_done := j # ma_ctx_done rt\<rparr>"

definition ma_register :: "string \<Rightarrow> MaRuntime \<Rightarrow> MaRuntime" where
  "ma_register j rt = rt\<lparr>ma_cancels := j # ma_cancels rt, ma_events := amap_put j [] (ma_events rt),
     ma_cancelled := amap_put j False (ma_cancelled rt),
     ma_snaps := amap_put j ((empty_snapshot j)\<lparr>js_status := ''running''\<rparr>) (ma_snaps rt),
     ma_running := j # ma_running rt\<rparr>"

text \<open>finish: the status from the result, and the snapshot with the cancel flag read again.\<close>

definition result_status :: "bool \<Rightarrow> EngineResult \<Rightarrow> bool \<Rightarrow> string \<times> bool" where
  "result_status cancelled res runErr =
     (if cancelled then (''cancelled'', False)
      else if runErr \<and> \<not> er_OK res then (''error'', er_Partial res)
      else if er_Partial res then (''partial'', er_Partial res)
      else if \<not> er_OK res then (''error'', er_Partial res)
      else (''ok'', er_Partial res))"

definition store_result :: "string \<Rightarrow> string \<times> bool \<Rightarrow> EngineResult \<Rightarrow> MaRuntime \<Rightarrow> MaRuntime" where
  "store_result j st res rt =
     (let seq = (case rev (ma_events_of rt j) of [] \<Rightarrow> 0 | ev # _ \<Rightarrow> je_seq ev);
          (status, is_partial) = (if ma_isCancelled rt j then (''cancelled'', False) else st)
      in rt\<lparr>ma_snaps := amap_put j \<lparr>js_job_id = j, js_status = status, js_seq = seq, js_partial = is_partial,
           js_summaries = summariesFrom (er_Units res), js_answer = er_Summary res\<rparr> (ma_snaps rt)\<rparr>)"

text \<open>The deferred calls after it: the job's context is cancelled and the wait group is left.\<close>

definition leave_run :: "string \<Rightarrow> MaRuntime \<Rightarrow> MaRuntime" where
  "leave_run j rt = ma_cancel_ctx j (rt\<lparr>ma_running := remove1 j (ma_running rt)\<rparr>)"

definition finish :: "string \<Rightarrow> EngineResult \<Rightarrow> bool \<Rightarrow> MaRuntime \<Rightarrow> MaRuntime" where
  "finish j res runErr rt = store_result j (result_status (ma_isCancelled rt j) res runErr) res rt"

text \<open>Run returns at once; the goroutine it starts is \<open>finish\<close> at a later time.\<close>

definition ma_Run :: "bool \<Rightarrow> string \<Rightarrow> MaRuntime \<Rightarrow> (zerror + JobHandle) \<times> MaRuntime" where
  "ma_Run wired j rt =
     (if \<not> wired then (Inl ma_unavailable, rt)
      else if ma_closed rt then (Inl ma_unavailable, rt)
      else (Inr \<lparr>jh_job_id = j, jh_status = ''running'', jh_seq = 1\<rparr>, ma_register j rt))"

definition ma_Watch :: "string \<Rightarrow> int \<Rightarrow> MaRuntime \<Rightarrow> zerror + JobEvent list" where
  "ma_Watch j afterSeq rt = (case map_of (ma_events rt) j of
     None \<Rightarrow> Inl ma_notFound
   | Some evs \<Rightarrow> Inr (sort_key je_seq (map (\<lambda>ev. ev\<lparr>je_payload := ma_clonePayload (Some (je_payload ev))\<rparr>)
       (filter (\<lambda>ev. afterSeq < je_seq ev) evs))))"

definition ma_Get :: "string \<Rightarrow> MaRuntime \<Rightarrow> zerror + JobSnapshot" where
  "ma_Get j rt = (case map_of (ma_snaps rt) j of
     None \<Rightarrow> Inl ma_notFound | Some snap \<Rightarrow> Inr (ma_cloneSnapshot snap))"

definition ma_mark :: "string \<Rightarrow> MaRuntime \<Rightarrow> (zerror + JobSnapshot) \<times> MaRuntime" where
  "ma_mark j rt =
     (if j \<notin> set (ma_cancels rt) then (Inl ma_notFound, rt)
      else (let prev = (case map_of (ma_snaps rt) j of None \<Rightarrow> empty_snapshot [] | Some s \<Rightarrow> s);
                snap = prev\<lparr>js_job_id := j, js_status := ''cancelled''\<rparr>
        in (Inr (ma_cloneSnapshot snap),
            rt\<lparr>ma_cancelled := amap_put j True (ma_cancelled rt), ma_snaps := amap_put j snap (ma_snaps rt)\<rparr>)))"

definition ma_Cancel :: "string \<Rightarrow> MaRuntime \<Rightarrow> (zerror + JobSnapshot) \<times> MaRuntime" where
  "ma_Cancel j rt = (case ma_mark j rt of
     (Inl e, rt') \<Rightarrow> (Inl e, rt') | (Inr snap, rt') \<Rightarrow> (Inr snap, ma_cancel_ctx j rt'))"

text \<open>Close up to its wait, which ends when no run is left.\<close>

definition ma_Close :: "MaRuntime \<Rightarrow> MaRuntime" where
  "ma_Close rt = (if ma_closed rt then rt
     else fold ma_cancel_ctx (ma_cancels rt) (rt\<lparr>ma_closed := True\<rparr>))"

section \<open>A unit of the engine\<close>

text \<open>What the host answers: a result and, on failure, an error. The error of a run is its text with
  the context error it stands for, if any.\<close>

record Brief =
  br_UnitID :: string
  br_Title :: string
  br_Description :: string
  br_Allow :: "string amap"

record WorkResult =
  wr_Payload :: "gmap option"
  wr_DeadEnd :: bool
  wr_Error :: string

record unit_host =
  uh_AgentTurn :: "UnitConfig \<Rightarrow> string \<Rightarrow> gmap option \<Rightarrow> UnitResult \<times> call_error option"
  uh_ZeusDirect :: "UnitConfig \<Rightarrow> string \<Rightarrow> UnitResult \<times> call_error option"

definition unit_brief :: "UnitConfig \<Rightarrow> Brief" where
  "unit_brief cfg = \<lparr>br_UnitID = uc_unit_id cfg, br_Title = uc_goal cfg, br_Description = uc_goal cfg,
     br_Allow = [(''kind'', if uc_kind cfg = [] then UnitKindZeusDirect else uc_kind cfg)]\<rparr>"

definition minUnitPayload :: "UnitResult \<Rightarrow> string \<Rightarrow> gmap" where
  "minUnitPayload res errCode =
     [(''unit_id'', GStr (ur_unit_id res)), (''status'', GStr (ur_status res)),
      (''error_code'', nilIfEmpty errCode)] @
     (if ur_answer res \<noteq> [] then [(''answer'', GStr (ur_answer res))] else []) @
     (if ur_req_ids res \<noteq> [] then [(''req_ids'', GArr (map GStr (ur_req_ids res)))] else [])"

definition domain_code :: "call_error \<Rightarrow> string" where
  "domain_code e = (case e of CallDomain d \<Rightarrow> code_string (ze_code d) | _ \<Rightarrow> [])"

definition unit_run :: "unit_host \<Rightarrow> UnitConfig \<Rightarrow> gmap option \<Rightarrow> ctx_error option \<Rightarrow> string \<Rightarrow>
    WorkResult \<times> call_error option" where
  "unit_run host cfg models ctx jobID = (case ctx of
     Some c \<Rightarrow> (\<lparr>wr_Payload = None, wr_DeadEnd = False, wr_Error = ctx_text c\<rparr>, Some (CallCtx c))
   | None \<Rightarrow> (case (if uc_kind cfg = UnitKindAgentTurn then uh_AgentTurn host cfg jobID models
        else uh_ZeusDirect host cfg jobID) of
      (res, Some e) \<Rightarrow> (\<lparr>wr_Payload = Some (minUnitPayload res (domain_code e)), wr_DeadEnd = False,
          wr_Error = call_error_text e\<rparr>, Some e)
    | (res, None) \<Rightarrow>
        (let payload = minUnitPayload res (ur_error_code res);
             out = \<lparr>wr_Payload = Some payload,
               wr_DeadEnd = ur_dead_end res \<or> ur_status res = UnitStatusDeadEnd, wr_Error = []\<rparr>
         in if ur_status res = UnitStatusCancelled then (out, Some (CallCtx Canceled))
            else if ur_status res = UnitStatusTimeout then (out, Some (CallCtx DeadlineExceeded))
            else if ur_status res = UnitStatusError \<or> ur_status res = UnitStatusDeadEnd then
              (let err = (if ur_error_code res = [] then ur_status res else ur_error_code res) in
               (out\<lparr>wr_Error := err\<rparr>, Some (CallOther err)))
            else (out, None))))"

section \<open>Interleaved runs\<close>

datatype ma_pc = MaRunning | MaConcluded "string \<times> bool" EngineResult | MaFinished

record ma_conf =
  mc_rt :: MaRuntime
  mc_pc :: "ma_pc amap"
  mc_admitted :: nat

definition ma_set :: "string \<Rightarrow> ma_pc \<Rightarrow> MaRuntime \<Rightarrow> ma_conf \<Rightarrow> ma_conf" where
  "ma_set j pc rt c = c\<lparr>mc_rt := rt, mc_pc := amap_put j pc (mc_pc c)\<rparr>"

inductive ma_step :: "ma_conf \<Rightarrow> ma_conf \<Rightarrow> bool" where
  admit: "\<not> ma_closed (mc_rt c) \<Longrightarrow> ma_step c (c\<lparr>mc_admitted := Suc (mc_admitted c)\<rparr>)"
| launch: "mc_admitted c = Suc n \<Longrightarrow> map_of (mc_pc c) j = None \<Longrightarrow>
    ma_step c ((ma_set j MaRunning (ma_register j (mc_rt c)) c)\<lparr>mc_admitted := n\<rparr>)"
| event: "map_of (mc_pc c) j = Some MaRunning \<Longrightarrow> ee_JobID e = j \<Longrightarrow> 0 < ee_Seq e \<Longrightarrow>
    ee_Seq e \<notin> set (map je_seq (ma_events_of (mc_rt c) j)) \<Longrightarrow>
    ma_step c (c\<lparr>mc_rt := record_event (mapEvent e) (mc_rt c)\<rparr>)"
| conclude: "map_of (mc_pc c) j = Some MaRunning \<Longrightarrow> ma_step c (ma_set j
    (MaConcluded (result_status (ma_isCancelled (mc_rt c) j) res runErr) res) (mc_rt c) c)"
| store: "map_of (mc_pc c) j = Some (MaConcluded st res) \<Longrightarrow>
    ma_step c (ma_set j MaFinished (leave_run j (store_result j st res (mc_rt c))) c)"
| cancel: "ma_step c (c\<lparr>mc_rt := snd (ma_mark j (mc_rt c))\<rparr>)"
| ctx_cancel: "ma_step c (c\<lparr>mc_rt := ma_cancel_ctx j (mc_rt c)\<rparr>)"
| close: "ma_step c (c\<lparr>mc_rt := ma_Close (mc_rt c)\<rparr>)"

definition ma_init :: ma_conf where
  "ma_init = \<lparr>mc_rt = ma_New, mc_pc = [], mc_admitted = 0\<rparr>"

inductive ma_reachable :: "ma_conf \<Rightarrow> bool" where
  ma_reach_init: "ma_reachable ma_init"
| ma_reach_step: "ma_reachable c \<Longrightarrow> ma_step c c' \<Longrightarrow> ma_reachable c'"

definition ma_steps :: "ma_conf \<Rightarrow> ma_conf \<Rightarrow> bool" where
  "ma_steps = ma_step\<^sup>*\<^sup>*"

section \<open>The invariant\<close>

definition ma_log_ok :: "string \<Rightarrow> JobEvent list \<Rightarrow> bool" where
  "ma_log_ok j evs \<longleftrightarrow> distinct (map je_seq evs) \<and> list_all (\<lambda>e. 0 < je_seq e \<and> je_job_id e = j) evs"

definition ma_job_valid :: "MaRuntime \<Rightarrow> string \<Rightarrow> bool" where
  "ma_job_valid rt j = (case (map_of (ma_events rt) j, map_of (ma_snaps rt) j) of
     (None, None) \<Rightarrow> j \<notin> set (ma_cancels rt) \<and> map_of (ma_cancelled rt) j = None
   | (Some evs, Some sn) \<Rightarrow> j \<in> set (ma_cancels rt) \<and> ma_log_ok j evs \<and> js_job_id sn = j \<and>
       (ma_isCancelled rt j \<longrightarrow> js_status sn = ''cancelled'')
   | _ \<Rightarrow> False)"

definition ma_valid :: "MaRuntime \<Rightarrow> bool" where
  "ma_valid rt \<longleftrightarrow> (\<forall>j. ma_job_valid rt j)"

lemma ma_clonePayload_Some [simp]: "ma_clonePayload (Some m) = m"
  by (simp add: ma_clonePayload_def)

lemma ma_cloneSnapshot_id [simp]: "ma_cloneSnapshot s = s"
  by (simp add: ma_cloneSnapshot_def)

lemma ma_Watch_eq: "ma_Watch j a rt = (case map_of (ma_events rt) j of
   None \<Rightarrow> Inl ma_notFound | Some evs \<Rightarrow> Inr (filter (\<lambda>ev. a < je_seq ev) (sort_key je_seq evs)))"
  by (simp add: ma_Watch_def filter_sort split: option.split)

lemma ma_valid_New: "ma_valid ma_New"
  by (simp add: ma_valid_def ma_job_valid_def ma_New_def)

lemma ma_valid_register: "ma_valid rt \<Longrightarrow> ma_valid (ma_register j rt)"
  unfolding ma_valid_def
proof
  fix k
  assume "\<forall>j. ma_job_valid rt j"
  then have "ma_job_valid rt k" by blast
  then show "ma_job_valid (ma_register j rt) k"
    by (cases "k = j") (auto simp: ma_job_valid_def ma_register_def update_conv' ma_log_ok_def
      ma_isCancelled_def empty_snapshot_def split: option.splits)
qed

lemma ma_valid_record:
  assumes "ma_valid rt" and "map_of (ma_events rt) (je_job_id ev) \<noteq> None" and "0 < je_seq ev"
    and "je_seq ev \<notin> set (map je_seq (ma_events_of rt (je_job_id ev)))"
  shows "ma_valid (record_event ev rt)"
  unfolding ma_valid_def
proof
  fix j
  have "ma_job_valid rt j" using assms(1) by (simp add: ma_valid_def)
  then show "ma_job_valid (record_event ev rt) j" using assms(2-4)
    by (cases "j = je_job_id ev")
      (auto simp: ma_job_valid_def record_event_def update_conv' ma_isCancelled_def ma_events_of_def
        ma_log_ok_def split: option.splits)
qed

lemma ma_valid_put_snap:
  assumes "ma_valid rt" and "map_of (ma_events rt) j \<noteq> None" and "js_job_id sn = j"
    and "ma_isCancelled rt j \<Longrightarrow> js_status sn = ''cancelled''"
  shows "ma_valid (rt\<lparr>ma_snaps := amap_put j sn (ma_snaps rt)\<rparr>)"
  unfolding ma_valid_def
proof
  fix k
  have "ma_job_valid rt k" using assms(1) by (simp add: ma_valid_def)
  then show "ma_job_valid (rt\<lparr>ma_snaps := amap_put j sn (ma_snaps rt)\<rparr>) k" using assms(2-4)
    by (cases "k = j") (auto simp: ma_job_valid_def update_conv' ma_isCancelled_def split: option.splits)
qed

lemma ma_valid_store:
  "ma_valid rt \<Longrightarrow> map_of (ma_events rt) j \<noteq> None \<Longrightarrow> ma_valid (store_result j st res rt)"
  unfolding store_result_def Let_def split_beta by (rule ma_valid_put_snap) simp_all

lemma ma_valid_cong:
  assumes "ma_events rt' = ma_events rt" "ma_snaps rt' = ma_snaps rt" "ma_cancels rt' = ma_cancels rt"
    "ma_cancelled rt' = ma_cancelled rt"
  shows "ma_valid rt' \<longleftrightarrow> ma_valid rt"
  unfolding ma_valid_def ma_job_valid_def ma_isCancelled_def assms ..

lemma ma_valid_ctx [simp]: "ma_valid (ma_cancel_ctx j rt) \<longleftrightarrow> ma_valid rt"
  by (rule ma_valid_cong) (simp_all add: ma_cancel_ctx_def)

lemma ma_cancel_ctx_simps [simp]:
  "ma_events (ma_cancel_ctx j rt) = ma_events rt" "ma_snaps (ma_cancel_ctx j rt) = ma_snaps rt"
  "ma_cancelled (ma_cancel_ctx j rt) = ma_cancelled rt" "ma_running (ma_cancel_ctx j rt) = ma_running rt"
  by (simp_all add: ma_cancel_ctx_def)

lemma ma_valid_running [simp]: "ma_valid (rt\<lparr>ma_running := js\<rparr>) \<longleftrightarrow> ma_valid rt"
  by (rule ma_valid_cong) simp_all

lemma ma_valid_mark: "ma_valid rt \<Longrightarrow> ma_valid (snd (ma_mark j rt))"
proof (cases "j \<in> set (ma_cancels rt)")
  case True
  assume v: "ma_valid rt"
  show ?thesis unfolding ma_valid_def
  proof
    fix k
    have "ma_job_valid rt k" using v by (simp add: ma_valid_def)
    then show "ma_job_valid (snd (ma_mark j rt)) k" using True
      by (cases "k = j") (auto simp: ma_job_valid_def ma_mark_def Let_def update_conv' ma_isCancelled_def
        split: option.splits)
  qed
qed (simp add: ma_mark_def)

lemma ma_Close_simps [simp]:
  "ma_events (ma_Close rt) = ma_events rt" "ma_snaps (ma_Close rt) = ma_snaps rt"
  "ma_cancelled (ma_Close rt) = ma_cancelled rt" "ma_cancels (ma_Close rt) = ma_cancels rt"
  "ma_running (ma_Close rt) = ma_running rt" "ma_closed (ma_Close rt)"
proof -
  have f: "ma_events (fold ma_cancel_ctx js r) = ma_events r \<and> ma_snaps (fold ma_cancel_ctx js r) = ma_snaps r \<and>
    ma_cancelled (fold ma_cancel_ctx js r) = ma_cancelled r \<and> ma_cancels (fold ma_cancel_ctx js r) = ma_cancels r \<and>
    ma_running (fold ma_cancel_ctx js r) = ma_running r \<and> ma_closed (fold ma_cancel_ctx js r) = ma_closed r" for js r
    by (induction js arbitrary: r) (simp_all add: ma_cancel_ctx_def)
  show "ma_events (ma_Close rt) = ma_events rt" "ma_snaps (ma_Close rt) = ma_snaps rt"
    "ma_cancelled (ma_Close rt) = ma_cancelled rt" "ma_cancels (ma_Close rt) = ma_cancels rt"
    "ma_running (ma_Close rt) = ma_running rt" "ma_closed (ma_Close rt)"
    using f [of "ma_cancels rt" "rt\<lparr>ma_closed := True\<rparr>"] by (simp_all add: ma_Close_def)
qed

lemma ma_valid_Close [simp]: "ma_valid (ma_Close rt) \<longleftrightarrow> ma_valid rt"
  by (rule ma_valid_cong) simp_all

lemma ma_valid_Cancel: "ma_valid rt \<Longrightarrow> ma_valid (snd (ma_Cancel j rt))"
  using ma_valid_mark [of rt j] by (auto simp: ma_Cancel_def ma_valid_ctx split: prod.split sum.split)

text \<open>The laws of the port. The log of a job is what Watch shows of it: its events in order.\<close>

lemma ma_log_sorted:
  "ma_log_ok j evs \<Longrightarrow> sorted_wrt (<) (map je_seq (sort_key je_seq evs)) \<and> (\<forall>e \<in> set evs. 0 < je_seq e)"
proof -
  assume l: "ma_log_ok j evs"
  have "distinct (map je_seq (sort_key je_seq evs))"
    using l by (simp add: ma_log_ok_def distinct_map)
  then have "sorted_wrt (<) (map je_seq (sort_key je_seq evs))"
    by (simp add: strict_sorted_iff)
  with l show ?thesis by (simp add: ma_log_ok_def list_all_iff)
qed

interpretation ma: jobs_port "\<lambda>rt j. map_option (sort_key je_seq) (map_of (ma_events rt) j)"
  ma_Get ma_Watch ma_Cancel ma_valid
proof unfold_locales
  fix s j evs assume v: "ma_valid s" and e: "map_option (sort_key je_seq) (map_of (ma_events s) j) = Some evs"
  from e obtain xs where xs: "map_of (ma_events s) j = Some xs" "evs = sort_key je_seq xs" by auto
  from v have "ma_job_valid s j" by (simp add: ma_valid_def)
  with xs obtain sn where sn: "map_of (ma_snaps s) j = Some sn" "j \<in> set (ma_cancels s)" "ma_log_ok j xs"
    by (auto simp: ma_job_valid_def split: option.splits)
  show "\<exists>sn s'. ma_Cancel j s = (Inr sn, s') \<and> js_status sn = ''cancelled'' \<and> ma_Get j s' = Inr sn \<and>
      ma_valid s' \<and> (\<lambda>j. map_option (sort_key je_seq) (map_of (ma_events s') j)) =
        (\<lambda>j. map_option (sort_key je_seq) (map_of (ma_events s) j))"
    using ma_valid_Cancel [OF v, of j] sn
    by (auto simp: ma_Cancel_def ma_mark_def ma_Get_def ma_cancel_ctx_def update_conv' Let_def)
  show "sorted_wrt (<) (map je_seq evs) \<and> (\<forall>e \<in> set evs. 0 < je_seq e)"
    using ma_log_sorted [OF sn(3)] xs(2) by simp
  show "ma_Watch j a s = Inr (filter (\<lambda>e. a < je_seq e) evs)" for a
    by (simp add: ma_Watch_eq xs)
next
  fix s j assume "ma_valid s" and "map_option (sort_key je_seq) (map_of (ma_events s) j) = None"
  then show "\<exists>e. ma_Get j s = Inl e \<and> ze_code e = CodeJobsNotFound"
    by (auto simp: ma_valid_def ma_job_valid_def ma_Get_def ma_notFound_def split: option.splits dest!: spec [of _ j])
qed (auto simp: ma_Watch_eq ma_notFound_def)

section \<open>Every interleaving\<close>

definition ma_outcome_ok :: "string \<times> bool \<Rightarrow> bool" where
  "ma_outcome_ok st \<longleftrightarrow> fst st \<in> {''ok'', ''partial'', ''error''} \<and> (fst st = ''ok'' \<longrightarrow> \<not> snd st) \<and>
     (fst st = ''partial'' \<longrightarrow> snd st)"

definition ma_status_ok :: "ma_conf \<Rightarrow> string \<Rightarrow> bool" where
  "ma_status_ok c j = (let gone = ma_isCancelled (mc_rt c) j; live = (j \<in> set (ma_running (mc_rt c))) in
     case (map_of (mc_pc c) j, map_of (ma_snaps (mc_rt c)) j) of
     (None, None) \<Rightarrow> \<not> live
   | (Some MaRunning, Some sn) \<Rightarrow> live \<and> js_status sn = (if gone then ''cancelled'' else ''running'')
   | (Some (MaConcluded st res), Some sn) \<Rightarrow> live \<and> (gone \<or> ma_outcome_ok st) \<and>
       js_status sn = (if gone then ''cancelled'' else ''running'')
   | (Some MaFinished, Some sn) \<Rightarrow> \<not> live \<and>
       (if gone then js_status sn = ''cancelled'' else ma_outcome_ok (js_status sn, js_partial sn))
   | _ \<Rightarrow> False)"

definition ma_conf_ok :: "ma_conf \<Rightarrow> bool" where
  "ma_conf_ok c \<longleftrightarrow> ma_valid (mc_rt c) \<and> distinct (ma_running (mc_rt c)) \<and> (\<forall>j. ma_status_ok c j)"

lemma ma_conf_okD:
  assumes "ma_conf_ok c"
  shows "ma_valid (mc_rt c)" "distinct (ma_running (mc_rt c))" "ma_status_ok c j"
    "map_of (mc_pc c) j = None \<longleftrightarrow> map_of (ma_events (mc_rt c)) j = None"
proof -
  show v: "ma_valid (mc_rt c)" and "distinct (ma_running (mc_rt c))" and o: "ma_status_ok c j"
    using assms by (simp_all add: ma_conf_ok_def)
  have "ma_job_valid (mc_rt c) j" using v by (simp add: ma_valid_def)
  then show "map_of (mc_pc c) j = None \<longleftrightarrow> map_of (ma_events (mc_rt c)) j = None"
    using o by (auto simp: ma_job_valid_def ma_status_ok_def Let_def split: option.splits ma_pc.splits)
qed

lemma ma_status_ok_cong:
  assumes "map_of (mc_pc c') j = map_of (mc_pc c) j"
    and "map_of (ma_snaps (mc_rt c')) j = map_of (ma_snaps (mc_rt c)) j"
    and "map_of (ma_cancelled (mc_rt c')) j = map_of (ma_cancelled (mc_rt c)) j"
    and "j \<in> set (ma_running (mc_rt c')) \<longleftrightarrow> j \<in> set (ma_running (mc_rt c))"
  shows "ma_status_ok c' j \<longleftrightarrow> ma_status_ok c j"
  unfolding ma_status_ok_def ma_isCancelled_def assms by (rule refl)

lemma ma_mark_frame:
  "ma_running (snd (ma_mark j rt)) = ma_running rt"
  "k \<noteq> j \<Longrightarrow> map_of (ma_snaps (snd (ma_mark j rt))) k = map_of (ma_snaps rt) k"
  "k \<noteq> j \<Longrightarrow> map_of (ma_cancelled (snd (ma_mark j rt))) k = map_of (ma_cancelled rt) k"
  by (simp_all add: ma_mark_def Let_def update_conv')

lemma ma_ok_status:
  assumes "ma_conf_ok c" and "ma_valid (mc_rt c')" and "distinct (ma_running (mc_rt c'))"
    and "\<And>k. k \<noteq> j \<Longrightarrow> ma_status_ok c k \<Longrightarrow> ma_status_ok c' k" and "ma_status_ok c' j"
  shows "ma_conf_ok c'"
  using assms unfolding ma_conf_ok_def by metis

lemma ma_ok_same:
  assumes "ma_conf_ok c" and "ma_valid (mc_rt c')" and "mc_pc c' = mc_pc c"
    and "ma_snaps (mc_rt c') = ma_snaps (mc_rt c)" and "ma_cancelled (mc_rt c') = ma_cancelled (mc_rt c)"
    and "ma_running (mc_rt c') = ma_running (mc_rt c)"
  shows "ma_conf_ok c'"
  using assms unfolding ma_conf_ok_def by (metis ma_status_ok_cong)

lemma ma_result_ok: "cancelled \<or> ma_outcome_ok (result_status cancelled res runErr)"
  by (simp add: result_status_def ma_outcome_ok_def)

lemma ma_conf_ok_step:
  assumes "ma_step c c'" and ok: "ma_conf_ok c"
  shows "ma_conf_ok c'"
proof -
  note f = ma_conf_okD [OF ok]
  from assms(1) show ?thesis
  proof cases
    case admit
    then show ?thesis using f(1) by (intro ma_ok_same [OF ok]) simp_all
  next
    case (launch n j)
    show ?thesis
    proof (rule ma_ok_status [OF ok, of _ j])
      show "ma_valid (mc_rt c')" using launch f(1) by (simp add: ma_set_def ma_valid_register)
      show "distinct (ma_running (mc_rt c'))"
        using launch f(2) f(3) [of j] by (simp add: ma_set_def ma_register_def ma_status_ok_def Let_def split: option.splits)
      show "ma_status_ok c' j"
        using launch by (simp add: ma_set_def ma_register_def ma_status_ok_def Let_def update_conv' ma_isCancelled_def)
      fix k assume "k \<noteq> j" and "ma_status_ok c k"
      then show "ma_status_ok c' k"
        using launch ma_status_ok_cong [of c' k c] by (simp add: ma_set_def ma_register_def update_conv')
    qed
  next
    case (event j e)
    then have "ma_valid (record_event (mapEvent e) (mc_rt c))"
      using f(4) [of j] by (intro ma_valid_record [OF f(1)]) (auto simp: mapEvent_def)
    then show ?thesis using event by (intro ma_ok_same [OF ok]) (simp_all add: record_event_def)
  next
    case (conclude j res runErr)
    show ?thesis
    proof (rule ma_ok_status [OF ok, of _ j])
      show "ma_status_ok c' j" using conclude f(3) [of j] ma_result_ok
        by (auto simp: ma_set_def ma_status_ok_def Let_def update_conv' split: option.splits)
      fix k assume "k \<noteq> j" and "ma_status_ok c k"
      then show "ma_status_ok c' k"
        using conclude ma_status_ok_cong [of c' k c] by (simp add: ma_set_def update_conv')
    qed (use conclude f(1,2) in \<open>simp_all add: ma_set_def\<close>)
  next
    case (store j st res)
    note l = ma_status_ok_def Let_def ma_set_def leave_run_def ma_cancel_ctx_def store_result_def
      ma_isCancelled_def split_beta
    show ?thesis
    proof (rule ma_ok_status [OF ok, of _ j])
      show "ma_valid (mc_rt c')" using store f(4) [of j] ma_valid_store [OF f(1), of j]
        by (simp add: ma_set_def leave_run_def)
      show "distinct (ma_running (mc_rt c'))" using store f(2) by (simp add: l)
      show "ma_status_ok c' j" using store f(2) f(3) [of j]
        by (auto simp: l update_conv' split: option.splits)
      fix k assume "k \<noteq> j" and "ma_status_ok c k"
      then show "ma_status_ok c' k" using store f(2) ma_status_ok_cong [of c' k c]
        by (simp add: l update_conv')
    qed
  next
    case (cancel j)
    show ?thesis
    proof (rule ma_ok_status [OF ok, of _ j])
      show "ma_valid (mc_rt c')" using cancel f(1) by (simp add: ma_valid_mark)
      show "distinct (ma_running (mc_rt c'))" using cancel f(2) by (simp add: ma_mark_frame)
      have "ma_job_valid (mc_rt c) j" using f(1) by (simp add: ma_valid_def)
      then show "ma_status_ok c' j" using cancel f(3) [of j]
        by (auto simp: ma_status_ok_def ma_job_valid_def ma_mark_def Let_def ma_isCancelled_def update_conv'
          split: option.splits ma_pc.splits)
      fix k assume "k \<noteq> j" and "ma_status_ok c k"
      then show "ma_status_ok c' k"
        using cancel ma_status_ok_cong [of c' k c] by (simp add: ma_mark_frame)
    qed
  next
    case (ctx_cancel j)
    then show ?thesis using f(1) by (intro ma_ok_same [OF ok]) simp_all
  next
    case close
    then show ?thesis using f(1) by (intro ma_ok_same [OF ok]) simp_all
  qed
qed

lemma ma_conf_ok_reachable: "ma_reachable c \<Longrightarrow> ma_conf_ok c"
proof (induction rule: ma_reachable.induct)
  case ma_reach_init
  have "ma_status_ok ma_init j" for j
    by (simp add: ma_status_ok_def ma_init_def ma_New_def)
  then show ?case by (simp add: ma_conf_ok_def ma_init_def ma_valid_New) (simp add: ma_New_def)
next
  case (ma_reach_step c c')
  then show ?case by (blast intro: ma_conf_ok_step)
qed

lemma ma_reachable_steps: "ma_steps c c' \<Longrightarrow> ma_reachable c \<Longrightarrow> ma_reachable c'"
  unfolding ma_steps_def by (induction rule: rtranclp_induct) (auto intro: ma_reach_step)

lemma ma_cancelled_step:
  assumes "ma_step c c'" and "ma_conf_ok c" and "ma_isCancelled (mc_rt c) j"
  shows "ma_isCancelled (mc_rt c') j"
  using assms(1)
proof cases
  case (launch n k)
  have "k \<noteq> j" using launch assms(2,3) ma_conf_okD [OF assms(2)]
    by (auto simp: ma_valid_def ma_job_valid_def ma_isCancelled_def dest!: spec [of _ j] split: option.splits)
  then show ?thesis using launch assms(3) by (simp add: ma_set_def ma_register_def ma_isCancelled_def update_conv')
next
  case (cancel k)
  then show ?thesis using assms(3) by (simp add: ma_mark_def Let_def ma_isCancelled_def update_conv')
qed (use assms(3) in \<open>simp_all add: ma_set_def ma_isCancelled_def record_event_def leave_run_def
  store_result_def Let_def split_beta\<close>)

lemma ma_cancelled_steps:
  assumes "ma_steps c c'" and "ma_conf_ok c" and "ma_isCancelled (mc_rt c) j"
  shows "ma_conf_ok c' \<and> ma_isCancelled (mc_rt c') j"
  using assms unfolding ma_steps_def
  by (induction rule: rtranclp_induct) (blast intro: ma_conf_ok_step ma_cancelled_step)+

lemma ma_Get_cancelled:
  assumes "ma_conf_ok c" and "ma_isCancelled (mc_rt c) j"
  shows "\<exists>sn. ma_Get j (mc_rt c) = Inr sn \<and> js_status sn = ''cancelled''"
proof -
  have "ma_job_valid (mc_rt c) j" using assms(1) by (simp add: ma_conf_ok_def ma_valid_def)
  then show ?thesis using assms(2)
    by (auto simp: ma_job_valid_def ma_Get_def ma_isCancelled_def split: option.splits)
qed

text \<open>A run admitted before Close and registered after it: Close has cancelled every context it saw, and
  this job still runs on a live context.\<close>

definition ma_late :: ma_conf where
  "ma_late = (let c1 = ma_init\<lparr>mc_admitted := 1\<rparr>; c2 = c1\<lparr>mc_rt := ma_Close (mc_rt c1)\<rparr>
     in (ma_set ''job_1'' MaRunning (ma_register ''job_1'' (mc_rt c2)) c2)\<lparr>mc_admitted := 0\<rparr>)"

lemma ma_late_reachable: "ma_reachable ma_late"
proof -
  let ?c1 = "ma_init\<lparr>mc_admitted := 1\<rparr>"
  let ?c2 = "?c1\<lparr>mc_rt := ma_Close (mc_rt ?c1)\<rparr>"
  have "ma_step ma_init ?c1" using ma_step.admit [of ma_init] by (simp add: ma_init_def ma_New_def)
  then have "ma_reachable ?c1" using ma_reach_init ma_reach_step by blast
  moreover have "ma_step ?c1 ?c2" by (rule ma_step.close)
  ultimately have "ma_reachable ?c2" by (rule ma_reach_step)
  moreover have "ma_step ?c2 ma_late"
    using ma_step.launch [of ?c2 0 "''job_1''"] by (simp add: ma_late_def ma_init_def)
  ultimately show ?thesis by (rule ma_reach_step)
qed

lemma ma_job_after_close:
  "ma_closed (mc_rt ma_late) \<and> ''job_1'' \<in> set (ma_running (mc_rt ma_late)) \<and> ma_ctx_done (mc_rt ma_late) = []"
  by (simp add: ma_late_def ma_set_def ma_register_def ma_init_def ma_New_def ma_Close_def)

section \<open>The properties\<close>



text \<open>
  C31. A cancellation is never taken back: once Cancel found a job, every later state, after any number of
  further events, engine results, cancellations of other jobs and Close, shows it as cancelled.
\<close>
theorem ma_cancel_sticks:
  assumes "ma_reachable c" and "ma_Cancel j (mc_rt c) = (Inr sn, rt')" and "ma_steps (c\<lparr>mc_rt := rt'\<rparr>) c'"
  shows "\<exists>sn'. ma_Get j (mc_rt c') = Inr sn' \<and> js_status sn' = ''cancelled''"
proof -
  let ?c1 = "c\<lparr>mc_rt := snd (ma_mark j (mc_rt c))\<rparr>"
  have rt': "rt' = ma_cancel_ctx j (snd (ma_mark j (mc_rt c)))" and m: "j \<in> set (ma_cancels (mc_rt c))"
    using assms(2) by (auto simp: ma_Cancel_def ma_mark_def split: prod.splits sum.splits if_splits)
  have "ma_step c ?c1" by (rule ma_step.cancel)
  moreover have "ma_step ?c1 (c\<lparr>mc_rt := rt'\<rparr>)" using ma_step.ctx_cancel [of ?c1 j] by (simp add: rt')
  ultimately have "ma_reachable (c\<lparr>mc_rt := rt'\<rparr>)" using assms(1) by (blast intro: ma_reach_step)
  then have "ma_conf_ok (c\<lparr>mc_rt := rt'\<rparr>)" by (rule ma_conf_ok_reachable)
  moreover have "ma_isCancelled (mc_rt (c\<lparr>mc_rt := rt'\<rparr>)) j"
    using m by (simp add: rt' ma_isCancelled_def ma_mark_def Let_def update_conv')
  ultimately show ?thesis using ma_cancelled_steps [OF assms(3)] ma_Get_cancelled by blast
qed

lemma ma_cancel_sticks_witness:
  "let rt' = snd (ma_Cancel ''job_1'' (mc_rt ma_late));
       c2 = (ma_late\<lparr>mc_rt := rt'\<rparr>)\<lparr>mc_rt := ma_Close rt'\<rparr>
   in ma_steps (ma_late\<lparr>mc_rt := rt'\<rparr>) c2 \<and>
     (\<exists>sn. ma_Get ''job_1'' (mc_rt c2) = Inr sn \<and> js_status sn = ''cancelled'')"
proof -
  let ?rt = "snd (ma_Cancel ''job_1'' (mc_rt ma_late))"
  let ?c1 = "ma_late\<lparr>mc_rt := ?rt\<rparr>"
  have st: "ma_steps ?c1 (?c1\<lparr>mc_rt := ma_Close (mc_rt ?c1)\<rparr>)"
    unfolding ma_steps_def by (rule r_into_rtranclp, rule ma_step.close)
  obtain sn where "ma_Cancel ''job_1'' (mc_rt ma_late) = (Inr sn, ?rt)"
    by (simp add: ma_late_def ma_set_def ma_register_def ma_Cancel_def ma_mark_def Let_def)
  from ma_cancel_sticks [OF ma_late_reachable this st] st show ?thesis by (simp add: Let_def)
qed

text \<open>
  A unit's run succeeds exactly when its context is live, the host reports no error and the unit's status
  is none of cancelled, timeout, error and dead end; a unit whose host was called always has a payload with
  the unit's id and status.
\<close>
theorem unit_run_outcome:
  "let (out, err) = unit_run host cfg models ctx jobID;
       (res, herr) = (if uc_kind cfg = UnitKindAgentTurn then uh_AgentTurn host cfg jobID models
         else uh_ZeusDirect host cfg jobID)
   in (err = None \<longleftrightarrow> ctx = None \<and> herr = None \<and>
         ur_status res \<notin> {UnitStatusCancelled, UnitStatusTimeout, UnitStatusError, UnitStatusDeadEnd}) \<and>
      (case wr_Payload out of None \<Rightarrow> ctx \<noteq> None
       | Some p \<Rightarrow> ctx = None \<and> mget p ''unit_id'' = GStr (ur_unit_id res) \<and>
           mget p ''status'' = GStr (ur_status res))"
proof -
  have g: "mget (minUnitPayload r x) ''unit_id'' = GStr (ur_unit_id r)"
    "mget (minUnitPayload r x) ''status'' = GStr (ur_status r)" for r x
    by (simp_all add: minUnitPayload_def mget_def)
  obtain res herr where h: "(if uc_kind cfg = UnitKindAgentTurn then uh_AgentTurn host cfg jobID models
      else uh_ZeusDirect host cfg jobID) = (res, herr)" by fastforce
  show ?thesis unfolding unit_run_def h by (cases ctx; cases herr) (simp_all add: Let_def g)
qed

end
