(* ===== verification/Go_Filepath.thy ===== *)
theory Go_Filepath
  imports Zeus_Prelude
begin

text \<open>
  Package path/filepath on a Unix system, as the catalog code uses it, the two trimming functions
  of package strings that go with it, and the file system behind package os.

  A path is a byte string; its elements are what lies between slashes. The file system is a record
  of what the system calls answer at one moment, so every lemma about it holds for every tree, with
  links and unreadable files.
\<close>

section \<open>Affixes\<close>

definition trim_prefix :: "string \<Rightarrow> string \<Rightarrow> string" where
  "trim_prefix s q = (if has_prefix s q then drop (length q) s else s)"

definition trim_suffix :: "string \<Rightarrow> string \<Rightarrow> string" where
  "trim_suffix s q = (if has_suffix s q then take (length s - length q) s else s)"

lemma trim_prefix_append [simp]: "trim_prefix (q @ s) q = s"
  by (simp add: trim_prefix_def has_prefix_def)

lemma trim_suffix_append [simp]: "trim_suffix (s @ q) q = s"
  by (simp add: trim_suffix_def has_suffix_def suffix_def)

section \<open>Paths\<close>

definition slash :: char where "slash = CHR ''/''"

definition elements :: "string \<Rightarrow> string list" where
  "elements s = split_on slash s"

text \<open>One element of Clean: the elements kept so far are in reverse order.\<close>

definition clean_step :: "bool \<Rightarrow> string list \<Rightarrow> string \<Rightarrow> string list" where
  "clean_step rooted st c =
     (if c = [] \<or> c = ''.'' then st
      else if c = ''..'' then (case st of
          [] \<Rightarrow> if rooted then [] else [''..'']
        | t # ts \<Rightarrow> if t = ''..'' then ''..'' # st else ts)
      else c # st)"

definition is_abs :: "string \<Rightarrow> bool" where
  "is_abs s \<longleftrightarrow> has_prefix s [slash]"

definition Clean :: "string \<Rightarrow> string" where
  "Clean s = (let body = join_with [slash]
       (rev (foldl (clean_step (is_abs s)) [] (elements s))) in
     if is_abs s then slash # body else if body = [] then ''.'' else body)"

text \<open>Join: leading empty elements are dropped, and the empty list joins to the empty string.\<close>

definition path_join :: "string list \<Rightarrow> string" where
  "path_join es = (case dropWhile (\<lambda>e. e = []) es of
     [] \<Rightarrow> [] | fs \<Rightarrow> Clean (join_with [slash] fs))"

definition path_base :: "string \<Rightarrow> string" where
  "path_base s = (if s = [] then ''.'' else
     (let t = trim_right_set {slash} s in if t = [] then [slash] else last (elements t)))"

definition path_ext :: "string \<Rightarrow> string" where
  "path_ext s = (let l = last (elements s) in
     if CHR ''.'' \<in> set l then CHR ''.'' # rev (takeWhile (\<lambda>c. c \<noteq> CHR ''.'') (rev l)) else [])"

definition path_dir :: "string \<Rightarrow> string" where
  "path_dir s = Clean (rev (dropWhile (\<lambda>c. c \<noteq> slash) (rev s)))"

text \<open>Abs asks for the working directory, which can fail.\<close>

definition path_abs :: "string option \<Rightarrow> string \<Rightarrow> string option" where
  "path_abs cwd s = (if is_abs s then Some (Clean s)
     else map_option (\<lambda>d. path_join [d, s]) cwd)"

text \<open>Rel: what is left of the two cleaned paths after their common elements.\<close>

fun strip_common :: "string list \<Rightarrow> string list \<Rightarrow> string list \<times> string list" where
  "strip_common (b # bs) (t # ts) = (if b = t then strip_common bs ts else (b # bs, t # ts))"
| "strip_common bs ts = (bs, ts)"

definition rel_elements :: "string \<Rightarrow> string list" where
  "rel_elements s = (if s = [] then [] else if s = [slash] then [[]] else elements s)"

definition path_rel :: "string \<Rightarrow> string \<Rightarrow> string option" where
  "path_rel base0 targ0 = (let base = Clean base0; targ = Clean targ0 in
     if targ = base then Some ''.''
     else (let b = (if base = ''.'' then [] else base) in
       if is_abs b \<noteq> is_abs targ then None
       else (case strip_common (rel_elements b) (rel_elements targ) of (bs, ts) \<Rightarrow>
         if bs \<noteq> [] \<and> ts \<noteq> [] \<and> hd bs = ''..'' then None
         else Some (join_with [slash] (map (\<lambda>_. ''..'') bs @ ts)))))"

section \<open>The file system\<close>

datatype fkind = FRegular | FDirectory | FOther

text \<open>stat follows links; read gives the error text or the bytes; list gives the entries of a
  directory with their own IsDir; mtime is in nanoseconds.\<close>

record filesys =
  fs_stat :: "string \<Rightarrow> fkind option"
  fs_mtime :: "string \<Rightarrow> int"
  fs_read :: "string \<Rightarrow> string + string"
  fs_list :: "string \<Rightarrow> (string \<times> bool) list option"
  fs_cwd :: "string option"

section \<open>Facts\<close>

lemma split_on_plain: "sep \<notin> set s \<Longrightarrow> split_on sep s = [s]"
  by (induction s) auto

lemma split_on_append:
  "sep \<notin> set a \<Longrightarrow> split_on sep (a @ sep # b) = a # split_on sep b"
  by (induction a) (auto split: list.splits)

lemma split_on_join:
  "ps \<noteq> [] \<Longrightarrow> list_all (\<lambda>s. sep \<notin> set s) ps \<Longrightarrow> split_on sep (join_with [sep] ps) = ps"
  by (induction "[sep]" ps rule: join_with.induct) (auto simp: split_on_plain split_on_append)

lemma split_on_free: "s \<in> set (split_on sep t) \<Longrightarrow> sep \<notin> set s"
  by (induction t arbitrary: s) (auto split: if_splits list.splits)

lemma split_on_trailing: "split_on sep (a @ [sep]) = split_on sep a @ [[]]"
  by (induction a) (auto split: list.splits)

lemma last_split_on: "last (split_on sep s) = rev (takeWhile (\<lambda>c. c \<noteq> sep) (rev s))"
proof (induction s)
  case (Cons c cs)
  obtain u us where u: "split_on sep cs = u # us" by (cases "split_on sep cs") auto
  show ?case
  proof (cases "sep \<in> set cs")
    case True
    then have "us \<noteq> []" using u split_on_free [of u sep cs] join_split_on [of sep cs]
      by (cases us) auto
    with u Cons True show ?thesis by (auto simp: takeWhile_append1)
  next
    case False
    then have tw: "takeWhile (\<lambda>c. c \<noteq> sep) (rev cs @ zs) = rev cs @ takeWhile (\<lambda>c. c \<noteq> sep) zs" for zs
      by (intro takeWhile_append2) auto
    with False show ?thesis by (simp add: split_on_plain)
  qed
qed simp

text \<open>An element that a path can be extended with, and what Clean makes of clean elements.\<close>

definition proper_element :: "string \<Rightarrow> bool" where
  "proper_element s \<longleftrightarrow> s \<noteq> [] \<and> s \<noteq> ''.'' \<and> s \<noteq> ''..'' \<and> slash \<notin> set s"

lemma clean_step_proper [simp]: "proper_element c \<Longrightarrow> clean_step r st c = c # st"
  by (simp add: clean_step_def proper_element_def)

lemma clean_step_Nil [simp]: "clean_step r st [] = st"
  by (simp add: clean_step_def)

text \<open>The elements Clean keeps: some number of \<open>..\<close>, none when rooted, then proper ones.\<close>

definition clean_stack :: "bool \<Rightarrow> string list \<Rightarrow> bool" where
  "clean_stack r st \<longleftrightarrow> (\<exists>us n. st = us @ replicate n ''..'' \<and> list_all proper_element us \<and>
     (r \<longrightarrow> n = 0))"

lemma clean_stack_step:
  assumes "clean_stack r st" and "slash \<notin> set c"
  shows "clean_stack r (clean_step r st c)"
proof -
  from assms(1) obtain us n where st: "st = us @ replicate n ''..''" "list_all proper_element us"
    "r \<longrightarrow> n = 0" unfolding clean_stack_def by blast
  have push: "clean_stack r (replicate (Suc n) ''..'')" if "us = []" "\<not> r"
    unfolding clean_stack_def using that by (intro exI [of _ "[]"] exI [of _ "Suc n"]) simp
  have pop: "clean_stack r (tl us @ replicate n ''..'')"
    unfolding clean_stack_def using st by (intro exI [of _ "tl us"] exI [of _ n]) (cases us, auto)
  have keep: "clean_stack r (c # st)" if "proper_element c"
    unfolding clean_stack_def using st that by (intro exI [of _ "c # us"] exI [of _ n]) simp
  show ?thesis
  proof (cases "c = ''..''")
    case True
    show ?thesis
    proof (cases us)
      case (Cons u vs)
      then have "u \<noteq> ''..''" using st(2) by (simp add: proper_element_def)
      with True st(1) Cons pop show ?thesis by (simp add: clean_step_def)
    next
      case Nil
      then show ?thesis using True st assms(1) push
        by (cases n) (auto simp: clean_step_def)
    qed
  next
    case False
    then show ?thesis using assms keep by (auto simp: clean_step_def proper_element_def)
  qed
qed

lemma clean_stack_foldl:
  "clean_stack r st \<Longrightarrow> list_all (\<lambda>c. slash \<notin> set c) cs \<Longrightarrow> clean_stack r (foldl (clean_step r) st cs)"
  by (induction cs arbitrary: st) (auto intro: clean_stack_step)

definition cleaned :: "string \<Rightarrow> string list" where
  "cleaned s = rev (foldl (clean_step (is_abs s)) [] (elements s))"

lemma elements_free: "list_all (\<lambda>c. slash \<notin> set c) (elements s)"
  by (auto simp: elements_def list_all_iff dest: split_on_free)

lemma cleaned_shape:
  "\<exists>us n. cleaned s = replicate n ''..'' @ us \<and> list_all proper_element us \<and> (is_abs s \<longrightarrow> n = 0)"
proof -
  have "clean_stack (is_abs s) []" unfolding clean_stack_def by (auto intro: exI [of _ "[]"])
  from clean_stack_foldl [OF this elements_free] obtain us n where
    "foldl (clean_step (is_abs s)) [] (elements s) = us @ replicate n ''..''"
    "list_all proper_element us" "is_abs s \<longrightarrow> n = 0" unfolding clean_stack_def by blast
  then show ?thesis by (intro exI [of _ "rev us"] exI [of _ n]) (simp add: cleaned_def list_all_iff)
qed

lemma Clean_cleaned:
  "Clean s = (let body = join_with [slash] (cleaned s) in
     if is_abs s then slash # body else if body = [] then ''.'' else body)"
  by (simp add: Clean_def cleaned_def)

text \<open>Clean neither adds nor drops elements of a clean path.\<close>

lemma join_snoc: "join_with sep (ps @ [q]) = (if ps = [] then q else join_with sep ps @ sep @ q)"
  by (induction sep ps rule: join_with.induct) auto

lemma join_nonempty: "list_all (\<lambda>c. c \<noteq> []) ps \<Longrightarrow> join_with sep ps = [] \<longleftrightarrow> ps = []"
  by (induction sep ps rule: join_with.induct) auto

lemma proper_free: "proper_element c \<Longrightarrow> c \<noteq> [] \<and> slash \<notin> set c"
  by (simp add: proper_element_def)

lemma cleaned_parts: "list_all (\<lambda>c. c \<noteq> [] \<and> slash \<notin> set c) (cleaned s)"
proof -
  obtain us n where "cleaned s = replicate n ''..'' @ us" "list_all proper_element us"
    using cleaned_shape by blast
  then show ?thesis using proper_free by (auto simp: list_all_iff slash_def)
qed

lemma is_abs_Cons [simp]: "is_abs (c # s) \<longleftrightarrow> c = slash" "\<not> is_abs []"
  by (auto simp: is_abs_def has_prefix_def)

lemma foldl_dots: "foldl (clean_step False) (replicate k ''..'') (replicate n ''..'') = replicate (k + n) ''..''"
proof (induction n arbitrary: k)
  case (Suc n)
  have "clean_step False (replicate k ''..'') ''..'' = replicate (Suc k) ''..''"
    by (cases k) (simp_all add: clean_step_def)
  with Suc [of "Suc k"] show ?case by simp
qed simp

lemma foldl_proper: "list_all proper_element us \<Longrightarrow> foldl (clean_step r) st us = rev us @ st"
  by (induction us arbitrary: st) auto

lemma foldl_cleaned: "foldl (clean_step (is_abs s)) [] (cleaned s) = rev (cleaned s)"
proof -
  obtain us n where c: "cleaned s = replicate n ''..'' @ us" "list_all proper_element us"
    "is_abs s \<longrightarrow> n = 0" using cleaned_shape by blast
  then show ?thesis using foldl_dots [of 0 n] by (cases "is_abs s") (simp_all add: foldl_proper)
qed

lemma join_cleaned_Nil: "join_with [slash] (cleaned s) = [] \<longleftrightarrow> cleaned s = []"
  using cleaned_parts [of s] by (intro join_nonempty) (auto simp: list_all_iff)

lemma not_is_abs_join: "\<not> is_abs (join_with [slash] (cleaned s))"
proof (cases "cleaned s")
  case Nil
  then show ?thesis by simp
next
  case (Cons c cs)
  with cleaned_parts [of s] obtain x xs where "c = x # xs" "x \<noteq> slash" by (cases c) auto
  with Cons show ?thesis by (cases cs) auto
qed

lemma is_abs_Clean [simp]: "is_abs (Clean s) = is_abs s"
  using not_is_abs_join [of s] by (auto simp: Clean_cleaned Let_def) (simp add: slash_def)

lemma elements_slash: "elements (slash # s) = [] # elements s"
  by (simp add: elements_def)

lemma elements_join: "cleaned s \<noteq> [] \<Longrightarrow> elements (join_with [slash] (cleaned s)) = cleaned s"
  unfolding elements_def using cleaned_parts [of s] by (intro split_on_join) (auto simp: list_all_iff)

lemma foldl_Clean:
  "foldl (clean_step (is_abs s)) [] (elements (Clean s)) = rev (cleaned s)"
proof (cases "cleaned s = []")
  case True
  then show ?thesis
    by (simp add: Clean_cleaned elements_slash) (simp add: elements_def slash_def clean_step_def)
next
  case False
  then have "join_with [slash] (cleaned s) \<noteq> []" by (simp add: join_cleaned_Nil)
  with False show ?thesis
    using foldl_cleaned [of s]
    by (cases "is_abs s") (simp_all add: Clean_cleaned Let_def elements_slash elements_join)
qed

lemma cleaned_Clean [simp]: "cleaned (Clean s) = cleaned s"
  using foldl_Clean [of s] by (simp add: cleaned_def [of "Clean s"])

lemma Clean_idem [simp]: "Clean (Clean s) = Clean s"
  by (simp add: Clean_cleaned [of "Clean s"]) (simp add: Clean_cleaned [of s])

text \<open>Joining a file name to a directory: the name is the base and the directory is the rest.\<close>

lemma elements_append: "slash \<notin> set n \<Longrightarrow> elements (d @ slash # n) = elements d @ [n]"
  unfolding elements_def by (induction d) (auto simp: split_on_plain split: list.splits)

lemma cleaned_snoc:
  assumes "proper_element n"
  shows "cleaned (d @ slash # n) = (if d = [] then [n] else cleaned d @ [n])"
proof -
  have "elements (d @ slash # n) = elements d @ [n]"
    using assms by (intro elements_append) (simp add: proper_element_def)
  moreover have "is_abs (d @ slash # n) = (if d = [] then True else is_abs d)"
    by (cases d) auto
  ultimately show ?thesis using assms by (simp add: cleaned_def) (simp add: elements_def)
qed

lemma path_join_two:
  assumes "proper_element n"
  shows "path_join [d, n] = (if d = [] then n else Clean (d @ slash # n))"
proof (cases "d = []")
  case True
  have "n \<noteq> []" using assms by (simp add: proper_element_def)
  moreover have "cleaned n = [n]" and "\<not> is_abs n" using assms
    by (auto simp: cleaned_def elements_def split_on_plain proper_element_def is_abs_def has_prefix_def
      clean_step_def prefix_def)
  ultimately show ?thesis using True by (simp add: path_join_def Clean_cleaned)
next
  case False
  then show ?thesis by (simp add: path_join_def)
qed

text \<open>The shape of such a path: everything up to the last slash is the directory.\<close>

lemma path_join_shape:
  assumes "proper_element n"
  obtains u where "path_join [d, n] = u @ n" and "u = [] \<or> last u = slash"
    and "Clean u = Clean d"
proof (cases "d = []")
  case True
  with assms path_join_two [OF assms, of d] that [of "[]"] show ?thesis by simp
next
  case False
  define cs where "cs = cleaned d"
  have c: "cleaned (d @ slash # n) = cs @ [n]" using cleaned_snoc [OF assms, of d] False
    by (simp add: cs_def)
  have abs: "is_abs (d @ slash # n) = is_abs d" using False by (cases d) auto
  have ne: "join_with [slash] (cs @ [n]) \<noteq> []" using assms by (simp add: join_snoc proper_element_def)
  have j: "path_join [d, n] = (if is_abs d then [slash] else []) @ join_with [slash] (cs @ [n])"
    using False ne by (simp add: path_join_two [OF assms] Clean_cleaned [of "d @ slash # n"] c abs)
  define u where "u = (if is_abs d then [slash] else []) @
    (if cs = [] then [] else join_with [slash] cs @ [slash])"
  have 1: "path_join [d, n] = u @ n" by (simp add: j u_def join_snoc)
  have 2: "u = [] \<or> last u = slash" by (simp add: u_def)
  have cl: "cleaned u = cs \<and> is_abs u = is_abs d"
  proof (cases "cs = []")
    case True
    then show ?thesis by (auto simp: u_def cleaned_def elements_def)
  next
    case cs: False
    have e: "elements (join_with [slash] cs) = cs" using elements_join [of d] cs by (simp add: cs_def)
    have "elements (join_with [slash] cs @ [slash]) = cs @ [[]]"
      unfolding elements_def split_on_trailing using e by (simp add: elements_def)
    moreover have "is_abs u = is_abs d"
      using not_is_abs_join [of d] cs unfolding u_def cs_def
      by (cases "join_with [slash] (cleaned d)") (auto simp: join_cleaned_Nil)
    ultimately show ?thesis using cs foldl_cleaned [of d]
      by (cases "is_abs d") (simp_all add: cleaned_def [of u], simp_all add: u_def elements_slash cs_def)
  qed
  have "Clean u = Clean d" using cl by (simp add: Clean_cleaned cs_def)
  with 1 2 that show ?thesis by blast
qed

lemma path_base_join [simp]: "proper_element n \<Longrightarrow> path_base (path_join [d, n]) = n"
proof -
  assume n: "proper_element n"
  then obtain u where u: "path_join [d, n] = u @ n" "u = [] \<or> last u = slash"
    by (rule path_join_shape)
  have "n \<noteq> []" "slash \<notin> set n" using n by (simp_all add: proper_element_def)
  then have last: "last n \<noteq> slash" by (metis last_in_set)
  then have trim: "trim_right_set {slash} (u @ n) = u @ n"
    using \<open>n \<noteq> []\<close> by (simp add: trim_right_set_id_iff)
  have tw: "takeWhile (\<lambda>c. c \<noteq> slash) (rev (u @ n)) = rev n"
  proof -
    have "takeWhile (\<lambda>c. c \<noteq> slash) (rev n @ rev u) = rev n @ takeWhile (\<lambda>c. c \<noteq> slash) (rev u)"
      using \<open>slash \<notin> set n\<close> by (intro takeWhile_append2) auto
    moreover have "takeWhile (\<lambda>c. c \<noteq> slash) (rev u) = []"
      using u(2) by (cases u rule: rev_cases) auto
    ultimately show ?thesis by simp
  qed
  show ?thesis using \<open>n \<noteq> []\<close>
    by (simp add: path_base_def u(1) trim) (simp add: elements_def last_split_on tw del: rev_append)
qed

lemma path_dir_join: "proper_element n \<Longrightarrow> path_dir (path_join [d, n]) = Clean d"
proof -
  assume n: "proper_element n"
  from n obtain u where u: "path_join [d, n] = u @ n" "u = [] \<or> last u = slash" "Clean u = Clean d"
    by (rule path_join_shape)
  have "slash \<notin> set n" using n by (simp add: proper_element_def)
  then have "dropWhile (\<lambda>c. c \<noteq> slash) (rev n @ rev u) = dropWhile (\<lambda>c. c \<noteq> slash) (rev u)"
    by (intro dropWhile_append2) auto
  also have "\<dots> = rev u" using u(2) by (cases u rule: rev_cases) auto
  finally show ?thesis using u by (simp add: path_dir_def)
qed

lemma path_base_plain [simp]: "proper_element n \<Longrightarrow> path_base n = n"
  using path_base_join [of n "[]"] by (simp add: path_join_two)

end
