(* ===== verification/Jobs_Http.thy ===== *)
theory Jobs_Http
  imports Jobs_Fake Turn_Tools Go_Filepath
begin

text \<open>
  The remote job service (src/adapters/jobshttp): the wire form of an event and its way back, the SSE
  stream, the handler that serves a job's events and the runtime that watches them over HTTP.

  The environment gives the JSON codec (\<open>we_decode\<close>: the first value of a text; an object that is decoded,
  marshalled and decoded again is taken to stay as it is), the RFC 3339 form of a time in milliseconds and
  its parser, and the float product by 1000. A field name that differs only in case, which encoding/json
  also accepts, is not modelled; the cause of a typed decoding error is left out. The transport answers a GET with an error or a status and a body, which
  may break off.
\<close>

section \<open>Events on the wire\<close>

record wire_env =
  we_marshal :: "gval \<Rightarrow> string + string"
  we_decode :: "string \<Rightarrow> string + gval"
  we_format_time :: "int \<Rightarrow> string"
  we_parse_time :: "string \<Rightarrow> int option"
  we_times1000 :: "rat \<Rightarrow> rat"

definition EventSchemaVersion :: int where "EventSchemaVersion = 1"

definition wireFixed :: "string list" where
  "wireFixed = [''schema'', ''seq'', ''job_id'', ''ts'', ''ts_ms'', ''type'', ''plan_epoch'', ''unit_id'', ''wave'', ''extra'']"

definition sseComponent :: string where "sseComponent = ''adapters.jobs_http.sse''"

definition watch_failed :: "opt list \<Rightarrow> zerror" where
  "watch_failed os = NewJob CodeJobsWatchFailed sseComponent os"

record wireEvent =
  wv_seq :: int
  wv_job_id :: string
  wv_ts :: gval
  wv_type :: string
  wv_plan_epoch :: int
  wv_unit_id :: string
  wv_status :: string
  wv_stage :: string
  wv_pct :: rat
  wv_summary :: string
  wv_trace_id :: string
  wv_duration_ms :: int
  wv_dead_end :: bool
  wv_extra :: gmap
  wv_wave :: int

text \<open>Decoding into a typed field: null and a missing key leave the zero value, a value of another type is
  an error; an integer field takes only an integral number of its range.\<close>

definition dec_string :: "gval \<Rightarrow> string option" where
  "dec_string v = (case v of GNil \<Rightarrow> Some [] | GStr s \<Rightarrow> Some s | _ \<Rightarrow> None)"

definition dec_bool :: "gval \<Rightarrow> bool option" where
  "dec_bool v = (case v of GNil \<Rightarrow> Some False | GBool b \<Rightarrow> Some b | _ \<Rightarrow> None)"

definition dec_float :: "gval \<Rightarrow> rat option" where
  "dec_float v = (case v of GNil \<Rightarrow> Some 0 | GFloat x \<Rightarrow> Some x | GInt n \<Rightarrow> Some (of_int n) | _ \<Rightarrow> None)"

definition dec_int :: "int \<Rightarrow> int \<Rightarrow> gval \<Rightarrow> int option" where
  "dec_int lo hi v = (case dec_float v of
     None \<Rightarrow> None
   | Some x \<Rightarrow> (if of_int \<lfloor>x\<rfloor> = x \<and> lo \<le> \<lfloor>x\<rfloor> \<and> \<lfloor>x\<rfloor> < hi then Some \<lfloor>x\<rfloor> else None))"

abbreviation dec_int64 :: "gval \<Rightarrow> int option" where
  "dec_int64 \<equiv> dec_int (- (2 ^ 63)) (2 ^ 63)"

definition dec_map :: "gval \<Rightarrow> gmap option" where
  "dec_map v = (case v of GNil \<Rightarrow> Some [] | GObj m \<Rightarrow> Some m | _ \<Rightarrow> None)"

definition decode_wire :: "gmap \<Rightarrow> wireEvent option" where
  "decode_wire d =
     (case (dec_int64 (mget d ''schema''), dec_int 0 (2 ^ 64) (mget d ''seq''), dec_string (mget d ''job_id''),
        dec_string (mget d ''type''), dec_int64 (mget d ''plan_epoch''), dec_string (mget d ''unit_id''),
        dec_string (mget d ''status''), dec_string (mget d ''stage''), dec_float (mget d ''pct''),
        dec_string (mget d ''summary''), dec_string (mget d ''trace_id''), dec_int64 (mget d ''duration_ms''),
        dec_bool (mget d ''dead_end''), dec_map (mget d ''extra''), dec_int64 (mget d ''wave'')) of
      (Some sc, Some sq, Some j, Some ty, Some pe, Some u, Some st, Some sg, Some pc, Some su, Some tr, Some du, Some de,
        Some ex, Some wa) \<Rightarrow>
        Some \<lparr>wv_seq = sq, wv_job_id = j, wv_ts = mget d ''ts'', wv_type = ty, wv_plan_epoch = pe, wv_unit_id = u,
          wv_status = st, wv_stage = sg, wv_pct = pc, wv_summary = su, wv_trace_id = tr, wv_duration_ms = du,
          wv_dead_end = de, wv_extra = ex, wv_wave = wa\<rparr>
    | _ \<Rightarrow> None)"

definition replace_first :: "string \<Rightarrow> string \<Rightarrow> string \<Rightarrow> string" where
  "replace_first old new s = (case str_index s old of
     None \<Rightarrow> s | Some i \<Rightarrow> take i s @ new @ drop (i + length old) s)"

definition tsMSFromWire :: "wire_env \<Rightarrow> gval \<Rightarrow> int" where
  "tsMSFromWire env v = (case v of
     GStr s \<Rightarrow> (if s = [] then 0
       else (case we_parse_time env (replace_first ''Z'' ''+00:00'' s) of Some n \<Rightarrow> n | None \<Rightarrow> 0))
   | _ \<Rightarrow> (case (if v = GNil then None else dec_float v) of
       None \<Rightarrow> 0
     | Some n \<Rightarrow> (if 10 ^ 12 < n then trunc_rat n
         else if n = of_int (trunc_rat n) \<and> n < 10 ^ 11 then trunc_rat n
         else trunc_rat (we_times1000 env n))))"

definition asInt64 :: "gval \<Rightarrow> int" where
  "asInt64 v = (case v of GInt n \<Rightarrow> n | GFloat x \<Rightarrow> trunc_rat x | _ \<Rightarrow> 0)"

definition put_missing :: "string \<Rightarrow> gval \<Rightarrow> bool \<Rightarrow> gmap \<Rightarrow> gmap" where
  "put_missing k v present m = (if present \<and> map_of m k = None then amap_put k v m else m)"

definition wire_payload :: "gmap \<Rightarrow> wireEvent \<Rightarrow> gmap" where
  "wire_payload d w =
     (let p = (if 0 < length (wv_extra w) then map (\<lambda>(k, v). (k, v)) (wv_extra w)
         else filter (\<lambda>(k, v). k \<notin> set wireFixed) d)
      in (put_missing ''dead_end'' (GBool True) (wv_dead_end w) \<circ>
          put_missing ''duration_ms'' (GInt (wv_duration_ms w)) (wv_duration_ms w \<noteq> 0) \<circ>
          put_missing ''pct'' (GFloat (wv_pct w)) (wv_pct w \<noteq> 0) \<circ>
          put_missing ''trace_id'' (GStr (wv_trace_id w)) (wv_trace_id w \<noteq> []) \<circ>
          put_missing ''summary'' (GStr (wv_summary w)) (wv_summary w \<noteq> []) \<circ>
          put_missing ''stage'' (GStr (wv_stage w)) (wv_stage w \<noteq> []) \<circ>
          put_missing ''status'' (GStr (wv_status w)) (wv_status w \<noteq> [])) p)"

text \<open>A sequence number of more than 63 bits wraps when it becomes an int.\<close>

definition EventFromWire :: "wire_env \<Rightarrow> gmap \<Rightarrow> zerror + JobEvent" where
  "EventFromWire env d = (case decode_wire d of
     None \<Rightarrow> Inl (watch_failed [])
   | Some w \<Rightarrow> (let payload = wire_payload d w in
       Inr \<lparr>je_seq = wrap64 (wv_seq w), je_type = wv_type w, je_job_id = wv_job_id w,
         je_ts_ms = tsMSFromWire env (wv_ts w), je_unit_id = wv_unit_id w,
         je_wave = (if wv_wave w = 0 then asInt64 (mget payload ''wave'') else wv_wave w),
         je_plan_epoch = wv_plan_epoch w, je_payload = payload\<rparr>))"

definition wireLift :: "string list" where
  "wireLift = [''status'', ''stage'', ''pct'', ''summary'', ''trace_id'', ''duration_ms'', ''dead_end'']"

definition EventToWire :: "wire_env \<Rightarrow> JobEvent \<Rightarrow> gmap" where
  "EventToWire env ev = (let p = je_payload ev; extra = filter (\<lambda>(k, v). k \<notin> set wireLift \<and> k \<noteq> ''wave'') p in
     [(''schema'', GInt EventSchemaVersion), (''seq'', GInt (je_seq ev)), (''job_id'', GStr (je_job_id ev)),
      (''type'', GStr (je_type ev)),
      (''ts'', if je_ts_ms ev = 0 then GInt 0 else GStr (we_format_time env (je_ts_ms ev)))] @
     (if je_plan_epoch ev \<noteq> 0 then [(''plan_epoch'', GInt (je_plan_epoch ev))] else []) @
     (if je_unit_id ev \<noteq> [] then [(''unit_id'', GStr (je_unit_id ev))] else []) @
     (if je_wave ev \<noteq> 0 then [(''wave'', GInt (je_wave ev))] else []) @
     List.map_filter (\<lambda>k. map_option (Pair k) (map_of p k)) wireLift @
     (if 0 < length extra then [(''extra'', GObj extra)] else []))"

definition eventToJSON :: "wire_env \<Rightarrow> JobEvent \<Rightarrow> string + string" where
  "eventToJSON env ev = we_marshal env (GObj (EventToWire env ev))"

definition eventFromJSON :: "wire_env \<Rightarrow> string \<Rightarrow> zerror + JobEvent" where
  "eventFromJSON env raw = (case we_decode env raw of
     Inl err \<Rightarrow> Inl (watch_failed [WithCause err])
   | Inr (GObj d) \<Rightarrow> EventFromWire env d
   | Inr v \<Rightarrow> Inl (watch_failed []))"

section \<open>The stream\<close>

definition sseMaxToken :: nat where "sseMaxToken = 1048576"

text \<open>bufio.ScanLines: the lines of the text without their line feed and one carriage return before it; a
  last line without line feed counts unless it is empty.\<close>

definition drop_cr :: "string \<Rightarrow> string" where
  "drop_cr s = (case rev s of c # cs \<Rightarrow> (if c = CHR 0x0D then rev cs else s) | [] \<Rightarrow> s)"

definition scan_lines :: "string \<Rightarrow> string list" where
  "scan_lines s = (let ls = split_on CHR 0x0A s in if last ls = [] then butlast ls else ls)"

record sse_state =
  ss_data :: "string list"
  ss_out :: "JobEvent list"

definition sse_flush :: "wire_env \<Rightarrow> sse_state \<Rightarrow> zerror + sse_state" where
  "sse_flush env st = (if ss_data st = [] then Inr st
     else (case eventFromJSON env (join_with [CHR 0x0A] (ss_data st)) of
       Inl e \<Rightarrow> Inl e | Inr ev \<Rightarrow> Inr \<lparr>ss_data = [], ss_out = ss_out st @ [ev]\<rparr>))"

definition sse_line :: "wire_env \<Rightarrow> string \<Rightarrow> sse_state \<Rightarrow> zerror + sse_state" where
  "sse_line env line st =
     (if has_prefix line ''data:'' then Inr (st\<lparr>ss_data := ss_data st @ [dropWhile (\<lambda>c. c = CHR '' '') (drop 5 line)]\<rparr>)
      else if trim_space line = [] then sse_flush env st
      else Inr st)"

text \<open>The scan stops with an error at a line that does not fit the buffer, and at the end when the body broke
  off.\<close>

fun sse_loop :: "wire_env \<Rightarrow> string option \<Rightarrow> string list \<Rightarrow> sse_state \<Rightarrow> zerror + JobEvent list" where
  "sse_loop env broken [] st = (case broken of
       Some err \<Rightarrow> Inl (watch_failed [WithCause err])
     | None \<Rightarrow> (case sse_flush env st of Inl e \<Rightarrow> Inl e | Inr st' \<Rightarrow> Inr (ss_out st')))"
| "sse_loop env broken (line # lns) st =
     (if sseMaxToken \<le> length line then Inl (watch_failed [WithCause ''bufio.Scanner: token too long''])
      else (case sse_line env (drop_cr line) st of Inl e \<Rightarrow> Inl e | Inr st' \<Rightarrow> sse_loop env broken lns st'))"

definition readSSEEvents :: "wire_env \<Rightarrow> string \<Rightarrow> string option \<Rightarrow> zerror + JobEvent list" where
  "readSSEEvents env body broken = sse_loop env broken (scan_lines body) \<lparr>ss_data = [], ss_out = []\<rparr>"

definition IterSSEEvents :: "wire_env \<Rightarrow> string \<Rightarrow> zerror + JobEvent list" where
  "IterSSEEvents env body = readSSEEvents env body None"

definition writeSSEEvent :: "wire_env \<Rightarrow> JobEvent \<Rightarrow> string + string" where
  "writeSSEEvent env ev = (case eventToJSON env ev of
     Inl e \<Rightarrow> Inl e
   | Inr payload \<Rightarrow> Inr (''id: '' @ int_digits (je_seq ev) @ [CHR 0x0A] @ ''event: '' @
       (if je_type ev = [] then ''message'' else je_type ev) @ [CHR 0x0A] @ ''data: '' @ payload @ [CHR 0x0A, CHR 0x0A]))"

section \<open>The handler\<close>

definition FromSeqParam :: string where "FromSeqParam = ''from_seq''"

definition EventsURL :: "string \<Rightarrow> string \<Rightarrow> string" where
  "EventsURL hostURL jobID = trim_right_set {CHR ''/''} (trim_space hostURL) @ ''/v1/jobs/'' @ trim_space jobID @ ''/events''"

text \<open>A request: the method, the path, the values of the query and of the header (empty when absent) and
  whether the response can be flushed.\<close>

record http_get =
  hg_method :: string
  hg_path :: string
  hg_from_seq :: string
  hg_last_event_id :: string
  hg_flusher :: bool

record http_answer =
  ha_status :: int
  ha_body :: string

definition job_id_of_path :: "string \<Rightarrow> string" where
  "job_id_of_path path = (let parts = split_on CHR ''/'' (trim_set {CHR ''/''} path) in
     case find (\<lambda>i. 0 < i \<and> parts ! i = ''events'') [0..<length parts] of
       Some i \<Rightarrow> parts ! (i - 1) | None \<Rightarrow> last parts)"

definition parseFromSeq :: "http_get \<Rightarrow> int" where
  "parseFromSeq r = (if hg_from_seq r \<noteq> [] then go_atoi (hg_from_seq r)
     else if hg_last_event_id r \<noteq> [] then go_atoi (hg_last_event_id r) else 0)"

definition http_error :: "string \<Rightarrow> int \<Rightarrow> http_answer" where
  "http_error msg code = \<lparr>ha_status = code, ha_body = msg @ [CHR 0x0A]\<rparr>"

definition job_error_status :: "Code \<Rightarrow> int" where
  "job_error_status c = (if c = CodeJobsNotFound then 404 else if c = CodeJobsUnavailable then 503
     else if c = CodeJobsWatchFailed then 400 else 500)"

definition writeJobHTTPError :: "zerror \<Rightarrow> http_answer" where
  "writeJobHTTPError e = http_error (ErrorString e) (job_error_status (ze_code e))"

definition sse_done :: string where "sse_done = '': done'' @ [CHR 0x0A, CHR 0x0A]"

text \<open>A write that fails ends the stream without its last comment.\<close>

fun serve_events :: "wire_env \<Rightarrow> JobEvent list \<Rightarrow> string" where
  "serve_events env [] = sse_done"
| "serve_events env (ev # evs) = (case writeSSEEvent env ev of Inl e \<Rightarrow> [] | Inr s \<Rightarrow> s @ serve_events env evs)"

definition ServeHTTP :: "wire_env \<Rightarrow> (string \<Rightarrow> int \<Rightarrow> zerror + JobEvent list) option \<Rightarrow> http_get \<Rightarrow> http_answer" where
  "ServeHTTP env jobs r =
     (if hg_method r \<noteq> ''GET'' then http_error ''method not allowed'' 405
      else (case jobs of
        None \<Rightarrow> http_error ''jobs unavailable'' 503
      | Some watch \<Rightarrow> (let j = job_id_of_path (hg_path r) in
          if j = [] then http_error ''missing job id'' 400
          else if \<not> hg_flusher r then http_error ''streaming unsupported'' 500
          else (case watch j (parseFromSeq r) of
            Inl e \<Rightarrow> writeJobHTTPError e
          | Inr evs \<Rightarrow> \<lparr>ha_status = 200, ha_body = serve_events env evs\<rparr>))))"

section \<open>The runtime over HTTP\<close>

definition jobsHTTPComponent :: string where "jobsHTTPComponent = ''adapters.jobs_http''"

record HttpRuntime =
  hrt_host :: string
  hrt_closed :: bool

definition http_New :: "string \<Rightarrow> HttpRuntime" where
  "http_New hostURL = \<lparr>hrt_host = trim_right_set {CHR ''/''} (trim_space hostURL), hrt_closed = False\<rparr>"

definition http_unavailable :: zerror where
  "http_unavailable = NewJob CodeJobsUnavailable jobsHTTPComponent []"

definition rejectSecrets :: "(rat \<Rightarrow> string) \<Rightarrow> gmap \<Rightarrow> zerror option" where
  "rejectSecrets ff request = (let blob = go_sprint ff (GObj request) in
     if str_contains blob ''api_key'' \<and> \<not> str_contains blob ''api_key_env''
     then Some (NewJob CodeJobsInvalidUnitMap jobsHTTPComponent []) else None)"

definition http_Run :: "(rat \<Rightarrow> string) \<Rightarrow> gmap \<Rightarrow> zerror + JobHandle" where
  "http_Run ff request = (case rejectSecrets ff request of Some e \<Rightarrow> Inl e | None \<Rightarrow> Inl http_unavailable)"

definition http_Get :: "zerror + JobSnapshot" where "http_Get = Inl http_unavailable"
definition http_Cancel :: "zerror + JobSnapshot" where "http_Cancel = Inl http_unavailable"

text \<open>The transport gets the URL and the cursor, which goes into the query and the header; an error is given
  with what the caller's context says after it. \<open>url_ok\<close>: the URL can be parsed and requested.\<close>

type_synonym sse_transport = "string \<Rightarrow> int \<Rightarrow> (ctx_error option \<times> call_error) + (int \<times> string \<times> string option)"

definition ctx_job_error :: "ctx_error \<Rightarrow> zerror" where
  "ctx_job_error c = (case FromContext (Some c) of Some e \<Rightarrow> e\<lparr>ze_component := jobsHTTPComponent\<rparr>
     | None \<Rightarrow> http_unavailable)"

definition transport_error :: "ctx_error option \<Rightarrow> call_error \<Rightarrow> zerror" where
  "transport_error ctx err = (case ctx of
     Some c \<Rightarrow> ctx_job_error c
   | None \<Rightarrow> (case err of CallCtx c \<Rightarrow> ctx_job_error c | _ \<Rightarrow> http_unavailable))"

definition http_Watch :: "wire_env \<Rightarrow> (string \<Rightarrow> bool) \<Rightarrow> sse_transport \<Rightarrow> HttpRuntime \<Rightarrow> string \<Rightarrow> int \<Rightarrow>
    zerror + JobEvent list" where
  "http_Watch env url_ok transport r jobID afterSeq =
     (if hrt_closed r then Inl http_unavailable
      else if trim_space jobID = [] then Inl (NewJob CodeJobsNotFound jobsHTTPComponent [])
      else (let u = EventsURL (hrt_host r) jobID in
        if \<not> url_ok u then Inl http_unavailable
        else (case transport u afterSeq of
          Inl (ctx, err) \<Rightarrow> Inl (transport_error ctx err)
        | Inr (status, body, broken) \<Rightarrow>
            (if status = 404 then Inl (NewJob CodeJobsNotFound jobsHTTPComponent [])
             else if 500 \<le> status then Inl http_unavailable
             else if 400 \<le> status then Inl (NewJob CodeJobsWatchFailed jobsHTTPComponent [])
             else (case readSSEEvents env body broken of
               Inl e \<Rightarrow> Inl e | Inr evs \<Rightarrow> Inr (filter (\<lambda>ev. afterSeq < je_seq ev) evs))))))"

definition http_Close :: "HttpRuntime \<Rightarrow> HttpRuntime" where
  "http_Close r = (if hrt_closed r then r else r\<lparr>hrt_closed := True\<rparr>)"

section \<open>An event over the wire and back\<close>

text \<open>What a decoder makes of a value: every number is a float64.\<close>

fun jnorm :: "gval \<Rightarrow> gval" where
  "jnorm (GInt n) = GFloat (of_int n)"
| "jnorm (GArr xs) = GArr (map jnorm xs)"
| "jnorm (GObj m) = GObj (map (\<lambda>(k, v). (k, jnorm v)) m)"
| "jnorm v = v"

definition norm_map :: "gmap \<Rightarrow> gmap" where
  "norm_map m = map (\<lambda>(k, v). (k, jnorm v)) m"

lemma jnorm_idem [simp]: "jnorm (jnorm v) = jnorm v"
  by (induction v rule: jnorm.induct) (auto simp: case_prod_unfold)

lemma map_of_norm [simp]: "map_of (norm_map m) k = map_option jnorm (map_of m k)"
  unfolding norm_map_def by (induction m) auto

lemma mget_norm: "mget (norm_map m) k = jnorm (mget m k)"
  by (simp add: mget_def split: option.split)

lemma norm_map_Nil [simp]: "norm_map [] = []"
  by (simp add: norm_map_def)

lemma jnorm_obj: "jnorm (GObj m) = GObj (norm_map m)"
  by (simp add: norm_map_def)

declare jnorm.simps(3) [simp del] jnorm_obj [simp]

lemma map_of_if: "map_of ((if c then [(k, v)] else []) @ m) x = (if c \<and> x = k then Some v else map_of m x)"
  by simp

lemma map_of_lift: "map_of (List.map_filter (\<lambda>k. map_option (Pair k) (map_of p k)) ks @ m) x =
    (if x \<in> set ks \<and> map_of p x \<noteq> None then map_of p x else map_of m x)"
  by (induction ks) (auto simp: map_filter_simps split: option.split)

definition wire_extra :: "JobEvent \<Rightarrow> gmap" where
  "wire_extra ev = filter (\<lambda>(k, v). k \<notin> set wireLift \<and> k \<noteq> ''wave'') (je_payload ev)"

lemma map_of_keys: "map_of (filter (\<lambda>(k, v). P k) m) k = (if P k then map_of m k else None)"
  by (induction m) auto

lemma map_of_extra: "map_of (wire_extra ev) k = (if k \<notin> set wireLift \<and> k \<noteq> ''wave'' then map_of (je_payload ev) k else None)"
  unfolding wire_extra_def by (rule map_of_keys)

lemma wire_get:
  "map_of (EventToWire env ev) x =
    (if x = ''schema'' then Some (GInt 1) else if x = ''seq'' then Some (GInt (je_seq ev))
     else if x = ''job_id'' then Some (GStr (je_job_id ev)) else if x = ''type'' then Some (GStr (je_type ev))
     else if x = ''ts'' then Some (if je_ts_ms ev = 0 then GInt 0 else GStr (we_format_time env (je_ts_ms ev)))
     else if je_plan_epoch ev \<noteq> 0 \<and> x = ''plan_epoch'' then Some (GInt (je_plan_epoch ev))
     else if je_unit_id ev \<noteq> [] \<and> x = ''unit_id'' then Some (GStr (je_unit_id ev))
     else if je_wave ev \<noteq> 0 \<and> x = ''wave'' then Some (GInt (je_wave ev))
     else if x \<in> set wireLift \<and> map_of (je_payload ev) x \<noteq> None then map_of (je_payload ev) x
     else if wire_extra ev \<noteq> [] \<and> x = ''extra'' then Some (GObj (wire_extra ev)) else None)"
proof -
  have e: "map_of (if 0 < length (wire_extra ev) then [(''extra'', GObj (wire_extra ev))] else []) x =
      (if wire_extra ev \<noteq> [] \<and> x = ''extra'' then Some (GObj (wire_extra ev)) else None)" by simp
  show ?thesis
    unfolding EventToWire_def Let_def wire_extra_def [symmetric] append.simps append_assoc map_of.simps fun_upd_apply
      map_of_if map_of_lift e fst_conv snd_conv EventSchemaVersion_def
    by (simp only: if_cancel)
qed

text \<open>The events the wire keeps: numbers in their range, no wave in the payload (the field of the event says
  it), and the lifted fields of the type the reader expects, not empty and not zero.\<close>

definition opt_ok :: "('a \<Rightarrow> bool) \<Rightarrow> 'a option \<Rightarrow> bool" where
  "opt_ok P m = (case m of None \<Rightarrow> True | Some v \<Rightarrow> P v)"

definition wire_text :: "gval \<Rightarrow> bool" where "wire_text v = (case v of GStr s \<Rightarrow> s \<noteq> [] | _ \<Rightarrow> False)"

definition wire_number :: "gval \<Rightarrow> bool" where
  "wire_number v = (case v of GInt n \<Rightarrow> n \<noteq> 0 | GFloat x \<Rightarrow> x \<noteq> 0 | _ \<Rightarrow> False)"

definition wire_int :: "gval \<Rightarrow> bool" where
  "wire_int v = (case v of GInt n \<Rightarrow> n \<noteq> 0 \<and> - (2 ^ 63) \<le> n \<and> n < 2 ^ 63 | _ \<Rightarrow> False)"

definition wire_clean :: "JobEvent \<Rightarrow> bool" where
  "wire_clean ev \<longleftrightarrow> 0 \<le> je_seq ev \<and> je_seq ev < 2 ^ 63 \<and> - (2 ^ 63) \<le> je_plan_epoch ev \<and> je_plan_epoch ev < 2 ^ 63 \<and>
     - (2 ^ 63) \<le> je_wave ev \<and> je_wave ev < 2 ^ 63 \<and> map_of (je_payload ev) ''wave'' = None \<and>
     opt_ok wire_text (map_of (je_payload ev) ''status'') \<and> opt_ok wire_text (map_of (je_payload ev) ''stage'') \<and>
     opt_ok wire_text (map_of (je_payload ev) ''summary'') \<and> opt_ok wire_text (map_of (je_payload ev) ''trace_id'') \<and>
     opt_ok wire_number (map_of (je_payload ev) ''pct'') \<and> opt_ok wire_int (map_of (je_payload ev) ''duration_ms'') \<and>
     opt_ok (\<lambda>v. v = GBool True) (map_of (je_payload ev) ''dead_end'')"

definition time_kept :: "wire_env \<Rightarrow> int \<Rightarrow> bool" where
  "time_kept env t \<longleftrightarrow> t = 0 \<or> (we_format_time env t \<noteq> [] \<and>
     we_parse_time env (replace_first ''Z'' ''+00:00'' (we_format_time env t)) = Some t)"

text \<open>The same event, up to the form of its numbers.\<close>

definition same_event :: "JobEvent \<Rightarrow> JobEvent \<Rightarrow> bool" where
  "same_event ev ev' \<longleftrightarrow> ev' = ev\<lparr>je_payload := je_payload ev'\<rparr> \<and>
     (\<forall>k. map_option jnorm (map_of (je_payload ev') k) = map_option jnorm (map_of (je_payload ev) k))"

definition field_text :: "gval option \<Rightarrow> string" where
  "field_text m = (case m of Some (GStr s) \<Rightarrow> s | _ \<Rightarrow> [])"

definition field_number :: "gval option \<Rightarrow> rat" where
  "field_number m = (case m of Some (GInt n) \<Rightarrow> of_int n | Some (GFloat x) \<Rightarrow> x | _ \<Rightarrow> 0)"

definition field_int :: "gval option \<Rightarrow> int" where
  "field_int m = (case m of Some (GInt n) \<Rightarrow> n | _ \<Rightarrow> 0)"

lemma dec_field_text:
  "opt_ok wire_text m \<Longrightarrow> dec_string (case map_option jnorm m of None \<Rightarrow> GNil | Some v \<Rightarrow> v) = Some (field_text m)"
  by (auto simp: opt_ok_def wire_text_def dec_string_def field_text_def split: option.splits gval.splits)

lemma dec_field_number:
  "opt_ok wire_number m \<Longrightarrow> dec_float (case map_option jnorm m of None \<Rightarrow> GNil | Some v \<Rightarrow> v) = Some (field_number m)"
  by (auto simp: opt_ok_def wire_number_def dec_float_def field_number_def split: option.splits gval.splits)

lemma dec_int_range: "lo \<le> n \<Longrightarrow> n < hi \<Longrightarrow> dec_int lo hi (GFloat (of_int n)) = Some n"
  by (simp add: dec_int_def dec_float_def)

lemma dec_int_nil: "lo \<le> 0 \<Longrightarrow> 0 < hi \<Longrightarrow> dec_int lo hi GNil = Some 0"
  by (simp add: dec_int_def dec_float_def)

lemma dec_field_int:
  "opt_ok wire_int m \<Longrightarrow> dec_int64 (case map_option jnorm m of None \<Rightarrow> GNil | Some v \<Rightarrow> v) = Some (field_int m)"
  by (auto simp: opt_ok_def wire_int_def field_int_def dec_int_range dec_int_nil split: option.splits gval.splits)

lemma dec_field_flag:
  "opt_ok (\<lambda>v. v = GBool True) m \<Longrightarrow> dec_bool (case map_option jnorm m of None \<Rightarrow> GNil | Some v \<Rightarrow> v) = Some (m \<noteq> None)"
  by (auto simp: opt_ok_def dec_bool_def split: option.splits)

lemma lift_get: "k \<in> set wireLift \<Longrightarrow> map_of (EventToWire env ev) k = map_of (je_payload ev) k"
  unfolding wireLift_def list.set insert_iff empty_iff by (elim disjE) (simp_all add: wire_get wireLift_def)

definition wire_decoded :: "wire_env \<Rightarrow> JobEvent \<Rightarrow> wireEvent" where
  "wire_decoded env ev = (let p = je_payload ev in
     \<lparr>wv_seq = je_seq ev, wv_job_id = je_job_id ev,
      wv_ts = (if je_ts_ms ev = 0 then GFloat 0 else GStr (we_format_time env (je_ts_ms ev))), wv_type = je_type ev,
      wv_plan_epoch = je_plan_epoch ev, wv_unit_id = je_unit_id ev, wv_status = field_text (map_of p ''status''),
      wv_stage = field_text (map_of p ''stage''), wv_pct = field_number (map_of p ''pct''),
      wv_summary = field_text (map_of p ''summary''), wv_trace_id = field_text (map_of p ''trace_id''),
      wv_duration_ms = field_int (map_of p ''duration_ms''), wv_dead_end = map_of p ''dead_end'' \<noteq> None,
      wv_extra = norm_map (wire_extra ev), wv_wave = je_wave ev\<rparr>)"

lemma wire_mget: "mget (norm_map (EventToWire env ev)) k =
    (case map_option jnorm (map_of (EventToWire env ev) k) of None \<Rightarrow> GNil | Some v \<Rightarrow> v)"
  by (simp add: mget_def split: option.split)

lemma decode_clean:
  assumes "wire_clean ev"
  shows "decode_wire (norm_map (EventToWire env ev)) = Some (wire_decoded env ev)"
proof -
  let ?d = "norm_map (EventToWire env ev)"
  let ?p = "je_payload ev"
  note c = assms [unfolded wire_clean_def]
  have l: "mget ?d k = (case map_option jnorm (map_of ?p k) of None \<Rightarrow> GNil | Some v \<Rightarrow> v)" if "k \<in> set wireLift" for k
    unfolding wire_mget lift_get [OF that] ..
  have t: "dec_string (mget ?d ''status'') = Some (field_text (map_of ?p ''status''))"
    "dec_string (mget ?d ''stage'') = Some (field_text (map_of ?p ''stage''))"
    "dec_string (mget ?d ''summary'') = Some (field_text (map_of ?p ''summary''))"
    "dec_string (mget ?d ''trace_id'') = Some (field_text (map_of ?p ''trace_id''))"
    using c by (subst l, simp add: wireLift_def, simp only: dec_field_text)+
  have n: "dec_float (mget ?d ''pct'') = Some (field_number (map_of ?p ''pct''))"
    using c by (subst l, simp add: wireLift_def, simp only: dec_field_number)
  have i: "dec_int64 (mget ?d ''duration_ms'') = Some (field_int (map_of ?p ''duration_ms''))"
    using c by (subst l, simp add: wireLift_def, simp only: dec_field_int)
  have b: "dec_bool (mget ?d ''dead_end'') = Some (map_of ?p ''dead_end'' \<noteq> None)"
    using c by (subst l, simp add: wireLift_def, simp only: dec_field_flag)
  have f: "dec_int64 (mget ?d ''schema'') = Some 1" "dec_int 0 (2 ^ 64) (mget ?d ''seq'') = Some (je_seq ev)"
    "dec_string (mget ?d ''job_id'') = Some (je_job_id ev)" "dec_string (mget ?d ''type'') = Some (je_type ev)"
    "dec_int64 (mget ?d ''plan_epoch'') = Some (je_plan_epoch ev)"
    "dec_string (mget ?d ''unit_id'') = Some (je_unit_id ev)" "dec_int64 (mget ?d ''wave'') = Some (je_wave ev)"
    "mget ?d ''ts'' = (if je_ts_ms ev = 0 then GFloat 0 else GStr (we_format_time env (je_ts_ms ev)))"
    "dec_map (mget ?d ''extra'') = Some (norm_map (wire_extra ev))"
    using c dec_int_range [of "- (2 ^ 63)" 1 "2 ^ 63"]
    by (auto simp: wire_mget wire_get dec_int_range dec_int_nil dec_string_def dec_map_def jnorm_obj wireLift_def)
  show ?thesis
    unfolding decode_wire_def t n i b f by (simp add: wire_decoded_def Let_def)
qed


lemma put_missing_other: "x \<noteq> k \<Longrightarrow> map_of (put_missing k v b m) x = map_of m x"
  by (simp add: put_missing_def update_conv')

lemma put_missing_same:
  "map_of (put_missing k v b m) k = (if b \<and> map_of m k = None then Some v else map_of m k)"
  by (simp add: put_missing_def update_conv')

lemma wire_base_get:
  assumes "wire_clean ev"
  shows "map_of (if 0 < length (norm_map (wire_extra ev)) then map (\<lambda>(k, v). (k, v)) (norm_map (wire_extra ev))
      else filter (\<lambda>(k, v). k \<notin> set wireFixed) (norm_map (EventToWire env ev))) k =
    (if wire_extra ev \<noteq> [] \<and> k \<in> set wireLift then None else map_option jnorm (map_of (je_payload ev) k))"
proof (cases "wire_extra ev = []")
  case True
  have w: "map_of (je_payload ev) ''wave'' = None" using assms by (simp add: wire_clean_def)
  have p: "map_of (je_payload ev) k = None" if "k \<notin> set wireLift"
    using map_of_extra [of ev k] that w True by (cases "k = ''wave''") (simp_all split: if_splits)
  have q: "map_of (EventToWire env ev) k = map_of (je_payload ev) k" if "k \<notin> set wireFixed"
    using that p by (auto simp: wire_get wireFixed_def True)
  have r: "map_of (je_payload ev) k = None" if "k \<in> set wireFixed"
  proof -
    have "k \<notin> set wireLift" using that unfolding wireFixed_def wireLift_def by auto
    then show ?thesis by (rule p)
  qed
  show ?thesis by (cases "k \<in> set wireFixed") (simp_all add: True map_of_keys q r)
next
  case False
  have w: "map_of (je_payload ev) ''wave'' = None" using assms by (simp add: wire_clean_def)
  have "norm_map (wire_extra ev) \<noteq> []" using False by (simp add: norm_map_def)
  then show ?thesis using False w by (auto simp: map_of_extra)
qed

lemma field_text_kept:
  "opt_ok wire_text m \<Longrightarrow> (if field_text m \<noteq> [] then Some (GStr (field_text m)) else None) = map_option jnorm m"
  by (auto simp: opt_ok_def wire_text_def field_text_def split: option.splits gval.splits)

lemma field_number_kept:
  "opt_ok wire_number m \<Longrightarrow> (if field_number m \<noteq> 0 then Some (GFloat (field_number m)) else None) = map_option jnorm m"
  by (auto simp: opt_ok_def wire_number_def field_number_def split: option.splits gval.splits)


lemma field_int_kept:
  "opt_ok wire_int m \<Longrightarrow> (if field_int m \<noteq> 0 then Some (GFloat (of_int (field_int m))) else None) = map_option jnorm m"
  by (auto simp: opt_ok_def wire_int_def field_int_def split: option.splits gval.splits)

lemma field_flag_kept:
  "opt_ok (\<lambda>v. v = GBool True) m \<Longrightarrow> (if m \<noteq> None then Some (GBool True) else None) = map_option jnorm m"
  by (auto simp: opt_ok_def split: option.splits)

lemma lifted_get:
  assumes "m0 = (if b then None else map_option jnorm m)" and "(if c then Some v' else None) = map_option jnorm m"
    and "jnorm v = v'"
  shows "map_option jnorm (if c \<and> m0 = None then Some v else m0) = map_option jnorm m"
  using assms by (cases m) (auto split: if_splits)

lemma wire_payload_get:
  fixes ev env
  defines "p \<equiv> je_payload ev"
    and "base \<equiv> (if 0 < length (norm_map (wire_extra ev)) then map (\<lambda>(k, v). (k, v)) (norm_map (wire_extra ev))
      else filter (\<lambda>(k, v). k \<notin> set wireFixed) (norm_map (EventToWire env ev)))"
    and "m \<equiv> map_of (wire_payload (norm_map (EventToWire env ev)) (wire_decoded env ev))"
  shows "m ''dead_end'' = (if map_of p ''dead_end'' \<noteq> None \<and> map_of base ''dead_end'' = None then Some (GBool True)
      else map_of base ''dead_end'')"
    and "m ''duration_ms'' = (if field_int (map_of p ''duration_ms'') \<noteq> 0 \<and> map_of base ''duration_ms'' = None
      then Some (GInt (field_int (map_of p ''duration_ms''))) else map_of base ''duration_ms'')"
    and "m ''pct'' = (if field_number (map_of p ''pct'') \<noteq> 0 \<and> map_of base ''pct'' = None
      then Some (GFloat (field_number (map_of p ''pct''))) else map_of base ''pct'')"
    and "k \<in> {''trace_id'', ''summary'', ''stage'', ''status''} \<Longrightarrow> m k = (if field_text (map_of p k) \<noteq> [] \<and> map_of base k = None
      then Some (GStr (field_text (map_of p k))) else map_of base k)"
    and "k \<notin> set wireLift \<Longrightarrow> m k = map_of base k"
proof -
  note u = m_def wire_payload_def Let_def comp_apply wire_decoded_def wireEvent.simps base_def [symmetric] p_def [symmetric]
  show "m ''dead_end'' = (if map_of p ''dead_end'' \<noteq> None \<and> map_of base ''dead_end'' = None then Some (GBool True)
      else map_of base ''dead_end'')"
    unfolding u by (simp add: put_missing_same put_missing_other)
  show "m ''duration_ms'' = (if field_int (map_of p ''duration_ms'') \<noteq> 0 \<and> map_of base ''duration_ms'' = None
      then Some (GInt (field_int (map_of p ''duration_ms''))) else map_of base ''duration_ms'')"
    unfolding u by (simp add: put_missing_same put_missing_other)
  show "m ''pct'' = (if field_number (map_of p ''pct'') \<noteq> 0 \<and> map_of base ''pct'' = None
      then Some (GFloat (field_number (map_of p ''pct''))) else map_of base ''pct'')"
    unfolding u by (simp add: put_missing_same put_missing_other)
  show "m k = (if field_text (map_of p k) \<noteq> [] \<and> map_of base k = None
      then Some (GStr (field_text (map_of p k))) else map_of base k)" if "k \<in> {''trace_id'', ''summary'', ''stage'', ''status''}"
    using that unfolding u insert_iff empty_iff by (elim disjE) (simp_all add: put_missing_same put_missing_other)
  show "m k = map_of base k" if "k \<notin> set wireLift"
    using that unfolding u wireLift_def by (simp add: put_missing_other)
qed

lemma lift_cases: "k = g \<or> k = f \<or> k = c \<or> k \<in> {e, d, b, a} \<or> k \<notin> {a, b, c, d, e, f, g}"
  by blast

lemma wire_payload_kept:
  assumes c: "wire_clean ev"
  shows "map_option jnorm (map_of (wire_payload (norm_map (EventToWire env ev)) (wire_decoded env ev)) k) =
    map_option jnorm (map_of (je_payload ev) k)"
proof -
  note b = wire_base_get [OF c, of env]
  note l = c [unfolded wire_clean_def]
  have "k = ''dead_end'' \<or> k = ''duration_ms'' \<or> k = ''pct'' \<or> k \<in> {''trace_id'', ''summary'', ''stage'', ''status''} \<or>
      k \<notin> set wireLift"
    unfolding wireLift_def list.set by (rule lift_cases)
  then show ?thesis
  proof (elim disjE)
    assume k: "k = ''dead_end''"
    show ?thesis unfolding k wire_payload_get(1) by (rule lifted_get [OF b field_flag_kept]) (use l in auto)
  next
    assume k: "k = ''duration_ms''"
    show ?thesis unfolding k wire_payload_get(2) by (rule lifted_get [OF b field_int_kept]) (use l in auto)
  next
    assume k: "k = ''pct''"
    show ?thesis unfolding k wire_payload_get(3) by (rule lifted_get [OF b field_number_kept]) (use l in auto)
  next
    assume k: "k \<in> {''trace_id'', ''summary'', ''stage'', ''status''}"
    have o: "opt_ok wire_text (map_of (je_payload ev) k)" using k l by auto
    show ?thesis unfolding wire_payload_get(4) [OF k] by (rule lifted_get [OF b field_text_kept [OF o]]) simp
  next
    assume k: "k \<notin> set wireLift"
    show ?thesis unfolding wire_payload_get(5) [OF k] b using k by (simp add: option.map_comp comp_def)
  qed
qed

lemma wire_ts_kept: "time_kept env (je_ts_ms ev) \<Longrightarrow> tsMSFromWire env (wv_ts (wire_decoded env ev)) = je_ts_ms ev"
  by (auto simp: time_kept_def tsMSFromWire_def wire_decoded_def Let_def dec_float_def trunc_rat_def)

text \<open>An event that is written and read again is the same event.\<close>

theorem event_over_wire:
  assumes "wire_clean ev" and "time_kept env (je_ts_ms ev)"
  obtains ev' where "EventFromWire env (norm_map (EventToWire env ev)) = Inr ev'" and "same_event ev ev'"
proof -
  let ?p = "wire_payload (norm_map (EventToWire env ev)) (wire_decoded env ev)"
  let ?ev = "ev\<lparr>je_payload := ?p\<rparr>"
  have w: "(if je_wave ev = 0 then asInt64 (mget ?p ''wave'') else je_wave ev) = je_wave ev"
  proof -
    have "map_option jnorm (map_of ?p ''wave'') = None"
      using wire_payload_kept [OF assms(1), of env "''wave''"] assms(1) by (simp add: wire_clean_def)
    then show ?thesis by (simp add: mget_def asInt64_def)
  qed
  have s: "wrap64 (je_seq ev) = je_seq ev"
    using assms(1) by (intro wrap64_id) (simp_all add: wire_clean_def)
  have f: "wv_seq (wire_decoded env ev) = je_seq ev" "wv_type (wire_decoded env ev) = je_type ev"
    "wv_job_id (wire_decoded env ev) = je_job_id ev" "wv_unit_id (wire_decoded env ev) = je_unit_id ev"
    "wv_wave (wire_decoded env ev) = je_wave ev" "wv_plan_epoch (wire_decoded env ev) = je_plan_epoch ev"
    by (simp_all add: wire_decoded_def Let_def)
  have "EventFromWire env (norm_map (EventToWire env ev)) = Inr ?ev"
    unfolding EventFromWire_def decode_clean [OF assms(1)] option.case Let_def f w s wire_ts_kept [OF assms(2)]
    by simp
  moreover have "same_event ev ?ev"
    by (simp add: same_event_def wire_payload_kept [OF assms(1)])
  ultimately show ?thesis by (rule that)
qed


section \<open>The stream of events\<close>

text \<open>What is assumed of the codec for one event: the text of its object is one line between braces that
  decodes to the object with its numbers as floats. A line must fit the reader's buffer.\<close>

definition one_line :: "string \<Rightarrow> bool" where "one_line s \<longleftrightarrow> CHR 0x0A \<notin> set s"

definition json_text :: "wire_env \<Rightarrow> gmap \<Rightarrow> bool" where
  "json_text env m = (case we_marshal env (GObj m) of
     Inl e \<Rightarrow> False
   | Inr t \<Rightarrow> one_line t \<and> t \<noteq> [] \<and> hd t = CHR ''{'' \<and> last t = CHR ''}'' \<and> length t < sseMaxToken - 6 \<and>
       we_decode env t = Inr (GObj (norm_map m)))"

definition sendable :: "wire_env \<Rightarrow> JobEvent \<Rightarrow> bool" where
  "sendable env ev \<longleftrightarrow> wire_clean ev \<and> time_kept env (je_ts_ms ev) \<and> json_text env (EventToWire env ev) \<and>
     one_line (je_type ev) \<and> length (je_type ev) < sseMaxToken - 7 \<and> length (int_digits (je_seq ev)) < sseMaxToken - 4"

definition event_text :: "wire_env \<Rightarrow> JobEvent \<Rightarrow> string" where
  "event_text env ev = (case eventToJSON env ev of Inl e \<Rightarrow> [] | Inr t \<Rightarrow> t)"

definition event_lines :: "wire_env \<Rightarrow> JobEvent \<Rightarrow> string list" where
  "event_lines env ev = [''id: '' @ int_digits (je_seq ev),
     ''event: '' @ (if je_type ev = [] then ''message'' else je_type ev), ''data: '' @ event_text env ev, []]"

lemma digits_one_line: "one_line (int_digits n)"
proof -
  have "CHR 0x0A \<notin> set (nat_digits k)" for k
    using nat_digits_all_digits [of k] by (auto simp: list_all_iff is_digit_def)
  then show ?thesis by (auto simp: one_line_def int_digits_def)
qed

lemma split_block:
  assumes "one_line a" and "one_line b" and "one_line c"
  shows "split_on CHR 0x0A (''id: '' @ a @ [CHR 0x0A] @ ''event: '' @ b @ [CHR 0x0A] @ ''data: '' @ c @ [CHR 0x0A, CHR 0x0A] @ r) =
    [''id: '' @ a, ''event: '' @ b, ''data: '' @ c, []] @ split_on CHR 0x0A r"
proof -
  have "CHR 0x0A \<notin> set (''id: '' @ a)" "CHR 0x0A \<notin> set (''event: '' @ b)" "CHR 0x0A \<notin> set (''data: '' @ c)"
    using assms by (simp_all add: one_line_def)
  note x = split_on_append [OF this(1)] split_on_append [OF this(2)] split_on_append [OF this(3)]
  show ?thesis using x(1) [of "''event: '' @ b @ [CHR 0x0A] @ ''data: '' @ c @ [CHR 0x0A, CHR 0x0A] @ r"]
    x(2) [of "''data: '' @ c @ [CHR 0x0A, CHR 0x0A] @ r"] x(3) [of "CHR 0x0A # r"]
    by (simp del: split_on.simps add: split_on.simps(2) [of _ "CHR 0x0A" r])
qed

lemma sent_text:
  assumes "sendable env ev"
  shows "eventToJSON env ev = Inr (event_text env ev)" and "one_line (event_text env ev)"
    and "event_text env ev \<noteq> []" and "hd (event_text env ev) = CHR ''{''" and "last (event_text env ev) = CHR ''}''"
    and "length (event_text env ev) < sseMaxToken - 6"
    and "we_decode env (event_text env ev) = Inr (GObj (norm_map (EventToWire env ev)))"
  using assms by (auto simp: sendable_def json_text_def event_text_def eventToJSON_def split: sum.splits)

lemma serve_events_lines:
  assumes "list_all (sendable env) evs"
  shows "split_on CHR 0x0A (serve_events env evs) = concat (map (event_lines env) evs) @ ['': done'', [], []]"
  using assms
proof (induction evs)
  case Nil
  show ?case by (simp add: sse_done_def)
next
  case (Cons ev evs)
  let ?ty = "if je_type ev = [] then ''message'' else je_type ev"
  have s: "sendable env ev" using Cons.prems by simp
  have t: "one_line ?ty" using s by (auto simp: sendable_def one_line_def)
  have w: "serve_events env (ev # evs) = ''id: '' @ int_digits (je_seq ev) @ [CHR 0x0A] @ ''event: '' @ ?ty @ [CHR 0x0A] @
      ''data: '' @ event_text env ev @ [CHR 0x0A, CHR 0x0A] @ serve_events env evs"
    by (simp add: writeSSEEvent_def sent_text(1) [OF s])
  have i: "split_on CHR 0x0A (serve_events env evs) = concat (map (event_lines env) evs) @ ['': done'', [], []]"
    using Cons by simp
  show ?case
    unfolding w split_block [OF digits_one_line t sent_text(2) [OF s]] i by (simp add: event_lines_def [of env ev])
qed


lemma scan_served:
  assumes "list_all (sendable env) evs"
  shows "scan_lines (serve_events env evs) = concat (map (event_lines env) evs) @ ['': done'', []]"
  by (simp add: scan_lines_def serve_events_lines [OF assms] butlast_append)

lemma drop_cr_keep: "s \<noteq> [] \<Longrightarrow> last s \<noteq> CHR 0x0D \<Longrightarrow> drop_cr s = s"
  by (auto simp: drop_cr_def last_rev hd_rev split: list.split dest: arg_cong [of "rev s" _ rev])

lemma drop_cr_cases: "drop_cr s = s \<or> drop_cr s = butlast s"
  by (cases s rule: rev_cases) (auto simp: drop_cr_def)

lemma not_data:
  assumes "c \<noteq> CHR ''d''"
  shows "\<not> has_prefix (drop_cr (c # s)) ''data:''"
  using drop_cr_cases [of "c # s"] assms by (auto simp: has_prefix_def split: if_splits)

lemma idle_line: "ss_data st = [] \<Longrightarrow> \<not> has_prefix line ''data:'' \<Longrightarrow> sse_line env line st = Inr st"
  by (simp add: sse_line_def sse_flush_def)

lemma blank_line: "sse_line env (drop_cr []) st = sse_flush env st"
proof -
  have "trim_space [] = []" by code_simp
  then show ?thesis by (simp add: sse_line_def drop_cr_def has_prefix_def)
qed

lemma data_line:
  assumes "t \<noteq> []" and "hd t = CHR ''{''" and "last t = CHR ''}''"
  shows "sse_line env (drop_cr (''data: '' @ t)) st = Inr (st\<lparr>ss_data := ss_data st @ [t]\<rparr>)"
proof -
  have d: "drop_cr (''data: '' @ t) = ''data: '' @ t" using assms(1,3) by (intro drop_cr_keep) simp_all
  have "dropWhile (\<lambda>c. c = CHR '' '') (drop 5 (''data: '' @ t)) = t" using assms(1,2) by (cases t) simp_all
  moreover have "has_prefix (''data: '' @ t) ''data:''" by (simp add: has_prefix_def)
  ultimately show ?thesis unfolding d sse_line_def by (simp only: if_True)
qed

lemma read_event:
  assumes s: "sendable env ev"
  shows "\<exists>ev'. same_event ev ev' \<and>
    sse_loop env broken (event_lines env ev @ lines) \<lparr>ss_data = [], ss_out = out\<rparr> =
      sse_loop env broken lines \<lparr>ss_data = [], ss_out = out @ [ev']\<rparr>"
proof -
  obtain ev' where e: "EventFromWire env (norm_map (EventToWire env ev)) = Inr ev'" "same_event ev ev'"
    by (rule event_over_wire [of ev env]) (use s in \<open>simp_all add: sendable_def\<close>)
  let ?st = "\<lparr>ss_data = [], ss_out = out\<rparr>"
  let ?t = "event_text env ev"
  let ?ty = "if je_type ev = [] then ''message'' else je_type ev"
  have l: "length (''id: '' @ int_digits (je_seq ev)) < sseMaxToken" "length (''event: '' @ ?ty) < sseMaxToken"
    "length (''data: '' @ ?t) < sseMaxToken" "length ([] :: string) < sseMaxToken"
    using s sent_text(6) [OF s] by (auto simp: sendable_def sseMaxToken_def)
  have i: "sse_line env (drop_cr (''id: '' @ int_digits (je_seq ev))) ?st = Inr ?st"
    "sse_line env (drop_cr (''event: '' @ ?ty)) ?st = Inr ?st"
    unfolding append_Cons by (rule idle_line; simp add: not_data)+
  have d: "sse_line env (drop_cr (''data: '' @ ?t)) ?st = Inr \<lparr>ss_data = [?t], ss_out = out\<rparr>"
    unfolding data_line [OF sent_text(3,4,5) [OF s]] by simp
  have "eventFromJSON env ?t = Inr ev'" by (simp add: eventFromJSON_def sent_text(7) [OF s] e(1))
  then have b: "sse_line env (drop_cr []) \<lparr>ss_data = [?t], ss_out = out\<rparr> = Inr \<lparr>ss_data = [], ss_out = out @ [ev']\<rparr>"
    unfolding blank_line by (simp add: sse_flush_def)
  have "sse_loop env broken (event_lines env ev @ lines) ?st = sse_loop env broken lines \<lparr>ss_data = [], ss_out = out @ [ev']\<rparr>"
    unfolding event_lines_def append_Cons [of _ _ lines] append_Nil sse_loop.simps(2) i d b sum.case
    using l by (simp only: linorder_not_le [symmetric] if_False)
  with e(2) show ?thesis by blast
qed

lemma read_events:
  "list_all (sendable env) evs \<Longrightarrow> \<exists>evs'. list_all2 same_event evs evs' \<and>
    sse_loop env broken (concat (map (event_lines env) evs) @ lines) \<lparr>ss_data = [], ss_out = out\<rparr> =
      sse_loop env broken lines \<lparr>ss_data = [], ss_out = out @ evs'\<rparr>"
proof (induction evs arbitrary: out)
  case (Cons ev evs)
  obtain ev' where e: "same_event ev ev'" "sse_loop env broken (event_lines env ev @ concat (map (event_lines env) evs) @ lines)
      \<lparr>ss_data = [], ss_out = out\<rparr> =
      sse_loop env broken (concat (map (event_lines env) evs) @ lines) \<lparr>ss_data = [], ss_out = out @ [ev']\<rparr>"
    using read_event [of env ev broken "concat (map (event_lines env) evs) @ lines" out] Cons.prems by auto
  obtain evs' where f: "list_all2 same_event evs evs'"
    "sse_loop env broken (concat (map (event_lines env) evs) @ lines) \<lparr>ss_data = [], ss_out = out @ [ev']\<rparr> =
      sse_loop env broken lines \<lparr>ss_data = [], ss_out = (out @ [ev']) @ evs'\<rparr>"
    using Cons.IH [of "out @ [ev']"] Cons.prems by auto
  show ?case
    by (intro exI [of _ "ev' # evs'"]) (simp add: e f)
qed simp

lemma stream_read:
  assumes "list_all (sendable env) evs"
  shows "\<exists>evs'. list_all2 same_event evs evs' \<and> readSSEEvents env (serve_events env evs) None = Inr evs'"
proof -
  obtain evs' where e: "list_all2 same_event evs evs'"
    "sse_loop env None (concat (map (event_lines env) evs) @ ['': done'', []]) \<lparr>ss_data = [], ss_out = []\<rparr> =
      sse_loop env None ['': done'', []] \<lparr>ss_data = [], ss_out = [] @ evs'\<rparr>"
    using read_events [OF assms, of None "['': done'', []]" "[]"] by blast
  have "sse_loop env None ['': done'', []] \<lparr>ss_data = [], ss_out = evs'\<rparr> = Inr evs'"
    using idle_line [of "\<lparr>ss_data = [], ss_out = evs'\<rparr>"] not_data [of "CHR '':''"]
    by (simp add: sseMaxToken_def drop_cr_def has_prefix_def sse_flush_def)
  with e show ?thesis by (auto simp: readSSEEvents_def scan_served [OF assms])
qed


section \<open>Watching a job of the other side\<close>

text \<open>The transport that hands every request under a base URL to the handler of a runtime.\<close>

definition wire_base :: "string \<Rightarrow> string" where
  "wire_base host = trim_right_set {CHR ''/''} (trim_space host)"

definition loopback :: "wire_env \<Rightarrow> (string \<Rightarrow> int \<Rightarrow> zerror + JobEvent list) \<Rightarrow> string \<Rightarrow> sse_transport" where
  "loopback env watch base u seq =
     (if has_prefix u base then (let a = ServeHTTP env (Some watch) \<lparr>hg_method = ''GET'', hg_path = drop (length base) u,
          hg_from_seq = int_digits seq, hg_last_event_id = int_digits seq, hg_flusher = True\<rparr>
        in Inr (ha_status a, ha_body a, None))
      else Inl (None, CallOther ''no such host''))"

text \<open>The job ids the path can carry.\<close>

definition plain_job :: "string \<Rightarrow> bool" where
  "plain_job j \<longleftrightarrow> j \<noteq> [] \<and> trim_space j = j \<and> j \<noteq> ''events'' \<and>
     list_all (\<lambda>c. let n = of_char c :: nat in is_digit c \<or> 65 \<le> n \<and> n \<le> 90 \<or> 97 \<le> n \<and> n \<le> 122 \<or> n = 95 \<or> n = 45) j"

definition int64_ok :: "int \<Rightarrow> bool" where "int64_ok n \<longleftrightarrow> - (2 ^ 63) \<le> n \<and> n < 2 ^ 63"

lemma atoi_int_digits:
  assumes "int64_ok n"
  shows "go_atoi (int_digits n) = n"
proof (cases "n < 0")
  case True
  then show ?thesis using assms by (simp add: int64_ok_def go_atoi_def int_digits_def nat_digits_all_digits)
next
  case False
  obtain c cs where d: "nat_digits (nat n) = c # cs" by (cases "nat_digits (nat n)") auto
  have "is_digit c" using nat_digits_all_digits [of "nat n"] by (simp add: d)
  then have "c \<noteq> CHR ''-''" "c \<noteq> CHR ''+''" by (auto simp: is_digit_def)
  then have "go_atoi (nat_digits (nat n)) = atoi_digits (nat_digits (nat n))"
    using nat_digits_all_digits [of "nat n"] by (simp add: go_atoi_def d)
  then show ?thesis using False assms by (simp add: int_digits_def atoi_digits_def int64_ok_def)
qed

lemma plain_no_slash: "plain_job j \<Longrightarrow> CHR ''/'' \<notin> set j"
  by (auto simp: plain_job_def list_all_iff is_digit_def Let_def)

lemma job_path:
  assumes "plain_job j"
  shows "job_id_of_path (''/v1/jobs/'' @ j @ ''/events'') = j"
proof -
  have t: "trim_set {CHR ''/''} (''/v1/jobs/'' @ j @ ''/events'') = ''v1/jobs/'' @ j @ ''/events''"
    by (simp add: trim_set_def trim_right_set_def)
  have "split_on CHR ''/'' (j @ ''/events'') = [j, ''events'']"
    using split_on_append [OF plain_no_slash [OF assms], of "''events''"] by simp
  then have s: "split_on CHR ''/'' (''v1/jobs/'' @ j @ ''/events'') = [''v1'', ''jobs'', j, ''events'']" by simp
  have "[0..<length [''v1'', ''jobs'', j, ''events'']] = [0, 1, 2, 3]" by (simp add: upt_rec)
  moreover have "j \<noteq> ''events''" using assms by (simp add: plain_job_def)
  ultimately show ?thesis unfolding job_id_of_path_def t s Let_def by simp
qed

lemma events_url: "plain_job j \<Longrightarrow> EventsURL host j = wire_base host @ ''/v1/jobs/'' @ j @ ''/events''"
  by (simp add: EventsURL_def wire_base_def plain_job_def)

lemma loopback_served:
  assumes "plain_job j" and "int64_ok a"
  shows "loopback env watch (wire_base host) (EventsURL host j) a =
    (case watch j a of Inl e \<Rightarrow> Inr (job_error_status (ze_code e), ErrorString e @ [CHR 0x0A], None)
     | Inr evs \<Rightarrow> Inr (200, serve_events env evs, None))"
proof -
  have f: "parseFromSeq \<lparr>hg_method = ''GET'', hg_path = p, hg_from_seq = int_digits a, hg_last_event_id = int_digits a,
      hg_flusher = True\<rparr> = a" for p
    using atoi_int_digits [OF assms(2)] by (auto simp: parseFromSeq_def go_atoi_def)
  have "j \<noteq> []" using assms(1) by (simp add: plain_job_def)
  then show ?thesis
    by (simp add: loopback_def events_url [OF assms(1)] has_prefix_def ServeHTTP_def job_path [OF assms(1), simplified] f
      Let_def writeJobHTTPError_def http_error_def split: sum.split)
qed

definition remote_code :: "Code \<Rightarrow> Code" where
  "remote_code c = (if c = CodeJobsNotFound \<or> c = CodeJobsWatchFailed then c else CodeJobsUnavailable)"

lemma status_code:
  "job_error_status c = (if c = CodeJobsNotFound then 404 else if c = CodeJobsUnavailable then 503
     else if c = CodeJobsWatchFailed then 400 else 500)"
  by (rule job_error_status_def)

lemma same_event_seq: "same_event ev ev' \<Longrightarrow> je_seq ev' = je_seq ev"
  by (metis JobEvent.select_convs(1) JobEvent.surjective JobEvent.update_convs(8) same_event_def)

lemma same_events_after:
  "list_all2 same_event evs evs' \<Longrightarrow>
   list_all2 same_event (filter (\<lambda>ev. a < je_seq ev) evs) (filter (\<lambda>ev. a < je_seq ev) evs')"
  by (induction evs evs' rule: list_all2_induct) (auto dest: same_event_seq)

text \<open>
  C37. Watching a job over HTTP shows what the runtime on the other side shows: when its events can be sent, the
  remote watch gives the events after the cursor, each the same up to the form of its numbers and in the same
  order; when it fails, the remote watch fails too, with the code for an unknown job and for a failed watch
  kept and every other code turned into unavailable.
\<close>
theorem remote_watch:
  assumes "plain_job j" and "int64_ok a" and "\<not> hrt_closed r" and "url_ok (EventsURL (hrt_host r) j)"
    and "case watch j a of Inl e \<Rightarrow> True | Inr evs \<Rightarrow> list_all (sendable env) evs"
  shows "case watch j a of
      Inl e \<Rightarrow> (\<exists>e'. http_Watch env url_ok (loopback env watch (wire_base (hrt_host r))) r j a = Inl e' \<and>
        ze_code e' = remote_code (ze_code e))
    | Inr evs \<Rightarrow> (\<exists>evs'. http_Watch env url_ok (loopback env watch (wire_base (hrt_host r))) r j a = Inr evs' \<and>
        list_all2 same_event (filter (\<lambda>ev. a < je_seq ev) evs) evs')"
proof (cases "watch j a")
  case (Inl e)
  have "trim_space j \<noteq> []" using assms(1) by (simp add: plain_job_def)
  then show ?thesis using assms(3,4) Inl
    by (auto simp: http_Watch_def Let_def loopback_served [OF assms(1,2)] status_code remote_code_def http_unavailable_def)
next
  case (Inr evs)
  obtain evs' where e: "list_all2 same_event evs evs'" "readSSEEvents env (serve_events env evs) None = Inr evs'"
    using stream_read [of env evs] assms(5) Inr by auto
  have "trim_space j \<noteq> []" using assms(1) by (simp add: plain_job_def)
  then have "http_Watch env url_ok (loopback env watch (wire_base (hrt_host r))) r j a =
      Inr (filter (\<lambda>ev. a < je_seq ev) evs')"
    using assms(3,4) Inr by (simp add: http_Watch_def Let_def loopback_served [OF assms(1,2)] e(2))
  with same_events_after [OF e(1)] Inr show ?thesis by simp
qed

definition wire_demo_event :: JobEvent where
  "wire_demo_event = \<lparr>je_seq = 1, je_type = ''job.started'', je_job_id = ''job_1'', je_ts_ms = 0, je_unit_id = [], je_wave = 0,
     je_plan_epoch = 0, je_payload = [(''status'', GStr ''running''), (''units'', GInt 2)]\<rparr>"

definition wire_demo_env :: wire_env where
  "wire_demo_env = \<lparr>we_marshal = (\<lambda>v. Inr ''{...}''),
     we_decode = (\<lambda>t. Inr (GObj [(''schema'', GFloat 1), (''seq'', GFloat 1), (''job_id'', GStr ''job_1''),
       (''type'', GStr ''job.started''), (''ts'', GFloat 0), (''status'', GStr ''running''),
       (''extra'', GObj [(''units'', GFloat 2)])])),
     we_format_time = (\<lambda>t. ''t''), we_parse_time = (\<lambda>s. None), we_times1000 = (\<lambda>x. x * 1000)\<rparr>"

lemma demo_sendable: "sendable wire_demo_env wire_demo_event"
proof -
  have "norm_map (EventToWire wire_demo_env wire_demo_event) =
      [(''schema'', GFloat 1), (''seq'', GFloat 1), (''job_id'', GStr ''job_1''), (''type'', GStr ''job.started''),
       (''ts'', GFloat 0), (''status'', GStr ''running''), (''extra'', GObj [(''units'', GFloat 2)])]"
    by (simp add: EventToWire_def wire_demo_event_def wireLift_def map_filter_simps EventSchemaVersion_def norm_map_def)
  then have "json_text wire_demo_env (EventToWire wire_demo_env wire_demo_event)"
    by (simp add: json_text_def one_line_def sseMaxToken_def) (simp add: wire_demo_env_def one_line_def sseMaxToken_def)
  moreover have "wire_clean wire_demo_event" by (simp add: wire_clean_def wire_demo_event_def opt_ok_def wire_text_def)
  moreover have "int_digits 1 = ''1''" by code_simp
  ultimately show ?thesis
    by (simp add: sendable_def wire_demo_event_def time_kept_def one_line_def sseMaxToken_def)
qed

lemma remote_watch_witness:
  "sendable wire_demo_env wire_demo_event \<and> plain_job ''job_1'' \<and>
   (\<exists>evs'. http_Watch wire_demo_env (\<lambda>u. True)
      (loopback wire_demo_env (\<lambda>j a. Inr [wire_demo_event]) (wire_base (hrt_host (http_New ''http://h''))))
      (http_New ''http://h'') ''job_1'' 0 = Inr evs' \<and> list_all2 same_event [wire_demo_event] evs')"
proof -
  have p: "plain_job ''job_1''" by code_simp
  have "je_seq wire_demo_event = 1" by (simp add: wire_demo_event_def)
  then show ?thesis
    using remote_watch [where j = "''job_1''" and a = 0 and r = "http_New ''http://h''" and url_ok = "\<lambda>u. True"
        and watch = "\<lambda>j a. Inr [wire_demo_event]" and env = wire_demo_env]
    by (simp add: p demo_sendable int64_ok_def http_New_def)
qed


text \<open>What the code does not mean: a secret next to the name of an environment variable passes, a job named
  events is not addressable, and a line feed in a type starts a line of its own.\<close>

lemma secret_beside_env:
  "rejectSecrets ff [(''api_key_env'', GStr ''KEY''), (''api_key'', GStr ''sk-1'')] = None"
proof -
  have "str_contains (go_sprint ff (GObj [(''api_key_env'', GStr ''KEY''), (''api_key'', GStr ''sk-1'')])) ''api_key_env''"
    by (simp add: sort_key_def) code_simp
  then show ?thesis by (simp add: rejectSecrets_def)
qed

lemma events_not_addressable: "job_id_of_path ''/v1/jobs/events/events'' = ''jobs''"
  by code_simp

lemma split_three:
  "sep \<notin> set a \<Longrightarrow> sep \<notin> set b \<Longrightarrow> sep \<notin> set c \<Longrightarrow>
   split_on sep (a @ sep # b @ sep # c @ sep # r) = [a, b, c] @ split_on sep r"
  by (simp add: split_on_append)

lemma type_injects_data:
  assumes "writeSSEEvent env ev = Inr s" and "je_type ev = ''x'' @ CHR 0x0A # ''data: {}''"
  shows "''data: {}'' \<in> set (scan_lines s)"
proof -
  obtain t where t: "s = (''id: '' @ int_digits (je_seq ev)) @ CHR 0x0A # ''event: x'' @ CHR 0x0A # ''data: {}'' @ CHR 0x0A #
      ''data: '' @ t @ [CHR 0x0A, CHR 0x0A]"
    using assms by (auto simp: writeSSEEvent_def split: sum.splits)
  have n: "CHR 0x0A \<notin> set (''id: '' @ int_digits (je_seq ev))" "CHR 0x0A \<notin> set ''event: x''" "CHR 0x0A \<notin> set ''data: {}''"
    using digits_one_line [of "je_seq ev"] by (simp_all add: one_line_def)
  have u: "split_on CHR 0x0A s = [''id: '' @ int_digits (je_seq ev), ''event: x'', ''data: {}''] @
      split_on CHR 0x0A (''data: '' @ t @ [CHR 0x0A, CHR 0x0A])"
    unfolding t by (rule split_three [OF n])
  show ?thesis unfolding scan_lines_def u Let_def by (auto simp del: split_on.simps simp: butlast_append)
qed

end
