(* ===== verification/Llm_Classify.thy ===== *)
theory Llm_Classify
  imports Redact
begin

text \<open>
  LLM failures (src/domain/llm_classify.go): the classification of an HTTP status and provider body
  into the closed family of classes, with code and retry flag, and the retry budget of a turn. The
  classes are the constants of the source; how \<open>%v\<close> prints a float is the parameter \<open>ff\<close>. The
  integers of the budget are 64-bit.
\<close>

section \<open>Classes\<close>

type_synonym LlmErrorClass = string

abbreviation LlmClassRateLimit :: LlmErrorClass where "LlmClassRateLimit \<equiv> ''rate_limit''"
abbreviation LlmClassQuotaExhausted :: LlmErrorClass where "LlmClassQuotaExhausted \<equiv> ''quota_exhausted''"
abbreviation LlmClassAuth :: LlmErrorClass where "LlmClassAuth \<equiv> ''auth''"
abbreviation LlmClassContextLength :: LlmErrorClass where "LlmClassContextLength \<equiv> ''context_length''"
abbreviation LlmClassContentFilter :: LlmErrorClass where "LlmClassContentFilter \<equiv> ''content_filter''"
abbreviation LlmClassProviderOverload :: LlmErrorClass where "LlmClassProviderOverload \<equiv> ''provider_overload''"
abbreviation LlmClassProviderUnavailable :: LlmErrorClass where
  "LlmClassProviderUnavailable \<equiv> ''provider_unavailable''"
abbreviation LlmClassTimeout :: LlmErrorClass where "LlmClassTimeout \<equiv> ''timeout''"
abbreviation LlmClassInvalidRequest :: LlmErrorClass where "LlmClassInvalidRequest \<equiv> ''invalid_request''"
abbreviation LlmClassToolSchema :: LlmErrorClass where "LlmClassToolSchema \<equiv> ''tool_schema''"
abbreviation LlmClassUnknown :: LlmErrorClass where "LlmClassUnknown \<equiv> ''unknown''"

definition classToCode :: "(LlmErrorClass \<times> Code) list" where
  "classToCode =
     [(LlmClassRateLimit, CodeLLMRateLimit), (LlmClassQuotaExhausted, CodeLLMQuotaExhausted),
      (LlmClassAuth, CodeLLMAuth), (LlmClassContextLength, CodeLLMContextLength),
      (LlmClassContentFilter, CodeLLMContentFilter), (LlmClassProviderOverload, CodeLLMProviderOverload),
      (LlmClassProviderUnavailable, CodeLLMProviderUnavailable), (LlmClassTimeout, CodeAgentLLMTimeout),
      (LlmClassInvalidRequest, CodeLLMInvalidRequest), (LlmClassToolSchema, CodeLLMToolSchema),
      (LlmClassUnknown, CodeAgentLLMRequestFailed)]"

definition ErrorCodeForClass :: "LlmErrorClass \<Rightarrow> Code" where
  "ErrorCodeForClass cls = (case map_of classToCode cls of Some c \<Rightarrow> c | None \<Rightarrow> CodeAgentLLMRequestFailed)"

record LlmClassification =
  lc_class :: LlmErrorClass
  lc_code :: Code
  lc_retryable :: bool
  lc_http_status :: "int option"
  lc_provider_code :: string
  lc_provider_type :: string
  lc_message_preview :: string

definition ToMeta :: "LlmClassification \<Rightarrow> gmap" where
  "ToMeta c =
     [(''llm.error_class'', GStr (lc_class c)), (''error.code'', GStr (lc_code c)),
      (''error.retryable'', GBool (lc_retryable c)),
      (''http.status_code'', case lc_http_status c of None \<Rightarrow> GNil | Some n \<Rightarrow> GInt n),
      (''llm.provider_code'', nilIfEmpty (lc_provider_code c)),
      (''llm.provider_type'', nilIfEmpty (lc_provider_type c))]"

section \<open>The retry budget\<close>

record RetryBudget =
  rb_max_attempts :: int
  rb_max_extra_ms :: int
  rb_attempts_used :: int
  rb_ms_used :: int

definition defaultRetryBudgetExtraMS :: int where "defaultRetryBudgetExtraMS = 30000"

definition NewRetryBudget :: "int \<Rightarrow> RetryBudget" where
  "NewRetryBudget n = \<lparr>rb_max_attempts = (if n < 0 then 0 else n),
     rb_max_extra_ms = defaultRetryBudgetExtraMS, rb_attempts_used = 0, rb_ms_used = 0\<rparr>"

definition Allow :: "RetryBudget \<Rightarrow> bool \<Rightarrow> int \<Rightarrow> bool" where
  "Allow b retryable delayMS =
     (if \<not> retryable then False
      else if rb_max_attempts b \<le> rb_attempts_used b then False
      else (let d = (if delayMS < 0 then 0 else delayMS) in
        if 0 < rb_max_extra_ms b \<and> rb_max_extra_ms b < wrap64 (rb_ms_used b + d) then False else True))"

definition Consume :: "RetryBudget \<Rightarrow> int \<Rightarrow> RetryBudget" where
  "Consume b delayMS =
     b\<lparr>rb_attempts_used := wrap64 (rb_attempts_used b + 1),
       rb_ms_used := (if 0 < delayMS then wrap64 (rb_ms_used b + delayMS) else rb_ms_used b)\<rparr>"

section \<open>Expressions\<close>

text \<open>\<open>[_\s-]?\<close>\<close>

definition rgap :: rx where "rgap = ropt (RCls False ((95, 95) # (45, 45) # space_ranges))"

definition quotaRE :: rx where
  "quotaRE = ralts
     [rseqs [rliti ''insufficient'', rgap, rliti ''quota''], rseqs [rliti ''quota'', rgap, rliti ''exceeded''],
      rliti ''billing'', rliti ''credit'', rseqs [rliti ''spend'', ropt rdot, rliti ''limit''], rliti ''payment'',
      rliti ''out of credits'', rliti ''exceeded your current quota'']"

definition rateRE :: rx where
  "rateRE = ralts
     [rseqs [rliti ''rate'', rgap, rliti ''limit''], rliti ''too many requests'', rliti ''tokens per minute'',
      rliti ''requests per minute'', rliti ''rpm'', rliti ''tpm'']"

definition ctxRE :: rx where
  "ctxRE = ralts
     [rseqs [rliti ''context'', rgap, rliti ''length''], rliti ''maximum context'',
      rseqs [rliti ''max'', rgap, rliti ''tokens''], rseqs [rliti ''token'', ropt rdot, rliti ''limit''],
      rliti ''too many tokens'', rliti ''prompt is too long'', rliti ''context window'', rliti ''max_model_len'',
      rliti ''input is too long'']"

definition filtRE :: rx where
  "filtRE = ralts
     [rseqs [rliti ''content'', rgap, rliti ''filter''], rseqs [rliti ''content'', rgap, rliti ''policy''],
      rliti ''safety'', rliti ''moderation'', rliti ''blocked by'']"

definition toolRE :: rx where
  "toolRE = ralts
     [rseqs [rliti ''tool'', rgap, rliti ''choice''], rseqs [rliti ''tool'', ropt (rchri (CHR ''s'')), rliti '' were''],
      rseqs [rliti ''function'', rgap, rliti ''call''], rseqs [rliti ''tool'', rgap, rliti ''schema''],
      rliti ''invalid tools'', rseqs [rliti ''function'', ropt (rchri (CHR ''s''))]]"

definition overRE :: rx where
  "overRE = ralts [rliti ''overload'', rliti ''capacity'', rliti ''overloaded'', rliti ''try again later'']"

definition billRE :: rx where
  "billRE = ralts [rliti ''billing'', rliti ''payment'', rliti ''credit'', rliti ''subscription'']"

section \<open>Classification\<close>

record ClassifyOpts =
  cl_status :: int
  cl_has_status :: bool
  cl_body :: gval
  cl_transport_error :: bool
  cl_timeout :: bool

definition clipPreview :: "string \<Rightarrow> nat \<Rightarrow> string" where
  "clipPreview s n = (if n = 0 \<or> length s \<le> n then s else take n s)"

definition asOptString :: "(rat \<Rightarrow> string) \<Rightarrow> gval \<Rightarrow> string" where
  "asOptString ff v = (if v = GNil then [] else go_sprint ff v)"

fun firstString :: "(rat \<Rightarrow> string) \<Rightarrow> gval list \<Rightarrow> string" where
  "firstString ff [] = []"
| "firstString ff (v # vs) =
     (if v = GNil then firstString ff vs
      else (let s = go_sprint ff v in if s \<noteq> [] \<and> s \<noteq> ''<nil>'' then s else firstString ff vs))"

definition nonEmpty :: "string list \<Rightarrow> string list" where
  "nonEmpty parts = filter (\<lambda>p. p \<noteq> []) parts"

definition extractLLMErrorFields :: "(rat \<Rightarrow> string) \<Rightarrow> gval \<Rightarrow> string \<times> string \<times> string" where
  "extractLLMErrorFields ff body = (case body of
     GStr s \<Rightarrow> ([], [], clipPreview s 500)
   | GObj m \<Rightarrow> (case mget m ''error'' of
         GStr s \<Rightarrow> ([], [], clipPreview s 500)
       | GObj em \<Rightarrow> (asOptString ff (mget em ''code''), asOptString ff (mget em ''type''),
           clipPreview (firstString ff [mget em ''message'']) 500)
       | _ \<Rightarrow> (let c = asOptString ff (mget m ''code''); t = asOptString ff (mget m ''type'');
                   msg = firstString ff [mget m ''message'', mget m ''error_message'']
               in if c \<noteq> [] \<or> t \<noteq> [] \<or> msg \<noteq> [] then (c, t, clipPreview msg 500)
                  else ([], [], clipPreview (go_sprint ff body) 500)))
   | GNil \<Rightarrow> ([], [], [])
   | _ \<Rightarrow> ([], [], clipPreview (go_sprint ff body) 500))"

text \<open>The class of a received status, given the provider's code, type and joined text.\<close>

definition status_class :: "int \<Rightarrow> string \<Rightarrow> string \<Rightarrow> string \<Rightarrow> LlmErrorClass" where
  "status_class st codeS typS txt =
     (if st = 402 then LlmClassQuotaExhausted
      else if st = 401 \<or> st = 403
      then (if rx_match billRE txt \<or> rx_match quotaRE txt then LlmClassQuotaExhausted else LlmClassAuth)
      else if st = 429
      then (if str_contains (to_lower codeS) ''insufficient_quota'' \<or>
               str_contains (to_lower typS) ''insufficient_quota'' \<or> rx_match quotaRE (to_lower txt)
            then LlmClassQuotaExhausted else LlmClassRateLimit)
      else if st = 529 then LlmClassProviderOverload
      else if st = 500 \<or> st = 502 \<or> st = 503 \<or> st = 504
      then (if st = 503 \<and> rx_match overRE txt then LlmClassProviderOverload
            else if rx_match overRE txt \<and> str_contains (to_lower txt) ''capacity'' then LlmClassProviderOverload
            else LlmClassProviderUnavailable)
      else if st = 400 \<or> st = 422
      then (if rx_match ctxRE txt then LlmClassContextLength
            else if rx_match filtRE txt then LlmClassContentFilter
            else if str_contains (to_lower codeS) ''tool'' then LlmClassToolSchema
            else if rx_match toolRE txt \<and> (str_contains (to_lower txt) ''schema'' \<or>
                str_contains (to_lower txt) ''tool_choice'' \<or> str_contains (to_lower txt) ''invalid'' \<or>
                str_contains (to_lower txt) ''function'') then LlmClassToolSchema
            else LlmClassInvalidRequest)
      else if rx_match rateRE txt \<and> 400 \<le> st then LlmClassRateLimit
      else LlmClassUnknown)"

definition ClassifyLlmFailure :: "(rat \<Rightarrow> string) \<Rightarrow> ClassifyOpts \<Rightarrow> LlmClassification" where
  "ClassifyLlmFailure ff opts =
     (case extractLLMErrorFields ff (cl_body opts) of (codeS, typS, msg) \<Rightarrow>
       (let txt = trim_space (join_with '' '' (nonEmpty [codeS, typS, msg]));
            cls = (if cl_timeout opts then LlmClassTimeout
              else if cl_transport_error opts \<or> \<not> cl_has_status opts then LlmClassProviderUnavailable
              else status_class (cl_status opts) codeS typS txt);
            ec = ErrorCodeForClass cls
        in \<lparr>lc_class = cls, lc_code = ec, lc_retryable = DefaultRetryable ec,
            lc_http_status = (if cl_has_status opts then Some (cl_status opts) else None),
            lc_provider_code = codeS, lc_provider_type = typS, lc_message_preview = clipPreview msg 240\<rparr>))"

definition ClassifyHTTP :: "(rat \<Rightarrow> string) \<Rightarrow> int \<Rightarrow> gval \<Rightarrow> LlmClassification" where
  "ClassifyHTTP ff status body = ClassifyLlmFailure ff
     \<lparr>cl_status = status, cl_has_status = True, cl_body = body, cl_transport_error = False, cl_timeout = False\<rparr>"

section \<open>Facts\<close>

definition retryable_class :: "LlmErrorClass \<Rightarrow> bool" where
  "retryable_class cls \<longleftrightarrow> cls \<in> {LlmClassRateLimit, LlmClassProviderOverload, LlmClassProviderUnavailable, LlmClassTimeout}"

lemma class_codes:
  "list_all (\<lambda>(cls, c). ErrorCodeForClass cls = c \<and> DefaultRetryable c = retryable_class cls) classToCode"
  by code_simp

lemma if_member: "x \<in> S \<Longrightarrow> y \<in> S \<Longrightarrow> (if b then x else y) \<in> S"
  by simp

lemma status_class_known: "status_class st c t x \<in> fst ` set classToCode"
  unfolding status_class_def by (intro if_member) (simp_all add: classToCode_def)

lemma ClassifyLlmFailure_known: "lc_class (ClassifyLlmFailure ff opts) \<in> fst ` set classToCode"
  by (auto simp: ClassifyLlmFailure_def Let_def split: prod.splits intro!: if_member status_class_known)
     (simp_all add: classToCode_def)

text \<open>A caller that asks before each retry and records it.\<close>

fun retry_run :: "RetryBudget \<Rightarrow> (bool \<times> int) list \<Rightarrow> nat \<Rightarrow> RetryBudget \<times> nat" where
  "retry_run b [] n = (b, n)"
| "retry_run b ((retryable, d) # ds) n =
     (if Allow b retryable d then retry_run (Consume b d) ds (Suc n) else retry_run b ds n)"

definition budget_ok :: "RetryBudget \<Rightarrow> bool" where
  "budget_ok b \<longleftrightarrow> 0 \<le> rb_attempts_used b \<and> rb_attempts_used b \<le> rb_max_attempts b \<and> rb_max_attempts b < 2 ^ 63 \<and>
     0 < rb_max_extra_ms b \<and> rb_max_extra_ms b < 2 ^ 62 \<and> 0 \<le> rb_ms_used b \<and> rb_ms_used b \<le> rb_max_extra_ms b"

lemma budget_step:
  assumes "budget_ok b" and "Allow b retryable d" and "d < 2 ^ 62"
  shows "budget_ok (Consume b d) \<and> rb_attempts_used (Consume b d) = rb_attempts_used b + 1 \<and>
    rb_max_attempts (Consume b d) = rb_max_attempts b \<and> rb_max_extra_ms (Consume b d) = rb_max_extra_ms b \<and>
    rb_ms_used (Consume b d) = rb_ms_used b + max 0 d"
proof -
  have a: "rb_attempts_used b < rb_max_attempts b"
    using assms(2) by (auto simp: Allow_def split: if_splits)
  have w1: "wrap64 (rb_attempts_used b + 1) = rb_attempts_used b + 1"
    using assms(1) a by (intro wrap64_id) (auto simp: budget_ok_def)
  have w2: "wrap64 (rb_ms_used b + d) = rb_ms_used b + d" if "0 \<le> d"
    using assms(1,3) that by (intro wrap64_id) (auto simp: budget_ok_def)
  have "0 \<le> d \<longrightarrow> rb_ms_used b + d \<le> rb_max_extra_ms b"
    using assms(1,2) w2 by (auto simp: Allow_def budget_ok_def Let_def split: if_splits)
  with assms(1) a show ?thesis
    by (auto simp: budget_ok_def Consume_def w1 w2)
qed

lemma retry_run_bound:
  assumes "budget_ok b" and "\<forall>(r, d) \<in> set ds. d < 2 ^ 62" and "retry_run b ds n = (b', m)"
  shows "budget_ok b' \<and> int m - int n = rb_attempts_used b' - rb_attempts_used b \<and>
    rb_max_attempts b' = rb_max_attempts b \<and> rb_max_extra_ms b' = rb_max_extra_ms b"
  using assms
proof (induction b ds n rule: retry_run.induct)
  case (2 b retryable d ds n)
  show ?case
  proof (cases "Allow b retryable d")
    case True
    from budget_step [OF "2.prems"(1) True] "2.prems"(2) have
      s: "budget_ok (Consume b d)" "rb_attempts_used (Consume b d) = rb_attempts_used b + 1"
      "rb_max_attempts (Consume b d) = rb_max_attempts b" "rb_max_extra_ms (Consume b d) = rb_max_extra_ms b" by auto
    from "2.IH"(1) [OF True s(1)] "2.prems"(2,3) True s(2-4) show ?thesis by simp
  next
    case False
    with "2.IH"(2) [OF False "2.prems"(1)] "2.prems"(2,3) show ?thesis by simp
  qed
qed simp

section \<open>Properties\<close>

text \<open>Every LLM failure gets one of the eleven classes, the family code of that class and the retry flag
  of that code: a retry is offered exactly for a rate limit, an overloaded or unavailable provider and
  a time-out. A 429 whose text or code speaks of quota is never a rate limit, and a client time-out or
  a failed transport is classified without looking at the status.\<close>

theorem ClassifyLlmFailure_closed:
  "lc_class (ClassifyLlmFailure ff opts) \<in> fst ` set classToCode \<and>
   lc_code (ClassifyLlmFailure ff opts) = ErrorCodeForClass (lc_class (ClassifyLlmFailure ff opts)) \<and>
   (lc_retryable (ClassifyLlmFailure ff opts) \<longleftrightarrow> lc_class (ClassifyLlmFailure ff opts) \<in>
      {''rate_limit'', ''provider_overload'', ''provider_unavailable'', ''timeout''}) \<and>
   lc_class (ClassifyLlmFailure ff (opts\<lparr>cl_timeout := True\<rparr>)) = ''timeout'' \<and>
   lc_class (ClassifyLlmFailure ff (opts\<lparr>cl_timeout := False, cl_transport_error := True\<rparr>)) = ''provider_unavailable'' \<and>
   status_class 429 ''insufficient_quota'' typS txt = ''quota_exhausted'' \<and> status_class 402 codeS typS txt = ''quota_exhausted''"
proof -
  let ?c = "ClassifyLlmFailure ff opts"
  have code: "lc_code ?c = ErrorCodeForClass (lc_class ?c)" "lc_retryable ?c = DefaultRetryable (lc_code ?c)"
    by (simp_all add: ClassifyLlmFailure_def Let_def split: prod.splits)
  have k: "lc_class ?c \<in> fst ` set classToCode" by (rule ClassifyLlmFailure_known)
  with class_codes have "DefaultRetryable (ErrorCodeForClass (lc_class ?c)) = retryable_class (lc_class ?c)"
    by (auto simp: list_all_iff)
  moreover have "status_class 429 ''insufficient_quota'' typS txt = ''quota_exhausted''"
  proof -
    have "str_contains (to_lower ''insufficient_quota'') ''insufficient_quota''" by code_simp
    then show ?thesis by (simp add: status_class_def)
  qed
  moreover have "lc_class (ClassifyLlmFailure ff (opts\<lparr>cl_timeout := True\<rparr>)) = ''timeout''"
    "lc_class (ClassifyLlmFailure ff (opts\<lparr>cl_timeout := False, cl_transport_error := True\<rparr>)) = ''provider_unavailable''"
    by (simp_all add: ClassifyLlmFailure_def Let_def split: prod.splits)
  moreover have "status_class 402 codeS typS txt = ''quota_exhausted''" by (simp add: status_class_def)
  ultimately show ?thesis using code k unfolding retryable_class_def by metis
qed

text \<open>The budget bounds the retries: whatever a caller asks for, with delays below \<open>2 ^ 62\<close>
  milliseconds, it gets at most \<open>maxAttempts\<close> retries and never more extra waiting than the budget
  has; without that bound on the delay the sum wraps and a retry with a delay of almost 300 million
  years is allowed.\<close>

theorem RetryBudget_bounds:
  assumes "\<forall>(r, d) \<in> set ds. d < 2 ^ 62" and "retry_run (NewRetryBudget n) ds 0 = (b, k)" and "n < 2 ^ 63"
  shows "int k \<le> max 0 n \<and> rb_ms_used b \<le> defaultRetryBudgetExtraMS \<and>
    Allow (Consume (NewRetryBudget 2) 1) True (2 ^ 63 - 1)"
proof -
  have "budget_ok (NewRetryBudget n)"
    using assms(3) by (simp add: budget_ok_def NewRetryBudget_def defaultRetryBudgetExtraMS_def)
  from retry_run_bound [OF this assms(1,2)] have "budget_ok b" "int k = rb_attempts_used b"
    "rb_max_attempts b = max 0 n" "rb_max_extra_ms b = defaultRetryBudgetExtraMS"
    by (auto simp: NewRetryBudget_def)
  moreover have "Allow (Consume (NewRetryBudget 2) 1) True (2 ^ 63 - 1)" by code_simp
  ultimately show ?thesis by (auto simp: budget_ok_def)
qed

lemma RetryBudget_bounds_witness:
  "int (snd (retry_run (NewRetryBudget 2) [(True, 500), (True, 1000), (False, 0), (True, 2000)] 0)) \<le> 2"
proof -
  obtain b k where r: "retry_run (NewRetryBudget 2) [(True, 500), (True, 1000), (False, 0), (True, 2000)] 0 = (b, k)"
    by fastforce
  from RetryBudget_bounds [OF _ r] r show ?thesis by simp
qed

end
