(* ===== verification/Agent_Turn.thy ===== *)
theory Agent_Turn
  imports Turn_Tools
begin

text \<open>
  One agent turn (src/application/agent_turn.go, \<open>RunAgentTurn\<close> and \<open>finishTurn\<close>): the rounds between
  the model and Zeus, the policy decision on the answer, and the result with its debug bundle. The
  journal, the log and the id factory are functions on the world; \<open>te_detective\<close> is the briefing of
  the detective package. A panic that leaves the turn is the result \<open>Crash\<close>.
\<close>

section \<open>Requests and results\<close>

definition agentTurnComponent :: string where "agentTurnComponent = ''application.agent_turn''"

definition InsightAfterZeusInstruction :: string where
  "InsightAfterZeusInstruction = ''Zeus tool results (including row/data payloads) are already in this '' @
     ''conversation. Analyze that evidence and write a clear, useful answer for '' @
     ''the operator: what was found, notable names/counts/patterns, and any '' @
     ''caveats. Do not call tools. Do not re-run the same successful pipeline or '' @
     ''invent rows/fields not present in the tool results. Prefer concrete '' @
     ''details from the data over a one-line abstract summary.''"

definition CheapFinalStaticAnswer :: string where
  "CheapFinalStaticAnswer = ''Zeus returned data. See structured results in the UI.''"

definition defaultSystemPrompt :: string where
  "defaultSystemPrompt = ''You are a helpful Zeus data assistant.''"

datatype TurnStatus = TurnOK | TurnError | TurnRefused | TurnClarify | TurnMaxRounds

fun status_text :: "TurnStatus \<Rightarrow> string" where
  "status_text TurnOK = ''ok''"
| "status_text TurnError = ''error''"
| "status_text TurnRefused = ''refused''"
| "status_text TurnClarify = ''clarify''"
| "status_text TurnMaxRounds = ''max_rounds''"

text \<open>A nil map among the prior messages is \<open>None\<close>.\<close>

record TurnRequest =
  tq_message :: string
  tq_target :: DataTarget
  tq_settings :: ClientSettings
  tq_session :: "SessionHandle option"
  tq_prior_messages :: "gmap option list"
  tq_system_prompt :: string
  tq_tools :: "gmap list"
  tq_chat_request :: gmap
  tq_base_id :: string
  tq_pack_schema :: "gmap option"
  tq_chat_id :: string
  tq_model :: string

record StructuredResult =
  sr_layer_a :: gmap
  sr_policy :: string
  sr_flags :: "bool amap"
  sr_ui :: gmap
  sr_artifacts :: gmap
  sr_policy_reason :: string

record DebugBundle =
  db_turn_id :: string
  db_chat_id :: string
  db_session_id :: string
  db_notes :: "string list"
  db_rounds :: int
  db_ai_process_result :: bool
  db_ai_exit :: string
  db_public_trace :: gmap
  db_hops :: "gmap list"
  db_event_count :: int
  db_hooks_score :: rat
  db_preferred_req_id :: string
  db_req_ids :: "string list"
  db_zeus_url :: string
  db_client_version :: string
  db_target :: gmap
  db_catalog :: gmap
  db_contract_status :: string
  db_tokens :: gmap
  db_stamp :: gmap
  db_trace_id :: string
  db_detective :: "gmap option"
  db_export_ref :: string
  db_journal_schema :: int

definition DebugBundle_ToMap :: "DebugBundle \<Rightarrow> gmap" where
  "DebugBundle_ToMap d =
     [(''turn_id'', GStr (db_turn_id d)), (''chat_id'', nilIfEmpty (db_chat_id d)),
      (''session_id'', nilIfEmpty (db_session_id d)), (''notes'', strs (db_notes d)), (''rounds'', GInt (db_rounds d)),
      (''ai_process_result'', GBool (db_ai_process_result d)), (''ai_process_result_exit'', nilIfEmpty (db_ai_exit d)),
      (''hops'', GArr (map GObj (db_hops d))), (''journal_event_count'', GInt (db_event_count d)),
      (''preferred_req_id'', nilIfEmpty (db_preferred_req_id d)), (''req_ids'', strs (db_req_ids d)),
      (''zeus_url'', nilIfEmpty (db_zeus_url d)), (''client_version'', GStr (db_client_version d)),
      (''target'', GObj (db_target d)), (''catalog'', GObj (db_catalog d)),
      (''contract_status'', nilIfEmpty (db_contract_status d)),
      (''tokens'', if db_tokens d = [] then GNil else GObj (db_tokens d)),
      (''export_ref'', nilIfEmpty (db_export_ref d)),
      (''journal_schema'', GInt (if db_journal_schema d = 0 then JournalSchemaVersion else db_journal_schema d)),
      (''stamp'', GObj (db_stamp d)), (''trace_id'', nilIfEmpty (db_trace_id d))] @
     (case db_detective d of None \<Rightarrow> [] | Some v \<Rightarrow> [(''detective'', GObj v)])"

record TurnResult =
  tr_answer :: string
  tr_status :: TurnStatus
  tr_structured :: "StructuredResult option"
  tr_session :: "SessionHandle option"
  tr_debug :: DebugBundle
  tr_err :: "zerror option"
  tr_messages :: "gmap list"
  tr_layer_a :: "LayerA option"
  tr_policy :: "PolicyDecision option"
  tr_tool_trail :: "gmap list"

record DebugPolicy =
  dbg_detective_briefing :: bool
  dbg_hub_base_url :: string
  dbg_rewind :: bool

record 's RunAgentTurnOpts =
  ro_llm :: "'s llm_port option"
  ro_zeus :: "'s zeus_port option"
  ro_middleware :: "MiddlewareChain option"
  ro_default_settings :: ClientSettings
  ro_debug_policy :: DebugPolicy
  ro_zeus_url :: string
  ro_client_floor :: string
  ro_extra_notes :: "string list"
  ro_client_ip :: string
  ro_version :: string
  ro_stamp_user :: string
  ro_env :: "string amap"

record BriefingArgs =
  ba_env :: "string amap"
  ba_turn_id :: string
  ba_chat_id :: string
  ba_answer :: string
  ba_status :: string
  ba_rounds :: int
  ba_hops :: "gmap list"
  ba_notes :: "string list"
  ba_messages :: "gmap list"
  ba_catalog :: gmap
  ba_tools :: "gmap list"
  ba_layer_a :: gmap
  ba_total_ms :: int
  ba_hub_base_url :: string
  ba_session_id :: string
  ba_target :: gmap
  ba_contract_status :: string
  ba_ai_process_result :: bool
  ba_ai_exit :: string
  ba_public_trace :: gmap
  ba_zeus_url :: string
  ba_client_version :: string
  ba_export_ref :: string

record 's turn_env = "'s tool_env" +
  te_digest :: "(string \<times> string) set \<Rightarrow> string"
  te_turn_id :: "'s \<Rightarrow> string \<times> 's"
  te_chat_id :: "'s \<Rightarrow> string \<times> 's"
  te_trace_id :: "'s \<Rightarrow> string \<times> 's"
  te_now_ms :: "'s \<Rightarrow> int"
  te_now_text :: "'s \<Rightarrow> string"
  te_append :: "JournalEvent \<Rightarrow> 's \<Rightarrow> 's"
  te_len :: "'s \<Rightarrow> int"
  te_emit :: "string \<Rightarrow> string \<Rightarrow> gmap \<Rightarrow> 's \<Rightarrow> 's"
  te_detective :: "BriefingArgs \<Rightarrow> gmap option"

section \<open>Prompts, tools and notes\<close>

definition system_text :: "(rat \<Rightarrow> string) \<Rightarrow> gval \<Rightarrow> string option" where
  "system_text ff m = (case m of
     GObj mm \<Rightarrow> (if app_str ff (mget mm ''role'') = ''system''
       then (case mget mm ''content'' of GStr c \<Rightarrow> (if trim_space c = [] then None else Some c) | _ \<Rightarrow> None) else None)
   | _ \<Rightarrow> None)"

definition first_system :: "(rat \<Rightarrow> string) \<Rightarrow> gval list \<Rightarrow> string option" where
  "first_system ff ms = (case List.map_filter (system_text ff) ms of [] \<Rightarrow> None | c # _ \<Rightarrow> Some c)"

definition systemFromRequest :: "(rat \<Rightarrow> string) \<Rightarrow> TurnRequest \<Rightarrow> string" where
  "systemFromRequest ff req =
     (case (case mget (tq_chat_request req) ''messages'' of GArr ms \<Rightarrow> first_system ff ms | _ \<Rightarrow> None) of
        Some c \<Rightarrow> c
      | None \<Rightarrow> (if trim_space (tq_system_prompt req) \<noteq> [] then tq_system_prompt req else defaultSystemPrompt))"

definition mapsFromAny :: "gval list \<Rightarrow> gmap list" where
  "mapsFromAny xs = List.map_filter (\<lambda>x. case x of GObj m \<Rightarrow> Some m | _ \<Rightarrow> None) xs"

definition toolsFromRequest :: "TurnRequest \<Rightarrow> gmap list" where
  "toolsFromRequest req = (if tq_tools req \<noteq> [] then tq_tools req
     else (case mget (tq_chat_request req) ''tools'' of
         GArr (t # ts) \<Rightarrow> mapsFromAny (t # ts)
       | _ \<Rightarrow> (case mget (tq_chat_request req) ''verbs'' of GArr vs \<Rightarrow> mapsFromAny vs | _ \<Rightarrow> [])))"

definition priorUserTexts :: "(rat \<Rightarrow> string) \<Rightarrow> gmap option list \<Rightarrow> string list" where
  "priorUserTexts ff ms = List.map_filter (\<lambda>pm. case pm of None \<Rightarrow> None
     | Some m \<Rightarrow> (if app_str ff (mget m ''role'') = ''user'' then Some (app_str ff (mget m ''content'')) else None)) ms"

definition appendJailbreakHitNote :: "string list \<Rightarrow> MiddlewareContext \<Rightarrow> string list" where
  "appendJailbreakHitNote notes c =
     (let hits = asStringSlice (map_of (mc_data c) ''jailbreak_hits'');
          note = ''jailbreak.hits='' @ join_with '','' hits
      in if hits = [] \<or> note \<in> set notes then notes else notes @ [note])"

definition tool_name :: "(rat \<Rightarrow> string) \<Rightarrow> gmap \<Rightarrow> string" where
  "tool_name ff t = app_str ff (mget (case mget t ''function'' of GObj fn \<Rightarrow> fn | _ \<Rightarrow> t) ''name'')"

definition catalogToolNames :: "(rat \<Rightarrow> string) \<Rightarrow> gmap list \<Rightarrow> bool amap" where
  "catalogToolNames ff tools =
     foldl (\<lambda>out t. let n = tool_name ff t in if n \<noteq> [] then amap_put n True out else out) [] tools"

definition syntheticPipelineCall :: "codec \<Rightarrow> string \<Rightarrow> gmap \<Rightarrow> gmap" where
  "syntheticPipelineCall codec rid args =
     [(''id'', GStr rid), (''type'', GStr ''function''),
      (''function'', GObj [(''name'', GStr ''pipeline''), (''arguments'', GStr (mustJSON codec (GObj args)))])]"

definition recentAssistantHas :: "(rat \<Rightarrow> string) \<Rightarrow> gmap list \<Rightarrow> string \<Rightarrow> bool" where
  "recentAssistantHas ff messages content = list_ex (\<lambda>m. app_str ff (mget m ''role'') = ''assistant'' \<and>
     app_str ff (mget m ''content'') = content) (drop (length messages - 3) messages)"

definition systemPromptOf :: "(rat \<Rightarrow> string) \<Rightarrow> gmap list \<Rightarrow> string \<Rightarrow> gmap \<Rightarrow> string" where
  "systemPromptOf ff messages systemPrompt catalog =
     (if trim_space systemPrompt \<noteq> [] then systemPrompt
      else if trim_space (asString (mget catalog ''system_message'')) \<noteq> [] then asString (mget catalog ''system_message'')
      else (case first_system ff (map GObj messages) of Some c \<Rightarrow> c | None \<Rightarrow> []))"

definition slice_sha :: "(string \<Rightarrow> string) \<Rightarrow> string \<Rightarrow> string \<Rightarrow> string" where
  "slice_sha sha system kind = (let b = SliceBlock system kind in if b \<noteq> [] then SHA12 sha b else [])"

definition injectSliceSha12s :: "(string \<Rightarrow> string) \<Rightarrow> string \<Rightarrow> string \<times> string" where
  "injectSliceSha12s sha system = (slice_sha sha system ''brief'', slice_sha sha system ''mini'')"

definition flag_sha :: "(string \<Rightarrow> string) \<Rightarrow> bool \<Rightarrow> string \<Rightarrow> string \<Rightarrow> gval" where
  "flag_sha sha present system kind =
     (if present \<and> SliceBlock system kind \<noteq> [] then GStr (SHA12 sha (SliceBlock system kind)) else GNil)"

definition catalogFlagsOf :: "(string \<Rightarrow> string) \<Rightarrow> string \<Rightarrow> gmap" where
  "catalogFlagsOf sha system =
     (let hasScope = str_contains system ''## SCOPE BRIEF''; hasMini = str_contains system ''## MINI-SCHEMA'' in
      [(''has_scope_brief'', GBool hasScope), (''has_mini_schema'', GBool hasMini),
       (''brief_sha12'', flag_sha sha hasScope system ''brief''), (''mini_sha12'', flag_sha sha hasMini system ''mini'')])"

definition collectReqIDs :: "(rat \<Rightarrow> string) \<Rightarrow> gmap list \<Rightarrow> string list" where
  "collectReqIDs ff hops = foldl (\<lambda>out h. let rid = app_str ff (mget h ''req_id'') in
     if rid = [] \<or> rid \<in> set out then out else out @ [rid]) [] hops"

definition llmErrAsDomain :: "call_error \<Rightarrow> zerror" where
  "llmErrAsDomain e = (case ctxErrAsDomain e of
     Some de \<Rightarrow> de
   | None \<Rightarrow> NewLLM CodeAgentLLMRequestFailed agentTurnComponent
       [WithMessage (call_error_text e), WithCause (call_error_text e)])"

definition debugGatherOn :: "DebugPolicy \<Rightarrow> string \<Rightarrow> bool" where
  "debugGatherOn policy stampUser \<longleftrightarrow> dbg_detective_briefing policy \<or> ResolveStampUser stampUser = HubUser"

definition sum_field :: "string \<Rightarrow> gmap list \<Rightarrow> int" where
  "sum_field k hops = foldl (\<lambda>n h. case map_of h k of None \<Rightarrow> n | Some v \<Rightarrow> wrap64 (n + tokenAsInt v)) 0 hops"

definition hangTurnTelemetry :: "gmap \<Rightarrow> gmap \<Rightarrow> gmap list \<Rightarrow> gmap" where
  "hangTurnTelemetry attrs tokens hops =
     (let a1 = (if mget tokens ''ok'' = GBool True
            then amap_put ''tokens.output'' (GInt (tokenAsInt (mget tokens ''completion'')))
                   (amap_put ''tokens.input'' (GInt (tokenAsInt (mget tokens ''prompt''))) attrs) else attrs)
      in if list_ex (\<lambda>h. map_of h ''bytes.in'' \<noteq> None \<or> map_of h ''bytes.out'' \<noteq> None) hops
         then amap_put ''bytes.out'' (GInt (sum_field ''bytes.out'' hops))
                (amap_put ''bytes.in'' (GInt (sum_field ''bytes.in'' hops)) a1)
         else a1)"

section \<open>Finishing a turn\<close>

text \<open>What stays the same from the start of the turn, and what a finish is given.\<close>

record 's turn_fixed =
  fx_t0 :: 's
  fx_turn_id :: string
  fx_chat_id :: string
  fx_trace_id :: string
  fx_settings :: ClientSettings
  fx_stamp :: gmap
  fx_version :: string
  fx_zeus_url :: string
  fx_floor :: string
  fx_base_id :: string
  fx_target :: DataTarget
  fx_tools :: "gmap list"
  fx_chat_request :: gmap
  fx_hub_base_url :: string
  fx_detective_on :: bool
  fx_env :: "string amap"
  fx_session :: "SessionHandle option"

record turnFinish =
  tf_answer :: string
  tf_status :: TurnStatus
  tf_messages :: "gmap list"
  tf_notes :: "string list"
  tf_rounds :: int
  tf_hops :: "gmap list"
  tf_steps :: "gmap list"
  tf_layer :: "LayerA option"
  tf_decision :: "PolicyDecision option"
  tf_err :: "zerror option"
  tf_ai_exit :: string
  tf_layer_via :: string
  tf_tool_trail :: "gmap list"
  tf_hooks_score :: rat

definition je :: "('s, 'z) turn_env_scheme \<Rightarrow> string \<Rightarrow> nat \<Rightarrow> string \<Rightarrow> gmap \<Rightarrow> 's \<Rightarrow> 's" where
  "je env turnID jeSeq etype data s = te_append env
     \<lparr>jv_event_id = etype @ ''_'' @ int_digits (int jeSeq), jv_ts_ms = te_now_ms env s, jv_type = etype,
      jv_component = agentTurnComponent, jv_turn_id = turnID, jv_span_id = [], jv_parent_span_id = [],
      jv_data = data, jv_payload_refs = []\<rparr> s"

definition structured_of :: "turnFinish \<Rightarrow> gmap \<Rightarrow> StructuredResult option" where
  "structured_of f layerMap = (case tf_layer f of
     None \<Rightarrow> None
   | Some l \<Rightarrow> Some (case tf_decision f of
       Some d \<Rightarrow> \<lparr>sr_layer_a = layerMap, sr_policy = pd_policy d, sr_flags = pd_flags d, sr_ui = PolicyDecision_UI d l,
         sr_artifacts = PolicyDecision_Artifacts d l, sr_policy_reason = pd_reason d\<rparr>
     | None \<Rightarrow> \<lparr>sr_layer_a = layerMap, sr_policy = [], sr_flags = [], sr_ui = [], sr_artifacts = [], sr_policy_reason = []\<rparr>))"

definition layer_map :: "turnFinish \<Rightarrow> gmap" where
  "layer_map f = (case tf_layer f of None \<Rightarrow> []
     | Some l \<Rightarrow> CompactLayerA l (if tf_layer_via f = [] then ''client_terminate'' else tf_layer_via f))"

text \<open>A marker of admin-only fields in the answer: the summary replaces it, or the text is cut there.\<close>

definition wish :: string where "wish = ''wish_i_knew''"

definition scrub_answer :: "LayerA option \<Rightarrow> string \<Rightarrow> string" where
  "scrub_answer layer answer = (if str_contains answer wish
     then (case layer of
         Some l \<Rightarrow> (if la_summary l \<noteq> [] then la_summary l
           else (case str_index answer wish of Some i \<Rightarrow> trim_space (take i answer) | None \<Rightarrow> answer))
       | None \<Rightarrow> (case str_index answer wish of Some i \<Rightarrow> trim_space (take i answer) | None \<Rightarrow> answer))
     else answer)"

definition scope_text :: "DataTarget \<Rightarrow> string" where
  "scope_text t = (if dt_bucket t \<noteq> [] then dt_bucket t @ ''/'' @ dt_scope t else [])"

definition catalog_block :: "('s, 'z) turn_env_scheme \<Rightarrow> 's turn_fixed \<Rightarrow> gmap list \<Rightarrow> gmap" where
  "catalog_block env fx messages =
     (let system = (case List.find (\<lambda>m. app_str (te_ff env) (mget m ''role'') = ''system'' \<and>
              asStringOk (mget m ''content'') \<noteq> None) messages of Some m \<Rightarrow> asString (mget m ''content'') | None \<Rightarrow> []);
          fl = catalogFlagsOf (te_sha env) system
      in [(''has_scope_brief'', mget fl ''has_scope_brief''), (''has_mini_schema'', mget fl ''has_mini_schema''),
          (''tools_count'', GInt (int (length (fx_tools fx)))),
          (''source'', GStr (if fx_tools fx \<noteq> [] then ''tools''
             else if mget (fx_chat_request fx) ''verbs'' \<noteq> GNil then ''verbs'' else ''none'')),
          (''brief_sha12'', mget fl ''brief_sha12''), (''mini_sha12'', mget fl ''mini_sha12''),
          (''base_id'', nilIfEmpty (fx_base_id fx)), (''client_floor'', GStr (fx_floor fx))])"

definition target_map :: "'s turn_fixed \<Rightarrow> gmap" where
  "target_map fx = (let t = fx_target fx in if dt_bucket t \<noteq> [] \<or> dt_scope t \<noteq> []
     then [(''bucket'', GStr (dt_bucket t)), (''scope'', GStr (dt_scope t)), (''collection'', GStr (dt_collection t)),
           (''mode'', GStr (stg_mode (fx_settings fx)))] else [])"

definition public_trace ::
  "'s turn_fixed \<Rightarrow> turnFinish \<Rightarrow> string \<Rightarrow> string \<Rightarrow> string \<Rightarrow> string list \<Rightarrow> string \<Rightarrow> gmap \<Rightarrow> gmap \<Rightarrow> gmap" where
  "public_trace fx f answer sid cst reqIDs pref tokens stampMap = BuildPublicTrace
     \<lparr>pt_turn_id = fx_turn_id fx, pt_answer = answer, pt_status = status_text (tf_status f), pt_rounds = tf_rounds f,
      pt_notes = tf_notes f, pt_hops = (if fx_detective_on fx then tf_hops f else []),
      pt_ai_process_result = stg_ai_process_result (fx_settings fx), pt_ai_exit = tf_ai_exit f,
      pt_layer_a = layer_map f, pt_policy = (case tf_decision f of None \<Rightarrow> [] | Some d \<Rightarrow> pd_policy d),
      pt_flags = (case tf_decision f of None \<Rightarrow> [] | Some d \<Rightarrow> pd_flags d),
      pt_steps = (if fx_detective_on fx then tf_steps f else []), pt_tokens = Some tokens,
      pt_session = (if sid \<noteq> [] \<or> reqIDs \<noteq> [] then [(''id'', nilIfEmpty sid), (''req_ids'', strs reqIDs),
        (''preferred_req_id'', nilIfEmpty pref), (''contract_status'', nilIfEmpty cst)] else []),
      pt_inject = [], pt_stamp = stampMap, pt_detective = []\<rparr>"

definition error_details ::
  "'s turn_fixed \<Rightarrow> string \<Rightarrow> string \<Rightarrow> string list \<Rightarrow> zerror \<Rightarrow> zerror" where
  "error_details fx sid pref reqIDs e = e\<lparr>ze_details :=
     (let d1 = (if sid \<noteq> [] then amap_put ''session.id'' (GStr sid) (ze_details e) else ze_details e);
          d2 = (if pref \<noteq> [] then amap_put ''req_id'' (GStr pref) d1 else d1);
          d3 = (if reqIDs \<noteq> [] then amap_put ''req_ids'' (strs reqIDs) d2 else d2);
          d4 = (if fx_zeus_url fx \<noteq> [] then amap_put ''zeus.url'' (GStr (fx_zeus_url fx)) d3 else d3)
      in if dt_bucket (fx_target fx) \<noteq> [] then amap_put ''scope'' (GStr (scope_text (fx_target fx))) d4 else d4)\<rparr>"

definition finish_attrs ::
  "'s turn_fixed \<Rightarrow> turnFinish \<Rightarrow> string \<Rightarrow> string \<Rightarrow> int \<Rightarrow> string list \<Rightarrow> string \<Rightarrow> gmap \<Rightarrow> gmap" where
  "finish_attrs fx f sid chat totalMS reqIDs pref tokens = hangTurnTelemetry
     ([(''session.id'', GStr sid), (''chat.id'', GStr chat), (''turn.id'', GStr (fx_turn_id fx)),
       (''rounds'', GInt (tf_rounds f)), (''duration_ms'', GInt totalMS), (''zeus.url'', GStr (fx_zeus_url fx)),
       (''scope'', GStr (scope_text (fx_target fx))), (''trace_id'', GStr (fx_trace_id fx)),
       (''mode'', GStr (stg_mode (fx_settings fx)))] @
      (if reqIDs \<noteq> [] then [(''req_ids'', strs reqIDs), (''req_id'', GStr (if pref = [] then last reqIDs else pref))] else []))
     tokens (tf_hops f)"

definition emit_finish :: "('s, 'z) turn_env_scheme \<Rightarrow> TurnStatus \<Rightarrow> zerror option \<Rightarrow> gmap \<Rightarrow> 's \<Rightarrow> 's" where
  "emit_finish env status err attrs s = (case err of
     None \<Rightarrow> te_emit env ''info'' ''zeus_client.turn.finished''
       (amap_put ''result'' (GStr (if status = TurnMaxRounds then ''forced_return'' else ''ok'')) attrs) s
   | Some e \<Rightarrow> te_emit env ''error'' ''zeus_client.turn.failed''
       (amap_put ''error.message'' (GStr (ze_message e)) (amap_put ''error.type'' (GStr (code_string (ze_code e)))
         (amap_put ''result'' (GStr ''error'') attrs))) s)"

definition finishTurn ::
  "('s, 'z) turn_env_scheme \<Rightarrow> 's turn_fixed \<Rightarrow> turnFinish \<Rightarrow> 's \<Rightarrow> TurnResult \<times> 's" where
  "finishTurn env fx f s0 =
     (let layerMap = layer_map f; reqIDs = collectReqIDs (te_ff env) (tf_hops f);
          pref0 = SelectPrimaryReqID (te_ff env) (map GObj (tf_hops f));
          sid = (case fx_session fx of None \<Rightarrow> [] | Some h \<Rightarrow> sh_session_id h);
          cst = (case fx_session fx of None \<Rightarrow> [] | Some h \<Rightarrow> sh_contract_status h);
          chat = (case fx_session fx of None \<Rightarrow> fx_chat_id fx
            | Some h \<Rightarrow> (if sh_chat_id h \<noteq> [] then sh_chat_id h else fx_chat_id fx));
          stamp0 = cloneDoc (te_codec env) (fx_stamp fx);
          stampMap = (if sid \<noteq> [] \<and> map_of stamp0 ''session_id'' = None
            then amap_put ''session_id'' (GStr sid) stamp0 else stamp0);
          answer = scrub_answer (tf_layer f) (tf_answer f);
          tokens = SumProviderTokens (tf_steps f) [];
          public = public_trace fx f answer sid cst reqIDs pref0 tokens stampMap;
          totalMS = te_elapsed_ms env (fx_t0 fx) s0;
          det = (if fx_detective_on fx then te_detective env
            \<lparr>ba_env = fx_env fx, ba_turn_id = fx_turn_id fx, ba_chat_id = chat, ba_answer = answer,
             ba_status = status_text (tf_status f), ba_rounds = tf_rounds f, ba_hops = tf_hops f, ba_notes = tf_notes f,
             ba_messages = tf_messages f, ba_catalog = fx_chat_request fx, ba_tools = fx_tools fx, ba_layer_a = layerMap,
             ba_total_ms = totalMS, ba_hub_base_url = fx_hub_base_url fx, ba_session_id = sid, ba_target = target_map fx,
             ba_contract_status = cst, ba_ai_process_result = stg_ai_process_result (fx_settings fx),
             ba_ai_exit = tf_ai_exit f, ba_public_trace = public, ba_zeus_url = fx_zeus_url fx,
             ba_client_version = fx_version fx, ba_export_ref = fx_turn_id fx\<rparr> else None);
          public1 = (case det of None \<Rightarrow> public
            | Some d \<Rightarrow> amap_put ''detective'' (GObj d) (cloneDoc (te_codec env) public));
          pref = (case det of None \<Rightarrow> pref0
            | Some d \<Rightarrow> (if pref0 = [] then (case mget d ''overview'' of GObj ov \<Rightarrow> app_str (te_ff env) (mget ov ''preferred_req_id'')
                | _ \<Rightarrow> pref0) else pref0));
          evCount = te_len env s0;
          s1 = je env (fx_turn_id fx) 2 EventTurnCompleted
            [(''status'', GStr (status_text (tf_status f))), (''rounds'', GInt (tf_rounds f)),
             (''ai_process_result_exit'', GStr (tf_ai_exit f)), (''total_ms'', GInt totalMS),
             (''answer_preview'', GStr (clipStr answer 240)), (''detective'', GBool (det \<noteq> None)),
             (''req_ids'', strs reqIDs), (''trace_id'', GStr (fx_trace_id fx))] s0;
          err = map_option (error_details fx sid pref reqIDs) (tf_err f);
          s2 = emit_finish env (tf_status f) err (finish_attrs fx f sid chat totalMS reqIDs pref tokens) s1
      in (\<lparr>tr_answer = answer, tr_status = tf_status f, tr_structured = structured_of f layerMap,
           tr_session = fx_session fx,
           tr_debug = \<lparr>db_turn_id = fx_turn_id fx, db_chat_id = chat, db_session_id = sid, db_notes = tf_notes f,
             db_rounds = tf_rounds f, db_ai_process_result = stg_ai_process_result (fx_settings fx),
             db_ai_exit = tf_ai_exit f, db_public_trace = public1, db_hops = tf_hops f, db_event_count = evCount,
             db_hooks_score = (case tf_decision f of None \<Rightarrow> tf_hooks_score f | Some d \<Rightarrow> pd_hooks_score d),
             db_preferred_req_id = pref, db_req_ids = reqIDs, db_zeus_url = fx_zeus_url fx,
             db_client_version = fx_version fx, db_target = target_map fx, db_catalog = catalog_block env fx (tf_messages f),
             db_contract_status = cst, db_tokens = tokens, db_stamp = stampMap, db_trace_id = fx_trace_id fx,
             db_detective = det, db_export_ref = fx_turn_id fx, db_journal_schema = JournalSchemaVersion\<rparr>,
           tr_err = err, tr_messages = tf_messages f, tr_layer_a = tf_layer f, tr_policy = tf_decision f,
           tr_tool_trail = tf_tool_trail f\<rparr>, s2))"

section \<open>Rounds\<close>

record 's turn =
  tn_messages :: "gmap list"
  tn_notes :: "string list"
  tn_hops :: "gmap list"
  tn_steps :: "gmap list"
  tn_mw :: MiddlewareContext
  tn_world :: 's
  tn_calls :: "port_call list"
  tn_answer :: string
  tn_exit :: string
  tn_return_args :: "gmap option"
  tn_via :: string
  tn_rounds :: int
  tn_trail :: "gmap list"

text \<open>How a round ends: the next round, the end of the loop, an error of the context, an error of the
  model (which finishes the turn at once), a panic.\<close>

datatype 's round_end = Again "'s turn" | Done "'s turn" | Stopped call_error "'s turn" | LlmFailed zerror "'s turn"
  | Panicked string "'s turn"

fun turn_of :: "'s round_end \<Rightarrow> 's turn" where
  "turn_of (Again t) = t"
| "turn_of (Done t) = t"
| "turn_of (Stopped e t) = t"
| "turn_of (LlmFailed e t) = t"
| "turn_of (Panicked v t) = t"

record 's round_args =
  ra_req :: TurnRequest
  ra_settings :: ClientSettings
  ra_max_rounds :: int
  ra_tools :: "gmap list"
  ra_chain :: MiddlewareChain
  ra_llm :: "'s llm_port"
  ra_zeus :: "'s zeus_port option"
  ra_rewind :: bool
  ra_chat_id :: string
  ra_turn_id :: string
  ra_chat_session_id :: string
  ra_brief_sha12 :: string
  ra_mini_sha12 :: string

definition add_note :: "string \<Rightarrow> 's turn \<Rightarrow> 's turn" where
  "add_note n t = t\<lparr>tn_notes := tn_notes t @ [n]\<rparr>"

definition add_message :: "gmap \<Rightarrow> 's turn \<Rightarrow> 's turn" where
  "add_message m t = t\<lparr>tn_messages := tn_messages t @ [m]\<rparr>"

definition say :: "string \<Rightarrow> string \<Rightarrow> gmap" where
  "say role content = [(''role'', GStr role), (''content'', GStr content)]"

definition drain_notes :: "'s turn \<Rightarrow> 's turn" where
  "drain_notes t = (let (ns, c) = takeNotes (tn_mw t) in t\<lparr>tn_notes := tn_notes t @ ns, tn_mw := c\<rparr>)"

definition forceReturnText :: string where
  "forceReturnText = ''SYSTEM: Round budget nearly exhausted. '' @
     ''Terminate now with the return tool (required four fields).''"

definition force_return :: "'s round_args \<Rightarrow> int \<Rightarrow> 's turn \<Rightarrow> 's turn" where
  "force_return ra rnd t =
     (let remaining = ra_max_rounds ra - rnd; left = stg_force_return_rounds_left (ra_settings ra) in
      if remaining \<le> left \<and> 1 < rnd
      then add_message (say ''user'' forceReturnText)
             (add_note (''force_return: remaining='' @ int_digits remaining @ '' <= '' @ int_digits left) t)
      else t)"

definition inject_trail :: "(rat \<Rightarrow> string) \<Rightarrow> 's round_args \<Rightarrow> 's turn \<Rightarrow> 's turn" where
  "inject_trail ff ra t =
     (let cfg = ra_settings ra in
      if tn_trail t \<noteq> [] \<and> stg_tool_trail_enabled cfg \<and> stg_tool_trail_inject cfg
      then t\<lparr>tn_messages := mapsFromAny (UpsertTrailOnSystem (map GObj (tn_messages t))
             (RenderTrailInject ff (tn_trail t) (stg_tool_trail_max_entries cfg)))\<rparr>
      else t)"

definition open_round :: "('s, 'z) turn_env_scheme \<Rightarrow> 's round_args \<Rightarrow> int \<Rightarrow> 's turn \<Rightarrow> 's turn" where
  "open_round env ra rnd t = inject_trail (te_ff env) ra
     (force_return ra rnd (t\<lparr>tn_rounds := rnd, tn_mw := (tn_mw t)\<lparr>mc_round := rnd\<rparr>\<rparr>))"

definition llm_request :: "'s round_args \<Rightarrow> 's turn \<Rightarrow> LlmRequest" where
  "llm_request ra t = \<lparr>lq_messages = tn_messages t, lq_model = tq_model (ra_req ra), lq_tools = ra_tools ra,
     lq_temperature = Some 0, lq_max_tokens = None, lq_conv_id = ra_chat_id ra\<rparr>"

definition calls_value :: "gmap option list \<Rightarrow> gval" where
  "calls_value tcs = GArr (map (\<lambda>tc. case tc of None \<Rightarrow> GNil | Some m \<Rightarrow> GObj m) tcs)"

definition response_map :: "LlmResponse \<Rightarrow> gmap" where
  "response_map r = [(''content'', GStr (lr_content r)), (''tool_calls'', calls_value (lr_tool_calls r)),
     (''usage'', GObj (lr_usage r))]"

text \<open>A response without tool calls may still hold a pipeline envelope in its text; \<open>None\<close> is the panic
  of the envelope parser.\<close>

definition recovered_calls ::
  "('s, 'z) turn_env_scheme \<Rightarrow> 's round_args \<Rightarrow> LlmResponse \<Rightarrow> 's turn \<Rightarrow> (gmap option list \<times> 's turn) option" where
  "recovered_calls env ra r t = (if lr_tool_calls r \<noteq> [] then Some (lr_tool_calls r, t)
     else (case ParsePipelineEnvelope (decode_json (te_codec env)) (lr_content r) of
         None \<Rightarrow> None
       | Some None \<Rightarrow> Some ([], t)
       | Some (Some envlp) \<Rightarrow>
           (if ra_zeus ra \<noteq> None \<and> map_of (catalogToolNames (te_ff env) (ra_tools ra)) ''pipeline'' = Some True \<and>
               \<not> boolData (tn_mw t) ''hooks_must_refuse''
            then (let (rid, s1) = te_req_id env (tn_world t) in
              Some ([Some (syntheticPipelineCall (te_codec env) rid envlp)],
                add_note ''recovered pipeline envelope from model content as pipeline tool call'' (t\<lparr>tn_world := s1\<rparr>)))
            else Some ([], t))))"

definition llm_step_map :: "(rat \<Rightarrow> string) \<Rightarrow> int \<Rightarrow> gmap option list \<Rightarrow> gmap \<Rightarrow> gmap" where
  "llm_step_map ff rnd tcs usage = [(''round'', GInt rnd), (''type'', GStr ''llm''),
     (''tool_calls'', GArr (map (\<lambda>tc. case tc of None \<Rightarrow> GNil | Some m \<Rightarrow> toolCallName ff m) tcs)), (''usage'', GObj usage)]"

definition answer_direct :: "string \<Rightarrow> 's turn \<Rightarrow> 's turn" where
  "answer_direct content t =
     (let a = (if trim_space content = [] then ''(model returned no content)'' else trim_space content) in
      (add_message (say ''assistant'' a) t)\<lparr>tn_answer := a, tn_exit := ''direct''\<rparr>)"

definition assistant_message :: "LlmResponse \<Rightarrow> gmap option list \<Rightarrow> gmap" where
  "assistant_message r tcs = [(''role'', GStr ''assistant''),
     (''content'', if trim_space (lr_content r) \<noteq> [] then GStr (lr_content r) else GNil), (''tool_calls'', calls_value tcs)]"

definition tool_opts :: "'s round_args \<Rightarrow> int \<Rightarrow> executeToolOpts" where
  "tool_opts ra rnd = \<lparr>eo_target = tq_target (ra_req ra), eo_mode = stg_mode (ra_settings ra), eo_round = rnd,
     eo_chat_id = ra_chat_id ra, eo_turn_id = ra_turn_id ra, eo_force_trace = stg_force_trace (ra_settings ra),
     eo_rewind = ra_rewind ra, eo_chat_session_id = ra_chat_session_id ra, eo_brief_sha12 = ra_brief_sha12 ra,
     eo_mini_sha12 = ra_mini_sha12 ra\<rparr>"

definition exec_of :: "'s turn \<Rightarrow> 's exec_state" where
  "exec_of t = \<lparr>xs_out = emptyOutcome, xs_final = [], xs_return_seen = False, xs_messages = tn_messages t,
     xs_notes = tn_notes t, xs_mw = tn_mw t, xs_world = tn_world t, xs_calls = tn_calls t\<rparr>"

definition with_exec :: "'s turn \<Rightarrow> 's exec_state \<Rightarrow> 's turn" where
  "with_exec t st = t\<lparr>tn_messages := xs_messages st, tn_notes := xs_notes st, tn_mw := xs_mw st,
     tn_world := xs_world st, tn_calls := xs_calls st, tn_hops := tn_hops t @ to_hops (xs_out st),
     tn_steps := tn_steps t @ to_steps (xs_out st)\<rparr>"

fun extend_trail :: "(rat \<Rightarrow> string) \<Rightarrow> gmap list \<Rightarrow> gmap list \<Rightarrow> gmap list" where
  "extend_trail ff trail [] = trail"
| "extend_trail ff trail (h # hs) =
     (let is_empty = (mget h ''ok'' = GBool True \<and> isEmptyJSONValue (mget h ''snippet'')) in
      extend_trail ff (trail @ [TrailEntryFromHop ff h (int (length trail) + 1) is_empty]) hs)"

definition insightHop ::
  "'s round_args \<Rightarrow> int \<Rightarrow> 's turn \<Rightarrow> (string \<times> string list) \<times> 's turn" where
  "insightHop ra rnd t0 =
     (let t = add_message (say ''user'' InsightAfterZeusInstruction) t0;
          note0 = ''force_final: ai_process_result_insight'';
          rq = (llm_request ra t)\<lparr>lq_tools := []\<rparr>;
          (ans, s1) = ra_llm ra rq (tn_world t);
          t1 = t\<lparr>tn_world := s1, tn_calls := tn_calls t @ [LlmCall rq]\<rparr>
      in case ans of
           Inl e \<Rightarrow> (([], [note0, ''insight_failed: '' @ code_string (ze_code (llmErrAsDomain e))]), t1)
         | Inr r \<Rightarrow> (let content = trim_space (lr_content r) in
             if content \<noteq> []
             then ((content, [note0]), (add_message (say ''assistant'' content) t1)\<lparr>tn_steps := tn_steps t1 @
               [[(''round'', GInt rnd), (''type'', GStr ''force_final''), (''cause'', GStr ''ai_process_result_insight''),
                 (''content_len'', GInt (int (length content))), (''usage'', GObj (lr_usage r))]]\<rparr>)
             else ((content, [note0, ''force_final_empty: ai_process_result_insight'']), t1)))"

definition say_once :: "(rat \<Rightarrow> string) \<Rightarrow> string \<Rightarrow> 's turn \<Rightarrow> 's turn" where
  "say_once ff a t = (if recentAssistantHas ff (tn_messages t) a then t else add_message (say ''assistant'' a) t)"

text \<open>After the tools of a round: the turn terminates, ends cheaply, is refused, or goes on.\<close>

definition terminal_end ::
  "('s, 'z) turn_env_scheme \<Rightarrow> 's round_args \<Rightarrow> int \<Rightarrow> string \<Rightarrow> 's turn \<Rightarrow> 's turn" where
  "terminal_end env ra rnd terminal t =
     (if stg_ai_process_result (ra_settings ra)
      then (let ((synth, ns), t1) = insightHop ra rnd t;
                a = (if trim_space synth = [] then terminal else trim_space synth)
            in add_note ''ai_process_result=true after terminating Zeus tool; insight synthesis''
                 (t1\<lparr>tn_notes := tn_notes t1 @ ns, tn_answer := a, tn_exit := ''insight''\<rparr>))
      else add_note ''ai_process_result=false after terminate; cheap terminal envelope''
             ((if terminal \<noteq> [] then say_once (te_ff env) terminal t else t)
                \<lparr>tn_answer := terminal, tn_exit := ''cheap_terminal''\<rparr>))"

definition cheap_end :: "('s, 'z) turn_env_scheme \<Rightarrow> string \<Rightarrow> 's turn \<Rightarrow> 's turn" where
  "cheap_end env candidate t =
     (if boolData (tn_mw t) ''hooks_must_refuse''
      then (add_note ''jailbreak.cheap_path_leak'' t)\<lparr>tn_answer := [], tn_exit := ''hooks_refuse''\<rparr>
      else (let a = (if candidate = [] then CheapFinalStaticAnswer else candidate) in
            add_note ''ai_process_result=false after Zeus data; thin final without second LLM hop''
              ((say_once (te_ff env) a t)\<lparr>tn_answer := a, tn_exit := ''cheap_final'', tn_via := ''cheap_final''\<rparr>)))"

definition after_tools ::
  "('s, 'z) turn_env_scheme \<Rightarrow> 's round_args \<Rightarrow> int \<Rightarrow> ToolRoundOutcome \<Rightarrow> 's turn \<Rightarrow> 's round_end" where
  "after_tools env ra rnd out t0 =
     (let t1 = drain_notes (t0\<lparr>tn_trail := extend_trail (te_ff env) (tn_trail t0) (to_hops out)\<rparr>);
          t2 = t1\<lparr>tn_notes := appendJailbreakHitNote (tn_notes t1) (tn_mw t1),
            tn_return_args := (case to_return_args out of None \<Rightarrow> tn_return_args t1 | Some a \<Rightarrow> Some a),
            tn_via := (if to_terminate_via out = [] then tn_via t1 else to_terminate_via out)\<rparr>
      in if to_return_seen out then Done (terminal_end env ra rnd (trim_space (to_terminal_summary out)) t2)
         else if \<not> stg_ai_process_result (ra_settings ra) \<and> 0 < to_with_payload out
           then Done (cheap_end env (trim_space (to_tool_arg_summary out)) t2)
         else if boolData (tn_mw t2) ''hooks_must_refuse''
           then Done ((add_note ''jailbreak.abort_turn'' t2)\<lparr>tn_exit := ''hooks_refuse''\<rparr>)
         else Again t2)"

definition run_tools ::
  "('s, 'z) turn_env_scheme \<Rightarrow> 's round_args \<Rightarrow> int \<Rightarrow> LlmResponse \<Rightarrow> gmap option list \<Rightarrow> 's turn \<Rightarrow> 's round_end" where
  "run_tools env ra rnd r tcs t0 =
     (let t = add_message (assistant_message r tcs) t0 in
      case ra_zeus ra of
        None \<Rightarrow> Done ((add_note ''zeus port missing; cannot execute tools'' t)
          \<lparr>tn_answer := ''Zeus port not configured for tool calls'', tn_exit := ''error''\<rparr>)
      | Some zeus \<Rightarrow>
          (case executeToolCalls (tool_env.truncate env) zeus (ra_chain ra) (tool_opts ra rnd) tcs (exec_of t) of
             Crash v st \<Rightarrow> Panicked v (with_exec t st)
           | Halt e st \<Rightarrow> Stopped e (with_exec t st)
           | Next st \<Rightarrow> after_tools env ra rnd (xs_out st) (with_exec t st)))"

definition slicePanic :: string where
  "slicePanic = ''runtime error: slice bounds out of range''"

definition model_reply ::
  "('s, 'z) turn_env_scheme \<Rightarrow> 's round_args \<Rightarrow> int \<Rightarrow> LlmResponse \<Rightarrow> 's turn \<Rightarrow> 's round_end" where
  "model_reply env ra rnd r t0 = (case AfterLLM (ra_chain ra) (response_map r) (tn_mw t0) of
     (Some v, c) \<Rightarrow> Panicked v (t0\<lparr>tn_mw := c\<rparr>)
   | (None, c) \<Rightarrow>
       (let t1 = drain_notes (t0\<lparr>tn_mw := c\<rparr>) in
        case recovered_calls env ra r t1 of
          None \<Rightarrow> Panicked slicePanic t1
        | Some (tcs, t2) \<Rightarrow>
            (let t3 = t2\<lparr>tn_steps := tn_steps t2 @ [llm_step_map (te_ff env) rnd tcs (lr_usage r)]\<rparr> in
             if tcs = [] then Done (answer_direct (lr_content r) t3) else run_tools env ra rnd r tcs t3)))"

definition run_round :: "('s, 'z) turn_env_scheme \<Rightarrow> 's round_args \<Rightarrow> int \<Rightarrow> 's turn \<Rightarrow> 's round_end" where
  "run_round env ra rnd t0 = (case ctxErr (te_ctx env (tn_world t0)) of
     Some e \<Rightarrow> Stopped e t0
   | None \<Rightarrow>
       (let t1 = open_round env ra rnd t0 in
        case BeforeLLM (ra_chain ra) (tn_messages t1) (tn_mw t1) of
          (Some v, c) \<Rightarrow> Panicked v (t1\<lparr>tn_mw := c\<rparr>)
        | (None, c) \<Rightarrow>
            (let t2 = drain_notes (t1\<lparr>tn_mw := c\<rparr>); rq = llm_request ra t2;
                 (ans, s1) = ra_llm ra rq (tn_world t2);
                 t3 = t2\<lparr>tn_world := s1, tn_calls := tn_calls t2 @ [LlmCall rq]\<rparr>
             in case ans of
                  Inl e \<Rightarrow> (let de = llmErrAsDomain e; code = code_string (ze_code de) in
                    LlmFailed de ((add_note (''llm_error: '' @ code) t3)\<lparr>tn_steps := tn_steps t3 @
                      [[(''round'', GInt rnd), (''type'', GStr ''llm_error''), (''code'', GStr code)]]\<rparr>))
                | Inr r \<Rightarrow> model_reply env ra rnd r t3)))"

fun run_rounds :: "('s, 'z) turn_env_scheme \<Rightarrow> 's round_args \<Rightarrow> int list \<Rightarrow> 's turn \<Rightarrow> 's round_end" where
  "run_rounds env ra [] t = Again t"
| "run_rounds env ra (rnd # rnds) t = (case run_round env ra rnd t of
     Again t1 \<Rightarrow> run_rounds env ra rnds t1
   | r \<Rightarrow> r)"

definition run_loop :: "('s, 'z) turn_env_scheme \<Rightarrow> 's round_args \<Rightarrow> 's turn \<Rightarrow> 's round_end" where
  "run_loop env ra t = (case run_rounds env ra [1..ra_max_rounds ra] t of
     Again t1 \<Rightarrow> Done ((add_note ''max_rounds exceeded'' t1)
       \<lparr>tn_answer := ''Ran out of tool rounds before the model produced a final answer.'', tn_exit := ''max_rounds''\<rparr>)
   | r \<Rightarrow> r)"

section \<open>The policy on the answer\<close>

definition parse_layer :: "('s, 'z) turn_env_scheme \<Rightarrow> ClientSettings \<Rightarrow> gmap option \<Rightarrow> gmap option \<Rightarrow> LayerA option" where
  "parse_layer env cfg schema args = map_option (\<lambda>a. ApplyPackSchema (te_ff env)
     (ParseLayerA (GObj a) \<lparr>po_rule_ids = map fst (stg_rules cfg), po_output_request = copyMapAny (stg_output_request cfg),
        po_on_error = stg_app_output_on_error cfg\<rparr>) schema) args"

text \<open>The answer before the policy; \<open>None\<close> is a panic of the text recovery.\<close>

definition pre_policy :: "('s, 'z) turn_env_scheme \<Rightarrow> LayerA option \<Rightarrow> string \<Rightarrow> string option" where
  "pre_policy env layer answer = (let um = decode_json (te_codec env) in
     case PeelLayerASummary um answer of
       Some peeled \<Rightarrow> Some peeled
     | None \<Rightarrow> UserFacingAnswer um answer [] (case layer of None \<Rightarrow> [] | Some l \<Rightarrow> la_summary l))"

definition refused_layer :: LayerA where
  "refused_layer = emptyLayerA\<lparr>la_errors := [''hooks_must_refuse'']\<rparr>"

definition decide :: "ClientSettings \<Rightarrow> rat \<Rightarrow> bool \<Rightarrow> LayerA \<Rightarrow> PolicyDecision" where
  "decide cfg score refuse l = DecidePolicy l
     \<lparr>dp_settings = \<lparr>ps_messages = stg_messages cfg, ps_sticky_flags = stg_sticky_flags cfg,
        ps_soft_require = stg_soft_require_policy_action cfg\<rparr>,
      dp_hooks_score = score, dp_hooks_must_refuse = refuse, dp_brand_inject = (stg_company_context cfg \<noteq> [])\<rparr>"

definition final_answer :: "LayerA option \<Rightarrow> PolicyDecision option \<Rightarrow> string \<Rightarrow> string" where
  "final_answer layer decision pre =
     (let a = (case decision of None \<Rightarrow> pre
        | Some d \<Rightarrow> (if pd_forced d \<and> (pd_policy d = PolicyRefuse \<or> pd_policy d = PolicyError) \<or> trim_space pre = []
            then (if pd_ui_text d \<noteq> [] then pd_ui_text d else pre)
            else if pd_policy d = PolicyClarify \<and> pd_ui_text d \<noteq> [] then pd_ui_text d else pre))
      in case layer of Some l \<Rightarrow> (if str_contains a wish \<and> la_summary l \<noteq> [] then la_summary l else a) | None \<Rightarrow> a)"

definition final_status :: "string \<Rightarrow> PolicyDecision option \<Rightarrow> TurnStatus" where
  "final_status exit decision = (if exit = ''max_rounds'' then TurnMaxRounds
     else (case decision of None \<Rightarrow> TurnOK
       | Some d \<Rightarrow> (if pd_policy d = PolicyRefuse then TurnRefused else if pd_policy d = PolicyClarify then TurnClarify
           else if pd_policy d = PolicyError then TurnError else TurnOK)))"

section \<open>The turn\<close>

definition finish_of :: "'s turn \<Rightarrow> turnFinish" where
  "finish_of t = \<lparr>tf_answer = tn_answer t, tf_status = TurnError, tf_messages = tn_messages t, tf_notes = tn_notes t,
     tf_rounds = tn_rounds t, tf_hops = tn_hops t, tf_steps = tn_steps t, tf_layer = None, tf_decision = None,
     tf_err = None, tf_ai_exit = [], tf_layer_via = [], tf_tool_trail = [], tf_hooks_score = 0\<rparr>"

datatype 's turn_end = Returned TurnResult 's "port_call list" | TurnPanic string "port_call list"

fun calls_of :: "'s turn_end \<Rightarrow> port_call list" where
  "calls_of (Returned r s cs) = cs"
| "calls_of (TurnPanic v cs) = cs"

definition fail_turn :: "('s, 'z) turn_env_scheme \<Rightarrow> 's turn_fixed \<Rightarrow> zerror option \<Rightarrow> 's turn \<Rightarrow> 's turn_end" where
  "fail_turn env fx e t = (let (r, s) = finishTurn env fx ((finish_of t)\<lparr>tf_err := e\<rparr>) (tn_world t) in
     Returned r s (tn_calls t))"

text \<open>The hooks score the answer; the policy is decided on the payload, or on an empty one when the hooks
  refuse without one.\<close>

definition judge ::
  "('s, 'z) turn_env_scheme \<Rightarrow> ClientSettings \<Rightarrow> LayerA option \<Rightarrow> string \<Rightarrow> MiddlewareContext \<Rightarrow>
   MiddlewareContext \<times> LayerA option \<times> PolicyDecision option" where
  "judge env cfg layer0 pre c =
     (let c1 = snd (InspectJailbreak env (GStr pre) ''answer'' c); refuse = boolData c1 ''hooks_must_refuse'';
          layer = (if refuse \<and> layer0 = None then Some refused_layer else layer0)
      in (c1, layer, map_option (decide cfg (floatData env c1 ''hooks_jailbreak_score'') refuse) layer))"

definition emit_policy :: "('s, 'z) turn_env_scheme \<Rightarrow> PolicyDecision option \<Rightarrow> 's \<Rightarrow> 's" where
  "emit_policy env decision s = (case decision of None \<Rightarrow> s
     | Some d \<Rightarrow> te_emit env ''info'' ''zeus_client.policy.applied''
         [(''policy_action'', GStr (pd_policy d)), (''result'', GStr ''ok'')] s)"

definition close_turn ::
  "('s, 'z) turn_env_scheme \<Rightarrow> 's turn_fixed \<Rightarrow> MiddlewareChain \<Rightarrow> LayerA option \<Rightarrow> PolicyDecision option \<Rightarrow> string \<Rightarrow>
   MiddlewareContext \<Rightarrow> 's turn \<Rightarrow> 's turn_end" where
  "close_turn env fx chain layer decision answer c1 t = (case OnTurnEnd chain answer c1 of
     (Some v, c2) \<Rightarrow> TurnPanic v (tn_calls t)
   | (None, c2) \<Rightarrow>
       (let (r, s2) = finishTurn env fx ((finish_of t)\<lparr>tf_answer := answer, tf_status := final_status (tn_exit t) decision,
              tf_notes := tn_notes t @ fst (takeNotes c2), tf_layer := layer, tf_decision := decision,
              tf_ai_exit := tn_exit t, tf_layer_via := tn_via t, tf_tool_trail := tn_trail t,
              tf_hooks_score := floatData env c1 ''hooks_jailbreak_score''\<rparr>) (emit_policy env decision (tn_world t))
        in Returned r s2 (tn_calls t)))"

definition conclude ::
  "('s, 'z) turn_env_scheme \<Rightarrow> 's turn_fixed \<Rightarrow> TurnRequest \<Rightarrow> MiddlewareChain \<Rightarrow> 's turn \<Rightarrow> 's turn_end" where
  "conclude env fx req chain t =
     (let layer0 = parse_layer env (fx_settings fx) (tq_pack_schema req) (tn_return_args t) in
      case pre_policy env layer0 (tn_answer t) of
        None \<Rightarrow> TurnPanic slicePanic (tn_calls t)
      | Some pre \<Rightarrow>
          (let (c1, layer, decision) = judge env (fx_settings fx) layer0 pre (tn_mw t) in
           close_turn env fx chain layer decision (final_answer layer decision pre) c1 t))"

definition raised_rounds :: "ClientSettings \<Rightarrow> int" where
  "raised_rounds cfg = (if stg_ai_process_result cfg \<and> stg_max_rounds cfg < 2 then 2 else stg_max_rounds cfg)"

definition opening_notes :: "ClientSettings \<Rightarrow> string list" where
  "opening_notes cfg =
     (if stg_ai_process_result cfg \<and> stg_max_rounds cfg < 2
      then [''ai_process_result=true: max_rounds raised to 2 for insight turn''] else []) @
     [if stg_ai_process_result cfg then ''ai_process_result=true'' else ''ai_process_result=false'']"

definition opening_messages :: "(rat \<Rightarrow> string) \<Rightarrow> TurnRequest \<Rightarrow> gmap list" where
  "opening_messages ff req = say ''system'' (systemFromRequest ff req) #
     List.map_filter (\<lambda>pm. pm) (tq_prior_messages req) @ [say ''user'' (tq_message req)]"

text \<open>The turn after its guards: the hooks see the message first; a refusal skips the rounds.\<close>

definition round_args_of ::
  "('s, 'z) turn_env_scheme \<Rightarrow> 's RunAgentTurnOpts \<Rightarrow> TurnRequest \<Rightarrow> 's turn_fixed \<Rightarrow> MiddlewareChain \<Rightarrow> 's llm_port \<Rightarrow> 's round_args" where
  "round_args_of env opts req fx chain llm =
     (let system = systemPromptOf (te_ff env) (opening_messages (te_ff env) req) (tq_system_prompt req) (tq_chat_request req);
          (brief, mini) = injectSliceSha12s (te_sha env) system
      in \<lparr>ra_req = req, ra_settings = fx_settings fx, ra_max_rounds = raised_rounds (fx_settings fx),
          ra_tools = toolsFromRequest req, ra_chain = chain, ra_llm = llm, ra_zeus = ro_zeus opts,
          ra_rewind = dbg_rewind (ro_debug_policy opts), ra_chat_id = fx_chat_id fx, ra_turn_id = fx_turn_id fx,
          ra_chat_session_id = (case tq_session req of None \<Rightarrow> []
            | Some h \<Rightarrow> (if sh_enabled h then sh_session_id h else [])),
          ra_brief_sha12 = brief, ra_mini_sha12 = mini\<rparr>)"

definition opening_context :: "('s, 'z) turn_env_scheme \<Rightarrow> TurnRequest \<Rightarrow> string \<Rightarrow> MiddlewareContext" where
  "opening_context env req turnID =
     put_data ''prior_user_texts'' (DStrs (priorUserTexts (te_ff env) (tq_prior_messages req)))
       (put_data ''catalog_tool_names'' (DNames (catalogToolNames (te_ff env) (toolsFromRequest req)))
         (newMiddlewareContext turnID (tq_message req)))"

definition opening_turn :: "string list \<Rightarrow> gmap list \<Rightarrow> MiddlewareContext \<Rightarrow> 's \<Rightarrow> 's turn" where
  "opening_turn notes messages c s = \<lparr>tn_messages = messages, tn_notes = notes, tn_hops = [], tn_steps = [], tn_mw = c,
     tn_world = s, tn_calls = [], tn_answer = [], tn_exit = [], tn_return_args = None, tn_via = ''client_terminate'',
     tn_rounds = 0, tn_trail = []\<rparr>"

definition turn_body ::
  "('s, 'z) turn_env_scheme \<Rightarrow> 's RunAgentTurnOpts \<Rightarrow> TurnRequest \<Rightarrow> 's turn_fixed \<Rightarrow> MiddlewareChain \<Rightarrow> 's llm_port \<Rightarrow> 's \<Rightarrow> 's turn_end" where
  "turn_body env opts req fx chain llm s =
     (case OnTurnStart chain (opening_context env req (fx_turn_id fx)) of
        (Some v, c) \<Rightarrow> TurnPanic v []
      | (None, c) \<Rightarrow>
          (let t1 = drain_notes (opening_turn (ro_extra_notes opts @ opening_notes (fx_settings fx))
                 (opening_messages (te_ff env) req) c s);
               t2 = t1\<lparr>tn_notes := appendJailbreakHitNote (tn_notes t1) (tn_mw t1)\<rparr>;
               skip = boolData (tn_mw t2) ''hooks_must_refuse'';
               t3 = (if skip then (add_note ''jailbreak.pre_llm_refuse'' t2)\<lparr>tn_exit := ''hooks_refuse''\<rparr> else t2)
           in case ctxErr (te_ctx env s) of
                Some e \<Rightarrow> fail_turn env fx (ctxErrAsDomain e) t3
              | None \<Rightarrow>
                  (case (if skip then Done t3 else run_loop env (round_args_of env opts req fx chain llm) t3) of
                     Done t \<Rightarrow> conclude env fx req chain t
                   | Again t \<Rightarrow> conclude env fx req chain t
                   | Stopped e t \<Rightarrow> fail_turn env fx (ctxErrAsDomain e) t
                   | LlmFailed e t \<Rightarrow> fail_turn env fx (Some e) (t\<lparr>tn_answer := ''LLM error: '' @ ze_message e\<rparr>)
                   | Panicked v t \<Rightarrow> TurnPanic v (tn_calls t))))"

definition fixed_of ::
  "('s, 'z) turn_env_scheme \<Rightarrow> 's RunAgentTurnOpts \<Rightarrow> TurnRequest \<Rightarrow> ClientSettings \<Rightarrow> string \<Rightarrow> string \<Rightarrow> string \<Rightarrow> 's \<Rightarrow> 's turn_fixed" where
  "fixed_of env opts req cfg turnID chatID traceID s =
     \<lparr>fx_t0 = s, fx_turn_id = turnID, fx_chat_id = chatID, fx_trace_id = traceID, fx_settings = cfg,
      fx_stamp = ProductStamp (te_now_text env s)
        \<lparr>so_user = ro_stamp_user opts, so_ip = ResolveClientIP [] (ro_client_ip opts) [] False,
         so_version = ro_version opts, so_ts = [], so_scope = scope_text (tq_target req), so_session = []\<rparr>,
      fx_version = ro_version opts, fx_zeus_url = ro_zeus_url opts,
      fx_floor = (if ro_client_floor opts = [] then ''client-floor-5'' else ro_client_floor opts),
      fx_base_id = tq_base_id req, fx_target = tq_target req, fx_tools = tq_tools req, fx_chat_request = tq_chat_request req,
      fx_hub_base_url = dbg_hub_base_url (ro_debug_policy opts),
      fx_detective_on = debugGatherOn (ro_debug_policy opts) (ro_stamp_user opts), fx_env = ro_env opts,
      fx_session = tq_session req\<rparr>"

definition start_turn :: "('s, 'z) turn_env_scheme \<Rightarrow> 's turn_fixed \<Rightarrow> string \<Rightarrow> 's \<Rightarrow> 's" where
  "start_turn env fx msg s = te_emit env ''info'' ''zeus_client.turn.started''
     [(''chat.id'', GStr (fx_chat_id fx)), (''turn.id'', GStr (fx_turn_id fx)), (''scope'', GStr (scope_text (fx_target fx))),
      (''mode'', GStr (stg_mode (fx_settings fx))), (''zeus.url'', GStr (fx_zeus_url fx)), (''trace_id'', GStr (fx_trace_id fx))]
     (je env (fx_turn_id fx) 1 EventTurnStarted
       [(''message_preview'', GStr (clipStr msg 200)), (''base_id'', GStr (fx_base_id fx)),
        (''client_floor'', GStr (fx_floor fx)), (''trace_id'', GStr (fx_trace_id fx)), (''chat_id'', GStr (fx_chat_id fx))] s)"

text \<open>The settings a turn runs with; the error of their preparation is dropped.\<close>

definition turn_settings :: "('s, 'z) turn_env_scheme \<Rightarrow> 's RunAgentTurnOpts \<Rightarrow> TurnRequest \<Rightarrow> ClientSettings" where
  "turn_settings env opts req = fst (fst (PrepareSettings (te_codec env) (te_digest env)
     (mergeTurnSettings (ro_default_settings opts) (tq_settings req))))"

definition prepared_request :: "('s, 'z) turn_env_scheme \<Rightarrow> 's RunAgentTurnOpts \<Rightarrow> TurnRequest \<Rightarrow> TurnRequest" where
  "prepared_request env opts req = (if tq_chat_request req = [] then req
     else req\<lparr>tq_chat_request := injectBagB (te_codec env) (tq_chat_request req)
       (InjectSettingsFromClient (te_codec env) (turn_settings env opts req))\<rparr>)"

definition chain_of :: "('s, 'z) turn_env_scheme \<Rightarrow> 's RunAgentTurnOpts \<Rightarrow> MiddlewareChain" where
  "chain_of env opts = (case ro_middleware opts of None \<Rightarrow> DefaultMiddlewareChain env | Some ch \<Rightarrow> ch)"

definition RunAgentTurn ::
  "('s, 'z) turn_env_scheme \<Rightarrow> 's RunAgentTurnOpts \<Rightarrow> TurnRequest \<Rightarrow> 's \<Rightarrow> 's turn_end" where
  "RunAgentTurn env opts req0 s0 =
     (let cfg = turn_settings env opts req0; req = prepared_request env opts req0;
          (turnID, s1) = te_turn_id env s0;
          (chatID, s2) = (if trim_space (tq_chat_id req) = [] then te_chat_id env s1 else (trim_space (tq_chat_id req), s1));
          (traceID, s3) = te_trace_id env s2;
          fx = fixed_of env opts req cfg turnID chatID traceID s3;
          s4 = start_turn env fx (tq_message req) s3;
          blank = opening_turn (ro_extra_notes opts) [] (newMiddlewareContext turnID (tq_message req)) s4
      in case ctxErr (te_ctx env s4) of
           Some e \<Rightarrow> fail_turn env fx (ctxErrAsDomain e) blank
         | None \<Rightarrow>
             (if trim_space (tq_message req) = []
              then fail_turn env fx (Some (NewError CodeAgentMessageEmpty agentTurnComponent
                     [WithMessage ''agent message empty''])) (add_note ''empty message'' blank)
              else (case ro_llm opts of
                  None \<Rightarrow> fail_turn env fx (Some (NewError CodeNotImplemented agentTurnComponent
                    [WithMessage ''LLM port not wired on runtime''])) blank
                | Some llm \<Rightarrow> turn_body env opts req fx (chain_of env opts) llm s4)))"

section \<open>What a round sends\<close>

fun is_llm :: "port_call \<Rightarrow> bool" where
  "is_llm (LlmCall rq) = True"
| "is_llm (VerbCall vr) = False"

definition llm_count :: "port_call list \<Rightarrow> nat" where "llm_count cs = length (filter is_llm cs)"
definition verb_count :: "port_call list \<Rightarrow> nat" where "verb_count cs = length (filter (\<lambda>c. \<not> is_llm c) cs)"

lemma counts [simp]:
  "llm_count [] = 0" "verb_count [] = 0" "llm_count (xs @ ys) = llm_count xs + llm_count ys"
  "verb_count (xs @ ys) = verb_count xs + verb_count ys" "llm_count [LlmCall rq] = 1" "verb_count [LlmCall rq] = 0"
  "llm_count (map VerbCall vrs) = 0" "verb_count (map VerbCall vrs) = length vrs"
  by (simp_all add: llm_count_def verb_count_def filter_map o_def)

lemma turn_simps [simp]:
  "tn_calls (add_note n t) = tn_calls t" "tn_calls (add_message m t) = tn_calls t" "tn_calls (drain_notes t) = tn_calls t"
  "tn_hops (add_note n t) = tn_hops t" "tn_hops (add_message m t) = tn_hops t" "tn_hops (drain_notes t) = tn_hops t"
  "tn_mw (add_note n t) = tn_mw t" "tn_mw (add_message m t) = tn_mw t"
  "tn_mw (drain_notes t) = (tn_mw t)\<lparr>mc_notes := []\<rparr>"
  by (simp_all add: add_note_def add_message_def drain_notes_def takeNotes_def)

lemma open_round_keeps [simp]:
  "tn_calls (open_round env ra rnd t) = tn_calls t" "tn_hops (open_round env ra rnd t) = tn_hops t"
  "tn_mw (open_round env ra rnd t) = (tn_mw t)\<lparr>mc_round := rnd\<rparr>"
  by (simp_all add: open_round_def inject_trail_def force_return_def Let_def)

lemma recovered_keeps:
  "recovered_calls env ra r t = Some (tcs, t') \<Longrightarrow> tn_calls t' = tn_calls t \<and> tn_hops t' = tn_hops t \<and> tn_mw t' = tn_mw t"
  by (auto simp: recovered_calls_def Let_def split: if_splits option.splits prod.splits)

lemma insightHop_sends:
  "insightHop ra rnd t = ((a, ns), t') \<Longrightarrow>
     (\<exists>rq. tn_calls t' = tn_calls t @ [LlmCall rq]) \<and> tn_hops t' = tn_hops t \<and> tn_mw t' = tn_mw t"
  by (auto simp: insightHop_def Let_def split: prod.splits sum.splits if_splits)

lemma answers_keep [simp]:
  "tn_calls (say_once ff a t) = tn_calls t" "tn_hops (say_once ff a t) = tn_hops t" "tn_mw (say_once ff a t) = tn_mw t"
  "tn_calls (cheap_end env cand t) = tn_calls t" "tn_hops (cheap_end env cand t) = tn_hops t"
  "tn_mw (cheap_end env cand t) = tn_mw t"
  by (simp_all add: say_once_def cheap_end_def Let_def)

lemma terminal_end_sends:
  "(\<exists>lcs. tn_calls (terminal_end env ra rnd a t) = tn_calls t @ map LlmCall lcs \<and> length lcs \<le> 1) \<and>
   tn_hops (terminal_end env ra rnd a t) = tn_hops t \<and> tn_mw (terminal_end env ra rnd a t) = tn_mw t"
proof -
  obtain synth ns t1 where ih: "insightHop ra rnd t = ((synth, ns), t1)" by (metis surj_pair)
  from insightHop_sends [OF this] obtain rq where i: "tn_calls t1 = tn_calls t @ [LlmCall rq]" "tn_hops t1 = tn_hops t"
    "tn_mw t1 = tn_mw t" by blast
  show ?thesis
  proof (cases "stg_ai_process_result (ra_settings ra)")
    case True
    then show ?thesis using ih i by (auto simp: terminal_end_def Let_def intro!: exI [of _ "[rq]"])
  next
    case False
    then show ?thesis by (auto simp: terminal_end_def intro!: exI [of _ "[]"])
  qed
qed

text \<open>The effect of a round on the ghost trace, the hops and the context.\<close>

definition bounded :: "nat \<Rightarrow> nat \<Rightarrow> nat \<Rightarrow> 's turn \<Rightarrow> 's round_end \<Rightarrow> bool" where
  "bounded a d v t r \<longleftrightarrow>
     (\<exists>cs. tn_calls (turn_of r) = tn_calls t @ cs \<and> llm_count cs \<le> (case r of Again _ \<Rightarrow> a | _ \<Rightarrow> d) \<and>
        verb_count cs \<le> v \<and>
        (\<forall>t'. r = Again t' \<or> r = Done t' \<longrightarrow> length (tn_hops t') = length (tn_hops t) + verb_count cs))"

lemma after_tools_sends:
  "(\<exists>lcs. tn_calls (turn_of (after_tools env ra rnd out t)) = tn_calls t @ map LlmCall lcs \<and>
      length lcs \<le> (case after_tools env ra rnd out t of Again _ \<Rightarrow> 0 | _ \<Rightarrow> 1)) \<and>
   tn_hops (turn_of (after_tools env ra rnd out t)) = tn_hops t \<and>
   tn_mw (turn_of (after_tools env ra rnd out t)) = (tn_mw t)\<lparr>mc_notes := []\<rparr>"
proof -
  define t1 where "t1 = drain_notes (t\<lparr>tn_trail := extend_trail (te_ff env) (tn_trail t) (to_hops out)\<rparr>)"
  define t2 where "t2 = t1\<lparr>tn_notes := appendJailbreakHitNote (tn_notes t1) (tn_mw t1),
    tn_return_args := (case to_return_args out of None \<Rightarrow> tn_return_args t1 | Some a \<Rightarrow> Some a),
    tn_via := (if to_terminate_via out = [] then tn_via t1 else to_terminate_via out)\<rparr>"
  have t2: "tn_calls t2 = tn_calls t" "tn_hops t2 = tn_hops t" "tn_mw t2 = (tn_mw t)\<lparr>mc_notes := []\<rparr>"
    by (simp_all add: t2_def t1_def)
  have e: "after_tools env ra rnd out t =
     (if to_return_seen out then Done (terminal_end env ra rnd (trim_space (to_terminal_summary out)) t2)
      else if \<not> stg_ai_process_result (ra_settings ra) \<and> 0 < to_with_payload out
        then Done (cheap_end env (trim_space (to_tool_arg_summary out)) t2)
      else if boolData (tn_mw t2) ''hooks_must_refuse''
        then Done ((add_note ''jailbreak.abort_turn'' t2)\<lparr>tn_exit := ''hooks_refuse''\<rparr>)
      else Again t2)"
    unfolding after_tools_def Let_def t1_def [symmetric] t2_def [symmetric] by (rule refl)
  show ?thesis
  proof (cases "to_return_seen out")
    case True
    with terminal_end_sends [of env ra rnd "trim_space (to_terminal_summary out)" t2] show ?thesis
      by (simp add: e t2)
  next
    case False
    then show ?thesis by (auto simp: e t2)
  qed
qed

lemma map_llm_counts [simp]: "llm_count (map LlmCall rqs) = length rqs" "verb_count (map LlmCall rqs) = 0"
  by (simp_all add: llm_count_def verb_count_def filter_map o_def)

lemma bounded_stay: "tn_calls (turn_of r) = tn_calls t \<Longrightarrow> tn_hops (turn_of r) = tn_hops t \<Longrightarrow> bounded a d v t r"
  unfolding bounded_def by (intro exI [of _ "[]"]) auto

lemma bounded_ends:
  assumes "tn_calls u = tn_calls t" and "tn_hops u = tn_hops t"
  shows "bounded a d v t (Done u)" "bounded a d v t (Stopped e u)" "bounded a d v t (LlmFailed de u)" "bounded a d v t (Panicked msg u)"
  using assms by (simp_all add: bounded_stay)

lemma bounded_same:
  "tn_calls t = tn_calls u \<Longrightarrow> tn_hops t = tn_hops u \<Longrightarrow> bounded a d v t r = bounded a d v u r"
  by (simp add: bounded_def)

lemma bounded_first:
  assumes "tn_calls u = tn_calls t @ [LlmCall rq]" and "tn_hops u = tn_hops t" and "bounded a d v u r"
  shows "bounded (Suc a) (Suc d) v t r"
proof -
  from assms(3) obtain cs where c: "tn_calls (turn_of r) = tn_calls u @ cs" "llm_count cs \<le> (case r of Again _ \<Rightarrow> a | _ \<Rightarrow> d)"
    "verb_count cs \<le> v" "\<forall>t'. r = Again t' \<or> r = Done t' \<longrightarrow> length (tn_hops t') = length (tn_hops u) + verb_count cs"
    unfolding bounded_def by blast
  have n: "llm_count (LlmCall rq # cs) = Suc (llm_count cs)" "verb_count (LlmCall rq # cs) = verb_count cs"
    by (simp_all add: llm_count_def verb_count_def)
  show ?thesis unfolding bounded_def
    by (intro exI [of _ "LlmCall rq # cs"]) (use c assms n in \<open>auto split: round_end.splits\<close>)
qed

lemma with_exec_simps [simp]:
  "tn_calls (with_exec t st) = xs_calls st" "tn_hops (with_exec t st) = tn_hops t @ to_hops (xs_out st)"
  "tn_mw (with_exec t st) = xs_mw st" "xs_calls (exec_of t) = tn_calls t" "xs_mw (exec_of t) = tn_mw t"
  by (simp_all add: with_exec_def exec_of_def)

lemma run_tools_bounded: "bounded 0 1 maxToolCallsPerRound t (run_tools env ra rnd r tcs t)"
proof (cases "ra_zeus ra")
  case None
  then show ?thesis by (auto simp: run_tools_def Let_def intro!: bounded_stay)
next
  case (Some zeus)
  define t1 where "t1 = add_message (assistant_message r tcs) t"
  define q where "q = executeToolCalls (tool_env.truncate env) zeus (ra_chain ra) (tool_opts ra rnd) tcs (exec_of t1)"
  from executeToolCalls_effect [OF q_def] obtain vrs where v: "xs_calls (state_of q) = tn_calls t @ map VerbCall vrs"
    "length vrs \<le> maxToolCallsPerRound" "\<And>st. q = Next st \<Longrightarrow> length (to_hops (xs_out st)) = length vrs"
    by (auto simp: t1_def)
  have e: "run_tools env ra rnd r tcs t = (case q of Crash v st \<Rightarrow> Panicked v (with_exec t1 st)
      | Halt e st \<Rightarrow> Stopped e (with_exec t1 st) | Next st \<Rightarrow> after_tools env ra rnd (xs_out st) (with_exec t1 st))"
    by (simp add: run_tools_def Some t1_def [symmetric] q_def [symmetric])
  show ?thesis
  proof (cases q)
    case (Next st)
    define w where "w = after_tools env ra rnd (xs_out st) (with_exec t1 st)"
    from after_tools_sends [of env ra rnd "xs_out st" "with_exec t1 st"] obtain lcs where
      l: "tn_calls (turn_of w) = tn_calls t @ map VerbCall vrs @ map LlmCall lcs"
        "length lcs \<le> (case w of Again _ \<Rightarrow> 0 | _ \<Rightarrow> 1)" "tn_hops (turn_of w) = tn_hops t @ to_hops (xs_out st)"
      unfolding w_def [symmetric] using v(1) Next by (auto simp: t1_def)
    show ?thesis unfolding bounded_def
      by (intro exI [of _ "map VerbCall vrs @ map LlmCall lcs"])
        (use l v Next in \<open>auto simp: e w_def [symmetric] split: round_end.splits\<close>)
  qed (use v in \<open>auto simp: e bounded_def intro!: exI [of _ "map VerbCall vrs"]\<close>)
qed

lemma model_reply_bounded: "bounded 0 1 maxToolCallsPerRound t (model_reply env ra rnd r t)"
proof -
  have *: "bounded 0 1 maxToolCallsPerRound t (run_tools env ra rnd r tcs u)"
    if "tn_calls u = tn_calls t" "tn_hops u = tn_hops t" for tcs u
    using run_tools_bounded [of u env ra rnd r tcs] bounded_same [of t u] that by simp
  show ?thesis
    unfolding model_reply_def Let_def
    by (auto split: prod.split option.split dest!: recovered_keeps simp: answer_direct_def Let_def
        intro!: bounded_ends * [simplified])
qed

lemma run_round_bounded: "bounded 1 2 maxToolCallsPerRound t (run_round env ra rnd t)"
proof -
  define t1 where "t1 = open_round env ra rnd t"
  obtain p c where b: "BeforeLLM (ra_chain ra) (tn_messages t1) (tn_mw t1) = (p, c)" by (metis surj_pair)
  define t2 where "t2 = drain_notes (t1\<lparr>tn_mw := c\<rparr>)"
  obtain ans s1 where a: "ra_llm ra (llm_request ra t2) (tn_world t2) = (ans, s1)" by (metis surj_pair)
  define t3 where "t3 = t2\<lparr>tn_world := s1, tn_calls := tn_calls t2 @ [LlmCall (llm_request ra t2)]\<rparr>"
  have t3: "tn_calls t3 = tn_calls t @ [LlmCall (llm_request ra t2)]" "tn_hops t3 = tn_hops t"
    by (simp_all add: t3_def t2_def t1_def)
  have f: "bounded 1 2 v t r" if "bounded 0 1 v t3 r" for v r
    using bounded_first [OF t3 that] by (simp add: numeral_2_eq_2)
  have "bounded 1 2 maxToolCallsPerRound t (LlmFailed e u)" if "tn_calls u = tn_calls t3" "tn_hops u = tn_hops t3" for e u
    using that by (intro f bounded_stay) simp_all
  moreover have "bounded 1 2 maxToolCallsPerRound t (Stopped e t)" "bounded 1 2 maxToolCallsPerRound t (Panicked v (t1\<lparr>tn_mw := c\<rparr>))" for e v
    by (auto simp: t1_def intro!: bounded_stay)
  ultimately show ?thesis
    using f [OF model_reply_bounded [of t3 env ra rnd]]
    by (auto simp: run_round_def Let_def t1_def [symmetric] b t2_def [symmetric] a t3_def [symmetric]
        split: option.split sum.split)
qed

lemma run_rounds_bounded:
  "bounded (length rnds) (Suc (length rnds)) (maxToolCallsPerRound * length rnds) t (run_rounds env ra rnds t)"
proof (induction rnds arbitrary: t)
  case Nil
  show ?case by (simp add: bounded_stay)
next
  case (Cons rnd rnds)
  note r = run_round_bounded [of t env ra rnd]
  show ?case
  proof (cases "run_round env ra rnd t")
    case (Again t1)
    from r obtain cs where c: "tn_calls t1 = tn_calls t @ cs" "llm_count cs \<le> 1" "verb_count cs \<le> maxToolCallsPerRound"
      "length (tn_hops t1) = length (tn_hops t) + verb_count cs"
      by (auto simp: bounded_def Again)
    define w where "w = run_rounds env ra rnds t1"
    from Cons.IH [of t1] obtain ds where d: "tn_calls (turn_of w) = tn_calls t1 @ ds"
      "llm_count ds \<le> (case w of Again _ \<Rightarrow> length rnds | _ \<Rightarrow> Suc (length rnds))"
      "verb_count ds \<le> maxToolCallsPerRound * length rnds"
      "\<And>t'. w = Again t' \<or> w = Done t' \<Longrightarrow> length (tn_hops t') = length (tn_hops t1) + verb_count ds"
      by (auto simp: bounded_def w_def [symmetric])
    show ?thesis unfolding bounded_def
      by (intro exI [of _ "cs @ ds"]) (use c d Again in \<open>auto simp: w_def [symmetric] split: round_end.splits\<close>)
  qed (use r in \<open>fastforce simp: bounded_def\<close>)+
qed

lemma run_loop_bounded:
  "bounded 0 (Suc (nat (ra_max_rounds ra))) (maxToolCallsPerRound * nat (ra_max_rounds ra)) t (run_loop env ra t)"
proof -
  define w where "w = run_rounds env ra [1..ra_max_rounds ra] t"
  have "bounded (nat (ra_max_rounds ra)) (Suc (nat (ra_max_rounds ra))) (maxToolCallsPerRound * nat (ra_max_rounds ra)) t w"
    using run_rounds_bounded [of "[1..ra_max_rounds ra]" t env ra] by (simp add: w_def)
  then show ?thesis
    unfolding run_loop_def w_def [symmetric] by (cases w) (fastforce simp: bounded_def)+
qed

section \<open>A whole turn\<close>

lemma finishTurn_views [simp]:
  "tr_err (fst (finishTurn env fx f s)) = None \<longleftrightarrow> tf_err f = None"
  "db_hops (tr_debug (fst (finishTurn env fx f s))) = tf_hops f"
  "tr_answer (fst (finishTurn env fx f s)) = scrub_answer (tf_layer f) (tf_answer f)"
  "tr_status (fst (finishTurn env fx f s)) = tf_status f"
  "tr_layer_a (fst (finishTurn env fx f s)) = tf_layer f" "tr_policy (fst (finishTurn env fx f s)) = tf_decision f"
  by (simp_all add: finishTurn_def Let_def)

lemma finish_of_views [simp]:
  "tf_hops (finish_of t) = tn_hops t" "tf_err (finish_of t) = None" "tf_answer (finish_of t) = tn_answer t"
  "tf_status (finish_of t) = TurnError" "tf_layer (finish_of t) = None"
  by (simp_all add: finish_of_def)

lemma ctxErr_domain [simp]: "ctxErr c = Some e \<Longrightarrow> ctxErrAsDomain e \<noteq> None"
  by (auto simp: ctxErr_def)

definition hops_match :: "'s turn_end \<Rightarrow> bool" where
  "hops_match r \<longleftrightarrow> (case r of
     Returned res s cs \<Rightarrow> (if tr_err res = None then length (db_hops (tr_debug res)) = verb_count cs else True)
   | TurnPanic v cs \<Rightarrow> True)"

lemma fail_turn_returns:
  obtains res s where "fail_turn env fx (Some e) t = Returned res s (tn_calls t)" and "tr_err res \<noteq> None"
    and "tr_status res = TurnError" and "tr_answer res = scrub_answer None (tn_answer t)"
proof -
  define f where "f = (finish_of t)\<lparr>tf_err := Some e\<rparr>"
  define q where "q = finishTurn env fx f (tn_world t)"
  have f: "tf_err f \<noteq> None" "tf_status f = TurnError" "tf_layer f = None" "tf_answer f = tn_answer t"
    by (simp_all add: f_def)
  have err: "tr_err (fst q) \<noteq> None" unfolding q_def finishTurn_views using f(1) .
  have ret: "fail_turn env fx (Some e) t = Returned (fst q) (snd q) (tn_calls t)"
    by (simp add: fail_turn_def f_def [symmetric] q_def [symmetric] split_beta)
  have rest: "tr_status (fst q) = TurnError" "tr_answer (fst q) = scrub_answer None (tn_answer t)"
    by (simp_all add: q_def f)
  show thesis by (rule that [OF ret err rest])
qed

lemma scrub_blank [simp]: "scrub_answer layer [] = []"
  by (simp add: scrub_answer_def str_contains_def wish_def)

lemma hops_match_panic [simp]: "hops_match (TurnPanic v cs)"
  by (simp add: hops_match_def)

lemma fail_turn_calls [simp]: "calls_of (fail_turn env fx e t) = tn_calls t"
  by (simp add: fail_turn_def split_beta)

lemma fail_turn_match: "e \<noteq> None \<Longrightarrow> hops_match (fail_turn env fx e t)"
  by (auto simp: fail_turn_def hops_match_def split_beta)

lemma close_turn_views:
  "calls_of (close_turn env fx chain layer decision answer c1 t) = tn_calls t"
  "close_turn env fx chain layer decision answer c1 t = Returned res s cs \<Longrightarrow>
     tr_err res = None \<and> cs = tn_calls t \<and> db_hops (tr_debug res) = tn_hops t \<and> tr_layer_a res = layer \<and>
     tr_policy res = decision \<and> tr_answer res = scrub_answer layer answer \<and> tr_status res = final_status (tn_exit t) decision"
proof -
  obtain p c2 where o: "OnTurnEnd chain answer c1 = (p, c2)" by (metis surj_pair)
  show "calls_of (close_turn env fx chain layer decision answer c1 t) = tn_calls t"
    by (cases p) (simp_all add: close_turn_def o split_beta)
  assume r: "close_turn env fx chain layer decision answer c1 t = Returned res s cs"
  define f where "f = (finish_of t)\<lparr>tf_answer := answer, tf_status := final_status (tn_exit t) decision,
    tf_notes := tn_notes t @ fst (takeNotes c2), tf_layer := layer, tf_decision := decision, tf_ai_exit := tn_exit t,
    tf_layer_via := tn_via t, tf_tool_trail := tn_trail t, tf_hooks_score := floatData env c1 ''hooks_jailbreak_score''\<rparr>"
  from r have "res = fst (finishTurn env fx f (emit_policy env decision (tn_world t)))" and c: "cs = tn_calls t"
    by (cases p; simp add: close_turn_def o f_def split_beta)+
  then show "tr_err res = None \<and> cs = tn_calls t \<and> db_hops (tr_debug res) = tn_hops t \<and> tr_layer_a res = layer \<and>
     tr_policy res = decision \<and> tr_answer res = scrub_answer layer answer \<and> tr_status res = final_status (tn_exit t) decision"
    by (simp add: f_def)
qed

lemma conclude_calls [simp]: "calls_of (conclude env fx req chain t) = tn_calls t"
  by (simp add: conclude_def Let_def close_turn_views(1) split: option.split prod.split)

lemma conclude_match: "length (tn_hops t) = verb_count (tn_calls t) \<Longrightarrow> hops_match (conclude env fx req chain t)"
  by (auto simp: conclude_def hops_match_def Let_def split: option.split prod.split turn_end.split dest!: close_turn_views(2))

text \<open>The turn as the hooks leave it before the first round.\<close>

definition greeted ::
  "('s, 'z) turn_env_scheme \<Rightarrow> 's RunAgentTurnOpts \<Rightarrow> TurnRequest \<Rightarrow> 's turn_fixed \<Rightarrow> MiddlewareContext \<Rightarrow> 's \<Rightarrow> 's turn" where
  "greeted env opts req fx c s =
     (let t1 = drain_notes (opening_turn (ro_extra_notes opts @ opening_notes (fx_settings fx))
            (opening_messages (te_ff env) req) c s);
          t2 = t1\<lparr>tn_notes := appendJailbreakHitNote (tn_notes t1) (tn_mw t1)\<rparr>
      in if refused c then (add_note ''jailbreak.pre_llm_refuse'' t2)\<lparr>tn_exit := ''hooks_refuse''\<rparr> else t2)"

lemma greeted_simps [simp]:
  "tn_calls (greeted env opts req fx c s) = []" "tn_hops (greeted env opts req fx c s) = []"
  "tn_mw (greeted env opts req fx c s) = c\<lparr>mc_notes := []\<rparr>" "tn_world (greeted env opts req fx c s) = s"
  "tn_answer (greeted env opts req fx c s) = []" "tn_return_args (greeted env opts req fx c s) = None"
  by (simp_all add: greeted_def Let_def opening_turn_def add_note_def drain_notes_def takeNotes_def)

lemma turn_body_eq:
  "turn_body env opts req fx chain llm s = (case OnTurnStart chain (opening_context env req (fx_turn_id fx)) of
     (Some v, c) \<Rightarrow> TurnPanic v []
   | (None, c) \<Rightarrow>
       (let t = greeted env opts req fx c s in case ctxErr (te_ctx env s) of
          Some e \<Rightarrow> fail_turn env fx (ctxErrAsDomain e) t
        | None \<Rightarrow>
            (case (if refused c then Done t else run_loop env (round_args_of env opts req fx chain llm) t) of
               Done t \<Rightarrow> conclude env fx req chain t
             | Again t \<Rightarrow> conclude env fx req chain t
             | Stopped e t \<Rightarrow> fail_turn env fx (ctxErrAsDomain e) t
             | LlmFailed e t \<Rightarrow> fail_turn env fx (Some e) (t\<lparr>tn_answer := ''LLM error: '' @ ze_message e\<rparr>)
             | Panicked v t \<Rightarrow> TurnPanic v (tn_calls t))))"
  by (simp add: turn_body_def greeted_def Let_def drain_notes_def takeNotes_def opening_turn_def
      split: prod.split option.split)

definition stops_typed :: "'s round_end \<Rightarrow> bool" where
  "stops_typed r \<longleftrightarrow> (case r of Stopped e t \<Rightarrow> ctxErrAsDomain e \<noteq> None | _ \<Rightarrow> True)"

lemma stops_typed_simps [simp]:
  "stops_typed (Again t)" "stops_typed (Done t)" "stops_typed (LlmFailed de t)" "stops_typed (Panicked v t)"
  "stops_typed (Stopped e t) \<longleftrightarrow> ctxErrAsDomain e \<noteq> None"
  by (simp_all add: stops_typed_def)

lemma after_tools_typed [simp]: "stops_typed (after_tools env ra rnd out t)"
  by (simp add: after_tools_def Let_def)

lemma run_tools_typed [simp]: "stops_typed (run_tools env ra rnd r tcs t)"
  by (auto simp: run_tools_def Let_def split: option.split flow.split dest: executeToolCalls_halt)

lemma model_reply_typed [simp]: "stops_typed (model_reply env ra rnd r t)"
  by (auto simp: model_reply_def Let_def split: prod.split option.split)

lemma run_round_typed [simp]: "stops_typed (run_round env ra rnd t)"
  by (auto simp: run_round_def Let_def split: prod.split option.split sum.split)

lemma run_rounds_typed [simp]: "stops_typed (run_rounds env ra rnds t)"
proof (induction rnds arbitrary: t)
  case (Cons rnd rnds)
  show ?case using Cons run_round_typed [of env ra rnd t] by (cases "run_round env ra rnd t") (auto simp del: run_round_typed)
qed simp

lemma loop_stopped_domain: "run_loop env ra t = Stopped e t' \<Longrightarrow> ctxErrAsDomain e \<noteq> None"
  using run_rounds_typed [of env ra "[1..ra_max_rounds ra]" t]
  by (auto simp: run_loop_def simp del: run_rounds_typed split: round_end.splits)

lemma turn_body_calls:
  assumes "fx_settings fx = cfg"
  shows "llm_count (calls_of (turn_body env opts req fx chain llm s)) \<le> Suc (nat (raised_rounds cfg)) \<and>
    verb_count (calls_of (turn_body env opts req fx chain llm s)) \<le> maxToolCallsPerRound * nat (raised_rounds cfg) \<and>
    hops_match (turn_body env opts req fx chain llm s)"
proof -
  obtain p c where o: "OnTurnStart chain (opening_context env req (fx_turn_id fx)) = (p, c)" by (metis surj_pair)
  define t where "t = greeted env opts req fx c s"
  define ra where "ra = round_args_of env opts req fx chain llm"
  define w where "w = (if refused c then Done t else run_loop env ra t)"
  have t: "tn_calls t = []" "tn_hops t = []" by (simp_all add: t_def)
  have n: "ra_max_rounds ra = raised_rounds cfg"
    by (simp add: ra_def round_args_of_def assms Let_def split_beta)
  have "bounded 0 (Suc (nat (raised_rounds cfg))) (maxToolCallsPerRound * nat (raised_rounds cfg)) t w"
    using run_loop_bounded [of ra t env] bounded_ends(1) [of t t] by (simp add: w_def n)
  then have b: "llm_count (tn_calls (turn_of w)) \<le> Suc (nat (raised_rounds cfg))"
    "verb_count (tn_calls (turn_of w)) \<le> maxToolCallsPerRound * nat (raised_rounds cfg)"
    "\<And>u. w = Again u \<or> w = Done u \<Longrightarrow> length (tn_hops u) = verb_count (tn_calls u)"
    by (auto simp: bounded_def t split: round_end.splits)
  have stop: "w = Stopped e u \<Longrightarrow> ctxErrAsDomain e \<noteq> None" for e u
    using loop_stopped_domain [of env ra t] by (auto simp: w_def split: if_splits)
  have e: "turn_body env opts req fx chain llm s = (case p of Some v \<Rightarrow> TurnPanic v []
    | None \<Rightarrow> (case ctxErr (te_ctx env s) of Some e \<Rightarrow> fail_turn env fx (ctxErrAsDomain e) t
      | None \<Rightarrow> (case w of Done t \<Rightarrow> conclude env fx req chain t
             | Again t \<Rightarrow> conclude env fx req chain t
             | Stopped e t \<Rightarrow> fail_turn env fx (ctxErrAsDomain e) t
             | LlmFailed e t \<Rightarrow> fail_turn env fx (Some e) (t\<lparr>tn_answer := ''LLM error: '' @ ze_message e\<rparr>)
             | Panicked v t \<Rightarrow> TurnPanic v (tn_calls t))))"
    by (cases "refused c") (simp_all add: turn_body_eq o Let_def t_def ra_def w_def split: option.split)
  show ?thesis
  proof (cases p)
    case (Some v)
    then show ?thesis by (simp add: e)
  next
    case None
    show ?thesis
    proof (cases "ctxErr (te_ctx env s)")
      case (Some er)
      then show ?thesis by (simp add: e None t fail_turn_match)
    next
      case ok: None
      show ?thesis
        using b by (cases w) (auto simp: e None ok conclude_match fail_turn_match stop)
    qed
  qed
qed


text \<open>The start of the turn, up to the call of its body.\<close>

lemma RunAgentTurn_cases:
  obtains (early) fx e t where "RunAgentTurn env opts req0 s0 = fail_turn env fx (Some e) t" and "tn_calls t = []" and "tn_answer t = []"
  | (body) fx llm s where "ro_llm opts = Some llm" and "fx_settings fx = turn_settings env opts req0" and
      "RunAgentTurn env opts req0 s0 = turn_body env opts (prepared_request env opts req0) fx (chain_of env opts) llm s"
proof -
  define cfg req where "cfg = turn_settings env opts req0" and "req = prepared_request env opts req0"
  obtain turnID s1 where 1: "te_turn_id env s0 = (turnID, s1)" by (metis surj_pair)
  obtain chatID s2 where 2: "(if trim_space (tq_chat_id req) = [] then te_chat_id env s1
    else (trim_space (tq_chat_id req), s1)) = (chatID, s2)" by (metis surj_pair)
  obtain traceID s3 where 3: "te_trace_id env s2 = (traceID, s3)" by (metis surj_pair)
  define fx where "fx = fixed_of env opts req cfg turnID chatID traceID s3"
  define s4 where "s4 = start_turn env fx (tq_message req) s3"
  define blank where "blank = opening_turn (ro_extra_notes opts) [] (newMiddlewareContext turnID (tq_message req)) s4"
  have run: "RunAgentTurn env opts req0 s0 = (case ctxErr (te_ctx env s4) of
           Some e \<Rightarrow> fail_turn env fx (ctxErrAsDomain e) blank
         | None \<Rightarrow>
             (if trim_space (tq_message req) = []
              then fail_turn env fx (Some (NewError CodeAgentMessageEmpty agentTurnComponent
                     [WithMessage ''agent message empty''])) (add_note ''empty message'' blank)
              else (case ro_llm opts of
                  None \<Rightarrow> fail_turn env fx (Some (NewError CodeNotImplemented agentTurnComponent
                    [WithMessage ''LLM port not wired on runtime''])) blank
                | Some llm \<Rightarrow> turn_body env opts req fx (chain_of env opts) llm s4)))"
    unfolding RunAgentTurn_def cfg_def [symmetric] req_def [symmetric] Let_def 1 prod.case 2 3
      fx_def [symmetric] s4_def [symmetric] blank_def [symmetric] by (rule refl)
  have b: "tn_calls blank = []" "tn_calls (add_note n blank) = []" "tn_answer blank = []" "tn_answer (add_note n blank) = []" for n
    by (simp_all add: blank_def opening_turn_def add_note_def)
  show thesis
  proof (cases "ctxErr (te_ctx env s4)")
    case (Some e)
    then obtain de where "ctxErrAsDomain e = Some de" using ctxErr_domain by blast
    with Some b early show ?thesis by (simp add: run)
  next
    case None
    then show ?thesis
    proof (cases "ro_llm opts")
      case (Some llm)
      have "fx_settings fx = cfg" by (simp add: fx_def fixed_of_def)
      with Some None b body [of llm fx s4] early show ?thesis
        by (cases "trim_space (tq_message req) = []") (simp_all add: run cfg_def req_def)
    next
      case no_llm: None
      show ?thesis
      proof (cases "trim_space (tq_message req) = []")
        case True
        show ?thesis by (rule early [OF _ b(2,4)]) (use None no_llm True in \<open>simp_all add: run\<close>)
      next
        case False
        show ?thesis by (rule early [OF _ b(1,3)]) (use None no_llm False in \<open>simp_all add: run\<close>)
      qed
    qed
  qed
qed

text \<open>C20. A turn always ends after a bounded number of calls, whatever the model answers: at most one
  completion per round and one more for the insight, and at most eight verbs per round.\<close>

theorem turn_port_calls:
  "llm_count (calls_of (RunAgentTurn env opts req s)) \<le> Suc (nat (raised_rounds (turn_settings env opts req))) \<and>
   verb_count (calls_of (RunAgentTurn env opts req s)) \<le> 8 * nat (raised_rounds (turn_settings env opts req))"
proof (cases rule: RunAgentTurn_cases [of env opts req s])
  case (body fx llm s')
  with turn_body_calls [OF body(2), where env = env and opts = opts and req = "prepared_request env opts req"
    and chain = "chain_of env opts" and llm = llm and s = s'] show ?thesis by (simp add: maxToolCallsPerRound_def)
qed simp

text \<open>Unless the turn fails, its debug bundle lists one hop per verb it sent, no more and no less.\<close>

theorem turn_hops_complete:
  "case RunAgentTurn env opts req s of
     Returned res s' cs \<Rightarrow> (if tr_err res = None then length (db_hops (tr_debug res)) = verb_count cs else True)
   | TurnPanic v cs \<Rightarrow> True"
proof -
  have "hops_match (RunAgentTurn env opts req s)"
  proof (cases rule: RunAgentTurn_cases [of env opts req s])
    case (body fx llm s')
    with turn_body_calls [OF body(2), where env = env and opts = opts and req = "prepared_request env opts req"
    and chain = "chain_of env opts" and llm = llm and s = s'] show ?thesis by simp
  qed (simp add: fail_turn_match)
  then show ?thesis by (simp add: hops_match_def)
qed

section \<open>Only the catalog is reachable\<close>

definition turn_safe :: "bool amap \<Rightarrow> 's turn \<Rightarrow> bool" where
  "turn_safe cat t \<longleftrightarrow> closed_ctx cat (tn_mw t) \<and> list_all (catalog_call cat) (tn_calls t)"

lemma closed_ctx_simps [simp]:
  "closed_ctx cat (c\<lparr>mc_notes := ns\<rparr>) = closed_ctx cat c" "closed_ctx cat (c\<lparr>mc_round := n\<rparr>) = closed_ctx cat c"
  by (simp_all add: closed_ctx_def typed_denied_def)

lemma catalog_llm [simp]: "catalog_call cat (LlmCall rq)"
  by (simp add: catalog_call_def)

lemma turn_safe_views:
  "tn_mw u = tn_mw t \<Longrightarrow> tn_calls u = tn_calls t \<Longrightarrow> turn_safe cat u = turn_safe cat t"
  by (simp add: turn_safe_def)

context closed_catalog
begin

lemma after_tools_safe: "turn_safe cat t \<Longrightarrow> turn_safe cat (turn_of (after_tools env ra rnd out t))"
  using after_tools_sends [of env ra rnd out t] by (auto simp: turn_safe_def list_all_iff)

lemma run_tools_safe:
  assumes "ra_chain ra = chain" and "turn_safe cat t"
  shows "turn_safe cat (turn_of (run_tools env ra rnd r tcs t))"
proof (cases "ra_zeus ra")
  case None
  with assms show ?thesis by (simp add: run_tools_def Let_def turn_safe_def)
next
  case (Some zeus)
  define t1 where "t1 = add_message (assistant_message r tcs) t"
  define q where "q = executeToolCalls (tool_env.truncate env) zeus chain (tool_opts ra rnd) tcs (exec_of t1)"
  have "safe cat (exec_of t1)" using assms(2) by (simp add: safe_def turn_safe_def t1_def)
  then have "safe cat (state_of q)" unfolding q_def by (rule executeToolCalls_safe)
  then have "turn_safe cat (with_exec t1 (state_of q))" by (simp add: safe_def turn_safe_def)
  then show ?thesis
    by (cases q) (simp_all add: run_tools_def Some assms(1) t1_def [symmetric] q_def [symmetric] after_tools_safe)
qed

lemma model_reply_safe:
  assumes "ra_chain ra = chain" and "turn_safe cat t"
  shows "turn_safe cat (turn_of (model_reply env ra rnd r t))"
proof -
  obtain p c where a: "AfterLLM chain (response_map r) (tn_mw t) = (p, c)" by (metis surj_pair)
  have c: "closed_ctx cat c"
    using keeps_closed [OF after_llm [of "tn_mw t" "response_map r"], of cat] assms(2) by (simp add: a turn_safe_def)
  have "turn_safe cat u" if "tn_mw u = c\<lparr>mc_notes := []\<rparr>" "tn_calls u = tn_calls t" for u
    using that c assms(2) by (simp add: turn_safe_def)
  then have "turn_safe cat (turn_of (run_tools env ra rnd r tcs u))" if "tn_mw u = c\<lparr>mc_notes := []\<rparr>" "tn_calls u = tn_calls t" for u tcs
    using run_tools_safe [OF assms(1)] that by blast
  with c assms(2) show ?thesis
    by (auto simp: model_reply_def assms(1) a Let_def answer_direct_def turn_safe_def split: option.split prod.split
        dest!: recovered_keeps)
qed

lemma run_round_safe:
  assumes "ra_chain ra = chain" and "turn_safe cat t"
  shows "turn_safe cat (turn_of (run_round env ra rnd t))"
proof -
  define t1 where "t1 = open_round env ra rnd t"
  obtain p c where b: "BeforeLLM chain (tn_messages t1) (tn_mw t1) = (p, c)" by (metis surj_pair)
  define t2 where "t2 = drain_notes (t1\<lparr>tn_mw := c\<rparr>)"
  obtain ans s1 where a: "ra_llm ra (llm_request ra t2) (tn_world t2) = (ans, s1)" by (metis surj_pair)
  define t3 where "t3 = t2\<lparr>tn_world := s1, tn_calls := tn_calls t2 @ [LlmCall (llm_request ra t2)]\<rparr>"
  have "closed_ctx cat (tn_mw t1)" using assms(2) by (simp add: turn_safe_def t1_def)
  then have c: "closed_ctx cat c" using keeps_closed [OF before_llm [of "tn_mw t1" "tn_messages t1"], of cat] by (simp add: b)
  have t3: "turn_safe cat t3" using c assms(2) by (simp add: turn_safe_def t3_def t2_def t1_def)
  then have "turn_safe cat ((add_note n t3)\<lparr>tn_steps := sp\<rparr>)" for n sp
    by (simp add: turn_safe_def)
  moreover have "turn_safe cat (t1\<lparr>tn_mw := c\<rparr>)" using c assms(2) by (simp add: turn_safe_def t1_def)
  ultimately show ?thesis using model_reply_safe [OF assms(1) t3, of env rnd] assms
    by (auto simp: run_round_def Let_def t1_def [symmetric] b t2_def [symmetric] a t3_def [symmetric]
        split: option.split sum.split)
qed

lemma run_rounds_safe:
  "ra_chain ra = chain \<Longrightarrow> turn_safe cat t \<Longrightarrow> turn_safe cat (turn_of (run_rounds env ra rnds t))"
proof (induction rnds arbitrary: t)
  case (Cons rnd rnds)
  have r: "turn_safe cat (turn_of (run_round env ra rnd t))" by (rule run_round_safe [OF Cons.prems])
  show ?case using r Cons.IH [OF Cons.prems(1)] by (cases "run_round env ra rnd t") simp_all
qed simp

lemma run_loop_safe:
  assumes "ra_chain ra = chain" and "turn_safe cat t"
  shows "list_all (catalog_call cat) (tn_calls (turn_of (run_loop env ra t)))"
  using run_rounds_safe [OF assms, of env "[1..ra_max_rounds ra]"]
  by (cases "run_rounds env ra [1..ra_max_rounds ra] t") (simp_all add: run_loop_def turn_safe_def)

end

lemma opening_context_views [simp]:
  "map_of (mc_data (opening_context env req i)) ''catalog_tool_names'' =
     Some (DNames (catalogToolNames (te_ff env) (toolsFromRequest req)))"
  "map_of (mc_data (opening_context env req i)) ''prior_user_texts'' =
     Some (DStrs (priorUserTexts (te_ff env) (tq_prior_messages req)))"
  "mc_user_msg (opening_context env req i) = tq_message req"
  "typed_denied (opening_context env req i)"
  by (simp_all add: opening_context_def newMiddlewareContext_def typed_denied_def put_data_def)

text \<open>The calls of a turn body are those of its loop, or none.\<close>

lemma turn_body_trace:
  assumes "OnTurnStart chain (opening_context env req (fx_turn_id fx)) = (None, c)"
  shows "calls_of (turn_body env opts req fx chain llm s) = [] \<or> \<not> refused c \<and>
    calls_of (turn_body env opts req fx chain llm s) =
      tn_calls (turn_of (run_loop env (round_args_of env opts req fx chain llm) (greeted env opts req fx c s)))"
  by (cases "run_loop env (round_args_of env opts req fx chain llm) (greeted env opts req fx c s)")
    (auto simp: turn_body_eq assms Let_def split: option.split)

definition turn_catalog :: "('s, 'z) turn_env_scheme \<Rightarrow> 's RunAgentTurnOpts \<Rightarrow> TurnRequest \<Rightarrow> bool amap" where
  "turn_catalog env opts req = catalogToolNames (te_ff env) (toolsFromRequest (prepared_request env opts req))"

lemma turn_calls_in_catalog:
  assumes "ro_middleware opts = None"
  shows "list_all (catalog_call (turn_catalog env opts req)) (calls_of (RunAgentTurn env opts req s))"
proof (cases rule: RunAgentTurn_cases [of env opts req s])
  case (early fx e t)
  then show ?thesis by simp
next
  case (body fx llm s1)
  define cat where "cat = turn_catalog env opts req"
  define c where "c = security_OnTurnStart env (opening_context env (prepared_request env opts req) (fx_turn_id fx))"
  have "closed_ctx cat (opening_context env (prepared_request env opts req) (fx_turn_id fx))"
    by (simp add: closed_ctx_def cat_def turn_catalog_def)
  then have c: "closed_ctx cat c" unfolding c_def by (rule keeps_closed [OF security_start_keeps])
  have ch: "chain_of env opts = DefaultMiddlewareChain env" by (simp add: chain_of_def assms)
  have "OnTurnStart (chain_of env opts) (opening_context env (prepared_request env opts req) (fx_turn_id fx)) = (None, c)"
    by (simp add: ch DefaultMiddlewareChain_hooks c_def)
  from turn_body_trace [OF this, of opts llm s1] show ?thesis
  proof
    assume "calls_of (turn_body env opts (prepared_request env opts req) fx (chain_of env opts) llm s1) = []"
    then show ?thesis by (simp add: body)
  next
    define ra where "ra = round_args_of env opts (prepared_request env opts req) fx (chain_of env opts) llm"
    have "ra_chain ra = DefaultMiddlewareChain env" by (simp add: ra_def round_args_of_def Let_def split_beta ch)
    moreover have "turn_safe cat (greeted env opts (prepared_request env opts req) fx c s1)" using c by (simp add: turn_safe_def)
    ultimately have "list_all (catalog_call cat)
        (tn_calls (turn_of (run_loop env ra (greeted env opts (prepared_request env opts req) fx c s1))))"
      by (rule default.run_loop_safe)
    moreover assume "\<not> refused c \<and> calls_of (turn_body env opts (prepared_request env opts req) fx (chain_of env opts) llm s1) =
      tn_calls (turn_of (run_loop env (round_args_of env opts (prepared_request env opts req) fx (chain_of env opts) llm)
        (greeted env opts (prepared_request env opts req) fx c s1)))"
    ultimately show ?thesis by (simp add: body ra_def cat_def)
  qed
qed

text \<open>C19. Whatever the model asks for, under the default hooks a turn sends the Zeus port only verbs of its
  catalog (any verb when it has no catalog), and never one of the terminate tools.\<close>

theorem turn_verbs_in_catalog:
  assumes "ro_middleware opts = None"
  shows "list_all (catalog_call (turn_catalog env opts req)) (calls_of (RunAgentTurn env opts req s))"
  using assms by (rule turn_calls_in_catalog)

section \<open>Refused turns\<close>

definition refusal_text :: "ClientSettings \<Rightarrow> string" where
  "refusal_text cfg = MapMessage PolicyRefuse \<lparr>ps_messages = stg_messages cfg, ps_sticky_flags = stg_sticky_flags cfg,
     ps_soft_require = stg_soft_require_policy_action cfg\<rparr> emptyLayerA"

lemma refusal_text_nonempty: "refusal_text cfg \<noteq> []"
  by (simp add: refusal_text_def MapMessage_def Let_def emptyLayerA_def defaultMessageJailbreakSoft_def)

lemma decide_refused:
  "decide cfg score True l = \<lparr>pd_policy = PolicyRefuse,
     pd_ui_text = (if la_summary l \<noteq> [] \<and> la_policy_action l = PolicyRefuse then la_summary l else refusal_text cfg),
     pd_flags = StickyOrFlags (stg_sticky_flags cfg) (la_triggers l), pd_hooks_score = score, pd_must_refuse = True,
     pd_forced = True, pd_reason = ''hooks_must_refuse'',
     pd_soft_missing = (stg_soft_require_policy_action cfg \<and> stg_company_context cfg \<noteq> [] \<and> la_policy_action l = [])\<rparr>"
  by (simp add: decide_def DecidePolicy_def policy_table_def Let_def MapMessage_def refusal_text_def emptyLayerA_def)

lemma refuse_policy: "pd_policy (decide cfg score True l) = PolicyRefuse"
  by (simp add: decide_refused)

text \<open>What a refused turn shows: the refusal text, or the summary of a model that refuses itself.\<close>

definition refused_answer :: "ClientSettings \<Rightarrow> LayerA \<Rightarrow> string" where
  "refused_answer cfg l = (if la_summary l \<noteq> [] \<and> (la_policy_action l = PolicyRefuse \<or> str_contains (refusal_text cfg) wish)
     then la_summary l else refusal_text cfg)"

lemma final_answer_refused: "final_answer (Some l) (Some (decide cfg score True l)) pre = refused_answer cfg l"
  by (simp add: final_answer_def decide_refused Let_def refusal_text_nonempty refused_answer_def)

text \<open>A leak the hooks refuse is still shown when the model refuses with it as its summary.\<close>

lemma refused_leak_shown:
  "la_summary l \<noteq> [] \<Longrightarrow> la_policy_action l = PolicyRefuse \<Longrightarrow>
     final_answer (Some l) (Some (decide cfg score True l)) pre = la_summary l"
  by (simp add: final_answer_refused refused_answer_def)

definition refusal_shown :: "ClientSettings \<Rightarrow> 's turn_end \<Rightarrow> bool" where
  "refusal_shown cfg r \<longleftrightarrow> (case r of TurnPanic v cs \<Rightarrow> True
     | Returned res s cs \<Rightarrow> (case (tr_policy res, tr_layer_a res) of
         (Some d, Some l) \<Rightarrow> (if pd_reason d = ''hooks_must_refuse''
            then pd_policy d = PolicyRefuse \<and> tr_answer res = scrub_answer (Some l) (refused_answer cfg l) else True)
       | (None, _) \<Rightarrow> True
       | _ \<Rightarrow> False))"

lemma fail_turn_shown: "refusal_shown cfg (fail_turn env fx e t)"
  by (simp add: fail_turn_def refusal_shown_def split_beta) (simp add: finish_of_def)

lemma reason_refuse: "pd_reason (decide cfg score refuse l) = ''hooks_must_refuse'' \<Longrightarrow> refuse"
  by (auto simp: decide_def DecidePolicy_def policy_table_def Let_def split: if_splits)

lemma close_turn_shown:
  assumes "judge env cfg layer0 pre c = (c1, layer, decision)"
  shows "refusal_shown cfg (close_turn env fx chain layer decision (final_answer layer decision pre) c1 t)"
proof (cases "close_turn env fx chain layer decision (final_answer layer decision pre) c1 t")
  case (Returned res s cs)
  obtain score refuse where d: "decision = map_option (decide cfg score refuse) layer"
    using assms by (auto simp: judge_def Let_def)
  from close_turn_views(2) [OF Returned] show ?thesis
  proof (cases layer)
    case (Some l)
    then show ?thesis using close_turn_views(2) [OF Returned] reason_refuse [of cfg score refuse l] Returned
      by (cases refuse) (auto simp: d refusal_shown_def final_answer_refused refuse_policy)
  next
    case None
    then show ?thesis using close_turn_views(2) [OF Returned] Returned by (auto simp: d refusal_shown_def)
  qed
qed (simp add: refusal_shown_def)

lemma conclude_shown: "fx_settings fx = cfg \<Longrightarrow> refusal_shown cfg (conclude env fx req chain t)"
  by (auto simp: conclude_def Let_def close_turn_shown refusal_shown_def [of _ "TurnPanic v cs" for v cs]
      split: option.split prod.split)

lemma turn_body_shown:
  assumes "fx_settings fx = cfg"
  shows "refusal_shown cfg (turn_body env opts req fx chain llm s)"
proof -
  have p: "refusal_shown cfg (TurnPanic v cs)" for v cs by (simp add: refusal_shown_def)
  show ?thesis unfolding turn_body_eq Let_def
    by (auto split: prod.split option.split round_end.split simp: p fail_turn_shown conclude_shown [OF assms])
qed


text \<open>A blank answer stays blank before the policy.\<close>

lemma pre_policy_blank: "pre_policy env None [] = Some []"
proof -
  have "LooksLikeLayerADump [] = False" by code_simp
  then show ?thesis
    by (simp add: pre_policy_def Let_def PeelLayerASummary_def UserFacingAnswer_def preferred_answer_def
        pipeline_answer_def ParsePipelineEnvelope_def)
qed

lemma security_start_refuses:
  assumes "ja_must_refuse (AssessTurn (jb_env.truncate env) (mc_user_msg c) (priorTextsFromData (map_of (mc_data c) ''prior_user_texts'')))"
  shows "refused (security_OnTurnStart env c)"
proof -
  have "refused (snd (ScoreJailbreak env c))"
    using foldAssessment_refuses [OF assms, of env c]
    by (auto simp: ScoreJailbreak_def Let_def raise_score_def)
  then show ?thesis by (simp add: security_OnTurnStart_def Let_def split_beta)
qed

lemma prepared_request_views [simp]:
  "tq_message (prepared_request env opts req) = tq_message req"
  "tq_prior_messages (prepared_request env opts req) = tq_prior_messages req"
  by (simp_all add: prepared_request_def)

lemma priorTexts_strs [simp]: "priorTextsFromData (Some (DStrs xs)) = xs"
  by (simp add: priorTextsFromData_def)

text \<open>C21. A message the scorer refuses reaches neither the model nor Zeus under the default hooks: no call is
  made, nothing panics, and the turn fails before its rounds or answers with the refusal text.\<close>

theorem refused_message_silent:
  assumes "ja_must_refuse (AssessTurn (jb_env.truncate env) (tq_message req)
      (priorUserTexts (te_ff env) (tq_prior_messages req)))" and "ro_middleware opts = None"
  shows "case RunAgentTurn env opts req s of
     Returned res s' cs \<Rightarrow> cs = [] \<and> (if tr_err res = None
       then tr_status res = TurnRefused \<and>
         tr_answer res = scrub_answer (Some refused_layer) (refusal_text (turn_settings env opts req))
       else tr_status res = TurnError \<and> tr_answer res = [])
   | TurnPanic v cs \<Rightarrow> False"
proof (cases rule: RunAgentTurn_cases [of env opts req s])
  case (early fx e t)
  obtain res s' where "fail_turn env fx (Some e) t = Returned res s' (tn_calls t)" and "tr_err res \<noteq> None"
    and "tr_status res = TurnError" and "tr_answer res = scrub_answer None (tn_answer t)"
    by (rule fail_turn_returns)
  with early show ?thesis by auto
next
  case (body fx llm s1)
  define r where "r = prepared_request env opts req"
  define c where "c = security_OnTurnStart env (opening_context env r (fx_turn_id fx))"
  define t where "t = greeted env opts r fx c s1"
  have c: "refused c" unfolding c_def by (rule security_start_refuses) (use assms(1) in \<open>simp add: r_def\<close>)
  have ch: "chain_of env opts = DefaultMiddlewareChain env" by (simp add: chain_of_def assms)
  have t: "tn_calls t = []" "tn_answer t = []" "tn_return_args t = None" "tn_exit t = ''hooks_refuse''" "tn_mw t = c\<lparr>mc_notes := []\<rparr>"
    using c by (simp_all add: t_def) (simp add: greeted_def Let_def)
  have run: "RunAgentTurn env opts req s = (case ctxErr (te_ctx env s1) of
      Some e \<Rightarrow> fail_turn env fx (ctxErrAsDomain e) t | None \<Rightarrow> conclude env fx r (DefaultMiddlewareChain env) t)"
    by (simp add: body turn_body_eq ch DefaultMiddlewareChain_hooks r_def [symmetric] c_def [symmetric] Let_def c
        t_def split: option.split)
  show ?thesis
  proof (cases "ctxErr (te_ctx env s1)")
    case (Some e)
    then obtain de where "ctxErrAsDomain e = Some de" using ctxErr_domain by blast
    moreover obtain res s' where "fail_turn env fx (Some de) t = Returned res s' (tn_calls t)" and "tr_err res \<noteq> None"
      and "tr_status res = TurnError" and "tr_answer res = scrub_answer None (tn_answer t)"
      by (rule fail_turn_returns)
    ultimately show ?thesis by (auto simp: run Some t)
  next
    case None
    define c1 where "c1 = snd (InspectJailbreak env (GStr []) ''answer'' (tn_mw t))"
    have "refused c1" using keeps_refused [OF InspectJailbreak_keeps, of "tn_mw t" env "GStr []" "''answer''"] c
      by (simp add: c1_def t)
    then have j: "judge env (fx_settings fx) None [] (tn_mw t) = (c1, Some refused_layer, Some (decide (fx_settings fx)
        (floatData env c1 ''hooks_jailbreak_score'') True refused_layer))"
      by (simp add: judge_def Let_def c1_def [symmetric])
    define q where "q = close_turn env fx (DefaultMiddlewareChain env) (Some refused_layer) (Some (decide (fx_settings fx)
        (floatData env c1 ''hooks_jailbreak_score'') True refused_layer)) (refusal_text (fx_settings fx)) c1 t"
    have "refused_answer cfg refused_layer = refusal_text cfg" for cfg
      by (simp add: refused_answer_def refused_layer_def emptyLayerA_def)
    then have e: "RunAgentTurn env opts req s = q"
      by (simp add: run None conclude_def Let_def t parse_layer_def pre_policy_blank j [unfolded t(5)] final_answer_refused q_def)
    have "\<exists>res s' cs. q = Returned res s' cs"
      by (simp add: q_def close_turn_def DefaultMiddlewareChain_hooks split_beta)
    then obtain res s' cs where q: "q = Returned res s' cs" by blast
    from close_turn_views(2) [OF q [unfolded q_def]] body(2) show ?thesis
      by (simp add: e q t final_status_def refuse_policy)
  qed
qed

section \<open>Admin-only markers\<close>

lemma before_first:
  assumes "str_index s sub = Some i" and "sub \<noteq> []"
  shows "\<not> str_contains (take i s) sub"
proof
  assume "str_contains (take i s) sub"
  then obtain a b where ab: "take i s = a @ sub @ b" by (auto simp: str_contains_iff)
  then have "s = a @ sub @ (b @ drop i s)" by (metis append.assoc append_take_drop_id)
  with assms(1) have "i \<le> length a" using str_index_append_skip by metis
  moreover have "length a + length sub \<le> i" using arg_cong [OF ab, of length] by simp
  ultimately show False using assms(2) by (cases sub) auto
qed

lemma trim_contains: "str_contains (trim_space s) sub \<Longrightarrow> str_contains s sub"
proof -
  assume "str_contains (trim_space s) sub"
  moreover obtain a b where "s = a @ trim_space s @ b"
    using trim_left_suffix [of s] trim_right_prefix [of "trim_left_space s"]
    unfolding trim_space_def suffix_def prefix_def by (metis append.assoc)
  ultimately show ?thesis by (metis str_contains_append)
qed

lemma scrubbed:
  "if str_contains (scrub_answer layer answer) wish
   then (case layer of Some l \<Rightarrow> str_contains (la_summary l) wish | None \<Rightarrow> False) else True"
proof -
  have cut: "\<not> str_contains (trim_space (take i answer)) wish" if "str_index answer wish = Some i" for i
    using before_first [OF that] trim_contains by (auto simp: wish_def)
  show ?thesis
    using cut by (auto simp: scrub_answer_def str_contains_def [of answer] split: option.split)
qed

definition scrubbed_result :: "'s turn_end \<Rightarrow> bool" where
  "scrubbed_result r \<longleftrightarrow> (case r of TurnPanic v cs \<Rightarrow> True
     | Returned res s cs \<Rightarrow> (if str_contains (tr_answer res) wish
         then (case tr_layer_a res of Some l \<Rightarrow> str_contains (la_summary l) wish | None \<Rightarrow> False) else True))"

lemma fail_turn_scrubbed: "scrubbed_result (fail_turn env fx e t)"
  using scrubbed [of None "tn_answer t"] by (simp add: fail_turn_def scrubbed_result_def split_beta split: if_splits)

lemma conclude_scrubbed: "scrubbed_result (conclude env fx req chain t)"
proof -
  have "scrubbed_result (close_turn env fx chain layer decision answer c1 t)" for layer decision answer c1
    using scrubbed [of layer answer]
    by (cases "close_turn env fx chain layer decision answer c1 t")
      (auto simp: scrubbed_result_def dest!: close_turn_views(2))
  then show ?thesis by (auto simp: conclude_def Let_def scrubbed_result_def [of "TurnPanic v cs" for v cs] split: option.split prod.split)
qed

text \<open>The marker of the admin-only fields is in the answer of a turn only when the summary of the return
  payload has it: every other text is cut before the marker.\<close>

theorem turn_answer_scrubbed:
  "case RunAgentTurn env opts req s of
     Returned res s' cs \<Rightarrow> (if str_contains (tr_answer res) wish
       then (case tr_layer_a res of Some l \<Rightarrow> str_contains (la_summary l) wish | None \<Rightarrow> False) else True)
   | TurnPanic v cs \<Rightarrow> True"
proof -
  have p: "scrubbed_result (TurnPanic v cs)" for v cs by (simp add: scrubbed_result_def)
  have "scrubbed_result (turn_body env opts r fx chain llm s1)" for r fx chain llm s1
    unfolding turn_body_eq Let_def
    by (auto split: prod.split option.split round_end.split simp: p fail_turn_scrubbed conclude_scrubbed)
  then have "scrubbed_result (RunAgentTurn env opts req s)"
    by (cases rule: RunAgentTurn_cases [of env opts req s]) (simp_all add: fail_turn_scrubbed)
  then show ?thesis by (simp add: scrubbed_result_def)
qed

section \<open>Concrete turns\<close>

definition demo_env :: "nat turn_env" where
  "demo_env = \<lparr>jb_nfkc = (\<lambda>s. s), jb_is_letter = (\<lambda>r. 65 \<le> r \<and> r \<le> 90 \<or> 97 \<le> r \<and> r \<le> 122),
     mw_parse_float = (\<lambda>s. None), te_ff = (\<lambda>x. ''0''), te_codec = (\<lambda>v. Inl ''no codec'', \<lambda>s. Inl ''no codec''),
     te_sha = (\<lambda>s. s), te_ctx = (\<lambda>s. None), te_req_id = (\<lambda>s. (''r'', s)), te_elapsed_ms = (\<lambda>s s'. int s' - int s),
     te_digest = (\<lambda>rs. ''d''), te_turn_id = (\<lambda>s. (''t'', s)), te_chat_id = (\<lambda>s. (''c'', s)), te_trace_id = (\<lambda>s. (''x'', s)),
     te_now_ms = int, te_now_text = (\<lambda>s. ''now''), te_append = (\<lambda>e s. Suc s), te_len = int,
     te_emit = (\<lambda>level msg attrs s. s), te_detective = (\<lambda>args. None)\<rparr>"

definition demo_settings :: ClientSettings where
  "demo_settings = \<lparr>stg_ai_process_result = False, stg_max_rounds = 0, stg_force_trace = False, stg_mode = [],
     stg_durable_sessions = False, stg_sticky_flags = [], stg_messages = [], stg_soft_require_policy_action = False,
     stg_app_output_on_error = [], stg_output_request = None, stg_rules = [], stg_tenant_rules = [],
     stg_override_defaults = False, stg_company_context = [], stg_locale = [], stg_language = [], stg_timezone = [],
     stg_channel = [], stg_market = [], stg_deployment_id = [], stg_ruleset_id = [], stg_force_return_rounds_left = 0,
     stg_ignore_user_tool_path_hints = False, stg_tool_trail_enabled = False, stg_tool_trail_inject = False,
     stg_tool_trail_max_entries = 0\<rparr>"

definition demo_opts :: "nat RunAgentTurnOpts" where
  "demo_opts = \<lparr>ro_llm = Some (\<lambda>rq s. (Inr \<lparr>lr_content = [], lr_tool_calls = [Some [(''id'', GStr ''k''),
       (''function'', GObj [(''name'', GStr ''drop''), (''arguments'', GObj [])])]], lr_raw = [], lr_usage = []\<rparr>, Suc s)),
     ro_zeus = Some (\<lambda>vr s. (Inl (CallOther ''down''), Suc s)), ro_middleware = None, ro_default_settings = demo_settings,
     ro_debug_policy = \<lparr>dbg_detective_briefing = False, dbg_hub_base_url = [], dbg_rewind = False\<rparr>, ro_zeus_url = [],
     ro_client_floor = [], ro_extra_notes = [], ro_client_ip = [], ro_version = [], ro_stamp_user = [], ro_env = []\<rparr>"

definition demo_request :: "string \<Rightarrow> TurnRequest" where
  "demo_request msg = \<lparr>tq_message = msg, tq_target = \<lparr>dt_bucket = [], dt_scope = [], dt_collection = []\<rparr>,
     tq_settings = demo_settings, tq_session = None, tq_prior_messages = [], tq_system_prompt = [],
     tq_tools = [[(''name'', GStr ''find'')]], tq_chat_request = [], tq_base_id = [], tq_pack_schema = None,
     tq_chat_id = [], tq_model = []\<rparr>"

lemma turn_verbs_in_catalog_witness:
  "turn_catalog demo_env demo_opts (demo_request ''hi'') = [(''find'', True)] \<and>
   list_all (catalog_call (turn_catalog demo_env demo_opts (demo_request ''hi'')))
     (calls_of (RunAgentTurn demo_env demo_opts (demo_request ''hi'') 0))"
  by (rule conjI, code_simp) (rule turn_verbs_in_catalog, simp add: demo_opts_def)

lemma demo_message_refused:
  "ja_must_refuse (AssessTurn (jb_env.truncate demo_env) ''initial instructions'' [])"
proof -
  have e: "jb_nfkc (jb_env.truncate demo_env) = (\<lambda>s. s)" by (simp add: jb_env.truncate_def demo_env_def)
  have "ja_must_refuse (AssessText (jb_env.truncate demo_env) ''initial instructions'' ''user_msg'')"
  proof (rule pattern_refuses)
    show "trim_space ''initial instructions'' \<noteq> []" by code_simp
    show "jb_pattern ''F4'' ''F'' HardRefuseScore ''initial_instructions'' rxF4 surfAsk \<in> set jbPatterns"
      by (simp add: jbPatterns_def)
    have "rx_match rxF4 (stripZW ''initial instructions'')" by code_simp
    then show "rx_match (jp_regex (jb_pattern ''F4'' ''F'' HardRefuseScore ''initial_instructions'' rxF4 surfAsk))
      (stripZW (jb_nfkc (jb_env.truncate demo_env) ''initial instructions''))" by (simp add: jb_pattern_def e)
  qed (simp_all add: jb_pattern_def surfAsk_def)
  then show ?thesis unfolding AssessTurn_def collapseHits_refuse hit_append AssessText_hit by simp
qed

lemma refused_message_silent_witness:
  "calls_of (RunAgentTurn demo_env demo_opts (demo_request ''initial instructions'') 0) = []"
  using refused_message_silent [of demo_env "demo_request ''initial instructions''" demo_opts 0] demo_message_refused
  by (simp add: demo_request_def demo_opts_def priorUserTexts_def map_filter_simps split: turn_end.splits)

end
