(* ===== verification/Config_Models.thy ===== *)
theory Config_Models
  imports Agent_Turn Zeus_Auth Stamps
begin

text \<open>
  The configuration of a client (src/config/models.go, snapshot.go, profiles.go, llm_roles.go): its record,
  the defaults, the public view, the named profiles and the model slice of a role. A float64 is the
  rational it denotes. The Go \<open>String\<close> methods are not modelled.
\<close>

section \<open>The record\<close>

definition AuthNone :: string where "AuthNone = ''none''"

definition validAuthMode :: "string \<Rightarrow> bool" where
  "validAuthMode m \<longleftrightarrow> m \<in> {AuthNone, ''basic'', ''bearer'', ''session'', ''certificate''}"

record LlmRoleConfig =
  rl_model :: string
  rl_api_key_env :: string
  rl_base_url :: string
  rl_provider :: string
  rl_temperature :: "rat option"

definition temp_value :: "rat option \<Rightarrow> gval" where
  "temp_value t = (case t of None \<Rightarrow> GNil | Some x \<Rightarrow> GFloat x)"

definition LlmRoleConfig_ToPublicDict :: "LlmRoleConfig \<Rightarrow> gmap" where
  "LlmRoleConfig_ToPublicDict r =
     [(''model'', nilIfEmpty (rl_model r)), (''api_key_env'', nilIfEmpty (rl_api_key_env r)),
      (''base_url'', nilIfEmpty (rl_base_url r)), (''provider'', nilIfEmpty (rl_provider r)),
      (''temperature'', temp_value (rl_temperature r))]"

record JobsConfig =
  jc_host_url :: string
  jc_watch_transport :: string
  jc_models :: gmap

record LlmProviderConfig =
  lp_provider :: string
  lp_base_url :: string
  lp_model :: string
  lp_api_key_env :: string
  lp_api_style :: string
  lp_context_window_tokens :: int
  lp_context_soft_limit :: rat
  lp_timeout_s :: rat
  lp_roles :: "LlmRoleConfig amap"

record SemanticCacheRecallConfig =
  sr_enabled :: bool
  sr_top_k :: int
  sr_min_score :: rat
  sr_types :: "string list"
  sr_min_query_chars :: int
  sr_timeout_ms :: int
  sr_fail_closed :: bool

record SemanticCacheInjectConfig =
  si_bag :: string
  si_key :: string
  si_max_chars :: int
  si_max_blocks :: int
  si_include_fields :: "string list"
  si_order :: string

record SemanticCacheWriteConfig =
  sw_enabled :: bool
  sw_on_turn_commit :: bool
  sw_explicit_only :: bool
  sw_user_message :: bool
  sw_assistant_summary :: bool
  sw_default_type :: string
  sw_types_allowed :: "string list"
  sw_min_chars :: int
  sw_max_chars_per_block :: int
  sw_max_blocks_per_turn :: int
  sw_ttl_seconds :: int
  sw_async :: bool

record SemanticCachePrivacyConfig =
  sp_redact_before_write :: bool
  sp_deny_regex :: "string list"

text \<open>The embedding settings are one flag.\<close>

record SemanticCacheConfig =
  sc_enabled :: bool
  sc_apply_to_modes :: "string list"
  sc_recall :: SemanticCacheRecallConfig
  sc_inject :: SemanticCacheInjectConfig
  sc_write :: SemanticCacheWriteConfig
  sc_prefer_summary :: bool
  sc_privacy :: SemanticCachePrivacyConfig
  sc_dev_user_id :: string

definition copyStrings :: "string list \<Rightarrow> string list" where
  "copyStrings xs = map (\<lambda>x. x) xs"

definition SemanticCache_ToPublicDict :: "SemanticCacheConfig \<Rightarrow> gmap" where
  "SemanticCache_ToPublicDict s = (let r = sc_recall s; i = sc_inject s; w = sc_write s in
     [(''enabled'', GBool (sc_enabled s)), (''apply_to_modes'', strs (copyStrings (sc_apply_to_modes s))),
      (''recall'', GObj [(''enabled'', GBool (sr_enabled r)), (''top_k'', GInt (sr_top_k r)),
        (''min_score'', GFloat (sr_min_score r)), (''types'', strs (copyStrings (sr_types r))),
        (''min_query_chars'', GInt (sr_min_query_chars r)), (''timeout_ms'', GInt (sr_timeout_ms r)),
        (''fail_closed'', GBool (sr_fail_closed r))]),
      (''inject'', GObj [(''bag'', GStr (si_bag i)), (''key'', GStr (si_key i)), (''max_chars'', GInt (si_max_chars i)),
        (''max_blocks'', GInt (si_max_blocks i)), (''include_fields'', strs (copyStrings (si_include_fields i))),
        (''order'', GStr (si_order i))]),
      (''write'', GObj [(''enabled'', GBool (sw_enabled w)), (''on_turn_commit'', GBool (sw_on_turn_commit w)),
        (''write_explicit_only'', GBool (sw_explicit_only w)), (''write_user_message'', GBool (sw_user_message w)),
        (''write_assistant_summary'', GBool (sw_assistant_summary w)), (''default_type'', GStr (sw_default_type w)),
        (''min_chars'', GInt (sw_min_chars w)), (''max_chars_per_block'', GInt (sw_max_chars_per_block w)),
        (''max_blocks_per_turn'', GInt (sw_max_blocks_per_turn w)), (''ttl_seconds'', GInt (sw_ttl_seconds w)),
        (''async'', GBool (sw_async w))]),
      (''embed'', GObj [(''prefer_summary_for_write'', GBool (sc_prefer_summary s))]),
      (''privacy'', GObj [(''redact_before_write'', GBool (sp_redact_before_write (sc_privacy s))),
        (''deny_regex_count'', GInt (int (length (sp_deny_regex (sc_privacy s)))))]),
      (''has_dev_user_id'', GBool (sc_dev_user_id s \<noteq> []))])"

record RetryPolicy =
  rp_max_attempts :: int
  rp_base_delay_ms :: int
  rp_max_delay_ms :: int
  rp_jitter :: bool

record RedactionPolicy =
  rd_enabled :: bool
  rd_preview_max_chars :: int

record ConfigDebug = DebugPolicy +
  dbg_capture_bodies :: bool
  dbg_transport_replay :: bool

record RateLimitPolicy =
  rt_typeahead_enabled :: bool
  rt_typeahead_rps :: rat
  rt_typeahead_burst :: rat

record LoggingPolicy =
  lg_level :: string
  lg_redact :: bool
  lg_otel_enabled :: bool
  lg_otel_endpoint :: string
  lg_service_name :: string
  lg_service_version :: string

record RuntimeConfig =
  rc_profile :: string
  rc_user :: string
  rc_zeus :: ZeusEndpointConfig
  rc_target :: DataTarget
  rc_llm :: LlmProviderConfig
  rc_settings :: ClientSettings
  rc_retry :: RetryPolicy
  rc_redaction :: RedactionPolicy
  rc_debug :: ConfigDebug
  rc_rate_limit :: RateLimitPolicy
  rc_logging :: LoggingPolicy
  rc_client_ip :: string
  rc_chat_requests_dir :: string
  rc_jobs :: JobsConfig
  rc_client_floor :: string
  rc_allow_degraded_catalog :: bool
  rc_scope_contracts :: gmap
  rc_production_base_id :: string
  rc_semantic_cache :: SemanticCacheConfig

section \<open>Defaults\<close>

definition defaultSemanticCache :: SemanticCacheConfig where
  "defaultSemanticCache = \<lparr>sc_enabled = False, sc_apply_to_modes = [''agent''],
     sc_recall = \<lparr>sr_enabled = True, sr_top_k = 5, sr_min_score = 0,
       sr_types = [''profile'', ''semantic'', ''conversational''], sr_min_query_chars = 12, sr_timeout_ms = 150,
       sr_fail_closed = False\<rparr>,
     sc_inject = \<lparr>si_bag = ''B'', si_key = ''semantic_memory'', si_max_chars = 4000, si_max_blocks = 5,
       si_include_fields = [''summary'', ''text''], si_order = ''score_desc''\<rparr>,
     sc_write = \<lparr>sw_enabled = True, sw_on_turn_commit = True, sw_explicit_only = True, sw_user_message = False,
       sw_assistant_summary = False, sw_default_type = ''conversational'',
       sw_types_allowed = [''conversational'', ''profile'', ''semantic''], sw_min_chars = 24,
       sw_max_chars_per_block = 2000, sw_max_blocks_per_turn = 3, sw_ttl_seconds = 604800, sw_async = True\<rparr>,
     sc_prefer_summary = True, sc_privacy = \<lparr>sp_redact_before_write = False, sp_deny_regex = []\<rparr>,
     sc_dev_user_id = []\<rparr>"

text \<open>The float64 nearest to 0.8.\<close>

definition soft_limit_default :: rat where
  "soft_limit_default = 3602879701896397 / 4503599627370496"

definition DefaultConfig :: RuntimeConfig where
  "DefaultConfig = \<lparr>rc_profile = ''development'', rc_user = ''zeus_client'',
     rc_zeus = \<lparr>ep_url = ''http://127.0.0.1:8080'', ep_auth_mode = AuthNone, ep_username = [], ep_password_env = [],
       ep_token_env = [], ep_timeout_s = 30, ep_tls_verify = True, ep_scope_credentials = [], ep_cert_file = [],
       ep_key_file = [], ep_key_file_env = []\<rparr>,
     rc_target = \<lparr>dt_bucket = ''yelp-data'', dt_scope = ''_default'', dt_collection = ''_default''\<rparr>,
     rc_llm = \<lparr>lp_provider = ''xai'', lp_base_url = ''https://api.x.ai/v1'', lp_model = ''grok-4-1-non-reasoning'',
       lp_api_key_env = ''XAI_API_KEY'', lp_api_style = [], lp_context_window_tokens = 128000,
       lp_context_soft_limit = soft_limit_default, lp_timeout_s = 120, lp_roles = []\<rparr>,
     rc_settings = \<lparr>stg_ai_process_result = False, stg_max_rounds = 8, stg_force_trace = False,
       stg_mode = ''analytics'', stg_durable_sessions = False, stg_sticky_flags = [], stg_messages = [],
       stg_soft_require_policy_action = True, stg_app_output_on_error = ''strip'', stg_output_request = None,
       stg_rules = [], stg_tenant_rules = [], stg_override_defaults = False, stg_company_context = [],
       stg_locale = [], stg_language = [], stg_timezone = [], stg_channel = [], stg_market = [],
       stg_deployment_id = [], stg_ruleset_id = [], stg_force_return_rounds_left = 1,
       stg_ignore_user_tool_path_hints = True, stg_tool_trail_enabled = True, stg_tool_trail_inject = True,
       stg_tool_trail_max_entries = 16\<rparr>,
     rc_retry = \<lparr>rp_max_attempts = 3, rp_base_delay_ms = 200, rp_max_delay_ms = 5000, rp_jitter = True\<rparr>,
     rc_redaction = \<lparr>rd_enabled = True, rd_preview_max_chars = 2048\<rparr>,
     rc_debug = \<lparr>dbg_detective_briefing = False, dbg_hub_base_url = [], dbg_rewind = False,
       dbg_capture_bodies = False, dbg_transport_replay = True\<rparr>,
     rc_rate_limit = \<lparr>rt_typeahead_enabled = True, rt_typeahead_rps = 10, rt_typeahead_burst = 20\<rparr>,
     rc_logging = \<lparr>lg_level = ''info'', lg_redact = True, lg_otel_enabled = False, lg_otel_endpoint = [],
       lg_service_name = ''zeus_client'', lg_service_version = []\<rparr>,
     rc_client_ip = [], rc_chat_requests_dir = [],
     rc_jobs = \<lparr>jc_host_url = [], jc_watch_transport = ''sse'', jc_models = []\<rparr>,
     rc_client_floor = ''client-floor-5'', rc_allow_degraded_catalog = False, rc_scope_contracts = [],
     rc_production_base_id = [], rc_semantic_cache = defaultSemanticCache\<rparr>"

section \<open>The public view\<close>

definition sorted_keys :: "'a amap \<Rightarrow> gval" where
  "sorted_keys m = strs (sort (map fst m))"

definition ToPublicDict :: "RuntimeConfig \<Rightarrow> gmap" where
  "ToPublicDict c = (let z = rc_zeus c; t = rc_target c; l = rc_llm c; s = rc_settings c; d = rc_debug c;
       lg = rc_logging c; j = rc_jobs c in
     [(''profile'', GStr (rc_profile c)), (''user'', GStr (rc_user c)),
      (''zeus'', GObj [(''url'', GStr (ep_url z)), (''auth_mode'', GStr (ep_auth_mode z)),
        (''username'', nilIfEmpty (ep_username z)), (''password_env'', nilIfEmpty (ep_password_env z)),
        (''token_env'', nilIfEmpty (ep_token_env z)), (''timeout_s'', GFloat (ep_timeout_s z)),
        (''tls_verify'', GBool (ep_tls_verify z)), (''cert_file'', nilIfEmpty (ep_cert_file z)),
        (''key_file_env'', nilIfEmpty (ep_key_file_env z))]),
      (''target'', GObj [(''bucket'', GStr (dt_bucket t)), (''scope'', GStr (dt_scope t)),
        (''collection'', GStr (dt_collection t))]),
      (''llm'', GObj [(''provider'', GStr (lp_provider l)), (''base_url'', GStr (lp_base_url l)),
        (''model'', GStr (lp_model l)), (''api_key_env'', GStr (lp_api_key_env l)),
        (''api_style'', nilIfEmpty (lp_api_style l)), (''context_window_tokens'', GInt (lp_context_window_tokens l)),
        (''context_soft_limit'', GFloat (lp_context_soft_limit l)), (''timeout_s'', GFloat (lp_timeout_s l)),
        (''roles'', GObj (map (\<lambda>(n, r). (n, GObj (LlmRoleConfig_ToPublicDict r))) (lp_roles l)))]),
      (''settings'', GObj [(''ai_process_result'', GBool (stg_ai_process_result s)),
        (''max_rounds'', GInt (stg_max_rounds s)), (''force_trace'', GBool (stg_force_trace s)),
        (''mode'', GStr (stg_mode s)), (''durable_sessions'', GBool (stg_durable_sessions s)),
        (''soft_require_policy_action'', GBool (stg_soft_require_policy_action s)),
        (''app_output_on_error'', GStr (stg_app_output_on_error s)),
        (''sticky_flag_keys'', sorted_keys (stg_sticky_flags s)), (''message_keys'', sorted_keys (stg_messages s)),
        (''has_output_request'', GBool (stg_output_request s \<noteq> None)), (''ruleset_id'', nilIfEmpty (stg_ruleset_id s)),
        (''has_rules'', GBool (0 < length (stg_rules s))),
        (''ignore_user_tool_path_hints'', GBool (stg_ignore_user_tool_path_hints s)),
        (''force_return_rounds_left'', GInt (stg_force_return_rounds_left s)),
        (''tool_trail_enabled'', GBool (stg_tool_trail_enabled s))]),
      (''retry'', GObj [(''max_attempts'', GInt (rp_max_attempts (rc_retry c))),
        (''base_delay_ms'', GInt (rp_base_delay_ms (rc_retry c))), (''max_delay_ms'', GInt (rp_max_delay_ms (rc_retry c))),
        (''jitter'', GBool (rp_jitter (rc_retry c)))]),
      (''redaction'', GObj [(''enabled'', GBool (rd_enabled (rc_redaction c))),
        (''preview_max_chars'', GInt (rd_preview_max_chars (rc_redaction c)))]),
      (''debug'', GObj [(''detective_briefing'', GBool (dbg_detective_briefing d)),
        (''capture_bodies'', GBool (dbg_capture_bodies d)), (''transport_replay'', GBool (dbg_transport_replay d)),
        (''rewind'', GBool (dbg_rewind d))]),
      (''rate_limit'', GObj [(''typeahead_enabled'', GBool (rt_typeahead_enabled (rc_rate_limit c))),
        (''typeahead_rps'', GFloat (rt_typeahead_rps (rc_rate_limit c))),
        (''typeahead_burst'', GFloat (rt_typeahead_burst (rc_rate_limit c)))]),
      (''logging'', GObj [(''level'', GStr (lg_level lg)), (''redact'', GBool (lg_redact lg)),
        (''otel_enabled'', GBool (lg_otel_enabled lg)), (''otel_endpoint'', nilIfEmpty (lg_otel_endpoint lg)),
        (''service_name'', GStr (lg_service_name lg)), (''service_version'', nilIfEmpty (lg_service_version lg))]),
      (''client'', GObj [(''ip_address'', nilIfEmpty (rc_client_ip c))]),
      (''chat_requests_dir'', nilIfEmpty (rc_chat_requests_dir c)),
      (''jobs'', GObj [(''host_url'', nilIfEmpty (jc_host_url j)), (''watch_transport'', GStr (jc_watch_transport j)),
        (''models'', GObj (map (\<lambda>(k, v). (k, v)) (jc_models j)))]),
      (''client_floor'', GStr (rc_client_floor c)), (''allow_degraded_catalog'', GBool (rc_allow_degraded_catalog c)),
      (''scope_contract_keys'', sorted_keys (rc_scope_contracts c)),
      (''production_base_id'', nilIfEmpty (rc_production_base_id c)),
      (''semantic_cache'', GObj (SemanticCache_ToPublicDict (rc_semantic_cache c)))])"

section \<open>Snapshots\<close>

definition copyMap :: "'a amap \<Rightarrow> 'a amap" where
  "copyMap m = map (\<lambda>(k, v). (k, v)) m"

definition cloneRoles :: "LlmRoleConfig amap \<Rightarrow> LlmRoleConfig amap" where
  "cloneRoles m = map (\<lambda>(k, v). (k, v\<lparr>rl_temperature := map_option (\<lambda>t. t) (rl_temperature v)\<rparr>)) m"

definition cloneNestedStringMap :: "string amap amap \<Rightarrow> string amap amap" where
  "cloneNestedStringMap m = map (\<lambda>(k, v). (k, copyMap v)) m"

definition clone_cache :: "SemanticCacheConfig \<Rightarrow> SemanticCacheConfig" where
  "clone_cache s = (let f = (if sc_enabled s then copyStrings else (\<lambda>xs. [])) in
     s\<lparr>sc_apply_to_modes := f (sc_apply_to_modes s),
       sc_recall := (sc_recall s)\<lparr>sr_types := f (sr_types (sc_recall s))\<rparr>,
       sc_inject := (sc_inject s)\<lparr>si_include_fields := f (si_include_fields (sc_inject s))\<rparr>,
       sc_write := (sc_write s)\<lparr>sw_types_allowed := f (sw_types_allowed (sc_write s))\<rparr>,
       sc_privacy := (sc_privacy s)\<lparr>sp_deny_regex := f (sp_deny_regex (sc_privacy s))\<rparr>\<rparr>)"

definition Snapshot :: "RuntimeConfig \<Rightarrow> RuntimeConfig" where
  "Snapshot c = c
     \<lparr>rc_zeus := (rc_zeus c)\<lparr>ep_scope_credentials := cloneNestedStringMap (ep_scope_credentials (rc_zeus c))\<rparr>,
      rc_llm := (rc_llm c)\<lparr>lp_roles := cloneRoles (lp_roles (rc_llm c))\<rparr>,
      rc_settings := (rc_settings c)
        \<lparr>stg_sticky_flags := copyMap (stg_sticky_flags (rc_settings c)),
         stg_messages := copyMap (stg_messages (rc_settings c)),
         stg_output_request := map_option copyMap (stg_output_request (rc_settings c)),
         stg_rules := copyMap (stg_rules (rc_settings c)),
         stg_tenant_rules := copyMap (stg_tenant_rules (rc_settings c))\<rparr>,
      rc_jobs := (rc_jobs c)\<lparr>jc_models := (if length (jc_models (rc_jobs c)) = 0 then []
        else copyMap (jc_models (rc_jobs c)))\<rparr>,
      rc_scope_contracts := copyMap (rc_scope_contracts c),
      rc_semantic_cache := clone_cache (rc_semantic_cache c)\<rparr>"

section \<open>Profiles\<close>

definition Profiles :: "string list" where
  "Profiles = [''development'', ''production'', ''ci'', ''hub'']"

definition ListProfiles :: "string list" where
  "ListProfiles = copyStrings Profiles"

abbreviation "NewConfig \<equiv> NewFamily FConfig"

definition profilesComponent :: string where "profilesComponent = ''config.profiles''"

definition ValidateProductionSecurity :: "RuntimeConfig \<Rightarrow> zerror option" where
  "ValidateProductionSecurity cfg =
     (if ep_auth_mode (rc_zeus cfg) = AuthNone then Some (NewConfig CodeConfigInvalid profilesComponent
        [WithMessage ''production profile rejects zeus.auth_mode=none; use basic, bearer, or session''])
      else if \<not> ep_tls_verify (rc_zeus cfg) then Some (NewConfig CodeConfigInvalid profilesComponent
        [WithMessage ''production profile rejects zeus.tls_verify=false; TLS verification is required''])
      else None)"

text \<open>The policies of a profile: preview size, detective briefing, body capture.\<close>

definition set_policies :: "string \<Rightarrow> int \<Rightarrow> bool \<Rightarrow> bool \<Rightarrow> RuntimeConfig \<Rightarrow> RuntimeConfig" where
  "set_policies name preview detective capture cfg = cfg
     \<lparr>rc_profile := name, rc_redaction := \<lparr>rd_enabled = True, rd_preview_max_chars = preview\<rparr>,
      rc_debug := (rc_debug cfg)\<lparr>dbg_detective_briefing := detective, dbg_capture_bodies := capture,
        dbg_transport_replay := True\<rparr>\<rparr>"

definition withAIProcessResult :: "bool \<Rightarrow> RuntimeConfig \<Rightarrow> RuntimeConfig" where
  "withAIProcessResult v cfg = cfg\<lparr>rc_settings := (rc_settings cfg)\<lparr>stg_ai_process_result := v\<rparr>\<rparr>"

definition dev_logging :: "LoggingPolicy \<Rightarrow> LoggingPolicy" where
  "dev_logging l = (if lg_level l = ''info'' then l\<lparr>lg_level := ''debug''\<rparr> else l)"

definition prod_logging :: "LoggingPolicy \<Rightarrow> LoggingPolicy" where
  "prod_logging l = l
     \<lparr>lg_level := (if lg_level l \<in> {''error'', ''info'', ''debug'', ''trace''} then lg_level l else ''info''),
      lg_redact := True, lg_otel_enabled := (lg_otel_endpoint l \<noteq> [] \<or> lg_otel_enabled l)\<rparr>"

definition profile_name :: "string \<Rightarrow> string" where
  "profile_name profile = (let n = to_lower (trim_space profile) in if n = [] then ''development'' else n)"

definition apply_named :: "RuntimeConfig \<Rightarrow> string \<Rightarrow> zerror + RuntimeConfig" where
  "apply_named cfg name =
    (if name = ''dev'' \<or> name = ''development'' then
       (let c = set_policies ''development'' 16384 False True cfg in
        Inr (c\<lparr>rc_logging := dev_logging (rc_logging c)\<rparr>))
     else if name = ''prod'' \<or> name = ''production'' then
       (let c = withAIProcessResult False (set_policies ''production'' 2048 False False cfg);
            c = c\<lparr>rc_logging := prod_logging (rc_logging c)\<rparr> in
        case ValidateProductionSecurity c of Some e \<Rightarrow> Inl e | None \<Rightarrow> Inr c)
     else if name = ''ci'' then Inr (withAIProcessResult False (set_policies ''ci'' 4096 False False cfg))
     else if name = ''hub'' then Inr (withAIProcessResult True (set_policies ''hub'' 16384 True True cfg))
     else Inr (set_policies name 16384 False True cfg))"

definition ApplyProfile :: "RuntimeConfig \<Rightarrow> string \<Rightarrow> zerror + RuntimeConfig" where
  "ApplyProfile cfg profile = apply_named cfg (profile_name profile)"

section \<open>The model of a role\<close>

text \<open>A layer of the model settings: a value of a map, or the pointer to a role's temperature, which is
  present in the map when it is nil.\<close>

datatype llm_val = LVal gval | LPtr "rat option"

record ResolvedLlmSlice =
  rs_role :: string
  rs_model :: string
  rs_api_key_env :: string
  rs_base_url :: string
  rs_provider :: string
  rs_temperature :: "rat option"

definition Slice_ToPublicDict :: "ResolvedLlmSlice \<Rightarrow> gmap" where
  "Slice_ToPublicDict s =
     [(''role'', GStr (rs_role s)), (''model'', nilIfEmpty (rs_model s)),
      (''api_key_env'', nilIfEmpty (rs_api_key_env s)), (''base_url'', nilIfEmpty (rs_base_url s)),
      (''provider'', nilIfEmpty (rs_provider s)), (''temperature'', temp_value (rs_temperature s))]"

record ResolveLlmOpts =
  rz_role :: string
  rz_jobs :: "JobsConfig option"
  rz_job_models :: gmap
  rz_unit_llm :: gmap
  rz_unit_id :: string

definition llm_keys :: "string list" where
  "llm_keys = [''model'', ''api_key_env'', ''base_url'', ''provider'', ''temperature'']"

definition llm_pick :: "llm_val amap \<Rightarrow> string \<Rightarrow> llm_val option" where
  "llm_pick src key = (case map_of src key of
     None \<Rightarrow> None
   | Some v \<Rightarrow> (if v = LVal GNil then None
       else if v = LVal (GStr []) \<and> key \<noteq> ''temperature'' then None else Some v))"

definition mergeLLMPartial :: "llm_val amap \<Rightarrow> llm_val amap \<Rightarrow> llm_val amap" where
  "mergeLLMPartial dst src = fold (\<lambda>key d. case llm_pick src key of None \<Rightarrow> d | Some v \<Rightarrow> amap_put key v d) llm_keys dst"

definition vals :: "gmap \<Rightarrow> llm_val amap" where
  "vals m = map (\<lambda>(k, v). (k, LVal v)) m"

definition merge_obj :: "gval \<Rightarrow> llm_val amap \<Rightarrow> llm_val amap" where
  "merge_obj v dst = (case v of GObj m \<Rightarrow> mergeLLMPartial dst (vals m) | _ \<Rightarrow> dst)"

definition base_layer :: "LlmProviderConfig \<Rightarrow> llm_val amap" where
  "base_layer b = [(''model'', LVal (GStr (lp_model b))), (''api_key_env'', LVal (GStr (lp_api_key_env b))),
     (''base_url'', LVal (GStr (lp_base_url b))), (''provider'', LVal (GStr (lp_provider b))),
     (''temperature'', LVal GNil)]"

definition role_layer :: "LlmRoleConfig \<Rightarrow> llm_val amap" where
  "role_layer r = [(''model'', LVal (GStr (rl_model r))), (''api_key_env'', LVal (GStr (rl_api_key_env r))),
     (''base_url'', LVal (GStr (rl_base_url r))), (''provider'', LVal (GStr (rl_provider r))),
     (''temperature'', LPtr (rl_temperature r))]"

definition asLLMString :: "llm_val option \<Rightarrow> string" where
  "asLLMString v = (case v of Some (LVal (GStr s)) \<Rightarrow> s | _ \<Rightarrow> [])"

definition llm_temperature :: "llm_val option \<Rightarrow> rat option" where
  "llm_temperature v = (case v of Some (LPtr t) \<Rightarrow> t | Some (LVal (GFloat x)) \<Rightarrow> Some x | _ \<Rightarrow> None)"

definition unit_overlay :: "gmap \<Rightarrow> string \<Rightarrow> gval" where
  "unit_overlay jobModels unitID = (case mget jobModels ''units'' of
     GObj us \<Rightarrow> (if unitID \<noteq> [] then mget us unitID else GNil) | _ \<Rightarrow> GNil)"

definition ResolveLlmSlice :: "LlmProviderConfig \<Rightarrow> ResolveLlmOpts \<Rightarrow> ResolvedLlmSlice" where
  "ResolveLlmSlice base opts =
     (let role = (if rz_role opts = [] then ''worker'' else rz_role opts);
          a0 = base_layer base;
          a1 = (case map_of (lp_roles base) role of None \<Rightarrow> a0 | Some r \<Rightarrow> mergeLLMPartial a0 (role_layer r));
          a2 = (case rz_jobs opts of None \<Rightarrow> a1 | Some j \<Rightarrow> merge_obj (mget (jc_models j) role) a1);
          a3 = merge_obj (mget (rz_job_models opts) role) a2;
          a4 = merge_obj (unit_overlay (rz_job_models opts) (rz_unit_id opts)) a3;
          acc = (if role = ''worker'' then mergeLLMPartial a4 (vals (rz_unit_llm opts)) else a4)
      in \<lparr>rs_role = role, rs_model = asLLMString (map_of acc ''model''),
          rs_api_key_env = asLLMString (map_of acc ''api_key_env''), rs_base_url = asLLMString (map_of acc ''base_url''),
          rs_provider = asLLMString (map_of acc ''provider''), rs_temperature = llm_temperature (map_of acc ''temperature'')\<rparr>)"

text \<open>The reference: the layers in their order, of which the last one that gives a value wins.\<close>

definition obj_layer :: "gval \<Rightarrow> llm_val amap" where
  "obj_layer v = (case v of GObj m \<Rightarrow> vals m | _ \<Rightarrow> [])"

definition slice_layers :: "LlmProviderConfig \<Rightarrow> ResolveLlmOpts \<Rightarrow> llm_val amap list" where
  "slice_layers base opts = (let role = (if rz_role opts = [] then ''worker'' else rz_role opts) in
     [case map_of (lp_roles base) role of None \<Rightarrow> [] | Some r \<Rightarrow> role_layer r,
      case rz_jobs opts of None \<Rightarrow> [] | Some j \<Rightarrow> obj_layer (mget (jc_models j) role),
      obj_layer (mget (rz_job_models opts) role),
      obj_layer (unit_overlay (rz_job_models opts) (rz_unit_id opts)),
      if role = ''worker'' then vals (rz_unit_llm opts) else []])"

definition latest :: "llm_val amap \<Rightarrow> llm_val amap list \<Rightarrow> string \<Rightarrow> llm_val option" where
  "latest first layers key = (case List.map_filter (\<lambda>l. llm_pick l key) (rev layers) of
     [] \<Rightarrow> map_of first key | v # vs \<Rightarrow> Some v)"

lemma merge_get:
  "map_of (mergeLLMPartial dst src) key = (case (if key \<in> set llm_keys then llm_pick src key else None) of
     None \<Rightarrow> map_of dst key | Some v \<Rightarrow> Some v)"
  by (simp add: mergeLLMPartial_def llm_keys_def update_conv' split: option.split)

lemma llm_pick_Nil [simp]: "llm_pick [] k = None"
  by (simp add: llm_pick_def)

lemma merge_Nil [simp]: "mergeLLMPartial dst [] = dst"
  by (simp add: mergeLLMPartial_def llm_keys_def)

lemma merge_obj_layer: "merge_obj v dst = mergeLLMPartial dst (obj_layer v)"
  by (simp add: merge_obj_def obj_layer_def split: gval.split)

lemma fold_merge:
  "key \<in> set llm_keys \<Longrightarrow> map_of (fold (\<lambda>l d. mergeLLMPartial d l) layers first) key = latest first layers key"
proof (induction layers arbitrary: first rule: rev_induct)
  case Nil
  then show ?case by (simp add: latest_def List.map_filter_def)
next
  case (snoc l ls)
  then show ?case by (simp add: merge_get latest_def List.map_filter_def split: option.split)
qed

definition slice_of :: "string \<Rightarrow> llm_val amap \<Rightarrow> ResolvedLlmSlice" where
  "slice_of role acc = \<lparr>rs_role = role, rs_model = asLLMString (map_of acc ''model''),
     rs_api_key_env = asLLMString (map_of acc ''api_key_env''), rs_base_url = asLLMString (map_of acc ''base_url''),
     rs_provider = asLLMString (map_of acc ''provider''), rs_temperature = llm_temperature (map_of acc ''temperature'')\<rparr>"

lemma Resolve_fold:
  "ResolveLlmSlice base opts = slice_of (if rz_role opts = [] then ''worker'' else rz_role opts)
     (fold (\<lambda>l d. mergeLLMPartial d l) (slice_layers base opts) (base_layer base))"
  by (auto simp: ResolveLlmSlice_def slice_layers_def slice_of_def Let_def merge_obj_layer split: option.split)


text \<open>A value of another type wins too and erases the model.\<close>

lemma number_erases_model:
  assumes "mget (rz_unit_llm opts) ''model'' = GInt n" and "rz_role opts = ''worker''"
  shows "rs_model (ResolveLlmSlice base opts) = []"
proof -
  have "map_of (vals m) k = map_option LVal (map_of m k)" for m k
    unfolding vals_def by (induction m) auto
  then have "llm_pick (vals (rz_unit_llm opts)) ''model'' = Some (LVal (GInt n))"
    using assms(1) by (simp add: llm_pick_def mget_def split: option.splits)
  then show ?thesis using assms(2)
    by (simp add: ResolveLlmSlice_def Let_def merge_get llm_keys_def asLLMString_def)
qed

section \<open>Facts about profiles\<close>

lemma set_policies_simps [simp]:
  "rc_profile (set_policies n pv de ca c) = n" "rc_zeus (set_policies n pv de ca c) = rc_zeus c"
  "rc_logging (set_policies n pv de ca c) = rc_logging c" "rc_settings (set_policies n pv de ca c) = rc_settings c"
  "dbg_detective_briefing (rc_debug (set_policies n pv de ca c)) = de"
  "dbg_capture_bodies (rc_debug (set_policies n pv de ca c)) = ca"
  "set_policies n pv de ca (set_policies n' pv' de' ca' c) = set_policies n pv de ca c"
  by (simp_all add: set_policies_def)

lemma set_policies_comm [simp]:
  "set_policies n pv de ca (withAIProcessResult v c) = withAIProcessResult v (set_policies n pv de ca c)"
  "set_policies n pv de ca (c\<lparr>rc_logging := l\<rparr>) = (set_policies n pv de ca c)\<lparr>rc_logging := l\<rparr>"
  "withAIProcessResult v (c\<lparr>rc_logging := l\<rparr>) = (withAIProcessResult v c)\<lparr>rc_logging := l\<rparr>"
  "withAIProcessResult v (withAIProcessResult v' c) = withAIProcessResult v c"
  "rc_logging (withAIProcessResult v c) = rc_logging c" "rc_zeus (withAIProcessResult v c) = rc_zeus c"
  "rc_profile (withAIProcessResult v c) = rc_profile c" "rc_debug (withAIProcessResult v c) = rc_debug c"
  "stg_ai_process_result (rc_settings (withAIProcessResult v c)) = v"
  by (simp_all add: set_policies_def withAIProcessResult_def)

lemma logging_idem [simp]: "dev_logging (dev_logging l) = dev_logging l" "prod_logging (prod_logging l) = prod_logging l"
  by (simp_all add: dev_logging_def prod_logging_def)

text \<open>What a profile promises of a configuration.\<close>

definition profile_safe :: "RuntimeConfig \<Rightarrow> bool" where
  "profile_safe c \<longleftrightarrow> rd_enabled (rc_redaction c) \<and>
     (dbg_detective_briefing (rc_debug c) \<longleftrightarrow> rc_profile c = ''hub'') \<and>
     (if rc_profile c = ''production'' then
        ep_auth_mode (rc_zeus c) \<noteq> AuthNone \<and> ep_tls_verify (rc_zeus c) \<and> \<not> dbg_capture_bodies (rc_debug c) \<and>
        \<not> stg_ai_process_result (rc_settings c) \<and> lg_redact (rc_logging c) \<and>
        lg_level (rc_logging c) \<in> {''error'', ''info'', ''debug'', ''trace''}
      else True)"

lemma ApplyProfile_safe: "ApplyProfile cfg p = Inr c \<Longrightarrow> profile_safe c"
  by (auto simp: ApplyProfile_def apply_named_def Let_def profile_safe_def ValidateProductionSecurity_def set_policies_def
    withAIProcessResult_def prod_logging_def split: if_splits option.splits)

lemma ApplyProfile_idem: "ApplyProfile cfg p = Inr c \<Longrightarrow> ApplyProfile c p = Inr c"
  by (auto simp: ApplyProfile_def apply_named_def Let_def ValidateProductionSecurity_def split: if_splits option.splits)

lemma ApplyProfile_error:
  "ApplyProfile cfg p = Inl e \<longleftrightarrow> profile_name p \<in> {''prod'', ''production''} \<and> ValidateProductionSecurity cfg = Some e"
  by (auto simp: ApplyProfile_def apply_named_def Let_def ValidateProductionSecurity_def split: if_splits option.splits)

section \<open>Facts about snapshots\<close>

lemma copies [simp]: "copyStrings xs = xs" "copyMap m = m" "cloneRoles rs = rs" "cloneNestedStringMap nm = nm"
proof -
  show "copyStrings xs = xs" by (simp add: copyStrings_def)
  show c: "copyMap m = m" for m :: "'a amap" by (simp add: copyMap_def)
  show "cloneRoles rs = rs" unfolding cloneRoles_def by (induction rs) (auto simp: option.map_ident)
  have "copyMap m = m" for m :: "string amap" by (simp add: copyMap_def)
  then show "cloneNestedStringMap nm = nm" by (simp add: cloneNestedStringMap_def)
qed

lemma clone_cache_enabled: "sc_enabled s \<Longrightarrow> clone_cache s = s"
  by (simp add: clone_cache_def copyStrings_def [abs_def])

lemma clone_cache_idem: "clone_cache (clone_cache s) = clone_cache s"
  by (cases "sc_enabled s") (simp_all add: clone_cache_enabled, simp add: clone_cache_def Let_def)

text \<open>A snapshot is the configuration itself but for the lists of a disabled semantic cache.\<close>

lemma Snapshot_eq: "Snapshot c = c\<lparr>rc_semantic_cache := clone_cache (rc_semantic_cache c)\<rparr>"
  by (simp add: Snapshot_def option.map_ident copyMap_def [abs_def])

lemma Snapshot_idem: "Snapshot (Snapshot c) = Snapshot c"
  by (simp add: Snapshot_eq clone_cache_idem)

text \<open>The public view does not depend on the credentials, the key file, the texts of rules and messages,
  the contracts and the user id it could leak.\<close>

lemma ToPublicDict_hides:
  assumes "map fst msgs = map fst (stg_messages (rc_settings c))"
    and "map fst sc = map fst (rc_scope_contracts c)" and "uid = [] \<longleftrightarrow> sc_dev_user_id (rc_semantic_cache c) = []"
  shows "ToPublicDict (c\<lparr>rc_zeus := (rc_zeus c)\<lparr>ep_scope_credentials := creds, ep_key_file := kf\<rparr>,
      rc_settings := (rc_settings c)\<lparr>stg_messages := msgs, stg_company_context := cc\<rparr>, rc_scope_contracts := sc,
      rc_semantic_cache := (rc_semantic_cache c)\<lparr>sc_dev_user_id := uid\<rparr>\<rparr>) = ToPublicDict c"
  unfolding ToPublicDict_def Let_def sorted_keys_def SemanticCache_ToPublicDict_def
  using assms by simp

text \<open>The models of the jobs are copied into it as they are.\<close>

lemma job_models_public: "mget (ToPublicDict c) ''jobs'' = GObj [(''host_url'', nilIfEmpty (jc_host_url (rc_jobs c))),
    (''watch_transport'', GStr (jc_watch_transport (rc_jobs c))), (''models'', GObj (jc_models (rc_jobs c)))]"
  by (simp add: ToPublicDict_def Let_def mget_def)

end
