(* ===== verification/Llm_Client.thy ===== *)
theory Llm_Client
  imports Llm_Classify Turn_Tools Config_Models
begin

text \<open>
  The OpenAI-compatible client (src/adapters/llmopenai): the payload of a completion, the answer's reading,
  cache hints, back-off, and \<open>Complete\<close> with its retries under the budget. The environment gives the HTTP
  port, the secrets, the clock, the context, the codec, the host of a URL, the timer and the random number of
  the jitter; a sleep given by the caller replaces the timer. The field \<open>oc_sent\<close> is a ghost: the requests
  given to the HTTP port so far, in order.
\<close>

section \<open>Payload and answer\<close>

definition llmComponent :: string where "llmComponent = ''adapters.llm_openai_compatible''"

definition defaultAPIStyle :: string where "defaultAPIStyle = ''openai_compatible''"

definition CacheHints :: "string \<Rightarrow> string \<Rightarrow> string \<Rightarrow> string amap \<times> gmap" where
  "CacheHints providerID baseURL convID =
     (if convID = [] then ([], [])
      else (let pid = to_lower providerID; url = to_lower baseURL in
        if pid = ''grok'' \<or> pid = ''xai'' \<or> str_contains url ''x.ai'' then ([(''x-grok-conv-id'', convID)], [])
        else if pid = ''openai'' \<or> str_contains url ''api.openai.com'' then ([], [(''prompt_cache_key'', GStr convID)])
        else ([], [])))"

text \<open>\<open>int(x)\<close> of a float64 outside int64 is the smallest int64, as on amd64.\<close>

definition int_of_float :: "rat \<Rightarrow> int" where
  "int_of_float x = (let n = trunc_rat x in if - (2 ^ 63) \<le> n \<and> n < 2 ^ 63 then n else - (2 ^ 63))"

definition llm_asInt :: "gval \<Rightarrow> int option" where
  "llm_asInt v = (case v of GInt n \<Rightarrow> Some n | GFloat x \<Rightarrow> Some (int_of_float x) | _ \<Rightarrow> None)"

definition CachedTokensOf :: "gmap \<Rightarrow> int option" where
  "CachedTokensOf resp = (case mget resp ''usage'' of
     GObj usage \<Rightarrow> (case (case mget usage ''prompt_tokens_details'' of
         GObj details \<Rightarrow> llm_asInt (mget details ''cached_tokens'') | _ \<Rightarrow> None) of
       Some n \<Rightarrow> Some n | None \<Rightarrow> llm_asInt (mget usage ''cached_tokens''))
   | _ \<Rightarrow> None)"

definition llm_copyMap :: "gmap \<Rightarrow> gmap" where "llm_copyMap m = map (\<lambda>(k, v). (k, v)) m"

definition BuildChatPayload :: "string \<Rightarrow> gmap list \<Rightarrow> gmap list \<Rightarrow> rat option \<Rightarrow> int option \<Rightarrow> gmap \<Rightarrow> gmap" where
  "BuildChatPayload model messages tools temperature maxTokens bodyExtra =
     fold (\<lambda>(k, v). amap_put k v) bodyExtra
       ([(''model'', GStr model), (''messages'', GArr (map (GObj \<circ> llm_copyMap) messages))] @
        (case temperature of None \<Rightarrow> [] | Some t \<Rightarrow> [(''temperature'', GFloat t)]) @
        (case maxTokens of None \<Rightarrow> [] | Some n \<Rightarrow> [(''max_tokens'', GInt n)]) @
        (if 0 < length tools then [(''tools'', GArr (map (GObj \<circ> llm_copyMap) tools)), (''tool_choice'', GStr ''auto'')]
         else []))"

definition stringify :: "gval \<Rightarrow> string" where "stringify v = (case v of GStr s \<Rightarrow> s | _ \<Rightarrow> [])"

definition first_message :: "gmap \<Rightarrow> gmap option" where
  "first_message body = (case mget body ''choices'' of
     GArr (GObj ch # _) \<Rightarrow> (case mget ch ''message'' of GObj msg \<Rightarrow> Some msg | _ \<Rightarrow> None)
   | _ \<Rightarrow> None)"

definition ParseCompletionResponse :: "gmap \<Rightarrow> LlmResponse" where
  "ParseCompletionResponse body =
     \<lparr>lr_content = (case first_message body of None \<Rightarrow> [] | Some msg \<Rightarrow> stringify (mget msg ''content'')),
      lr_tool_calls = (case first_message body of None \<Rightarrow> [] | Some msg \<Rightarrow> (case mget msg ''tool_calls'' of
          GArr xs \<Rightarrow> List.map_filter (\<lambda>v. case v of GObj m \<Rightarrow> Some (Some (llm_copyMap m)) | _ \<Rightarrow> None) xs | _ \<Rightarrow> [])),
      lr_raw = llm_copyMap body,
      lr_usage = (case mget body ''usage'' of GObj u \<Rightarrow> llm_copyMap u | _ \<Rightarrow> [])\<rparr>"

section \<open>The client\<close>

record LlmClient =
  oc_config :: LlmProviderConfig
  oc_retry :: RetryPolicy
  oc_budget :: "RetryBudget option"
  oc_journal :: "InMemoryJournal option"
  oc_turn_id :: string
  oc_owns_http :: bool
  oc_closed :: bool
  oc_logs :: "log_event list"
  oc_sent :: "HTTPRequest list"

record 's llm_env =
  oe_http :: "'s http"
  oe_close :: "'s \<Rightarrow> go_error option \<times> 's"
  oe_secret :: "string \<Rightarrow> string option"
  oe_ctx :: "'s \<Rightarrow> ctx_error option"
  oe_sleep :: "(int \<Rightarrow> 's \<Rightarrow> call_error option \<times> 's) option"
  oe_timer :: "int \<Rightarrow> 's \<Rightarrow> ctx_error option \<times> 's"
  oe_jitter :: "'s \<Rightarrow> rat \<times> 's"
  oe_now_ms :: "'s \<Rightarrow> int"
  oe_elapsed_ms :: "'s \<Rightarrow> 's \<Rightarrow> int"
  oe_event_id :: "'s \<Rightarrow> string"
  oe_marshal :: "gval \<Rightarrow> string + string"
  oe_unmarshal :: "string \<Rightarrow> string + gval"
  oe_scan_float :: "string \<Rightarrow> rat option"
  oe_ff :: "rat \<Rightarrow> string"
  oe_host :: "string \<Rightarrow> string option"

definition llm_New :: "LlmProviderConfig \<Rightarrow> RetryPolicy \<Rightarrow> RetryBudget option \<Rightarrow> InMemoryJournal option \<Rightarrow> string \<Rightarrow> bool \<Rightarrow> LlmClient" where
  "llm_New cfg retry budget jr turnID http_given =
     \<lparr>oc_config = cfg, oc_retry = retry, oc_budget = budget, oc_journal = jr, oc_turn_id = turnID,
      oc_owns_http = (\<not> http_given), oc_closed = False, oc_logs = [], oc_sent = []\<rparr>"

definition llm_Logs :: "(rat \<Rightarrow> string) \<Rightarrow> LlmClient \<Rightarrow> string" where
  "llm_Logs ff c = join_with [CHR 0x0A] (map (formatAuthLog ff) (oc_logs c))"

definition llm_Close :: "'s llm_env \<Rightarrow> LlmClient \<Rightarrow> 's \<Rightarrow> (go_error option \<times> LlmClient) \<times> 's" where
  "llm_Close env c s =
     (if oc_closed c then ((None, c), s)
      else (let c1 = c\<lparr>oc_closed := True\<rparr> in
        if oc_owns_http c then (let (e, s1) = oe_close env s in ((e, c1), s1)) else ((None, c1), s)))"

definition timeoutDuration :: "rat \<Rightarrow> int" where
  "timeoutDuration seconds = (if seconds \<le> 0 then 120 * 10 ^ 9 else duration_of seconds)"

definition hostOf :: "'s llm_env \<Rightarrow> string \<Rightarrow> string" where
  "hostOf env raw = (case oe_host env raw of None \<Rightarrow> [] | Some h \<Rightarrow> h)"

definition statusOrNil :: "int option \<Rightarrow> gval" where
  "statusOrNil p = (case p of None \<Rightarrow> GNil | Some n \<Rightarrow> GInt n)"

definition llm_emit :: "string \<Rightarrow> string \<Rightarrow> gmap \<Rightarrow> LlmClient \<Rightarrow> LlmClient" where
  "llm_emit level msg attrs c = c\<lparr>oc_logs := oc_logs c @ [(level, msg, attrs)]\<rparr>"

definition llm_error :: "Code \<Rightarrow> opt list \<Rightarrow> call_error" where
  "llm_error code os = CallDomain (NewLLM code llmComponent os)"

definition llm_guard :: "ctx_error option \<Rightarrow> LlmClient \<Rightarrow> call_error option" where
  "llm_guard ctx c = (case ctxErr ctx of
     Some e \<Rightarrow> Some e
   | None \<Rightarrow> (if oc_closed c then Some (llm_error CodeAgentLLMRequestFailed [WithMessage ''llm client closed'']) else None))"

definition resolveAPIKey :: "'s llm_env \<Rightarrow> LlmClient \<Rightarrow> call_error + string" where
  "resolveAPIKey env c =
     (let name = trim_space (lp_api_key_env (oc_config c));
          val = (if name \<noteq> [] then oe_secret env name else None);
          missing = llm_error CodeLLMAPIKeyMissing
            [WithMessage ''llm api_key missing'', WithDetails [(''api_key_env'', GStr name)]]
      in case val of None \<Rightarrow> Inl missing | Some v \<Rightarrow> (if trim_space v = [] then Inl missing else Inr v))"

definition budgetForCall :: "LlmClient \<Rightarrow> RetryBudget" where
  "budgetForCall c = (case oc_budget c of
     Some b \<Rightarrow> b\<lparr>rb_attempts_used := 0, rb_ms_used := 0,
       rb_max_extra_ms := (if rb_max_extra_ms b = 0 then 30000 else rb_max_extra_ms b)\<rparr>
   | None \<Rightarrow> NewRetryBudget (rp_max_attempts (oc_retry c)))"

definition raiseClassified :: "'s llm_env \<Rightarrow> LlmClassification \<Rightarrow> string \<Rightarrow> string \<Rightarrow> LlmClient \<Rightarrow> call_error \<times> LlmClient" where
  "raiseClassified env cls provider model c =
     (let d0 = amap_put ''llm.base_url_host'' (GStr (hostOf env (lp_base_url (oc_config c))))
            (amap_put ''llm.model'' (GStr model) (amap_put ''llm.provider'' (GStr provider) (ToMeta cls)));
          details = (if lc_message_preview cls \<noteq> []
            then amap_put ''llm.message_preview'' (GStr (take 200 (lc_message_preview cls))) d0 else d0)
      in (llm_error (lc_code cls) [WithRetryable (lc_retryable cls), WithDetails details],
          llm_emit ''error'' ''zeus_client.llm.request_failed''
            [(''llm.provider'', GStr provider), (''llm.model'', GStr model), (''llm.error_class'', GStr (lc_class cls)),
             (''http.status_code'', statusOrNil (lc_http_status cls)), (''llm.retryable'', GBool (lc_retryable cls)),
             (''error.code'', GStr (lc_code cls)), (''error.message'', GStr ''llm request failed''),
             (''result'', GStr ''error'')] c))"

definition safe_usage :: "gmap \<Rightarrow> gmap" where
  "safe_usage usage =
     (let safe = List.map_filter (\<lambda>k. map_option (Pair k) (map_of usage k))
            [''prompt_tokens'', ''completion_tokens'', ''total_tokens'', ''cached_tokens'']
      in case CachedTokensOf [(''usage'', GObj usage)] of
           None \<Rightarrow> safe
         | Some ct \<Rightarrow> (if map_of safe ''cached_tokens'' = None then amap_put ''cached_tokens'' (GInt ct) safe else safe))"

text \<open>A usage is given only with an answer that was parsed.\<close>

definition journalRound ::
  "'s llm_env \<Rightarrow> bool \<Rightarrow> string \<Rightarrow> int \<Rightarrow> LlmClassification option \<Rightarrow> gmap option \<Rightarrow> int \<Rightarrow> int \<Rightarrow> 's \<Rightarrow> LlmClient \<Rightarrow> LlmClient" where
  "journalRound env k model attempt cls usage latency calls s c = (case oc_journal c of
     None \<Rightarrow> c
   | Some j \<Rightarrow>
      (let d0 = [(''ok'', GBool k), (''llm.provider'', GStr (lp_provider (oc_config c))), (''llm.model'', GStr model),
             (''llm.base_url_host'', GStr (hostOf env (lp_base_url (oc_config c)))), (''attempt'', GInt attempt),
             (''tool_call_count'', GInt calls), (''latency_ms'', GInt latency)];
           d1 = (case usage of None \<Rightarrow> d0 | Some u \<Rightarrow> amap_put ''usage'' (GObj (safe_usage u)) d0);
           d2 = (case cls of None \<Rightarrow> d1 | Some cl \<Rightarrow> fold (\<lambda>(k, v). amap_put k v) (ToMeta cl) d1)
       in c\<lparr>oc_journal := Some (Append \<lparr>jv_event_id = oe_event_id env s, jv_ts_ms = oe_now_ms env s, jv_type = EventLLMRound,
            jv_component = llmComponent, jv_turn_id = oc_turn_id c, jv_span_id = [], jv_parent_span_id = [], jv_data = d2,
            jv_payload_refs = []\<rparr> j)\<rparr>))"

definition doSleep :: "'s llm_env \<Rightarrow> int \<Rightarrow> 's \<Rightarrow> call_error option \<times> 's" where
  "doSleep env d s =
     (if d \<le> 0 then (case oe_sleep env of None \<Rightarrow> (None, s) | Some f \<Rightarrow> f 0 s)
      else (case oe_sleep env of
          Some f \<Rightarrow> f d s
        | None \<Rightarrow> (let (e, s1) = oe_timer env d s in (ctxErr e, s1))))"

definition put_tokens :: "string \<Rightarrow> int option \<Rightarrow> gmap \<Rightarrow> gmap" where
  "put_tokens k n attrs = (case n of None \<Rightarrow> attrs | Some i \<Rightarrow> amap_put k (GInt i) attrs)"

definition hangLLMTokenAttrs :: "gmap \<Rightarrow> gmap \<Rightarrow> gmap" where
  "hangLLMTokenAttrs attrs usage =
     put_tokens ''tokens.cached'' (CachedTokensOf [(''usage'', GObj usage)])
       (put_tokens ''tokens.output'' (llm_asInt (mget usage ''completion_tokens''))
         (put_tokens ''tokens.input'' (llm_asInt (mget usage ''prompt_tokens'')) attrs))"

definition classifyTransport :: "(rat \<Rightarrow> string) \<Rightarrow> go_error \<Rightarrow> LlmClassification" where
  "classifyTransport ff err =
     (let timeout = (case err of DomainError de \<Rightarrow> ze_code de = CodeContextDeadline \<or> ze_code de = CodeTimeout | _ \<Rightarrow> False) in
      ClassifyLlmFailure ff \<lparr>cl_status = 0, cl_has_status = False, cl_body = GNil,
        cl_transport_error = (\<not> timeout), cl_timeout = timeout\<rparr>)"

definition headerFold :: "string amap \<Rightarrow> string \<Rightarrow> string" where
  "headerFold h name = (case find (\<lambda>(k, v). equal_fold k name) h of None \<Rightarrow> [] | Some (k, v) \<Rightarrow> v)"

text \<open>json.Valid accepts exactly the texts that json.Unmarshal reads into an empty interface.\<close>

definition decodeLLMBody :: "'s llm_env \<Rightarrow> string amap \<Rightarrow> string \<Rightarrow> gval" where
  "decodeLLMBody env hdrs raw =
     (let text_body = GStr (take 2000 raw) in
      if has_prefix (to_lower (headerFold hdrs ''Content-Type'')) ''application/json'' \<or> isl (oe_unmarshal env raw) = False
      then (case oe_unmarshal env raw of Inr v \<Rightarrow> v | Inl e \<Rightarrow> text_body)
      else text_body)"

definition parseRetryAfter :: "'s llm_env \<Rightarrow> string amap \<Rightarrow> rat option" where
  "parseRetryAfter env hdrs = (let raw = trim_space (headerFold hdrs ''Retry-After'') in
     if raw = [] then None else oe_scan_float env raw)"

definition backoff_base :: "RetryPolicy \<Rightarrow> int \<Rightarrow> rat option \<Rightarrow> int" where
  "backoff_base policy attempt retryAfter =
     (let base = (case retryAfter of
          Some x \<Rightarrow> if 0 \<le> x then int_of_float (x * 1000)
            else wrap64 (rp_base_delay_ms policy * 2 ^ nat (min 16 (max 0 attempt)))
        | None \<Rightarrow> wrap64 (rp_base_delay_ms policy * 2 ^ nat (min 16 (max 0 attempt))))
      in if 0 < rp_max_delay_ms policy \<and> rp_max_delay_ms policy < base then rp_max_delay_ms policy else base)"

definition backoffMS :: "'s llm_env \<Rightarrow> RetryPolicy \<Rightarrow> int \<Rightarrow> rat option \<Rightarrow> 's \<Rightarrow> int \<times> 's" where
  "backoffMS env policy attempt retryAfter s =
     (let base = backoff_base policy attempt retryAfter;
          (base, s) = (if rp_jitter policy \<and> 0 < base
            then (let (r, s1) = oe_jitter env s in (int_of_float (of_int base * (1 / 2 + r * (1 / 2))), s1)) else (base, s))
      in (if base < 0 then 0 else base, s))"

section \<open>Complete\<close>

text \<open>What a call needs in its loop.\<close>

record llm_call =
  ll_request :: HTTPRequest
  ll_model :: string
  ll_provider :: string

definition llm_url :: "LlmClient \<Rightarrow> string" where
  "llm_url c = trim_right_set {CHR ''/''} (lp_base_url (oc_config c))"

definition llm_model :: "LlmClient \<Rightarrow> LlmRequest \<Rightarrow> string" where
  "llm_model c req = (let m = trim_space (lq_model req) in if m = [] then trim_space (lp_model (oc_config c)) else m)"

definition api_style :: "LlmClient \<Rightarrow> string" where
  "api_style c = (let s = to_lower (trim_space (lp_api_style (oc_config c))) in if s = [] then defaultAPIStyle else s)"

definition llm_payload :: "LlmClient \<Rightarrow> LlmRequest \<Rightarrow> gmap" where
  "llm_payload c req = BuildChatPayload (llm_model c req) (lq_messages req) (lq_tools req)
     (Some (case lq_temperature req of None \<Rightarrow> 0 | Some t \<Rightarrow> t)) (lq_max_tokens req)
     (snd (CacheHints (lp_provider (oc_config c)) (llm_url c) (lq_conv_id req)))"

definition llm_headers :: "LlmClient \<Rightarrow> LlmRequest \<Rightarrow> string \<Rightarrow> string amap" where
  "llm_headers c req apiKey = fold (\<lambda>(k, v). amap_put k v)
     (fst (CacheHints (lp_provider (oc_config c)) (llm_url c) (lq_conv_id req)))
     [(''Authorization'', ''Bearer '' @ apiKey), (''Content-Type'', ''application/json''), (''Accept'', ''application/json'')]"

definition llm_prepare :: "'s llm_env \<Rightarrow> LlmClient \<Rightarrow> LlmRequest \<Rightarrow> call_error + llm_call" where
  "llm_prepare env c req =
     (if equal_fold (trim_space (lp_provider (oc_config c))) ''custom'' \<and> api_style c \<noteq> defaultAPIStyle
      then Inl (llm_error CodeNotImplemented [WithMessage ''llm api_style not implemented''])
      else (case resolveAPIKey env c of
        Inl e \<Rightarrow> Inl e
      | Inr apiKey \<Rightarrow>
        (if llm_model c req = [] then Inl (llm_error CodeLLMModelMissing [WithMessage ''llm model missing''])
         else if llm_url c = [] then Inl (llm_error CodeLLMBaseURLMissing [WithMessage ''llm base_url missing''])
         else (case oe_marshal env (GObj (llm_payload c req)) of
           Inl t \<Rightarrow> Inl (llm_error CodeLLMInvalidRequest [WithCause t, WithMessage ''llm body encode failed''])
         | Inr raw \<Rightarrow> Inr \<lparr>ll_request = \<lparr>hq_method = ''POST'', hq_url = llm_url c @ ''/chat/completions'',
               hq_headers = llm_headers c req apiKey, hq_body = raw, hq_timeout_s = lp_timeout_s (oc_config c)\<rparr>,
             ll_model = llm_model c req, ll_provider = lp_provider (oc_config c)\<rparr>))))"

type_synonym 's llm_result = "(call_error + LlmResponse) \<times> LlmClient \<times> 's"

definition llm_finished :: "'s llm_env \<Rightarrow> llm_call \<Rightarrow> int \<Rightarrow> int \<Rightarrow> gmap \<Rightarrow> LlmClient \<Rightarrow> 's \<Rightarrow> 's llm_result" where
  "llm_finished env call attempt latency body c s =
     (let parsed = ParseCompletionResponse body;
          c1 = journalRound env True (ll_model call) attempt None (Some (lr_usage parsed)) latency
            (int (length (lr_tool_calls parsed))) s c;
          attrs = hangLLMTokenAttrs [(''llm.provider'', GStr (ll_provider call)), (''llm.model'', GStr (ll_model call)),
            (''duration_ms'', GInt latency), (''result'', GStr ''ok'')] (lr_usage parsed)
      in (Inr parsed, llm_emit ''info'' ''zeus_client.llm.request_finished'' attrs c1, s))"

definition llm_failed :: "'s llm_env \<Rightarrow> llm_call \<Rightarrow> LlmClassification \<Rightarrow> LlmClient \<Rightarrow> 's \<Rightarrow> 's llm_result" where
  "llm_failed env call cls c s = (case raiseClassified env cls (ll_provider call) (ll_model call) c of (e, c1) \<Rightarrow> (Inl e, c1, s))"

text \<open>One attempt: it ends the call, or it leaves a failure class that may be retried, with what the answer says
  about the wait.\<close>

datatype 's attempt_end =
    AttemptDone "'s llm_result"
  | AttemptFailed LlmClassification "rat option" LlmClient 's

definition llm_attempt :: "'s llm_env \<Rightarrow> llm_call \<Rightarrow> int \<Rightarrow> LlmClient \<Rightarrow> 's \<Rightarrow> 's attempt_end" where
  "llm_attempt env call attempt c s =
     (let (ans, s1) = oe_http env (ll_request call) s;
          latency = oe_elapsed_ms env s s1;
          c0 = c\<lparr>oc_sent := oc_sent c @ [ll_request call]\<rparr>
      in case ans of
        Inl err \<Rightarrow>
          (let cls = classifyTransport (oe_ff env) err;
               c1 = journalRound env False (ll_model call) attempt (Some cls) None latency 0 s1 c0
           in (case err of
               DomainError de \<Rightarrow> (if ze_code de = CodeCancelled then AttemptDone (Inl (CallDomain de), c1, s1)
                 else AttemptFailed cls None c1 s1)
             | OtherError t m \<Rightarrow> AttemptFailed cls None c1 s1))
      | Inr resp \<Rightarrow>
          (let body = decodeLLMBody env (hp_headers resp) (hp_body resp) in
           if hp_status resp < 400
           then (case body of
               GObj m \<Rightarrow> AttemptDone (llm_finished env call attempt latency m c0 s1)
             | _ \<Rightarrow> (let cls = ClassifyHTTP (oe_ff env) 500 body in
                 AttemptDone (llm_failed env call cls
                   (journalRound env False (ll_model call) attempt (Some cls) None latency 0 s1 c0) s1)))
           else (let cls = ClassifyHTTP (oe_ff env) (hp_status resp) body in
             AttemptFailed cls (parseRetryAfter env (hp_headers resp))
               (journalRound env False (ll_model call) attempt (Some cls) None latency 0 s1 c0) s1)))"

text \<open>The loop, with fuel; \<open>None\<close> stands for fuel that ran out.\<close>

fun llm_loop :: "nat \<Rightarrow> 's llm_env \<Rightarrow> llm_call \<Rightarrow> RetryBudget \<Rightarrow> int \<Rightarrow> LlmClient \<Rightarrow> 's \<Rightarrow> 's llm_result option" where
  "llm_loop 0 env call budget attempt c s = None"
| "llm_loop (Suc n) env call budget attempt c s = (case ctxErr (oe_ctx env s) of
     Some e \<Rightarrow> Some (Inl e, c, s)
   | None \<Rightarrow> (case llm_attempt env call attempt c s of
       AttemptDone r \<Rightarrow> Some r
     | AttemptFailed cls after c1 s1 \<Rightarrow>
         (let (delay, s2) = backoffMS env (oc_retry c1) attempt after s1 in
          if Allow budget (lc_retryable cls) delay
          then (case doSleep env (wrap64 (delay * 10 ^ 6)) s2 of
              (Some e, s3) \<Rightarrow> Some (Inl e, c1, s3)
            | (None, s3) \<Rightarrow> llm_loop n env call (Consume budget delay) (wrap64 (attempt + 1)) c1 s3)
          else Some (llm_failed env call cls c1 s2))))"

definition llm_fuel :: "LlmClient \<Rightarrow> nat" where
  "llm_fuel c = Suc (nat (rb_max_attempts (budgetForCall c)))"

definition Complete :: "'s llm_env \<Rightarrow> LlmRequest \<Rightarrow> LlmClient \<Rightarrow> 's \<Rightarrow> 's llm_result option" where
  "Complete env req c s = (case llm_guard (oe_ctx env s) c of
     Some e \<Rightarrow> Some (Inl e, c, s)
   | None \<Rightarrow> (case llm_prepare env c req of
       Inl e \<Rightarrow> Some (Inl e, c, s)
     | Inr call \<Rightarrow>
         llm_loop (llm_fuel c) env call (budgetForCall c) 0
           (llm_emit ''info'' ''zeus_client.llm.request_started''
             [(''llm.provider'', GStr (ll_provider call)), (''llm.model'', GStr (ll_model call)),
              (''llm.base_url_host'', GStr (hostOf env (lp_base_url (oc_config c))))] c) s))"

section \<open>A call ends, and its requests are bounded\<close>

lemma journalRound_keeps [simp]:
  "oc_sent (journalRound env k model attempt cls usage latency calls s c) = oc_sent c"
  "oc_retry (journalRound env k model attempt cls usage latency calls s c) = oc_retry c"
  "oc_config (journalRound env k model attempt cls usage latency calls s c) = oc_config c"
  by (simp_all add: journalRound_def Let_def split: option.split)

lemma emit_keeps [simp]:
  "oc_sent (llm_emit level msg attrs c) = oc_sent c" "oc_retry (llm_emit level msg attrs c) = oc_retry c"
  by (simp_all add: llm_emit_def)

lemma failed_sent: "llm_failed env call cls c s = (r, c', s') \<Longrightarrow> oc_sent c' = oc_sent c"
  by (auto simp: llm_failed_def raiseClassified_def Let_def)

lemma finished_sent: "llm_finished env call attempt latency body c s = (r, c', s') \<Longrightarrow> oc_sent c' = oc_sent c"
  by (auto simp: llm_finished_def Let_def)

text \<open>An attempt sends exactly one request.\<close>

definition end_client :: "'s attempt_end \<Rightarrow> LlmClient" where
  "end_client e = (case e of AttemptDone r \<Rightarrow> fst (snd r) | AttemptFailed cls after c s \<Rightarrow> c)"

lemma attempt_sent: "oc_sent (end_client (llm_attempt env call attempt c s)) = oc_sent c @ [ll_request call]"
proof -
  have f: "oc_sent (fst (snd (llm_failed env call cls c' s'))) = oc_sent c'" for cls c' s'
    using failed_sent [of env call cls c' s'] by (cases "llm_failed env call cls c' s'") auto
  have d: "oc_sent (fst (snd (llm_finished env call a l b c' s'))) = oc_sent c'" for a l b c' s'
    using finished_sent [of env call a l b c' s'] by (cases "llm_finished env call a l b c' s'") auto
  show ?thesis
    by (simp add: llm_attempt_def end_client_def Let_def f d split: prod.split sum.split go_error.split gval.split)
qed

lemma consume_used: "0 \<le> rb_attempts_used b \<Longrightarrow> Allow b k d \<Longrightarrow> rb_max_attempts b < 2 ^ 63 \<Longrightarrow>
   rb_attempts_used (Consume b d) = rb_attempts_used b + 1 \<and> rb_max_attempts (Consume b d) = rb_max_attempts b"
  by (auto simp: Consume_def Allow_def wrap64_id split: if_splits)

lemma loop_returns:
  assumes "0 \<le> rb_attempts_used b" and "rb_max_attempts b < 2 ^ 63" and "nat (rb_max_attempts b - rb_attempts_used b) < n"
  shows "\<exists>r c' s' k. llm_loop n env call b attempt c s = Some (r, c', s') \<and>
    oc_sent c' = oc_sent c @ replicate k (ll_request call) \<and> int k \<le> max 0 (rb_max_attempts b - rb_attempts_used b) + 1"
  using assms
proof (induction n arbitrary: b attempt c s)
  case 0
  then show ?case by simp
next
  case (Suc n)
  show ?case
  proof (cases "ctxErr (oe_ctx env s)")
    case (Some e)
    then show ?thesis by (intro exI [of _ "Inl e"] exI [of _ c] exI [of _ s] exI [of _ 0]) simp
  next
    case ctx: None
    note sent = attempt_sent [of env call attempt c s]
    show ?thesis
    proof (cases "llm_attempt env call attempt c s")
      case (AttemptDone r)
      obtain a c' s' where r: "r = (a, c', s')" by (cases r) auto
      show ?thesis
        using sent ctx AttemptDone by (intro exI [of _ a] exI [of _ c'] exI [of _ s'] exI [of _ 1]) (simp add: r end_client_def)
    next
      case (AttemptFailed cls after c1 s1)
      have c1: "oc_sent c1 = oc_sent c @ [ll_request call]" using sent AttemptFailed by (simp add: end_client_def)
      obtain delay s2 where d: "backoffMS env (oc_retry c1) attempt after s1 = (delay, s2)" by fastforce
      obtain e s3 where z: "doSleep env (wrap64 (delay * 10 ^ 6)) s2 = (e, s3)" by fastforce
      show ?thesis
      proof (cases "Allow b (lc_retryable cls) delay")
        case False
        obtain a c' s' where f: "llm_failed env call cls c1 s2 = (a, c', s')" using prod_cases3 by blast
        with False show ?thesis
          using failed_sent [OF f] c1 ctx AttemptFailed d
          by (intro exI [of _ a] exI [of _ c'] exI [of _ s'] exI [of _ 1]) simp
      next
        case True
        note u = consume_used [OF Suc.prems(1) True Suc.prems(2)]
        show ?thesis
        proof (cases e)
          case (Some x)
          then show ?thesis
            using c1 ctx AttemptFailed d z True
            by (intro exI [of _ "Inl x"] exI [of _ c1] exI [of _ s3] exI [of _ 1]) simp
        next
          case None
          have lt: "rb_attempts_used b < rb_max_attempts b" using True by (auto simp: Allow_def split: if_splits)
          have "\<exists>r c' s' k. llm_loop n env call (Consume b delay) (wrap64 (attempt + 1)) c1 s3 = Some (r, c', s') \<and>
              oc_sent c' = oc_sent c1 @ replicate k (ll_request call) \<and>
              int k \<le> max 0 (rb_max_attempts (Consume b delay) - rb_attempts_used (Consume b delay)) + 1"
            using Suc.prems u lt by (intro Suc.IH) auto
          then obtain r c' s' k where
            "llm_loop n env call (Consume b delay) (wrap64 (attempt + 1)) c1 s3 = Some (r, c', s')"
            "oc_sent c' = oc_sent c1 @ replicate k (ll_request call)" "int k \<le> rb_max_attempts b - rb_attempts_used b"
            using u lt by auto
          then show ?thesis
            using c1 ctx AttemptFailed d z True None
            by (intro exI [of _ r] exI [of _ c'] exI [of _ s'] exI [of _ "Suc k"]) simp
        qed
      qed
    qed
  qed
qed

text \<open>What the prepared request is.\<close>

lemma CacheHints_headers: "map_of (fst (CacheHints pid u conv)) k \<noteq> None \<Longrightarrow> k = ''x-grok-conv-id''"
  by (auto simp: CacheHints_def Let_def split: if_splits)

lemma llm_headers_auth: "map_of (llm_headers c req apiKey) ''Authorization'' = Some (''Bearer '' @ apiKey)"
proof -
  let ?h = "fst (CacheHints (lp_provider (oc_config c)) (llm_url c) (lq_conv_id req))"
  have "?h = [] \<or> ?h = [(''x-grok-conv-id'', lq_conv_id req)]"
    by (simp add: CacheHints_def Let_def)
  then show ?thesis unfolding llm_headers_def by (elim disjE ssubst) simp_all
qed

definition own_request :: "'s llm_env \<Rightarrow> LlmClient \<Rightarrow> HTTPRequest \<Rightarrow> bool" where
  "own_request env c q \<longleftrightarrow> hq_method q = ''POST'' \<and> llm_url c \<noteq> [] \<and> hq_url q = llm_url c @ ''/chat/completions'' \<and>
     (case resolveAPIKey env c of Inl e \<Rightarrow> False
      | Inr key \<Rightarrow> map_of (hq_headers q) ''Authorization'' = Some (''Bearer '' @ key))"

lemma prepared_own: "llm_prepare env c req = Inr call \<Longrightarrow> own_request env c (ll_request call)"
  by (auto simp: llm_prepare_def own_request_def llm_headers_auth split: if_splits sum.splits)


section \<open>The key is in the request only\<close>

lemma secret_env:
  "oe_http (env\<lparr>oe_secret := f\<rparr>) = oe_http env"
  "oe_close (env\<lparr>oe_secret := f\<rparr>) = oe_close env"
  "oe_ctx (env\<lparr>oe_secret := f\<rparr>) = oe_ctx env"
  "oe_sleep (env\<lparr>oe_secret := f\<rparr>) = oe_sleep env"
  "oe_timer (env\<lparr>oe_secret := f\<rparr>) = oe_timer env"
  "oe_jitter (env\<lparr>oe_secret := f\<rparr>) = oe_jitter env"
  "oe_now_ms (env\<lparr>oe_secret := f\<rparr>) = oe_now_ms env"
  "oe_elapsed_ms (env\<lparr>oe_secret := f\<rparr>) = oe_elapsed_ms env"
  "oe_event_id (env\<lparr>oe_secret := f\<rparr>) = oe_event_id env"
  "oe_marshal (env\<lparr>oe_secret := f\<rparr>) = oe_marshal env"
  "oe_unmarshal (env\<lparr>oe_secret := f\<rparr>) = oe_unmarshal env"
  "oe_scan_float (env\<lparr>oe_secret := f\<rparr>) = oe_scan_float env"
  "oe_ff (env\<lparr>oe_secret := f\<rparr>) = oe_ff env"
  "oe_host (env\<lparr>oe_secret := f\<rparr>) = oe_host env"
  by simp_all

lemma secret_hostOf: "hostOf (env\<lparr>oe_secret := f\<rparr>) = hostOf env"
  by (rule ext)+ (unfold hostOf_def secret_env , rule refl)

lemma secret_raiseClassified: "raiseClassified (env\<lparr>oe_secret := f\<rparr>) = raiseClassified env"
  by (rule ext)+ (unfold raiseClassified_def secret_env secret_hostOf, rule refl)

lemma secret_journalRound: "journalRound (env\<lparr>oe_secret := f\<rparr>) = journalRound env"
  by (rule ext)+ (unfold journalRound_def secret_env secret_hostOf, rule refl)

lemma secret_doSleep: "doSleep (env\<lparr>oe_secret := f\<rparr>) = doSleep env"
  by (rule ext)+ (unfold doSleep_def secret_env , rule refl)

lemma secret_decodeLLMBody: "decodeLLMBody (env\<lparr>oe_secret := f\<rparr>) = decodeLLMBody env"
  by (rule ext)+ (unfold decodeLLMBody_def secret_env , rule refl)

lemma secret_parseRetryAfter: "parseRetryAfter (env\<lparr>oe_secret := f\<rparr>) = parseRetryAfter env"
  by (rule ext)+ (unfold parseRetryAfter_def secret_env , rule refl)

lemma secret_backoffMS: "backoffMS (env\<lparr>oe_secret := f\<rparr>) = backoffMS env"
  by (rule ext)+ (unfold backoffMS_def secret_env , rule refl)

lemma secret_llm_finished: "llm_finished (env\<lparr>oe_secret := f\<rparr>) = llm_finished env"
  by (rule ext)+ (unfold llm_finished_def secret_env secret_journalRound, rule refl)

lemma secret_llm_failed: "llm_failed (env\<lparr>oe_secret := f\<rparr>) = llm_failed env"
  by (rule ext)+ (unfold llm_failed_def secret_env secret_raiseClassified, rule refl)

lemmas secret_free = secret_hostOf secret_raiseClassified secret_journalRound secret_doSleep secret_decodeLLMBody secret_parseRetryAfter secret_backoffMS secret_llm_finished secret_llm_failed

lemma secret_free_loop:
  "llm_attempt (env\<lparr>oe_secret := f\<rparr>) call attempt c s = llm_attempt env call attempt c s"
  "llm_loop n (env\<lparr>oe_secret := f\<rparr>) call budget attempt c s = llm_loop n env call budget attempt c s"
proof -
  show a: "llm_attempt (env\<lparr>oe_secret := f\<rparr>) call attempt c s = llm_attempt env call attempt c s" for attempt c s
    unfolding llm_attempt_def secret_free secret_env by (rule refl)
  show "llm_loop n (env\<lparr>oe_secret := f\<rparr>) call budget attempt c s = llm_loop n env call budget attempt c s"
  proof (induction n arbitrary: budget attempt c s)
    case (Suc n)
    show ?case unfolding llm_loop.simps a Suc secret_free secret_env by (rule refl)
  qed simp
qed

text \<open>The port that does not look at the headers: then two calls whose keys differ do the same.\<close>

definition blind :: "LlmClient \<Rightarrow> LlmClient" where "blind c = c\<lparr>oc_sent := []\<rparr>"

definition blind_result :: "'s llm_result \<Rightarrow> 's llm_result" where
  "blind_result r = (case r of (a, c, s) \<Rightarrow> (a, blind c, s))"

definition blind_end :: "'s attempt_end \<Rightarrow> 's attempt_end" where
  "blind_end e = (case e of AttemptDone r \<Rightarrow> AttemptDone (blind_result r) | AttemptFailed cls after c s \<Rightarrow> AttemptFailed cls after (blind c) s)"

definition same_call :: "llm_call \<Rightarrow> llm_call \<Rightarrow> bool" where
  "same_call a b \<longleftrightarrow> ll_model b = ll_model a \<and> ll_provider b = ll_provider a \<and>
     (\<exists>h. ll_request b = (ll_request a)\<lparr>hq_headers := h\<rparr>)"

lemma blind_parts [simp]:
  "blind (blind c) = blind c" "oc_retry (blind c) = oc_retry c" "oc_config (blind c) = oc_config c"
  "blind (c\<lparr>oc_sent := x\<rparr>) = blind c"
  "blind (journalRound env k model attempt cls usage latency calls s c) = journalRound env k model attempt cls usage latency calls s (blind c)"
  "blind (llm_emit level msg attrs c) = llm_emit level msg attrs (blind c)"
  by (simp_all add: blind_def journalRound_def llm_emit_def Let_def split: option.split)

lemma blind_failed: "blind_result (llm_failed env call cls c s) = llm_failed env call cls (blind c) s"
  by (simp add: blind_result_def llm_failed_def raiseClassified_def Let_def)

lemma blind_finished: "blind_result (llm_finished env call attempt latency body c s) = llm_finished env call attempt latency body (blind c) s"
  by (simp add: blind_result_def llm_finished_def Let_def)

definition key_blind :: "'s llm_env \<Rightarrow> bool" where
  "key_blind env \<longleftrightarrow> (\<forall>q h s. oe_http env (q\<lparr>hq_headers := h\<rparr>) s = oe_http env q s)"

lemma same_call_ends:
  assumes "same_call a b"
  shows "llm_finished env b = llm_finished env a" and "llm_failed env b = llm_failed env a" and "ll_model b = ll_model a"
  using assms by (auto simp: same_call_def llm_finished_def llm_failed_def fun_eq_iff)

lemma blind_attempt:
  assumes "same_call a b" and "key_blind env" and "blind c = blind c'"
  shows "blind_end (llm_attempt env b attempt c' s) = blind_end (llm_attempt env a attempt c s)"
proof -
  have q: "oe_http env (ll_request b) s = oe_http env (ll_request a) s"
    using assms(1,2) by (auto simp: same_call_def key_blind_def)
  obtain ans s1 where h: "oe_http env (ll_request a) s = (ans, s1)" by fastforce
  note m = same_call_ends [OF assms(1)]
  note u = llm_attempt_def q h split_conv Let_def m
  show ?thesis
  proof (cases ans)
    case (Inl err)
    then show ?thesis
      unfolding u by (cases err) (simp_all add: blind_end_def blind_result_def assms(3))
  next
    case (Inr resp)
    then show ?thesis
      unfolding u
      by (cases "decodeLLMBody env (hp_headers resp) (hp_body resp)")
        (simp_all add: blind_end_def blind_finished blind_failed assms(3))
  qed
qed

lemma blind_loop:
  assumes "same_call a b" and "key_blind env" and "blind c = blind c'"
  shows "map_option blind_result (llm_loop n env b budget attempt c' s) =
    map_option blind_result (llm_loop n env a budget attempt c s)"
  using assms(3)
proof (induction n arbitrary: budget attempt c c' s)
  case (Suc n)
  show ?case
  proof (cases "ctxErr (oe_ctx env s)")
    case (Some e)
    then show ?thesis using Suc.prems by (simp add: blind_result_def)
  next
    case ctx: None
    note e = blind_attempt [OF assms(1,2) Suc.prems, of attempt s]
    show ?thesis
    proof (cases "llm_attempt env a attempt c s")
      case (AttemptDone r)
      with e obtain r' where "llm_attempt env b attempt c' s = AttemptDone r'" "blind_result r' = blind_result r"
        by (cases "llm_attempt env b attempt c' s") (auto simp: blind_end_def)
      with ctx AttemptDone show ?thesis by simp
    next
      case (AttemptFailed cls after c1 s1)
      with e obtain c1' where f: "llm_attempt env b attempt c' s = AttemptFailed cls after c1' s1" "blind c1 = blind c1'"
        by (cases "llm_attempt env b attempt c' s") (auto simp: blind_end_def)
      have r: "oc_retry c1' = oc_retry c1" by (metis blind_parts(2) f(2))
      obtain delay s2 where d: "backoffMS env (oc_retry c1) attempt after s1 = (delay, s2)" by fastforce
      obtain z s3 where z: "doSleep env (wrap64 (delay * 10 ^ 6)) s2 = (z, s3)" by fastforce
      note u = llm_loop.simps(2) ctx option.case AttemptFailed f(1) attempt_end.case r d split_conv Let_def
      show ?thesis
      proof (cases "Allow budget (lc_retryable cls) delay")
        case True
        show ?thesis unfolding u if_P [OF True] z
          using Suc.IH [OF f(2)] f(2) by (cases z) (simp_all add: blind_result_def)
      next
        case False
        show ?thesis unfolding u if_not_P [OF False]
          by (simp add: blind_failed same_call_ends [OF assms(1)] f(2))
      qed
    qed
  qed
qed simp

lemma prepare_same:
  assumes "resolveAPIKey env c = Inr k" and "resolveAPIKey (env\<lparr>oe_secret := f\<rparr>) c = Inr k'"
  shows "(\<exists>e. llm_prepare env c req = Inl e \<and> llm_prepare (env\<lparr>oe_secret := f\<rparr>) c req = Inl e) \<or>
    (\<exists>a b. llm_prepare env c req = Inr a \<and> llm_prepare (env\<lparr>oe_secret := f\<rparr>) c req = Inr b \<and> same_call a b)"
  by (cases "oe_marshal env (GObj (llm_payload c req))") (simp_all add: llm_prepare_def assms same_call_def)


definition llm_demo_env :: "nat llm_env" where
  "llm_demo_env = \<lparr>oe_http = (\<lambda>q s. (Inr \<lparr>hp_status = (if s = 0 then 503 else 200), hp_headers = [], hp_body = ''x''\<rparr>, Suc s)),
     oe_close = (\<lambda>s. (None, s)), oe_secret = (\<lambda>n. Some ''key-1''), oe_ctx = (\<lambda>s. None),
     oe_sleep = Some (\<lambda>d s. (None, s)), oe_timer = (\<lambda>d s. (None, s)), oe_jitter = (\<lambda>s. (0, s)), oe_now_ms = int,
     oe_elapsed_ms = (\<lambda>a b. 1), oe_event_id = (\<lambda>s. ''evt''), oe_marshal = (\<lambda>v. Inr ''{}''),
     oe_unmarshal = (\<lambda>t. Inr (GObj [])), oe_scan_float = (\<lambda>t. None), oe_ff = (\<lambda>x. ''0''), oe_host = (\<lambda>u. Some ''h'')\<rparr>"

definition llm_demo_client :: LlmClient where
  "llm_demo_client = llm_New \<lparr>lp_provider = ''openai'', lp_base_url = ''http://h/v1/'', lp_model = ''m'', lp_api_key_env = ''KEY'',
      lp_api_style = [], lp_context_window_tokens = 0, lp_context_soft_limit = 0, lp_timeout_s = 30, lp_roles = []\<rparr>
     \<lparr>rp_max_attempts = 2, rp_base_delay_ms = 200, rp_max_delay_ms = 5000, rp_jitter = False\<rparr> None None ''turn'' True"

lemma demo_key: "resolveAPIKey llm_demo_env llm_demo_client = Inr ''key-1''"
  "resolveAPIKey (llm_demo_env\<lparr>oe_secret := (\<lambda>n. Some ''key-2'')\<rparr>) llm_demo_client = Inr ''key-2''"
proof -
  have "trim_space ''KEY'' = ''KEY''" "trim_space ''key-1'' = ''key-1''" "trim_space ''key-2'' = ''key-2''" by code_simp+
  then show "resolveAPIKey llm_demo_env llm_demo_client = Inr ''key-1''"
    "resolveAPIKey (llm_demo_env\<lparr>oe_secret := (\<lambda>n. Some ''key-2'')\<rparr>) llm_demo_client = Inr ''key-2''"
    by (simp_all add: resolveAPIKey_def llm_demo_env_def llm_demo_client_def llm_New_def)
qed

definition llm_demo_request :: LlmRequest where
  "llm_demo_request = \<lparr>lq_messages = [[(''role'', GStr ''user''), (''content'', GStr ''hi'')]], lq_model = [], lq_tools = [],
     lq_temperature = None, lq_max_tokens = None, lq_conv_id = []\<rparr>"



text \<open>A Retry-After beyond the range of an int becomes no wait at all.\<close>

lemma huge_retry_after:
  "fst (backoffMS env policy attempt (Some (10 ^ 18)) s) = 0"
proof -
  have "int_of_float (10 ^ 18 * 1000) = - (2 ^ 63)" by code_simp
  then have "backoff_base policy attempt (Some (10 ^ 18)) = - (2 ^ 63)" by (simp add: backoff_base_def)
  then show ?thesis by (simp add: backoffMS_def)
qed

end
