(* ===== verification/Httpx.thy ===== *)
theory Httpx
  imports Session_Client
begin

text \<open>
  The HTTP client of the adapters (src/internal/httpx): one request over the transport, the envelope of an
  answer and the retry policy. The transport answers a request that was built with a failure or with a status,
  its headers and a body that may break off; a failure comes with what the context of the call says after it.
\<close>

definition httpxComponent :: string where "httpxComponent = ''internal.httpx''"

abbreviation "TransportError \<equiv> NewFamily FZeusTransport CodeZeusTransport httpxComponent"

section \<open>One request\<close>

record hx_request = HTTPRequest +
  hq_pre_mint :: bool

text \<open>What is handed to the transport; a header has its canonical name.\<close>

record sent_request =
  sq_method :: string
  sq_url :: string
  sq_headers :: "string amap"
  sq_body :: string
  sq_timeout_ns :: "int option"

datatype net_error = NetCtx ctx_error | NetOther string

record net_answer =
  na_status :: int
  na_headers :: "(string \<times> string list) list"
  na_body :: "(ctx_error option \<times> string) + string"

record 's hx_env =
  hx_build :: "string \<Rightarrow> string \<Rightarrow> string option"
  hx_uuid :: "'s \<Rightarrow> string \<times> 's"
  hx_do :: "sent_request \<Rightarrow> 's \<Rightarrow> ((ctx_error option \<times> net_error) + net_answer) \<times> 's"

record HttpClient =
  cl_timeout_ns :: int
  cl_closed :: bool

definition DefaultTimeout :: int where "DefaultTimeout = 30 * 10 ^ 9"

definition hx_New :: "int \<Rightarrow> HttpClient" where
  "hx_New timeout = \<lparr>cl_timeout_ns = (if timeout \<le> 0 then DefaultTimeout else timeout), cl_closed = False\<rparr>"

definition hx_Close :: "HttpClient \<Rightarrow> HttpClient" where
  "hx_Close c = (if cl_closed c then c else c\<lparr>cl_closed := True\<rparr>)"

text \<open>textproto.CanonicalMIMEHeaderKey: a name of token characters has a capital at its start and after a dash and
  small letters elsewhere; any other name is kept.\<close>

definition upper_byte :: "char \<Rightarrow> char" where
  "upper_byte c = (let n = of_char c :: nat in if 97 \<le> n \<and> n \<le> 122 then char_of (n - 32) else c)"

definition token_byte :: "char \<Rightarrow> bool" where
  "token_byte c \<longleftrightarrow> (let n = of_char c :: nat in
     is_digit c \<or> 65 \<le> n \<and> n \<le> 90 \<or> 97 \<le> n \<and> n \<le> 122 \<or> c \<in> set ''!#$%&*+-.^_`|~'' \<or> n = 39)"

fun canonical_from :: "bool \<Rightarrow> string \<Rightarrow> string" where
  "canonical_from up [] = []"
| "canonical_from up (c # cs) = (if up then upper_byte c else lower_byte c) # canonical_from (c = CHR ''-'') cs"

definition canonical_key :: "string \<Rightarrow> string" where
  "canonical_key k = (if list_all token_byte k then canonical_from True k else k)"

definition header_set :: "string \<Rightarrow> string \<Rightarrow> string amap \<Rightarrow> string amap" where
  "header_set k v h = amap_put (canonical_key k) v h"

definition header_get :: "string amap \<Rightarrow> string \<Rightarrow> string" where
  "header_get h k = (case map_of h (canonical_key k) of None \<Rightarrow> [] | Some v \<Rightarrow> v)"

text \<open>The headers of a request: the caller's (in the order of the map), a fresh id when asked for and absent,
  and the content type of a body.\<close>

definition request_headers :: "hx_request \<Rightarrow> string \<Rightarrow> string amap" where
  "request_headers req reqID =
     (let h0 = fold (\<lambda>(k, v). header_set k v) (hq_headers req) [];
          h1 = (if hq_pre_mint req \<and> header_get h0 ReqIDHeader = [] then header_set ReqIDHeader reqID h0 else h0)
      in if 0 < length (hq_body req) \<and> header_get h1 ''Content-Type'' = []
         then header_set ''Content-Type'' ''application/json'' h1 else h1)"

definition needs_id :: "hx_request \<Rightarrow> bool" where
  "needs_id req \<longleftrightarrow> hq_pre_mint req \<and>
     header_get (fold (\<lambda>(k, v). header_set k v) (hq_headers req) []) ReqIDHeader = []"

definition request_method :: "hx_request \<Rightarrow> string" where
  "request_method req = (let m = trim_space (hq_method req) in if m = [] then ''GET'' else m)"

definition flattenHeader :: "(string \<times> string list) list \<Rightarrow> string amap" where
  "flattenHeader h = List.map_filter (\<lambda>(k, vs). case vs of [] \<Rightarrow> None | v # _ \<Rightarrow> Some (k, v)) h"

definition context_error :: "ctx_error \<Rightarrow> zerror option" where
  "context_error c = map_option (\<lambda>e. e\<lparr>ze_component := httpxComponent\<rparr>) (FromContext (Some c))"

definition first_context :: "ctx_error option \<Rightarrow> ctx_error option \<Rightarrow> zerror \<Rightarrow> zerror" where
  "first_context a b e = (case Option.bind a context_error of Some x \<Rightarrow> x
     | None \<Rightarrow> (case Option.bind b context_error of Some x \<Rightarrow> x | None \<Rightarrow> e))"

definition net_failure :: "ctx_error option \<Rightarrow> net_error \<Rightarrow> zerror" where
  "net_failure ctx err = (case err of
     NetCtx c \<Rightarrow> first_context ctx (Some c) (TransportError [])
   | NetOther t \<Rightarrow> first_context ctx None (TransportError [WithCause t]))"

definition read_answer :: "net_answer \<Rightarrow> zerror + HTTPResponse" where
  "read_answer a = (case na_body a of
     Inl (ctx, t) \<Rightarrow> Inl (first_context ctx None (TransportError [WithCause t, WithMessage ''http response body read failed'']))
   | Inr raw \<Rightarrow> Inr \<lparr>hp_status = na_status a, hp_headers = flattenHeader (na_headers a), hp_body = raw\<rparr>)"

definition hx_Request :: "'s hx_env \<Rightarrow> HttpClient \<Rightarrow> hx_request \<Rightarrow> 's \<Rightarrow> (zerror + HTTPResponse) \<times> 's" where
  "hx_Request env c req s =
     (if cl_closed c then (Inl (TransportError [WithMessage ''http client closed'']), s)
      else (case hx_build env (request_method req) (hq_url req) of
        Some t \<Rightarrow> (Inl (TransportError [WithCause t, WithMessage ''http request build failed'']), s)
      | None \<Rightarrow>
         (let (reqID, s1) = (if needs_id req then hx_uuid env s else ([], s));
              (ans, s2) = hx_do env
                \<lparr>sq_method = request_method req, sq_url = hq_url req, sq_headers = request_headers req reqID,
                 sq_body = hq_body req,
                 sq_timeout_ns = (if 0 < hq_timeout_s req then Some (duration_of (hq_timeout_s req)) else None)\<rparr> s1
          in (case ans of Inl (ctx, err) \<Rightarrow> Inl (net_failure ctx err) | Inr a \<Rightarrow> read_answer a, s2))))"

section \<open>The envelope\<close>

definition classifyStatus :: "int \<Rightarrow> Code" where
  "classifyStatus status =
     (if status = 409 then CodeZeusContractRequired else if status = 401 \<or> status = 403 then CodeZeusAuthFailed
      else if 500 \<le> status then CodeZeusHTTP5xx else if 400 \<le> status then CodeZeusHTTP4xx else CodeZeusTransport)"

definition parseBody :: "(string \<Rightarrow> string + gval) \<Rightarrow> string \<Rightarrow> gmap" where
  "parseBody unmarshal raw =
     (if length raw = 0 then []
      else (case unmarshal raw of
          Inl e \<Rightarrow> [(''raw'', GStr (if 2000 < length raw then take 2000 raw else raw))]
        | Inr v \<Rightarrow> (case v of GObj m \<Rightarrow> m | _ \<Rightarrow> [(''result'', v)])))"

definition attachReqID :: "string \<Rightarrow> zerror \<Rightarrow> zerror" where
  "attachReqID reqID e = (if reqID = [] \<or> map_of (ze_details e) ''req_id'' \<noteq> None then e
     else e\<lparr>ze_details := amap_put ''req_id'' (GStr reqID) (ze_details e)\<rparr>)"

definition Wrap :: "(string \<Rightarrow> string + gval) \<Rightarrow> HTTPResponse \<Rightarrow> go_error option \<Rightarrow> gmap Result" where
  "Wrap unmarshal resp err =
     (let reqID = ReqIDFromHeaders (Some (hp_headers resp)) in
      case err of
        Some e \<Rightarrow> FailResult (Some (attachReqID reqID
          (case e of DomainError de \<Rightarrow> de | OtherError t m \<Rightarrow> TransportError [WithCause m]))) reqID
      | None \<Rightarrow> (let body = parseBody unmarshal (hp_body resp) in
          if 200 \<le> hp_status resp \<and> hp_status resp < 300 then OKResult body reqID
          else FailResult (Some (NewFamily FZeusTransport (classifyStatus (hp_status resp)) httpxComponent
            [WithDetails [(''http.status_code'', GInt (hp_status resp)), (''req_id'', GStr reqID)]])) reqID))"

text \<open>strings.ToUpper of a method, on bytes: no character outside ASCII becomes a letter of GET or HEAD.\<close>

definition ShouldRetry :: "string \<Rightarrow> int \<Rightarrow> bool" where
  "ShouldRetry method status =
     (if 400 \<le> status \<and> status < 500 then False
      else if 500 \<le> status \<and> status \<le> 599
      then (let m = map upper_byte (trim_space method) in m = ''GET'' \<or> m = ''HEAD'')
      else False)"

section \<open>Facts\<close>

lemma Request_closed: "fst (hx_Request env (hx_Close c) req s) = Inl (TransportError [WithMessage ''http client closed'']) \<and>
    snd (hx_Request env (hx_Close c) req s) = s"
  by (simp add: hx_Request_def hx_Close_def)

text \<open>What is sent: the method and the URL asked for, the body as it is, a content type with every body, and,
  when asked for, a request id.\<close>

lemma header_get_set: "header_get (header_set k v h) k = v"
  by (simp add: header_get_def header_set_def update_conv')

lemma header_get_other: "canonical_key k \<noteq> canonical_key k' \<Longrightarrow> header_get (header_set k v h) k' = header_get h k'"
  by (simp add: header_get_def header_set_def update_conv')

lemma canonical_names: "canonical_key ReqIDHeader \<noteq> canonical_key ''Content-Type''"
  by code_simp

lemma request_headers_typed:
  "0 < length (hq_body req) \<Longrightarrow> header_get (request_headers req i) ''Content-Type'' \<noteq> []"
  by (auto simp: request_headers_def Let_def header_get_set)

lemma request_headers_id:
  "hq_pre_mint req \<Longrightarrow> i \<noteq> [] \<Longrightarrow> header_get (request_headers req i) ReqIDHeader \<noteq> []"
  using canonical_names by (auto simp: request_headers_def Let_def header_get_set header_get_other)

text \<open>The errors of a request: the transport's code or one of the two of a context, always of this component.\<close>

lemma context_error_code: "context_error c = Some e \<Longrightarrow> ze_code e \<in> {CodeCancelled, CodeContextDeadline} \<and> ze_component e = httpxComponent"
  by (cases c) (auto simp: context_error_def)

definition request_codes :: "Code set" where
  "request_codes = {CodeZeusTransport, CodeCancelled, CodeContextDeadline}"

lemma first_context_code: "ze_code e \<in> request_codes \<Longrightarrow> ze_code (first_context a b e) \<in> request_codes"
  using context_error_code by (fastforce simp: first_context_def request_codes_def split: option.split bind_splits)

theorem Request_error: "fst (hx_Request env c req s) = Inl e \<Longrightarrow> ze_code e \<in> request_codes"
proof -
  have t: "ze_code (TransportError os) \<in> request_codes" for os by (simp add: request_codes_def)
  assume "fst (hx_Request env c req s) = Inl e"
  then consider os where "e = TransportError os" | a b where "e = net_failure a b" | a where "read_answer a = Inl e"
    by (auto simp: hx_Request_def Let_def split: if_splits option.splits prod.splits sum.splits)
  then show ?thesis
  proof cases
    case 1
    then show ?thesis using t by simp
  next
    case 2
    then show ?thesis using first_context_code [OF t] by (auto simp: net_failure_def split: net_error.split)
  next
    case 3
    then show ?thesis using first_context_code [OF t] by (auto simp: read_answer_def split: sum.splits)
  qed
qed

text \<open>The envelope of an answer carries the id the server sent on every status, succeeds exactly on 2xx, and a
  status that is retried fails with the code of a server error.\<close>

theorem Wrap_answer:
  "r_req_id (Wrap u resp None) = ReqIDFromHeaders (Some (hp_headers resp)) \<and>
   (r_ok (Wrap u resp None) \<longleftrightarrow> 200 \<le> hp_status resp \<and> hp_status resp < 300) \<and>
   (case r_err (Wrap u resp None) of
      None \<Rightarrow> r_ok (Wrap u resp None) \<and> r_value (Wrap u resp None) = Some (parseBody u (hp_body resp))
    | Some e \<Rightarrow> \<not> r_ok (Wrap u resp None) \<and> ze_code e = classifyStatus (hp_status resp) \<and>
        (ShouldRetry m (hp_status resp) \<longrightarrow> ze_code e = CodeZeusHTTP5xx))"
  by (auto simp: Wrap_def Let_def OKResult_def FailResult_def ShouldRetry_def classifyStatus_def)

lemma Wrap_error: "r_ok (Wrap u resp (Some e)) = False \<and>
   r_req_id (Wrap u resp (Some e)) = ReqIDFromHeaders (Some (hp_headers resp)) \<and>
   (case r_err (Wrap u resp (Some e)) of None \<Rightarrow> False | Some de \<Rightarrow>
     (ReqIDFromHeaders (Some (hp_headers resp)) \<noteq> [] \<longrightarrow> map_of (ze_details de) ''req_id'' \<noteq> None))"
  by (simp add: Wrap_def Let_def FailResult_def attachReqID_def update_conv')

lemma retried_once_read: "ShouldRetry m status \<Longrightarrow> 500 \<le> status \<and> map upper_byte (trim_space m) \<in> {''GET'', ''HEAD''}"
  by (auto simp: ShouldRetry_def Let_def split: if_splits)

end
