(* ===== verification/Observability.thy ===== *)
theory Observability
  imports Redact Zeus_Auth
begin

text \<open>
  Observability (src/observability): the token buckets that limit a surface, the in-process metrics and the
  family logger. Times are nanoseconds of the monotonic clock; the slog handler is an output and not modelled, the records
  the logger keeps are.
\<close>

section \<open>Token buckets\<close>

record TokenBucket =
  tb_rate :: rat
  tb_burst :: rat
  tb_tokens :: rat
  tb_updated :: int

definition NewTokenBucket :: "rat \<Rightarrow> rat \<Rightarrow> int \<Rightarrow> TokenBucket option" where
  "NewTokenBucket rate burst now = (if rate \<le> 0 \<or> burst \<le> 0 then None
     else Some \<lparr>tb_rate = rate, tb_burst = burst, tb_tokens = burst, tb_updated = now\<rparr>)"

definition elapsed_s :: "int \<Rightarrow> int \<Rightarrow> rat" where
  "elapsed_s now before = max 0 (of_int (time_sub now before) / 10 ^ 9)"

definition bucket_Allow :: "rat \<Rightarrow> int \<Rightarrow> TokenBucket \<Rightarrow> bool \<times> TokenBucket" where
  "bucket_Allow cost now b =
     (if cost \<le> 0 then (True, b)
      else (let tokens = min (tb_burst b) (tb_tokens b + elapsed_s now (tb_updated b) * tb_rate b);
                b1 = b\<lparr>tb_updated := now, tb_tokens := tokens\<rparr>
            in if cost \<le> tokens then (True, b1\<lparr>tb_tokens := tokens - cost\<rparr>) else (False, b1)))"

type_synonym limiter = "TokenBucket amap"

definition limiter_Configure :: "string \<Rightarrow> rat \<Rightarrow> rat \<Rightarrow> int \<Rightarrow> limiter \<Rightarrow> limiter" where
  "limiter_Configure surface rate burst now l =
     (if surface = [] then l
      else (case NewTokenBucket rate burst now of None \<Rightarrow> l | Some b \<Rightarrow> amap_put surface b l))"

definition limiter_Allow :: "string \<Rightarrow> rat \<Rightarrow> int \<Rightarrow> limiter \<Rightarrow> bool \<times> limiter" where
  "limiter_Allow surface cost now l = (case map_of l surface of
     None \<Rightarrow> (True, l)
   | Some b \<Rightarrow> (case bucket_Allow cost now b of (ok, b1) \<Rightarrow> (ok, amap_put surface b1 l)))"

section \<open>Metrics\<close>

record seriesPoint =
  sp_labels :: "string amap"
  sp_value :: rat
  sp_count :: int

type_synonym series = "seriesPoint amap"

record InMemoryMetrics =
  im_counter :: "series amap"
  im_hist :: "series amap"

definition NewInMemoryMetrics :: InMemoryMetrics where
  "NewInMemoryMetrics = \<lparr>im_counter = [], im_hist = []\<rparr>"

definition copyLabels :: "string amap \<Rightarrow> string amap" where "copyLabels m = map (\<lambda>(k, v). (k, v)) m"

definition labelKeyOf :: "string amap \<Rightarrow> string" where
  "labelKeyOf labels = join_with '','' (map (\<lambda>k. k @ ''='' @ (case map_of labels k of Some v \<Rightarrow> v | None \<Rightarrow> []))
     (sort (map fst labels)))"

definition series_of :: "string \<Rightarrow> series amap \<Rightarrow> series" where
  "series_of name m = (case map_of m name of None \<Rightarrow> [] | Some ss \<Rightarrow> ss)"

definition point_of :: "string amap \<Rightarrow> series \<Rightarrow> seriesPoint" where
  "point_of labels ss = (case map_of ss (labelKeyOf labels) of
     None \<Rightarrow> \<lparr>sp_labels = copyLabels labels, sp_value = 0, sp_count = 0\<rparr> | Some p \<Rightarrow> p)"

definition Incr :: "string \<Rightarrow> string amap \<Rightarrow> rat \<Rightarrow> InMemoryMetrics \<Rightarrow> InMemoryMetrics" where
  "Incr name labels amount m =
     (let ss = series_of name (im_counter m); p = point_of labels ss in
      m\<lparr>im_counter := amap_put name (amap_put (labelKeyOf labels) (p\<lparr>sp_value := sp_value p + amount\<rparr>) ss) (im_counter m)\<rparr>)"

definition Observe :: "string \<Rightarrow> rat \<Rightarrow> string amap \<Rightarrow> InMemoryMetrics \<Rightarrow> InMemoryMetrics" where
  "Observe name value labels m =
     (let ss = series_of name (im_hist m); p = point_of labels ss in
      m\<lparr>im_hist := amap_put name (amap_put (labelKeyOf labels)
        (p\<lparr>sp_value := sp_value p + value, sp_count := sp_count p + 1\<rparr>) ss) (im_hist m)\<rparr>)"

definition labels_value :: "string amap \<Rightarrow> gval" where
  "labels_value ls = GObj (map (\<lambda>(k, v). (k, GStr v)) (copyLabels ls))"

definition metrics_Snapshot :: "InMemoryMetrics \<Rightarrow> gmap" where
  "metrics_Snapshot m =
     [(''counters'', GObj (map (\<lambda>(name, ss). (name, GArr (map (\<lambda>(k, p).
         GObj [(''labels'', labels_value (sp_labels p)), (''value'', GFloat (sp_value p))]) ss))) (im_counter m))),
      (''histograms'', GObj (map (\<lambda>(name, ss). (name, GArr (map (\<lambda>(k, p).
         GObj [(''labels'', labels_value (sp_labels p)), (''sum'', GFloat (sp_value p)), (''count'', GInt (sp_count p)),
           (''avg'', GFloat (if 0 < sp_count p then sp_value p / of_int (sp_count p) else 0))]) ss))) (im_hist m)))]"

section \<open>The logger\<close>

definition LevelError :: int where "LevelError = 8"
definition LevelInfo :: int where "LevelInfo = 0"
definition LevelDebug :: int where "LevelDebug = - 4"
definition LevelTrace :: int where "LevelTrace = - 8"

definition familyLevels :: "int amap" where
  "familyLevels = [(''error'', LevelError), (''info'', LevelInfo), (''debug'', LevelDebug), (''trace'', LevelTrace)]"

definition parseLevel :: "string \<Rightarrow> int" where
  "parseLevel level = (case map_of familyLevels (to_lower (trim_space level)) of Some lv \<Rightarrow> lv | None \<Rightarrow> LevelInfo)"

definition levelName :: "int \<Rightarrow> string" where
  "levelName lv = (if LevelError \<le> lv then ''ERROR'' else if LevelInfo \<le> lv then ''INFO''
     else if LevelDebug \<le> lv then ''DEBUG'' else ''TRACE'')"

record LogRecord =
  lg_rec_level :: string
  lg_rec_event :: string
  lg_rec_attrs :: gmap

record FamilyLogger =
  fl_level :: int
  fl_redact :: bool
  fl_service_name :: string
  fl_service_version :: string
  fl_preview :: int
  fl_sink :: "LogRecord list"

definition NewFamilyLogger :: "string \<Rightarrow> bool \<Rightarrow> string \<Rightarrow> string \<Rightarrow> int \<Rightarrow> FamilyLogger" where
  "NewFamilyLogger level redact name version previewMax =
     \<lparr>fl_level = parseLevel level, fl_redact = redact, fl_service_name = (if name = [] then ''zeus_client'' else name),
      fl_service_version = version, fl_preview = (if previewMax = 0 then PreviewMaxChars else previewMax), fl_sink = []\<rparr>"

definition SetLevel :: "string \<Rightarrow> FamilyLogger \<Rightarrow> FamilyLogger" where
  "SetLevel level l = l\<lparr>fl_level := parseLevel level\<rparr>"

definition merge_attr :: "string \<times> gval \<Rightarrow> gmap \<Rightarrow> gmap" where
  "merge_attr = (\<lambda>(k, v) m. if v = GNil then m else amap_put (if k = ''level'' then ''log.level'' else k) v m)"

definition merged_attrs :: "FamilyLogger \<Rightarrow> gmap \<Rightarrow> gmap" where
  "merged_attrs l attrs =
     (let m = fold merge_attr attrs [(''service.name'', GStr (fl_service_name l))] in
      if fl_service_version l \<noteq> [] then amap_put ''service.version'' (GStr (fl_service_version l)) m else m)"

text \<open>The redactor is given by its two operations.\<close>

type_synonym redactor_ops = "(gval \<Rightarrow> gval) \<times> (string \<Rightarrow> int \<Rightarrow> string)"

definition Emit :: "redactor_ops \<Rightarrow> string \<Rightarrow> string \<Rightarrow> gmap \<Rightarrow> FamilyLogger \<Rightarrow> FamilyLogger" where
  "Emit red severity event attrs l =
     (let lv = parseLevel severity in
      if lv < fl_level l then l
      else l\<lparr>fl_sink := fl_sink l @ [\<lparr>lg_rec_level = levelName lv, lg_rec_event = event,
        lg_rec_attrs = RedactAttrsWith (merged_attrs l attrs) (fl_redact l) (fst red) (snd red) (fl_preview l)\<rparr>]\<rparr>)"

definition Records :: "FamilyLogger \<Rightarrow> LogRecord list" where "Records l = fl_sink l"

definition logger_Configure :: "redactor_ops \<Rightarrow> FamilyLogger \<Rightarrow> FamilyLogger" where
  "logger_Configure red l = Emit red ''info'' ''zeus_client.logging.configured''
     [(''result'', GStr ''ok''), (''level'', GStr (to_lower (levelName (fl_level l)))), (''redact'', GBool (fl_redact l))] l"

section \<open>What a bucket lets through\<close>

text \<open>A run of requests, each with its cost and its time; the answers in order.\<close>

fun bucket_run :: "(rat \<times> int) list \<Rightarrow> TokenBucket \<Rightarrow> bool list \<times> TokenBucket" where
  "bucket_run [] b = ([], b)"
| "bucket_run ((cost, now) # rs) b =
     (case bucket_Allow cost now b of (ok, b1) \<Rightarrow> (case bucket_run rs b1 of (oks, b2) \<Rightarrow> (ok # oks, b2)))"

fun granted :: "(rat \<times> int) list \<Rightarrow> bool list \<Rightarrow> rat" where
  "granted ((cost, now) # rs) (k # ks) = (if k then cost else 0) + granted rs ks"
| "granted _ _ = 0"

text \<open>Times never go back; a difference beyond int64 is cut, which only lowers it.\<close>

lemma elapsed_le: "t \<le> u \<Longrightarrow> elapsed_s u t \<le> of_int (u - t) / 10 ^ 9"
  by (simp add: elapsed_s_def time_sub_def divide_right_mono min_def max_def)

lemma bucket_step:
  assumes "bucket_Allow cost now b = (k, b1)" and "0 < cost" and "tb_updated b \<le> now" and "0 \<le> tb_rate b" and "0 \<le> tb_burst b"
    and "0 \<le> tb_tokens b"
  shows "tb_updated b1 = now" and "tb_rate b1 = tb_rate b" and "tb_burst b1 = tb_burst b" and "0 \<le> tb_tokens b1"
    and "tb_tokens b1 + (if k then cost else 0) \<le> tb_tokens b + of_int (now - tb_updated b) / 10 ^ 9 * tb_rate b"
proof -
  let ?t = "min (tb_burst b) (tb_tokens b + elapsed_s now (tb_updated b) * tb_rate b)"
  have e: "0 \<le> elapsed_s now (tb_updated b)" by (simp add: elapsed_s_def)
  have n: "0 \<le> ?t" using e assms(4-6) by simp
  have "elapsed_s now (tb_updated b) * tb_rate b \<le> of_int (now - tb_updated b) / 10 ^ 9 * tb_rate b"
    using elapsed_le [OF assms(3)] assms(4) by (rule mult_right_mono)
  then have t: "?t \<le> tb_tokens b + of_int (now - tb_updated b) / 10 ^ 9 * tb_rate b" by linarith
  have b1: "b1 = (if cost \<le> ?t then b\<lparr>tb_updated := now, tb_tokens := ?t - cost\<rparr> else b\<lparr>tb_updated := now, tb_tokens := ?t\<rparr>)"
    "k \<longleftrightarrow> cost \<le> ?t"
    using assms(1,2) by (auto simp: bucket_Allow_def Let_def split: if_splits)
  show "tb_updated b1 = now" "tb_rate b1 = tb_rate b" "tb_burst b1 = tb_burst b" by (simp_all add: b1)
  show "0 \<le> tb_tokens b1" using n by (simp add: b1)
  show "tb_tokens b1 + (if k then cost else 0) \<le> tb_tokens b + of_int (now - tb_updated b) / 10 ^ 9 * tb_rate b"
    using t by (simp add: b1)
qed

lemma bucket_run_bound:
  assumes "bucket_run rs b = (ks, b')" and "list_all (\<lambda>(c, t). 0 < c) rs" and "sorted (tb_updated b # map snd rs)"
    and "0 \<le> tb_tokens b" and "0 \<le> tb_rate b" and "0 \<le> tb_burst b"
  shows "granted rs ks \<le> tb_tokens b + of_int (last (tb_updated b # map snd rs) - tb_updated b) / 10 ^ 9 * tb_rate b"
  using assms
proof (induction rs arbitrary: b ks)
  case Nil
  then show ?case by simp
next
  case (Cons r rs)
  obtain cost now where r: "r = (cost, now)" by (cases r) auto
  obtain k b1 where s: "bucket_Allow cost now b = (k, b1)" by fastforce
  obtain ks1 where ks: "ks = k # ks1" "bucket_run rs b1 = (ks1, b')"
    using Cons.prems(1) by (auto simp: r s split: prod.splits)
  have o: "tb_updated b \<le> now" "sorted (now # map snd rs)" "0 < cost"
    using Cons.prems(2,3) by (simp_all add: r)
  note st = bucket_step [OF s o(3,1) Cons.prems(5,6,4)]
  have "granted rs ks1 \<le> tb_tokens b1 + of_int (last (now # map snd rs) - now) / 10 ^ 9 * tb_rate b"
    using Cons.IH [OF ks(2)] Cons.prems(2,5,6) st o by (simp add: r)
  then have "granted (r # rs) ks \<le> tb_tokens b + of_int (now - tb_updated b) / 10 ^ 9 * tb_rate b +
      of_int (last (now # map snd rs) - now) / 10 ^ 9 * tb_rate b"
    using st(5) by (simp add: r ks)
  also have "\<dots> = tb_tokens b + of_int (last (now # map snd rs) - tb_updated b) / 10 ^ 9 * tb_rate b"
    by (simp add: algebra_simps diff_divide_distrib)
  finally show ?case by (simp add: r)
qed

text \<open>A full bucket grants at most its burst and what its rate adds.\<close>

theorem bucket_bound:
  assumes "NewTokenBucket rate burst t0 = Some b" and "bucket_run rs b = (ks, b')" and "list_all (\<lambda>(c, t). 0 < c) rs"
    and "sorted (t0 # map snd rs)"
  shows "granted rs ks \<le> burst + rate * of_int (last (t0 # map snd rs) - t0) / 10 ^ 9"
proof -
  have b: "tb_updated b = t0" "tb_tokens b = burst" "tb_rate b = rate" "0 < rate" "0 < burst" "tb_burst b = burst"
    using assms(1) by (auto simp: NewTokenBucket_def split: if_splits)
  then show ?thesis using bucket_run_bound [OF assms(2,3)] assms(4) by (simp add: mult.commute)
qed

section \<open>What the metrics add up\<close>

definition counter_value :: "string \<Rightarrow> string amap \<Rightarrow> InMemoryMetrics \<Rightarrow> rat" where
  "counter_value name labels m = sp_value (point_of labels (series_of name (im_counter m)))"

lemma Incr_adds:
  "counter_value n ls (Incr name labels amount m) =
     counter_value n ls m + (if n = name \<and> labelKeyOf ls = labelKeyOf labels then amount else 0)"
  by (auto simp: counter_value_def Incr_def Let_def series_of_def point_of_def update_conv' split: option.split)

lemma Observe_counters [simp]: "counter_value n ls (Observe name value labels m) = counter_value n ls m"
  by (simp add: counter_value_def Observe_def Let_def)

text \<open>Label sets with commas in their values share a series.\<close>

lemma labels_collide:
  "labelKeyOf [(''a'', ''1,b=2'')] = labelKeyOf [(''a'', ''1''), (''b'', ''2'')]"
  by code_simp

section \<open>What the logger keeps\<close>

definition record_safe :: "LogRecord \<Rightarrow> bool" where
  "record_safe r \<longleftrightarrow> list_all (\<lambda>(k, v). isHardAttrKey k \<longrightarrow> v = GStr Redacted) (lg_rec_attrs r)"

lemma attrs_safe: "list_all (\<lambda>(k, v). isHardAttrKey k \<longrightarrow> v = GStr Redacted) (RedactAttrsWith attrs redact f g n)"
  by (induction attrs) (auto simp: RedactAttrsWith_def redact_attr_def Let_def split: option.split)

lemma Emit_level: "Records (Emit red severity event attrs l) =
    (if parseLevel severity < fl_level l then Records l else Records l @ [last (Records (Emit red severity event attrs l))])"
  by (simp add: Emit_def Records_def Let_def)

lemma Emit_safe: "list_all record_safe (Records l) \<Longrightarrow> list_all record_safe (Records (Emit red severity event attrs l))"
  by (simp add: Emit_def Records_def Let_def record_safe_def attrs_safe)

text \<open>With the default redactor every kept value is the marker, clean, or the shortened form of a clean text.\<close>

lemma Emit_clean:
  assumes "(k, w) \<in> set (RedactAttrsWith attrs redact walkJSON RedactText n)"
  shows "w = GStr Redacted \<or> gval_clean w \<or> (\<exists>s m. \<not> secret_text s \<and> w = GStr (truncateRunes s m))"
  using assms default_redactor.attr_cases by (fastforce simp: default_redactor.attrs_member)

lemma parseLevel_info: "parseLevel ''warn'' = LevelInfo" by code_simp

end
