(* ===== verification/Data_Verb.thy ===== *)
theory Data_Verb
  imports Turn_Tools
begin

text \<open>
  Direct verb calls (src/application/data_verb.go): one allow-listed verb through the Zeus port, without
  a model. The world \<open>'s\<close> is what the port works on.
\<close>

definition dataVerbComponent :: string where "dataVerbComponent = ''application.data_verb''"

definition TraceClassDirectRead :: string where "TraceClassDirectRead = ''direct.read''"

record VerbResult =
  vres_verb :: string
  vres_ok :: bool
  vres_status :: int
  vres_req_id :: string
  vres_body :: gmap
  vres_error :: string
  vres_url_hint :: string
  vres_chat_id :: string
  vres_turn_id :: string
  vres_req_ids :: "string list"
  vres_trace_class :: string

definition VerbResult_Map :: "VerbResult \<Rightarrow> gmap" where
  "VerbResult_Map r =
     [(''verb'', GStr (vres_verb r)), (''ok'', GBool (vres_ok r)), (''status_code'', GInt (vres_status r)),
      (''req_id'', nilIfEmpty (vres_req_id r)), (''body'', GObj (vres_body r)), (''error'', nilIfEmpty (vres_error r)),
      (''url_hint'', GStr (vres_url_hint r)), (''chat_id'', nilIfEmpty (vres_chat_id r)),
      (''turn_id'', nilIfEmpty (vres_turn_id r)), (''req_ids'', strs (vres_req_ids r)),
      (''trace_class'', GStr (vres_trace_class r))]"

record DataVerbOptions =
  dvo_target :: DataTarget
  dvo_mode_header :: string
  dvo_headers :: "string amap"
  dvo_force_trace :: bool
  dvo_rewind :: bool
  dvo_chat_id :: string
  dvo_turn_id :: string
  dvo_chat_session_id :: string
  dvo_brief_sha12 :: string
  dvo_mini_sha12 :: string
  dvo_base_url :: string
  dvo_auth_mode :: string
  dvo_password_env :: string
  dvo_token_env :: string
  dvo_username :: string

abbreviation "NewZeusTool \<equiv> NewFamily FZeusTool"

text \<open>The refusals before the port is asked.\<close>

definition data_verb_refused :: "'s zeus_port option \<Rightarrow> string \<Rightarrow> zerror option" where
  "data_verb_refused zeus name =
     (if name = ''pipeline'' then Some (NewZeusTool CodeZeusPipelineNotOnDirect dataVerbComponent
          [WithMessage ''zeus pipeline not on direct surface''])
      else if \<not> IsExposedV2Verb name then Some (NewZeusTool CodeZeusVerbNotAllowed dataVerbComponent
          [WithMessage ''zeus verb not allow-listed'',
           WithDetails [(''verb'', GStr name), (''allowed'', strs ExposedV2Verbs)]])
      else if zeus = None then Some (NewError CodeNotImplemented dataVerbComponent
          [WithMessage ''Zeus port not wired on runtime''])
      else None)"

definition data_verb_request :: "string \<Rightarrow> gmap \<Rightarrow> DataVerbOptions \<Rightarrow> VerbRequest" where
  "data_verb_request name body opts =
     \<lparr>vr_verb = name, vr_body = VerbBodyWithoutRewind body, vr_target = dvo_target opts,
      vr_mode_header = (let m = trim_space (dvo_mode_header opts) in if m = [] then ''analytics'' else m),
      vr_headers = MergeHeaders [CorrelationHeaders
        \<lparr>co_chat = dvo_chat_id opts, co_turn = dvo_turn_id opts, co_call = [], co_mode = [],
         co_force_trace = dvo_force_trace opts, co_trace_class = TraceClassDirectRead,
         co_chat_session = dvo_chat_session_id opts, co_brief_sha12 = dvo_brief_sha12 opts,
         co_mini_sha12 = dvo_mini_sha12 opts\<rparr>, dvo_headers opts],
      vr_allow_pipeline = False, vr_pre_mint = False, vr_base_url = dvo_base_url opts, vr_auth_mode = dvo_auth_mode opts,
      vr_password_env = dvo_password_env opts, vr_token_env = dvo_token_env opts, vr_username = dvo_username opts,
      vr_rewind = dvo_rewind opts\<rparr>"

definition verb_result :: "string \<Rightarrow> DataVerbOptions \<Rightarrow> VerbHopResult \<Rightarrow> VerbResult" where
  "verb_result name opts hp =
     \<lparr>vres_verb = name, vres_ok = vh_ok hp, vres_status = vh_status hp, vres_req_id = vh_req_id hp, vres_body = vh_body hp,
      vres_error = vh_error hp, vres_url_hint = vh_url hp, vres_chat_id = dvo_chat_id opts, vres_turn_id = dvo_turn_id opts,
      vres_req_ids = (if vh_req_id hp \<noteq> [] then [vh_req_id hp] else []), vres_trace_class = TraceClassDirectRead\<rparr>"

definition RunDataVerb ::
  "ctx_error option \<Rightarrow> 's zeus_port option \<Rightarrow> string \<Rightarrow> gmap \<Rightarrow> DataVerbOptions \<Rightarrow> 's \<Rightarrow> (call_error + VerbResult) \<times> 's" where
  "RunDataVerb ctx zeus verb body opts s = (case ctxErr ctx of
     Some e \<Rightarrow> (Inl e, s)
   | None \<Rightarrow> (let name = trim_space verb in case data_verb_refused zeus name of
       Some e \<Rightarrow> (Inl (CallDomain e), s)
     | None \<Rightarrow> (case zeus of
         None \<Rightarrow> (Inl (CallOther []), s)
       | Some port \<Rightarrow> (let (ans, s1) = port (data_verb_request name body opts) s in
           (case ans of Inl e \<Rightarrow> Inl e | Inr hp \<Rightarrow> Inr (verb_result name opts hp), s1)))))"

text \<open>A direct call asks the port at most once, and only for an exposed verb other than pipeline.\<close>

lemma RunDataVerb_asks:
  "(\<exists>e. RunDataVerb ctx zeus verb body opts s = (Inl e, s)) \<or>
   (\<exists>port vr. zeus = Some port \<and> IsExposedV2Verb (vr_verb vr) \<and> vr_verb vr \<noteq> ''pipeline'' \<and> \<not> vr_allow_pipeline vr \<and>
      map_of (vr_body vr) ''rewind'' = None \<and> snd (RunDataVerb ctx zeus verb body opts s) = snd (port vr s) \<and>
      (\<forall>hp. fst (port vr s) = Inr hp \<longrightarrow> fst (RunDataVerb ctx zeus verb body opts s) = Inr (verb_result (trim_space verb) opts hp)))"
proof (cases "ctxErr ctx")
  case (Some e)
  then show ?thesis by (simp add: RunDataVerb_def)
next
  case ctx: None
  show ?thesis
  proof (cases "data_verb_refused zeus (trim_space verb)")
    case (Some e)
    with ctx show ?thesis by (simp add: RunDataVerb_def)
  next
    case None
    then obtain port where z: "zeus = Some port" "IsExposedV2Verb (trim_space verb)" "trim_space verb \<noteq> ''pipeline''"
      by (auto simp: data_verb_refused_def split: if_splits)
    have "map_of (VerbBodyWithoutRewind body) ''rewind'' = None"
      by (auto simp: VerbBodyWithoutRewind_def map_of_eq_None_iff)
    with z show ?thesis
      by (intro disjI2 exI [of _ port] exI [of _ "data_verb_request (trim_space verb) body opts"])
        (auto simp: RunDataVerb_def ctx None [unfolded z(1)] Let_def data_verb_request_def split: prod.split)
  qed
qed

end
