(* ===== verification/Typeahead.thy ===== *)
theory Typeahead
  imports Data_Verb Go_Filepath
begin

text \<open>
  Typeahead (src/application/typeahead.go): one full-text search through the Zeus port, its rows as hits, and
  the merge of groups of hits. The number parser and the float printer are parameters.
\<close>

section \<open>Hits and results\<close>

record SuggestHit =
  sg_id :: string
  sg_name :: string
  sg_subtitle :: string
  sg_city :: string
  sg_state :: string
  sg_stars :: "rat option"
  sg_review_count :: "int option"
  sg_categories :: string
  sg_address :: string
  sg_score :: "rat option"
  sg_source :: string

definition opt_float :: "rat option \<Rightarrow> gval" where
  "opt_float x = (case x of None \<Rightarrow> GNil | Some r \<Rightarrow> GFloat r)"

definition SuggestHit_Map :: "SuggestHit \<Rightarrow> gmap" where
  "SuggestHit_Map h =
     [(''id'', GStr (sg_id h)), (''name'', GStr (sg_name h)), (''subtitle'', GStr (sg_subtitle h)),
      (''city'', GStr (sg_city h)), (''state'', GStr (sg_state h)), (''stars'', opt_float (sg_stars h)),
      (''review_count'', case sg_review_count h of None \<Rightarrow> GNil | Some n \<Rightarrow> GInt n),
      (''categories'', GStr (sg_categories h)), (''address'', GStr (sg_address h)), (''score'', opt_float (sg_score h)),
      (''source'', GStr (sg_source h))]"

record SuggestResult =
  sr_query :: string
  sr_hits :: "SuggestHit list"
  sr_count :: int
  sr_source :: string
  sr_sources :: "string list"
  sr_fts_req_id :: string
  sr_error :: string
  sr_fast_tier :: bool
  sr_ai_process :: bool
  sr_req_ids :: "string list"
  sr_trace_class :: string

definition SuggestResult_Map :: "SuggestResult \<Rightarrow> gmap" where
  "SuggestResult_Map r = (let hits = GArr (map (GObj \<circ> SuggestHit_Map) (sr_hits r)) in
     [(''query'', GStr (sr_query r)), (''results'', hits), (''hits'', hits), (''count'', GInt (sr_count r)),
      (''source'', GStr (sr_source r)), (''sources'', strs (sr_sources r)), (''fts_req_id'', nilIfEmpty (sr_fts_req_id r)),
      (''error'', nilIfEmpty (sr_error r)), (''fast_tier'', GBool (sr_fast_tier r)),
      (''ai_process_result'', GBool (sr_ai_process r)), (''req_ids'', strs (sr_req_ids r)),
      (''trace_class'', GStr (sr_trace_class r))])"

record SuggestOptions =
  so_entity_type :: string
  so_limit :: int
  so_min_query_len :: int
  so_fts_timeout_ms :: int
  so_strategy :: string
  so_mode_header :: string

definition positive_or :: "int \<Rightarrow> int \<Rightarrow> int" where "positive_or d n = (if n \<le> 0 then d else n)"
definition nonempty_or :: "string \<Rightarrow> string \<Rightarrow> string" where "nonempty_or d s = (if s = [] then d else s)"

definition withDefaults :: "SuggestOptions \<Rightarrow> SuggestOptions" where
  "withDefaults opts =
     \<lparr>so_entity_type = nonempty_or ''Business'' (so_entity_type opts), so_limit = positive_or 8 (so_limit opts),
      so_min_query_len = positive_or 2 (so_min_query_len opts), so_fts_timeout_ms = positive_or 2000 (so_fts_timeout_ms opts),
      so_strategy = nonempty_or ''fts'' (so_strategy opts), so_mode_header = nonempty_or ''analytics'' (so_mode_header opts)\<rparr>"

section \<open>Merging\<close>

definition normID :: "string \<Rightarrow> string" where
  "normID v = trim_prefix (to_lower (trim_space v)) ''biz:''"

definition normName :: "string \<Rightarrow> string" where "normName v = to_lower (trim_space v)"

definition seen_hit :: "string list \<Rightarrow> string list \<Rightarrow> SuggestHit \<Rightarrow> bool" where
  "seen_hit ids names h \<longleftrightarrow> (normID (sg_id h) \<noteq> [] \<and> normID (sg_id h) \<in> set ids) \<or>
     (normName (sg_name h) \<noteq> [] \<and> normName (sg_name h) \<in> set names)"

text \<open>The loop over the hits of all groups, with the keys seen and the places left.\<close>

fun merge_loop :: "nat \<Rightarrow> string list \<Rightarrow> string list \<Rightarrow> SuggestHit list \<Rightarrow> SuggestHit list" where
  "merge_loop 0 ids names hs = []"
| "merge_loop (Suc n) ids names [] = []"
| "merge_loop (Suc n) ids names (h # hs) =
     (if seen_hit ids names h then merge_loop (Suc n) ids names hs
      else h # merge_loop n (if normID (sg_id h) \<noteq> [] then normID (sg_id h) # ids else ids)
             (if normName (sg_name h) \<noteq> [] then normName (sg_name h) # names else names) hs)"

definition MergeHits :: "int \<Rightarrow> SuggestHit list list \<Rightarrow> SuggestHit list" where
  "MergeHits limit groups = (if limit \<le> 0 then [] else merge_loop (nat limit) [] [] (concat groups))"

section \<open>The rows of a search\<close>

definition resultItems :: "gmap \<Rightarrow> gmap list" where
  "resultItems payload = (case mget payload ''result'' of
     GObj result \<Rightarrow> (case mget result ''items'' of
       GArr xs \<Rightarrow> List.map_filter (\<lambda>v. case v of GObj m \<Rightarrow> Some m | _ \<Rightarrow> None) xs
     | _ \<Rightarrow> [])
   | _ \<Rightarrow> [])"

definition add_key :: "string \<Rightarrow> string list \<Rightarrow> string list" where
  "add_key s out = (let s = trim_space s in if s = [] \<or> s \<in> set out then out else out @ [s])"

definition item_node :: "gmap \<Rightarrow> gmap" where
  "item_node item = (case mget item ''node'' of GObj n \<Rightarrow> n | _ \<Rightarrow> item)"

definition item_key :: "(rat \<Rightarrow> string) \<Rightarrow> gmap \<Rightarrow> string list \<Rightarrow> string list" where
  "item_key ff item out = (let node = item_node item in
     case find (\<lambda>k. app_str ff (mget node k) \<noteq> []) [''doc_key'', ''source'', ''id'', ''key''] of
       None \<Rightarrow> out | Some k \<Rightarrow> add_key (app_str ff (mget node k)) out)"

definition SrcKeysFromFTSPayload :: "(rat \<Rightarrow> string) \<Rightarrow> gmap \<Rightarrow> string list" where
  "SrcKeysFromFTSPayload ff payload =
     (let out = (case mget payload ''result'' of
         GObj result \<Rightarrow> (case mget result ''src_keys'' of
           GArr keys \<Rightarrow> fold (\<lambda>k. add_key (app_str ff k)) keys [] | _ \<Rightarrow> [])
       | _ \<Rightarrow> [])
      in if 0 < length out then out else fold (item_key ff) (resultItems payload) [])"

fun first_key :: "(rat \<Rightarrow> string) \<Rightarrow> gmap \<Rightarrow> string list \<Rightarrow> string" where
  "first_key ff node [] = []"
| "first_key ff node (k # ks) = (let s = trim_space (app_str ff (mget node k)) in
     if s \<noteq> [] then s else first_key ff node ks)"

definition hit_of_item :: "(string \<Rightarrow> rat option) \<Rightarrow> (rat \<Rightarrow> string) \<Rightarrow> string \<Rightarrow> gmap \<Rightarrow> SuggestHit" where
  "hit_of_item pf ff source item =
     (let node = item_node item;
          hid0 = first_key ff node [''doc_key'', ''source'', ''id'', ''key''];
          name0 = trim_space (app_str ff (mget node ''name''));
          name = (if name0 = [] then hid0 else name0);
          hid = (if hid0 = [] then name else hid0);
          score = (if mget item ''score'' = GNil then None
            else (case asFloat pf (Some (DVal (mget item ''score''))) of (x, k) \<Rightarrow> if k then Some x else None))
      in \<lparr>sg_id = hid, sg_name = name,
          sg_subtitle = firstNonEmpty (app_str ff (mget node ''city'')) (app_str ff (mget node ''categories'')),
          sg_city = app_str ff (mget node ''city''), sg_state = app_str ff (mget node ''state''), sg_stars = None,
          sg_review_count = None, sg_categories = [], sg_address = [], sg_score = score, sg_source = source\<rparr>)"

definition hit_of_key :: "string \<Rightarrow> string \<Rightarrow> SuggestHit" where
  "hit_of_key source k = \<lparr>sg_id = k, sg_name = k, sg_subtitle = [], sg_city = [], sg_state = [], sg_stars = None,
     sg_review_count = None, sg_categories = [], sg_address = [], sg_score = None, sg_source = source\<rparr>"

definition hitsFromFTS :: "(string \<Rightarrow> rat option) \<Rightarrow> (rat \<Rightarrow> string) \<Rightarrow> gmap \<Rightarrow> string \<Rightarrow> SuggestHit list" where
  "hitsFromFTS pf ff payload source =
     (let hits = map (hit_of_item pf ff source) (resultItems payload)
      in if 0 < length hits then hits else map (hit_of_key source) (SrcKeysFromFTSPayload ff payload))"

section \<open>The search\<close>

definition typeaheadComponent :: string where "typeaheadComponent = ''application.typeahead''"

definition TraceClassDirectInteractive :: string where "TraceClassDirectInteractive = ''direct.interactive''"

definition search_request :: "string \<Rightarrow> DataTarget \<Rightarrow> SuggestOptions \<Rightarrow> bool \<Rightarrow> VerbRequest" where
  "search_request q target opts rewind =
     \<lparr>vr_verb = ''search'',
      vr_body = [(''entity_type'', GStr (so_entity_type opts)), (''strategy'', GStr (so_strategy opts)),
        (''query_text'', GStr q), (''limit'', GInt (so_limit opts)), (''timeout_ms'', GInt (so_fts_timeout_ms opts))],
      vr_target = target, vr_mode_header = so_mode_header opts,
      vr_headers = CorrelationHeaders \<lparr>co_chat = [], co_turn = [], co_call = [], co_mode = [], co_force_trace = False,
        co_trace_class = TraceClassDirectInteractive, co_chat_session = [], co_brief_sha12 = [], co_mini_sha12 = []\<rparr>,
      vr_allow_pipeline = False, vr_pre_mint = False, vr_base_url = [], vr_auth_mode = [], vr_password_env = [],
      vr_token_env = [], vr_username = [], vr_rewind = rewind\<rparr>"

definition suggest_result :: "string \<Rightarrow> SuggestHit list \<Rightarrow> string \<Rightarrow> string list \<Rightarrow> string \<Rightarrow> string \<Rightarrow> string list \<Rightarrow> SuggestResult" where
  "suggest_result q hits source sources fts err ids =
     \<lparr>sr_query = q, sr_hits = hits, sr_count = int (length hits), sr_source = source, sr_sources = sources,
      sr_fts_req_id = fts, sr_error = err, sr_fast_tier = True, sr_ai_process = False, sr_req_ids = ids,
      sr_trace_class = TraceClassDirectInteractive\<rparr>"

definition suggest_of_hop ::
  "(string \<Rightarrow> rat option) \<Rightarrow> (rat \<Rightarrow> string) \<Rightarrow> string \<Rightarrow> SuggestOptions \<Rightarrow> VerbHopResult \<Rightarrow> SuggestResult" where
  "suggest_of_hop pf ff q opts hp =
     (if \<not> vh_ok hp then suggest_result q [] ''error'' [] (vh_req_id hp)
        (if vh_error hp = [] then ''status '' @ int_digits (vh_status hp) else vh_error hp) []
      else (let merged = MergeHits (so_limit opts) [hitsFromFTS pf ff (vh_body hp) ''fts''] in
        suggest_result q merged (if 0 < length merged then ''fts'' else ''empty'') (if 0 < length merged then [''fts''] else [])
          (vh_req_id hp) [] (if vh_req_id hp \<noteq> [] then [vh_req_id hp] else [])))"

definition RunTypeaheadSearch ::
  "(string \<Rightarrow> rat option) \<Rightarrow> (rat \<Rightarrow> string) \<Rightarrow> ctx_error option \<Rightarrow> 's zeus_port option \<Rightarrow> string \<Rightarrow> DataTarget \<Rightarrow>
   SuggestOptions \<Rightarrow> bool \<Rightarrow> 's \<Rightarrow> (call_error + SuggestResult) \<times> 's" where
  "RunTypeaheadSearch pf ff ctx zeus query target options rewind s = (case ctxErr ctx of
     Some e \<Rightarrow> (Inl e, s)
   | None \<Rightarrow> (let opts = withDefaults options; q = trim_space query in
       if int (length q) < so_min_query_len opts then (Inr (suggest_result q [] ''none'' [] [] [] []), s)
       else (case zeus of
         None \<Rightarrow> (Inl (CallDomain (NewError CodeNotImplemented typeaheadComponent
             [WithMessage ''Zeus port not wired on runtime''])), s)
       | Some port \<Rightarrow> (let (ans, s1) = port (search_request q target opts rewind) s in
           (case ans of Inl e \<Rightarrow> Inl e | Inr hp \<Rightarrow> Inr (suggest_of_hop pf ff q opts hp), s1)))))"

section \<open>What a merge gives\<close>

definition hit_ids :: "SuggestHit list \<Rightarrow> string list" where
  "hit_ids hs = filter (\<lambda>s. s \<noteq> []) (map (normID \<circ> sg_id) hs)"

definition hit_names :: "SuggestHit list \<Rightarrow> string list" where
  "hit_names hs = filter (\<lambda>s. s \<noteq> []) (map (normName \<circ> sg_name) hs)"

lemma hit_keys [simp]:
  "hit_ids [] = []" "hit_names [] = []"
  "hit_ids (h # hs) = (if normID (sg_id h) \<noteq> [] then normID (sg_id h) # hit_ids hs else hit_ids hs)"
  "hit_names (h # hs) = (if normName (sg_name h) \<noteq> [] then normName (sg_name h) # hit_names hs else hit_names hs)"
  by (simp_all add: hit_ids_def hit_names_def)

lemma merge_bound: "length (merge_loop n ids names hs) \<le> n"
  by (induction n ids names hs rule: merge_loop.induct) auto

lemma merge_order: "subseq (merge_loop n ids names hs) hs"
  by (induction n ids names hs rule: merge_loop.induct) auto

lemma merge_distinct:
  "distinct (hit_ids (merge_loop n ids names hs)) \<and> set (hit_ids (merge_loop n ids names hs)) \<inter> set ids = {} \<and>
   distinct (hit_names (merge_loop n ids names hs)) \<and> set (hit_names (merge_loop n ids names hs)) \<inter> set names = {}"
  by (induction n ids names hs rule: merge_loop.induct) (auto simp: seen_hit_def)

lemma merge_complete:
  "length (merge_loop n ids names hs) < n \<Longrightarrow> h \<in> set hs \<Longrightarrow>
   seen_hit (hit_ids (merge_loop n ids names hs) @ ids) (hit_names (merge_loop n ids names hs) @ names) h \<or>
   h \<in> set (merge_loop n ids names hs)"
  by (induction n ids names hs rule: merge_loop.induct) (auto simp: seen_hit_def split: if_splits)

text \<open>What a merge is: at most limit hits, in the order of the groups, no two of the same id or the same name,
  and nothing left out unless the limit is reached or a hit of the same id or name is shown.\<close>

theorem MergeHits_spec:
  "subseq (MergeHits limit groups) (concat groups) \<and> int (length (MergeHits limit groups)) \<le> max 0 limit \<and>
   distinct (hit_ids (MergeHits limit groups)) \<and> distinct (hit_names (MergeHits limit groups)) \<and>
   (int (length (MergeHits limit groups)) < limit \<longrightarrow> (\<forall>h \<in> set (concat groups).
      h \<in> set (MergeHits limit groups) \<or>
      seen_hit (hit_ids (MergeHits limit groups)) (hit_names (MergeHits limit groups)) h))"
proof (cases "limit \<le> 0")
  case True
  then show ?thesis by (simp add: MergeHits_def)
next
  case False
  let ?m = "merge_loop (nat limit) [] [] (concat groups)"
  have m: "MergeHits limit groups = ?m" using False by (simp add: MergeHits_def)
  have l: "int (length ?m) \<le> max 0 limit" using merge_bound [of "nat limit" "[]" "[]" "concat groups"] False by linarith
  have c: "h \<in> set ?m \<or> seen_hit (hit_ids ?m) (hit_names ?m) h" if "int (length ?m) < limit" "h \<in> set (concat groups)" for h
    using merge_complete [of "nat limit" "[]" "[]" "concat groups" h] that by auto
  show ?thesis unfolding m using merge_order l merge_distinct [of "nat limit" "[]" "[]" "concat groups"] c by blast
qed

text \<open>
  A search asks the port at most once, only for the verb search and only with a query long enough, and what
  it shows keeps the promises of the merge, counts its hits and is marked as the fast tier.
\<close>

lemma RunTypeaheadSearch_asks:
  "snd (RunTypeaheadSearch pf ff ctx zeus query target options rewind s) = s \<or>
   (\<exists>port vr. zeus = Some port \<and> vr_verb vr = ''search'' \<and> vr_target vr = target \<and>
      mget (vr_body vr) ''query_text'' = GStr (trim_space query) \<and>
      so_min_query_len (withDefaults options) \<le> int (length (trim_space query)) \<and>
      snd (RunTypeaheadSearch pf ff ctx zeus query target options rewind s) = snd (port vr s))"
proof (cases "ctxErr ctx \<noteq> None \<or> int (length (trim_space query)) < so_min_query_len (withDefaults options) \<or> zeus = None")
  case True
  then show ?thesis by (auto simp: RunTypeaheadSearch_def Let_def split: option.splits)
next
  case False
  then obtain port where "zeus = Some port" "ctxErr ctx = None" by auto
  with False show ?thesis
    by (intro disjI2 exI [of _ port] exI [of _ "search_request (trim_space query) target (withDefaults options) rewind"])
      (auto simp: RunTypeaheadSearch_def Let_def search_request_def mget_def split: prod.split)
qed

lemma RunTypeaheadSearch_shows:
  assumes "fst (RunTypeaheadSearch pf ff ctx zeus query target options rewind s) = Inr r"
  shows "sr_count r = int (length (sr_hits r)) \<and> int (length (sr_hits r)) \<le> so_limit (withDefaults options) \<and>
    distinct (hit_ids (sr_hits r)) \<and> distinct (hit_names (sr_hits r)) \<and> sr_fast_tier r \<and> sr_query r = trim_space query"
proof -
  have l: "0 < so_limit (withDefaults options)" by (simp add: withDefaults_def positive_or_def)
  note m = MergeHits_spec [of "so_limit (withDefaults options)"]
  have "(\<exists>src. r = suggest_result (trim_space query) [] src [] [] [] []) \<or>
      (\<exists>hp. r = suggest_of_hop pf ff (trim_space query) (withDefaults options) hp)"
    using assms by (auto simp: RunTypeaheadSearch_def Let_def split: option.splits if_splits prod.splits sum.splits)
  then show ?thesis
  proof (elim disjE exE)
    fix hp assume r: "r = suggest_of_hop pf ff (trim_space query) (withDefaults options) hp"
    show ?thesis
    proof (cases "vh_ok hp")
      case True
      then show ?thesis
        using l m [of "[hitsFromFTS pf ff (vh_body hp) ''fts'']"] by (simp add: r suggest_of_hop_def suggest_result_def Let_def)
    next
      case False
      then show ?thesis using l by (simp add: r suggest_of_hop_def suggest_result_def)
    qed
  qed (use l in \<open>simp add: suggest_result_def\<close>)
qed

end
