(* ===== verification/Zeus_Api.thy ===== *)
theory Zeus_Api
  imports Observability Typeahead Data_Verb Config_Models
begin

text \<open>
  The data facade (src/api/zeus.go): verb calls and typeahead with the settings of the configuration, the rate
  limiter and the metrics. The port is the injected one or the one NewPort opens once from the configuration;
  \<open>now\<close> is the time at which the limiter is asked.
\<close>

section \<open>The facade\<close>

definition zeusAPIComponent :: string where "zeusAPIComponent = ''api.zeus''"

record 's ZeusAPI =
  za_port :: "'s zeus_port"
  za_config :: RuntimeConfig
  za_metrics :: "InMemoryMetrics option"
  za_limiter :: "limiter option"

record CallOptions =
  cao_target :: "DataTarget option"
  cao_mode_header :: string
  cao_headers :: "string amap"
  cao_force_trace :: "bool option"
  cao_rewind :: "bool option"
  cao_chat_id :: string
  cao_turn_id :: string
  cao_chat_session_id :: string
  cao_brief_sha12 :: string
  cao_mini_sha12 :: string
  cao_base_url :: string
  cao_auth_mode :: string
  cao_password_env :: string
  cao_token_env :: string
  cao_username :: string

definition opt_or :: "'a \<Rightarrow> 'a option \<Rightarrow> 'a" where "opt_or d x = (case x of None \<Rightarrow> d | Some v \<Rightarrow> v)"

definition call_options :: "RuntimeConfig \<Rightarrow> CallOptions \<Rightarrow> DataVerbOptions" where
  "call_options cfg opts =
     \<lparr>dvo_target = opt_or (rc_target cfg) (cao_target opts),
      dvo_mode_header = (if cao_mode_header opts = [] then stg_mode (rc_settings cfg) else cao_mode_header opts),
      dvo_headers = cao_headers opts, dvo_force_trace = opt_or (stg_force_trace (rc_settings cfg)) (cao_force_trace opts),
      dvo_rewind = opt_or (dbg_rewind (rc_debug cfg)) (cao_rewind opts), dvo_chat_id = cao_chat_id opts,
      dvo_turn_id = cao_turn_id opts, dvo_chat_session_id = cao_chat_session_id opts,
      dvo_brief_sha12 = cao_brief_sha12 opts, dvo_mini_sha12 = cao_mini_sha12 opts, dvo_base_url = cao_base_url opts,
      dvo_auth_mode = cao_auth_mode opts, dvo_password_env = cao_password_env opts, dvo_token_env = cao_token_env opts,
      dvo_username = cao_username opts\<rparr>"

definition api_incr :: "string \<Rightarrow> string amap \<Rightarrow> 's ZeusAPI \<Rightarrow> 's ZeusAPI" where
  "api_incr name labels z = z\<lparr>za_metrics := map_option (Incr name labels 1) (za_metrics z)\<rparr>"

definition recordHop :: "string \<Rightarrow> VerbResult \<Rightarrow> 's ZeusAPI \<Rightarrow> 's ZeusAPI" where
  "recordHop verb result z =
     (let statusClass = (if 0 < vres_status result then int_digits (vres_status result div 100) @ ''xx'' else ''err'');
          z1 = api_incr ''zeus_client_zeus_hops_total'' [(''verb'', verb), (''status_class'', statusClass)] z
      in if vres_ok result then z1 else api_incr ''zeus_client_errors_total'' [(''code'', ''zeus_verb_failed'')] z1)"

definition hopError :: "VerbResult \<Rightarrow> zerror" where
  "hopError result =
     NewZeusTransport (HopCode (vres_status result)) zeusAPIComponent
       ([WithDetails ((''http.status_code'', GInt (vres_status result)) #
           (if vres_req_id result \<noteq> [] then [(''req_id'', GStr (vres_req_id result))] else []))] @
        (if vres_error result \<noteq> [] then [WithMessage (vres_error result)] else []))"

text \<open>A hop that is not ok gives its result and an error.\<close>

definition api_run ::
  "ctx_error option \<Rightarrow> string \<Rightarrow> gmap \<Rightarrow> CallOptions \<Rightarrow> 's ZeusAPI \<Rightarrow> 's \<Rightarrow>
   (call_error option \<times> VerbResult option) \<times> 's ZeusAPI \<times> 's" where
  "api_run ctx verb body opts z s =
     (case RunDataVerb ctx (Some (za_port z)) verb body (call_options (za_config z) opts) s of
        (Inl e, s1) \<Rightarrow> ((Some e, None), z, s1)
      | (Inr r, s1) \<Rightarrow>
          ((if vres_ok r then None else Some (CallDomain (hopError r)), Some r), recordHop verb r z, s1))"

abbreviation "zeus_Call \<equiv> api_run"
definition zeus_Search where "zeus_Search ctx body opts = api_run ctx ''search'' body opts"
definition zeus_Find where "zeus_Find ctx body opts = api_run ctx ''find'' body opts"
definition zeus_Get where "zeus_Get ctx body opts = api_run ctx ''get'' body opts"
definition zeus_Project where "zeus_Project ctx body opts = api_run ctx ''project'' body opts"

section \<open>Typeahead\<close>

record SuggestCallOptions =
  sco_target :: "DataTarget option"
  sco_options :: "SuggestOptions option"
  sco_rewind :: "bool option"

definition no_suggest_options :: SuggestOptions where
  "no_suggest_options = \<lparr>so_entity_type = [], so_limit = 0, so_min_query_len = 0, so_fts_timeout_ms = 0, so_strategy = [],
     so_mode_header = []\<rparr>"

definition rate_limited :: "RateLimitPolicy \<Rightarrow> zerror" where
  "rate_limited rl = NewError CodeClientRateLimited ''api.zeus.search''
     [WithMessage ''rate limited (client)'', WithDetails [(''surface'', GStr ''typeahead''),
       (''rps'', GFloat (rt_typeahead_rps rl)), (''burst'', GFloat (rt_typeahead_burst rl))]]"

definition typeahead_allowed :: "int \<Rightarrow> 's ZeusAPI \<Rightarrow> bool \<times> 's ZeusAPI" where
  "typeahead_allowed now z =
     (if rt_typeahead_enabled (rc_rate_limit (za_config z))
      then (case za_limiter z of
          None \<Rightarrow> (True, z)
        | Some l \<Rightarrow> (case limiter_Allow ''typeahead'' 1 now l of (k, l1) \<Rightarrow> (k, z\<lparr>za_limiter := Some l1\<rparr>)))
      else (True, z))"

definition SearchSuggest ::
  "(string \<Rightarrow> rat option) \<Rightarrow> (rat \<Rightarrow> string) \<Rightarrow> ctx_error option \<Rightarrow> int \<Rightarrow> string \<Rightarrow> SuggestCallOptions \<Rightarrow>
   's ZeusAPI \<Rightarrow> 's \<Rightarrow> (call_error + SuggestResult) \<times> 's ZeusAPI \<times> 's" where
  "SearchSuggest pf ff ctx now query opts z s =
     (let target = opt_or (rc_target (za_config z)) (sco_target opts);
          so = opt_or no_suggest_options (sco_options opts);
          rewind = opt_or (dbg_rewind (rc_debug (za_config z))) (sco_rewind opts);
          minLen = (if 0 < so_min_query_len so then so_min_query_len so else 2)
      in if int (length (trim_space query)) < minLen
         then (case RunTypeaheadSearch pf ff ctx None query target so rewind s of (r, s1) \<Rightarrow> (r, z, s1))
         else (case typeahead_allowed now z of
           (k, z1) \<Rightarrow>
             if \<not> k then (Inl (CallDomain (rate_limited (rc_rate_limit (za_config z)))),
               api_incr ''zeus_client_rate_limited_total'' [(''surface'', ''typeahead'')] z1, s)
             else (case RunTypeaheadSearch pf ff ctx (Some (za_port z)) query target so rewind s of
               (Inl e, s1) \<Rightarrow> (Inl e, z1, s1)
             | (Inr r, s1) \<Rightarrow> (Inr r, api_incr ''zeus_client_typeahead_total''
                 [(''source'', if sr_source r = [] then ''unknown'' else sr_source r)] z1, s1))))"

section \<open>Facts\<close>

text \<open>A short query never reaches the port: the length the facade asks for is the one of the search.\<close>

lemma short_query:
  assumes "int (length (trim_space query)) < (if 0 < so_min_query_len so then so_min_query_len so else 2)"
  shows "snd (RunTypeaheadSearch pf ff ctx zeus query target so rewind s) = s"
  using assms by (auto simp: RunTypeaheadSearch_def Let_def withDefaults_def positive_or_def split: option.split if_splits)

lemma api_run_asks:
  "snd (snd (api_run ctx verb body opts z s)) = s \<or>
   (\<exists>vr. IsExposedV2Verb (vr_verb vr) \<and> vr_verb vr \<noteq> ''pipeline'' \<and> snd (snd (api_run ctx verb body opts z s)) = snd (za_port z vr s))"
  using RunDataVerb_asks [of ctx "Some (za_port z)" verb body "call_options (za_config z) opts" s]
  by (cases "RunDataVerb ctx (Some (za_port z)) verb body (call_options (za_config z) opts) s")
    (auto simp: api_run_def split: sum.split)

lemma api_run_error:
  assumes "api_run ctx verb body opts z s = ((e, Some r), z', s')"
  shows "(e = None \<longleftrightarrow> vres_ok r) \<and> z' = recordHop verb r z \<and> (\<not> vres_ok r \<longrightarrow> e = Some (CallDomain (hopError r)))"
  using assms by (auto simp: api_run_def split: prod.splits sum.splits if_splits)

text \<open>A run of typeahead calls, each with the time at which it asks the limiter.\<close>

fun suggest_run ::
  "(string \<Rightarrow> rat option) \<Rightarrow> (rat \<Rightarrow> string) \<Rightarrow> (ctx_error option \<times> int \<times> string \<times> SuggestCallOptions) list \<Rightarrow>
   's ZeusAPI \<Rightarrow> 's \<Rightarrow> 's ZeusAPI \<times> 's" where
  "suggest_run pf ff [] z s = (z, s)"
| "suggest_run pf ff ((ctx, now, q, opts) # cs) z s =
     (case SearchSuggest pf ff ctx now q opts z s of (r, z1, s1) \<Rightarrow> suggest_run pf ff cs z1 s1)"

lemma api_incr_keeps [simp]:
  "za_port (api_incr n ls z) = za_port z" "za_config (api_incr n ls z) = za_config z" "za_limiter (api_incr n ls z) = za_limiter z"
  by (simp_all add: api_incr_def)

definition typeahead_bucket :: "'s ZeusAPI \<Rightarrow> TokenBucket option" where
  "typeahead_bucket z = (case za_limiter z of None \<Rightarrow> None | Some l \<Rightarrow> map_of l ''typeahead'')"

text \<open>One call either leaves the bucket and the world alone, or the bucket is asked and the port is called at most once, and
  only when the bucket grants it.\<close>

lemma suggest_step:
  assumes "SearchSuggest pf ff ctx now q opts z s = (r, z1, s1)" and "rt_typeahead_enabled (rc_rate_limit (za_config z))"
    and "typeahead_bucket z = Some b"
  shows "za_port z1 = za_port z \<and> za_config z1 = za_config z \<and>
    ((typeahead_bucket z1 = Some b \<and> s1 = s) \<or>
     (\<exists>k b1. bucket_Allow 1 now b = (k, b1) \<and> typeahead_bucket z1 = Some b1 \<and>
        (s1 = s \<or> k \<and> (\<exists>vr. s1 = snd (za_port z vr s)))))"
proof -
  define so where "so = opt_or no_suggest_options (sco_options opts)"
  obtain l where l: "za_limiter z = Some l" "map_of l ''typeahead'' = Some b"
    using assms(3) by (auto simp: typeahead_bucket_def split: option.splits)
  show ?thesis
  proof (cases "int (length (trim_space q)) < (if 0 < so_min_query_len so then so_min_query_len so else 2)")
    case True
    define target where "target = opt_or (rc_target (za_config z)) (sco_target opts)"
    define rewind where "rewind = opt_or (dbg_rewind (rc_debug (za_config z))) (sco_rewind opts)"
    have "(r, z1, s1) = (case RunTypeaheadSearch pf ff ctx None q target so rewind s of (r, s1) \<Rightarrow> (r, z, s1))"
      unfolding assms(1) [symmetric] SearchSuggest_def Let_def so_def [symmetric] target_def [symmetric] rewind_def [symmetric]
        if_P [OF True] ..
    then have "s1 = s \<and> z1 = z" using short_query [OF True, of pf ff ctx None target rewind s] by (auto split: prod.splits)
    then show ?thesis using assms(3) by simp
  next
    case False
    obtain k b1 where b: "bucket_Allow 1 now b = (k, b1)" by fastforce
    define z0 where "z0 = z\<lparr>za_limiter := Some (amap_put ''typeahead'' b1 l)\<rparr>"
    have a: "typeahead_allowed now z = (k, z0)"
      using assms(2) by (simp add: typeahead_allowed_def l limiter_Allow_def b z0_def)
    have t: "typeahead_bucket z0 = Some b1" by (simp add: z0_def typeahead_bucket_def update_conv')
    have inc: "typeahead_bucket (api_incr n ls z0) = Some b1" for n ls
      using t by (simp add: typeahead_bucket_def)
    define target where "target = opt_or (rc_target (za_config z)) (sco_target opts)"
    define rewind where "rewind = opt_or (dbg_rewind (rc_debug (za_config z))) (sco_rewind opts)"
    obtain x s2 where run: "RunTypeaheadSearch pf ff ctx (Some (za_port z)) q target so rewind s = (x, s2)" by fastforce
    have asks: "s2 = s \<or> (\<exists>vr. s2 = snd (za_port z vr s))"
      using RunTypeaheadSearch_asks [of pf ff ctx "Some (za_port z)" q target so rewind s] run by auto
    have p: "za_port z0 = za_port z" "za_config z0 = za_config z" by (simp_all add: z0_def)
    have "(r, z1, s1) = (if \<not> k then (Inl (CallDomain (rate_limited (rc_rate_limit (za_config z)))),
               api_incr ''zeus_client_rate_limited_total'' [(''surface'', ''typeahead'')] z0, s)
             else (case x of Inl e \<Rightarrow> (Inl e, z0, s2)
               | Inr r \<Rightarrow> (Inr r, api_incr ''zeus_client_typeahead_total''
                   [(''source'', if sr_source r = [] then ''unknown'' else sr_source r)] z0, s2)))"
      unfolding assms(1) [symmetric] SearchSuggest_def Let_def so_def [symmetric] target_def [symmetric] rewind_def [symmetric]
        if_not_P [OF False] a split_conv run by (cases x) simp_all
    then show ?thesis using asks t inc b p by (cases k; cases x) auto
  qed
qed

definition call_time :: "ctx_error option \<times> int \<times> string \<times> SuggestCallOptions \<Rightarrow> int" where
  "call_time c = fst (snd c)"

lemma call_time_simp [simp]: "call_time (ctx, now, q, opts) = now"
  by (simp add: call_time_def)

lemma suggest_run_bound:
  assumes "suggest_run pf ff cs z s = (z', s')" and "rt_typeahead_enabled (rc_rate_limit (za_config z))"
    and "typeahead_bucket z = Some b" and "sorted (tb_updated b # map call_time cs)"
    and "0 \<le> tb_rate b" and "0 \<le> tb_burst b" and "0 \<le> tb_tokens b"
    and "\<And>vr s. calls (snd (za_port z vr s)) \<le> Suc (calls s)"
  shows "of_nat (calls s') \<le> of_nat (calls s) + tb_tokens b +
    of_int (last (tb_updated b # map call_time cs) - tb_updated b) / 10 ^ 9 * tb_rate b"
  using assms
proof (induction cs arbitrary: z s b)
  case Nil
  then show ?case by simp
next
  case (Cons c cs)
  obtain ctx now q opts where c: "c = (ctx, now, q, opts)" by (cases c) auto
  obtain r z1 s1 where e: "SearchSuggest pf ff ctx now q opts z s = (r, z1, s1)" by (cases "SearchSuggest pf ff ctx now q opts z s") auto
  have run: "suggest_run pf ff cs z1 s1 = (z', s')" using Cons.prems(1) by (simp add: c e)
  note st = suggest_step [OF e Cons.prems(2,3)]
  let ?ts = "map call_time cs"
  have o: "tb_updated b \<le> now" "sorted (now # ?ts)" "sorted (tb_updated b # ?ts)" using Cons.prems(4) by (auto simp: c)
  have en: "rt_typeahead_enabled (rc_rate_limit (za_config z1))" and calls: "\<And>vr s. calls (snd (za_port z1 vr s)) \<le> Suc (calls s)"
    using st Cons.prems(2,8) by auto
  have last: "last (tb_updated b # map call_time (c # cs)) = last (now # ?ts)" by (simp add: c)
  from st consider "typeahead_bucket z1 = Some b" "s1 = s"
    | k b1 where "bucket_Allow 1 now b = (k, b1)" "typeahead_bucket z1 = Some b1" "s1 = s \<or> k \<and> (\<exists>vr. s1 = snd (za_port z vr s))"
    by blast
  then show ?case
  proof cases
    case 1
    have "last (tb_updated b # ?ts) \<le> last (now # ?ts)" using o by (cases ?ts rule: rev_cases) auto
    then have "of_int (last (tb_updated b # ?ts) - tb_updated b) / 10 ^ 9 * tb_rate b \<le>
        of_int (last (now # ?ts) - tb_updated b) / 10 ^ 9 * tb_rate b"
      using Cons.prems(5) by (intro mult_right_mono divide_right_mono) auto
    then show ?thesis
      using Cons.IH [OF run en 1(1) o(3) Cons.prems(5-7) calls] unfolding last 1(2) by (meson add_left_mono order_trans)
  next
    case 2
    note bs = bucket_step [OF 2(1) _ o(1) Cons.prems(5-7)]
    have "calls s1 \<le> calls s + (if k then 1 else 0)"
      using 2(3) Cons.prems(8) [of _ s] by (auto split: if_splits)
    then have "of_nat (calls s1) \<le> (of_nat (calls s + (if k then 1 else 0)) :: rat)" by (simp only: of_nat_le_iff)
    then have s1: "of_nat (calls s1) \<le> of_nat (calls s) + (if k then 1 else 0 :: rat)" by (simp split: if_splits)
    have "of_nat (calls s') \<le> of_nat (calls s1) + tb_tokens b1 + of_int (last (now # ?ts) - now) / 10 ^ 9 * tb_rate b"
      using Cons.IH [OF run en 2(2)] o(2) bs Cons.prems(5,6) calls by simp
    then have "of_nat (calls s') \<le> of_nat (calls s) + tb_tokens b + of_int (now - tb_updated b) / 10 ^ 9 * tb_rate b +
        of_int (last (now # ?ts) - now) / 10 ^ 9 * tb_rate b"
      using bs(5) s1 by simp
    also have "\<dots> = of_nat (calls s) + tb_tokens b + of_int (last (now # ?ts) - tb_updated b) / 10 ^ 9 * tb_rate b"
      by (simp add: algebra_simps diff_divide_distrib)
    finally show ?thesis unfolding last .
  qed
qed

text \<open>
  C40. The rate limit holds for what reaches Zeus: however many typeahead calls are made from the moment the
  limiter is configured, the port is called at most burst times plus rate times the seconds passed.
\<close>
theorem typeahead_rate:
  assumes "suggest_run pf ff cs z s = (z', s')" and "rt_typeahead_enabled (rc_rate_limit (za_config z))"
    and "za_limiter z = Some (limiter_Configure ''typeahead'' rps burst t0 [])" and "0 < rps" and "0 < burst"
    and "sorted (t0 # map call_time cs)" and "\<And>vr s. calls (snd (za_port z vr s)) \<le> Suc (calls s)"
  shows "of_nat (calls s') \<le> of_nat (calls s) + burst + rps * of_int (last (t0 # map call_time cs) - t0) / 10 ^ 9"
proof -
  let ?b = "\<lparr>tb_rate = rps, tb_burst = burst, tb_tokens = burst, tb_updated = t0\<rparr>"
  have "typeahead_bucket z = Some ?b"
    using assms(3-5) by (simp add: typeahead_bucket_def limiter_Configure_def NewTokenBucket_def)
  from suggest_run_bound [OF assms(1,2) this _ _ _ _ assms(7)] assms(4-6) show ?thesis by (simp add: mult.commute)
qed


definition api_demo :: "nat ZeusAPI" where
  "api_demo = \<lparr>za_port = (\<lambda>vr s. (Inl (CallOther ''down''), Suc s)), za_config = DefaultConfig, za_metrics = None,
     za_limiter = Some (limiter_Configure ''typeahead'' 10 20 0 [])\<rparr>"

definition no_call_options :: SuggestCallOptions where
  "no_call_options = \<lparr>sco_target = None, sco_options = None, sco_rewind = None\<rparr>"

definition demo_calls :: "(ctx_error option \<times> int \<times> string \<times> SuggestCallOptions) list" where
  "demo_calls = replicate 100 (None, 10 ^ 9, ''pizza'', no_call_options)"

lemma replicate_times: "0 \<le> t \<Longrightarrow> sorted (0 # replicate n t)" "n \<noteq> 0 \<Longrightarrow> last (0 # replicate n t) = (t :: int)"
  by (auto simp: last_replicate)

lemma typeahead_rate_witness:
  "snd (suggest_run (\<lambda>s. None) (\<lambda>x. ''0'') demo_calls api_demo 0) \<le> 30"
proof -
  obtain z' s' where r: "suggest_run (\<lambda>s. None) (\<lambda>x. ''0'') demo_calls api_demo 0 = (z', s')" by fastforce
  have e: "rt_typeahead_enabled (rc_rate_limit (za_config api_demo))" by (simp add: api_demo_def DefaultConfig_def)
  have l: "za_limiter api_demo = Some (limiter_Configure ''typeahead'' 10 20 0 [])" by (simp add: api_demo_def)
  have m: "map call_time demo_calls = replicate 100 (10 ^ 9)"
    unfolding demo_calls_def map_replicate call_time_simp ..
  have o: "sorted (0 # map call_time demo_calls)" unfolding m by (rule replicate_times) simp
  have t: "last (0 # map call_time demo_calls) = 10 ^ 9" unfolding m by (rule replicate_times) simp
  have c: "snd (za_port api_demo vr s) \<le> Suc s" for vr s by (simp add: api_demo_def)
  have "of_nat s' \<le> of_nat 0 + 20 + 10 * of_int (10 ^ 9 - 0) / (10 ^ 9 :: rat)"
    unfolding t [symmetric] by (rule typeahead_rate [where calls = "\<lambda>n. n", OF r e l _ _ o c]) simp_all
  then have "of_nat s' \<le> (30 :: rat)" by simp
  then have "s' \<le> 30" by simp
  with r show ?thesis by simp
qed

end
