(* ===== verification/Catalog_Names.thy ===== *)
theory Catalog_Names
  imports Go_Filepath Contract Go_Regexp
begin

text \<open>
  How catalog files are named (src/domain/catalog.go): the directory of a scope, the file names of a
  mode and a base id on the write side and on the read side, and the way back from a file name.

  The lineage expression is a term of Go_Regexp. Go returns a nil slice of names for a mode it
  refuses; here it is the empty list.
\<close>

section \<open>Definitions\<close>

definition catalogComponent :: string where "catalogComponent = ''domain.catalog''"
definition ManifestName :: string where "ManifestName = ''manifest.json''"

definition lineageTail :: rx where
  "lineageTail = rseqs [rlit ''_'',
     RCap ''base_id'' (rseqs [RAlt (rlit ''base'') (rlit ''cus''), rlit ''-'', rplus rdot]),
     rlit ''.json'', REot]"

definition lineageFileRe :: rx where
  "lineageFileRe = RSeq RBot (RSeq (rlit ''chat_request_'')
     (RSeq (RCap ''mode'' (rplus rdot)) lineageTail))"

definition ScopeChatRequestsSubdir :: "string \<Rightarrow> string \<Rightarrow> string" where
  "ScopeChatRequestsSubdir bucket scope =
     bucket @ ''__'' @ (if has_prefix scope ''_'' then drop 1 scope else scope)"

definition ScopeKeyFromSubdir :: "string \<Rightarrow> string" where
  "ScopeKeyFromSubdir name = (if \<not> str_contains name ''__'' then []
     else (case str_cut name ''__'' of (bucket, tail, _) \<Rightarrow>
       bucket @ ''/'' @ (if tail \<noteq> [] then ''_'' @ tail else tail)))"

definition default_mode :: "string \<Rightarrow> string" where
  "default_mode mode = (if trim_space mode = [] then ''default'' else trim_space mode)"

definition ChatRequestFilename :: "string \<Rightarrow> string \<Rightarrow> string" where
  "ChatRequestFilename mode baseID = (let m = default_mode mode; bid = trim_space baseID in
     if bid \<noteq> [] then ''chat_request_'' @ m @ ''_'' @ bid @ ''.json''
     else if m = ''default'' then ''chat_request_v2.json''
     else ''chat_request_'' @ m @ ''_v2.json'')"

definition isSinglePathComponent :: "string \<Rightarrow> bool" where
  "isSinglePathComponent name \<longleftrightarrow>
     name \<noteq> [] \<and> name \<noteq> ''.'' \<and> name \<noteq> ''..'' \<and> \<not> str_contains name ''/''"

definition CatalogFilenamesForMode :: "string \<Rightarrow> string \<Rightarrow> string list" where
  "CatalogFilenamesForMode mode baseID = (let bid = trim_space baseID; m = default_mode mode in
     if bid \<noteq> [] then [ChatRequestFilename mode bid]
     else if m = ''default'' then [''chat_request_v2.json'', ''chat_request.json'']
     else if \<not> isSinglePathComponent m \<or> str_contains m ''..'' then []
     else rev (remdups (rev [''chat_request_'' @ m @ ''_v2.json'', ''chat_request_'' @ m @ ''.json'',
       m @ ''.json''])))"

definition ParseCatalogFilename :: "string \<Rightarrow> (string \<times> string) option" where
  "ParseCatalogFilename name = (case rx_groups lineageFileRe (path_base name) of
     None \<Rightarrow> None | Some g \<Rightarrow> Some (g ''mode'', g ''base_id''))"

definition ModeFromFilename :: "string \<Rightarrow> string" where
  "ModeFromFilename name = (case ParseCatalogFilename name of
     Some (mode, _) \<Rightarrow> mode
   | None \<Rightarrow> (let stem = trim_suffix (path_base name) (path_ext name) in
       if stem = ''chat_request'' \<or> stem = ''chat_request_v2'' then ''default''
       else if has_prefix stem ''chat_request_''
       then trim_suffix (trim_prefix stem ''chat_request_'') ''_v2''
       else stem))"

section \<open>The engine on a plain string\<close>

text \<open>ASCII without line breaks: a rune is a byte and the dot matches it.\<close>

definition plain_char :: "char \<Rightarrow> bool" where
  "plain_char c \<longleftrightarrow> of_char c < (128::nat) \<and> c \<noteq> CHR 0x0A"

lemma rm_seq: "rm (RSeq a b) st = concat (map (rm b) (rm a st))"
proof -
  have "filter (\<lambda>t. length (rest_of t) \<le> length (rest_of st)) (rm a st) = rm a st"
    using rm_shortens [of _ a st] by (simp add: filter_id_conv)
  then show ?thesis by simp
qed

declare rm.simps(3) [simp del]

lemma newline_code: "of_char c = (10 :: nat) \<longleftrightarrow> c = CHR 0x0A"
proof
  assume "of_char c = (10 :: nat)"
  then have "char_of (of_char c :: nat) = (char_of (10 :: nat) :: char)" by simp
  moreover have "char_of (10 :: nat) = CHR 0x0A" by code_simp
  ultimately show "c = CHR 0x0A" by simp
qed simp

lemma rm_dot: "plain_char c \<Longrightarrow> rm rdot (RState q (c # s) cs) = [RState (Some c) s cs]"
  by (simp add: rdot_def rm_class_def decode_ascii in_class_def plain_char_def newline_code)

lemma rm_dot_Nil [simp]: "rm rdot (RState q [] cs) = []"
  by (simp add: rdot_def rm_class_def)

text \<open>Greedy dots take everything first and give back one byte at a time.\<close>

fun dot_states :: "char option \<Rightarrow> string \<Rightarrow> (string \<times> string) list \<Rightarrow> rstate list" where
  "dot_states q [] cs = [RState q [] cs]"
| "dot_states q (c # s) cs = dot_states (Some c) s cs @ [RState q (c # s) cs]"

lemma rm_star_dot: "list_all plain_char s \<Longrightarrow> rm (RStar rdot) (RState q s cs) = dot_states q s cs"
proof (induction s arbitrary: q)
  case Nil
  then show ?case by (subst rm.simps) simp
next
  case (Cons c s)
  then show ?case by (subst rm.simps) (simp add: rm_dot)
qed

lemma rm_plus_dot:
  "list_all plain_char (c # s) \<Longrightarrow> rm (rplus rdot) (RState q (c # s) cs) = dot_states (Some c) s cs"
  by (simp add: rplus_def rm_seq rm_dot rm_star_dot)

definition last_opt :: "char option \<Rightarrow> string \<Rightarrow> char option" where
  "last_opt q s = (if s = [] then q else Some (last s))"

text \<open>The states before the one that leaves \<open>y\<close> leave less.\<close>

lemma dot_states_split:
  "\<exists>A B. dot_states q (x @ y) cs = A @ RState (last_opt q x) y cs # B \<and>
     (\<forall>u \<in> set A. \<exists>p z. u = RState p z cs \<and> strict_suffix z y)"
proof (induction x arbitrary: q)
  case Nil
  show ?case
  proof (cases y)
    case (Cons c s)
    have "\<exists>p z. u = RState p z cs \<and> strict_suffix z (c # s)" if "u \<in> set (dot_states (Some c) s cs)" for u
    proof -
      have "u \<in> set (dot_states p s cs) \<Longrightarrow> \<exists>q z. u = RState q z cs \<and> suffix z s" for p
        by (induction p s cs rule: dot_states.induct) (auto intro: suffix_ConsI)
      from this [OF that] show ?thesis by (auto simp: strict_suffix_def suffix_ConsI) (auto simp: suffix_def)
    qed
    with Cons show ?thesis
      by (intro exI [of _ "dot_states (Some c) s cs"] exI [of _ "[]"]) (simp add: last_opt_def)
  qed (auto simp: last_opt_def)
next
  case (Cons c x)
  from Cons [of "Some c"] obtain A B where
    "dot_states (Some c) (x @ y) cs = A @ RState (last_opt (Some c) x) y cs # B"
    "\<forall>u \<in> set A. \<exists>p z. u = RState p z cs \<and> strict_suffix z y" by blast
  then show ?case
    by (intro exI [of _ A] exI [of _ "B @ [RState q (c # x @ y) cs]"]) (auto simp: last_opt_def)
qed

text \<open>A literal; the end of the text; the first match of a sequence.\<close>

lemma rm_rchr:
  "of_char d < (128::nat) \<Longrightarrow> of_char c < (128::nat) \<Longrightarrow>
   rm (rchr d) (RState q (c # s) cs) = (if c = d then [RState (Some c) s cs] else [])"
  by (auto simp: rchr_def rm_class_def decode_ascii in_class_def)

lemma rm_rlit:
  "list_all plain_char l \<Longrightarrow> list_all plain_char s \<Longrightarrow> rm (rlit l) (RState q s cs) =
     (if prefix l s then [RState (last_opt q l) (drop (length l) s) cs] else [])"
proof (induction l arbitrary: q s rule: rlit.induct)
  case (2 c)
  show ?case
  proof (cases s)
    case Nil
    then show ?thesis by (simp add: rchr_def rm_class_def)
  next
    case (Cons x xs)
    with 2 show ?thesis by (auto simp: rm_rchr plain_char_def last_opt_def)
  qed
next
  case (3 c d cs')
  show ?case
  proof (cases s)
    case Nil
    then show ?thesis by (simp add: rm_seq rchr_def rm_class_def)
  next
    case (Cons x xs)
    with 3 show ?thesis
      by (auto simp: rm_seq rm_rchr plain_char_def last_opt_def)
  qed
qed (simp add: last_opt_def)

declare rlit.simps [simp del]

lemma rm_first:
  assumes "rm a st = A @ u # B" and "\<forall>x \<in> set A. rm b x = []" and "rm b u = v # vs"
  shows "\<exists>ws. rm (RSeq a b) st = v # ws"
proof -
  have c: "concat (map (rm b) A) = []" using assms(2) by simp
  show ?thesis unfolding rm_seq assms(1) by (simp add: assms(3) del: concat_eq_Nil_conv) (simp add: c)
qed

lemma rm_none: "\<forall>x \<in> set (rm a st). rm b x = [] \<Longrightarrow> rm (RSeq a b) st = []"
  by (auto simp: rm_seq)

lemma rx_find_anchored:
  "rx_find (RSeq RBot r) s = (case rm r (RState None s []) of
     st # _ \<Rightarrow> Some (0, length s - length (rest_of st), caps_of st) | [] \<Rightarrow> None)"
proof -
  have later: "rx_find_at (RSeq RBot r) (Some c) off s = None" for c off s
  proof (induction "length s" arbitrary: c off s rule: less_induct)
    case less
    then show ?case using decode_rune_width [of s]
      by (subst rx_find_at.simps) (auto simp: rm_seq rm_test_def Let_def)
  qed
  have "rm (RSeq RBot r) (RState None s []) = rm r (RState None s [])"
    by (simp add: rm_seq rm_test_def)
  then show ?thesis unfolding rx_find_def
    by (subst rx_find_at.simps) (simp add: later Let_def split: list.split)
qed

section \<open>The lineage expression\<close>

abbreviation plain :: "string \<Rightarrow> bool" where "plain s \<equiv> list_all plain_char s"

lemma plain_suffix: "plain s \<Longrightarrow> suffix z s \<Longrightarrow> plain z"
  by (auto simp: suffix_def)

lemma plain_chars [simp]:
  "plain_char (CHR ''b'')" "plain_char (CHR ''a'')" "plain_char (CHR ''s'')"
  "plain_char (CHR ''e'')" "plain_char (CHR ''c'')" "plain_char (CHR ''u'')"
  "plain_char (CHR ''-'')" "plain_char (CHR ''_'')" "plain_char (CHR ''.'')"
  "plain_char (CHR ''j'')" "plain_char (CHR ''o'')" "plain_char (CHR ''n'')"
  "plain_char (CHR ''h'')" "plain_char (CHR ''t'')" "plain_char (CHR ''r'')"
  "plain_char (CHR ''q'')" "plain_char (CHR ''v'')" "plain_char (CHR ''2'')"
  by (simp_all add: plain_char_def)

definition starts_lineage :: "string \<Rightarrow> bool" where
  "starts_lineage z \<longleftrightarrow> prefix ''_base-'' z \<or> prefix ''_cus-'' z"

definition baseRx :: rx where
  "baseRx = RSeq (RAlt (rlit ''base'') (rlit ''cus'')) (RSeq (rlit ''-'') (rplus rdot))"

lemma lineageTail_seq: "lineageTail =
    RSeq (rlit ''_'') (RSeq (RCap ''base_id'' baseRx) (RSeq (rlit ''.json'') REot))"
  unfolding lineageTail_def baseRx_def rseqs.simps ..

lemma tail_none:
  assumes "plain z" and "\<not> starts_lineage z"
  shows "rm lineageTail (RState q z cs) = []"
proof -
  have "rm baseRx (RState p (drop 1 z) cs) = []" if "prefix ''_'' z" for p
  proof -
    have pl: "plain (drop n z)" for n using assms(1) by (rule plain_suffix) (rule suffix_drop)
    from that obtain y where z: "z = ''_'' @ y" by (auto simp: prefix_def)
    have py: "plain y" using assms(1) by (simp add: z)
    have "rm (RSeq (rlit ''-'') r) (RState p w cs) = []"
      if "y = k @ w" "k = ''base'' \<or> k = ''cus''" for p r k w
    proof -
      have "\<not> prefix ''-'' w" using that assms(2) by (auto simp: starts_lineage_def z)
      moreover have "plain w" using py by (simp add: that(1))
      ultimately show ?thesis by (simp add: rm_seq rm_rlit)
    qed
    then show ?thesis using py unfolding baseRx_def z
      by (auto simp: rm_seq [of "RAlt _ _"] rm_rlit prefix_def)
  qed
  then show ?thesis unfolding lineageTail_seq rm_seq [of "rlit ''_''"] using assms(1)
    by (simp add: rm_rlit) (simp add: rm_seq)
qed

text \<open>A base id: a family prefix and a non-empty plain rest.\<close>

definition base_shape :: "string \<Rightarrow> bool" where
  "base_shape b \<longleftrightarrow> plain b \<and>
     (has_prefix b ''base-'' \<and> 5 < length b \<or> has_prefix b ''cus-'' \<and> 4 < length b)"

lemma base_shapeE:
  assumes "base_shape b"
  obtains k c x where "b = k @ ''-'' @ c # x" "k = ''base'' \<or> k = ''cus''" "plain (c # x)"
proof -
  from assms consider y where "b = ''base-'' @ y" "y \<noteq> []" | y where "b = ''cus-'' @ y" "y \<noteq> []"
    by (auto simp: base_shape_def has_prefix_def prefix_def)
  then show ?thesis
  proof cases
    case (1 y)
    with assms that [of "''base''" "hd y" "tl y"] show ?thesis by (cases y) (auto simp: base_shape_def)
  next
    case (2 y)
    with assms that [of "''cus''" "hd y" "tl y"] show ?thesis by (cases y) (auto simp: base_shape_def)
  qed
qed

lemma tail_match:
  assumes "base_shape b"
  shows "\<exists>p ws. rm lineageTail (RState q (''_'' @ b @ ''.json'') cs) =
    RState p [] ((''base_id'', b) # cs) # ws"
proof -
  from assms obtain k c x where b: "b = k @ ''-'' @ c # x" "k = ''base'' \<or> k = ''cus''"
    "plain (c # x)" by (rule base_shapeE)
  define s where "s = b @ ''.json''"
  define st where "st = RState (Some (CHR ''_'')) s cs"
  have pl: "plain s" using assms by (auto simp: s_def base_shape_def plain_char_def)
  have pk: "plain k" using b(2) by auto
  have alt: "rm (RAlt (rlit ''base'') (rlit ''cus'')) st =
      [RState (Some (last k)) (''-'' @ c # x @ ''.json'') cs]"
    using b(2) pl unfolding st_def by (auto simp: rm_rlit last_opt_def) (auto simp: s_def b(1))
  have inner: "rm baseRx st = dot_states (Some c) (x @ ''.json'') cs"
    using b(3) unfolding baseRx_def rm_seq [of "RAlt _ _"] alt
    by (simp add: rm_seq rm_rlit last_opt_def rm_plus_dot plain_char_def)
  obtain A B where AB: "dot_states (Some c) (x @ ''.json'') cs =
      A @ RState (last_opt (Some c) x) ''.json'' cs # B"
    "\<forall>u \<in> set A. \<exists>p z. u = RState p z cs \<and> strict_suffix z ''.json''"
    using dot_states_split by blast
  define close where "close = RSeq (rlit ''.json'') REot"
  have fails: "rm close (rm_capture ''base_id'' s u) = []" if "u \<in> set A" for u
  proof -
    from AB(2) that obtain p z where u: "u = RState p z cs" "strict_suffix z ''.json''" by blast
    then have "length z < length ''.json''" by (metis strict_suffix_def suffix_length_less)
    then have "\<not> prefix ''.json'' z" using prefix_length_le by fastforce
    moreover have "plain z" using u(2) plain_suffix [of "''.json''" z] by (simp add: strict_suffix_def)
    ultimately show ?thesis by (simp add: close_def rm_seq rm_rlit u(1) rm_capture_def)
  qed
  have cap: "rm_capture ''base_id'' s (RState (last_opt (Some c) x) ''.json'' cs) =
      RState (last_opt (Some c) x) ''.json'' ((''base_id'', b) # cs)"
    unfolding rm_capture_def s_def by simp
  have caps: "rm (RCap ''base_id'' baseRx) st = map (rm_capture ''base_id'' s) A @
      RState (last_opt (Some c) x) ''.json'' ((''base_id'', b) # cs) #
      map (rm_capture ''base_id'' s) B"
    using cap by (simp add: inner AB(1)) (simp add: st_def)
  have "rm close (RState (last_opt (Some c) x) ''.json'' ((''base_id'', b) # cs)) =
      [RState (Some (CHR ''n'')) [] ((''base_id'', b) # cs)]"
    by (simp add: close_def rm_seq rm_rlit last_opt_def rm_test_def)
  moreover have "\<forall>u \<in> set (map (rm_capture ''base_id'' s) A). rm close u = []" using fails by simp
  ultimately obtain ws where ws: "rm (RSeq (RCap ''base_id'' baseRx) close) st =
      RState (Some (CHR ''n'')) [] ((''base_id'', b) # cs) # ws"
    using rm_first [OF caps] by blast
  have "rm (rlit ''_'') (RState q (''_'' @ s) cs) = [st]"
    using pl by (simp add: rm_rlit last_opt_def st_def plain_char_def)
  with ws show ?thesis unfolding lineageTail_seq close_def rm_seq [of "rlit ''_''"] s_def by auto
qed


text \<open>A mode with a single reading: plain, one path element, and without a second lineage mark.\<close>

definition no_mark :: "string \<Rightarrow> bool" where
  "no_mark s \<longleftrightarrow> \<not> str_contains s ''_base-'' \<and> \<not> str_contains s ''_cus-''"

definition lineage_name :: "string \<Rightarrow> string \<Rightarrow> string" where
  "lineage_name m b = ''chat_request_'' @ m @ ''_'' @ b @ ''.json''"

lemma strict_suffix_Cons: "strict_suffix z (c # s) \<Longrightarrow> suffix z s"
  by (auto simp: strict_suffix_def suffix_Cons)

lemma no_mark_starts: "no_mark s \<Longrightarrow> suffix z s \<Longrightarrow> \<not> starts_lineage z"
  by (auto simp: no_mark_def starts_lineage_def str_contains_iff suffix_def prefix_def)

lemma not_contains_append:
  assumes k: "\<not> str_contains b k" "k \<noteq> []" "last k \<notin> set r"
  shows "\<not> str_contains (b @ r) k"
proof
  assume "str_contains (b @ r) k"
  then obtain u v where e: "b @ r = u @ k @ v" by (auto simp: str_contains_iff)
  then consider w where "b = (u @ k) @ w" | w where "b @ w = u @ k" "r = w @ v"
    using append_eq_append_conv2 [of b r "u @ k" v] by auto
  then show False
  proof cases
    case 1
    with k(1) show False by (auto simp: str_contains_iff)
  next
    case (2 w)
    show False
    proof (cases "w = []")
      case True
      with 2 k(1) show False by (auto simp: str_contains_iff) (metis append.right_neutral)
    next
      case False
      then have "last w = last k" using 2(1) k(2) by (metis last_appendR)
      moreover have "last w \<in> set r" using 2(2) False by simp
      ultimately show False using k(3) by simp
    qed
  qed
qed

lemma no_mark_append: "no_mark b \<Longrightarrow> CHR ''-'' \<notin> set r \<Longrightarrow> no_mark (b @ r)"
  by (simp add: no_mark_def not_contains_append)

lemma lineage_find:
  assumes "plain m" "m \<noteq> []" "base_shape b" "no_mark b"
  shows "\<exists>j. rx_find lineageFileRe (lineage_name m b) = Some (0, j, [(''base_id'', b), (''mode'', m)])"
proof -
  obtain c x where m: "m = c # x" using assms(2) by (cases m) auto
  define t where "t = ''_'' @ b @ ''.json''"
  define q where "q = Some (CHR ''_'')"
  have pt: "plain t" using assms(3) by (simp add: t_def base_shape_def)
  have pre: "rm (rlit ''chat_request_'') (RState None (lineage_name m b) []) = [RState q (m @ t) []]"
    using pt assms(1) by (simp add: rm_rlit lineage_name_def last_opt_def q_def t_def)
  obtain A B where AB: "dot_states (Some c) (x @ t) [] = A @ RState (last_opt (Some c) x) t [] # B"
    "\<forall>u \<in> set A. \<exists>p z. u = RState p z [] \<and> strict_suffix z t"
    using dot_states_split by blast
  have inner: "rm (rplus rdot) (RState q (m @ t) []) = dot_states (Some c) (x @ t) []"
    using pt assms(1) by (simp add: m rm_plus_dot)
  have cap: "rm_capture ''mode'' (m @ t) (RState (last_opt (Some c) x) t []) =
      RState (last_opt (Some c) x) t [(''mode'', m)]"
    by (simp add: rm_capture_def)
  have fails: "rm lineageTail u = []" if "u \<in> set (map (rm_capture ''mode'' (m @ t)) A)" for u
  proof -
    from that AB(2) obtain p z cs where u: "u = RState p z cs" "strict_suffix z t"
      by (auto simp: rm_capture_def)
    then have "suffix z (b @ ''.json'')" by (simp add: t_def strict_suffix_Cons)
    with no_mark_starts [OF no_mark_append [OF assms(4)], of "''.json''" z] have "\<not> starts_lineage z" by simp
    moreover have "plain z" using plain_suffix [OF pt, of z] u(2) by (simp add: strict_suffix_def)
    ultimately show ?thesis by (simp add: u(1) tail_none)
  qed
  have modes: "rm (RCap ''mode'' (rplus rdot)) (RState q (m @ t) []) =
      map (rm_capture ''mode'' (m @ t)) A @ RState (last_opt (Some c) x) t [(''mode'', m)] #
      map (rm_capture ''mode'' (m @ t)) B"
    using cap by (simp add: inner AB(1))
  obtain p ws where "rm lineageTail (RState (last_opt (Some c) x) t [(''mode'', m)]) =
      RState p [] [(''base_id'', b), (''mode'', m)] # ws"
    using tail_match [OF assms(3)] unfolding t_def by blast
  from rm_first [OF modes _ this] fails obtain ws' where
    "rm (RSeq (RCap ''mode'' (rplus rdot)) lineageTail) (RState q (m @ t) []) =
      RState p [] [(''base_id'', b), (''mode'', m)] # ws'" by blast
  then show ?thesis unfolding lineageFileRe_def rx_find_anchored rm_seq [of "rlit ''chat_request_''"] pre
    by simp
qed

lemma lineage_none:
  assumes "plain s" and "no_mark s"
  shows "rx_find lineageFileRe (''chat_request_'' @ s) = None"
proof -
  have suf: "u \<in> set (dot_states p z cs) \<Longrightarrow> \<exists>q y. u = RState q y cs \<and> suffix y z" for u p z cs
    by (induction p z cs rule: dot_states.induct) (auto intro: suffix_ConsI)
  have "rm lineageTail (RState p z cs) = []" if "suffix z s" for p z cs
    using that plain_suffix [OF assms(1)] no_mark_starts [OF assms(2)] by (intro tail_none) auto
  moreover have "u \<in> set (rm (RCap ''mode'' (rplus rdot)) (RState q y cs)) \<Longrightarrow> suffix y s \<Longrightarrow>
      \<exists>p z cs'. u = RState p z cs' \<and> suffix z s" for u q y cs
  proof (cases y)
    case (Cons c z)
    assume u: "u \<in> set (rm (RCap ''mode'' (rplus rdot)) (RState q y cs))" and y: "suffix y s"
    from u plain_suffix [OF assms(1) y] Cons obtain v where
      "u = rm_capture ''mode'' y v" "v \<in> set (dot_states (Some c) z cs)" by (auto simp: rm_plus_dot)
    with suf [of v "Some c" z cs] obtain p w where
      "u = rm_capture ''mode'' y (RState p w cs)" "suffix w z" by blast
    with y Cons show ?thesis
      by (auto simp: rm_capture_def) (metis suffix_Cons suffix_order.trans suffix_ConsD)
  qed (simp add: rplus_def rm_seq)
  ultimately have "rm (RSeq (RCap ''mode'' (rplus rdot)) lineageTail) (RState q y cs) = []"
    if "suffix y s" for q y cs using that by (intro rm_none) blast
  then have "rm (RSeq (rlit ''chat_request_'') (RSeq (RCap ''mode'' (rplus rdot)) lineageTail))
      (RState None (''chat_request_'' @ s) []) = []"
    using assms(1) by (simp add: rm_seq [of "rlit _"] rm_rlit)
  then show ?thesis unfolding lineageFileRe_def rx_find_anchored by simp
qed

section \<open>There and back\<close>

definition mode_ok :: "string \<Rightarrow> bool" where
  "mode_ok m \<longleftrightarrow> plain m \<and> m \<noteq> [] \<and> slash \<notin> set m \<and> trim_space m = m \<and> no_mark m"

definition id_ok :: "string \<Rightarrow> bool" where
  "id_ok b \<longleftrightarrow> base_shape b \<and> slash \<notin> set b \<and> trim_space b = b \<and> no_mark b"

lemma proper_name:
  "slash \<notin> set x \<Longrightarrow> proper_element (''chat_request_'' @ x)" "proper_element ''chat_request.json''"
  by (auto simp: proper_element_def slash_def)

lemma path_ext_join: "proper_element n \<Longrightarrow> path_ext (path_join [d, n]) = path_ext n"
proof -
  assume n: "proper_element n"
  then obtain u where u: "path_join [d, n] = u @ n" "u = [] \<or> last u = slash"
    by (rule path_join_shape)
  have "slash \<notin> set n" using n by (simp add: proper_element_def)
  then have "takeWhile (\<lambda>c. c \<noteq> slash) (rev n @ rev u) = rev n @ takeWhile (\<lambda>c. c \<noteq> slash) (rev u)"
    by (intro takeWhile_append2) auto
  moreover have n1: "last (elements n) = n"
    using \<open>slash \<notin> set n\<close> by (simp add: elements_def split_on_plain)
  ultimately have "last (elements (u @ n)) = n"
    using u(2) by (cases u rule: rev_cases) (simp_all add: elements_def last_split_on)
  moreover note n1
  ultimately show ?thesis by (simp add: path_ext_def u(1))
qed

lemma path_ext_json: "slash \<notin> set x \<Longrightarrow> path_ext (x @ ''.json'') = ''.json''"
  by (simp add: path_ext_def elements_def split_on_plain slash_def)

lemma parse_none:
  assumes "plain r" "no_mark r" "slash \<notin> set r"
  shows "ParseCatalogFilename (path_join [d, ''chat_request_'' @ r]) = None"
  using assms proper_name(1) [of r] lineage_none [of r] unfolding ParseCatalogFilename_def rx_groups_def
  by (simp only: path_base_join) simp

lemma mode_of_plain_name:
  assumes "mode_ok m"
  shows "ModeFromFilename (path_join [d, ChatRequestFilename m []]) = m"
proof (cases "m = ''default''")
  case True
  have t: "trim_space ''default'' = ''default''" by code_simp
  have n: "ChatRequestFilename m [] = ''chat_request_'' @ ''v2.json''"
    by (simp add: True ChatRequestFilename_def default_mode_def t)
  have "plain ''v2.json''" "no_mark ''v2.json''" "slash \<notin> set ''v2.json''"
    by (simp_all add: slash_def no_mark_def str_contains_def)
  from parse_none [OF this] have p: "ParseCatalogFilename (path_join [d, ChatRequestFilename m []]) = None"
    unfolding n .
  have "path_ext (''chat_request_v2'' @ ''.json'') = ''.json''"
    by (rule path_ext_json) (simp add: slash_def)
  then have e: "path_ext (path_join [d, ChatRequestFilename m []]) = ''.json''"
    unfolding n by (subst path_ext_join) (simp_all add: proper_element_def slash_def)
  have b: "path_base (path_join [d, ChatRequestFilename m []]) = ''chat_request_v2.json''"
    unfolding n by (subst path_base_join) (simp_all add: proper_element_def slash_def)
  have "trim_suffix ''chat_request_v2.json'' ''.json'' = ''chat_request_v2''"
    using trim_suffix_append [of "''chat_request_v2''" "''.json''"] by simp
  then show ?thesis unfolding ModeFromFilename_def p e b by (simp add: True)
next
  case False
  have m: "plain m" "m \<noteq> []" "slash \<notin> set m" "trim_space m = m" "no_mark m"
    using assms by (simp_all add: mode_ok_def)
  define stem where "stem = ''chat_request_'' @ m @ ''_v2''"
  have n: "ChatRequestFilename m [] = ''chat_request_'' @ (m @ ''_v2.json'')"
    using m False by (simp add: ChatRequestFilename_def default_mode_def)
  have ns: "ChatRequestFilename m [] = stem @ ''.json''" by (simp add: n stem_def)
  have sl: "slash \<notin> set (m @ ''_v2.json'')" "slash \<notin> set stem" using m(3)
    by (simp_all add: slash_def stem_def)
  have pe: "proper_element (ChatRequestFilename m [])" unfolding n by (rule proper_name(1) [OF sl(1)])
  have p: "ParseCatalogFilename (path_join [d, ChatRequestFilename m []]) = None"
    unfolding n using m sl by (intro parse_none no_mark_append) (simp_all)
  have e: "path_ext (path_join [d, ChatRequestFilename m []]) = ''.json''"
    using path_ext_json [OF sl(2)] by (simp add: path_ext_join [OF pe] del: append_assoc) (simp add: ns)
  have b: "path_base (path_join [d, ChatRequestFilename m []]) = stem @ ''.json''"
    using path_base_join [OF pe, of d] unfolding ns .
  have "length stem = 16 + length m" by (simp add: stem_def)
  then have "stem \<noteq> ''chat_request''" "stem \<noteq> ''chat_request_v2''" using m(2) by auto
  moreover have "has_prefix stem ''chat_request_''" by (simp add: stem_def has_prefix_def)
  moreover have "trim_suffix (trim_prefix stem ''chat_request_'') ''_v2'' = m"
    using trim_prefix_append [of "''chat_request_''" "m @ ''_v2''"]
      trim_suffix_append [of m "''_v2''"] by (simp add: stem_def)
  ultimately show ?thesis
    unfolding ModeFromFilename_def p e b Let_def trim_suffix_append by simp
qed

text \<open>A catalog file written for a mode and a base id is read back as that mode and that base
  id, from whatever directory it lies in, and one written without a base id is listed under its
  mode.\<close>

theorem filename_roundtrip:
  assumes "mode_ok m" and "id_ok b"
  shows "ParseCatalogFilename (path_join [d, ChatRequestFilename m b]) = Some (m, b) \<and>
    ModeFromFilename (path_join [d, ChatRequestFilename m b]) = m \<and>
    ModeFromFilename (path_join [d, ChatRequestFilename m []]) = m"
proof -
  have m: "plain m" "m \<noteq> []" "slash \<notin> set m" "trim_space m = m"
    using assms(1) by (simp_all add: mode_ok_def)
  have b: "base_shape b" "b \<noteq> []" "slash \<notin> set b" "trim_space b = b" "no_mark b"
    using assms(2) by (auto simp: id_ok_def base_shape_def)
  have n: "ChatRequestFilename m b = lineage_name m b"
    using m b by (simp add: ChatRequestFilename_def default_mode_def lineage_name_def)
  have "proper_element (lineage_name m b)" unfolding lineage_name_def
    using m b by (intro proper_name) (simp add: slash_def)
  then have pb: "path_base (path_join [d, lineage_name m b]) = lineage_name m b" by simp
  from lineage_find [OF m(1,2) b(1,5)] have
    "ParseCatalogFilename (path_join [d, ChatRequestFilename m b]) = Some (m, b)"
    unfolding ParseCatalogFilename_def rx_groups_def n pb by auto
  then show ?thesis using mode_of_plain_name [OF assms(1)] by (simp add: ModeFromFilename_def)
qed

theorem filename_roundtrip_witness:
  "ParseCatalogFilename (path_join [''/etc/zeus'', ChatRequestFilename ''fraud_v2'' ''base-5'']) =
     Some (''fraud_v2'', ''base-5'')"
proof -
  have "mode_ok ''fraud_v2''" "id_ok ''base-5''" by code_simp+
  from filename_roundtrip [OF this] show ?thesis by blast
qed

text \<open>The directory of a scope names it again when the scope has its leading underscore and the
  bucket has none; the other scopes come back changed.\<close>

lemma scope_key_roundtrip:
  assumes "CHR ''_'' \<notin> set b" and "t \<noteq> []"
  shows "ScopeKeyFromSubdir (ScopeChatRequestsSubdir b (''_'' @ t)) = b @ ''/_'' @ t"
proof -
  have i: "str_index (b @ ''__'' @ t) ''__'' = Some (length b)"
    using assms(1) by (induction b) auto
  then show ?thesis using assms(2)
    by (simp add: ScopeKeyFromSubdir_def ScopeChatRequestsSubdir_def has_prefix_def str_contains_def
      str_cut_def)
qed

lemma scope_key_changed:
  "ScopeKeyFromSubdir (ScopeChatRequestsSubdir ''travel'' ''inventory'') = ''travel/_inventory''"
  by code_simp

end
