(* ===== verification/Mini_Schema.thy ===== *)
theory Mini_Schema
  imports Go_Values Go_Regexp
begin

text \<open>
  The MINI-SCHEMA section of a system prompt (src/domain/mini_schema.go): which prompt is read, where
  the section ends, and the line by line parse into entity types with their fields and inverse
  foreign keys.

  The maps the parser fills are association lists; a slice of strings is an array of strings. The
  three regular expressions of the lines are terms of Go_Regexp, an unnamed group has its number as
  its name.
\<close>

section \<open>Definitions\<close>

definition MissingMiniSchema :: string where
  "MissingMiniSchema = ''missing_mini_schema''"

definition miniHeaderRe :: rx where
  "miniHeaderRe = rseqs [RBot, rlit ''###'', rplus rspace, RCap ''ent'' (rplus_lazy rdot),
     rplus rspace, rlit ''(fields:'', RStar rspace, RCap ''n'' (rplus rdigit), rlit '')'',
     RStar rspace, REot]"

definition miniFieldRe :: rx where
  "miniFieldRe = rseqs [RBot, rplus rspace, rlit ''-'', rplus rspace, RCap ''path'' (rplus rnspace),
     rplus rspace, RCap ''kind'' (rplus rnspace), rplus rspace, rlit ''['',
     RCap ''idx'' (rplus (RCls True [(93, 93)])), rlit '']'',
     ropt (RSeq (rplus rspace) (RCap ''trailer'' (RSeq (RStar rdot) rnspace))), RStar rspace, REot]"

definition miniInverseRe :: rx where
  "miniInverseRe = rseqs [RBot, rplus rspace, RCls False [(8592, 8592)], rplus rspace,
     RCap ''token'' (rplus rnspace), rplus rspace, rlit ''('',
     RCap ''kind'' (rplus (RCls True [(41, 41)])), rlit '')'', rplus rspace, rlit ''--'',
     rplus rspace, ropt (RCap ''recipe'' (RSeq (RStar rdot) rnspace)), RStar rspace, REot]"

definition fkToRe :: rx where
  "fkToRe = RSeq (rlit ''fk_to='') (RCap ''1'' (rplus rnspace))"

definition viaRe :: rx where
  "viaRe = RSeq (rlit ''via='') (RCap ''1'' (rplus rnspace))"

definition exRe :: rx where
  "exRe = rseqs [rlit ''ex:'', RStar rspace, RCap ''1'' (rplus rdot), REot]"

definition scopeLineRe :: rx where
  "scopeLineRe = rseqs [RBol, rlit ''scope:'', rplus rspace, RCap ''1'' (rplus rnspace)]"

definition modeLineRe :: rx where
  "modeLineRe = rseqs [RBol, rlit ''mode:'', rplus rspace, RCap ''1'' (rplus rnspace)]"

definition nonFilterable :: "string list" where
  "nonFilterable = [''display'', ''text_fts'']"

definition briefHeading :: string where "briefHeading = ''## SCOPE BRIEF''"
definition schemaHeading :: string where "schemaHeading = ''## MINI-SCHEMA''"

definition has_brief :: "string \<Rightarrow> bool" where
  "has_brief s \<longleftrightarrow> str_contains s schemaHeading \<or> str_contains s briefHeading"

text \<open>messages[0].content and instructions.system_prompt, empty when absent or not a string.\<close>

definition first_content :: "gmap \<Rightarrow> string" where
  "first_content d = (case mget d ''messages'' of
     GArr (GObj msg # _) \<Rightarrow> asString (mget msg ''content'') | _ \<Rightarrow> [])"

definition instructions_prompt :: "gmap \<Rightarrow> string" where
  "instructions_prompt d = (case mget d ''instructions'' of
     GObj instr \<Rightarrow> asString (mget instr ''system_prompt'') | _ \<Rightarrow> [])"

definition SystemPromptText :: "gmap option \<Rightarrow> string" where
  "SystemPromptText chatReq = (case chatReq of
     None \<Rightarrow> []
   | Some d \<Rightarrow> (if \<not> has_brief (first_content d) \<and> has_brief (instructions_prompt d)
       then instructions_prompt d else first_content d))"

definition emptyMiniSchema :: gmap where
  "emptyMiniSchema = [(''scope'', GStr []), (''mode'', GStr []), (''entity_types'', GObj [])]"

subsection \<open>The section\<close>

text \<open>Whether what follows the two hashes is the title of another section.\<close>

definition other_title :: "string \<Rightarrow> bool" where
  "other_title after \<longleftrightarrow> (case after of
     [] \<Rightarrow> False
   | c # _ \<Rightarrow> (c = CHR 0x20 \<or> c = CHR 0x09) \<and>
       \<not> has_prefix (dropWhile (\<lambda>c. c \<in> {CHR 0x20, CHR 0x09}) after) ''MINI-SCHEMA'')"

definition nlHashes :: string where "nlHashes = CHR 0x0A # ''##''"

lemma str_index_drop_lt:
  assumes "str_index (drop f s) nlHashes = Some i"
  shows "f + i < length s"
proof -
  from str_index_split [OF assms] have "i + length nlHashes \<le> length (drop f s)" by blast
  then show ?thesis by (simp add: nlHashes_def)
qed

function mini_block_from :: "string \<Rightarrow> nat \<Rightarrow> string" where
  "mini_block_from rest f = (case str_index (drop f rest) nlHashes of
     None \<Rightarrow> rest
   | Some i \<Rightarrow> (if other_title (drop (f + i + 3) rest) then take (f + i) rest
       else mini_block_from rest (f + i + 1)))"
  by pat_completeness auto
termination
  using str_index_drop_lt by (relation "measure (\<lambda>(rest, f). length rest - f)") fastforce+

declare mini_block_from.simps [simp del]

definition miniSchemaBlock :: "string \<Rightarrow> string" where
  "miniSchemaBlock content = (case str_index content schemaHeading of
     None \<Rightarrow> []
   | Some start \<Rightarrow> mini_block_from (drop start content) 1)"

subsection \<open>The lines\<close>

definition field_examples :: "string \<Rightarrow> gval" where
  "field_examples csv = GArr (map GStr
     (filter (\<lambda>e. e \<noteq> []) (map trim_space (split_on (CHR '','') csv))))"

definition put_group :: "string \<Rightarrow> rx \<Rightarrow> string \<Rightarrow> gmap \<Rightarrow> gmap" where
  "put_group key re s m = (case rx_groups re s of
     None \<Rightarrow> m | Some g \<Rightarrow> amap_put key (GStr (g ''1'')) m)"

definition field_of :: "bool \<Rightarrow> (string \<Rightarrow> string) \<Rightarrow> gmap" where
  "field_of vals fm = (let kind = fm ''kind''; idx = fm ''idx''; trailer = fm ''trailer'';
       base = [(''kind'', GStr kind), (''indexed'', GStr idx),
         (''filterable'', GBool (kind \<notin> set nonFilterable \<and> idx \<noteq> ''none'' \<and> idx \<noteq> []))];
       f1 = put_group ''via'' viaRe trailer (put_group ''fk_to'' fkToRe trailer base);
       trim = dropWhile (\<lambda>c. c \<in> {CHR 0x20, CHR 0x09}) trailer;
       f2 = (if has_prefix trim ''--'' then amap_put ''note'' (GStr (trim_space (drop 2 trim))) f1
         else f1)
     in if vals then (case rx_groups exRe trailer of
          None \<Rightarrow> f2 | Some g \<Rightarrow> amap_put ''examples'' (field_examples (g ''1'')) f2)
        else f2)"

text \<open>The parser state: the entity types so far, the current one and whether its inverse keys are
  being read.\<close>

record mini_state =
  ms_types :: gmap
  ms_cur :: string
  ms_inverse :: bool

definition new_entity :: "(string \<Rightarrow> string) \<Rightarrow> gval" where
  "new_entity hm = GObj [(''field_count'', GInt (atoi_digits (hm ''n''))), (''fields'', GObj []),
     (''inverse_fks'', GArr [])]"

definition current_entity :: "mini_state \<Rightarrow> gmap" where
  "current_entity st = (case asObjectMap (mget (ms_types st) (ms_cur st)) of None \<Rightarrow> [] | Some e \<Rightarrow> e)"

definition set_current :: "gmap \<Rightarrow> mini_state \<Rightarrow> mini_state" where
  "set_current e st = st\<lparr>ms_types := amap_put (ms_cur st) (GObj e) (ms_types st)\<rparr>"

definition inverse_row :: "(string \<Rightarrow> string) \<Rightarrow> gval" where
  "inverse_row im = (case str_cut (im ''token'') ''.'' of (fromEnt, fromPath, _) \<Rightarrow>
     GObj [(''from_entity'', GStr fromEnt), (''from_path'', GStr fromPath),
       (''kind'', GStr (im ''kind''))])"

definition inverse_line :: "string \<Rightarrow> mini_state \<Rightarrow> mini_state" where
  "inverse_line line st = (case rx_groups miniInverseRe line of
     None \<Rightarrow> st
   | Some im \<Rightarrow> (let ent = current_entity st;
         ivs = (case asArray (mget ent ''inverse_fks'') of None \<Rightarrow> [] | Some xs \<Rightarrow> xs) in
       set_current (amap_put ''inverse_fks'' (GArr (ivs @ [inverse_row im])) ent) st))"

definition field_line :: "bool \<Rightarrow> string \<Rightarrow> mini_state \<Rightarrow> mini_state" where
  "field_line vals line st = (case rx_groups miniFieldRe line of
     None \<Rightarrow> st
   | Some fm \<Rightarrow> (let ent = current_entity st;
         fs = (case asObjectMap (mget ent ''fields'') of None \<Rightarrow> [] | Some m \<Rightarrow> m) in
       set_current (amap_put ''fields''
         (GObj (amap_put (fm ''path'') (GObj (field_of vals fm)) fs)) ent) st))"

definition mini_line :: "bool \<Rightarrow> string \<Rightarrow> mini_state \<Rightarrow> mini_state" where
  "mini_line vals line st = (case rx_groups miniHeaderRe line of
     Some hm \<Rightarrow> st\<lparr>ms_types := amap_put (hm ''ent'') (new_entity hm) (ms_types st),
         ms_cur := hm ''ent'', ms_inverse := False\<rparr>
   | None \<Rightarrow> (if ms_cur st = [] then st
       else if trim_space line = ''inverse_fks:'' then st\<lparr>ms_inverse := True\<rparr>
       else if ms_inverse st then inverse_line line st
       else field_line vals line st))"

definition mini_lines :: "string \<Rightarrow> string list" where
  "mini_lines block = split_on (CHR 0x0A) (str_replace [CHR 0x0D, CHR 0x0A] [CHR 0x0A] block)"

definition mini_types :: "bool \<Rightarrow> string \<Rightarrow> gmap" where
  "mini_types vals block = ms_types (fold (mini_line vals) (mini_lines block)
     \<lparr>ms_types = [], ms_cur = [], ms_inverse = False\<rparr>)"

definition GetMiniSchema :: "gmap option \<Rightarrow> bool \<Rightarrow> gmap" where
  "GetMiniSchema chatReq vals = (case SystemPromptText chatReq of
     [] \<Rightarrow> emptyMiniSchema
   | content \<Rightarrow> (let out = put_group ''mode'' modeLineRe content
           (put_group ''scope'' scopeLineRe content emptyMiniSchema);
         block = miniSchemaBlock content in
       if block = [] then out
       else amap_put ''entity_types'' (GObj (mini_types vals block)) out))"

definition ClassifyMiniSchema :: "gmap option \<Rightarrow> gmap" where
  "ClassifyMiniSchema parsed = (let
       out = (case parsed of None \<Rightarrow> emptyMiniSchema
         | Some d \<Rightarrow> (case cloneJSON (GObj d) of GObj c \<Rightarrow> c | _ \<Rightarrow> emptyMiniSchema));
       entities = (case asObjectMap (mget out ''entity_types'') of None \<Rightarrow> [] | Some m \<Rightarrow> m);
       present = (entities \<noteq> [])
     in amap_put ''error_class'' (if present then GNil else GStr MissingMiniSchema)
          (amap_put ''result'' (GBool present) out))"

section \<open>Where the section ends\<close>

text \<open>A line break at \<open>k\<close> that opens another section, and the block by search over all offsets.\<close>

definition opens_section :: "string \<Rightarrow> nat \<Rightarrow> bool" where
  "opens_section rest k \<longleftrightarrow> has_prefix (drop k rest) nlHashes \<and> other_title (drop (k + 3) rest)"

definition block_spec :: "string \<Rightarrow> string" where
  "block_spec rest = (case find (opens_section rest) [1..<length rest] of
     None \<Rightarrow> rest | Some k \<Rightarrow> take k rest)"

lemma str_index_first:
  "str_index s sub = Some i \<Longrightarrow> j < i \<Longrightarrow> \<not> prefix sub (drop j s)"
proof (induction s arbitrary: i j)
  case (Cons c cs)
  then show ?case by (cases j) (auto split: if_splits)
qed (auto split: if_splits)

lemma str_index_None_drop: "str_index s sub = None \<Longrightarrow> \<not> prefix sub (drop j s)"
proof
  assume n: "str_index s sub = None" and "prefix sub (drop j s)"
  then obtain b where "drop j s = sub @ b" by (auto simp: prefix_def)
  then have "s = take j s @ sub @ b" by (metis append_take_drop_id)
  with n str_index_append_None [of "take j s" sub b] show False by simp
qed

lemma str_index_at: "str_index s sub = Some i \<Longrightarrow> prefix sub (drop i s)"
proof -
  assume "str_index s sub = Some i"
  from str_index_split [OF this]
  have "s = take i s @ sub @ drop (i + length sub) s" "i + length sub \<le> length s" by simp_all
  then have "drop i s = sub @ drop (i + length sub) s"
    by (metis add_leD1 append_eq_conv_conj length_take min.absorb2)
  then show ?thesis by (metis prefixI)
qed

lemma mini_block_from_spec:
  "mini_block_from rest f = (case find (opens_section rest) [f..<length rest] of
     None \<Rightarrow> rest | Some k \<Rightarrow> take k rest)"
proof (induction rest f rule: mini_block_from.induct)
  case (1 rest f)
  show ?case
  proof (cases "str_index (drop f rest) nlHashes")
    case None
    have "\<not> opens_section rest k" if "f \<le> k" for k
      using str_index_None_drop [OF None, of "k - f"] that
      by (auto simp: opens_section_def has_prefix_def)
    then have "find (opens_section rest) [f..<length rest] = None" by (auto simp: find_None_iff)
    with None show ?thesis by (subst mini_block_from.simps) simp
  next
    case (Some i)
    have lt: "f + i < length rest" by (rule str_index_drop_lt [OF Some])
    have before: "\<not> opens_section rest k" if "f \<le> k" "k < f + i" for k
      using str_index_first [OF Some, of "k - f"] that
      by (auto simp: opens_section_def has_prefix_def)
    have pre: "has_prefix (drop (f + i) rest) nlHashes"
      using str_index_at [OF Some] by (simp add: has_prefix_def add.commute)
    have "[f..<length rest] = [f..<f + i] @ (f + i) # [f + i + 1..<length rest]"
      using lt upt_add_eq_append [of f "f + i" "length rest - (f + i)"]
      by (simp add: upt_conv_Cons)
    moreover have "find (opens_section rest) [f..<f + i] = None"
      using before by (auto simp: find_None_iff)
    moreover have "find q (xs @ y # ys) = (if q y then Some y else find q ys)"
      if "find q xs = None" for q and xs :: "nat list" and y ys
      using that by (induction xs) (auto split: if_splits)
    ultimately have f: "find (opens_section rest) [f..<length rest] =
        (if opens_section rest (f + i) then Some (f + i)
         else find (opens_section rest) [f + i + 1..<length rest])" by simp
    show ?thesis
    proof (cases "other_title (drop (f + i + 3) rest)")
      case True
      with f Some pre show ?thesis
        by (subst mini_block_from.simps) (simp add: opens_section_def)
    next
      case False
      then have "\<not> opens_section rest (f + i)" by (simp add: opens_section_def)
      with f Some False "1.IH" [OF Some False] show ?thesis
        by (subst mini_block_from.simps) simp
    qed
  qed
qed

lemma miniSchemaBlock_spec:
  "miniSchemaBlock content = (case str_index content schemaHeading of
     None \<Rightarrow> [] | Some start \<Rightarrow> block_spec (drop start content))"
  by (simp add: miniSchemaBlock_def block_spec_def mini_block_from_spec split: option.split)

section \<open>What the parse contains\<close>

text \<open>A field says it is filterable exactly when its kind and index allow it; an entity has its
  count, its fields and its inverse keys and nothing else.\<close>

definition field_ok :: "gval \<Rightarrow> bool" where
  "field_ok v = (case v of
     GObj f \<Rightarrow> mget f ''filterable'' = GBool (asString (mget f ''kind'') \<notin> set nonFilterable \<and>
       asString (mget f ''indexed'') \<noteq> ''none'' \<and> asString (mget f ''indexed'') \<noteq> [])
   | _ \<Rightarrow> False)"

definition inverse_ok :: "gval \<Rightarrow> bool" where
  "inverse_ok v = (case v of
     GObj r \<Rightarrow> map fst r = [''from_entity'', ''from_path'', ''kind''] \<and>
       list_all (\<lambda>(k, v). asStringOk v \<noteq> None) r
   | _ \<Rightarrow> False)"

definition entity_ok :: "gval \<Rightarrow> bool" where
  "entity_ok v = (case v of
     GObj e \<Rightarrow> map fst e = [''field_count'', ''fields'', ''inverse_fks''] \<and>
       (case (mget e ''field_count'', mget e ''fields'', mget e ''inverse_fks'') of
          (GInt n, GObj fs, GArr ivs) \<Rightarrow> 0 \<le> n \<and> amap_ok fs \<and>
            list_all (\<lambda>(k, v). field_ok v) fs \<and> list_all inverse_ok ivs
        | _ \<Rightarrow> False)
   | _ \<Rightarrow> False)"

definition mini_inv :: "mini_state \<Rightarrow> bool" where
  "mini_inv st \<longleftrightarrow> amap_ok (ms_types st) \<and> list_all (\<lambda>(k, v). entity_ok v) (ms_types st) \<and>
     (ms_cur st = [] \<or> ms_cur st \<in> keys_of (ms_types st))"

lemma list_all_put:
  "list_all (\<lambda>(k, v). Q v) m \<Longrightarrow> Q v \<Longrightarrow> list_all (\<lambda>(k, v). Q v) (amap_put k v m)"
  by (induction m) auto

lemma put_group_other: "k \<noteq> key \<Longrightarrow> mget (put_group key re s m) k = mget m k"
  by (simp add: put_group_def amap_simps split: option.split)

lemma field_of_ok: "field_ok (GObj (field_of vals fm))"
proof -
  have "mget (field_of vals fm) k = mget [(''kind'', GStr (fm ''kind'')), (''indexed'', GStr (fm ''idx'')),
      (''filterable'', GBool (fm ''kind'' \<notin> set nonFilterable \<and> fm ''idx'' \<noteq> ''none'' \<and> fm ''idx'' \<noteq> []))] k"
    if "k \<notin> {''fk_to'', ''via'', ''note'', ''examples''}" for k
    using that by (simp add: field_of_def Let_def put_group_other amap_simps split: option.split)
  then show ?thesis by (simp add: field_ok_def mget_def)
qed

lemma map_fst_three:
  assumes "map fst e = [a, b, c]"
  obtains x y z where "e = [(a, x), (b, y), (c, z)]"
proof -
  from assms obtain p1 p2 p3 where e: "e = [p1, p2, p3]" and k: "fst p1 = a" "fst p2 = b" "fst p3 = c"
    by (auto simp: map_eq_Cons_conv)
  from e k that [of "snd p1" "snd p2" "snd p3"] show ?thesis by (metis prod.collapse)
qed

lemma entity_okE:
  assumes "entity_ok v"
  obtains n fs ivs where
    "v = GObj [(''field_count'', GInt n), (''fields'', GObj fs), (''inverse_fks'', GArr ivs)]"
    "0 \<le> n" "amap_ok fs" "list_all (\<lambda>(k, v). field_ok v) fs" "list_all inverse_ok ivs"
proof -
  from assms obtain e where v: "v = GObj e" "map fst e = [''field_count'', ''fields'', ''inverse_fks'']"
    by (cases v) (simp_all add: entity_ok_def)
  from v(2) obtain x y z where e: "e = [(''field_count'', x), (''fields'', y), (''inverse_fks'', z)]"
    by (rule map_fst_three)
  from assms obtain n fs ivs where "x = GInt n" "y = GObj fs" "z = GArr ivs" "0 \<le> n" "amap_ok fs"
    "list_all (\<lambda>(k, v). field_ok v) fs" "list_all inverse_ok ivs"
    unfolding v(1) e by (auto simp: entity_ok_def mget_def split: gval.splits)
  with v(1) e that show ?thesis by blast
qed

lemma entity_okI:
  "0 \<le> n \<Longrightarrow> amap_ok fs \<Longrightarrow> list_all (\<lambda>(k, v). field_ok v) fs \<Longrightarrow> list_all inverse_ok ivs \<Longrightarrow>
   entity_ok (GObj [(''field_count'', GInt n), (''fields'', GObj fs), (''inverse_fks'', GArr ivs)])"
  by (simp add: entity_ok_def mget_def)

lemma current_ok:
  assumes "mini_inv st" and "ms_cur st \<noteq> []"
  shows "entity_ok (GObj (current_entity st))"
proof -
  from assms obtain v where v: "(ms_cur st, v) \<in> set (ms_types st)" by (auto simp: mini_inv_def)
  with assms(1) have "entity_ok v" by (auto simp: mini_inv_def list_all_iff)
  moreover from v assms(1) have "map_of (ms_types st) (ms_cur st) = Some v"
    by (simp add: mini_inv_def amap_ok_def)
  moreover from \<open>entity_ok v\<close> obtain e where "v = GObj e" by (auto elim: entity_okE)
  ultimately show ?thesis by (simp add: current_entity_def mget_def)
qed

lemma set_current_inv: "mini_inv st \<Longrightarrow> entity_ok (GObj e) \<Longrightarrow> mini_inv (set_current e st)"
  by (simp add: mini_inv_def set_current_def amap_simps list_all_put dom_update)

lemma inverse_row_ok: "inverse_ok (inverse_row im)"
  by (simp add: inverse_row_def inverse_ok_def asStringOk_def split: prod.split)

lemma inverse_line_inv:
  assumes "mini_inv st" and "ms_cur st \<noteq> []"
  shows "mini_inv (inverse_line line st)"
proof -
  from current_ok [OF assms] obtain n fs ivs where
    e: "current_entity st = [(''field_count'', GInt n), (''fields'', GObj fs), (''inverse_fks'', GArr ivs)]"
    "0 \<le> n" "amap_ok fs" "list_all (\<lambda>(k, v). field_ok v) fs" "list_all inverse_ok ivs"
    by (auto elim: entity_okE)
  have "entity_ok (GObj [(''field_count'', GInt n), (''fields'', GObj fs),
      (''inverse_fks'', GArr (ivs @ [inverse_row im]))])" for im
    using e(2-5) by (intro entity_okI) (simp_all add: inverse_row_ok)
  then show ?thesis using assms(1)
    by (simp add: inverse_line_def e(1) Let_def mget_def asArray_def set_current_inv split: option.split)
qed

lemma field_line_inv:
  assumes "mini_inv st" and "ms_cur st \<noteq> []"
  shows "mini_inv (field_line vals line st)"
proof -
  from current_ok [OF assms] obtain n fs ivs where
    e: "current_entity st = [(''field_count'', GInt n), (''fields'', GObj fs), (''inverse_fks'', GArr ivs)]"
    "0 \<le> n" "amap_ok fs" "list_all (\<lambda>(k, v). field_ok v) fs" "list_all inverse_ok ivs"
    by (auto elim: entity_okE)
  have "entity_ok (GObj [(''field_count'', GInt n),
      (''fields'', GObj (amap_put k (GObj (field_of vals fm)) fs)), (''inverse_fks'', GArr ivs)])" for k fm
    using e(2-5) by (intro entity_okI) (simp_all add: amap_simps list_all_put field_of_ok)
  then show ?thesis using assms(1)
    by (simp add: field_line_def e(1) Let_def mget_def set_current_inv split: option.split)
qed

lemma new_entity_ok: "entity_ok (new_entity hm)"
  unfolding new_entity_def by (intro entity_okI) (simp_all add: atoi_digits_def amap_ok_def)

lemma mini_line_inv: "mini_inv st \<Longrightarrow> mini_inv (mini_line vals line st)"
proof (cases "rx_groups miniHeaderRe line")
  case (Some hm)
  assume "mini_inv st"
  with Some show ?thesis
    by (simp add: mini_line_def mini_inv_def amap_simps list_all_put new_entity_ok dom_update)
next
  case None
  assume "mini_inv st"
  moreover from this have "mini_inv (st\<lparr>ms_inverse := True\<rparr>)" by (simp add: mini_inv_def)
  ultimately show ?thesis using None
    by (simp add: mini_line_def inverse_line_inv field_line_inv)
qed

lemma mini_types_ok: "list_all (\<lambda>(k, v). entity_ok v) (mini_types vals block)" "amap_ok (mini_types vals block)"
proof -
  have "mini_inv st \<Longrightarrow> mini_inv (fold (mini_line vals) ls st)" for ls st
    by (induction ls arbitrary: st) (auto intro: mini_line_inv)
  from this [of "\<lparr>ms_types = [], ms_cur = [], ms_inverse = False\<rparr>" "mini_lines block"]
  show "list_all (\<lambda>(k, v). entity_ok v) (mini_types vals block)" "amap_ok (mini_types vals block)"
    by (simp_all add: mini_types_def mini_inv_def amap_ok_def)
qed

definition mini_ok :: "gmap \<Rightarrow> bool" where
  "mini_ok m \<longleftrightarrow> map fst m = [''scope'', ''mode'', ''entity_types''] \<and>
     asStringOk (mget m ''scope'') \<noteq> None \<and> asStringOk (mget m ''mode'') \<noteq> None \<and>
     (case mget m ''entity_types'' of
        GObj ts \<Rightarrow> amap_ok ts \<and> list_all (\<lambda>(k, v). entity_ok v) ts
      | _ \<Rightarrow> False)"


end
