(* ===== verification/Catalog.thy ===== *)
theory Catalog
  imports Catalog_Names Mini_Schema
begin

text \<open>
  Catalog documents (src/domain/catalog.go, pack_schema.go): the lineage check, the search for the
  file of a mode, the scope brief inside a prompt, the labels and the listing of the catalog roots,
  and the record a loaded document becomes.

  The file system is the record \<open>filesys\<close>, json.Unmarshal the parameter \<open>unmarshal\<close> (an error text or
  the value), md5 over the canonical JSON the parameter \<open>digest\<close> of Contract. A nil map is \<open>None\<close>.
\<close>

section \<open>Lineage\<close>

definition LineageBaseID :: "gmap option \<Rightarrow> string" where
  "LineageBaseID doc = (case doc of
     None \<Rightarrow> []
   | Some d \<Rightarrow> (case asObjectMap (mget d ''_lineage'') of
       None \<Rightarrow> [] | Some raw \<Rightarrow> trim_space (asString (mget raw ''base_id''))))"

definition DocumentBaseID :: "gmap option \<Rightarrow> string" where
  "DocumentBaseID doc = (if LineageBaseID doc \<noteq> [] then LineageBaseID doc
     else (case doc of None \<Rightarrow> [] | Some d \<Rightarrow> trim_space (asString (mget d ''base_id''))))"

definition lineage_error :: "string \<Rightarrow> gmap \<Rightarrow> zerror" where
  "lineage_error msg details = NewCatalog CodeCatalogLineageUnknown catalogComponent
     [WithMessage msg, WithDetails details]"

definition apos :: string where "apos = [CHR 0x27]"

definition CheckLineage :: "gmap option \<Rightarrow> string \<Rightarrow> bool \<Rightarrow> string \<Rightarrow> zerror option" where
  "CheckLineage doc baseID requireLineage pathName = (let want = trim_space baseID in
     if want = [] then None
     else if \<not> has_prefix want ''base-'' \<and> \<not> has_prefix want ''cus-'' then
       Some (lineage_error (''base_id must look like '' @ apos @ ''base-N'' @ apos @ '' or '' @ apos @
         ''cus-*'' @ apos @ '', got '' @ baseID) [(''base_id'', GStr baseID)])
     else (let got = LineageBaseID doc; label = (if pathName = [] then ''catalog'' else pathName) in
       if got \<noteq> [] \<and> got \<noteq> want then
         Some (lineage_error (''lineage base_id '' @ apos @ got @ apos @ '' != requested '' @ apos @
           want @ apos @ '' ('' @ label @ '')'')
           [(''requested'', GStr want), (''got'', GStr got), (''path'', GStr pathName)])
       else if requireLineage \<and> got = [] then
         Some (lineage_error (''catalog missing _lineage.base_id (refusing silent load): '' @ label)
           [(''requested'', GStr want), (''path'', GStr pathName)])
       else None))"

section \<open>Resolving\<close>

record CatalogResolveOpts =
  ro_Mode :: string
  ro_Bucket :: string
  ro_Scope :: string
  ro_UserDir :: string
  ro_BundledDir :: string
  ro_BaseID :: string

definition isRegularFile :: "filesys \<Rightarrow> string \<Rightarrow> bool" where
  "isRegularFile fs path \<longleftrightarrow> fs_stat fs path = Some FRegular"

definition resolve_locations :: "CatalogResolveOpts \<Rightarrow> string list" where
  "resolve_locations opts =
     (if ro_Bucket opts \<noteq> [] \<and> ro_Scope opts \<noteq> [] then
        (let scopeDir = path_join [ro_UserDir opts,
             ScopeChatRequestsSubdir (ro_Bucket opts) (ro_Scope opts)] in
         [scopeDir, path_join [scopeDir, ''min'']])
      else []) @
     [ro_UserDir opts, path_join [ro_UserDir opts, ''min'']] @
     (if ro_BundledDir opts \<noteq> [] then [ro_BundledDir opts, path_join [ro_BundledDir opts, ''min'']]
      else [])"

fun first_name :: "filesys \<Rightarrow> string \<Rightarrow> string list \<Rightarrow> string option" where
  "first_name fs loc [] = None"
| "first_name fs loc (n # ns) =
     (if isRegularFile fs (path_join [loc, n]) then Some (path_join [loc, n])
      else first_name fs loc ns)"

fun first_location :: "filesys \<Rightarrow> string list \<Rightarrow> string list \<Rightarrow> string option" where
  "first_location fs names [] = None"
| "first_location fs names (loc # locs) = (case first_name fs loc names of
     Some q \<Rightarrow> Some q | None \<Rightarrow> first_location fs names locs)"

definition ResolveCatalogPath :: "filesys \<Rightarrow> CatalogResolveOpts \<Rightarrow> string option" where
  "ResolveCatalogPath fs opts =
     (let names = CatalogFilenamesForMode (ro_Mode opts) (ro_BaseID opts) in
      if names = [] then None else first_location fs names (resolve_locations opts))"

section \<open>The scope brief\<close>

definition brief_of :: "string \<Rightarrow> string option" where
  "brief_of s = map_option (\<lambda>i. trim_space (drop i s)) (str_index s briefHeading)"

definition ExtractScopeBrief :: "gmap option \<Rightarrow> string" where
  "ExtractScopeBrief chatReq = (case chatReq of
     None \<Rightarrow> []
   | Some d \<Rightarrow> (case brief_of (first_content d) of
       Some b \<Rightarrow> b
     | None \<Rightarrow> (case brief_of (instructions_prompt d) of Some b \<Rightarrow> b | None \<Rightarrow> [])))"

definition blankLine :: string where "blankLine = [CHR 0x0A, CHR 0x0A]"

definition append_brief :: "string \<Rightarrow> string \<Rightarrow> string" where
  "append_brief current stripped = trim_right_set trailingWS current @ blankLine @ stripped"

definition merge_first_message :: "string \<Rightarrow> gmap \<Rightarrow> gmap" where
  "merge_first_message stripped d = (case mget d ''messages'' of
     GArr (GObj msg # rest) \<Rightarrow> (let current = asString (mget msg ''content'') in
       if has_brief current then d
       else amap_put ''messages'' (GArr (GObj (amap_put ''content''
         (GStr (append_brief current stripped)) msg) # rest)) d)
   | _ \<Rightarrow> d)"

definition merge_instructions :: "string \<Rightarrow> gmap \<Rightarrow> gmap" where
  "merge_instructions stripped d = (case mget d ''instructions'' of
     GObj instr \<Rightarrow> (let sp = asString (mget instr ''system_prompt'') in
       if sp = [] \<or> has_brief sp then d
       else amap_put ''instructions'' (GObj (amap_put ''system_prompt''
         (GStr (append_brief sp stripped)) instr)) d)
   | _ \<Rightarrow> d)"

definition MergeScopeBrief :: "gmap option \<Rightarrow> string \<Rightarrow> gmap option" where
  "MergeScopeBrief chatReq brief = (if brief = [] then chatReq else (case chatReq of
     None \<Rightarrow> None
   | Some d \<Rightarrow> (case cloneJSON (GObj d) of
       GObj out \<Rightarrow> Some (merge_instructions (trim_space brief)
         (merge_first_message (trim_space brief) out))
     | _ \<Rightarrow> chatReq)))"

definition NormalizeChatRequestShape :: "gmap option \<Rightarrow> gmap" where
  "NormalizeChatRequestShape doc = (case doc of None \<Rightarrow> [] | Some m \<Rightarrow> m)"

definition PrepareLoadedDocument :: "(gval \<Rightarrow> string option) \<Rightarrow> gmap option \<Rightarrow> gmap option" where
  "PrepareLoadedDocument digest raw =
     HealTrailingWSStampDrift digest (Some (NormalizeChatRequestShape raw))"

section \<open>Labels and statistics\<close>

definition absPath :: "filesys \<Rightarrow> string \<Rightarrow> string" where
  "absPath fs q = (if q = [] then q else (case path_abs (fs_cwd fs) q of None \<Rightarrow> q | Some g \<Rightarrow> g))"

definition underDir :: "filesys \<Rightarrow> string \<Rightarrow> string \<Rightarrow> string option" where
  "underDir fs rootDir target = (if rootDir = [] \<or> target = [] then None
     else (case path_rel (absPath fs rootDir) (absPath fs target) of
       None \<Rightarrow> None
     | Some rel \<Rightarrow> if rel = ''..'' \<or> has_prefix rel ''../'' then None else Some rel))"

definition PathSourceLabel :: "filesys \<Rightarrow> string \<Rightarrow> string \<Rightarrow> string \<Rightarrow> string" where
  "PathSourceLabel fs path userDir bundledDir = (case underDir fs userDir path of
     Some rel \<Rightarrow> (let parts = split_on slash rel in
       if 2 \<le> length parts \<and> str_contains (hd parts) ''__'' then ''synced ('' @ rel @ '')''
       else ''user_general ('' @ rel @ '')'')
   | None \<Rightarrow> (case (if bundledDir = [] then None else underDir fs bundledDir path) of
       Some rel \<Rightarrow> ''bundled ('' @ rel @ '')''
     | None \<Rightarrow> ''file ('' @ path_base path @ '')''))"

definition verbList :: "gmap option \<Rightarrow> gval list" where
  "verbList doc = (case doc of
     None \<Rightarrow> []
   | Some d \<Rightarrow> (let raw0 = mget d ''verbs'';
         raw = (if asArray raw0 = None then mget d ''tools'' else raw0) in
       case asArray raw of None \<Rightarrow> [] | Some xs \<Rightarrow> xs))"

definition contractIDOf :: "gmap option \<Rightarrow> string" where
  "contractIDOf doc = (case doc of
     None \<Rightarrow> []
   | Some d \<Rightarrow> (case asObjectMap (mget d ''contract'') of
       None \<Rightarrow> [] | Some cb \<Rightarrow> asString (mget cb ''id'')))"

text \<open>The loop of itoa fills a buffer of 20 bytes from its end; an int has at most 19 digits, and the
  loop does not run for a negative one.\<close>

function itoa_loop :: "int \<Rightarrow> string \<Rightarrow> string" where
  "itoa_loop n acc = (if n > 0 then itoa_loop (n div 10) (char_of (nat (48 + n mod 10)) # acc) else acc)"
  by pat_completeness auto
termination by (relation "measure (\<lambda>(n, acc). nat n)") auto

declare itoa_loop.simps [simp del]

definition itoa :: "int \<Rightarrow> string" where
  "itoa n = (if n = 0 then ''0'' else itoa_loop n [])"

text \<open>json.Unmarshal into a map: an object fills it, null leaves it nil, anything else is an
  error.\<close>

definition read_document :: "(string \<Rightarrow> string + gval) \<Rightarrow> filesys \<Rightarrow> string \<Rightarrow> gmap option" where
  "read_document unmarshal fs path = (case fs_read fs path of
     Inl _ \<Rightarrow> None
   | Inr raw \<Rightarrow> (case unmarshal raw of Inr (GObj m) \<Rightarrow> Some m | _ \<Rightarrow> None))"

definition CatalogEntryStats ::
  "(string \<Rightarrow> string + gval) \<Rightarrow> filesys \<Rightarrow> string \<Rightarrow> gmap option \<Rightarrow> string amap" where
  "CatalogEntryStats unmarshal fs path body = (let
       parsed = ParseCatalogFilename (path_base path);
       doc = (case body of Some d \<Rightarrow> Some d | None \<Rightarrow> read_document unmarshal fs path);
       verbs = verbList doc;
       stamped = (case doc of None \<Rightarrow> [] | Some d \<Rightarrow> ExtractStampedHash doc);
       lineage = LineageBaseID doc;
       b1 = (case parsed of Some (_, b) \<Rightarrow> if b \<noteq> [] then b else lineage | None \<Rightarrow> lineage);
       baseID = (if b1 = [] then DocumentBaseID doc else b1)
     in [(''base_id'', baseID), (''lineage_id'', lineage),
         (''stamp_present'', if stamped \<noteq> [] then ''true'' else ''false''),
         (''verb_count'', itoa (int (length verbs))), (''contract_id'', contractIDOf doc)])"

text \<open>A lookup in a map of strings.\<close>

definition sget :: "string amap \<Rightarrow> string \<Rightarrow> string" where
  "sget m k = (case map_of m k of None \<Rightarrow> [] | Some v \<Rightarrow> v)"

section \<open>Listing\<close>

definition jsonFilesSorted :: "filesys \<Rightarrow> string \<Rightarrow> string list" where
  "jsonFilesSorted fs dir = (case fs_list fs dir of
     None \<Rightarrow> []
   | Some ents \<Rightarrow> sort (map fst (filter (\<lambda>(n, isdir). \<not> isdir \<and> has_suffix n ''.json'') ents)))"

definition subdirsSorted :: "filesys \<Rightarrow> string \<Rightarrow> string list" where
  "subdirsSorted fs dir = (case fs_list fs dir of
     None \<Rightarrow> [] | Some ents \<Rightarrow> sort (map fst (filter (\<lambda>(n, isdir). isdir) ents)))"

record CatalogListEntry =
  le_Mode :: string
  le_File :: string
  le_Source :: string
  le_Origin :: string
  le_Path :: string
  le_BaseID :: string
  le_LineageID :: string
  le_StampPresent :: string
  le_VerbCount :: string

definition CatalogListEntry_Map :: "CatalogListEntry \<Rightarrow> string amap" where
  "CatalogListEntry_Map e =
     [(''mode'', le_Mode e), (''file'', le_File e), (''source'', le_Source e),
      (''origin'', le_Origin e), (''path'', le_Path e), (''base_id'', le_BaseID e),
      (''lineage_id'', le_LineageID e), (''stamp_present'', le_StampPresent e),
      (''verb_count'', le_VerbCount e)]"

text \<open>The state of a listing: the rows so far and the keys seen.\<close>

type_synonym listing = "CatalogListEntry list \<times> string list"

definition entry_key :: "string \<Rightarrow> string \<Rightarrow> string" where
  "entry_key file mode = file @ [CHR 0x00] @ mode"

definition add_entry :: "(string \<Rightarrow> string + gval) \<Rightarrow> filesys \<Rightarrow> string \<Rightarrow> string \<Rightarrow> string \<Rightarrow> string \<Rightarrow>
    listing \<Rightarrow> listing" where
  "add_entry unmarshal fs path file source origin l = (case l of (out, seen) \<Rightarrow>
     if path_base path = ManifestName then l
     else (let mode = ModeFromFilename path; key = entry_key file mode in
       if key \<in> set seen then l
       else (let stats = CatalogEntryStats unmarshal fs path None in
         (out @ [\<lparr>le_Mode = mode, le_File = file, le_Source = source, le_Origin = origin,
            le_Path = path, le_BaseID = sget stats ''base_id'',
            le_LineageID = sget stats ''lineage_id'',
            le_StampPresent = sget stats ''stamp_present'',
            le_VerbCount = sget stats ''verb_count''\<rparr>], key # seen))))"

text \<open>The rows of one directory; \<open>pre\<close> comes before the file names. The \<open>min\<close> directory is only
  looked at when it is a directory.\<close>

definition add_dir :: "(string \<Rightarrow> string + gval) \<Rightarrow> filesys \<Rightarrow> string \<Rightarrow> string \<Rightarrow> string \<Rightarrow> string \<Rightarrow>
    listing \<Rightarrow> listing" where
  "add_dir unmarshal fs dir pre source origin =
     fold (\<lambda>name. add_entry unmarshal fs (path_join [dir, name]) (pre @ name) source origin)
       (jsonFilesSorted fs dir)"

definition isDirectory :: "filesys \<Rightarrow> string \<Rightarrow> bool" where
  "isDirectory fs path \<longleftrightarrow> fs_stat fs path = Some FDirectory"

definition add_dir_min :: "(string \<Rightarrow> string + gval) \<Rightarrow> filesys \<Rightarrow> string \<Rightarrow> string \<Rightarrow> string \<Rightarrow> string \<Rightarrow>
    listing \<Rightarrow> listing" where
  "add_dir_min unmarshal fs dir pre source origin l =
     (let l1 = add_dir unmarshal fs dir pre source origin l; minDir = path_join [dir, ''min''] in
      if isDirectory fs minDir then add_dir unmarshal fs minDir (pre @ ''min/'') source origin l1
      else l1)"

definition add_from :: "(string \<Rightarrow> string + gval) \<Rightarrow> filesys \<Rightarrow> string \<Rightarrow> string \<Rightarrow> listing \<Rightarrow> listing" where
  "add_from unmarshal fs rootDir origin l = (if \<not> isDirectory fs rootDir then l
     else fold (\<lambda>sub. add_dir_min unmarshal fs (path_join [rootDir, sub]) (sub @ ''/'')
          (if ScopeKeyFromSubdir sub = [] then sub else ScopeKeyFromSubdir sub) origin)
        (subdirsSorted fs rootDir)
        (add_dir_min unmarshal fs rootDir [] ''general'' origin l))"

definition ListCatalogEntries ::
  "(string \<Rightarrow> string + gval) \<Rightarrow> filesys \<Rightarrow> string \<Rightarrow> string \<Rightarrow> CatalogListEntry list" where
  "ListCatalogEntries unmarshal fs userDir bundledDir =
     (let l = add_from unmarshal fs userDir ''synced'' ([], []) in
      fst (if bundledDir \<noteq> [] then add_from unmarshal fs bundledDir ''bundled'' l else l))"

section \<open>The loaded record\<close>

definition requiredFour :: "string list" where
  "requiredFour = [''summary'', ''query_decomposition'', ''decomposition'', ''confidence'']"

definition stringSetFromAny :: "gval \<Rightarrow> string list" where
  "stringSetFromAny v = (case v of
     GArr xs \<Rightarrow> filter (\<lambda>s. s \<noteq> []) (map asString xs)
   | GObj m \<Rightarrow> map fst m
   | _ \<Rightarrow> [])"

definition setHasAll :: "string list \<Rightarrow> string list \<Rightarrow> bool" where
  "setHasAll elems need \<longleftrightarrow> list_all (\<lambda>n. n \<in> set elems) need"

definition SchemaRequiredFourDefined :: "gmap option \<Rightarrow> bool" where
  "SchemaRequiredFourDefined schema = (case schema of
     None \<Rightarrow> False
   | Some s \<Rightarrow> setHasAll (stringSetFromAny (mget s ''required'')) requiredFour \<or>
       setHasAll (stringSetFromAny (mget s ''properties'')) requiredFour)"

definition CatalogLoadMockExpect :: "gmap option \<Rightarrow> gmap option \<Rightarrow> gmap" where
  "CatalogLoadMockExpect body schema = (let stamped = ExtractStampedHash body;
       hash = (if stamped \<noteq> [] then stamped else (case body of
           None \<Rightarrow> []
         | Some d \<Rightarrow> (case asObjectMap (mget d ''contract'') of
             None \<Rightarrow> [] | Some cb \<Rightarrow> asString (mget cb ''hash''))))
     in [(''result'', GBool True), (''catalog.base_id'', GStr (DocumentBaseID body)),
         (''catalog.contract.id'', GStr (ExtractContractID body)),
         (''catalog.contract.hash'', GStr hash),
         (''catalog.verb_count_gte'', GInt (int (length (verbList body)))),
         (''schema.required_four_defined'', GBool (SchemaRequiredFourDefined schema)),
         (''catalog.mini_schema.parsed'',
           GBool (''entity_types'' \<in> keys_of (GetMiniSchema body False)))])"

definition packSchemaNames :: "string list" where
  "packSchemaNames = [''response_output_schema.json'', ''response_output_schema.min.json'']"

definition packExampleNames :: "string list" where
  "packExampleNames = [''response_output_example.json'', ''response_output_example.min.json'']"

definition readJSONObjectFile :: "(string \<Rightarrow> string + gval) \<Rightarrow> filesys \<Rightarrow> string \<Rightarrow> gmap option" where
  "readJSONObjectFile unmarshal fs path = (case fs_read fs path of
     Inl _ \<Rightarrow> None
   | Inr raw \<Rightarrow> (case unmarshal raw of Inl _ \<Rightarrow> None | Inr v \<Rightarrow> asObjectMap v))"

fun first_object :: "(string \<Rightarrow> string + gval) \<Rightarrow> filesys \<Rightarrow> string \<Rightarrow> string list \<Rightarrow> gmap option" where
  "first_object unmarshal fs parent [] = None"
| "first_object unmarshal fs parent (n # ns) = (let q = path_join [parent, n] in
     case (if isRegularFile fs q then readJSONObjectFile unmarshal fs q else None) of
       Some doc \<Rightarrow> Some doc | None \<Rightarrow> first_object unmarshal fs parent ns)"

definition LoadSiblingPackSchema ::
  "(string \<Rightarrow> string + gval) \<Rightarrow> filesys \<Rightarrow> string \<Rightarrow> gmap option \<times> gmap option" where
  "LoadSiblingPackSchema unmarshal fs catalogPath = (if catalogPath = [] then (None, None)
     else (first_object unmarshal fs (path_dir catalogPath) packSchemaNames,
           first_object unmarshal fs (path_dir catalogPath) packExampleNames))"

record LoadedCatalog =
  lc_Body :: "gmap option"
  lc_Path :: string
  lc_Source :: string
  lc_ContractHash :: string
  lc_BaseID :: string
  lc_LineageID :: string
  lc_ResponseOutputSchema :: "gmap option"
  lc_ResponseOutputExample :: "gmap option"

definition EnrichLoaded :: "(string \<Rightarrow> string + gval) \<Rightarrow> filesys \<Rightarrow> gmap option \<Rightarrow> string \<Rightarrow> string \<Rightarrow>
    string \<Rightarrow> string \<Rightarrow> LoadedCatalog" where
  "EnrichLoaded unmarshal fs body path source keyBaseID contractHash = (let
       lineage = LineageBaseID body;
       b1 = trim_space keyBaseID;
       b2 = (if b1 = [] then lineage else b1);
       baseID = (if b2 = [] then DocumentBaseID body else b2);
       pack = LoadSiblingPackSchema unmarshal fs path
     in \<lparr>lc_Body = body, lc_Path = path, lc_Source = source, lc_ContractHash = contractHash,
         lc_BaseID = baseID, lc_LineageID = lineage, lc_ResponseOutputSchema = fst pack,
         lc_ResponseOutputExample = snd pack\<rparr>)"

section \<open>Lineage and resolving\<close>

text \<open>A lineage check passes exactly when no base id is asked for, or the one asked for has one of
  the two forms and the document carries it, or carries none where none is required; every refusal
  is the unknown-lineage error.\<close>

lemma CheckLineage_exact:
  "(CheckLineage doc baseID req path = None \<longleftrightarrow>
     (let want = trim_space baseID in want = [] \<or>
       (has_prefix want ''base-'' \<or> has_prefix want ''cus-'') \<and>
       (LineageBaseID doc = want \<or> LineageBaseID doc = [] \<and> \<not> req))) \<and>
   (case CheckLineage doc baseID req path of
      None \<Rightarrow> True | Some e \<Rightarrow> ze_code e = CodeCatalogLineageUnknown)"
proof -
  have "ze_code (lineage_error msg details) = CodeCatalogLineageUnknown" for msg details
    by (simp add: lineage_error_def NewFamily_def typed_def NewError_def)
  then show ?thesis by (auto simp: CheckLineage_def Let_def split: if_splits)
qed

definition resolve_candidates :: "CatalogResolveOpts \<Rightarrow> string list" where
  "resolve_candidates opts = concat (map (\<lambda>loc. map (\<lambda>n. path_join [loc, n])
     (CatalogFilenamesForMode (ro_Mode opts) (ro_BaseID opts))) (resolve_locations opts))"

lemma first_name_find:
  "first_name fs loc ns = find (isRegularFile fs) (map (\<lambda>n. path_join [loc, n]) ns)"
  by (induction ns) auto

lemma find_append: "find q (xs @ ys) = (case find q xs of None \<Rightarrow> find q ys | Some x \<Rightarrow> Some x)"
  by (induction xs) auto

lemma resolve_find: "ResolveCatalogPath fs opts = find (isRegularFile fs) (resolve_candidates opts)"
proof -
  have "first_location fs ns ls =
      find (isRegularFile fs) (concat (map (\<lambda>loc. map (\<lambda>n. path_join [loc, n]) ns) ls))" for ns ls
    by (induction ls) (simp_all add: first_name_find find_append split: option.split)
  moreover have "find q (concat (map (\<lambda>loc. [] :: string list) ls)) = None" for q and ls :: "string list"
    by (induction ls) auto
  ultimately show ?thesis by (simp add: ResolveCatalogPath_def resolve_candidates_def Let_def)
qed

lemma contains_char: "str_contains s [c] \<longleftrightarrow> c \<in> set s"
  unfolding str_contains_iff by (auto simp: in_set_conv_decomp)

lemma filename_proper:
  assumes "trim_space b = [] \<or> mode_ok m \<and> id_ok b"
  shows "list_all proper_element (CatalogFilenamesForMode m b)"
proof -
  have sl: "''/'' = [slash]" by (simp add: slash_def)
  show ?thesis
  proof (cases "trim_space b = []")
    case True
    have "proper_element (x @ ''.json'')" if "slash \<notin> set x" for x
      using that by (auto simp: proper_element_def slash_def)
    then have "proper_element (default_mode m @ ''.json'')" if "isSinglePathComponent (default_mode m)"
      using that unfolding isSinglePathComponent_def sl contains_char by blast
    moreover have "proper_element (''chat_request_'' @ default_mode m @ r)"
      if "isSinglePathComponent (default_mode m)" "slash \<notin> set r" for r
      using that unfolding isSinglePathComponent_def sl contains_char by (intro proper_name) simp
    moreover have "slash \<notin> set ''_v2.json''" "slash \<notin> set ''.json''" "slash \<notin> set ''v2.json''"
      by (simp_all add: slash_def)
    moreover have "proper_element ''chat_request_v2.json''" "proper_element ''chat_request.json''"
      by (simp_all add: proper_element_def slash_def)
    ultimately show ?thesis using True
      by (simp add: CatalogFilenamesForMode_def Let_def list_all_iff)
  next
    case False
    with assms have "mode_ok m" "id_ok b" by simp_all
    then have m: "default_mode m = m" "slash \<notin> set m" and b: "trim_space b = b" "slash \<notin> set b" "b \<noteq> []"
      using False by (auto simp: mode_ok_def id_ok_def default_mode_def)
    have "proper_element (''chat_request_'' @ m @ ''_'' @ b @ ''.json'')"
      using m b by (intro proper_name) (simp add: slash_def)
    with m b show ?thesis
      by (simp add: CatalogFilenamesForMode_def ChatRequestFilename_def Let_def)
  qed
qed



text \<open>A base id is put into the file name unchecked, so one with slashes leaves the catalog roots.\<close>

lemma base_id_escapes:
  "ResolveCatalogPath
      \<lparr>fs_stat = (\<lambda>q. if q = ''/etc/x.json'' then Some FRegular else None), fs_mtime = (\<lambda>_. 0),
       fs_read = (\<lambda>_. Inl []), fs_list = (\<lambda>_. None), fs_cwd = None\<rparr>
      \<lparr>ro_Mode = ''auto'', ro_Bucket = ''b'', ro_Scope = ''_s'', ro_UserDir = ''/u/c'', ro_BundledDir = [],
       ro_BaseID = ''base-1/../../../etc/x''\<rparr> = Some ''/etc/x.json''"
  by code_simp

section \<open>The brief\<close>

lemma heading_borders:
  "\<forall>k \<in> {1..<length briefHeading}.
     take k briefHeading \<noteq> drop (length briefHeading - k) briefHeading"
  by code_simp

lemma marker_headings:
  "ScopeBriefMarker = blankLine @ briefHeading" "MiniSchemaMarker = blankLine @ schemaHeading"
  by (simp_all add: ScopeBriefMarker_def MiniSchemaMarker_def blankLine_def briefHeading_def
    schemaHeading_def)

lemma contains_infix: "str_contains s (a @ b) \<Longrightarrow> str_contains s b"
  unfolding str_contains_iff by (metis append.assoc)

lemma no_heading_marker: "\<not> has_brief s \<Longrightarrow> no_brief s"
  by (auto simp: has_brief_def no_brief_def marker_headings dest: contains_infix)

lemma has_brief_trim: "\<not> has_brief s \<Longrightarrow> \<not> has_brief (trim_right_set cs s)"
  using trim_right_set_prefix [of cs s] str_contains_append(1) unfolding has_brief_def prefix_def
  by metis

lemma brief_of_append:
  assumes "\<not> has_brief current" and "has_prefix b briefHeading"
  shows "brief_of (append_brief current b) = Some (trim_space b)"
proof -
  define a where "a = trim_right_set trailingWS current @ blankLine"
  from assms(2) obtain r where b: "b = briefHeading @ r" by (auto simp: has_prefix_def prefix_def)
  have "\<not> str_contains a briefHeading" unfolding a_def
    using has_brief_trim [OF assms(1), of trailingWS]
    by (intro not_contains_append) (simp_all add: has_brief_def briefHeading_def blankLine_def)
  then have "str_index (a @ briefHeading @ r) briefHeading = Some (length a)"
    using heading_borders by (rule str_index_fresh)
  then show ?thesis by (simp add: brief_of_def append_brief_def b) (simp add: a_def)
qed

lemma strip_append_brief:
  assumes "\<not> has_brief current" and "has_prefix b briefHeading"
  shows "stripScopeBrief (GStr (append_brief current b)) = trim_right_set trailingWS current"
proof -
  from assms(2) obtain r where b: "b = briefHeading @ r" by (auto simp: has_prefix_def prefix_def)
  have "\<not> str_contains (trim_right_set trailingWS current) ScopeBriefMarker"
    using no_heading_marker [OF has_brief_trim [OF assms(1)]] by (simp add: no_brief_def)
  from strip_scope_brief [OF this, of r] show ?thesis
    by (simp add: append_brief_def b marker_headings)
qed

lemma strip_put_same:
  "map_of m k = Some v \<Longrightarrow> stripForHash v = stripForHash w \<Longrightarrow>
   stripForHash (GObj (amap_put k w m)) = stripForHash (GObj m)"
  by (induction m) auto

text \<open>The prompt surfaces do not end in white space, and the first message has a text.\<close>

definition surfaces_clean :: "gmap \<Rightarrow> bool" where
  "surfaces_clean d \<longleftrightarrow> (case mget d ''messages'' of
       GArr (GObj msg # _) \<Rightarrow> (case mget msg ''content'' of
         GStr c \<Rightarrow> trim_right_set trailingWS c = c | _ \<Rightarrow> False)
     | _ \<Rightarrow> True) \<and>
     trim_right_set trailingWS (instructions_prompt d) = instructions_prompt d"

lemma mget_Some: "mget m k = v \<Longrightarrow> v \<noteq> GNil \<Longrightarrow> map_of m k = Some v"
  by (auto simp: mget_def split: option.splits)

lemma strip_appended:
  assumes "\<not> has_brief s" "has_prefix b briefHeading" "trim_right_set trailingWS s = s"
  shows "stripForHash (GStr s) = stripForHash (GStr (append_brief s b))"
  using assms no_heading_marker [OF assms(1)] by (simp add: strip_append_brief strip_no_brief)

lemma merge_message_strip:
  assumes "surfaces_clean d" "has_prefix b briefHeading"
  shows "stripForHash (GObj (merge_first_message b d)) = stripForHash (GObj d)"
proof (cases "merge_first_message b d = d")
  case False
  then obtain msg tl where m: "mget d ''messages'' = GArr (GObj msg # tl)"
    by (auto simp: merge_first_message_def split: gval.splits list.splits)
  with assms(1) obtain c where c: "mget msg ''content'' = GStr c" "trim_right_set trailingWS c = c"
    by (auto simp: surfaces_clean_def split: gval.splits)
  have nb: "\<not> has_brief c" using False by (auto simp: merge_first_message_def m c(1))
  have "stripForHash (GObj (amap_put ''content'' (GStr (append_brief c b)) msg)) = stripForHash (GObj msg)"
    by (rule strip_put_same [OF mget_Some [OF c(1)]]) (simp_all add: strip_appended [OF nb assms(2) c(2)]
      del: stripForHash.simps)
  then have "stripForHash (GArr (GObj msg # tl)) =
      stripForHash (GArr (GObj (amap_put ''content'' (GStr (append_brief c b)) msg) # tl))" by simp
  from strip_put_same [OF mget_Some [OF m] this] show ?thesis
    by (simp add: merge_first_message_def m c(1) nb Let_def del: stripForHash.simps)
qed simp

lemma merge_instructions_strip:
  assumes "trim_right_set trailingWS (instructions_prompt d) = instructions_prompt d"
    and "has_prefix b briefHeading"
  shows "stripForHash (GObj (merge_instructions b d)) = stripForHash (GObj d)"
proof (cases "merge_instructions b d = d")
  case False
  then obtain i where i: "mget d ''instructions'' = GObj i"
    by (auto simp: merge_instructions_def split: gval.splits)
  define c where "c = asString (mget i ''system_prompt'')"
  have ne: "c \<noteq> []" and nb: "\<not> has_brief c" using False
    by (auto simp: merge_instructions_def i c_def Let_def)
  then have g: "mget i ''system_prompt'' = GStr c" unfolding c_def
    by (cases "mget i ''system_prompt''") auto
  have tr: "trim_right_set trailingWS c = c" using assms(1) by (simp add: instructions_prompt_def i c_def)
  have "stripForHash (GObj (amap_put ''system_prompt'' (GStr (append_brief c b)) i)) = stripForHash (GObj i)"
    by (rule strip_put_same [OF mget_Some [OF g]]) (simp_all add: strip_appended [OF nb assms(2) tr]
      del: stripForHash.simps)
  then have "stripForHash (GObj i) =
      stripForHash (GObj (amap_put ''system_prompt'' (GStr (append_brief c b)) i))" by (rule sym)
  from strip_put_same [OF mget_Some [OF i] this] show ?thesis using ne nb
    by (simp add: merge_instructions_def i g Let_def del: stripForHash.simps)
qed simp

lemma merge_message_prompt: "instructions_prompt (merge_first_message b d) = instructions_prompt d"
  by (auto simp: merge_first_message_def instructions_prompt_def Let_def amap_simps
    split: gval.splits list.splits)

lemma merge_some:
  "brief \<noteq> [] \<Longrightarrow> MergeScopeBrief (Some d) brief =
     Some (merge_instructions (trim_space brief) (merge_first_message (trim_space brief) d))"
  by (simp add: MergeScopeBrief_def del: cloneJSON.simps)

lemma brief_heading_ne: "has_prefix (trim_space brief) briefHeading \<Longrightarrow> brief \<noteq> []"
  by (auto simp: has_prefix_def briefHeading_def)

lemma merge_hash_same:
  assumes "has_prefix (trim_space brief) briefHeading" and "surfaces_clean d"
  shows "ComputeContractHash digest (MergeScopeBrief (Some d) brief) = ComputeContractHash digest (Some d)"
proof -
  define d1 where "d1 = merge_first_message (trim_space brief) d"
  have "stripForHash (GObj (merge_instructions (trim_space brief) d1)) = stripForHash (GObj d1)"
    using assms by (intro merge_instructions_strip) (simp_all add: d1_def merge_message_prompt surfaces_clean_def)
  then show ?thesis using merge_message_strip [OF assms(2,1)]
    by (simp add: merge_some [OF brief_heading_ne [OF assms(1)]] ComputeContractHash_def d1_def
      del: stripForHash.simps)
qed

lemma merge_extract:
  assumes "has_prefix (trim_space brief) briefHeading"
    and m: "mget d ''messages'' = GArr (GObj msg # rest)" and nb: "\<not> has_brief (first_content d)"
  shows "ExtractScopeBrief (MergeScopeBrief (Some d) brief) = trim_space brief"
proof -
  define d1 where "d1 = merge_first_message (trim_space brief) d"
  have f: "first_content d = asString (mget msg ''content'')" by (simp add: first_content_def m)
  have "first_content d1 = append_brief (first_content d) (trim_space brief)"
    using nb by (simp add: d1_def merge_first_message_def m f Let_def first_content_def amap_simps)
  moreover have "first_content (merge_instructions (trim_space brief) d1) = first_content d1"
    by (auto simp: merge_instructions_def first_content_def Let_def amap_simps split: gval.splits)
  ultimately show ?thesis
    by (simp add: merge_some [OF brief_heading_ne [OF assms(1)]] ExtractScopeBrief_def d1_def
      brief_of_append [OF nb assms(1)])
qed

text \<open>Merging a live scope brief leaves the contract hash as it was, provided the prompt surfaces
  carry no trailing white space; and when the first message has none yet, the merged brief is the
  one read back.\<close>

lemma merge_hash_safe:
  assumes "has_prefix (trim_space brief) briefHeading" and "surfaces_clean d"
  shows "ComputeContractHash digest (MergeScopeBrief (Some d) brief) = ComputeContractHash digest (Some d) \<and>
    (case mget d ''messages'' of
       GArr (GObj msg # _) \<Rightarrow> has_brief (first_content d) \<or>
         ExtractScopeBrief (MergeScopeBrief (Some d) brief) = trim_space brief
     | _ \<Rightarrow> True)"
  using merge_hash_same [OF assms] merge_extract [OF assms(1)]
  by (auto split: gval.splits list.splits)

definition prompt_doc :: "string \<Rightarrow> gmap" where
  "prompt_doc c = [(''messages'', GArr [GObj [(''role'', GStr ''system''), (''content'', GStr c)]])]"

text \<open>With trailing white space the value under the hash changes, and a content that is not a
  string is replaced.\<close>

lemma merge_trailing_space:
  "stripForHash (GObj (the (MergeScopeBrief (Some (prompt_doc ''Hi '')) ''## SCOPE BRIEF''))) \<noteq>
   stripForHash (GObj (prompt_doc ''Hi ''))"
  by code_simp

lemma merge_replaces_content:
  "first_content (the (MergeScopeBrief
     (Some [(''messages'', GArr [GObj [(''content'', GArr [GStr ''part''])]])]) ''## SCOPE BRIEF'')) =
   blankLine @ ''## SCOPE BRIEF''"
  by code_simp

section \<open>The listing\<close>

definition entry_ok :: "(string \<Rightarrow> string + gval) \<Rightarrow> filesys \<Rightarrow> CatalogListEntry \<Rightarrow> bool" where
  "entry_ok unmarshal fs e \<longleftrightarrow> path_base (le_Path e) \<noteq> ManifestName \<and>
     le_Mode e = ModeFromFilename (le_Path e) \<and> le_Origin e \<in> {''synced'', ''bundled''} \<and>
     le_LineageID e = LineageBaseID (read_document unmarshal fs (le_Path e)) \<and>
     (le_StampPresent e = ''true'') = (ExtractStampedHash (read_document unmarshal fs (le_Path e)) \<noteq> [])"

definition listing_ok :: "(string \<Rightarrow> string + gval) \<Rightarrow> filesys \<Rightarrow> listing \<Rightarrow> bool" where
  "listing_ok unmarshal fs l \<longleftrightarrow> (case l of (out, seen) \<Rightarrow>
     map (\<lambda>e. entry_key (le_File e) (le_Mode e)) out = rev seen \<and> distinct seen \<and>
     list_all (entry_ok unmarshal fs) out)"

lemma add_entry_ok:
  assumes "listing_ok unmarshal fs l" and "origin \<in> {''synced'', ''bundled''}"
  shows "listing_ok unmarshal fs (add_entry unmarshal fs path file source origin l) \<and>
    prefix (fst l) (fst (add_entry unmarshal fs path file source origin l))"
proof -
  have "ExtractStampedHash None = []" by (simp add: ExtractStampedHash_def)
  then have "entry_ok unmarshal fs \<lparr>le_Mode = ModeFromFilename path, le_File = file, le_Source = source,
      le_Origin = origin, le_Path = path,
      le_BaseID = sget (CatalogEntryStats unmarshal fs path None) ''base_id'',
      le_LineageID = sget (CatalogEntryStats unmarshal fs path None) ''lineage_id'',
      le_StampPresent = sget (CatalogEntryStats unmarshal fs path None) ''stamp_present'',
      le_VerbCount = sget (CatalogEntryStats unmarshal fs path None) ''verb_count''\<rparr>"
    if "path_base path \<noteq> ManifestName"
    using assms(2) that by (simp add: entry_ok_def CatalogEntryStats_def Let_def sget_def split: option.split)
  with assms(1) show ?thesis
    by (cases l) (simp add: listing_ok_def add_entry_def Let_def split: if_split)
qed

text \<open>Everything the listing does is a sequence of such additions.\<close>

definition grows :: "(string \<Rightarrow> string + gval) \<Rightarrow> filesys \<Rightarrow> (listing \<Rightarrow> listing) \<Rightarrow> bool" where
  "grows unmarshal fs f \<longleftrightarrow> (\<forall>l. listing_ok unmarshal fs l \<longrightarrow>
     listing_ok unmarshal fs (f l) \<and> prefix (fst l) (fst (f l)))"

lemma growsD: "grows unmarshal fs f \<Longrightarrow> listing_ok unmarshal fs l \<Longrightarrow>
    listing_ok unmarshal fs (f l) \<and> prefix (fst l) (fst (f l))"
  unfolding grows_def by blast

lemma grows_entry:
  "origin \<in> {''synced'', ''bundled''} \<Longrightarrow> grows unmarshal fs (add_entry unmarshal fs path file source origin)"
  unfolding grows_def using add_entry_ok by blast

lemma grows_comp:
  assumes "grows unmarshal fs f" and "grows unmarshal fs g"
  shows "grows unmarshal fs (\<lambda>l. g (f l))"
  unfolding grows_def
proof (intro allI impI)
  fix l assume "listing_ok unmarshal fs l"
  with assms(1) have "listing_ok unmarshal fs (f l)" "prefix (fst l) (fst (f l))"
    unfolding grows_def by blast+
  with assms(2) show "listing_ok unmarshal fs (g (f l)) \<and> prefix (fst l) (fst (g (f l)))"
    unfolding grows_def by (metis prefix_order.trans)
qed

lemma grows_fold: "(\<And>x. grows unmarshal fs (f x)) \<Longrightarrow> grows unmarshal fs (fold f xs)"
proof (induction xs)
  case (Cons x xs)
  from grows_comp [OF Cons.prems [of x] Cons.IH [OF Cons.prems]] show ?case by (simp add: comp_def)
qed (simp add: grows_def)

lemma grows_dir:
  "origin \<in> {''synced'', ''bundled''} \<Longrightarrow> grows unmarshal fs (add_dir unmarshal fs dir pre source origin)"
  unfolding add_dir_def [abs_def] by (intro grows_fold grows_entry)

lemma grows_dir_min:
  assumes "origin \<in> {''synced'', ''bundled''}"
  shows "grows unmarshal fs (add_dir_min unmarshal fs dir pre source origin)"
  unfolding add_dir_min_def [abs_def] Let_def using grows_dir [OF assms]
  by (cases "isDirectory fs (path_join [dir, ''min''])") (simp_all add: grows_comp)

lemma grows_from:
  assumes "origin \<in> {''synced'', ''bundled''}"
  shows "grows unmarshal fs (add_from unmarshal fs rootDir origin)"
proof (cases "isDirectory fs rootDir")
  case True
  show ?thesis unfolding add_from_def [abs_def] using True
    by (simp add: grows_comp [OF grows_dir_min [OF assms] grows_fold [OF grows_dir_min [OF assms]]])
next
  case False
  then show ?thesis by (simp add: add_from_def [abs_def] grows_def)
qed

text \<open>A listing has one row per file name and mode, never the manifest, each row with the mode its
  path stands for and the lineage and stamp of the document there; the bundled root only adds rows
  after those of the user root, so a user file is never hidden by a bundled one.\<close>

theorem ListCatalogEntries_rows:
  "distinct (map (\<lambda>e. (le_File e, le_Mode e)) (ListCatalogEntries unmarshal fs userDir bundledDir)) \<and>
   list_all (entry_ok unmarshal fs) (ListCatalogEntries unmarshal fs userDir bundledDir) \<and>
   prefix (ListCatalogEntries unmarshal fs userDir []) (ListCatalogEntries unmarshal fs userDir bundledDir)"
proof -
  define l where "l = add_from unmarshal fs userDir ''synced'' ([], [])"
  define r where "r = (if bundledDir \<noteq> [] then add_from unmarshal fs bundledDir ''bundled'' l else l)"
  have "listing_ok unmarshal fs ([], [])" by (simp add: listing_ok_def)
  then have l: "listing_ok unmarshal fs l"
    using growsD [OF grows_from] unfolding l_def by blast
  then have r: "listing_ok unmarshal fs r \<and> prefix (fst l) (fst r)"
    using growsD [OF grows_from [of "''bundled''"] l] unfolding r_def by simp
  have "distinct (map (\<lambda>e. (le_File e, le_Mode e)) (fst r))"
  proof -
    have d: "distinct (map (\<lambda>e. entry_key (le_File e) (le_Mode e)) (fst r))"
      using r by (cases r) (simp add: listing_ok_def)
    have "distinct (map f xs)" if "distinct (map (\<lambda>x. g (f x)) xs)"
      for f :: "CatalogListEntry \<Rightarrow> string \<times> string" and g :: "string \<times> string \<Rightarrow> string" and xs
      using that by (induction xs) auto
    from this [where g = "\<lambda>(f, m). entry_key f m" and f = "\<lambda>e. (le_File e, le_Mode e)"] d
    show ?thesis by simp
  qed
  moreover have "list_all (entry_ok unmarshal fs) (fst r)" using r by (cases r) (simp add: listing_ok_def)
  moreover have "ListCatalogEntries unmarshal fs userDir bundledDir = fst r"
    "ListCatalogEntries unmarshal fs userDir [] = fst l"
    by (simp_all add: ListCatalogEntries_def l_def r_def Let_def)
  ultimately show ?thesis using r by simp
qed

lemma itoa_nat: "0 \<le> n \<Longrightarrow> itoa n = int_digits n"
proof -
  have zero: "char_of (48 :: nat) = CHR ''0''" by code_simp
  have "itoa_loop (int k) acc = (if k = 0 then [] else nat_digits k) @ acc" for k acc
  proof (induction k arbitrary: acc rule: less_induct)
    case (less k)
    have d: "char_of (nat (48 + int k mod 10)) = digit_char (k mod 10)"
      by (simp add: digit_char_def nat_add_distrib nat_mod_distrib)
    show ?case
    proof (cases "k = 0")
      case True
      then show ?thesis by (subst itoa_loop.simps) simp
    next
      case False
      then have "itoa_loop (int k) acc = itoa_loop (int (k div 10)) (digit_char (k mod 10) # acc)"
        by (subst itoa_loop.simps) (simp add: d zdiv_int)
      with less [of "k div 10"] False show ?thesis
        by (subst nat_digits.simps) auto
    qed
  qed
  from this [of "nat n" "[]"] show "0 \<le> n \<Longrightarrow> itoa n = int_digits n"
    by (cases "n = 0") (auto simp: itoa_def int_digits_def nat_digits.simps [of 0] digit_char_def zero)
qed

end
