(* ===== verification/Catalog_Store.thy ===== *)
theory Catalog_Store
  imports Catalog Control_Plane
begin

text \<open>
  The catalog store on the file system (src/adapters/catalogfs/store.go) behind the port
  CatalogStore (src/ports/catalog.go). Load and its rich form read one snapshot of the file system;
  Save is the sequence of system calls it makes, against what each of them answers.

  The interface is the locale \<open>catalog_store\<close>: a cancelled context is an error, a document loaded
  for a base id carries that base id as its lineage, and the contract hash is the one stamped in the
  body. It is interpreted on this store for every file system.
\<close>

section \<open>The port\<close>

record CatalogKey =
  ck_Mode :: string
  ck_Bucket :: string
  ck_Scope :: string
  ck_BaseID :: string

record CatalogDocument =
  cd_Body :: "gmap option"
  cd_Path :: string
  cd_ContractHash :: string

text \<open>The digest over canonical JSON, and the codec: marshal and unmarshal.\<close>

record jsonlib =
  jl_digest :: "gval \<Rightarrow> string option"
  jl_codec :: codec

abbreviation jl_unmarshal :: "jsonlib \<Rightarrow> string \<Rightarrow> string + gval" where
  "jl_unmarshal js \<equiv> snd (jl_codec js)"

section \<open>The store\<close>

definition storeComponent :: string where "storeComponent = ''adapters.catalog_fs''"

record Store =
  cs_Root :: string
  cs_BundledDir :: string

definition NewStore :: "string \<Rightarrow> string \<Rightarrow> Store" where
  "NewStore rootDir bundledDir = \<lparr>cs_Root = rootDir, cs_BundledDir = bundledDir\<rparr>"

text \<open>A nil store has no directories.\<close>

definition Store_userDir :: "Store option \<Rightarrow> string" where
  "Store_userDir s = (case s of None \<Rightarrow> [] | Some st \<Rightarrow> cs_Root st)"

definition Store_bundledDir :: "Store option \<Rightarrow> string" where
  "Store_bundledDir s = (case s of None \<Rightarrow> [] | Some st \<Rightarrow> cs_BundledDir st)"

definition resolve_opts :: "Store \<Rightarrow> CatalogKey \<Rightarrow> CatalogResolveOpts" where
  "resolve_opts s key = \<lparr>ro_Mode = ck_Mode key, ro_Bucket = ck_Bucket key, ro_Scope = ck_Scope key,
     ro_UserDir = cs_Root s, ro_BundledDir = cs_BundledDir s, ro_BaseID = ck_BaseID key\<rparr>"

definition ResolvePath :: "filesys \<Rightarrow> Store option \<Rightarrow> CatalogKey \<Rightarrow> string option" where
  "ResolvePath fs s key = (case s of
     None \<Rightarrow> None | Some st \<Rightarrow> ResolveCatalogPath fs (resolve_opts st key))"

definition not_found :: "Store \<Rightarrow> CatalogKey \<Rightarrow> zerror" where
  "not_found s key = NewCatalog CodeCatalogNotFound storeComponent
     [WithMessage (''catalog not found for mode='' @ apos @ ck_Mode key @ apos @ '' base_id='' @ apos @
        ck_BaseID key @ apos @ '' scope='' @ ck_Bucket key @ ''/'' @ ck_Scope key @
        ''; expected under '' @
        path_join [cs_Root s, ScopeChatRequestsSubdir (ck_Bucket key) (ck_Scope key)] @
        '' or top-level '' @
        path_join [cs_Root s, ChatRequestFilename (ck_Mode key) (ck_BaseID key)] @
        (if cs_BundledDir s \<noteq> [] then '' or bundled '' @ cs_BundledDir s else [])),
      WithDetails [(''mode'', GStr (ck_Mode key)), (''base_id'', GStr (ck_BaseID key)),
        (''bucket'', GStr (ck_Bucket key)), (''scope'', GStr (ck_Scope key)),
        (''user_dir'', GStr (cs_Root s))]]"

definition unreadable :: "string \<Rightarrow> string \<Rightarrow> zerror" where
  "unreadable path err = NewCatalog CodeCatalogNotFound storeComponent
     [WithMessage (''catalog unreadable: '' @ path),
      WithDetails [(''path'', GStr path), (''error'', GStr err)], WithCause err]"

definition parse_failed :: "string \<Rightarrow> string \<Rightarrow> zerror" where
  "parse_failed path err = NewCatalog CodeCatalogParseFailed storeComponent
     [WithMessage (''catalog parse failed: '' @ path_base path),
      WithDetails [(''path'', GStr path), (''error'', GStr err)], WithCause err]"

text \<open>What Load does with a decoded file.\<close>

definition finish_load :: "jsonlib \<Rightarrow> CatalogKey \<Rightarrow> string \<Rightarrow> gval \<Rightarrow> zerror + CatalogDocument" where
  "finish_load js key path decoded =
     (let body = PrepareLoadedDocument (jl_digest js) (asObjectMap decoded) in
      case (if trim_space (ck_BaseID key) \<noteq> []
            then CheckLineage body (ck_BaseID key) True (path_base path) else None) of
        Some e \<Rightarrow> Inl e
      | None \<Rightarrow> Inr \<lparr>cd_Body = body, cd_Path = path, cd_ContractHash = ExtractStampedHash body\<rparr>)"

definition Store_Load ::
  "jsonlib \<Rightarrow> filesys \<Rightarrow> Store \<Rightarrow> ctx_error option \<Rightarrow> CatalogKey \<Rightarrow> zerror + CatalogDocument" where
  "Store_Load js fs s ctx key = (case FromContext ctx of
     Some e \<Rightarrow> Inl e
   | None \<Rightarrow> (case ResolvePath fs (Some s) key of
       None \<Rightarrow> Inl (not_found s key)
     | Some path \<Rightarrow> (case fs_read fs path of
         Inl err \<Rightarrow> Inl (unreadable path err)
       | Inr raw \<Rightarrow> (case jl_unmarshal js raw of
           Inl err \<Rightarrow> Inl (parse_failed path err)
         | Inr decoded \<Rightarrow> finish_load js key path decoded))))"

definition Store_LoadRich ::
  "jsonlib \<Rightarrow> filesys \<Rightarrow> Store \<Rightarrow> ctx_error option \<Rightarrow> CatalogKey \<Rightarrow> zerror + LoadedCatalog" where
  "Store_LoadRich js fs s ctx key = (case Store_Load js fs s ctx key of
     Inl e \<Rightarrow> Inl e
   | Inr doc \<Rightarrow>
      (let source = (if cd_Path doc \<noteq> []
          then PathSourceLabel fs (cd_Path doc) (Store_userDir (Some s)) (Store_bundledDir (Some s))
          else ''unknown'') in
       Inr (EnrichLoaded (jl_unmarshal js) fs (cd_Body doc) (cd_Path doc) source (ck_BaseID key)
         (cd_ContractHash doc))))"

definition Store_ListEntries :: "jsonlib \<Rightarrow> filesys \<Rightarrow> Store option \<Rightarrow> CatalogListEntry list" where
  "Store_ListEntries js fs s = (case s of
     None \<Rightarrow> [] | Some st \<Rightarrow> ListCatalogEntries (jl_unmarshal js) fs (cs_Root st) (cs_BundledDir st))"

subsection \<open>Saving\<close>

text \<open>The system calls of atomicWriteJSON in their order; \<open>answer\<close> is the error text of a call, if
  any. The list holds the calls made, the last one first failing.\<close>

datatype fs_op = MkdirAll string | WriteFile string string | Rename string string

datatype save_error = SaveDomain zerror | SaveOS string

definition atomicWriteJSON :: "(fs_op \<Rightarrow> string option) \<Rightarrow> codec \<Rightarrow> string \<Rightarrow> gmap \<Rightarrow>
    fs_op list \<times> save_error option" where
  "atomicWriteJSON answer codec path doc = (let mk = MkdirAll (path_dir path); tmp = path @ ''.tmp'' in
     case answer mk of
       Some e \<Rightarrow> ([mk], Some (SaveOS e))
     | None \<Rightarrow> (case fst codec (GObj doc) of
         Inl e \<Rightarrow> ([mk], Some (SaveOS e))
       | Inr blob \<Rightarrow> (case answer (WriteFile tmp blob) of
           Some e \<Rightarrow> ([mk, WriteFile tmp blob], Some (SaveOS e))
         | None \<Rightarrow> ([mk, WriteFile tmp blob, Rename tmp path],
             map_option SaveOS (answer (Rename tmp path))))))"

definition save_path :: "Store \<Rightarrow> CatalogKey \<Rightarrow> string" where
  "save_path s key =
     (let scopeDir = path_join [cs_Root s, ScopeChatRequestsSubdir (ck_Bucket key) (ck_Scope key)] in
      path_join [scopeDir, ChatRequestFilename (ck_Mode key) (ck_BaseID key)])"

definition Store_Save :: "(fs_op \<Rightarrow> string option) \<Rightarrow> codec \<Rightarrow> Store \<Rightarrow> ctx_error option \<Rightarrow> CatalogKey \<Rightarrow>
    CatalogDocument \<Rightarrow> fs_op list \<times> save_error option" where
  "Store_Save answer codec s ctx key doc = (case FromContext ctx of
     Some e \<Rightarrow> ([], Some (SaveDomain e))
   | None \<Rightarrow> atomicWriteJSON answer codec (save_path s key)
       (case cd_Body doc of None \<Rightarrow> [] | Some body \<Rightarrow> body))"

section \<open>The contract of the port\<close>

locale catalog_store =
  fixes load :: "ctx_error option \<Rightarrow> CatalogKey \<Rightarrow> zerror + CatalogDocument"
  assumes load_cancelled: "FromContext ctx = Some e \<Longrightarrow> load ctx key = Inl e"
    and load_lineage: "load ctx key = Inr doc \<Longrightarrow> trim_space (ck_BaseID key) \<noteq> [] \<Longrightarrow>
      LineageBaseID (cd_Body doc) = trim_space (ck_BaseID key)"
    and load_stamp: "load ctx key = Inr doc \<Longrightarrow> cd_ContractHash doc = ExtractStampedHash (cd_Body doc)"
begin

text \<open>What a client builds from a loaded document with EnrichLoaded.\<close>

lemma enriched_base:
  assumes "load ctx key = Inr doc" and "trim_space (ck_BaseID key) \<noteq> []"
  shows "lc_LineageID (EnrichLoaded um fs (cd_Body doc) path source (ck_BaseID key) (cd_ContractHash doc)) =
      trim_space (ck_BaseID key)"
    and "lc_BaseID (EnrichLoaded um fs (cd_Body doc) path source (ck_BaseID key) (cd_ContractHash doc)) =
      trim_space (ck_BaseID key)"
  using load_lineage [OF assms] assms(2) by (simp_all add: EnrichLoaded_def Let_def)

lemma enriched_stamp:
  "load ctx key = Inr doc \<Longrightarrow>
   lc_ContractHash (EnrichLoaded um fs (cd_Body doc) path source b (cd_ContractHash doc)) =
     ExtractStampedHash (lc_Body (EnrichLoaded um fs (cd_Body doc) path source b (cd_ContractHash doc)))"
  using load_stamp by (simp add: EnrichLoaded_def Let_def)

lemma no_load_after_cancel: "load (Some c) key \<noteq> Inr doc"
  using load_cancelled [of "Some c"] by (cases c) simp_all

end

lemma finish_load_Inr:
  assumes "finish_load js key path decoded = Inr doc"
  shows "cd_Body doc = PrepareLoadedDocument (jl_digest js) (asObjectMap decoded)"
    and "cd_Path doc = path" and "cd_ContractHash doc = ExtractStampedHash (cd_Body doc)"
    and "trim_space (ck_BaseID key) \<noteq> [] \<Longrightarrow> LineageBaseID (cd_Body doc) = trim_space (ck_BaseID key)"
proof -
  define body where "body = PrepareLoadedDocument (jl_digest js) (asObjectMap decoded)"
  from assms have d: "doc = \<lparr>cd_Body = body, cd_Path = path, cd_ContractHash = ExtractStampedHash body\<rparr>"
    and c: "trim_space (ck_BaseID key) \<noteq> [] \<Longrightarrow> CheckLineage body (ck_BaseID key) True (path_base path) = None"
    by (auto simp: finish_load_def body_def [symmetric] Let_def split: option.splits if_splits)
  show "cd_Body doc = PrepareLoadedDocument (jl_digest js) (asObjectMap decoded)" "cd_Path doc = path"
    "cd_ContractHash doc = ExtractStampedHash (cd_Body doc)" by (simp_all add: d body_def)
  assume "trim_space (ck_BaseID key) \<noteq> []"
  with c show "LineageBaseID (cd_Body doc) = trim_space (ck_BaseID key)"
    by (auto simp: d CheckLineage_def Let_def split: if_splits)
qed

lemma Store_Load_Inr:
  assumes "Store_Load js fs s ctx key = Inr doc"
  obtains path raw decoded where "FromContext ctx = None" "ResolvePath fs (Some s) key = Some path"
    "fs_read fs path = Inr raw" "jl_unmarshal js raw = Inr decoded"
    "finish_load js key path decoded = Inr doc"
  using assms by (auto simp: Store_Load_def split: option.splits sum.splits)

interpretation catalogfs: catalog_store "Store_Load js fs s" for js fs s
proof
  fix ctx key doc
  show "Store_Load js fs s ctx key = Inr doc \<Longrightarrow> trim_space (ck_BaseID key) \<noteq> [] \<Longrightarrow>
      LineageBaseID (cd_Body doc) = trim_space (ck_BaseID key)"
    by (erule Store_Load_Inr) (rule finish_load_Inr(4))
  show "Store_Load js fs s ctx key = Inr doc \<Longrightarrow> cd_ContractHash doc = ExtractStampedHash (cd_Body doc)"
    by (erule Store_Load_Inr) (rule finish_load_Inr(3))
qed (simp add: Store_Load_def)

section \<open>Loading\<close>

text \<open>The four ways to fail, in their order, and what a success carries.\<close>

definition load_outcome ::
  "jsonlib \<Rightarrow> filesys \<Rightarrow> Store \<Rightarrow> ctx_error option \<Rightarrow> CatalogKey \<Rightarrow> Code option" where
  "load_outcome js fs s ctx key = (case ctx of
     Some Canceled \<Rightarrow> Some CodeCancelled
   | Some DeadlineExceeded \<Rightarrow> Some CodeContextDeadline
   | None \<Rightarrow> (case ResolvePath fs (Some s) key of
       None \<Rightarrow> Some CodeCatalogNotFound
     | Some path \<Rightarrow> (case fs_read fs path of
         Inl _ \<Rightarrow> Some CodeCatalogNotFound
       | Inr raw \<Rightarrow> (case jl_unmarshal js raw of
           Inl _ \<Rightarrow> Some CodeCatalogParseFailed
         | Inr v \<Rightarrow> (if trim_space (ck_BaseID key) \<noteq> [] \<and>
               (\<not> has_prefix (trim_space (ck_BaseID key)) ''base-'' \<and>
                \<not> has_prefix (trim_space (ck_BaseID key)) ''cus-'' \<or>
                LineageBaseID (PrepareLoadedDocument (jl_digest js) (asObjectMap v)) \<noteq>
                  trim_space (ck_BaseID key))
             then Some CodeCatalogLineageUnknown else None)))))"

lemma CheckLineage_required:
  "(case CheckLineage doc b True path of None \<Rightarrow> None | Some e \<Rightarrow> Some (ze_code e)) =
     (if trim_space b \<noteq> [] \<and> (\<not> has_prefix (trim_space b) ''base-'' \<and> \<not> has_prefix (trim_space b) ''cus-'' \<or>
        LineageBaseID doc \<noteq> trim_space b) then Some CodeCatalogLineageUnknown else None)"
proof -
  have "ze_code (lineage_error msg details) = CodeCatalogLineageUnknown" for msg details
    by (simp add: lineage_error_def NewFamily_def typed_def)
  then show ?thesis by (auto simp: CheckLineage_def Let_def)
qed


text \<open>A file holding valid JSON that is not an object loads as an empty document.\<close>

lemma array_loads_empty:
  "trim_space (ck_BaseID key) = [] \<Longrightarrow>
   finish_load js key path (GArr xs) = Inr \<lparr>cd_Body = Some [], cd_Path = path, cd_ContractHash = []\<rparr>"
proof -
  have "ExtractStampedHash (Some []) = []" by code_simp
  then have "PrepareLoadedDocument (jl_digest js) (asObjectMap (GArr xs)) = Some []"
    by (simp add: PrepareLoadedDocument_def NormalizeChatRequestShape_def HealTrailingWSStampDrift_def Let_def)
  with \<open>ExtractStampedHash (Some []) = []\<close>
  show "trim_space (ck_BaseID key) = [] \<Longrightarrow>
    finish_load js key path (GArr xs) = Inr \<lparr>cd_Body = Some [], cd_Path = path, cd_ContractHash = []\<rparr>"
    by (simp add: finish_load_def)
qed

section \<open>Saving and finding again\<close>

lemma hd_first_kept: "hd (rev (remdups (rev (x # xs)))) = x"
proof -
  have "remdups (ys @ [x]) = remdups [y\<leftarrow>ys. y \<noteq> x] @ [x]" for ys
    by (induction ys) auto
  from this [of "rev xs"] show ?thesis by simp
qed

lemma filenames_hd:
  "CatalogFilenamesForMode m b \<noteq> [] \<Longrightarrow> hd (CatalogFilenamesForMode m b) = ChatRequestFilename m b"
proof -
  assume ne: "CatalogFilenamesForMode m b \<noteq> []"
  show ?thesis
  proof (cases "trim_space b = [] \<and> default_mode m \<noteq> ''default''")
    case False
    then show ?thesis by (auto simp: CatalogFilenamesForMode_def ChatRequestFilename_def Let_def)
  next
    case True
    with ne have "CatalogFilenamesForMode m b = rev (remdups (rev
        [''chat_request_'' @ default_mode m @ ''_v2.json'', ''chat_request_'' @ default_mode m @ ''.json'',
         default_mode m @ ''.json'']))"
      unfolding CatalogFilenamesForMode_def Let_def by (metis (no_types, lifting))
    with True show ?thesis
      by (simp only: hd_first_kept) (simp add: ChatRequestFilename_def)
  qed
qed

lemma resolve_saved:
  assumes "ck_Bucket key \<noteq> []" "ck_Scope key \<noteq> []"
    and "CatalogFilenamesForMode (ck_Mode key) (ck_BaseID key) \<noteq> []"
    and "isRegularFile fs (save_path s key)"
  shows "ResolvePath fs (Some s) key = Some (save_path s key)"
proof -
  obtain ns where "CatalogFilenamesForMode (ck_Mode key) (ck_BaseID key) =
      ChatRequestFilename (ck_Mode key) (ck_BaseID key) # ns"
    using filenames_hd [OF assms(3)] assms(3) by (metis list.collapse)
  then have "hd (resolve_candidates (resolve_opts s key)) = save_path s key \<and>
      resolve_candidates (resolve_opts s key) \<noteq> []"
    using assms(1,2) by (simp add: resolve_candidates_def resolve_opts_def resolve_locations_def
      save_path_def Let_def)
  then obtain cs where "resolve_candidates (resolve_opts s key) = save_path s key # cs"
    by (metis list.collapse)
  with assms(4) show ?thesis by (simp add: ResolvePath_def resolve_find)
qed

text \<open>C27. A successful save leaves one system call sequence: the scope directory is made, the document
  is written to a temporary name beside the target and renamed onto it, and nothing else is touched.
  When afterwards the target is a regular file that reads back as what was written, a load with the
  same key finds this file before any other and returns the healed document, provided bucket and
  scope are given, the mode has file names, and the body carries the base id asked for, if any.\<close>

theorem save_then_load:
  assumes "Store_Save answer codec s None key doc = (ops, None)" and "cd_Body doc = Some body"
    and "ck_Bucket key \<noteq> []" "ck_Scope key \<noteq> []"
    and "CatalogFilenamesForMode (ck_Mode key) (ck_BaseID key) \<noteq> []"
    and "fst codec (GObj body) = Inr blob"
    and "isRegularFile fs (save_path s key)" "fs_read fs (save_path s key) = Inr blob"
    and "jl_unmarshal js blob = Inr (GObj body)"
    and "CheckLineage (PrepareLoadedDocument (jl_digest js) (Some body)) (ck_BaseID key) True
      (path_base (save_path s key)) = None"
  shows "ops = [MkdirAll (path_dir (save_path s key)), WriteFile (save_path s key @ ''.tmp'') blob,
      Rename (save_path s key @ ''.tmp'') (save_path s key)] \<and>
    Store_Load js fs s None key =
      Inr \<lparr>cd_Body = PrepareLoadedDocument (jl_digest js) (Some body), cd_Path = save_path s key,
        cd_ContractHash = ExtractStampedHash (PrepareLoadedDocument (jl_digest js) (Some body))\<rparr>"
proof -
  have "ops = [MkdirAll (path_dir (save_path s key)), WriteFile (save_path s key @ ''.tmp'') blob,
      Rename (save_path s key @ ''.tmp'') (save_path s key)]"
    using assms(1,2,6) by (auto simp: Store_Save_def atomicWriteJSON_def Let_def split: option.splits)
  moreover have "Store_Load js fs s None key = finish_load js key (save_path s key) (GObj body)"
    using resolve_saved [OF assms(3,4,5,7)] assms(8,9) by (simp add: Store_Load_def)
  moreover have "\<dots> = Inr \<lparr>cd_Body = PrepareLoadedDocument (jl_digest js) (Some body),
      cd_Path = save_path s key,
      cd_ContractHash = ExtractStampedHash (PrepareLoadedDocument (jl_digest js) (Some body))\<rparr>"
    using assms(10) by (simp add: finish_load_def Let_def)
  ultimately show ?thesis by simp
qed

definition demo_key :: CatalogKey where
  "demo_key = \<lparr>ck_Mode = ''fraud'', ck_Bucket = ''b'', ck_Scope = ''_s'', ck_BaseID = []\<rparr>"

definition demo_store :: Store where "demo_store = NewStore ''/u'' []"

definition demo_js :: jsonlib where
  "demo_js = \<lparr>jl_digest = (\<lambda>_. None), jl_codec = (\<lambda>_. Inr ''{}'', \<lambda>_. Inr (GObj []))\<rparr>"

definition demo_fs :: filesys where
  "demo_fs = \<lparr>fs_stat = (\<lambda>q. if q = save_path demo_store demo_key then Some FRegular else None),
     fs_mtime = (\<lambda>_. 7), fs_read = (\<lambda>_. Inr ''{}''), fs_list = (\<lambda>_. None), fs_cwd = None\<rparr>"

theorem save_then_load_witness:
  "\<exists>ops. Store_Save (\<lambda>_. None) (jl_codec demo_js) demo_store None demo_key
       \<lparr>cd_Body = Some [], cd_Path = [], cd_ContractHash = []\<rparr> = (ops, None) \<and> length ops = 3 \<and>
     Store_Load demo_js demo_fs demo_store None demo_key =
       Inr \<lparr>cd_Body = Some [], cd_Path = ''/u/b__s/chat_request_fraud_v2.json'', cd_ContractHash = []\<rparr>"
proof -
  define ops where "ops = fst (Store_Save (\<lambda>_. None) (jl_codec demo_js) demo_store None demo_key
       \<lparr>cd_Body = Some [], cd_Path = [], cd_ContractHash = []\<rparr>)"
  have "snd (Store_Save (\<lambda>_. None) (jl_codec demo_js) demo_store None demo_key
       \<lparr>cd_Body = Some [], cd_Path = [], cd_ContractHash = []\<rparr>) = None"
    by (simp add: Store_Save_def atomicWriteJSON_def demo_js_def Let_def)
  then have 1: "Store_Save (\<lambda>_. None) (jl_codec demo_js) demo_store None demo_key
       \<lparr>cd_Body = Some [], cd_Path = [], cd_ContractHash = []\<rparr> = (ops, None)"
    unfolding ops_def by (metis prod.collapse)
  have 2: "CatalogFilenamesForMode (ck_Mode demo_key) (ck_BaseID demo_key) \<noteq> []" by code_simp
  have p: "save_path demo_store demo_key = ''/u/b__s/chat_request_fraud_v2.json''" by code_simp
  have e: "PrepareLoadedDocument (jl_digest demo_js) (Some []) = Some []" "ExtractStampedHash (Some []) = []"
    by code_simp+
  have "ops = [MkdirAll (path_dir (save_path demo_store demo_key)),
      WriteFile (save_path demo_store demo_key @ ''.tmp'') ''{}'',
      Rename (save_path demo_store demo_key @ ''.tmp'') (save_path demo_store demo_key)] \<and>
    Store_Load demo_js demo_fs demo_store None demo_key =
      Inr \<lparr>cd_Body = PrepareLoadedDocument (jl_digest demo_js) (Some []), cd_Path = save_path demo_store demo_key,
        cd_ContractHash = ExtractStampedHash (PrepareLoadedDocument (jl_digest demo_js) (Some []))\<rparr>"
  proof (rule save_then_load [OF 1 _ _ _ 2])
    show "CheckLineage (PrepareLoadedDocument (jl_digest demo_js) (Some [])) (ck_BaseID demo_key) True
      (path_base (save_path demo_store demo_key)) = None"
      by (simp add: demo_key_def CheckLineage_def)
  qed (simp_all add: demo_js_def demo_fs_def demo_key_def isRegularFile_def)
  with 1 show ?thesis unfolding p e by auto
qed

end
