(* ===== verification/Catalog_Api.thy ===== *)
theory Catalog_Api
  imports Catalog_Store Stamps Session
begin

text \<open>
  The scope brief of a loaded catalog (src/application/catalog_brief.go) and the catalog operations of
  the client (src/api/catalog.go): load with its memo and the floor check, load for a turn, listing,
  statistics, the production pin, the contract binding and the MINI-SCHEMA view.

  The state is the memo and the attributes logged last; the log callback is the list of its calls.
  Of RuntimeConfig only the fields read here appear. A wired store is a file system store or any
  other: then its methods are functions. Operations run one at a time.
\<close>

section \<open>The scope brief\<close>

record ScopeBriefResult =
  sb_Body :: "gmap option"
  sb_Note :: string
  sb_Merged :: bool
  sb_ReqID :: string

definition knownLiveModes :: "string list" where
  "knownLiveModes = [''analytics'', ''auto'', ''code'', ''custom'', ''fraud'', ''open'', ''private'',
     ''prototype'', ''regulated'', ''research'', ''tenant'']"

definition skipV2Family :: "string list" where
  "skipV2Family = [[], ''mode'', ''chat_request'', ''default'']"

definition add_candidate :: "string \<Rightarrow> string list \<Rightarrow> string list" where
  "add_candidate name out = (let n = trim_space name in
     if n = [] \<or> n \<in> set out then out else out @ [n])"

definition LiveModeCandidates :: "string \<Rightarrow> string \<Rightarrow> string list" where
  "LiveModeCandidates mode lineageMode = (let
       m = (if trim_space mode = [] then ''analytics'' else trim_space mode);
       c1 = add_candidate lineageMode (add_candidate m []);
       c2 = (case str_index m ''_v2_'' of
           None \<Rightarrow> c1
         | Some i \<Rightarrow> (let family = trim_space (take i m) in
             if family \<in> set skipV2Family then c1 else add_candidate family c1));
       c3 = fold (\<lambda>token out. if token \<in> set knownLiveModes then add_candidate token out else out)
         (split_on (CHR ''_'') m) c2
     in add_candidate ''analytics'' c3)"

fun first_lineage_mode :: "gmap \<Rightarrow> string list \<Rightarrow> string" where
  "first_lineage_mode d [] = []"
| "first_lineage_mode d (k # ks) = (case asObjectMap (mget d k) of
     None \<Rightarrow> first_lineage_mode d ks
   | Some raw \<Rightarrow> (let m = trim_space (asString (mget raw ''mode'')) in
       if m \<noteq> [] then m else first_lineage_mode d ks))"

definition lineageModeFromCatalog :: "gmap option \<Rightarrow> string" where
  "lineageModeFromCatalog chatReq = (case chatReq of
     None \<Rightarrow> [] | Some d \<Rightarrow> first_lineage_mode d [''_lineage'', ''_base_meta''])"

type_synonym fetch = "string \<Rightarrow> string \<Rightarrow> string \<Rightarrow> string + gmap option"

definition brief_result :: "gmap option \<Rightarrow> string \<Rightarrow> bool \<Rightarrow> ScopeBriefResult" where
  "brief_result body note merged =
     \<lparr>sb_Body = body, sb_Note = note, sb_Merged = merged, sb_ReqID = []\<rparr>"

text \<open>The loop over the candidates: the last error text and whether an answer had no brief.\<close>

fun try_modes :: "codec \<Rightarrow> fetch \<Rightarrow> string \<Rightarrow> string \<Rightarrow> string \<Rightarrow> gmap option \<Rightarrow> string list \<Rightarrow> string \<Rightarrow>
    bool \<Rightarrow> ScopeBriefResult" where
  "try_modes codec fetch bucket scope mode body [] lastErr sawEmpty =
     (if lastErr \<noteq> [] \<and> \<not> sawEmpty
      then brief_result body (''scope_brief: live fetch failed: '' @ lastErr) False
      else brief_result body ''scope_brief: live response had no SCOPE BRIEF'' False)"
| "try_modes codec fetch bucket scope mode body (c # cs) lastErr sawEmpty =
     (case fetch bucket scope c of
        Inl e \<Rightarrow> try_modes codec fetch bucket scope mode body cs e sawEmpty
      | Inr live \<Rightarrow> (let brief = ExtractScopeBrief (cloneAnyMap codec live) in
          if brief = [] then try_modes codec fetch bucket scope mode body cs lastErr True
          else brief_result (MergeScopeBrief body brief)
            (if c \<noteq> trim_space mode then ''scope_brief: live merge (mode='' @ c @ '')''
             else ''scope_brief: live merge'') True))"

definition EnsureScopeBrief :: "codec \<Rightarrow> gmap option \<Rightarrow> fetch option \<Rightarrow> string \<Rightarrow> string \<Rightarrow> string \<Rightarrow>
    ScopeBriefResult" where
  "EnsureScopeBrief codec chatReq fetch bucket scope mode =
     (if ExtractScopeBrief chatReq \<noteq> [] then brief_result chatReq ''scope_brief: already present'' False
      else (case fetch of
        None \<Rightarrow> brief_result chatReq ''scope_brief: live fetch skipped (no catalog_remote)'' False
      | Some f \<Rightarrow> (let body = cloneAnyMap codec chatReq in
          try_modes codec f bucket scope mode body
            (LiveModeCandidates mode (lineageModeFromCatalog body)) [] False)))"

section \<open>The client's catalog\<close>

definition catalogAPIComponent :: string where "catalogAPIComponent = ''api.catalog''"

text \<open>A store other than the file system's, with the two optional interfaces it may have.\<close>

record other_store =
  os_load :: "ctx_error option \<Rightarrow> CatalogKey \<Rightarrow> zerror + CatalogDocument"
  os_rich :: "(ctx_error option \<Rightarrow> CatalogKey \<Rightarrow> zerror + LoadedCatalog) option"
  os_list :: "(ctx_error option \<Rightarrow> CatalogListEntry list) option"

datatype wired = Unwired | FsStore Store | OtherStore other_store

record CatalogConfig =
  cc_ChatRequestsDir :: string
  cc_Target :: DataTarget
  cc_Mode :: string
  cc_ClientFloor :: string
  cc_AllowDegraded :: bool
  cc_ProductionBaseID :: string
  cc_ScopeContracts :: "gmap option"

record CatalogOptions =
  co_Store :: wired
  co_Config :: CatalogConfig
  co_BundledDir :: string
  co_HasLog :: bool

record LoadParams =
  lp_Mode :: string
  lp_Target :: "DataTarget option"
  lp_BaseID :: string

record catalogCacheEntry =
  ce_path :: string
  ce_mtime :: int
  ce_loaded :: LoadedCatalog

record CatalogAPI =
  ca_opts :: CatalogOptions
  ca_lastLoadLog :: "gmap option"
  ca_cache :: "catalogCacheEntry amap"
  ca_logged :: "(string \<times> gmap) list"

definition NewCatalogAPI :: "CatalogOptions \<Rightarrow> CatalogAPI" where
  "NewCatalogAPI opts = \<lparr>ca_opts = opts, ca_lastLoadLog = None, ca_cache = [], ca_logged = []\<rparr>"

definition api_log :: "string \<Rightarrow> gmap \<Rightarrow> CatalogAPI \<Rightarrow> CatalogAPI" where
  "api_log msg attrs c = c\<lparr>ca_lastLoadLog := Some attrs,
     ca_logged := (if co_HasLog (ca_opts c) then ca_logged c @ [(msg, attrs)] else ca_logged c)\<rparr>"

text \<open>None is the nil receiver.\<close>

definition api_store :: "CatalogAPI option \<Rightarrow> zerror + wired" where
  "api_store c = (case c of
     None \<Rightarrow> Inl (NewCatalog CodeCatalogNotFound catalogAPIComponent [WithMessage ''catalog API is nil''])
   | Some a \<Rightarrow> (case co_Store (ca_opts a) of
         FsStore s \<Rightarrow> Inr (FsStore s)
       | OtherStore st \<Rightarrow> Inr (OtherStore st)
       | Unwired \<Rightarrow> (let rootDir = trim_space (cc_ChatRequestsDir (co_Config (ca_opts a))) in
         if rootDir = [] then Inl (NewCatalog CodeCatalogNotFound catalogAPIComponent
           [WithMessage ''catalog store not wired and RuntimeConfig.chat_requests_dir is unset''])
         else Inr (FsStore (NewStore rootDir (co_BundledDir (ca_opts a)))))))"

definition api_target :: "CatalogAPI \<Rightarrow> DataTarget option \<Rightarrow> DataTarget" where
  "api_target c t = (case t of Some x \<Rightarrow> x | None \<Rightarrow> cc_Target (co_Config (ca_opts c)))"

definition api_mode :: "CatalogAPI \<Rightarrow> string \<Rightarrow> string" where
  "api_mode c mode = (if trim_space mode \<noteq> [] then trim_space mode
     else if trim_space (cc_Mode (co_Config (ca_opts c))) \<noteq> []
     then trim_space (cc_Mode (co_Config (ca_opts c))) else ''analytics'')"

definition api_key :: "CatalogAPI \<Rightarrow> LoadParams \<Rightarrow> CatalogKey" where
  "api_key c params = (let t = api_target c (lp_Target params) in
     \<lparr>ck_Mode = api_mode c (lp_Mode params), ck_Bucket = dt_bucket t, ck_Scope = dt_scope t,
      ck_BaseID = lp_BaseID params\<rparr>)"

definition api_dirs :: "CatalogAPI \<Rightarrow> string \<times> string" where
  "api_dirs c = (case co_Store (ca_opts c) of
     FsStore s \<Rightarrow> (cs_Root s,
       if co_BundledDir (ca_opts c) = [] then cs_BundledDir s else co_BundledDir (ca_opts c))
   | _ \<Rightarrow> (cc_ChatRequestsDir (co_Config (ca_opts c)), co_BundledDir (ca_opts c)))"

definition catalogMemoKey :: "CatalogKey \<Rightarrow> string" where
  "catalogMemoKey k = ck_Mode k @ [CHR 0x00] @ ck_Bucket k @ [CHR 0x00] @ ck_Scope k @ [CHR 0x00] @
     ck_BaseID k"

definition cloneJSONMap :: "codec \<Rightarrow> gmap option \<Rightarrow> gmap option" where
  "cloneJSONMap codec m = map_option (\<lambda>kv. case fst codec (GObj kv) of
     Inl _ \<Rightarrow> kv
   | Inr raw \<Rightarrow> (case snd codec raw of Inr (GObj out) \<Rightarrow> out | Inr GNil \<Rightarrow> [] | _ \<Rightarrow> kv)) m"

definition cloneLoadedCatalog :: "codec \<Rightarrow> LoadedCatalog \<Rightarrow> LoadedCatalog" where
  "cloneLoadedCatalog codec l = l\<lparr>lc_Body := cloneJSONMap codec (lc_Body l),
     lc_ResponseOutputSchema := cloneJSONMap codec (lc_ResponseOutputSchema l),
     lc_ResponseOutputExample := cloneJSONMap codec (lc_ResponseOutputExample l)\<rparr>"

text \<open>A hit needs a file that still has the remembered modification time; a stale entry is
  dropped.\<close>

definition cacheHit :: "codec \<Rightarrow> filesys \<Rightarrow> CatalogKey \<Rightarrow> CatalogAPI \<Rightarrow> LoadedCatalog option \<times> CatalogAPI" where
  "cacheHit codec fs key c = (case map_of (ca_cache c) (catalogMemoKey key) of
     None \<Rightarrow> (None, c)
   | Some ent \<Rightarrow> (if ce_path ent = [] then (None, c)
       else if fs_stat fs (ce_path ent) = None \<or> fs_mtime fs (ce_path ent) \<noteq> ce_mtime ent
       then (None, c\<lparr>ca_cache := filter (\<lambda>(k, v). k \<noteq> catalogMemoKey key) (ca_cache c)\<rparr>)
       else (Some (cloneLoadedCatalog codec (ce_loaded ent)), c)))"

definition remember :: "codec \<Rightarrow> filesys \<Rightarrow> CatalogKey \<Rightarrow> LoadedCatalog \<Rightarrow> CatalogAPI \<Rightarrow> CatalogAPI" where
  "remember codec fs key loaded c = (if trim_space (lc_Path loaded) = [] then c
     else if fs_stat fs (lc_Path loaded) = None then c
     else c\<lparr>ca_cache := amap_put (catalogMemoKey key)
       \<lparr>ce_path = lc_Path loaded, ce_mtime = fs_mtime fs (lc_Path loaded),
        ce_loaded = cloneLoadedCatalog codec loaded\<rparr> (ca_cache c)\<rparr>)"

text \<open>The store is asked for the rich form when it has one.\<close>

definition store_loaded :: "jsonlib \<Rightarrow> filesys \<Rightarrow> wired \<Rightarrow> ctx_error option \<Rightarrow> CatalogKey \<Rightarrow> CatalogAPI \<Rightarrow>
    zerror + LoadedCatalog" where
  "store_loaded js fs w ctx key c = (case w of
     Unwired \<Rightarrow> Inl (NewCatalog CodeCatalogNotFound catalogAPIComponent [])
   | FsStore s \<Rightarrow> Store_LoadRich js fs s ctx key
   | OtherStore st \<Rightarrow> (case os_rich st of
       Some rich \<Rightarrow> rich ctx key
     | None \<Rightarrow> (case os_load st ctx key of
         Inl e \<Rightarrow> Inl e
       | Inr doc \<Rightarrow> (case api_dirs c of (userDir, bundled) \<Rightarrow>
           Inr (EnrichLoaded (jl_unmarshal js) fs (cd_Body doc) (cd_Path doc)
             (if cd_Path doc \<noteq> [] then PathSourceLabel fs (cd_Path doc) userDir bundled
              else ''unknown'') (ck_BaseID key) (cd_ContractHash doc))))))"

definition api_floor :: "CatalogAPI \<Rightarrow> string" where
  "api_floor c = (if cc_ClientFloor (co_Config (ca_opts c)) = [] then DefaultClientFloor
     else cc_ClientFloor (co_Config (ca_opts c)))"

definition stamp_flag :: "LoadedCatalog \<Rightarrow> string" where
  "stamp_flag l = (if lc_ContractHash l \<noteq> [] then ''true'' else ''false'')"

text \<open>The floor check, the log lines and the memo.\<close>

definition admit :: "jsonlib \<Rightarrow> filesys \<Rightarrow> CatalogKey \<Rightarrow> LoadParams \<Rightarrow> LoadedCatalog \<Rightarrow> CatalogAPI \<Rightarrow>
    (zerror + LoadedCatalog) \<times> CatalogAPI" where
  "admit js fs key params loaded c = (let
       baseID = (if lc_BaseID loaded = [] then lp_BaseID params else lc_BaseID loaded);
       floor_id = api_floor c;
       violation = FloorViolation floor_id baseID;
       degraded = [(''base_id'', GStr baseID), (''client.floor'', GStr floor_id),
         (''source'', GStr (lc_Source loaded)), (''result'', GStr ''degraded'')];
       ok = [(''base_id'', GStr (lc_BaseID loaded)), (''client.floor'', GStr floor_id),
         (''source'', GStr (lc_Source loaded)), (''result'', GStr ''ok''),
         (''stamp_present'', GStr (stamp_flag loaded))]
     in case (violation, cc_AllowDegraded (co_Config (ca_opts c))) of
       (Some e, False) \<Rightarrow> (Inl e, c)
     | (v, _) \<Rightarrow> (Inr loaded, remember (jl_codec js) fs key loaded
         (api_log ''zeus_client.catalog.loaded'' ok
           (if v = None then c else api_log ''zeus_client.catalog.floor_degraded'' degraded c))))"

definition api_Load :: "jsonlib \<Rightarrow> filesys \<Rightarrow> ctx_error option \<Rightarrow> LoadParams \<Rightarrow> CatalogAPI \<Rightarrow>
    (zerror + LoadedCatalog) \<times> CatalogAPI" where
  "api_Load js fs ctx params c = (case FromContext ctx of
     Some e \<Rightarrow> (Inl e, c)
   | None \<Rightarrow> (let key = api_key c params in
      case cacheHit (jl_codec js) fs key c of
        (Some l, c1) \<Rightarrow> (Inr l, c1)
      | (None, c1) \<Rightarrow> (case api_store (Some c1) of
          Inl e \<Rightarrow> (Inl e, c1)
        | Inr w \<Rightarrow> (case store_loaded js fs w ctx key c1 of
            Inl e \<Rightarrow> (Inl e, c1)
          | Inr loaded \<Rightarrow> admit js fs key params loaded c1))))"

definition api_EnsureScopeBrief :: "codec \<Rightarrow> gmap option \<Rightarrow> string \<Rightarrow> DataTarget \<Rightarrow> CatalogAPI \<Rightarrow>
    ScopeBriefResult" where
  "api_EnsureScopeBrief codec doc mode target c = (let t = api_target c (Some target) in
     EnsureScopeBrief codec doc None (dt_bucket t) (dt_scope t) (api_mode c mode))"

definition api_LoadForTurn :: "jsonlib \<Rightarrow> filesys \<Rightarrow> ctx_error option \<Rightarrow> LoadParams \<Rightarrow> CatalogAPI \<Rightarrow>
    (zerror + LoadedCatalog) \<times> CatalogAPI" where
  "api_LoadForTurn js fs ctx params c = (case api_Load js fs ctx params c of
     (Inl e, c1) \<Rightarrow> (Inl e, c1)
   | (Inr loaded, c1) \<Rightarrow>
      (let r = api_EnsureScopeBrief (jl_codec js) (lc_Body loaded) (api_mode c1 (lp_Mode params))
           (api_target c1 (lp_Target params)) c1;
         source = (if sb_Merged r then lc_Source loaded @ '' + live scope brief''
           else if sb_Note r \<noteq> [] \<and> sb_Note r \<noteq> ''scope_brief: already present'' \<and>
             ExtractScopeBrief (sb_Body r) = [] then lc_Source loaded @ ''; '' @ sb_Note r
           else lc_Source loaded)
       in (Inr (loaded\<lparr>lc_Body := sb_Body r, lc_Source := source\<rparr>), c1)))"

definition api_List :: "jsonlib \<Rightarrow> filesys \<Rightarrow> ctx_error option \<Rightarrow> CatalogAPI option \<Rightarrow>
    zerror + CatalogListEntry list" where
  "api_List js fs ctx c = (case FromContext ctx of
     Some e \<Rightarrow> Inl e
   | None \<Rightarrow> (case (api_store c, c) of
       (Inl e, _) \<Rightarrow> Inl e
     | (Inr (FsStore s), _) \<Rightarrow> Inr (Store_ListEntries js fs (Some s))
     | (Inr (OtherStore st), Some a) \<Rightarrow> (case os_list st of
         Some f \<Rightarrow> Inr (f ctx)
       | None \<Rightarrow> (case api_dirs a of (userDir, bundled) \<Rightarrow>
           if trim_space userDir = [] then Inr []
           else Inr (ListCatalogEntries (jl_unmarshal js) fs userDir bundled)))
     | _ \<Rightarrow> Inr []))"

definition api_Info :: "jsonlib \<Rightarrow> filesys \<Rightarrow> ctx_error option \<Rightarrow> LoadParams \<Rightarrow> CatalogAPI \<Rightarrow>
    (zerror + string amap) \<times> CatalogAPI" where
  "api_Info js fs ctx params c = (case api_Load js fs ctx params c of
     (Inl e, c1) \<Rightarrow> (Inl e, c1)
   | (Inr loaded, c1) \<Rightarrow>
      (let path = (if lc_Path loaded = [] then ''.'' else lc_Path loaded);
         stats = CatalogEntryStats (jl_unmarshal js) fs path (lc_Body loaded)
       in (Inr [(''mode'', api_mode c1 (lp_Mode params)),
         (''base_id'', if lc_BaseID loaded = [] then sget stats ''base_id'' else lc_BaseID loaded),
         (''lineage_id'', if lc_LineageID loaded = [] then sget stats ''lineage_id'' else lc_LineageID loaded),
         (''stamp_present'', sget stats ''stamp_present''), (''verb_count'', sget stats ''verb_count''),
         (''contract_id'', sget stats ''contract_id''), (''source'', lc_Source loaded),
         (''path'', lc_Path loaded), (''client_floor'', api_floor c1),
         (''envelope'', case lc_Body loaded of None \<Rightarrow> [] | Some d \<Rightarrow> asString (mget d ''_format'')),
         (''has_response_schema'',
           if lc_ResponseOutputSchema loaded = None then ''false'' else ''true'')], c1)))"

definition api_LoadPin :: "jsonlib \<Rightarrow> filesys \<Rightarrow> ctx_error option \<Rightarrow> LoadParams \<Rightarrow> CatalogAPI \<Rightarrow>
    (zerror + LoadedCatalog) \<times> CatalogAPI" where
  "api_LoadPin js fs ctx params c = (let pin = trim_space (cc_ProductionBaseID (co_Config (ca_opts c))) in
     if pin = [] then (Inl (NewCatalog CodeCatalogNotFound catalogAPIComponent
       [WithMessage (''production_base_id unset; pass base_id= to catalog.load or set '' @
         ''production_base_id from chat_request COMPAT + Hub stamp'')]), c)
     else api_Load js fs ctx (params\<lparr>lp_BaseID := pin\<rparr>) c)"

section \<open>Contracts\<close>

definition or_id :: "string \<Rightarrow> string \<Rightarrow> string" where
  "or_id a b = (if a = [] then b else a)"

definition contract_pair :: "gmap \<Rightarrow> string \<times> string" where
  "contract_pair ent = (let
       cid = or_id (trim_space (asString (mget ent ''contract_id''))) (trim_space (asString (mget ent ''id'')));
       hash = or_id (trim_space (asString (mget ent ''contract_hash''))) (trim_space (asString (mget ent ''hash'')))
     in (cid, if str_contains hash ''TO_BE_FILLED'' then [] else hash))"

definition scopeContractEntry :: "gmap option \<Rightarrow> string \<Rightarrow> string \<Rightarrow> string \<Rightarrow> string \<times> string" where
  "scopeContractEntry contracts bucket scope mode = (case contracts of
     None \<Rightarrow> ([], [])
   | Some m \<Rightarrow> (let raw0 = mget m (bucket @ ''/'' @ scope);
         raw = (if raw0 = GNil then mget m (bucket @ ''.'' @ scope) else raw0) in
       case asObjectMap raw of
         None \<Rightarrow> ([], [])
       | Some entry \<Rightarrow> contract_pair (case asObjectMap (mget entry mode) of
           Some modeEnt \<Rightarrow> modeEnt | None \<Rightarrow> entry)))"

definition contract_Hash :: "gmap option \<Rightarrow> zerror + string" where
  "contract_Hash doc = StampedHash doc"

definition contract_ID :: "gmap option \<Rightarrow> string" where
  "contract_ID doc = ExtractContractID doc"

definition contract_ComputeLocal :: "jsonlib \<Rightarrow> gmap option \<Rightarrow> string" where
  "contract_ComputeLocal js doc = ComputeContractHash (jl_digest js) doc"

definition bind_row :: "string \<Rightarrow> string \<Rightarrow> string \<Rightarrow> string amap" where
  "bind_row cid hash source =
     [(''contract_id'', cid), (''contract_hash'', hash), (''hash_source'', source)]"

text \<open>The receiver may be nil, or its parent.\<close>

definition contract_Bind :: "CatalogAPI option \<Rightarrow> string \<Rightarrow> string \<Rightarrow> string \<Rightarrow> gmap option \<Rightarrow>
    zerror + string amap" where
  "contract_Bind parent bucket scope mode doc = (let
       stamped = ExtractStampedHash doc;
       cid = ExtractContractID doc;
       contracts = (case parent of None \<Rightarrow> None | Some c \<Rightarrow> cc_ScopeContracts (co_Config (ca_opts c)));
       bound = scopeContractEntry contracts bucket scope mode
     in if stamped \<noteq> [] then Inr (bind_row (or_id cid (fst bound)) stamped ''stamp'')
        else if snd bound \<noteq> [] then Inr (bind_row (or_id cid (fst bound)) (snd bound) ''bound'')
        else Inl (NewCatalog CodeContractHashMissing ''api.catalog.contract''
          [WithMessage ''no stamped or bound contract_hash (invent forbidden)'',
           WithDetails [(''bucket'', GStr bucket), (''scope'', GStr scope), (''mode'', GStr mode)]]))"

section \<open>MINI-SCHEMA\<close>

definition mini_FromCatalog :: "gmap option \<Rightarrow> bool \<Rightarrow> gmap" where
  "mini_FromCatalog doc vals = amap_put ''source'' (GStr ''disk'') (GetMiniSchema doc vals)"

definition mini_disk :: "gmap \<Rightarrow> gmap" where
  "mini_disk m = amap_put ''req_id'' (GStr []) (amap_put ''source'' (GStr ''disk'') m)"

definition mini_Get :: "jsonlib \<Rightarrow> filesys \<Rightarrow> ctx_error option \<Rightarrow> LoadParams \<Rightarrow> bool \<Rightarrow> CatalogAPI option \<Rightarrow>
    (zerror + gmap) \<times> CatalogAPI option" where
  "mini_Get js fs ctx params vals parent = (case FromContext ctx of
     Some e \<Rightarrow> (Inl e, parent)
   | None \<Rightarrow> (case parent of
       None \<Rightarrow> (Inr (mini_disk (GetMiniSchema None False)), None)
     | Some c \<Rightarrow> (case api_Load js fs ctx params c of
         (Inl e, c1) \<Rightarrow> (Inr (mini_disk (GetMiniSchema None False)), Some c1)
       | (Inr loaded, c1) \<Rightarrow> (Inr (mini_disk (GetMiniSchema (lc_Body loaded) vals)), Some c1))))"

section \<open>Candidates and briefs\<close>

lemma add_candidate_keeps:
  "distinct out \<Longrightarrow> distinct (add_candidate n out)"
  "list_all (\<lambda>c. c \<noteq> [] \<and> trim_space c = c) out \<Longrightarrow>
     list_all (\<lambda>c. c \<noteq> [] \<and> trim_space c = c) (add_candidate n out)"
  "prefix out (add_candidate n out)"
  by (auto simp: add_candidate_def Let_def)

lemma add_candidates_fold:
  assumes "distinct out \<and> list_all (\<lambda>c. c \<noteq> [] \<and> trim_space c = c) out"
  shows "(\<lambda>r. distinct r \<and> list_all (\<lambda>c. c \<noteq> [] \<and> trim_space c = c) r \<and> prefix out r)
    (fold (\<lambda>token out. if token \<in> set ks then add_candidate token out else out) ts out)"
  using assms
proof (induction ts arbitrary: out)
  case (Cons t ts)
  show ?case
  proof (cases "t \<in> set ks")
    case True
    have "distinct (add_candidate t out) \<and>
        list_all (\<lambda>c. c \<noteq> [] \<and> trim_space c = c) (add_candidate t out)"
      using Cons.prems add_candidate_keeps(1,2) by blast
    from Cons.IH [OF this] show ?thesis using True add_candidate_keeps(3) [of out t]
      by (auto intro: prefix_order.trans)
  qed (use Cons in simp)
qed simp

text \<open>The try-list starts with the mode asked for, has no doubles and no blanks, and contains the
  fallback.\<close>

lemma LiveModeCandidates_list:
  "distinct (LiveModeCandidates mode lm)"
  "list_all (\<lambda>c. c \<noteq> [] \<and> trim_space c = c) (LiveModeCandidates mode lm)"
  "prefix [if trim_space mode = [] then ''analytics'' else trim_space mode] (LiveModeCandidates mode lm)"
  "''analytics'' \<in> set (LiveModeCandidates mode lm)"
proof -
  define m where "m = (if trim_space mode = [] then ''analytics'' else trim_space mode)"
  define good where "good r \<longleftrightarrow> distinct r \<and> list_all (\<lambda>c. c \<noteq> [] \<and> trim_space c = c) r \<and> prefix [m] r" for r
  have a: "trim_space ''analytics'' = ''analytics''" by code_simp
  then have m: "trim_space m = m" "m \<noteq> []" by (auto simp: m_def)
  have add: "good r \<Longrightarrow> good (add_candidate n r)" for n r
    using add_candidate_keeps [of r n] by (auto simp: good_def intro: prefix_order.trans)
  have tokens: "good r \<Longrightarrow> good (fold (\<lambda>token out. if token \<in> set knownLiveModes then add_candidate token out
      else out) ts r)" for ts r
    using add_candidates_fold [of r knownLiveModes ts] by (auto simp: good_def intro: prefix_order.trans)
  have "good (add_candidate m [])" using m by (simp add: good_def add_candidate_def)
  then have g1: "good (add_candidate lm (add_candidate m []))" by (rule add)
  have fin: "''analytics'' \<in> set (add_candidate ''analytics'' r)" for r
    by (simp add: add_candidate_def Let_def a)
  have g: "good (LiveModeCandidates mode lm)"
    unfolding LiveModeCandidates_def m_def [symmetric] Let_def
    by (intro add tokens) (auto split: option.split intro: add g1)
  then show "distinct (LiveModeCandidates mode lm)"
    "list_all (\<lambda>c. c \<noteq> [] \<and> trim_space c = c) (LiveModeCandidates mode lm)"
    "prefix [if trim_space mode = [] then ''analytics'' else trim_space mode] (LiveModeCandidates mode lm)"
    unfolding good_def m_def by blast+
  show "''analytics'' \<in> set (LiveModeCandidates mode lm)"
    unfolding LiveModeCandidates_def Let_def by (rule fin)
qed

text \<open>An extracted brief is trimmed and starts with its heading.\<close>

lemma strip_seqs_keep:
  assumes "\<forall>p \<in> set ps. c \<notin> set p"
  shows "\<exists>z. strip_seqs n ps (x @ c # y) = z @ c # y"
proof (induction n arbitrary: x)
  case (Suc n)
  show ?case
  proof (cases "find (\<lambda>p. prefix p (x @ c # y)) ps")
    case (Some p)
    then have p: "p \<in> set ps" "prefix p (x @ c # y)" by (auto simp: find_Some_iff)
    have "length p \<le> length x"
    proof (rule ccontr)
      assume "\<not> length p \<le> length x"
      then have "p ! length x = c" using p(2) by (auto simp: prefix_def nth_append)
        (metis nth_append_length append.assoc append_Cons nth_append not_le)
      moreover have "length x < length p" using \<open>\<not> length p \<le> length x\<close> by simp
      ultimately show False using assms p(1) nth_mem by blast
    qed
    with Suc [of "drop (length p) x"] Some show ?thesis by simp
  qed auto
qed auto

lemma heading_trim:
  "has_prefix s briefHeading \<Longrightarrow> has_prefix (trim_space s) briefHeading"
proof -
  assume "has_prefix s briefHeading"
  then obtain r where s: "s = ''## SCOPE BRIE'' @ CHR ''F'' # r"
    by (auto simp: has_prefix_def prefix_def briefHeading_def)
  have "find (\<lambda>p. prefix p s) space_seqs = None"
    unfolding s by (auto simp: find_None_iff space_seqs_def)
  then have l: "trim_left_space s = s" by (simp add: trim_left_space_def strip_seqs_id)
  have "\<forall>p \<in> set (map rev space_seqs). CHR ''F'' \<notin> set p" by (simp add: space_seqs_def)
  then obtain z where
    "strip_seqs (length s) (map rev space_seqs) (rev r @ CHR ''F'' # rev ''## SCOPE BRIE'') =
      z @ CHR ''F'' # rev ''## SCOPE BRIE''"
    using strip_seqs_keep [where x = "rev r" and n = "length s" and y = "rev ''## SCOPE BRIE''"] by blast
  moreover have "rev s = rev r @ CHR ''F'' # rev ''## SCOPE BRIE''" by (simp add: s)
  ultimately have "trim_right_space s = ''## SCOPE BRIE'' @ CHR ''F'' # rev z"
    by (simp add: trim_right_space_def)
  then show ?thesis by (simp add: trim_space_def l has_prefix_def briefHeading_def prefix_def)
qed

lemma extracted_brief:
  assumes "ExtractScopeBrief d \<noteq> []"
  shows "trim_space (ExtractScopeBrief d) = ExtractScopeBrief d"
    and "has_prefix (ExtractScopeBrief d) briefHeading"
proof -
  have b: "brief_of s = Some t \<Longrightarrow> trim_space t = t \<and> has_prefix t briefHeading" for s t
    using str_index_at heading_trim by (auto simp: brief_of_def has_prefix_def)
  then show "trim_space (ExtractScopeBrief d) = ExtractScopeBrief d"
    "has_prefix (ExtractScopeBrief d) briefHeading"
    using assms by (auto simp: ExtractScopeBrief_def split: option.splits)
qed

text \<open>What the loop returns: the body as it was, or with the first brief found merged in.\<close>

lemma try_modes_result:
  "(let r = try_modes codec f bucket scope mode body cs le se in
     if sb_Merged r
     then \<exists>c live. c \<in> set cs \<and> f bucket scope c = Inr live \<and>
       ExtractScopeBrief (cloneAnyMap codec live) \<noteq> [] \<and>
       sb_Body r = MergeScopeBrief body (ExtractScopeBrief (cloneAnyMap codec live))
     else sb_Body r = body)"
proof (induction cs arbitrary: le se)
  case Nil
  then show ?case by (simp add: brief_result_def)
next
  case (Cons c cs)
  show ?case
  proof (cases "f bucket scope c")
    case (Inl e)
    with Cons [of e se] show ?thesis unfolding Let_def by (simp del: list.set) (metis (no_types, lifting) list.set_intros(2))
  next
    case (Inr live)
    show ?thesis
    proof (cases "ExtractScopeBrief (cloneAnyMap codec live) = []")
      case True
      with Inr Cons [of le True] show ?thesis
        unfolding Let_def by (simp del: list.set) (metis (no_types, lifting) list.set_intros(2))
    qed (use Inr in \<open>auto simp: Let_def brief_result_def\<close>)
  qed
qed


definition demo_doc :: gmap where
  "demo_doc = [(''messages'', GArr [GObj [(''content'', GStr ''Be brief.'')]])]"

definition demo_live :: "fetch" where
  "demo_live b s m = Inr (Some [(''messages'', GArr [GObj [(''content'', GStr ''## SCOPE BRIEF: beers '')]])])"

definition failing_codec :: codec where
  "failing_codec = (\<lambda>_. Inl ''no'', \<lambda>_. Inl ''no'')"


section \<open>Every load passes the floor and keeps its pin\<close>

text \<open>The states of one catalog client: it starts empty and loads, against whatever file system there
  is at the time. Every other operation changes the state only through such a load.\<close>

inductive api_reach :: "jsonlib \<Rightarrow> CatalogOptions \<Rightarrow> CatalogAPI \<Rightarrow> bool"
  for js :: jsonlib and opts :: CatalogOptions where
  reach_new: "api_reach js opts (NewCatalogAPI opts)"
| reach_load: "api_reach js opts c \<Longrightarrow> api_reach js opts (snd (api_Load js fs ctx params c))"

definition floor_ok :: "CatalogOptions \<Rightarrow> LoadedCatalog \<Rightarrow> bool" where
  "floor_ok opts l \<longleftrightarrow> cc_AllowDegraded (co_Config opts) \<or> FloorViolation
     (if cc_ClientFloor (co_Config opts) = [] then DefaultClientFloor else cc_ClientFloor (co_Config opts))
     (lc_BaseID l) = None"

definition pin_ok :: "CatalogOptions \<Rightarrow> CatalogKey \<Rightarrow> LoadedCatalog \<Rightarrow> bool" where
  "pin_ok opts key l \<longleftrightarrow> (case co_Store opts of
     OtherStore _ \<Rightarrow> True
   | _ \<Rightarrow> (if trim_space (ck_BaseID key) = [] then True
       else lc_BaseID l = trim_space (ck_BaseID key) \<and> lc_LineageID l = trim_space (ck_BaseID key)))"

definition api_inv :: "CatalogOptions \<Rightarrow> CatalogAPI \<Rightarrow> bool" where
  "api_inv opts c \<longleftrightarrow> ca_opts c = opts \<and> (\<forall>(mk, ent) \<in> set (ca_cache c).
     floor_ok opts (ce_loaded ent) \<and>
     (\<exists>key. mk = catalogMemoKey key \<and> pin_ok opts key (ce_loaded ent)))"

lemma clone_ids [simp]:
  "lc_BaseID (cloneLoadedCatalog codec l) = lc_BaseID l"
  "lc_LineageID (cloneLoadedCatalog codec l) = lc_LineageID l"
  by (simp_all add: cloneLoadedCatalog_def)

lemma floor_ok_clone [simp]: "floor_ok opts (cloneLoadedCatalog codec l) = floor_ok opts l"
  by (simp add: floor_ok_def)

lemma pin_ok_clone [simp]: "pin_ok opts key (cloneLoadedCatalog codec l) = pin_ok opts key l"
  by (simp add: pin_ok_def split: wired.split)

lemma cacheHit_inv: "api_inv opts c \<Longrightarrow> api_inv opts (snd (cacheHit codec fs key c))"
  by (auto simp: cacheHit_def api_inv_def split: option.split)

lemma api_log_inv: "api_inv opts c \<Longrightarrow> api_inv opts (api_log msg attrs c)"
  by (simp add: api_inv_def api_log_def)

lemma in_put: "x \<in> set (amap_put k v m) \<Longrightarrow> x = (k, v) \<or> x \<in> set m"
  by (induction m) (auto split: if_splits)

lemma remember_inv:
  "api_inv opts c \<Longrightarrow> floor_ok opts l \<Longrightarrow> pin_ok opts key l \<Longrightarrow> api_inv opts (remember codec fs key l c)"
  by (auto simp: remember_def api_inv_def dest!: in_put)

text \<open>The memo key of a key without NUL bytes belongs to it alone.\<close>

definition nul_free :: "CatalogKey \<Rightarrow> bool" where
  "nul_free k \<longleftrightarrow> CHR 0x00 \<notin> set (ck_Mode k) \<union> set (ck_Bucket k) \<union> set (ck_Scope k) \<union> set (ck_BaseID k)"

lemma memo_split: "nul_free k \<Longrightarrow> split_on (CHR 0x00) (catalogMemoKey k) =
    [ck_Mode k, ck_Bucket k, ck_Scope k, ck_BaseID k]"
  by (simp add: nul_free_def catalogMemoKey_def split_on_append split_on_plain)

lemma memo_nuls: "length (filter (\<lambda>c. c = CHR 0x00) (catalogMemoKey k)) = 3 \<longleftrightarrow> nul_free k"
  by (auto simp: catalogMemoKey_def nul_free_def filter_empty_conv)

lemma memo_key_inj: "nul_free k \<Longrightarrow> catalogMemoKey k' = catalogMemoKey k \<Longrightarrow> k' = k"
proof -
  assume "nul_free k" and e: "catalogMemoKey k' = catalogMemoKey k"
  moreover from this memo_nuls [of k] memo_nuls [of k'] have "nul_free k'" by simp
  ultimately show "k' = k" using memo_split [of k] memo_split [of k']
    by (intro CatalogKey.equality) auto
qed

lemma cacheHit_ok:
  assumes "api_inv opts c" and "cacheHit codec fs key c = (Some l, c1)"
  shows "floor_ok opts l" and "nul_free key \<Longrightarrow> pin_ok opts key l"
proof -
  from assms(2) obtain ent where e: "map_of (ca_cache c) (catalogMemoKey key) = Some ent"
    "l = cloneLoadedCatalog codec (ce_loaded ent)"
    by (auto simp: cacheHit_def split: option.splits if_splits)
  from map_of_SomeD [OF e(1)] assms(1) have i: "floor_ok opts (ce_loaded ent)"
    "\<exists>key'. catalogMemoKey key = catalogMemoKey key' \<and> pin_ok opts key' (ce_loaded ent)"
    by (auto simp: api_inv_def)
  then show "floor_ok opts l" by (simp add: e(2))
  assume "nul_free key"
  with i(2) memo_key_inj show "pin_ok opts key l" by (metis e(2) pin_ok_clone)
qed

lemma store_loaded_pin:
  assumes "api_store (Some c) = Inr w" and "store_loaded js fs w ctx key c = Inr l"
  shows "pin_ok (ca_opts c) key l"
proof -
  have fs: "pin_ok (ca_opts c) key l" if w: "w = FsStore s" for s
  proof -
    from assms(2) w obtain doc where doc: "Store_Load js fs s ctx key = Inr doc"
      "\<exists>source. l = EnrichLoaded (jl_unmarshal js) fs (cd_Body doc) (cd_Path doc) source (ck_BaseID key)
        (cd_ContractHash doc)"
      by (auto simp: store_loaded_def Store_LoadRich_def Let_def split: sum.splits)
    then show ?thesis using catalogfs.enriched_base [OF doc(1)]
      by (auto simp: pin_ok_def split: wired.split)
  qed
  show ?thesis
  proof (cases "co_Store (ca_opts c)")
    case (FsStore s)
    with assms(1) show ?thesis by (intro fs [of s]) (simp add: api_store_def)
  next
    case Unwired
    with assms(1) obtain s where "w = FsStore s" by (auto simp: api_store_def Let_def split: if_splits)
    then show ?thesis by (rule fs)
  qed (simp add: pin_ok_def)
qed

lemma admit_ok:
  assumes "admit js fs key params l c = (Inr l', c1)"
  shows "l' = l" and "floor_ok (ca_opts c) l"
    and "pin_ok (ca_opts c) key l \<Longrightarrow> api_inv (ca_opts c) c \<Longrightarrow> api_inv (ca_opts c) c1"
proof -
  have nb: "FloorViolation x [] = None" for x by (simp add: FloorViolation_def)
  from assms show l: "l' = l"
    by (auto simp: admit_def Let_def split: option.splits bool.splits)
  from assms show f: "floor_ok (ca_opts c) l"
    by (auto simp: admit_def floor_ok_def api_floor_def Let_def nb split: option.splits bool.splits if_splits)
  assume "pin_ok (ca_opts c) key l" "api_inv (ca_opts c) c"
  with f assms show "api_inv (ca_opts c) c1"
    by (auto simp: admit_def Let_def intro: remember_inv api_log_inv split: option.splits bool.splits)
qed

lemma admit_Inl: "admit js fs key params l c = (Inl e, c1) \<Longrightarrow> c1 = c"
  by (auto simp: admit_def Let_def split: option.splits bool.splits)

lemma api_Load_ok:
  assumes inv: "api_inv opts c"
  shows "api_inv opts (snd (api_Load js fs ctx params c))"
    and "fst (api_Load js fs ctx params c) = Inr l \<Longrightarrow> floor_ok opts l"
    and "fst (api_Load js fs ctx params c) = Inr l \<Longrightarrow> nul_free (api_key c params) \<Longrightarrow>
      pin_ok opts (api_key c params) l"
proof -
  have opts: "ca_opts c = opts" using inv by (simp add: api_inv_def)
  obtain h c1 where h: "cacheHit (jl_codec js) fs (api_key c params) c = (h, c1)"
    by (cases "cacheHit (jl_codec js) fs (api_key c params) c")
  have inv1: "api_inv opts c1" using cacheHit_inv [OF inv, of "jl_codec js" fs "api_key c params"] by (simp add: h)
  have o1: "ca_opts c1 = opts" using inv1 by (simp add: api_inv_def)
  have res: "api_inv opts c2 \<and> (r = Inr l \<longrightarrow> floor_ok opts l \<and>
      (nul_free (api_key c params) \<longrightarrow> pin_ok opts (api_key c params) l))"
    if r: "api_Load js fs ctx params c = (r, c2)" for r c2 l
  proof (cases "FromContext ctx")
    case (Some e)
    with r inv show ?thesis by (auto simp: api_Load_def)
  next
    case ctx: None
    show ?thesis
    proof (cases h)
      case (Some l')
      with r ctx h inv1 cacheHit_ok [OF inv h [unfolded Some]] show ?thesis
        by (auto simp: api_Load_def Let_def simp del: FromContext_None_iff)
    next
      case hit: None
      show ?thesis
      proof (cases "api_store (Some c1)")
        case (Inl e)
        with r ctx h hit inv1 show ?thesis by (auto simp: api_Load_def Let_def simp del: FromContext_None_iff)
      next
        case w: (Inr w)
        show ?thesis
        proof (cases "store_loaded js fs w ctx (api_key c params) c1")
          case (Inl e)
          with r ctx h hit w inv1 show ?thesis
            by (auto simp: api_Load_def Let_def simp del: FromContext_None_iff)
        next
          case (Inr loaded)
          with r ctx h hit w have a: "admit js fs (api_key c params) params loaded c1 = (r, c2)"
            by (auto simp: api_Load_def Let_def simp del: FromContext_None_iff)
          have pin: "pin_ok opts (api_key c params) loaded" using store_loaded_pin [OF w Inr] o1 by simp
          show ?thesis
          proof (cases r)
            case (Inl e)
            with admit_Inl [OF a [unfolded Inl]] inv1 show ?thesis by simp
          next
            case (Inr l')
            with a admit_ok [of js fs "api_key c params" params loaded c1 l' c2] pin inv1 o1
            show ?thesis by auto
          qed
        qed
      qed
    qed
  qed
  obtain r c2 where "api_Load js fs ctx params c = (r, c2)" by (cases "api_Load js fs ctx params c")
  from res [OF this] this show "api_inv opts (snd (api_Load js fs ctx params c))"
    "fst (api_Load js fs ctx params c) = Inr l \<Longrightarrow> floor_ok opts l"
    "fst (api_Load js fs ctx params c) = Inr l \<Longrightarrow> nul_free (api_key c params) \<Longrightarrow>
      pin_ok opts (api_key c params) l" by auto
qed

lemma api_reach_inv: "api_reach js opts c \<Longrightarrow> api_inv opts c"
proof (induction rule: api_reach.induct)
  case reach_new
  then show ?case by (simp add: api_inv_def NewCatalogAPI_def)
qed (rule api_Load_ok(1))

text \<open>C25. Whatever was loaded before and however the files changed in between, a catalog the client
  hands out passes the client floor, unless degraded catalogs are allowed; and one asked for by base
  id through the file system store carries this id as its lineage, whether it comes from the store
  or from the memo, provided the key has no NUL byte.\<close>

theorem api_Load_admitted:
  assumes "api_reach js opts c" and "fst (api_Load js fs ctx params c) = Inr l"
  shows "floor_ok opts l \<and> (if nul_free (api_key c params) then pin_ok opts (api_key c params) l else True)"
  using api_Load_ok(2,3) [OF api_reach_inv [OF assms(1)] assms(2)] by simp

text \<open>The memo is blind to better files: a hit only looks at the file it came from, so a scope file
  written later is not seen while the general file stays as it is.\<close>

definition demo_opts :: CatalogOptions where
  "demo_opts = \<lparr>co_Store = FsStore demo_store, co_Config = \<lparr>cc_ChatRequestsDir = [],
     cc_Target = \<lparr>dt_bucket = ''b'', dt_scope = ''_s'', dt_collection = []\<rparr>, cc_Mode = ''fraud'',
     cc_ClientFloor = [], cc_AllowDegraded = False, cc_ProductionBaseID = [], cc_ScopeContracts = None\<rparr>,
     co_BundledDir = [], co_HasLog = False\<rparr>"

definition demo_params :: LoadParams where
  "demo_params = \<lparr>lp_Mode = [], lp_Target = None, lp_BaseID = []\<rparr>"

theorem api_Load_admitted_witness:
  "\<exists>l. fst (api_Load demo_js demo_fs None demo_params (NewCatalogAPI demo_opts)) = Inr l \<and> floor_ok demo_opts l"
proof -
  have "(case fst (api_Load demo_js demo_fs None demo_params (NewCatalogAPI demo_opts)) of
      Inl _ \<Rightarrow> False | Inr _ \<Rightarrow> True)" by code_simp
  then obtain l where l: "fst (api_Load demo_js demo_fs None demo_params (NewCatalogAPI demo_opts)) = Inr l"
    by (auto split: sum.splits)
  from api_Load_admitted [OF reach_new l] l show ?thesis by blast
qed

definition general_file :: string where "general_file = ''/u/fraud.json''"
definition scope_file :: string where "scope_file = ''/u/b__s/fraud.json''"

definition two_files :: "string list \<Rightarrow> filesys" where
  "two_files qs = \<lparr>fs_stat = (\<lambda>q. if q \<in> set qs then Some FRegular else None), fs_mtime = (\<lambda>_. 7),
     fs_read = (\<lambda>_. Inr ''{}''), fs_list = (\<lambda>_. None), fs_cwd = None\<rparr>"

definition loaded_path :: "(zerror + LoadedCatalog) \<times> CatalogAPI \<Rightarrow> string" where
  "loaded_path r = (case fst r of Inl _ \<Rightarrow> [] | Inr l \<Rightarrow> lc_Path l)"

lemma memo_hides_scope_file:
  "let c1 = snd (api_Load demo_js (two_files [general_file]) None demo_params (NewCatalogAPI demo_opts));
     now = two_files [general_file, scope_file] in
   loaded_path (api_Load demo_js now None demo_params c1) = general_file \<and>
   loaded_path (api_Load demo_js now None demo_params (NewCatalogAPI demo_opts)) = scope_file"
  by code_simp

section \<open>Binding\<close>

text \<open>Binding never invents a hash: it is the stamp, or without one the configured hash, or an error.\<close>

lemma contract_Bind_source:
  "case contract_Bind parent bucket scope mode doc of
     Inl e \<Rightarrow> ze_code e = CodeContractHashMissing \<and> ExtractStampedHash doc = []
   | Inr row \<Rightarrow> (if ExtractStampedHash doc \<noteq> []
       then sget row ''contract_hash'' = ExtractStampedHash doc \<and> sget row ''hash_source'' = ''stamp''
       else sget row ''contract_hash'' \<noteq> [] \<and> sget row ''hash_source'' = ''bound'' \<and>
         \<not> str_contains (sget row ''contract_hash'') ''TO_BE_FILLED'')"
  by (auto simp: contract_Bind_def bind_row_def sget_def Let_def NewFamily_def typed_def
    scopeContractEntry_def contract_pair_def split: option.splits if_splits)

end
