(* ===== verification/Config_Load.thy ===== *)
theory Config_Load
  imports Config_Models Go_Filepath
begin

text \<open>
  Loading a configuration (src/config/parse.go, cache.go, pins.go, loader.go and the binding of
  src/client.go): the coercions, the settings of the semantic cache, the pins file, the runtime mapping, the
  overlay of the environment and Load.

  The process environment, the file system and the JSON decoder are inputs; \<open>pf\<close> is strconv.ParseFloat.
  The cause of a failed stat is left out of its error. A \<open>json.Number\<close> does not occur: the decoder of
  Load gives float64. Maps keep the order of the mapping they are read from.
\<close>

section \<open>Coercions\<close>

definition cfg_bool :: "gval \<Rightarrow> bool \<Rightarrow> bool" where
  "cfg_bool v dflt = (case v of
     GBool b \<Rightarrow> b
   | GStr s \<Rightarrow> to_lower (trim_space s) \<in> {''1'', ''true'', ''yes'', ''on''}
   | GFloat x \<Rightarrow> x \<noteq> 0
   | GInt n \<Rightarrow> n \<noteq> 0
   | _ \<Rightarrow> dflt)"

definition cfg_str :: "gval \<Rightarrow> string \<Rightarrow> string" where
  "cfg_str v dflt = (case v of GStr s \<Rightarrow> s | _ \<Rightarrow> dflt)"

definition cfg_int :: "gval \<Rightarrow> int \<Rightarrow> int" where
  "cfg_int v dflt = (case v of
     GInt n \<Rightarrow> n
   | GFloat x \<Rightarrow> trunc_rat x
   | GStr s \<Rightarrow> (case atoi (trim_space s) of Some n \<Rightarrow> n | None \<Rightarrow> dflt)
   | _ \<Rightarrow> dflt)"

type_synonym parse_float = "string \<Rightarrow> rat option"

definition cfg_float :: "parse_float \<Rightarrow> gval \<Rightarrow> rat \<Rightarrow> rat" where
  "cfg_float pf v dflt = (case v of
     GFloat x \<Rightarrow> x
   | GInt n \<Rightarrow> of_int n
   | GStr s \<Rightarrow> (case pf (trim_space s) of Some x \<Rightarrow> x | None \<Rightarrow> dflt)
   | _ \<Rightarrow> dflt)"

definition cfg_map :: "gval \<Rightarrow> gmap" where
  "cfg_map v = (case v of GObj m \<Rightarrow> m | _ \<Rightarrow> [])"

definition isMap :: "gval \<Rightarrow> bool" where
  "isMap v \<longleftrightarrow> (case v of GObj m \<Rightarrow> True | _ \<Rightarrow> False)"

definition childMap :: "gmap \<Rightarrow> string \<Rightarrow> gmap" where
  "childMap data key = cfg_map (mget data key)"

definition rstripSlash :: "string \<Rightarrow> string" where
  "rstripSlash s = trim_right_set {CHR ''/''} s"

definition asStringMap :: "gval \<Rightarrow> string amap" where
  "asStringMap raw = List.map_filter (\<lambda>(k, v). if v = GNil then None else Some (k, cfg_str v [])) (cfg_map raw)"

definition asBoolMap :: "gval \<Rightarrow> bool amap" where
  "asBoolMap raw = map (\<lambda>(k, v). (k, cfg_bool v False)) (cfg_map raw)"

definition envHas :: "string amap \<Rightarrow> string \<Rightarrow> bool" where
  "envHas env key \<longleftrightarrow> map_of env key \<noteq> None"

definition envOr :: "string amap \<Rightarrow> string \<Rightarrow> string \<Rightarrow> string" where
  "envOr env key dflt = (case map_of env key of Some v \<Rightarrow> v | None \<Rightarrow> dflt)"

definition envBool :: "string amap \<Rightarrow> string \<Rightarrow> bool \<Rightarrow> bool" where
  "envBool env key dflt = (case map_of env key of None \<Rightarrow> dflt | Some v \<Rightarrow> cfg_bool (GStr v) dflt)"

section \<open>The semantic cache\<close>

definition blockTypeOrder :: "string list" where
  "blockTypeOrder = [''conversational'', ''profile'', ''semantic'']"

definition blockTypes :: "string set" where "blockTypes = set blockTypeOrder"

definition defaultInjectKey :: string where "defaultInjectKey = ''semantic_memory''"

definition cfg_strings :: "gval \<Rightarrow> string list \<Rightarrow> string list" where
  "cfg_strings raw dflt = (case raw of
     GStr s \<Rightarrow> (if trim_space s = [] then copyStrings dflt else [trim_space s])
   | GArr xs \<Rightarrow> (let out = filter (\<lambda>s. s \<noteq> []) (map (\<lambda>x. trim_space (cfg_str x [])) xs) in
       if length out = 0 then copyStrings dflt else out)
   | _ \<Rightarrow> copyStrings dflt)"

definition asStringSliceAllowEmpty :: "gval \<Rightarrow> string list" where
  "asStringSliceAllowEmpty raw = (case raw of
     GStr s \<Rightarrow> (if trim_space s = [] then [] else [trim_space s])
   | GArr xs \<Rightarrow> map (\<lambda>x. cfg_str x []) (filter (\<lambda>x. x \<noteq> GNil) xs)
   | _ \<Rightarrow> [])"

definition filterBlockTypes :: "string list \<Rightarrow> string list \<Rightarrow> string list" where
  "filterBlockTypes xs fallback = (let out = filter (\<lambda>t. t \<in> blockTypes) xs in
     if length out = 0 then copyStrings fallback else out)"

definition ttlSecondsFrom :: "gval \<Rightarrow> int \<Rightarrow> int" where
  "ttlSecondsFrom raw dflt = (case raw of
     GNil \<Rightarrow> dflt
   | GObj m \<Rightarrow> (case List.map_filter (\<lambda>key. let v = mget m key; n = cfg_int v (-1) in
         if v \<noteq> GNil \<and> 0 \<le> n then Some n else None) [''conversational'', ''default'', ''profile'', ''semantic''] of
       n # ns \<Rightarrow> n | [] \<Rightarrow> dflt)
   | _ \<Rightarrow> max 0 (cfg_int raw dflt))"

definition or_default :: "string \<Rightarrow> string \<Rightarrow> string" where
  "or_default s dflt = (if s = [] then dflt else s)"

definition parse_recall :: "parse_float \<Rightarrow> gmap \<Rightarrow> SemanticCacheRecallConfig" where
  "parse_recall pf r = (let types = [''profile'', ''semantic'', ''conversational''] in
     \<lparr>sr_enabled = cfg_bool (mget r ''enabled'') True, sr_top_k = cfg_int (mget r ''top_k'') 5,
      sr_min_score = cfg_float pf (mget r ''min_score'') 0,
      sr_types = filterBlockTypes (cfg_strings (mget r ''types'') types) types,
      sr_min_query_chars = cfg_int (mget r ''min_query_chars'') 12,
      sr_timeout_ms = cfg_int (mget r ''timeout_ms'') 150,
      sr_fail_closed = cfg_bool (mget r ''fail_closed'') False\<rparr>)"

definition parse_inject :: "gmap \<Rightarrow> SemanticCacheInjectConfig" where
  "parse_inject i = (let order = to_lower (trim_space (cfg_str (mget i ''order'') ''score_desc'')) in
     \<lparr>si_bag = or_default (trim_space (cfg_str (mget i ''bag'') ''B'')) ''B'',
      si_key = or_default (trim_space (cfg_str (mget i ''key'') defaultInjectKey)) defaultInjectKey,
      si_max_chars = cfg_int (mget i ''max_chars'') 4000, si_max_blocks = cfg_int (mget i ''max_blocks'') 5,
      si_include_fields = cfg_strings (mget i ''include_fields'') [''summary'', ''text''],
      si_order = (if order \<noteq> ''score_desc'' \<and> order \<noteq> ''recency'' then ''score_desc'' else order)\<rparr>)"

definition parse_write :: "gmap \<Rightarrow> SemanticCacheWriteConfig" where
  "parse_write w = (let t = to_lower (trim_space (cfg_str (mget w ''default_type'') ''conversational''));
       a = (if mget w ''async'' = GNil then mget w ''async_write'' else mget w ''async'') in
     \<lparr>sw_enabled = cfg_bool (mget w ''enabled'') True, sw_on_turn_commit = cfg_bool (mget w ''on_turn_commit'') True,
      sw_explicit_only = cfg_bool (mget w ''write_explicit_only'') True,
      sw_user_message = cfg_bool (mget w ''write_user_message'') False,
      sw_assistant_summary = cfg_bool (mget w ''write_assistant_summary'') False,
      sw_default_type = (if t \<in> blockTypes then t else ''conversational''),
      sw_types_allowed = filterBlockTypes (cfg_strings (mget w ''types_allowed'') blockTypeOrder) blockTypeOrder,
      sw_min_chars = cfg_int (mget w ''min_chars'') 24,
      sw_max_chars_per_block = cfg_int (mget w ''max_chars_per_block'') 2000,
      sw_max_blocks_per_turn = cfg_int (mget w ''max_blocks_per_turn'') 3,
      sw_ttl_seconds = ttlSecondsFrom (mget w ''ttl_seconds'') 604800, sw_async = cfg_bool a True\<rparr>)"

definition parseSemanticCache :: "parse_float \<Rightarrow> gval \<Rightarrow> SemanticCacheConfig" where
  "parseSemanticCache pf raw = (case raw of
     GBool b \<Rightarrow> (if b then defaultSemanticCache\<lparr>sc_enabled := True\<rparr> else defaultSemanticCache)
   | _ \<Rightarrow> (let data = cfg_map raw; privacy = cfg_map (mget data ''privacy'');
         uid = trim_space (cfg_str (mget data ''dev_user_id'') []) in
       if length data = 0 then defaultSemanticCache
       else \<lparr>sc_enabled = cfg_bool (mget data ''enabled'') False,
          sc_apply_to_modes = cfg_strings (mget data ''apply_to_modes'') [''agent''],
          sc_recall = parse_recall pf (cfg_map (mget data ''recall'')),
          sc_inject = parse_inject (cfg_map (mget data ''inject'')),
          sc_write = parse_write (cfg_map (mget data ''write'')),
          sc_prefer_summary = cfg_bool (mget (cfg_map (mget data ''embed'')) ''prefer_summary_for_write'') True,
          sc_privacy = \<lparr>sp_redact_before_write = cfg_bool (mget privacy ''redact_before_write'') False,
            sp_deny_regex = asStringSliceAllowEmpty (mget privacy ''deny_regex'')\<rparr>,
          sc_dev_user_id = uid\<rparr>))"

section \<open>Pins\<close>

definition isPinsMapping :: "gmap \<Rightarrow> bool" where
  "isPinsMapping data \<longleftrightarrow> map_of data ''pins_version'' \<noteq> None \<or>
     (map_of data ''language'' \<noteq> None \<and> map_of data ''claim'' \<noteq> None)"

definition pin_llm :: "parse_float \<Rightarrow> gmap \<Rightarrow> RuntimeConfig \<Rightarrow> RuntimeConfig" where
  "pin_llm pf llm c = (if length llm = 0 then c else
     (let l = rc_llm c; s = rc_settings c;
          w = mget llm ''context_window_tokens''; sl = mget llm ''context_soft_limit'';
          ai = mget llm ''ai_process_result_default'' in c
       \<lparr>rc_llm := l\<lparr>lp_provider := or_default (cfg_str (mget llm ''provider'') []) (lp_provider l),
          lp_base_url := (let v = cfg_str (mget llm ''base_url'') [] in if v \<noteq> [] then rstripSlash v else lp_base_url l),
          lp_model := or_default (cfg_str (mget llm ''model'') []) (lp_model l),
          lp_api_key_env := or_default (cfg_str (mget llm ''api_key_env'') []) (lp_api_key_env l),
          lp_api_style := or_default (cfg_str (mget llm ''api_style'') []) (lp_api_style l),
          lp_context_window_tokens := (if w \<noteq> GNil then cfg_int w (lp_context_window_tokens l)
            else lp_context_window_tokens l),
          lp_context_soft_limit := (if sl \<noteq> GNil then cfg_float pf sl (lp_context_soft_limit l)
            else lp_context_soft_limit l)\<rparr>,
        rc_settings := (if ai \<noteq> GNil then s\<lparr>stg_ai_process_result := cfg_bool ai False\<rparr> else s)\<rparr>))"

definition overlayPins :: "parse_float \<Rightarrow> RuntimeConfig \<Rightarrow> gmap \<Rightarrow> RuntimeConfig" where
  "overlayPins pf base data =
     (let z = childMap data ''zeus''; u = cfg_str (mget z ''default_base_url'') [];
          a = childMap data ''auth_smoke''; m = to_lower (cfg_str (mget a ''mode'') []);
          claim = childMap data ''claim''; cat = childMap data ''catalog''; stamps = childMap data ''stamps'';
          c1 = (if u \<noteq> [] then base\<lparr>rc_zeus := (rc_zeus base)\<lparr>ep_url := rstripSlash u\<rparr>\<rparr> else base);
          c2 = (if m \<noteq> [] then c1\<lparr>rc_zeus := (rc_zeus c1)\<lparr>ep_auth_mode := m\<rparr>\<rparr> else c1);
          c3 = pin_llm pf (childMap data ''llm'') c2;
          c4 = c3\<lparr>rc_client_floor := or_default (cfg_str (mget claim ''client_floor'') []) (rc_client_floor c3)\<rparr>;
          c5 = (if 0 < length cat then c4\<lparr>rc_production_base_id := cfg_str (mget cat ''production_base_id'') []\<rparr> else c4)
      in c5\<lparr>rc_user := or_default (cfg_str (mget stamps ''user'') []) (rc_user c5)\<rparr>)"

section \<open>The runtime mapping\<close>

definition loaderComponent :: string where "loaderComponent = ''config.loader''"

definition parse_role :: "parse_float \<Rightarrow> string \<Rightarrow> gmap \<Rightarrow> LlmRoleConfig" where
  "parse_role pf keyEnv sm =
     \<lparr>rl_model = cfg_str (mget sm ''model'') [], rl_api_key_env = or_default (cfg_str (mget sm ''api_key_env'') []) keyEnv,
      rl_base_url = cfg_str (mget sm ''base_url'') [], rl_provider = cfg_str (mget sm ''provider'') [],
      rl_temperature = (if mget sm ''temperature'' \<noteq> GNil then Some (cfg_float pf (mget sm ''temperature'') 0) else None)\<rparr>"

definition parseLLMRoles :: "parse_float \<Rightarrow> gval \<Rightarrow> string \<Rightarrow> LlmRoleConfig amap" where
  "parseLLMRoles pf raw keyEnv = List.map_filter (\<lambda>(name, spec). case spec of
     GObj sm \<Rightarrow> Some (name, parse_role pf keyEnv sm) | _ \<Rightarrow> None) (cfg_map raw)"

definition asRulesMap :: "gval \<Rightarrow> string amap" where
  "asRulesMap raw = (if isMap raw then asStringMap raw else [])"

definition parseClientSettings :: "gmap \<Rightarrow> ClientSettings \<Rightarrow> ClientSettings" where
  "parseClientSettings st dflt = dflt
     \<lparr>stg_ai_process_result := cfg_bool (mget st ''ai_process_result'') False,
      stg_max_rounds := cfg_int (mget st ''max_rounds'') 8, stg_force_trace := cfg_bool (mget st ''force_trace'') False,
      stg_mode := cfg_str (mget st ''mode'') ''analytics'',
      stg_durable_sessions := cfg_bool (mget st ''durable_sessions'') (stg_durable_sessions dflt),
      stg_sticky_flags := asBoolMap (mget st ''sticky_flags''), stg_messages := asStringMap (mget st ''messages''),
      stg_soft_require_policy_action := cfg_bool (mget st ''soft_require_policy_action'') True,
      stg_app_output_on_error := or_default (cfg_str (mget st ''app_output_on_error'') ''strip'') ''strip'',
      stg_output_request := (case mget st ''output_request'' of GObj m \<Rightarrow> Some (copyMap m) | _ \<Rightarrow> stg_output_request dflt),
      stg_rules := asRulesMap (mget st ''rules''), stg_tenant_rules := asRulesMap (mget st ''tenant_rules''),
      stg_override_defaults := cfg_bool (mget st ''override_defaults'') False,
      stg_company_context := cfg_str (mget st ''company_context'') [], stg_locale := cfg_str (mget st ''locale'') [],
      stg_language := cfg_str (mget st ''language'') [], stg_timezone := cfg_str (mget st ''timezone'') [],
      stg_channel := cfg_str (mget st ''channel'') [], stg_market := cfg_str (mget st ''market'') [],
      stg_deployment_id := cfg_str (mget st ''deployment_id'') [], stg_ruleset_id := cfg_str (mget st ''ruleset_id'') [],
      stg_force_return_rounds_left := (if mget st ''force_return_rounds_left'' \<noteq> GNil
        then cfg_int (mget st ''force_return_rounds_left'') 1 else 1),
      stg_ignore_user_tool_path_hints := cfg_bool (mget st ''ignore_user_tool_path_hints'') True,
      stg_tool_trail_enabled := cfg_bool (mget st ''tool_trail_enabled'') True,
      stg_tool_trail_inject := cfg_bool (mget st ''tool_trail_inject'') True,
      stg_tool_trail_max_entries := cfg_int (mget st ''tool_trail_max_entries'') 16\<rparr>"

definition parseJobs :: "gmap \<Rightarrow> JobsConfig" where
  "parseJobs raw = \<lparr>jc_host_url = cfg_str (mget raw ''host_url'') [], jc_watch_transport = ''sse'',
     jc_models = (case mget raw ''models'' of GObj m \<Rightarrow> copyMap m | _ \<Rightarrow> [])\<rparr>"

definition parseScopeCredentials :: "gval \<Rightarrow> string amap amap" where
  "parseScopeCredentials raw = List.map_filter (\<lambda>(k, v). case v of
     GObj m \<Rightarrow> Some (k, map (\<lambda>(ik, iv). (ik, cfg_str iv [])) m) | _ \<Rightarrow> None) (cfg_map raw)"

definition parseScopeContracts :: "gmap \<Rightarrow> gmap \<Rightarrow> gmap" where
  "parseScopeContracts data z = (case mget data ''scope_contracts'' of
     GObj m \<Rightarrow> copyMap m
   | _ \<Rightarrow> (case mget z ''scope_contracts'' of GObj m \<Rightarrow> copyMap m | _ \<Rightarrow> []))"

definition productionBaseID :: "gmap \<Rightarrow> string" where
  "productionBaseID data = or_default (cfg_str (mget data ''production_base_id'') [])
     (cfg_str (mget (childMap data ''catalog'') ''production_base_id'') [])"

definition target_map :: "gmap \<Rightarrow> gmap" where
  "target_map data = (let t = childMap data ''target''; samples = childMap data ''samples'' in
     if length t = 0 \<and> 0 < length samples
     then [(''bucket'', mget samples ''bucket''), (''scope'', mget samples ''scope''),
       (''collection'', mget samples ''collection'')]
     else t)"

definition mapping_url :: "gmap \<Rightarrow> string" where
  "mapping_url z = or_default (or_default (rstripSlash (cfg_str (mget z ''url'') []))
     (rstripSlash (cfg_str (mget z ''base_url'') []))) (ep_url (rc_zeus DefaultConfig))"

definition parse_zeus :: "parse_float \<Rightarrow> gmap \<Rightarrow> string \<Rightarrow> string \<Rightarrow> ZeusEndpointConfig" where
  "parse_zeus pf z url authMode =
     \<lparr>ep_url = url, ep_auth_mode = authMode, ep_username = cfg_str (mget z ''username'') [],
      ep_password_env = cfg_str (firstNonNil [mget z ''password_env'', mget z ''password_env_name'']) [],
      ep_token_env = cfg_str (firstNonNil [mget z ''token_env'', mget z ''token_env_name'']) [],
      ep_timeout_s = cfg_float pf (mget z ''timeout_s'') 30,
      ep_tls_verify = cfg_bool (mget z ''tls_verify'') (cfg_bool (mget z ''verify_tls'') True),
      ep_scope_credentials = parseScopeCredentials (mget z ''scope_credentials''),
      ep_cert_file = cfg_str (mget z ''cert_file'') [], ep_key_file = cfg_str (mget z ''key_file'') [],
      ep_key_file_env = cfg_str (mget z ''key_file_env'') []\<rparr>"

definition parse_llm :: "parse_float \<Rightarrow> gmap \<Rightarrow> LlmProviderConfig" where
  "parse_llm pf llm = (let provider = cfg_str (mget llm ''provider'') ''xai'';
       keyEnv = cfg_str (mget llm ''api_key_env'') (lp_api_key_env (rc_llm DefaultConfig));
       custom = equal_fold provider ''custom'' in
     \<lparr>lp_provider = provider,
      lp_base_url = rstripSlash (cfg_str (mget llm ''base_url'') (if custom then [] else ''https://api.x.ai/v1'')),
      lp_model = cfg_str (mget llm ''model'') (if custom then [] else ''grok-4-1-non-reasoning''),
      lp_api_key_env = keyEnv, lp_api_style = cfg_str (mget llm ''api_style'') [],
      lp_context_window_tokens = cfg_int (mget llm ''context_window_tokens'') 128000,
      lp_context_soft_limit = cfg_float pf (mget llm ''context_soft_limit'') soft_limit_default,
      lp_timeout_s = cfg_float pf (mget llm ''timeout_s'') 120, lp_roles = parseLLMRoles pf (mget llm ''roles'') keyEnv\<rparr>)"

definition parse_logging :: "gmap \<Rightarrow> LoggingPolicy" where
  "parse_logging r =
     \<lparr>lg_level = to_lower (trim_space (cfg_str (mget r ''level'') ''info'')), lg_redact = cfg_bool (mget r ''redact'') True,
      lg_otel_enabled = cfg_bool (mget r ''otel_enabled'') False,
      lg_otel_endpoint = trim_space (cfg_str (mget r ''otel_endpoint'') []),
      lg_service_name = cfg_str (mget r ''service_name'') ''zeus_client'',
      lg_service_version = cfg_str (mget r ''service_version'') []\<rparr>"

definition mapped_config :: "parse_float \<Rightarrow> gmap \<Rightarrow> string \<Rightarrow> string \<Rightarrow> RuntimeConfig" where
  "mapped_config pf data prof authMode =
     (let z = childMap data ''zeus''; t = target_map data; settings = childMap data ''settings'';
          retry = childMap data ''retry''; red = childMap data ''redaction''; debug = childMap data ''debug'';
          rl = childMap data ''rate_limit''
      in \<lparr>rc_profile = prof, rc_user = or_default (cfg_str (mget data ''user'') []) (rc_user DefaultConfig),
       rc_zeus = parse_zeus pf z (mapping_url z) authMode,
       rc_target = \<lparr>dt_bucket = cfg_str (mget t ''bucket'') ''yelp-data'', dt_scope = cfg_str (mget t ''scope'') ''_default'',
         dt_collection = cfg_str (mget t ''collection'') ''_default''\<rparr>,
       rc_llm = parse_llm pf (childMap data ''llm''),
       rc_settings = parseClientSettings settings (rc_settings DefaultConfig),
       rc_retry = \<lparr>rp_max_attempts = cfg_int (mget retry ''max_attempts'') 3,
         rp_base_delay_ms = cfg_int (mget retry ''base_delay_ms'') 200,
         rp_max_delay_ms = cfg_int (mget retry ''max_delay_ms'') 5000, rp_jitter = cfg_bool (mget retry ''jitter'') True\<rparr>,
       rc_redaction = \<lparr>rd_enabled = cfg_bool (mget red ''enabled'') True,
         rd_preview_max_chars = cfg_int (mget red ''preview_max_chars'') 2048\<rparr>,
       rc_debug = \<lparr>dbg_detective_briefing = cfg_bool (mget debug ''detective_briefing'')
           (dbg_detective_briefing (rc_debug DefaultConfig)),
         dbg_hub_base_url = cfg_str (mget debug ''hub_base_url'') [],
         dbg_rewind = cfg_bool (mget debug ''rewind'') (cfg_bool (mget settings ''rewind'') False),
         dbg_capture_bodies = cfg_bool (mget debug ''capture_bodies'') False,
         dbg_transport_replay = cfg_bool (mget debug ''transport_replay'') True\<rparr>,
       rc_rate_limit = \<lparr>rt_typeahead_enabled = cfg_bool (mget rl ''typeahead_enabled'') True,
         rt_typeahead_rps = cfg_float pf (mget rl ''typeahead_rps'') 10,
         rt_typeahead_burst = cfg_float pf (mget rl ''typeahead_burst'') 20\<rparr>,
       rc_logging = parse_logging (childMap data ''logging''),
       rc_client_ip = trim_space (cfg_str (mget (childMap data ''client'') ''ip_address'') []),
       rc_chat_requests_dir = cfg_str (mget data ''chat_requests_dir'') [], rc_jobs = parseJobs (childMap data ''jobs''),
       rc_client_floor = cfg_str (mget data ''client_floor'') ''client-floor-5'',
       rc_allow_degraded_catalog = cfg_bool (mget data ''allow_degraded_catalog'') False,
       rc_scope_contracts = parseScopeContracts data z, rc_production_base_id = productionBaseID data,
       rc_semantic_cache = parseSemanticCache pf (mget (childMap data ''session'') ''semantic_cache'')\<rparr>)"

definition auth_mode_invalid :: "string \<Rightarrow> zerror" where
  "auth_mode_invalid m = NewConfig CodeZeusAuthModeInvalid loaderComponent [WithMessage (''zeus.auth_mode invalid: '' @ m)]"

definition fromRuntimeMapping :: "parse_float \<Rightarrow> gmap \<Rightarrow> string \<Rightarrow> zerror + RuntimeConfig" where
  "fromRuntimeMapping pf data profile =
     (let z = childMap data ''zeus'';
          authMode = to_lower (cfg_str (mget z ''auth_mode'') (ep_auth_mode (rc_zeus DefaultConfig)));
          prof = or_default profile (cfg_str (mget data ''profile'') ''development'')
      in if \<not> validAuthMode authMode then Inl (auth_mode_invalid authMode)
         else if mapping_url z = [] then Inl (NewConfig CodeZeusURLMissing loaderComponent
           [WithMessage ''zeus.url missing or empty''])
         else ApplyProfile (mapped_config pf data prof authMode) prof)"

definition FromMapping :: "parse_float \<Rightarrow> gmap option \<Rightarrow> string \<Rightarrow> zerror + RuntimeConfig" where
  "FromMapping pf mapping profile = (let data = (case mapping of None \<Rightarrow> [] | Some m \<Rightarrow> m) in
     if isPinsMapping data then
       (let cfg = overlayPins pf DefaultConfig data in
        ApplyProfile cfg (or_default profile (cfg_str (mget data ''profile'') (rc_profile cfg))))
     else fromRuntimeMapping pf data profile)"

section \<open>The environment\<close>

definition env_zeus :: "parse_float \<Rightarrow> string amap \<Rightarrow> ZeusEndpointConfig \<Rightarrow> zerror + ZeusEndpointConfig" where
  "env_zeus pf env z =
     (let url = envOr env ''ZEUS_CLIENT_URL'' (envOr env ''ZEUS_URL'' []);
          m = to_lower (envOr env ''ZEUS_CLIENT_AUTH_MODE'' (ep_auth_mode z));
          mode = or_default m (ep_auth_mode z);
          rest = (\<lambda>y. y\<lparr>ep_username := envOr env ''ZEUS_CLIENT_USERNAME'' (ep_username z),
            ep_password_env := envOr env ''ZEUS_CLIENT_PASSWORD_ENV'' (ep_password_env z),
            ep_token_env := envOr env ''ZEUS_CLIENT_TOKEN_ENV'' (ep_token_env z),
            ep_timeout_s := (case map_of env ''ZEUS_CLIENT_TIMEOUT_S'' of
              Some v \<Rightarrow> cfg_float pf (GStr v) (ep_timeout_s z) | None \<Rightarrow> ep_timeout_s z),
            ep_tls_verify := envBool env ''ZEUS_CLIENT_TLS_VERIFY'' (ep_tls_verify z)\<rparr>)
      in if url \<noteq> [] then Inr (rest (z\<lparr>ep_url := rstripSlash url\<rparr>))
         else if \<not> validAuthMode mode then Inl (auth_mode_invalid mode)
         else Inr (rest (z\<lparr>ep_auth_mode := mode\<rparr>)))"

definition env_target :: "string amap \<Rightarrow> DataTarget \<Rightarrow> DataTarget" where
  "env_target env t = \<lparr>dt_bucket = envOr env ''ZEUS_CLIENT_BUCKET'' (dt_bucket t),
     dt_scope = envOr env ''ZEUS_CLIENT_SCOPE'' (dt_scope t),
     dt_collection = envOr env ''ZEUS_CLIENT_COLLECTION'' (dt_collection t)\<rparr>"

definition env_llm :: "parse_float \<Rightarrow> string amap \<Rightarrow> LlmProviderConfig \<Rightarrow> LlmProviderConfig" where
  "env_llm pf env l = l
     \<lparr>lp_provider := envOr env ''ZEUS_CLIENT_LLM_PROVIDER'' (lp_provider l),
      lp_base_url := rstripSlash (envOr env ''ZEUS_CLIENT_LLM_BASE_URL'' (lp_base_url l)),
      lp_model := envOr env ''ZEUS_CLIENT_LLM_MODEL'' (lp_model l),
      lp_api_key_env := envOr env ''ZEUS_CLIENT_LLM_API_KEY_ENV'' (lp_api_key_env l),
      lp_context_window_tokens := (case map_of env ''ZEUS_CLIENT_LLM_CONTEXT_WINDOW'' of
        Some v \<Rightarrow> cfg_int (GStr v) (lp_context_window_tokens l) | None \<Rightarrow> lp_context_window_tokens l),
      lp_context_soft_limit := (case map_of env ''ZEUS_CLIENT_LLM_CONTEXT_SOFT_LIMIT'' of
        Some v \<Rightarrow> cfg_float pf (GStr v) (lp_context_soft_limit l) | None \<Rightarrow> lp_context_soft_limit l),
      lp_timeout_s := (case map_of env ''ZEUS_CLIENT_LLM_TIMEOUT_S'' of
        Some v \<Rightarrow> cfg_float pf (GStr v) (lp_timeout_s l) | None \<Rightarrow> lp_timeout_s l)\<rparr>"

definition env_settings :: "string amap \<Rightarrow> ClientSettings \<Rightarrow> ClientSettings" where
  "env_settings env s = s
     \<lparr>stg_ai_process_result := envBool env ''ZEUS_CLIENT_AI_PROCESS_RESULT'' (stg_ai_process_result s),
      stg_max_rounds := (case map_of env ''ZEUS_CLIENT_MAX_ROUNDS'' of
        Some v \<Rightarrow> cfg_int (GStr v) (stg_max_rounds s) | None \<Rightarrow> stg_max_rounds s),
      stg_force_trace := envBool env ''ZEUS_CLIENT_FORCE_TRACE'' (stg_force_trace s),
      stg_mode := envOr env ''ZEUS_CLIENT_MODE'' (stg_mode s),
      stg_durable_sessions := envBool env ''ZEUS_CLIENT_DURABLE_SESSIONS'' (stg_durable_sessions s)\<rparr>"

definition env_logging :: "string amap \<Rightarrow> LoggingPolicy \<Rightarrow> LoggingPolicy" where
  "env_logging env l = l
     \<lparr>lg_level := (case map_of env ''ZEUS_CLIENT_LOG_LEVEL'' of Some v \<Rightarrow> to_lower (trim_space v) | None \<Rightarrow> lg_level l),
      lg_redact := envBool env ''ZEUS_CLIENT_LOG_REDACT'' (lg_redact l),
      lg_otel_enabled := envBool env ''ZEUS_CLIENT_OTEL_ENABLED'' (lg_otel_enabled l),
      lg_otel_endpoint := (case map_of env ''ZEUS_CLIENT_OTEL_ENDPOINT'' of
        Some v \<Rightarrow> trim_space v | None \<Rightarrow> lg_otel_endpoint l),
      lg_service_name := envOr env ''ZEUS_CLIENT_SERVICE_NAME'' (lg_service_name l),
      lg_service_version := envOr env ''ZEUS_CLIENT_SERVICE_VERSION'' (lg_service_version l)\<rparr>"

definition env_debug :: "string amap \<Rightarrow> ConfigDebug \<Rightarrow> ConfigDebug" where
  "env_debug env d = (case map_of env ''ZEUS_REWIND'' of
     Some v \<Rightarrow> d\<lparr>dbg_rewind := cfg_bool (GStr v) (dbg_rewind d)\<rparr>
   | None \<Rightarrow> (case map_of env ''ZEUS_CLIENT_REWIND'' of
       Some v \<Rightarrow> d\<lparr>dbg_rewind := cfg_bool (GStr v) (dbg_rewind d)\<rparr> | None \<Rightarrow> d))"

definition env_config :: "parse_float \<Rightarrow> string amap \<Rightarrow> ZeusEndpointConfig \<Rightarrow> RuntimeConfig \<Rightarrow> RuntimeConfig" where
  "env_config pf env z cfg = cfg
     \<lparr>rc_profile := envOr env ''ZEUS_CLIENT_PROFILE'' (rc_profile cfg), rc_zeus := z,
      rc_target := env_target env (rc_target cfg), rc_llm := env_llm pf env (rc_llm cfg),
      rc_settings := env_settings env (rc_settings cfg), rc_logging := env_logging env (rc_logging cfg),
      rc_debug := env_debug env (rc_debug cfg),
      rc_client_ip := (case map_of env ''ZEUS_CLIENT_IP'' of Some v \<Rightarrow> trim_space v | None \<Rightarrow> rc_client_ip cfg),
      rc_chat_requests_dir := envOr env ''ZEUS_CLIENT_CHAT_REQUESTS_DIR'' (rc_chat_requests_dir cfg),
      rc_jobs := (rc_jobs cfg)\<lparr>jc_host_url := or_default (envOr env ''ZEUS_CLIENT_JOBS_HOST_URL'' [])
        (jc_host_url (rc_jobs cfg))\<rparr>,
      rc_client_floor := envOr env ''ZEUS_CLIENT_FLOOR'' (rc_client_floor cfg),
      rc_semantic_cache := (if envHas env ''ZEUS_CLIENT_SEMANTIC_CACHE''
        then (rc_semantic_cache cfg)\<lparr>sc_enabled := envBool env ''ZEUS_CLIENT_SEMANTIC_CACHE'' False\<rparr>
        else rc_semantic_cache cfg),
      rc_user := envOr env ''ZEUS_CLIENT_USER'' (rc_user cfg)\<rparr>"

definition applyEnv :: "parse_float \<Rightarrow> RuntimeConfig \<Rightarrow> string amap \<Rightarrow> zerror + RuntimeConfig" where
  "applyEnv pf cfg env = (case env_zeus pf env (rc_zeus cfg) of
     Inl e \<Rightarrow> Inl e
   | Inr z \<Rightarrow> (let c = env_config pf env z cfg in ApplyProfile c (rc_profile c)))"

section \<open>Load\<close>

text \<open>The process environment is its list of \<open>key=value\<close> strings; a later one wins.\<close>

definition environMap :: "string list \<Rightarrow> string amap" where
  "environMap kvs = fold (\<lambda>kv out. case str_cut kv ''='' of
     (k, v, ok) \<Rightarrow> if ok then amap_put k v out else out) kvs []"

definition path_details :: "string \<Rightarrow> gmap" where
  "path_details path = [(''path'', GStr path)]"

definition load_file :: "filesys \<Rightarrow> (string \<Rightarrow> string + gval) \<Rightarrow> string \<Rightarrow> zerror + gmap" where
  "load_file fs unmarshal path =
     (if path = [] then Inr []
      else if fs_stat fs path = None \<or> fs_stat fs path = Some FDirectory then
        Inl (NewConfig CodeConfigPathNotFound loaderComponent
          [WithMessage (''config path not found: '' @ path), WithDetails (path_details path)])
      else (case fs_read fs path of
        Inl err \<Rightarrow> Inl (NewConfig CodeConfigNotReadable loaderComponent
          [WithMessage ''config path not readable'', WithDetails (path_details path), WithCause err])
      | Inr raw \<Rightarrow> (case unmarshal raw of
          Inl err \<Rightarrow> Inl (NewConfig CodeConfigParseFailed loaderComponent
            [WithMessage ''config file parse failed'', WithDetails (path_details path @ [(''error'', GStr err)]),
             WithCause err])
        | Inr (GObj m) \<Rightarrow> Inr m
        | Inr _ \<Rightarrow> Inl (NewConfig CodeConfigInvalid loaderComponent [WithMessage ''config mapping invalid'']))))"

definition Load :: "parse_float \<Rightarrow> filesys \<Rightarrow> (string \<Rightarrow> string + gval) \<Rightarrow> string list \<Rightarrow> string \<Rightarrow> string \<Rightarrow>
    string amap option \<Rightarrow> zerror + RuntimeConfig" where
  "Load pf fs unmarshal environ path profile envArg =
     (let env = (case envArg of None \<Rightarrow> environMap environ | Some e \<Rightarrow> e) in
      case load_file fs unmarshal path of
        Inl e \<Rightarrow> Inl e
      | Inr data \<Rightarrow>
         (let prof = or_default profile (envOr env ''ZEUS_CLIENT_PROFILE'' (cfg_str (mget data ''profile'') ''development''))
          in case FromMapping pf (Some data) prof of Inl e \<Rightarrow> Inl e | Inr cfg \<Rightarrow> applyEnv pf cfg env))"

text \<open>Binding a client: the configuration given or the one loaded, and the stamp user.\<close>

definition applyStampUser :: "string \<Rightarrow> RuntimeConfig \<Rightarrow> RuntimeConfig" where
  "applyStampUser optsUser cfg = (if trim_space optsUser \<noteq> [] then cfg\<lparr>rc_user := ResolveStampUser optsUser\<rparr>
     else cfg\<lparr>rc_user := ResolveStampUser (rc_user cfg)\<rparr>)"

definition resolveConfig :: "RuntimeConfig option \<Rightarrow> (zerror + RuntimeConfig) \<Rightarrow> string \<Rightarrow> zerror + RuntimeConfig" where
  "resolveConfig given loaded stampUser = (case given of
     Some c \<Rightarrow> Inr (applyStampUser stampUser (Snapshot c))
   | None \<Rightarrow> (case loaded of Inl e \<Rightarrow> Inl e | Inr c \<Rightarrow> Inr (applyStampUser stampUser (Snapshot c))))"

section \<open>What a loaded configuration satisfies\<close>

lemma NewConfig_code [simp]: "ze_code (NewConfig c cmp [WithMessage m]) = c"
  "ze_code (NewConfig c cmp [WithMessage m, WithDetails d]) = c"
  "ze_code (NewConfig c cmp [WithMessage m, WithDetails d, WithCause x]) = c"
  by (simp_all add: NewFamily_simps)

definition load_codes :: "Code set" where
  "load_codes = {CodeConfigPathNotFound, CodeConfigNotReadable, CodeConfigParseFailed, CodeConfigInvalid,
     CodeZeusAuthModeInvalid}"

lemma ApplyProfile_code: "ApplyProfile cfg p = Inl e \<Longrightarrow> ze_code e = CodeConfigInvalid"
  by (auto simp: ApplyProfile_error ValidateProductionSecurity_def split: if_splits)

lemma mapping_url_nonempty: "mapping_url z \<noteq> []"
  by (simp add: mapping_url_def or_default_def DefaultConfig_def)

lemma FromMapping_code: "FromMapping pf m p = Inl e \<Longrightarrow> ze_code e \<in> load_codes"
  by (auto simp: FromMapping_def fromRuntimeMapping_def Let_def mapping_url_nonempty load_codes_def auth_mode_invalid_def
    dest: ApplyProfile_code split: if_splits)

lemma applyEnv_code: "applyEnv pf cfg env = Inl e \<Longrightarrow> ze_code e \<in> load_codes"
  by (auto simp: applyEnv_def env_zeus_def Let_def load_codes_def auth_mode_invalid_def
    dest: ApplyProfile_code split: sum.splits if_splits)

lemma load_file_code: "load_file fs u path = Inl e \<Longrightarrow> ze_code e \<in> load_codes"
  by (auto simp: load_file_def load_codes_def split: if_splits sum.splits gval.splits)

lemma applyEnv_safe: "applyEnv pf cfg env = Inr c \<Longrightarrow> profile_safe c"
  by (auto simp: applyEnv_def Let_def dest: ApplyProfile_safe split: sum.splits)


subsection \<open>The authentication mode\<close>

lemma ApplyProfile_zeus: "ApplyProfile cfg p = Inr c \<Longrightarrow> rc_zeus c = rc_zeus cfg \<and> rc_llm c = rc_llm cfg"
  by (auto simp: ApplyProfile_def apply_named_def Let_def set_policies_def withAIProcessResult_def split: if_splits option.splits)

lemma FromMapping_auth:
  "FromMapping pf m p = Inr c \<Longrightarrow> \<not> isPinsMapping (case m of None \<Rightarrow> [] | Some d \<Rightarrow> d) \<Longrightarrow>
     validAuthMode (ep_auth_mode (rc_zeus c))"
  by (auto simp: FromMapping_def fromRuntimeMapping_def Let_def mapped_config_def parse_zeus_def
    dest!: ApplyProfile_zeus split: if_splits)

lemma applyEnv_auth:
  "applyEnv pf cfg env = Inr c \<Longrightarrow> validAuthMode (ep_auth_mode (rc_zeus cfg)) \<Longrightarrow> validAuthMode (ep_auth_mode (rc_zeus c))"
  by (auto simp: applyEnv_def env_zeus_def Let_def env_config_def dest!: ApplyProfile_zeus split: sum.splits if_splits)

lemma Load_auth_valid:
  assumes "Load pf fs unmarshal environ path profile envArg = Inr c" and "load_file fs unmarshal path = Inr data"
    and "\<not> isPinsMapping data"
  shows "validAuthMode (ep_auth_mode (rc_zeus c))"
  using assms FromMapping_auth [of pf "Some data"] applyEnv_auth
  by (auto simp: Load_def Let_def split: sum.splits)

text \<open>The mode of a pins file is not checked when the environment gives the URL, and a URL in the environment
  makes the mode of the environment ignored.\<close>

lemma pins_mode:
  assumes "md \<noteq> []" and "to_lower md = md"
  shows "ep_auth_mode (rc_zeus (overlayPins pf DefaultConfig [(''pins_version'', GInt 1),
      (''auth_smoke'', GObj [(''mode'', GStr md)])])) = md"
    and "rc_profile (overlayPins pf DefaultConfig [(''pins_version'', GInt 1),
      (''auth_smoke'', GObj [(''mode'', GStr md)])]) = ''development''"
  using assms by (simp_all add: overlayPins_def Let_def childMap_def cfg_map_def mget_def cfg_str_def pin_llm_def
    or_default_def DefaultConfig_def)

lemma pins_mode_unchecked:
  assumes "md \<noteq> []" and "to_lower md = md" and "url \<noteq> []"
  shows "case applyEnv pf (overlayPins pf DefaultConfig [(''pins_version'', GInt 1),
       (''auth_smoke'', GObj [(''mode'', GStr md)])]) [(''ZEUS_URL'', url)] of
     Inl e \<Rightarrow> False | Inr c \<Rightarrow> ep_auth_mode (rc_zeus c) = md"
proof -
  have n: "profile_name ''development'' = ''development''" by code_simp
  show ?thesis using assms(3) pins_mode [OF assms(1,2), of pf]
    by (simp add: applyEnv_def env_zeus_def Let_def envOr_def env_config_def ApplyProfile_def apply_named_def set_policies_def n)
qed

lemma env_mode_ignored:
  assumes "envOr env ''ZEUS_CLIENT_URL'' (envOr env ''ZEUS_URL'' []) \<noteq> []" and "applyEnv pf cfg env = Inr c"
  shows "ep_auth_mode (rc_zeus c) = ep_auth_mode (rc_zeus cfg)"
  using assms by (auto simp: applyEnv_def env_zeus_def Let_def env_config_def dest!: ApplyProfile_zeus)

subsection \<open>The profile\<close>

definition canonical_profile :: "string \<Rightarrow> string" where
  "canonical_profile n = (if n = ''dev'' then ''development'' else if n = ''prod'' then ''production'' else n)"

lemma ApplyProfile_canonical:
  "ApplyProfile cfg p = Inr c \<Longrightarrow> rc_profile c = canonical_profile (profile_name p)"
  by (auto simp: ApplyProfile_def apply_named_def Let_def canonical_profile_def split: if_splits option.splits)

lemma apply_canonical: "apply_named cfg (canonical_profile n) = apply_named cfg n"
proof -
  have "apply_named cfg ''development'' = apply_named cfg ''dev''" by (simp add: apply_named_def)
  moreover have "apply_named cfg ''production'' = apply_named cfg ''prod''" by (simp add: apply_named_def)
  ultimately show ?thesis by (simp add: canonical_profile_def)
qed

lemma ApplyProfile_own:
  assumes "ApplyProfile cfg p = Inr c" and "rc_profile c \<in> set Profiles"
  shows "ApplyProfile c (rc_profile c) = Inr c"
proof -
  have "list_all (\<lambda>n. canonical_profile (profile_name n) = n) Profiles" by code_simp
  then have "canonical_profile (profile_name (rc_profile c)) = canonical_profile (profile_name p)"
    using assms(2) ApplyProfile_canonical [OF assms(1)] by (simp add: list_all_iff)
  with ApplyProfile_idem [OF assms(1)] show ?thesis by (metis ApplyProfile_def apply_canonical)
qed

text \<open>An empty variable of the environment turns a production configuration into a development one, and the
  environment wins over the profile asked for.\<close>

lemma env_profile_wins:
  assumes "map_of env ''ZEUS_CLIENT_PROFILE'' = Some v" and "profile_name v = ''development''"
    and "applyEnv pf cfg env = Inr c"
  shows "rc_profile c = ''development'' \<and> dbg_capture_bodies (rc_debug c)"
  using assms by (auto simp: applyEnv_def Let_def env_config_def envOr_def ApplyProfile_def apply_named_def split: sum.splits)

lemma empty_profile_is_development: "profile_name [] = ''development''"
  by code_simp

subsection \<open>The empty environment\<close>

lemma rstripSlash_idem [simp]: "rstripSlash (rstripSlash s) = rstripSlash s"
  by (simp add: rstripSlash_def)

definition plain_url :: "RuntimeConfig \<Rightarrow> bool" where
  "plain_url c \<longleftrightarrow> rstripSlash (lp_base_url (rc_llm c)) = lp_base_url (rc_llm c)"

lemma plain_default: "plain_url DefaultConfig"
  unfolding plain_url_def DefaultConfig_def by code_simp

lemma plain_mapped: "plain_url (mapped_config pf data prof m)"
  unfolding plain_url_def mapped_config_def parse_llm_def Let_def by simp

lemma plain_pins: "plain_url base \<Longrightarrow> plain_url (overlayPins pf base data)"
  unfolding plain_url_def overlayPins_def pin_llm_def Let_def by simp

lemma FromMapping_profile:
  assumes "FromMapping pf m p = Inr c"
  obtains cfg q where "ApplyProfile cfg q = Inr c" and "plain_url cfg"
  using assms plain_default plain_mapped plain_pins
  by (fastforce simp: FromMapping_def fromRuntimeMapping_def Let_def split: if_splits)

lemma valid_mode_lower: "validAuthMode m \<Longrightarrow> to_lower m = m"
proof -
  have "to_lower ''none'' = ''none''" "to_lower ''basic'' = ''basic''" "to_lower ''bearer'' = ''bearer''"
    "to_lower ''session'' = ''session''" "to_lower ''certificate'' = ''certificate''" by code_simp+
  then show "validAuthMode m \<Longrightarrow> to_lower m = m" by (auto simp: validAuthMode_def AuthNone_def)
qed

text \<open>
  C33. The empty environment changes nothing: for a known profile and a valid authentication mode, the second
  pass of Load over the configuration of the mapping gives that configuration back.
\<close>
theorem empty_env_neutral:
  assumes "FromMapping pf m p = Inr c" and "rc_profile c \<in> set Profiles" and "validAuthMode (ep_auth_mode (rc_zeus c))"
  shows "applyEnv pf c [] = Inr c"
proof -
  have z: "env_zeus pf [] (rc_zeus c) = Inr (rc_zeus c)"
    using assms(3) by (simp add: env_zeus_def Let_def envOr_def envBool_def or_default_def valid_mode_lower)
  obtain cfg q where q: "ApplyProfile cfg q = Inr c" "plain_url cfg" by (rule FromMapping_profile [OF assms(1)])
  then have "rstripSlash (lp_base_url (rc_llm c)) = lp_base_url (rc_llm c)"
    using ApplyProfile_zeus [OF q(1)] by (simp add: plain_url_def)
  then have e: "env_config pf [] (rc_zeus c) c = c"
    by (simp add: env_config_def envOr_def env_target_def env_llm_def env_settings_def env_logging_def env_debug_def
      envBool_def envHas_def or_default_def)
  from ApplyProfile_own [OF q(1) assms(2)] show ?thesis by (simp add: applyEnv_def z e)
qed

lemma default_mapping: "FromMapping pf None ''ci'' = ApplyProfile (mapped_config pf [] ''ci'' AuthNone) ''ci''"
proof -
  have "to_lower AuthNone = AuthNone" by (rule valid_mode_lower) (simp add: validAuthMode_def)
  moreover have "ep_auth_mode (rc_zeus DefaultConfig) = AuthNone" by (simp add: DefaultConfig_def)
  ultimately show ?thesis
    by (simp add: FromMapping_def isPinsMapping_def fromRuntimeMapping_def Let_def childMap_def cfg_map_def mget_def
      cfg_str_def validAuthMode_def mapping_url_nonempty or_default_def)
qed

lemma empty_env_neutral_witness:
  "case FromMapping (\<lambda>_. None) None ''ci'' of Inl e \<Rightarrow> False
   | Inr c \<Rightarrow> rc_profile c = ''ci'' \<and> applyEnv (\<lambda>_. None) c [] = Inr c"
proof -
  let ?pf = "\<lambda>_. None"
  let ?c = "withAIProcessResult False (set_policies ''ci'' 4096 False False (mapped_config ?pf [] ''ci'' AuthNone))"
  have n: "profile_name ''ci'' = ''ci''" by code_simp
  have f: "FromMapping ?pf None ''ci'' = Inr ?c"
    unfolding default_mapping ApplyProfile_def apply_named_def Let_def n by simp
  have "ep_auth_mode (rc_zeus ?c) = AuthNone" by (simp add: mapped_config_def parse_zeus_def Let_def)
  then show ?thesis using empty_env_neutral [OF f] by (simp add: f Profiles_def validAuthMode_def)
qed

end
