(* ===== verification/Units.thy ===== *)
theory Units
  imports Config_Models Data_Verb Catalog_Api Jobs_Domain
begin

text \<open>
  The isolated units of a job (src/application/units.go, units_agent.go, units_direct.go,
  units_transport.go): an agent turn or a direct verb call that runs on the slice of configuration of its
  unit, with the Zeus port patched by the unit's endpoint.

  The environment extends that of a turn: the event ids, whether a journal is wired, the context error a
  domain error wraps (errors.Is over its causes) and whether a recovered panic value is an error. The world
  after a panic is not known. The port calls of a turn are those that reach the inner port.
\<close>

section \<open>Options\<close>

record 's unit_env = "'s turn_env" +
  ue_event_id :: "'s \<Rightarrow> string \<times> 's"
  ue_journal :: bool
  ue_wraps :: "zerror \<Rightarrow> ctx_error option"
  ue_panic_error :: "string \<Rightarrow> bool"

record 's UnitRunOpts =
  uo_job_id :: string
  uo_wave :: int
  uo_plan_epoch :: int
  uo_job_models :: gmap
  uo_config :: RuntimeConfig
  uo_llm :: "'s llm_port option"
  uo_zeus :: "'s zeus_port option"
  uo_catalog :: "(ctx_error option \<Rightarrow> CatalogKey \<Rightarrow> string + CatalogDocument) option"
  uo_version :: string
  uo_llm_for_slice :: "(ResolvedLlmSlice \<Rightarrow> 's llm_port option) option"
  uo_fetch :: "fetch option"
  uo_middleware :: "MiddlewareChain option"
  uo_process_env :: "string amap"

definition appendUnitEvent :: "('s, 'z) unit_env_scheme \<Rightarrow> string \<Rightarrow> string \<Rightarrow> string \<Rightarrow> string \<Rightarrow> gmap \<Rightarrow> 's \<Rightarrow> 's" where
  "appendUnitEvent env etype component jobID unitID data s =
     (if \<not> ue_journal env then s
      else (let payload = amap_put ''unit_id'' (GStr unitID) (amap_put ''job_id'' (GStr jobID) (cloneDoc (te_codec env) data));
                (eid, s1) = ue_event_id env s
        in te_append env \<lparr>jv_event_id = eid, jv_ts_ms = te_now_ms env s1, jv_type = etype, jv_component = component,
             jv_turn_id = unitID, jv_span_id = [], jv_parent_span_id = [], jv_data = payload, jv_payload_refs = []\<rparr> s1))"

definition unitStatusFromCtx :: "ctx_error option \<Rightarrow> string option" where
  "unitStatusFromCtx c = (case c of None \<Rightarrow> None | Some Canceled \<Rightarrow> Some UnitStatusCancelled
     | Some DeadlineExceeded \<Rightarrow> Some UnitStatusTimeout)"

definition err_ctx :: "('s, 'z) unit_env_scheme \<Rightarrow> call_error \<Rightarrow> ctx_error option" where
  "err_ctx env err = (case err of CallCtx c \<Rightarrow> Some c | CallDomain e \<Rightarrow> ue_wraps env e | CallOther t \<Rightarrow> None)"

definition code_status :: "Code \<Rightarrow> string" where
  "code_status c = (if c = CodeCancelled then UnitStatusCancelled
     else if c = CodeContextDeadline then UnitStatusTimeout else UnitStatusError)"

definition unitStatusFromErr :: "('s, 'z) unit_env_scheme \<Rightarrow> call_error \<Rightarrow> (string \<times> string) option" where
  "unitStatusFromErr env err = (case err_ctx env err of
     Some Canceled \<Rightarrow> Some (UnitStatusCancelled, code_string CodeCancelled)
   | Some DeadlineExceeded \<Rightarrow> Some (UnitStatusTimeout, code_string CodeContextDeadline)
   | None \<Rightarrow> (case err of CallDomain e \<Rightarrow> Some (code_status (ze_code e), code_string (ze_code e)) | _ \<Rightarrow> None))"

definition unit_result :: "UnitConfig \<Rightarrow> int \<Rightarrow> string \<Rightarrow> string \<Rightarrow> UnitResult" where
  "unit_result unit epoch status code = \<lparr>ur_unit_id = uc_unit_id unit, ur_status = status, ur_answer = [],
     ur_req_ids = [], ur_artifacts = [], ur_error_code = code, ur_dead_end = False, ur_plan_epoch = epoch\<rparr>"

definition cancelledUnit :: "UnitConfig \<Rightarrow> int \<Rightarrow> UnitResult" where
  "cancelledUnit unit epoch = unit_result unit epoch UnitStatusCancelled []"

definition fmtPanic :: "('s, 'z) unit_env_scheme \<Rightarrow> string \<Rightarrow> string" where
  "fmtPanic env rec = (if ue_panic_error env rec then rec else ''panic'')"

definition recoverUnit :: "('s, 'z) unit_env_scheme \<Rightarrow> UnitConfig \<Rightarrow> int \<Rightarrow> string \<Rightarrow> UnitResult" where
  "recoverUnit env unit epoch rec = (unit_result unit epoch UnitStatusError (code_string CodeInternalBug))
     \<lparr>ur_artifacts := [(''panic'', GStr (fmtPanic env rec))]\<rparr>"

section \<open>Transport\<close>

definition SameZeusHost :: "string \<Rightarrow> string \<Rightarrow> bool" where
  "SameZeusHost unitURL processURL =
     (let left = trim_right_set {CHR ''/''} unitURL; right = trim_right_set {CHR ''/''} processURL
      in if left = [] \<or> right = [] then True else left = right)"

record VerbOverrides =
  vo_base_url :: string
  vo_auth_mode :: string
  vo_password_env :: string
  vo_token_env :: string
  vo_username :: string

definition UnitVerbOverrides :: "UnitConfig \<Rightarrow> VerbOverrides" where
  "UnitVerbOverrides unit = \<lparr>vo_base_url = uc_zeus_url unit, vo_auth_mode = uc_auth_mode unit,
     vo_password_env = uc_password_env unit, vo_token_env = uc_token_env unit, vo_username = uc_username unit\<rparr>"

definition PatchVerbRequest :: "VerbRequest \<Rightarrow> UnitConfig \<Rightarrow> VerbRequest" where
  "PatchVerbRequest req unit = (let over = UnitVerbOverrides unit in req
     \<lparr>vr_base_url := or_list (vo_base_url over) (vr_base_url req),
      vr_auth_mode := or_list (vo_auth_mode over) (vr_auth_mode req),
      vr_password_env := or_list (vo_password_env over) (vr_password_env req),
      vr_token_env := or_list (vo_token_env over) (vr_token_env req),
      vr_username := or_list (vo_username over) (vr_username req)\<rparr>)"

definition UnitScopedZeusPort :: "UnitConfig \<Rightarrow> 's zeus_port \<Rightarrow> 's zeus_port" where
  "UnitScopedZeusPort unit inner = (\<lambda>req s. inner (PatchVerbRequest req unit) s)"

fun scoped_call :: "UnitConfig \<Rightarrow> port_call \<Rightarrow> port_call" where
  "scoped_call unit (LlmCall rq) = LlmCall rq"
| "scoped_call unit (VerbCall vr) = VerbCall (PatchVerbRequest vr unit)"

definition unitDataTarget :: "UnitConfig \<Rightarrow> DataTarget" where
  "unitDataTarget unit = \<lparr>dt_bucket = uc_bucket unit, dt_scope = uc_scope unit, dt_collection = uc_collection unit\<rparr>"

section \<open>The agent unit\<close>

definition unitsAgentComponent :: string where "unitsAgentComponent = ''application.units_agent''"

definition chatRequestText :: "(rat \<Rightarrow> string) \<Rightarrow> gmap option \<Rightarrow> string" where
  "chatRequestText ff cr = (case cr of
     None \<Rightarrow> []
   | Some d \<Rightarrow> (case mget d ''messages'' of GArr (GObj m # ms) \<Rightarrow> app_str ff (mget m ''content'') | _ \<Rightarrow> []) @
       (case mget d ''instructions'' of GObj instr \<Rightarrow> app_str ff (mget instr ''system_prompt'') | _ \<Rightarrow> []))"

definition hasRequiredInject :: "(rat \<Rightarrow> string) \<Rightarrow> gmap option \<Rightarrow> bool" where
  "hasRequiredInject ff chatRequest \<longleftrightarrow> ExtractScopeBrief chatRequest \<noteq> [] \<or>
     str_contains (chatRequestText ff chatRequest) ''## MINI-SCHEMA''"

definition unit_mode :: "UnitConfig \<Rightarrow> 's UnitRunOpts \<Rightarrow> string" where
  "unit_mode unit opts = or_list (uc_catalog_mode unit) (stg_mode (rc_settings (uo_config opts)))"

definition loadUnitCatalog :: "codec \<Rightarrow> ctx_error option \<Rightarrow> UnitConfig \<Rightarrow> 's UnitRunOpts \<Rightarrow> zerror + gmap option" where
  "loadUnitCatalog codec ctx unit opts = (case uo_catalog opts of
     None \<Rightarrow> Inl (NewJob CodeUnitsCatalogMissing unitsAgentComponent [])
   | Some load \<Rightarrow> (case load ctx \<lparr>ck_Mode = unit_mode unit opts, ck_Bucket = uc_bucket unit, ck_Scope = uc_scope unit,
         ck_BaseID = uc_base_id unit\<rparr> of
       Inl err \<Rightarrow> Inl (NewJob CodeUnitsCatalogMissing unitsAgentComponent [WithCause err])
     | Inr doc \<Rightarrow> Inr (cloneAnyMap codec (cd_Body doc))))"

definition unit_chat_request :: "codec \<Rightarrow> ctx_error option \<Rightarrow> UnitConfig \<Rightarrow> 's UnitRunOpts \<Rightarrow> zerror + gmap option" where
  "unit_chat_request codec ctx unit opts = (case uc_chat_request unit of
     Some m \<Rightarrow> Inr (cloneAnyMap codec (Some m)) | None \<Rightarrow> loadUnitCatalog codec ctx unit opts)"

definition inject_missing :: zerror where
  "inject_missing = NewJob CodeUnitsInjectMissing unitsAgentComponent []"

definition unit_inject :: "codec \<Rightarrow> (rat \<Rightarrow> string) \<Rightarrow> UnitConfig \<Rightarrow> 's UnitRunOpts \<Rightarrow> gmap option \<Rightarrow> zerror + gmap option" where
  "unit_inject codec ff unit opts chatRequest =
     (if hasRequiredInject ff chatRequest then Inr chatRequest
      else if uc_zeus_url unit \<noteq> [] \<and> \<not> SameZeusHost (uc_zeus_url unit) (ep_url (rc_zeus (uo_config opts)))
      then Inl inject_missing
      else (let body = sb_Body (EnsureScopeBrief codec chatRequest (uo_fetch opts) (uc_bucket unit) (uc_scope unit)
                  (unit_mode unit opts))
        in if hasRequiredInject ff body then Inr body else Inl inject_missing))"

definition unit_slice :: "UnitConfig \<Rightarrow> 's UnitRunOpts \<Rightarrow> ResolvedLlmSlice" where
  "unit_slice unit opts = ResolveLlmSlice (rc_llm (uo_config opts))
     \<lparr>rz_role = ''worker'', rz_jobs = Some (rc_jobs (uo_config opts)), rz_job_models = uo_job_models opts,
      rz_unit_llm = uc_llm unit, rz_unit_id = uc_unit_id unit\<rparr>"

definition unit_settings :: "UnitConfig \<Rightarrow> 's UnitRunOpts \<Rightarrow> ClientSettings" where
  "unit_settings unit opts = (let s = rc_settings (uo_config opts) in s
     \<lparr>stg_durable_sessions := False, stg_mode := unit_mode unit opts,
      stg_max_rounds := (if 0 < uc_max_rounds unit then uc_max_rounds unit else stg_max_rounds s)\<rparr>)"

definition unit_llm :: "UnitConfig \<Rightarrow> 's UnitRunOpts \<Rightarrow> 's llm_port option" where
  "unit_llm unit opts = (case uo_llm_for_slice opts of
     None \<Rightarrow> uo_llm opts
   | Some f \<Rightarrow> (case f (unit_slice unit opts) of Some next_llm \<Rightarrow> Some next_llm | None \<Rightarrow> uo_llm opts))"

definition unit_session :: "UnitConfig \<Rightarrow> SessionHandle option" where
  "unit_session unit = (if uc_share_session_id unit \<noteq> []
     then Some (zeroHandle\<lparr>sh_session_id := uc_share_session_id unit, sh_enabled := True\<rparr>) else None)"

definition unit_request :: "UnitConfig \<Rightarrow> 's UnitRunOpts \<Rightarrow> gmap option \<Rightarrow> TurnRequest" where
  "unit_request unit opts chatRequest =
     \<lparr>tq_message = uc_goal unit, tq_target = unitDataTarget unit, tq_settings = unit_settings unit opts,
      tq_session = unit_session unit, tq_prior_messages = [], tq_system_prompt = [], tq_tools = [],
      tq_chat_request = (case chatRequest of None \<Rightarrow> [] | Some m \<Rightarrow> m), tq_base_id = uc_base_id unit,
      tq_pack_schema = None, tq_chat_id = or_list (uo_job_id opts) (uc_unit_id unit),
      tq_model = rs_model (unit_slice unit opts)\<rparr>"

definition unit_turn_opts :: "UnitConfig \<Rightarrow> 's UnitRunOpts \<Rightarrow> 's RunAgentTurnOpts" where
  "unit_turn_opts unit opts =
     \<lparr>ro_llm = unit_llm unit opts, ro_zeus = map_option (UnitScopedZeusPort unit) (uo_zeus opts),
      ro_middleware = uo_middleware opts, ro_default_settings = unit_settings unit opts,
      ro_debug_policy = DebugPolicy.truncate (rc_debug (uo_config opts)), ro_zeus_url = uc_zeus_url unit,
      ro_client_floor = rc_client_floor (uo_config opts), ro_extra_notes = [], ro_client_ip = [],
      ro_version = uo_version opts, ro_stamp_user = rc_user (uo_config opts), ro_env = uo_process_env opts\<rparr>"

definition usageHasBilling :: "gmap \<Rightarrow> bool" where
  "usageHasBilling usage \<longleftrightarrow> mget usage ''ok'' = GBool True \<or> tokenAsInt (mget usage ''prompt'') \<noteq> 0 \<or>
     tokenAsInt (mget usage ''completion'') \<noteq> 0 \<or> tokenAsInt (mget usage ''total'') \<noteq> 0"

definition last_req :: "string list \<Rightarrow> gval" where
  "last_req ids = (case rev ids of [] \<Rightarrow> GNil | r # rs \<Rightarrow> GStr r)"

definition agent_artifacts :: "TurnResult \<Rightarrow> gmap" where
  "agent_artifacts r = (let sid = (case tr_session r of
         Some h \<Rightarrow> (if sh_session_id h \<noteq> [] then GStr (sh_session_id h) else GNil) | None \<Rightarrow> GNil);
       usage = db_tokens (tr_debug r)
     in [(''session_id'', sid)] @
        (if usageHasBilling usage then [(''usage'', GObj (map (\<lambda>(k, v). (k, v)) usage))] else []))"

text \<open>The end of a unit: its result, the world (unknown after a panic) and the calls that reached the ports.\<close>

record 's unit_end =
  en_result :: "zerror + UnitResult"
  en_world :: "'s option"
  en_calls :: "port_call list"

definition agent_event :: "('s, 'z) unit_env_scheme \<Rightarrow> UnitConfig \<Rightarrow> 's UnitRunOpts \<Rightarrow> string \<Rightarrow> gmap \<Rightarrow> 's \<Rightarrow> 's" where
  "agent_event env unit opts etype extra = appendUnitEvent env etype unitsAgentComponent (uo_job_id opts) (uc_unit_id unit)
     ([(''wave'', GInt (uo_wave opts)), (''plan_epoch'', GInt (uo_plan_epoch opts))] @ extra)"

definition failed_code :: "('s, 'z) unit_env_scheme \<Rightarrow> zerror \<Rightarrow> string \<times> string" where
  "failed_code env e = (case unitStatusFromErr env (CallDomain e) of
     Some (st, code) \<Rightarrow> (st, code)
   | None \<Rightarrow> (UnitStatusError, or_list (code_string (ze_code e)) (code_string CodeAgentTurnFailed)))"

definition end_agent :: "('s, 'z) unit_env_scheme \<Rightarrow> UnitConfig \<Rightarrow> 's UnitRunOpts \<Rightarrow> 's turn_end \<Rightarrow> 's unit_end" where
  "end_agent env unit opts t = (case t of
     TurnPanic v cs \<Rightarrow> \<lparr>en_result = Inr (recoverUnit env unit (uo_plan_epoch opts) v), en_world = None,
       en_calls = map (scoped_call unit) cs\<rparr>
   | Returned r s cs \<Rightarrow> (case tr_err r of
       Some e \<Rightarrow> (let (st, code) = failed_code env e in
         \<lparr>en_result = Inr (unit_result unit (uo_plan_epoch opts) st code),
          en_world = Some (agent_event env unit opts EventUnitFinished [(''status'', GStr st)] s),
          en_calls = map (scoped_call unit) cs\<rparr>)
     | None \<Rightarrow> (let reqIDs = db_req_ids (tr_debug r) in
         \<lparr>en_result = Inr ((unit_result unit (uo_plan_epoch opts) UnitStatusOK [])
            \<lparr>ur_answer := tr_answer r, ur_req_ids := reqIDs, ur_artifacts := agent_artifacts r\<rparr>),
          en_world = Some (agent_event env unit opts EventUnitFinished
            [(''status'', GStr UnitStatusOK), (''req_id'', last_req reqIDs)] s),
          en_calls = map (scoped_call unit) cs\<rparr>)))"

definition early_end :: "'s \<Rightarrow> zerror + UnitResult \<Rightarrow> 's unit_end" where
  "early_end s r = \<lparr>en_result = r, en_world = Some s, en_calls = []\<rparr>"

definition run_agent :: "('s, 'z) unit_env_scheme \<Rightarrow> UnitConfig \<Rightarrow> 's UnitRunOpts \<Rightarrow> gmap option \<Rightarrow> 's \<Rightarrow> 's unit_end" where
  "run_agent env unit opts chatRequest s =
     (let slice = unit_slice unit opts;
          s1 = agent_event env unit opts EventUnitStarted [(''llm.role'', GStr (rs_role slice)),
            (''llm.model'', GStr (rs_model slice)), (''api_key_env'', GStr (rs_api_key_env slice))] s
      in end_agent env unit opts (RunAgentTurn env (unit_turn_opts unit opts) (unit_request unit opts chatRequest) s1))"

definition RunAgentUnit :: "('s, 'z) unit_env_scheme \<Rightarrow> UnitConfig \<Rightarrow> 's UnitRunOpts \<Rightarrow> 's \<Rightarrow> 's unit_end" where
  "RunAgentUnit env unit opts s = (case ValidateUnitMap [unit] of
     Some e \<Rightarrow> early_end s (Inl e)
   | None \<Rightarrow> (if uc_kind unit \<noteq> UnitKindAgentTurn
       then early_end s (Inl (NewJob CodeJobsInvalidUnitMap unitsAgentComponent []))
       else (case unitStatusFromCtx (te_ctx env s) of
         Some st \<Rightarrow> early_end s (Inr (unit_result unit (uo_plan_epoch opts) st []))
       | None \<Rightarrow> (case unit_chat_request (te_codec env) (te_ctx env s) unit opts of
           Inl e \<Rightarrow> early_end s (Inl e)
         | Inr loaded \<Rightarrow> (case unit_inject (te_codec env) (te_ff env) unit opts loaded of
             Inl e \<Rightarrow> early_end s (Inl e)
           | Inr chatRequest \<Rightarrow> run_agent env unit opts chatRequest s)))))"

section \<open>The direct unit\<close>

definition unitsDirectComponent :: string where "unitsDirectComponent = ''application.units_direct''"

definition direct_options :: "UnitConfig \<Rightarrow> 's UnitRunOpts \<Rightarrow> DataVerbOptions" where
  "direct_options unit opts = (let over = UnitVerbOverrides unit; c = uo_config opts in
     \<lparr>dvo_target = unitDataTarget unit, dvo_mode_header = trim_space (stg_mode (rc_settings c)), dvo_headers = [],
      dvo_force_trace = stg_force_trace (rc_settings c), dvo_rewind = dbg_rewind (rc_debug c),
      dvo_chat_id = or_list (uo_job_id opts) (uc_unit_id unit), dvo_turn_id = uc_unit_id unit, dvo_chat_session_id = [],
      dvo_brief_sha12 = [], dvo_mini_sha12 = [], dvo_base_url = vo_base_url over, dvo_auth_mode = vo_auth_mode over,
      dvo_password_env = vo_password_env over, dvo_token_env = vo_token_env over, dvo_username = vo_username over\<rparr>)"

definition direct_call :: "(rat \<Rightarrow> string) \<Rightarrow> UnitConfig \<Rightarrow> (string \<times> gmap) option" where
  "direct_call ff unit = (let verb = trim_space (app_str ff (mget (uc_call unit) ''verb'')) in
     if verb = [] then None
     else (case mget (uc_call unit) ''body'' of GNil \<Rightarrow> Some (verb, []) | GObj m \<Rightarrow> Some (verb, m) | _ \<Rightarrow> None))"

definition direct_event :: "('s, 'z) unit_env_scheme \<Rightarrow> UnitConfig \<Rightarrow> 's UnitRunOpts \<Rightarrow> string \<Rightarrow> string \<Rightarrow> gmap \<Rightarrow> 's \<Rightarrow> 's" where
  "direct_event env unit opts etype verb extra =
     appendUnitEvent env etype unitsDirectComponent (uo_job_id opts) (uc_unit_id unit)
       ([(''wave'', GInt (uo_wave opts)), (''plan_epoch'', GInt (uo_plan_epoch opts)), (''verb'', GStr verb)] @ extra)"

definition direct_failed :: "('s, 'z) unit_env_scheme \<Rightarrow> call_error \<Rightarrow> string \<times> string" where
  "direct_failed env err = (let code = (case err of CallDomain e \<Rightarrow> code_string (ze_code e) | _ \<Rightarrow> code_string CodeZeusTransport)
     in case unitStatusFromErr env err of
          Some (st, c) \<Rightarrow> (if st = UnitStatusCancelled \<or> st = UnitStatusTimeout then (st, c) else (UnitStatusError, code))
        | None \<Rightarrow> (UnitStatusError, code))"

definition direct_result :: "codec \<Rightarrow> UnitConfig \<Rightarrow> int \<Rightarrow> VerbResult \<Rightarrow> UnitResult" where
  "direct_result codec unit epoch v =
     (let reqIDs = (if vres_req_ids v = [] \<and> vres_req_id v \<noteq> [] then [vres_req_id v] else vres_req_ids v);
          (status, code) = (if vres_ok v then (UnitStatusOK, [])
            else (UnitStatusError, or_list (vres_error v) (code_string CodeZeusHTTP4xx)))
      in (unit_result unit epoch status code)
         \<lparr>ur_req_ids := reqIDs, ur_artifacts := [(''body'', GObj (cloneDoc codec (vres_body v)))]\<rparr>)"

definition RunDirectUnit :: "('s, 'z) unit_env_scheme \<Rightarrow> UnitConfig \<Rightarrow> 's UnitRunOpts \<Rightarrow> 's \<Rightarrow> (zerror + UnitResult) \<times> 's" where
  "RunDirectUnit env unit opts s = (case ValidateUnitMap [unit] of
     Some e \<Rightarrow> (Inl e, s)
   | None \<Rightarrow> (if uc_kind unit \<noteq> UnitKindZeusDirect then (Inl (NewJob CodeJobsInvalidUnitMap unitsDirectComponent []), s)
     else (case unitStatusFromCtx (te_ctx env s) of
       Some st \<Rightarrow> (Inr (unit_result unit (uo_plan_epoch opts) st []), s)
     | None \<Rightarrow> (case direct_call (te_ff env) unit of
         None \<Rightarrow> (Inl (NewJob CodeJobsInvalidUnitMap unitsDirectComponent []), s)
       | Some (verb, body) \<Rightarrow>
          (let s1 = direct_event env unit opts EventUnitStarted verb [] s;
               (ans, s2) = RunDataVerb (te_ctx env s1) (uo_zeus opts) verb body (direct_options unit opts) s1
           in case ans of
             Inl err \<Rightarrow> (let (st, code) = direct_failed env err in
               (Inr (unit_result unit (uo_plan_epoch opts) st code),
                direct_event env unit opts EventUnitFinished verb [(''status'', GStr st)] s2))
           | Inr v \<Rightarrow> (let r = direct_result (te_codec env) unit (uo_plan_epoch opts) v in
               (Inr r, direct_event env unit opts EventUnitFinished verb
                 [(''status'', GStr (ur_status r)), (''req_id'', last_req (ur_req_ids r))] s2)))))))"

section \<open>Facts\<close>

lemma one_unit: "ValidateUnitMap [u] = check_unit [] [] u"
  by (simp add: ValidateUnitMap_def split: option.split)

definition unit_codes :: "Code set" where
  "unit_codes = {CodeJobsInvalidUnitMap, CodeNotImplemented, CodeUnitsCatalogMissing, CodeUnitsIsolation,
     CodeUnitsInjectMissing}"

lemma check_unit_codes: "check_unit seen sessions u = Some e \<Longrightarrow> ze_code e \<in> unit_codes"
  using check_unit_code [of seen sessions u e] by (auto simp: unit_codes_def)

lemma unit_request_codes:
  "unit_chat_request codec ctx unit opts = Inl e \<Longrightarrow> ze_code e \<in> unit_codes"
  "unit_inject codec ff unit opts cr = Inl e \<Longrightarrow> ze_code e \<in> unit_codes"
  by (auto simp: unit_chat_request_def loadUnitCatalog_def unit_inject_def inject_missing_def unit_codes_def Let_def
    NewFamily_simps split: option.splits sum.splits if_splits)

lemma unit_result_simps [simp]:
  "ur_unit_id (unit_result u n st c) = uc_unit_id u" "ur_plan_epoch (unit_result u n st c) = n"
  "ur_status (unit_result u n st c) = st" "ur_error_code (unit_result u n st c) = c"
  "ur_answer (unit_result u n st c) = []"
  by (simp_all add: unit_result_def)

lemma status_of_err:
  "unitStatusFromErr env err = Some (st, c) \<Longrightarrow> st \<in> {UnitStatusError, UnitStatusCancelled, UnitStatusTimeout}"
  by (auto simp: unitStatusFromErr_def code_status_def split: option.splits ctx_error.splits call_error.splits if_splits)

lemma failed_code_status: "fst (failed_code env e) \<in> {UnitStatusError, UnitStatusCancelled, UnitStatusTimeout}"
  using status_of_err [of env "CallDomain e"] by (auto simp: failed_code_def split: option.split prod.split)

lemma direct_failed_status: "fst (direct_failed env e) \<in> {UnitStatusError, UnitStatusCancelled, UnitStatusTimeout}"
  by (auto simp: direct_failed_def Let_def split: option.split prod.split)

lemma status_from_ctx: "unitStatusFromCtx c = Some st \<Longrightarrow> st \<in> {UnitStatusCancelled, UnitStatusTimeout}"
  by (auto simp: unitStatusFromCtx_def split: option.splits ctx_error.splits)

text \<open>What the result of a unit satisfies.\<close>

definition honest_result :: "UnitConfig \<Rightarrow> int \<Rightarrow> UnitResult \<Rightarrow> bool" where
  "honest_result unit epoch r \<longleftrightarrow> ur_unit_id r = uc_unit_id unit \<and> ur_plan_epoch r = epoch \<and>
     ur_status r \<in> {UnitStatusOK, UnitStatusError, UnitStatusCancelled, UnitStatusTimeout} \<and>
     (if ur_status r = UnitStatusOK then ur_error_code r = [] else ur_answer r = [])"

lemma end_agent_honest:
  "\<exists>r. en_result (end_agent env unit opts t) = Inr r \<and> honest_result unit (uo_plan_epoch opts) r"
proof (cases t)
  case (Returned r s cs)
  show ?thesis
  proof (cases "tr_err r")
    case None
    then show ?thesis by (simp add: Returned end_agent_def honest_result_def Let_def)
  next
    case (Some e)
    then show ?thesis using Returned failed_code_status [of env e]
      by (auto simp: end_agent_def honest_result_def split_beta)
  qed
qed (simp add: end_agent_def honest_result_def recoverUnit_def)

text \<open>The runs of an agent unit: an early end, or the turn.\<close>

lemma RunAgentUnit_cases:
  obtains (refused) e where "RunAgentUnit env unit opts s = early_end s (Inl e)" and "ze_code e \<in> unit_codes"
  | (late) st where "RunAgentUnit env unit opts s = early_end s (Inr (unit_result unit (uo_plan_epoch opts) st []))"
      and "st \<in> {UnitStatusCancelled, UnitStatusTimeout}"
  | (turn) loaded cr where "check_unit [] [] unit = None" and "te_ctx env s = None"
      and "unit_chat_request (te_codec env) None unit opts = Inr loaded"
      and "unit_inject (te_codec env) (te_ff env) unit opts loaded = Inr cr"
      and "RunAgentUnit env unit opts s = run_agent env unit opts cr s"
proof (cases "check_unit [] [] unit")
  case (Some e)
  then show ?thesis using refused check_unit_codes by (auto simp: RunAgentUnit_def one_unit)
next
  case v: None
  show ?thesis
  proof (cases "uc_kind unit = UnitKindAgentTurn")
    case False
    then show ?thesis using refused v by (simp add: RunAgentUnit_def one_unit unit_codes_def NewFamily_simps)
  next
    case k: True
    show ?thesis
    proof (cases "unitStatusFromCtx (te_ctx env s)")
      case (Some st)
      then show ?thesis using late v k status_from_ctx [OF Some] by (simp add: RunAgentUnit_def one_unit)
    next
      case None
      then have c: "te_ctx env s = None" by (auto simp: unitStatusFromCtx_def split: option.splits ctx_error.splits)
      show ?thesis
      proof (cases "unit_chat_request (te_codec env) None unit opts")
        case (Inl e)
        with unit_request_codes(1) have "ze_code e \<in> unit_codes" .
        then show ?thesis using Inl refused v k None c by (simp add: RunAgentUnit_def one_unit)
      next
        case l: (Inr loaded)
        show ?thesis
        proof (cases "unit_inject (te_codec env) (te_ff env) unit opts loaded")
          case (Inl e)
          with unit_request_codes(2) have "ze_code e \<in> unit_codes" .
          then show ?thesis using Inl refused v k None c l by (simp add: RunAgentUnit_def one_unit)
        next
          case (Inr cr)
          then show ?thesis using turn v k None c l by (simp add: RunAgentUnit_def one_unit)
        qed
      qed
    qed
  qed
qed


subsection \<open>Isolation\<close>

definition unit_catalog :: "('s, 'z) unit_env_scheme \<Rightarrow> UnitConfig \<Rightarrow> 's UnitRunOpts \<Rightarrow> bool amap" where
  "unit_catalog env unit opts = (case unit_chat_request (te_codec env) None unit opts of
     Inl e \<Rightarrow> []
   | Inr loaded \<Rightarrow> (case unit_inject (te_codec env) (te_ff env) unit opts loaded of
       Inl e \<Rightarrow> [] | Inr cr \<Rightarrow> turn_catalog env (unit_turn_opts unit opts) (unit_request unit opts cr)))"

definition own_endpoint :: "UnitConfig \<Rightarrow> port_call \<Rightarrow> bool" where
  "own_endpoint unit pc \<longleftrightarrow> (case pc of LlmCall rq \<Rightarrow> True
     | VerbCall vr \<Rightarrow> vr_base_url vr = uc_zeus_url unit \<and> vr_auth_mode vr = or_list (uc_auth_mode unit) (vr_auth_mode vr) \<and>
         vr_password_env vr = or_list (uc_password_env unit) (vr_password_env vr) \<and>
         vr_token_env vr = or_list (uc_token_env unit) (vr_token_env vr) \<and>
         vr_username vr = or_list (uc_username unit) (vr_username vr))"

lemma or_list_idem [simp]: "or_list a (or_list a b) = or_list a b"
  by (simp add: or_list_def)

lemma scoped_own: "uc_zeus_url unit \<noteq> [] \<Longrightarrow> own_endpoint unit (scoped_call unit pc)"
  by (cases pc) (simp_all add: own_endpoint_def PatchVerbRequest_def UnitVerbOverrides_def Let_def or_list_def)

lemma scoped_catalog: "catalog_call cat (scoped_call unit pc) \<longleftrightarrow> catalog_call cat pc"
  by (cases pc) (simp_all add: catalog_call_def PatchVerbRequest_def Let_def)

lemma end_agent_calls: "en_calls (end_agent env unit opts t) = map (scoped_call unit) (calls_of t)"
  by (cases t) (auto simp: end_agent_def Let_def split: option.split prod.split)


definition demo_unit :: UnitConfig where
  "demo_unit = \<lparr>uc_unit_id = ''u1'', uc_kind = UnitKindAgentTurn, uc_goal = ''hi'', uc_zeus_url = ''http://z'',
     uc_bucket = ''b'', uc_scope = ''s'', uc_collection = ''c'', uc_auth_mode = ''basic'', uc_password_env = ''PW'',
     uc_token_env = [], uc_username = ''ann'', uc_catalog_mode = [], uc_base_id = [],
     uc_chat_request = Some [(''instructions'', GObj [(''system_prompt'', GStr ''## MINI-SCHEMA'')]),
       (''tools'', GArr [GObj [(''name'', GStr ''find'')]])],
     uc_llm = [], uc_call = [], uc_share_session_id = [], uc_max_rounds = 2\<rparr>"

definition demo_unit_env :: "nat unit_env" where
  "demo_unit_env = turn_env.extend Agent_Turn.demo_env (unit_env.fields (\<lambda>s. (''e'', s)) True (\<lambda>e. None) (\<lambda>v. False))"

definition demo_unit_opts :: "nat UnitRunOpts" where
  "demo_unit_opts = \<lparr>uo_job_id = ''j'', uo_wave = 1, uo_plan_epoch = 1, uo_job_models = [], uo_config = DefaultConfig,
     uo_llm = ro_llm Agent_Turn.demo_opts, uo_zeus = ro_zeus Agent_Turn.demo_opts, uo_catalog = None, uo_version = ''1'',
     uo_llm_for_slice = None, uo_fetch = None, uo_middleware = None, uo_process_env = []\<rparr>"


lemma direct_result_honest: "honest_result unit n (direct_result codec unit n v)"
  by (simp add: honest_result_def direct_result_def Let_def)

lemma direct_failed_honest:
  "honest_result unit n (unit_result unit n (fst (direct_failed env e)) (snd (direct_failed env e)))"
  using direct_failed_status [of env e] by (auto simp: honest_result_def)

lemma late_honest: "unitStatusFromCtx c = Some st \<Longrightarrow> honest_result unit n (unit_result unit n st [])"
  using status_from_ctx [of c st] by (auto simp: honest_result_def)

text \<open>
  A direct unit that cannot run fails with one of five codes and leaves the world alone; any other has a
  result with its own id and plan epoch, without an error code exactly when it is ok.
\<close>
theorem direct_unit_outcome:
  "case RunDirectUnit env unit opts s of
     (Inl e, s') \<Rightarrow> ze_code e \<in> unit_codes \<and> s' = s
   | (Inr r, s') \<Rightarrow> honest_result unit (uo_plan_epoch opts) r"
proof (cases "check_unit [] [] unit")
  case (Some e)
  then show ?thesis using check_unit_codes [OF Some] by (simp add: RunDirectUnit_def one_unit)
next
  case v: None
  have j: "ze_code (NewJob CodeJobsInvalidUnitMap unitsDirectComponent []) \<in> unit_codes"
    by (simp add: unit_codes_def NewFamily_simps)
  show ?thesis
  proof (cases "unitStatusFromCtx (te_ctx env s)")
    case (Some st)
    then show ?thesis using late_honest [OF Some] j by (simp add: RunDirectUnit_def one_unit v)
  next
    case c: None
    show ?thesis
    proof (cases "direct_call (te_ff env) unit")
      case None
      then show ?thesis using j by (simp add: RunDirectUnit_def one_unit v c)
    next
      case (Some vb)
      then show ?thesis using j
        by (cases vb) (simp add: RunDirectUnit_def one_unit v c Let_def split_beta direct_result_honest
          direct_failed_honest split: sum.split)
    qed
  qed
qed

end
