(* ===== verification/Spec2Isabelle.thy ===== *)
theory Spec2Isabelle
  imports Policy Jobs_Fake Jobs_MA Jobs_Http Llm_Client Httpx Zeus_Api Llm_Classify Middleware Session_Trace Agent_Turn Data_Verb Catalog_Api Config_Load Units
begin

text \<open>
  Zeus client for Go: a verification library of the client's core logic.

  \<^bold>\<open>The program.\<close> The client talks to a Zeus data server and to an LLM on behalf of an agent. Its
  packages are: \<^verbatim>\<open>domain\<close> (pure logic: codes and errors, contract hashes, rules, the return payload
  called Layer A, policy decisions, jobs, the execution journal, failure classes, prompt injection),
  \<^verbatim>\<open>security\<close> (redaction and input hooks), \<^verbatim>\<open>application\<close> (the durable session lifecycle and the
  agent turn), \<^verbatim>\<open>adapters\<close> (HTTP clients for Zeus, job runtimes), \<^verbatim>\<open>config\<close>, \<^verbatim>\<open>ports\<close> (the interfaces
  between them), \<^verbatim>\<open>api\<close> and the root package (facades), \<^verbatim>\<open>observability\<close> and \<^verbatim>\<open>conformance\<close>.
  An agent turn asks the lifecycle for a session handle, sends verbs through the verb port, whose
  headers come from the auth resolver and the stamps, writes each hop into the journal, checks the
  model's return payload as Layer A, decides a policy from it and commits the turn to the session.

  \<^bold>\<open>Conventions.\<close> A Go struct is a record, a string is a list of bytes (\<^typ>\<open>char list\<close>), a Go map is an
  association list with distinct keys, so that iteration order is visible and theorems quantify over
  it. JSON-shaped \<^verbatim>\<open>any\<close> values are the datatype \<^verbatim>\<open>gval\<close> of Go_Values; a float is an exact rational
  (NaN, infinities and rounding are not modelled). A Go \<^verbatim>\<open>(value, error)\<close> result is a sum or a pair
  with an option. A Go \<^verbatim>\<open>int\<close> is \<^verbatim>\<open>int\<close>, wrapped to 64 bits by \<^verbatim>\<open>wrap64\<close> where the code adds to
  values it does not bound. A mutable object is a record that its methods return updated. Everything outside the
  repository (SHA-256 and MD5, the HTTP transport, the clock, fresh identifiers, the JSON codec, float
  printing) is a parameter; a theorem that needs a law of it states the law as a hypothesis.
  Nil receivers, contexts passed as nil and the log callbacks are not modelled.

  \<^bold>\<open>Theories, in dependency order.\<close>
  \<^item> Zeus_Prelude: Go's string functions on bytes (trimming, searching, splitting, case folding with
    UTF-8 decoding), association lists, 64-bit wrap-around, and the lemmas the components share.
  \<^item> Go_Values: dynamic values and the helpers of \<^verbatim>\<open>domain/layer_a.go\<close>, \<^verbatim>\<open>contract.go\<close>, \<^verbatim>\<open>tool_trail.go\<close>.
  \<^item> Go_Regexp: a backtracking leftmost-first matcher for the patterns the code compiles; fuel is the
    length of the subject, which every repetition consumes from, so it is always enough.
  \<^item> Error_Codes: \<^verbatim>\<open>domain/codes.go\<close>, \<^verbatim>\<open>errors.go\<close>.
  \<^item> Redact: \<^verbatim>\<open>security/redact.go\<close>, \<^verbatim>\<open>attrs.go\<close>; the locale \<^verbatim>\<open>redactor\<close> states what a redactor
    promises and is interpreted by the default one.
  \<^item> Layer_A, Layer_A_Text: \<^verbatim>\<open>domain/layer_a.go\<close>, parsing and validation of the return payload, and the
    recovery of user-facing text from model output that leaks the envelope.
  \<^item> Rules, Policy: \<^verbatim>\<open>domain/rules.go\<close>, \<^verbatim>\<open>policy.go\<close>, \<^verbatim>\<open>result.go\<close>: merging of rule packs, the forced
    decisions and the views a user, an admin and a trace get.
  \<^item> Contract: \<^verbatim>\<open>domain/contract.go\<close>: what is hashed, stamps, and the healing of drifted stamps.
  \<^item> Stamps: \<^verbatim>\<open>domain/stamps.go\<close>, \<^verbatim>\<open>ids.go\<close>, \<^verbatim>\<open>floor.go\<close>, \<^verbatim>\<open>session.go\<close> and the header merge of
    \<^verbatim>\<open>adapters/zeushttp/headers.go\<close>.
  \<^item> Session: \<^verbatim>\<open>application/session_lifecycle.go\<close> over the interface \<^verbatim>\<open>session_hops\<close>.
  \<^item> Zeus_Auth, Session_Client, Zeus_Verbs: \<^verbatim>\<open>adapters/zeushttp\<close>: credentials and the session cache, the
    four session hops (which interpret \<^verbatim>\<open>session_hops\<close>), and the verb port with its journal.
  \<^item> Journal: \<^verbatim>\<open>domain/journal\<close>: events, payload store (locale \<^verbatim>\<open>payload_store\<close>), spans, exports.
  \<^item> Llm_Classify: \<^verbatim>\<open>domain/llm_classify.go\<close>: failure classes and the retry budget.
  \<^item> Inject: \<^verbatim>\<open>domain/tool_trail.go\<close>, \<^verbatim>\<open>inject.go\<close>: the tool trail and the proof of what was injected.
  \<^item> Jobs_Domain, Jobs_Fake: \<^verbatim>\<open>domain/jobs.go\<close>, \<^verbatim>\<open>ports/jobs.go\<close> (the locale \<^verbatim>\<open>jobs_port\<close>) and the
    in-process runtime, whose concurrent callers are a step relation on its critical sections.
  \<^item> Jailbreak: \<^verbatim>\<open>security/jailbreak.go\<close>: the pattern table over the regular expressions of Go_Regexp,
    the decoded variants of a text and the score.
  \<^item> Middleware: \<^verbatim>\<open>application/middleware.go\<close>: the hook chain with its isolation of panics and the
    security hooks, which interpret the locale \<^verbatim>\<open>guarded_chain\<close>.
  \<^item> Session_Trace: \<^verbatim>\<open>application/projectors/session_trace.go\<close>: the aggregate of a round and its posts.
  \<^item> Control_Plane: \<^verbatim>\<open>application/control_plane_inject.go\<close> and the settings of \<^verbatim>\<open>config/models.go\<close>.
  \<^item> Tokens: \<^verbatim>\<open>application/tokens.go\<close>, \<^verbatim>\<open>projectors/public_trace.go\<close>: token sums, the public trace.
  \<^item> Turn_Tools, Agent_Turn: \<^verbatim>\<open>application/agent_turn.go\<close>: the settings of a turn, the tool round, the
    rounds between the model and Zeus, the policy on the answer and the result. The model, the Zeus port,
    the journal, the log, the clock and the id factory are functions on a world; the ghost field of the
    calls sent records what reached the two ports. The locale \<^verbatim>\<open>closed_catalog\<close> states what a hook chain
    must promise and is interpreted by the default chain.
  \<^item> Data_Verb: \<^verbatim>\<open>application/data_verb.go\<close>: direct verb calls.
  \<^item> Config_Models, Config_Load: \<^verbatim>\<open>config/\<close>: the configuration, profiles, snapshots, model slices of
    roles; the coercions, pins, the mapping, the environment overlay, Load and the binding in \<^verbatim>\<open>client.go\<close>.
  \<^item> Units: \<^verbatim>\<open>application/units*.go\<close>: agent and direct units over Agent_Turn and Data_Verb with the
    patched Zeus port.
  \<^item> Jobs_MA: \<^verbatim>\<open>adapters/jobsma\<close>: the runtime over the external engine, whose runs interleave with
    events, Cancel and Close; it interprets the locale \<^verbatim>\<open>jobs_port\<close> like Jobs_Fake.
  \<^item> Go_Filepath: \<^verbatim>\<open>path/filepath\<close> on Unix and the answers of the file system.
  \<^item> Mini_Schema, Catalog_Names, Catalog: \<^verbatim>\<open>domain/mini_schema.go\<close>, \<^verbatim>\<open>catalog.go\<close>, \<^verbatim>\<open>pack_schema.go\<close>: the
    MINI-SCHEMA parser, file names and their way back, lineage, resolving, briefs and listings.
  \<^item> Catalog_Store: \<^verbatim>\<open>adapters/catalogfs/store.go\<close> behind the locale \<^verbatim>\<open>catalog_store\<close>, interpreted for
    every file system; Catalog_Api: \<^verbatim>\<open>application/catalog_brief.go\<close> and \<^verbatim>\<open>api/catalog.go\<close>, whose loads are
    the steps of an inductive reachability relation.
  \<^item> Llm_Client: \<^verbatim>\<open>adapters/llmopenai\<close>: completions with retries under the budget; the fuel of the loop is the
    number of attempts plus one, which the budget never exceeds. Httpx: \<^verbatim>\<open>internal/httpx\<close>.
  \<^item> Typeahead: \<^verbatim>\<open>application/typeahead.go\<close>: one search and the merge of its hits.
    Observability: \<^verbatim>\<open>observability\<close>: token buckets, metrics, the records of the logger. Zeus_Api:
    \<^verbatim>\<open>api/zeus.go\<close>, the data facade over the three.
  \<^item> Jobs_Http: \<^verbatim>\<open>adapters/jobshttp\<close>: events on the wire, the SSE stream, the handler and the runtime
    that watches over HTTP; its round trip composes the handler of any runtime with the remote watch.

  \<^bold>\<open>What the lemmas show.\<close> Policy and rules: exactly when a decision is forced, that no admin-only field
  reaches a user view, that a request cannot clear a jailbreak rule. Sessions: the id of a handle is
  always one the server gave, a round advances exactly once, a dead session is recovered by one create
  in the same call. Authentication: headers carry a live or freshly minted session, a session is reused
  while it is fresh, logs and errors do not depend on secrets. Verbs: what can be sent and that a call
  never loops on 401. Contract: the digest is invariant under map order and excluded keys, healing never
  forges a stamp. Jobs: a cancelled job stays cancelled under every interleaving, the event log is gap
  free, the sequential run refines the step relation. Redaction and exports: nothing the redactor knows
  survives, and nothing else changes.
  Hooks: exactly when a turn is refused by its texts, that base64 does not hide a pattern, that no hook
  lowers a score or lifts a refusal, that a hostile tool body never reaches the model. Traces: every
  request id is posted once, the primary last, and every post is accounted for. Injection: splicing the
  settings twice is splicing them once.
  Agent turn: a turn ends after a bounded number of calls, sends only verbs of its catalog, makes no call
  for a refused message, shows no free text of the model when refused, answers each of the first eight
  tool calls of a round, and lists one hop per verb it sent.
  Catalogs: file names round trip, a file is found only in the locked directories and in their order, what
  is saved is found first, loading fails closed with a known code, merging a brief keeps the contract
  hash, a listing has unique rows, and no load passes below the floor or loses its base id, memo included.
  Configuration: whatever the file and the environment hold, Load fails with a known code or gives a checked
  configuration, an empty environment changes nothing, a later role slice wins. Units: a unit sends to its
  own endpoint only and always returns a result.  Typeahead reaches Zeus no more often than its rate limit allows. A completion always returns, within its
  budget of requests, and only its requests depend on the key. Watching a job over HTTP shows the events of
  the runtime on the other side. The engine runtime: what a snapshot says is true of the run
  behind it, and a cancellation is never taken back.

  \<^bold>\<open>Not modelled.\<close> Facades that only forward (\<^verbatim>\<open>api\<close>, the root package), the
  detective,
  the slog output, examples and the conformance runner; they are listed as
  components with the reason in the manifest. Goroutines appear only where the code's correctness
  depends on interleaving (the job runtimes); every other method runs under its mutex and is atomic.
\<close>

end
